(* ===== verification/Prelude.thy ===== *)
theory Prelude
  imports Main
begin

text \<open>
  Shared vocabulary of the development: fallible results as sums, stateful fallible operations
  as functions from a state to a result and a new state, the transaction combinator of the
  storage layer, and the collections of facts the component theories feed to the simplifier.

  \<^item> A Rust \<open>Result<T, E>\<close> is the sum \<open>'e + 'a\<close>, \<open>Inl\<close> the error and \<open>Inr\<close> the value;
    \<open>?\<close> is \<open>rbind\<close>.
  \<^item> A method on \<open>&mut self\<close> that may fail is an \<open>op\<close>: \<open>'s \<Rightarrow> ('e + 'a) \<times> 's\<close>.
    \<open>bind_op\<close> runs two of them in order and stops at the first error, keeping whatever the
    first one did to the state; \<open>transaction\<close> restores the state when its body fails.
  \<^item> A Rust \<open>String\<close> is a HOL \<open>string\<close>, the list of its UTF-8 bytes.
\<close>

named_theorems op_iff "inversion of operations that returned a given result"
named_theorems op_eval "evaluation of operation combinators"

section \<open>Results\<close>

definition rbind :: "'e + 'a \<Rightarrow> ('a \<Rightarrow> 'e + 'b) \<Rightarrow> 'e + 'b" where
  "rbind r f = (case r of Inl e \<Rightarrow> Inl e | Inr v \<Rightarrow> f v)"

definition ok_or :: "'a option \<Rightarrow> 'e \<Rightarrow> 'e + 'a" where
  "ok_or x e = (case x of None \<Rightarrow> Inl e | Some v \<Rightarrow> Inr v)"

definition guard_r :: "bool \<Rightarrow> 'e \<Rightarrow> 'e + unit" where
  "guard_r b e = (if b then Inr () else Inl e)"

definition opt_filter :: "('a \<Rightarrow> bool) \<Rightarrow> 'a option \<Rightarrow> 'a option" where
  "opt_filter p x = (case x of None \<Rightarrow> None | Some v \<Rightarrow> if p v then Some v else None)"

definition is_err :: "'e + 'a \<Rightarrow> bool" where
  "is_err r = (case r of Inl _ \<Rightarrow> True | Inr _ \<Rightarrow> False)"

lemma rbind_simps [simp, op_eval]:
  "rbind (Inl e) f = Inl e"
  "rbind (Inr v) f = f v"
  by (simp_all add: rbind_def)

lemma rbind_eq_Inr [op_iff]: "rbind r f = Inr w \<longleftrightarrow> (\<exists>v. r = Inr v \<and> f v = Inr w)"
  by (cases r) simp_all

lemma rbind_eq_Inl [op_iff]:
  "rbind r f = Inl e \<longleftrightarrow> r = Inl e \<or> (\<exists>v. r = Inr v \<and> f v = Inl e)"
  by (cases r) simp_all

lemma ok_or_simps [simp, op_eval]: "ok_or None e = Inl e" "ok_or (Some v) e = Inr v"
  by (simp_all add: ok_or_def)

lemma ok_or_eq_Inr [op_iff]: "ok_or x e = Inr v \<longleftrightarrow> x = Some v"
  by (cases x) simp_all

lemma ok_or_eq_Inl [op_iff]: "ok_or x e = Inl e' \<longleftrightarrow> x = None \<and> e' = e"
  by (cases x) auto

lemma guard_r_simps [simp, op_eval]: "guard_r True e = Inr ()" "guard_r False e = Inl e"
  by (simp_all add: guard_r_def)

lemma guard_r_eq_Inr [op_iff]: "guard_r b e = Inr u \<longleftrightarrow> b"
  by (simp add: guard_r_def)

lemma guard_r_eq_Inl [op_iff]: "guard_r b e = Inl e' \<longleftrightarrow> \<not> b \<and> e' = e"
  by (auto simp: guard_r_def)

lemma opt_filter_simps [simp, op_eval]:
  "opt_filter p None = None"
  "opt_filter p (Some v) = (if p v then Some v else None)"
  by (simp_all add: opt_filter_def)

lemma opt_filter_eq_Some [op_iff]: "opt_filter p x = Some v \<longleftrightarrow> x = Some v \<and> p v"
  by (cases x) auto

lemma opt_filter_eq_None [op_iff]: "opt_filter p x = None \<longleftrightarrow> (\<forall>v. x = Some v \<longrightarrow> \<not> p v)"
  by (cases x) auto

lemma is_err_simps [simp, op_eval]: "is_err (Inl e) = True" "is_err (Inr v) = False"
  by (simp_all add: is_err_def)

text \<open>\<open>collect::<Result<Vec<_>>>\<close>: the values in order, or the first error.\<close>

fun collect_results :: "('e + 'a) list \<Rightarrow> 'e + 'a list" where
  "collect_results [] = Inr []"
| "collect_results (r # rs) = rbind r (\<lambda>v. rbind (collect_results rs) (\<lambda>vs. Inr (v # vs)))"

lemma collect_results_Inr: "collect_results (map Inr vs) = Inr vs"
  by (induction vs) simp_all

lemma collect_results_eq_Inr: "collect_results rs = Inr vs \<longleftrightarrow> rs = map Inr vs"
  by (induction rs arbitrary: vs) (auto simp: op_iff map_eq_Cons_conv Cons_eq_map_conv)

text \<open>
  \<open>returns Q r\<close>: whatever the fallible computation returns satisfies \<open>Q\<close>. Its rules follow the
  combinators, so a long pipeline is walked to the step that establishes \<open>Q\<close> without inverting it.
\<close>

definition returns :: "('a \<Rightarrow> bool) \<Rightarrow> 'e + 'a \<Rightarrow> bool" where
  "returns Q r \<longleftrightarrow> (\<forall>v. r = Inr v \<longrightarrow> Q v)"

lemma returnsD: "returns Q r \<Longrightarrow> r = Inr v \<Longrightarrow> Q v"
  by (simp add: returns_def)

lemma returns_Inl [simp, intro]: "returns Q (Inl e)"
  by (simp add: returns_def)

lemma returns_Inr [simp]: "returns Q (Inr v) \<longleftrightarrow> Q v"
  by (simp add: returns_def)

lemma returns_bind: "(\<And>v. r = Inr v \<Longrightarrow> returns Q (f v)) \<Longrightarrow> returns Q (rbind r f)"
  by (cases r) simp_all

lemma returns_if: "(b \<Longrightarrow> returns Q r) \<Longrightarrow> (\<not> b \<Longrightarrow> returns Q r') \<Longrightarrow> returns Q (if b then r else r')"
  by simp

lemma returns_case_prod: "(\<And>a b. p = (a, b) \<Longrightarrow> returns Q (f a b)) \<Longrightarrow> returns Q (case p of (a, b) \<Rightarrow> f a b)"
  by (cases p) simp

lemmas returns_intros = returns_bind returns_if returns_case_prod returns_Inl

section \<open>Stateful fallible operations\<close>

type_synonym ('s, 'e, 'a) op = "'s \<Rightarrow> ('e + 'a) \<times> 's"

definition return_op :: "'a \<Rightarrow> ('s, 'e, 'a) op" where
  "return_op v s = (Inr v, s)"

definition fail_op :: "'e \<Rightarrow> ('s, 'e, 'a) op" where
  "fail_op e s = (Inl e, s)"

definition read_op :: "('s \<Rightarrow> 'e + 'a) \<Rightarrow> ('s, 'e, 'a) op" where
  "read_op f s = (f s, s)"

definition lift_op :: "'e + 'a \<Rightarrow> ('s, 'e, 'a) op" where
  "lift_op r s = (r, s)"

definition bind_op :: "('s, 'e, 'a) op \<Rightarrow> ('a \<Rightarrow> ('s, 'e, 'b) op) \<Rightarrow> ('s, 'e, 'b) op" where
  "bind_op m f s = (case m s of (Inl e, s') \<Rightarrow> (Inl e, s') | (Inr v, s') \<Rightarrow> f v s')"

definition transaction :: "('s, 'e, 'a) op \<Rightarrow> ('s, 'e, 'a) op" where
  "transaction m s = (case m s of (Inl e, s') \<Rightarrow> (Inl e, s) | (Inr v, s') \<Rightarrow> (Inr v, s'))"

fun for_each_op :: "('a \<Rightarrow> ('s, 'e, unit) op) \<Rightarrow> 'a list \<Rightarrow> ('s, 'e, unit) op" where
  "for_each_op f [] = return_op ()"
| "for_each_op f (x # xs) = bind_op (f x) (\<lambda>_. for_each_op f xs)"

lemma op_simps [simp, op_eval]:
  "return_op v s = (Inr v, s)"
  "fail_op e s = (Inl e, s)"
  "read_op f s = (f s, s)"
  "lift_op r s = (r, s)"
  by (simp_all add: return_op_def fail_op_def read_op_def lift_op_def)

lemma bind_op_Inl [simp, op_eval]: "m s = (Inl e, s') \<Longrightarrow> bind_op m f s = (Inl e, s')"
  by (simp add: bind_op_def)

lemma bind_op_Inr [simp, op_eval]: "m s = (Inr v, s') \<Longrightarrow> bind_op m f s = f v s'"
  by (simp add: bind_op_def)

lemma bind_op_eq_Inr [op_iff]:
  "bind_op m f s = (Inr w, s') \<longleftrightarrow> (\<exists>v t. m s = (Inr v, t) \<and> f v t = (Inr w, s'))"
  by (auto simp: bind_op_def split: prod.splits sum.splits)

lemma bind_op_eq_Inl [op_iff]:
  "bind_op m f s = (Inl e, s') \<longleftrightarrow>
     m s = (Inl e, s') \<or> (\<exists>v t. m s = (Inr v, t) \<and> f v t = (Inl e, s'))"
  by (auto simp: bind_op_def split: prod.splits sum.splits)

lemma transaction_eq_Inr [op_iff]: "transaction m s = (Inr v, s') \<longleftrightarrow> m s = (Inr v, s')"
  by (auto simp: transaction_def split: prod.splits sum.splits)

lemma transaction_eq_Inl [op_iff]:
  "transaction m s = (Inl e, s') \<longleftrightarrow> s' = s \<and> (\<exists>t. m s = (Inl e, t))"
  by (auto simp: transaction_def split: prod.splits sum.splits)

lemma transaction_Inr [op_eval]: "m s = (Inr v, s') \<Longrightarrow> transaction m s = (Inr v, s')"
  by (simp add: transaction_def)

lemma transaction_Inl [op_eval]: "m s = (Inl e, s') \<Longrightarrow> transaction m s = (Inl e, s)"
  by (simp add: transaction_def)

lemma choice_Inr [op_iff]:
  "(if c then fail_op e else m) t = (Inr w, t') \<longleftrightarrow> \<not> c \<and> m t = (Inr w, t')"
  by auto

lemma transaction_rollback: "fst (transaction m s) = Inl e \<Longrightarrow> snd (transaction m s) = s"
  by (auto simp: transaction_def split: prod.splits sum.splits)

lemma transaction_fst: "fst (transaction m s) = fst (m s)"
  by (auto simp: transaction_def split: prod.splits sum.splits)

text \<open>
  An operation keeps a predicate when every run of it, failing or not, leads from a state with
  the predicate to a state with it. The rules follow the combinators.
\<close>

definition keeps :: "('s \<Rightarrow> bool) \<Rightarrow> ('s, 'e, 'a) op \<Rightarrow> bool" where
  "keeps P m \<longleftrightarrow> (\<forall>s. P s \<longrightarrow> P (snd (m s)))"

lemma keepsI: "(\<And>s r s'. P s \<Longrightarrow> m s = (r, s') \<Longrightarrow> P s') \<Longrightarrow> keeps P m"
  unfolding keeps_def by (metis prod.collapse)

lemma keepsD: "keeps P m \<Longrightarrow> P s \<Longrightarrow> m s = (r, s') \<Longrightarrow> P s'"
  unfolding keeps_def by (metis snd_conv)

lemma keeps_return [intro]: "keeps P (return_op v)"
  by (simp add: keeps_def)

lemma keeps_fail [intro]: "keeps P (fail_op e)"
  by (simp add: keeps_def)

lemma keeps_read [intro]: "keeps P (read_op f)"
  by (simp add: keeps_def)

lemma keeps_lift [intro]: "keeps P (lift_op r)"
  by (simp add: keeps_def)

lemma keeps_bind [intro]:
  assumes "keeps P m" and "\<And>v. keeps P (f v)"
  shows "keeps P (bind_op m f)"
proof (rule keepsI)
  fix s r s'
  assume P: "P s" and run: "bind_op m f s = (r, s')"
  obtain q t where q: "m s = (q, t)" by (cases "m s")
  from keepsD [OF assms(1) P q] have t: "P t" .
  show "P s'"
  proof (cases q)
    case (Inl e)
    with q run t show ?thesis by (simp add: bind_op_def)
  next
    case (Inr v)
    with q run have "f v t = (r, s')" by (simp add: bind_op_def)
    with keepsD [OF assms(2) t] show ?thesis by blast
  qed
qed

lemma keeps_transaction [intro]: "keeps P m \<Longrightarrow> keeps P (transaction m)"
  unfolding keeps_def transaction_def
  by (auto split: prod.splits sum.splits)

lemma keeps_for_each [intro]: "(\<And>x. keeps P (f x)) \<Longrightarrow> keeps P (for_each_op f xs)"
  by (induction xs) (auto intro!: keeps_return keeps_bind)

lemma keeps_if [intro]: "keeps P m \<Longrightarrow> keeps P n \<Longrightarrow> keeps P (if b then m else n)"
  by simp

section \<open>64-bit integers\<close>

text \<open>
  An \<open>i64\<close> or \<open>u64\<close> is the integer it holds; the arithmetic that can leave the range is written with
  the checked and saturating operations of the code.
\<close>

definition i64_ok :: "int \<Rightarrow> bool" where
  "i64_ok n \<longleftrightarrow> - (2 ^ 63) \<le> n \<and> n < 2 ^ 63"

definition checked_i64 :: "int \<Rightarrow> int option" where
  "checked_i64 n = (if i64_ok n then Some n else None)"

definition saturate_i64 :: "int \<Rightarrow> int" where
  "saturate_i64 n = max (- (2 ^ 63)) (min (2 ^ 63 - 1) n)"

lemma checked_i64_eq_Some [op_iff]: "checked_i64 n = Some m \<longleftrightarrow> i64_ok n \<and> m = n"
  by (auto simp: checked_i64_def)

lemma checked_i64_ok [simp]: "i64_ok n \<Longrightarrow> checked_i64 n = Some n"
  by (simp add: checked_i64_def)

lemma saturate_i64_ok [simp]: "i64_ok n \<Longrightarrow> saturate_i64 n = n"
  by (auto simp: saturate_i64_def i64_ok_def)

lemma i64_saturate [simp]: "i64_ok (saturate_i64 n)"
  by (auto simp: saturate_i64_def i64_ok_def)

section \<open>Rows of a table\<close>

text \<open>
  A table is the list of its rows in insertion order. \<open>find_row\<close> is a query on a key that takes
  the first match, \<open>update_rows\<close> the \<open>UPDATE .. WHERE\<close> that rewrites each matching row and
  leaves the others in place.
\<close>

definition find_row :: "('a \<Rightarrow> bool) \<Rightarrow> 'a list \<Rightarrow> 'a option" where
  "find_row p rows = List.find p rows"

definition update_rows :: "('a \<Rightarrow> bool) \<Rightarrow> ('a \<Rightarrow> 'a) \<Rightarrow> 'a list \<Rightarrow> 'a list" where
  "update_rows p f rows = map (\<lambda>r. if p r then f r else r) rows"

definition count_rows :: "('a \<Rightarrow> bool) \<Rightarrow> 'a list \<Rightarrow> nat" where
  "count_rows p rows = length (filter p rows)"

lemma find_row_simps [simp]:
  "find_row p [] = None"
  "find_row p (r # rs) = (if p r then Some r else find_row p rs)"
  by (simp_all add: find_row_def)

lemma find_row_SomeD: "find_row p rows = Some r \<Longrightarrow> r \<in> set rows \<and> p r"
  by (induction rows) (auto split: if_splits)

lemma find_row_None_iff: "find_row p rows = None \<longleftrightarrow> (\<forall>r \<in> set rows. \<not> p r)"
  by (induction rows) auto

lemma find_row_append:
  "find_row p (xs @ ys) = (case find_row p xs of None \<Rightarrow> find_row p ys | Some r \<Rightarrow> Some r)"
  by (induction xs) auto

lemma find_row_update:
  assumes "\<And>r. p (if q r then f r else r) = p r"
  shows "find_row p (update_rows q f rows) =
    map_option (\<lambda>r. if q r then f r else r) (find_row p rows)"
  using assms by (induction rows) (auto simp: update_rows_def)

lemma update_rows_simps [simp]:
  "update_rows p f [] = []"
  "update_rows p f (r # rs) = (if p r then f r else r) # update_rows p f rs"
  by (simp_all add: update_rows_def)

lemma length_update_rows [simp]: "length (update_rows p f rows) = length rows"
  by (simp add: update_rows_def)

lemma map_key_update_rows:
  "(\<And>r. p r \<Longrightarrow> key (f r) = key r) \<Longrightarrow> map key (update_rows p f rows) = map key rows"
  by (induction rows) auto

lemma set_update_rows:
  "r \<in> set (update_rows p f rows) \<Longrightarrow> \<exists>q \<in> set rows. r = (if p q then f q else q)"
  unfolding update_rows_def by auto

lemma update_rows_set: "set (update_rows p f rows) = (\<lambda>r. if p r then f r else r) ` set rows"
  by (simp add: update_rows_def)

lemma update_rows_hit: "r \<in> set rows \<Longrightarrow> p r \<Longrightarrow> f r \<in> set (update_rows p f rows)"
  by (auto simp: update_rows_set)

lemma update_rows_miss: "r \<in> set rows \<Longrightarrow> \<not> p r \<Longrightarrow> r \<in> set (update_rows p f rows)"
  by (force simp: update_rows_set)

lemma update_rows_cong: "(\<And>r. r \<in> set rows \<Longrightarrow> \<not> p r) \<Longrightarrow> update_rows p f rows = rows"
  by (induction rows) auto

end
