(* ===== verification/Kernel_Failure.thy ===== *)
theory Kernel_Failure
  imports Prelude
begin

text \<open>
  The failure type of every fallible function of the program (\<open>kernel/src/failure.rs\<close>): an error
  code, a message and optional per-field messages. \<open>failure_new\<close> is \<open>Failure::new\<close>, and
  \<open>failure_field\<close> is \<open>Failure::field\<close>, which moves the message under a field name. The map of field
  errors is the list of its entries.
\<close>

datatype error_code =
    Invalid
  | Unauthorized
  | Forbidden
  | Missing
  | Conflict
  | Limit
  | NativeError
  | Unavailable
  | StaleRevision
  | NameCollision
  | Capacity
  | RateLimit
  | BodyTooLarge
  | MethodNotAllowed

fun error_code_as_str :: "error_code \<Rightarrow> string" where
  "error_code_as_str Invalid = ''invalid''"
| "error_code_as_str Unauthorized = ''unauthorized''"
| "error_code_as_str Forbidden = ''forbidden''"
| "error_code_as_str Missing = ''missing''"
| "error_code_as_str Conflict = ''conflict''"
| "error_code_as_str Limit = ''limit''"
| "error_code_as_str NativeError = ''native''"
| "error_code_as_str Unavailable = ''unavailable''"
| "error_code_as_str StaleRevision = ''stale_revision''"
| "error_code_as_str NameCollision = ''name_collision''"
| "error_code_as_str Capacity = ''capacity''"
| "error_code_as_str RateLimit = ''rate_limit''"
| "error_code_as_str BodyTooLarge = ''body_too_large''"
| "error_code_as_str MethodNotAllowed = ''method_not_allowed''"

record failure =
  failure_code :: error_code
  failure_message :: string
  failure_field_errors :: "(string \<times> string) list option"

type_synonym 'a result = "failure + 'a"

definition failure_new :: "error_code \<Rightarrow> string \<Rightarrow> failure" where
  "failure_new c m = \<lparr>failure_code = c, failure_message = m, failure_field_errors = None\<rparr>"

definition failure_field :: "failure \<Rightarrow> string \<Rightarrow> failure" where
  "failure_field f name = f\<lparr>
     failure_message := name @ '': '' @ failure_message f,
     failure_field_errors := Some [(name, failure_message f)]\<rparr>"

definition failure_display :: "failure \<Rightarrow> string" where
  "failure_display f = failure_message f"

lemma failure_new_simps [simp]:
  "failure_code (failure_new c m) = c"
  "failure_message (failure_new c m) = m"
  "failure_field_errors (failure_new c m) = None"
  by (simp_all add: failure_new_def)

lemma failure_new_eq_iff [simp]: "failure_new c m = failure_new c' m' \<longleftrightarrow> c = c' \<and> m = m'"
  by (auto simp: failure_new_def)

lemma error_code_as_str_inj: "error_code_as_str a = error_code_as_str b \<longleftrightarrow> a = b"
  by (cases a; cases b) simp_all

lemma failure_field_code [simp]: "failure_code (failure_field f n) = failure_code f"
  by (simp add: failure_field_def)

end
