(* ===== verification/Kernel_Text.thy ===== *)
theory Kernel_Text
  imports Kernel_Failure "HOL-Library.Word"
begin

text \<open>
  Strings and byte buffers of the kernel crate. A Rust string is its list of UTF-8 bytes;
  \<open>chars\<close> decodes it to Unicode scalar values as \<open>str::chars\<close> does, and \<open>rust_str\<close> is the
  type invariant of \<open>str\<close> (the bytes are the encoding of some scalar values).

  Modelled: \<open>kernel/src/text.rs\<close> (whitespace, truncate_utf16, truncate_utf8),
  \<open>kernel/src/identifier.rs\<close> (opaque), \<open>kernel/src/history_context.rs\<close> (for_room, room,
  valid) and \<open>kernel/src/bytes.rs\<close> (Buffer, Count).
\<close>

section \<open>UTF-8 strings\<close>

definition byte :: "char \<Rightarrow> nat" where
  "byte c = of_char c"

definition scalar_value :: "nat \<Rightarrow> bool" where
  "scalar_value c \<longleftrightarrow> c < 0xD800 \<or> (0xE000 \<le> c \<and> c < 0x110000)"

definition len_utf8 :: "nat \<Rightarrow> nat" where
  "len_utf8 c = (if c < 0x80 then 1 else if c < 0x800 then 2 else if c < 0x10000 then 3 else 4)"

definition len_utf16 :: "nat \<Rightarrow> nat" where
  "len_utf16 c = (if c < 0x10000 then 1 else 2)"

definition encode_char :: "nat \<Rightarrow> string" where
  "encode_char c =
     (if c < 0x80 then [char_of c]
      else if c < 0x800 then [char_of (0xC0 + c div 64), char_of (0x80 + c mod 64)]
      else if c < 0x10000 then
        [char_of (0xE0 + c div 4096), char_of (0x80 + c div 64 mod 64), char_of (0x80 + c mod 64)]
      else
        [char_of (0xF0 + c div 262144), char_of (0x80 + c div 4096 mod 64),
         char_of (0x80 + c div 64 mod 64), char_of (0x80 + c mod 64)])"

definition encode_str :: "nat list \<Rightarrow> string" where
  "encode_str cs = concat (map encode_char cs)"

definition tail_bits :: "string \<Rightarrow> nat" where
  "tail_bits bs = foldl (\<lambda>a b. a * 64 + (byte b - 0x80)) 0 bs"

fun chars :: "string \<Rightarrow> nat list" where
  "chars [] = []"
| "chars (b # bs) =
     (if byte b < 0x80 then byte b # chars bs
      else if byte b < 0xE0 then
        ((byte b - 0xC0) * 64 + tail_bits (take 1 bs)) # chars (drop 1 bs)
      else if byte b < 0xF0 then
        ((byte b - 0xE0) * 4096 + tail_bits (take 2 bs)) # chars (drop 2 bs)
      else ((byte b - 0xF0) * 262144 + tail_bits (take 3 bs)) # chars (drop 3 bs))"

definition rust_str :: "string \<Rightarrow> bool" where
  "rust_str s \<longleftrightarrow> list_all scalar_value (chars s) \<and> encode_str (chars s) = s"

definition utf16_count :: "nat list \<Rightarrow> nat" where
  "utf16_count cs = sum_list (map len_utf16 cs)"

lemma byte_char_of [simp]: "n < 256 \<Longrightarrow> byte (char_of n) = n"
  by (simp add: byte_def of_char_of)

lemma encode_str_simps [simp]:
  "encode_str [] = []"
  "encode_str (c # cs) = encode_char c @ encode_str cs"
  "encode_str (cs @ ds) = encode_str cs @ encode_str ds"
  by (simp_all add: encode_str_def)

lemma utf16_count_simps [simp]:
  "utf16_count [] = 0"
  "utf16_count (c # cs) = len_utf16 c + utf16_count cs"
  "utf16_count (cs @ ds) = utf16_count cs + utf16_count ds"
  by (simp_all add: utf16_count_def)

lemma length_encode_char: "length (encode_char c) = len_utf8 c"
  by (simp add: encode_char_def len_utf8_def)

lemma len_utf8_bounds: "1 \<le> len_utf8 c \<and> len_utf8 c \<le> 4"
  by (simp add: len_utf8_def)

lemma scalar_lt: "scalar_value c \<Longrightarrow> c < 0x110000"
  by (auto simp: scalar_value_def)

lemma three_sextets:
  "y * 64 + b = x \<Longrightarrow> x * 64 + d = c \<Longrightarrow> y * 4096 + (b * 64 + d) = (c::nat)"
  by linarith

lemma four_sextets:
  "z * 64 + a = y \<Longrightarrow> y * 64 + b = x \<Longrightarrow> x * 64 + d = c \<Longrightarrow>
   z * 262144 + ((a * 64 + b) * 64 + d) = (c::nat)"
  by (auto simp: algebra_simps)

lemma chars_encode_char: "scalar_value c \<Longrightarrow> chars (encode_char c @ s) = c # chars s"
proof -
  assume "scalar_value c"
  then have lt: "c < 0x110000" by (rule scalar_lt)
  consider "c < 0x80" | "0x80 \<le> c" "c < 0x800" | "0x800 \<le> c" "c < 0x10000" | "0x10000 \<le> c"
    by linarith
  then show ?thesis
  proof cases
    case 1
    then show ?thesis by (simp add: encode_char_def)
  next
    case 2
    then have "c div 64 < 32" by auto
    with 2 show ?thesis by (simp add: encode_char_def tail_bits_def del: div_less_iff_less_mult)
  next
    case 3
    have "c div 4096 = c div 64 div 64" by (simp add: div_mult2_eq [symmetric])
    then have eq: "c div 4096 * 4096 + (c div 64 mod 64 * 64 + c mod 64) = c"
      by (intro three_sextets [of _ _ "c div 64"]) (simp_all only: div_mult_mod_eq)
    from 3 have "c div 4096 < 16" by auto
    with 3 eq show ?thesis by (simp add: encode_char_def tail_bits_def numeral_2_eq_2)
  next
    case 4
    have "c div 4096 = c div 64 div 64" "c div 262144 = c div 4096 div 64"
      by (simp_all add: div_mult2_eq [symmetric])
    then have eq:
      "c div 262144 * 262144 + ((c div 4096 mod 64 * 64 + c div 64 mod 64) * 64 + c mod 64) = c"
      by (intro four_sextets [of _ _ "c div 4096" _ "c div 64"]) (simp_all only: div_mult_mod_eq)
    from 4 lt have "c div 262144 < 5" by auto
    with 4 eq show ?thesis by (simp add: encode_char_def tail_bits_def numeral_3_eq_3)
  qed
qed

lemma chars_encode_str: "list_all scalar_value cs \<Longrightarrow> chars (encode_str cs) = cs"
  by (induction cs) (simp_all add: chars_encode_char)

lemma rust_str_encode: "list_all scalar_value cs \<Longrightarrow> rust_str (encode_str cs)"
  by (simp add: rust_str_def chars_encode_str)

lemma rust_strE:
  assumes "rust_str s"
  obtains cs where "list_all scalar_value cs" and "s = encode_str cs" and "chars s = cs"
  using assms unfolding rust_str_def by metis

lemma encode_ascii: "list_all (\<lambda>c. c < 0x80) cs \<Longrightarrow> encode_str cs = map char_of cs"
  by (induction cs) (simp_all add: encode_char_def)

section \<open>Text\<close>

definition whitespace :: "nat \<Rightarrow> bool" where
  "whitespace c \<longleftrightarrow>
     (0x9 \<le> c \<and> c \<le> 0xD) \<or> c = 0x20 \<or> c = 0xA0 \<or> c = 0x1680 \<or> (0x2000 \<le> c \<and> c \<le> 0x200A) \<or>
     c = 0x2028 \<or> c = 0x2029 \<or> c = 0x202F \<or> c = 0x205F \<or> c = 0x3000 \<or> c = 0xFEFF"

text \<open>\<open>str::trim_matches(whitespace)\<close>, on the characters, and \<open>str::split\<close> at one character.\<close>

definition trim_whitespace :: "nat list \<Rightarrow> nat list" where
  "trim_whitespace cs = rev (dropWhile whitespace (rev (dropWhile whitespace cs)))"

fun split_on :: "char \<Rightarrow> string \<Rightarrow> string list" where
  "split_on d [] = [[]]"
| "split_on d (c # s) =
     (if c = d then [] # split_on d s
      else case split_on d s of [] \<Rightarrow> [[c]] | p # ps \<Rightarrow> (c # p) # ps)"

lemma split_on_nonempty: "split_on d s \<noteq> []"
  by (induction s) (auto split: list.splits)

lemma split_on_no: "d \<notin> set p \<Longrightarrow> split_on d p = [p]"
  by (induction p) auto

lemma split_on_append: "d \<notin> set p \<Longrightarrow> split_on d (p @ d # s) = p # split_on d s"
  by (induction p) auto

lemma split_on_pieces: "split_on d s = ps \<Longrightarrow> p \<in> set ps \<Longrightarrow> d \<notin> set p"
proof (induction s arbitrary: ps p)
  case Nil
  then show ?case by auto
next
  case (Cons c s)
  then show ?case by (cases "split_on d s") (auto split: if_splits)
qed

fun join_on :: "char \<Rightarrow> string list \<Rightarrow> string" where
  "join_on d [] = []"
| "join_on d [p] = p"
| "join_on d (p # q # ps) = p @ d # join_on d (q # ps)"

lemma join_split: "join_on d (split_on d s) = s"
proof (induction s)
  case Nil
  show ?case by simp
next
  case (Cons c s)
  obtain q qs where q: "split_on d s = q # qs"
    using split_on_nonempty [of d s] by (cases "split_on d s") auto
  with Cons show ?case by (cases qs) auto
qed

lemma split_on_three:
  "split_on d s = [x, y, z] \<longleftrightarrow> s = x @ d # y @ d # z \<and> d \<notin> set x \<and> d \<notin> set y \<and> d \<notin> set z"
proof
  assume "split_on d s = [x, y, z]"
  then show "s = x @ d # y @ d # z \<and> d \<notin> set x \<and> d \<notin> set y \<and> d \<notin> set z"
    using join_split [of d s] split_on_pieces [of d s "[x, y, z]"] by auto
next
  assume "s = x @ d # y @ d # z \<and> d \<notin> set x \<and> d \<notin> set y \<and> d \<notin> set z"
  then show "split_on d s = [x, y, z]"
    using split_on_append [of d y z] split_on_append [of d x "y @ d # z"] split_on_no [of d z] by simp
qed

fun truncate_utf16_loop :: "string \<Rightarrow> nat \<Rightarrow> nat \<Rightarrow> nat \<Rightarrow> nat list \<Rightarrow> string" where
  "truncate_utf16_loop str maximum len offset [] = str"
| "truncate_utf16_loop str maximum len offset (c # cs) =
     (if len + len_utf16 c > maximum then take offset str
      else truncate_utf16_loop str maximum (len + len_utf16 c) (offset + len_utf8 c) cs)"

definition truncate_utf16 :: "string \<Rightarrow> nat \<Rightarrow> string" where
  "truncate_utf16 str maximum = truncate_utf16_loop str maximum 0 0 (chars str)"

definition continuation_byte :: "char \<Rightarrow> bool" where
  "continuation_byte b \<longleftrightarrow> 0x80 \<le> byte b \<and> byte b < 0xC0"

definition is_char_boundary :: "string \<Rightarrow> nat \<Rightarrow> bool" where
  "is_char_boundary s i \<longleftrightarrow>
     i = 0 \<or> (if length s \<le> i then i = length s else \<not> continuation_byte (s ! i))"

fun boundary_back :: "string \<Rightarrow> nat \<Rightarrow> nat" where
  "boundary_back s 0 = 0"
| "boundary_back s (Suc n) = (if is_char_boundary s (Suc n) then Suc n else boundary_back s n)"

definition truncate_utf8 :: "string \<Rightarrow> nat \<Rightarrow> string" where
  "truncate_utf8 str maximum =
     (if length str \<le> maximum then str else take (boundary_back str maximum) str)"

lemma truncate_utf16_loop_spec:
  "str = encode_str (ps @ cs) \<Longrightarrow> offset = length (encode_str ps) \<Longrightarrow> len = utf16_count ps \<Longrightarrow>
   len \<le> maximum \<Longrightarrow>
   \<exists>k \<le> length cs. truncate_utf16_loop str maximum len offset cs = encode_str (ps @ take k cs) \<and>
     utf16_count (ps @ take k cs) \<le> maximum \<and>
     (k < length cs \<longrightarrow> maximum < utf16_count (ps @ take (Suc k) cs))"
proof (induction cs arbitrary: ps len offset)
  case Nil
  then show ?case by simp
next
  case (Cons c cs)
  show ?case
  proof (cases "len + len_utf16 c > maximum")
    case True
    with Cons.prems show ?thesis by (intro exI [of _ 0]) simp
  next
    case False
    have "\<exists>k \<le> length cs. truncate_utf16_loop str maximum (len + len_utf16 c) (offset + len_utf8 c) cs
        = encode_str ((ps @ [c]) @ take k cs) \<and> utf16_count ((ps @ [c]) @ take k cs) \<le> maximum \<and>
        (k < length cs \<longrightarrow> maximum < utf16_count ((ps @ [c]) @ take (Suc k) cs))"
      by (rule Cons.IH) (use Cons.prems False in \<open>simp_all add: length_encode_char\<close>)
    then obtain k where "k \<le> length cs" and
      "truncate_utf16_loop str maximum (len + len_utf16 c) (offset + len_utf8 c) cs
        = encode_str ((ps @ [c]) @ take k cs)" and
      "utf16_count ((ps @ [c]) @ take k cs) \<le> maximum" and
      "k < length cs \<longrightarrow> maximum < utf16_count ((ps @ [c]) @ take (Suc k) cs)"
      by blast
    with False show ?thesis by (intro exI [of _ "Suc k"]) simp
  qed
qed

lemma truncate_utf16_spec:
  assumes "rust_str str"
  shows "\<exists>k \<le> length (chars str). truncate_utf16 str maximum = encode_str (take k (chars str)) \<and>
     utf16_count (take k (chars str)) \<le> maximum \<and>
     (k < length (chars str) \<longrightarrow> maximum < utf16_count (take (Suc k) (chars str)))"
proof -
  from assms have "str = encode_str ([] @ chars str)" by (simp add: rust_str_def)
  from truncate_utf16_loop_spec [OF this, of 0 0 maximum] show ?thesis
    by (simp add: truncate_utf16_def)
qed

lemma encode_char_hd: "scalar_value c \<Longrightarrow> \<not> continuation_byte (encode_char c ! 0)"
  using scalar_lt [of c] by (auto simp: encode_char_def continuation_byte_def div_less_iff_less_mult)

lemma encode_char_tl:
  "scalar_value c \<Longrightarrow> 0 < i \<Longrightarrow> i < len_utf8 c \<Longrightarrow> continuation_byte (encode_char c ! i)"
  by (auto simp: encode_char_def continuation_byte_def len_utf8_def nth_Cons split: nat.splits
      if_splits)


text \<open>The boundaries of an encoded string are exactly the ends of its characters.\<close>

lemma length_encode_take_mono:
  "j \<le> k \<Longrightarrow> length (encode_str (take j cs)) \<le> length (encode_str (take k cs))"
proof -
  assume "j \<le> k"
  then have "take k cs = take j cs @ take (k - j) (drop j cs)"
    by (metis le_add_diff_inverse take_add)
  then show ?thesis by simp
qed

lemma boundary_encode:
  "list_all scalar_value cs \<Longrightarrow> is_char_boundary (encode_str cs) i \<Longrightarrow>
   \<exists>k \<le> length cs. take i (encode_str cs) = encode_str (take k cs)"
proof (induction cs arbitrary: i)
  case Nil
  then show ?case by simp
next
  case (Cons c cs)
  show ?case
  proof (cases "i < len_utf8 c")
    case True
    have "i = 0"
    proof (rule ccontr)
      assume "i \<noteq> 0"
      with True Cons.prems have "continuation_byte (encode_char c ! i)"
        by (simp add: encode_char_tl)
      with True \<open>i \<noteq> 0\<close> Cons.prems(2) show False
        by (simp add: is_char_boundary_def length_encode_char nth_append)
    qed
    then show ?thesis by (intro exI [of _ 0]) simp
  next
    case False
    have "is_char_boundary (encode_str cs) (i - len_utf8 c)"
      using Cons.prems False
      by (auto simp: is_char_boundary_def length_encode_char nth_append split: if_splits)
    from Cons.IH [OF _ this] Cons.prems(1) obtain k where
      "k \<le> length cs" and "take (i - len_utf8 c) (encode_str cs) = encode_str (take k cs)"
      by auto
    with False show ?thesis
      by (intro exI [of _ "Suc k"]) (simp add: length_encode_char)
  qed
qed

lemma boundary_near:
  "list_all scalar_value cs \<Longrightarrow> i \<le> length (encode_str cs) \<Longrightarrow>
   \<exists>j \<le> i. i < j + 4 \<and> is_char_boundary (encode_str cs) j"
proof (induction cs arbitrary: i)
  case Nil
  then show ?case by (auto simp: is_char_boundary_def)
next
  case (Cons c cs)
  show ?case
  proof (cases "i < len_utf8 c")
    case True
    then show ?thesis using len_utf8_bounds [of c]
      by (intro exI [of _ 0]) (auto simp: is_char_boundary_def)
  next
    case False
    from Cons.prems False have "i - len_utf8 c \<le> length (encode_str cs)"
      by (simp add: length_encode_char)
    with Cons.IH [of "i - len_utf8 c"] Cons.prems(1) obtain j where
      j: "j \<le> i - len_utf8 c" "i - len_utf8 c < j + 4" "is_char_boundary (encode_str cs) j"
      by auto
    from j(3) have "is_char_boundary (encode_str (c # cs)) (j + len_utf8 c)"
    proof (cases "j = 0 \<and> cs \<noteq> []")
      case True
      then obtain d ds where "cs = d # ds" by (cases cs) auto
      with True Cons.prems(1) encode_char_hd [of d] len_utf8_bounds [of d] show ?thesis
        by (simp add: is_char_boundary_def nth_append length_encode_char)
    next
      case False
      with j(3) show ?thesis
        by (auto simp: is_char_boundary_def nth_append length_encode_char split: if_splits)
    qed
    with j False show ?thesis by (intro exI [of _ "j + len_utf8 c"]) auto
  qed
qed

lemma boundary_back_is: "is_char_boundary s (boundary_back s n)"
proof (induction n)
  case 0
  show ?case by (simp add: is_char_boundary_def)
next
  case (Suc n)
  then show ?case by simp
qed

lemma boundary_back_le: "boundary_back s n \<le> n"
  by (induction n) (simp_all add: le_Suc_eq)

lemma boundary_back_greatest: "is_char_boundary s j \<Longrightarrow> j \<le> n \<Longrightarrow> j \<le> boundary_back s n"
  by (induction n) (auto simp: le_Suc_eq)

lemma truncate_utf8_spec:
  assumes "rust_str str"
  shows "rust_str (truncate_utf8 str maximum) \<and>
    (\<exists>k. truncate_utf8 str maximum = encode_str (take k (chars str))) \<and>
    length (truncate_utf8 str maximum) \<le> maximum \<and>
    (maximum < length str \<longrightarrow> maximum < length (truncate_utf8 str maximum) + 4)"
proof -
  from assms obtain cs where cs: "list_all scalar_value cs" and str: "str = encode_str cs"
    and [simp]: "chars str = cs" by (rule rust_strE)
  show ?thesis
  proof (cases "length str \<le> maximum")
    case True
    then have "truncate_utf8 str maximum = encode_str (take (length cs) (chars str))"
      using cs by (simp add: truncate_utf8_def str chars_encode_str)
    then have "\<exists>k. truncate_utf8 str maximum = encode_str (take k (chars str))" by blast
    with True assms show ?thesis by (simp add: truncate_utf8_def)
  next
    case False
    let ?b = "boundary_back str maximum"
    have t: "truncate_utf8 str maximum = take ?b str" using False by (simp add: truncate_utf8_def)
    from boundary_encode [OF cs, of ?b] boundary_back_is [of str maximum]
    obtain k where k: "take ?b str = encode_str (take k cs)" by (auto simp: str)
    have "rust_str (take ?b str)"
      unfolding k by (rule rust_str_encode) (metis cs append_take_drop_id list_all_append)
    moreover have "?b \<le> maximum" by (rule boundary_back_le)
    moreover have "maximum < ?b + 4"
      using boundary_near [OF cs, of maximum] False boundary_back_greatest [of str _ maximum]
      by (fastforce simp: str)
    moreover have "length (take ?b str) = ?b" using \<open>?b \<le> maximum\<close> False by simp
    ultimately show ?thesis using k unfolding t by auto
  qed
qed

section \<open>Identifiers and history contexts\<close>

definition opaque :: "string \<Rightarrow> bool" where
  "opaque value \<longleftrightarrow>
     1 \<le> utf16_count (chars value) \<and> utf16_count (chars value) \<le> 255 \<and>
     \<not> list_ex (\<lambda>c. c \<le> 0x1F \<or> c = 0x7F) (chars value)"

definition history_maximum_length :: nat where
  "history_maximum_length = 260"

definition for_room :: "string \<Rightarrow> string" where
  "for_room room = ''room/'' @ room"

definition strip_prefix :: "string \<Rightarrow> string \<Rightarrow> string option" where
  "strip_prefix p s = (if take (length p) s = p then Some (drop (length p) s) else None)"

definition context_room :: "string \<Rightarrow> string option" where
  "context_room c = strip_prefix ''room/'' c"

definition valid_context :: "string \<Rightarrow> bool" where
  "valid_context c \<longleftrightarrow>
     c = ''shared'' \<or> c = ''control'' \<or>
     (case context_room c of None \<Rightarrow> False | Some r \<Rightarrow> opaque r)"

lemma strip_prefix_append [simp]: "strip_prefix p (p @ s) = Some s"
  by (simp add: strip_prefix_def)

lemma strip_prefix_eq_Some: "strip_prefix p s = Some r \<longleftrightarrow> s = p @ r"
  unfolding strip_prefix_def by (metis append_eq_conv_conj append_take_drop_id option.distinct(1)
      option.inject)

lemma context_room_eq_Some: "context_room c = Some r \<longleftrightarrow> c = for_room r"
  by (simp add: context_room_def for_room_def strip_prefix_eq_Some)

lemma chars_ascii_append: "list_all (\<lambda>b. byte b < 0x80) s \<Longrightarrow> chars (s @ t) = map byte s @ chars t"
  by (induction s) simp_all

lemma chars_for_room: "chars (for_room r) = map byte ''room/'' @ chars r"
  unfolding for_room_def by (rule chars_ascii_append) (simp add: byte_def)

lemma utf16_ascii: "list_all (\<lambda>b. byte b < 0x80) s \<Longrightarrow> utf16_count (map byte s) = length s"
  by (induction s) (simp_all add: len_utf16_def)

section \<open>Bounded byte buffers\<close>

datatype io_error = FileTooLarge string | OtherError string

record buffer =
  buffer_bytes :: string
  buffer_maximum :: nat

definition buffer_new :: "nat \<Rightarrow> buffer" where
  "buffer_new maximum = \<lparr>buffer_bytes = [], buffer_maximum = maximum\<rparr>"

definition buffer_write :: "string \<Rightarrow> (buffer, io_error, nat) op" where
  "buffer_write bytes b =
     (if length bytes > buffer_maximum b - length (buffer_bytes b)
      then (Inl (FileTooLarge ''Encoded data exceeds its declared byte bound''), b)
      else (Inr (length bytes), b\<lparr>buffer_bytes := buffer_bytes b @ bytes\<rparr>))"

definition count_write :: "string \<Rightarrow> (64 word, io_error, nat) op" where
  "count_write bytes n =
     (if unat n + length bytes < 2 ^ 64
      then (Inr (length bytes), n + of_nat (length bytes))
      else (Inl (OtherError ''Encoded byte count overflow''), n))"

definition write_chunks :: "(string \<Rightarrow> ('s, io_error, nat) op) \<Rightarrow> string list \<Rightarrow> ('s, io_error, unit) op" where
  "write_chunks write = for_each_op (\<lambda>chunk. bind_op (write chunk) (\<lambda>_. return_op ()))"

definition buffer_ok :: "buffer \<Rightarrow> bool" where
  "buffer_ok b \<longleftrightarrow> length (buffer_bytes b) \<le> buffer_maximum b"

lemma buffer_ok_new: "buffer_ok (buffer_new m)"
  by (simp add: buffer_ok_def buffer_new_def)

lemma keeps_buffer_write: "keeps buffer_ok (buffer_write bs)"
  by (auto simp: keeps_def buffer_write_def buffer_ok_def)

lemma write_chunks_buffer:
  "buffer_ok b \<Longrightarrow>
   (if length (buffer_bytes b) + length (concat chunks) \<le> buffer_maximum b
    then write_chunks buffer_write chunks b = (Inr (), b\<lparr>buffer_bytes := buffer_bytes b @ concat chunks\<rparr>)
    else is_err (fst (write_chunks buffer_write chunks b)))"
proof (induction chunks arbitrary: b)
  case Nil
  then show ?case by (simp add: write_chunks_def buffer_ok_def)
next
  case (Cons c chunks)
  show ?case
  proof (cases "length c > buffer_maximum b - length (buffer_bytes b)")
    case True
    then have "write_chunks buffer_write (c # chunks) b
        = (Inl (FileTooLarge ''Encoded data exceeds its declared byte bound''), b)"
      by (simp add: write_chunks_def bind_op_def buffer_write_def)
    with True Cons.prems show ?thesis by (simp add: buffer_ok_def)
  next
    case False
    let ?b = "b\<lparr>buffer_bytes := buffer_bytes b @ c\<rparr>"
    from False Cons.prems have "buffer_ok ?b" by (simp add: buffer_ok_def)
    from Cons.IH [OF this] False show ?thesis
      by (simp add: write_chunks_def bind_op_def buffer_write_def add.assoc split: if_splits)
  qed
qed

lemma write_chunks_count:
  "unat n + length (concat chunks) < 2 ^ 64 \<Longrightarrow>
   \<exists>m. write_chunks count_write chunks n = (Inr (), m) \<and> unat m = unat n + length (concat chunks)"
proof (induction chunks arbitrary: n)
  case Nil
  then show ?case by (simp add: write_chunks_def)
next
  case (Cons c chunks)
  let ?m = "n + of_nat (length c) :: 64 word"
  from Cons.prems have m: "unat ?m = unat n + length c"
    by (simp add: unat_word_ariths unat_of_nat)
  from Cons.prems m have "unat ?m + length (concat chunks) < 2 ^ 64" by simp
  from Cons.IH [OF this] m Cons.prems show ?case
    by (auto simp: write_chunks_def bind_op_def count_write_def)
qed

section \<open>Properties\<close>

text \<open>
  C12: \<open>truncate_utf8\<close> returns a prefix of whole characters that fits the limit, is a valid string
  again, and loses at most three bytes of room: the next character would not have fitted.
\<close>
theorem truncate_utf8_longest:
  assumes "rust_str str"
  shows "rust_str (truncate_utf8 str maximum)
    \<and> (\<exists>k. truncate_utf8 str maximum = encode_str (take k (chars str)))
    \<and> length (truncate_utf8 str maximum) \<le> maximum
    \<and> (maximum < length str \<longrightarrow> maximum < length (truncate_utf8 str maximum) + 4)"
  using assms by (rule truncate_utf8_spec)

lemma truncate_utf8_longest_witness:
  "rust_str (truncate_utf8 (encode_str [97, 0x20AC, 0x10348]) 6) \<and>
   length (truncate_utf8 (encode_str [97, 0x20AC, 0x10348]) 6) \<le> 6"
proof -
  have "rust_str (encode_str [97, 0x20AC, 0x10348])"
    by (rule rust_str_encode) (simp add: scalar_value_def)
  from truncate_utf8_longest [OF this, of 6] show ?thesis by blast
qed

text \<open>
  \<open>truncate_utf16\<close> returns the longest prefix of whole characters whose UTF-16 length fits the
  limit, without ever cutting a surrogate pair or a UTF-8 sequence.
\<close>
theorem truncate_utf16_longest:
  assumes "rust_str str"
  shows "\<exists>k \<le> length (chars str).
     truncate_utf16 str maximum = encode_str (take k (chars str)) \<and>
     utf16_count (take k (chars str)) \<le> maximum \<and>
     (k < length (chars str) \<longrightarrow> maximum < utf16_count (take (Suc k) (chars str)))"
  using assms by (rule truncate_utf16_spec)

lemma truncate_utf16_longest_witness:
  "\<exists>k \<le> 3. truncate_utf16 (encode_str [97, 0x10348, 98]) 2 = encode_str (take k [97, 0x10348, 98]) \<and>
     utf16_count (take k [97, 0x10348, 98]) \<le> 2"
proof -
  have ok: "list_all scalar_value [97, 0x10348, 98]" by (simp add: scalar_value_def)
  from truncate_utf16_longest [OF rust_str_encode [OF this], of 2]
  obtain k where "k \<le> length [97, 0x10348, 98 :: nat]"
    and "truncate_utf16 (encode_str [97, 0x10348, 98]) 2 = encode_str (take k [97, 0x10348, 98])"
    and "utf16_count (take k [97, 0x10348, 98]) \<le> 2"
    unfolding chars_encode_str [OF ok] by blast
  then show ?thesis by (intro exI [of _ k]) simp
qed

text \<open>
  A bounded buffer never holds more than its maximum, whatever is written to it; writing chunks
  one after the other succeeds exactly when all of them fit, and then appends their concatenation.
\<close>
theorem buffer_write_bounded:
  assumes "buffer_ok b"
  shows "buffer_ok (snd (write_chunks buffer_write chunks b))
    \<and> (fst (write_chunks buffer_write chunks b) = Inr () \<longleftrightarrow>
         length (buffer_bytes b) + length (concat chunks) \<le> buffer_maximum b)
    \<and> (fst (write_chunks buffer_write chunks b) = Inr () \<longrightarrow>
         buffer_bytes (snd (write_chunks buffer_write chunks b)) = buffer_bytes b @ concat chunks)"
proof -
  have "keeps buffer_ok (write_chunks buffer_write chunks)"
    unfolding write_chunks_def
    by (intro keeps_for_each keeps_bind keeps_buffer_write keeps_return)
  with assms have "buffer_ok (snd (write_chunks buffer_write chunks b))" by (simp add: keeps_def)
  with write_chunks_buffer [OF assms, of chunks] show ?thesis by (auto split: if_splits)
qed

lemma buffer_write_bounded_witness:
  "buffer_ok (snd (write_chunks buffer_write [''ab'', ''cd''] (buffer_new 3)))"
  using buffer_write_bounded [of "buffer_new 3" "[''ab'', ''cd'']"] buffer_ok_new by blast

text \<open>
  The history context of a room is valid exactly when the room name is an opaque identifier, gives
  the room back, and a valid context never exceeds \<open>MAXIMUM_LENGTH\<close> UTF-16 code units.
\<close>
theorem room_context_valid:
  "(valid_context (for_room r) \<longleftrightarrow> opaque r) \<and> context_room (for_room r) = Some r \<and>
   (\<not> (valid_context c \<and> history_maximum_length < utf16_count (chars c)))"
proof -
  have room: "context_room (for_room r) = Some r" for r by (simp add: context_room_eq_Some)
  have valid: "valid_context (for_room r) \<longleftrightarrow> opaque r" for r
    using room [of r] by (simp add: valid_context_def) (simp add: for_room_def)
  have len: "utf16_count (chars (for_room r)) = 5 + utf16_count (chars r)" for r
    unfolding chars_for_room utf16_count_simps(3) by (simp add: byte_def len_utf16_def)
  have "utf16_count (chars c) \<le> 260" if "valid_context c" for c
  proof (cases "context_room c")
    case None
    with that have "c = ''shared'' \<or> c = ''control''" by (simp add: valid_context_def)
    then show ?thesis by (auto simp: byte_def len_utf16_def)
  next
    case (Some r)
    then have c: "c = for_room r" by (simp add: context_room_eq_Some)
    with that valid have "utf16_count (chars r) \<le> 255" by (simp add: opaque_def)
    then show ?thesis unfolding c len by simp
  qed
  then have "\<not> (valid_context c \<and> history_maximum_length < utf16_count (chars c))"
    unfolding history_maximum_length_def by (metis not_less)
  with room valid show ?thesis by blast
qed

end
