(* ===== verification/Kernel_Time.thy ===== *)
theory Kernel_Time
  imports Kernel_Text "HOL-Library.Signed_Division"
begin

text \<open>
  The calendar of \<open>kernel/src/time.rs\<close>: \<open>iso_timestamp\<close> prints a millisecond instant in the
  shared ISO format and \<open>parse_iso_timestamp\<close> reads it back. An \<open>i64\<close> is an \<open>int\<close>; every
  intermediate value stays far inside the range, because both functions check their input first.
  Rust's truncating \<open>/\<close> is \<open>sdiv\<close>, its \<open>div_euclid\<close> by a positive number is \<open>div\<close>.
\<close>

section \<open>Decimal numbers\<close>

fun dec :: "nat \<Rightarrow> string" where
  "dec n = (if n < 10 then [char_of (48 + n)] else dec (n div 10) @ [char_of (48 + n mod 10)])"

declare dec.simps [simp del]

definition pad :: "nat \<Rightarrow> nat \<Rightarrow> string" where
  "pad w n = replicate (w - length (dec n)) CHR ''0'' @ dec n"

definition ascii_digit :: "char \<Rightarrow> bool" where
  "ascii_digit c \<longleftrightarrow> 48 \<le> byte c \<and> byte c \<le> 57"

definition digits_value :: "string \<Rightarrow> nat" where
  "digits_value s = foldl (\<lambda>a c. a * 10 + (byte c - 48)) 0 s"

definition parse_digits :: "string \<Rightarrow> nat option" where
  "parse_digits s = (if s = [] \<or> \<not> list_all ascii_digit s then None else Some (digits_value s))"

definition parse_i64 :: "string \<Rightarrow> int option" where
  "parse_i64 s =
     opt_filter (\<lambda>n. - (2 ^ 63) \<le> n \<and> n < 2 ^ 63)
       (case s of
          [] \<Rightarrow> None
        | c # cs \<Rightarrow>
            if c = CHR ''-'' then map_option (\<lambda>n. - int n) (parse_digits cs)
            else if c = CHR ''+'' then map_option int (parse_digits cs)
            else map_option int (parse_digits s))"

lemma foldl_digits:
  "foldl (\<lambda>a c. a * 10 + (byte c - 48)) a t =
   a * 10 ^ length t + foldl (\<lambda>a c. a * 10 + (byte c - 48)) 0 t"
proof (induction t arbitrary: a)
  case Nil
  then show ?case by simp
next
  case (Cons x t)
  from Cons.IH [of "a * 10 + (byte x - 48)"] Cons.IH [of "byte x - 48"]
  show ?case by (simp add: distrib_right)
qed

lemma digits_value_append: "digits_value (s @ t) = digits_value s * 10 ^ length t + digits_value t"
  unfolding digits_value_def foldl_append by (rule foldl_digits)

lemma digits_value_single: "d < 10 \<Longrightarrow> digits_value [char_of (48 + d)] = d"
  by (simp add: digits_value_def)

lemma digits_value_zeros: "digits_value (replicate k CHR ''0'') = 0"
  by (induction k) (simp_all add: digits_value_def byte_def)

lemma dec_digits: "list_all ascii_digit (dec n) \<and> dec n \<noteq> [] \<and> digits_value (dec n) = n"
proof (induction n rule: dec.induct)
  case (1 n)
  show ?case
  proof (cases "n < 10")
    case True
    then show ?thesis
      by (simp add: dec.simps [of n] ascii_digit_def digits_value_single)
  next
    case False
    have "n mod 10 < 10" by simp
    then have "digits_value [char_of (48 + n mod 10)] = n mod 10" by (rule digits_value_single)
    with 1 False show ?thesis
      by (simp add: dec.simps [of n] ascii_digit_def digits_value_append)
  qed
qed

lemma length_dec: "n < 10 ^ w \<Longrightarrow> 0 < w \<Longrightarrow> length (dec n) \<le> w"
proof (induction n arbitrary: w rule: dec.induct)
  case (1 n)
  show ?case
  proof (cases "n < 10")
    case True
    with 1 show ?thesis by (simp add: dec.simps [of n])
  next
    case False
    from "1.prems" obtain v where w: "w = Suc v" by (cases w) auto
    have v: "0 < v"
    proof (rule ccontr)
      assume "\<not> 0 < v"
      with "1.prems" w False show False by simp
    qed
    from "1.prems"(1) w have "n div 10 < 10 ^ v"
      by (simp add: div_less_iff_less_mult mult.commute)
    from "1.IH" [OF False this v] False w show ?thesis by (simp add: dec.simps [of n])
  qed
qed

lemma length_pad: "n < 10 ^ w \<Longrightarrow> 0 < w \<Longrightarrow> length (pad w n) = w"
  using length_dec [of n w] by (simp add: pad_def)

lemma pad_digits: "list_all ascii_digit (pad w n)"
proof -
  have "ascii_digit CHR ''0''" by (simp add: ascii_digit_def byte_def)
  then have "list_all ascii_digit (replicate k CHR ''0'')" for k by (induction k) simp_all
  then show ?thesis using dec_digits [of n] by (simp add: pad_def)
qed

lemma pad_nonempty: "pad w n \<noteq> []"
  using dec_digits [of n] by (simp add: pad_def)

lemma parse_digits_pad [simp]: "parse_digits (pad w n) = Some n"
  using dec_digits [of n] pad_digits [of w n] pad_nonempty [of w n]
  by (simp add: parse_digits_def) (simp add: pad_def digits_value_append digits_value_zeros)

lemma digit_not_sign: "ascii_digit c \<Longrightarrow> c \<noteq> CHR ''-'' \<and> c \<noteq> CHR ''+''"
  by (auto simp: ascii_digit_def byte_def)

lemma parse_i64_pad: "n < 2 ^ 63 \<Longrightarrow> parse_i64 (pad w n) = Some (int n)"
proof -
  assume n: "n < 2 ^ 63"
  obtain c cs where c: "pad w n = c # cs" using pad_nonempty [of w n] by (cases "pad w n") auto
  with pad_digits [of w n] have "ascii_digit c" by simp
  from digit_not_sign [OF this] parse_digits_pad [of w n] n c show ?thesis
    by (simp add: parse_i64_def)
qed

lemma parse_i64_signed:
  "n < 2 ^ 63 \<Longrightarrow> parse_i64 (CHR ''-'' # pad w n) = Some (- int n)"
  "n < 2 ^ 63 \<Longrightarrow> parse_i64 (CHR ''+'' # pad w n) = Some (int n)"
  by (simp_all add: parse_i64_def)

section \<open>Splitting\<close>

definition split_once :: "char \<Rightarrow> string \<Rightarrow> (string \<times> string) option" where
  "split_once d s =
     (if d \<in> set s then Some (takeWhile (\<lambda>c. c \<noteq> d) s, tl (dropWhile (\<lambda>c. c \<noteq> d) s)) else None)"

definition rsplit_once :: "char \<Rightarrow> string \<Rightarrow> (string \<times> string) option" where
  "rsplit_once d s = map_option (\<lambda>(a, b). (rev b, rev a)) (split_once d (rev s))"

lemma split_once_append [simp]: "d \<notin> set a \<Longrightarrow> split_once d (a @ d # b) = Some (a, b)"
proof -
  assume "d \<notin> set a"
  then have "takeWhile (\<lambda>c. c \<noteq> d) (a @ d # b) = a" "dropWhile (\<lambda>c. c \<noteq> d) (a @ d # b) = d # b"
    by (induction a) auto
  then show ?thesis by (simp add: split_once_def)
qed

lemma rsplit_once_append [simp]: "d \<notin> set b \<Longrightarrow> rsplit_once d (a @ d # b) = Some (a, b)"
  by (simp add: rsplit_once_def)

section \<open>The calendar\<close>

definition max_timestamp :: int where
  "max_timestamp = 8640000000000000"

definition show_year :: "int \<Rightarrow> string" where
  "show_year year =
     (if 0 \<le> year \<and> year \<le> 9999 then pad 4 (nat year)
      else if year < 0 then CHR ''-'' # pad 6 (nat (- year))
      else CHR ''+'' # pad 6 (nat year))"

definition iso_timestamp :: "int \<Rightarrow> string result" where
  "iso_timestamp milliseconds =
     (if \<not> (- max_timestamp \<le> milliseconds \<and> milliseconds \<le> max_timestamp)
      then Inl (failure_new Invalid ''Timestamp exceeds the shared calendar range'')
      else
        let days = milliseconds div 86400000;
            time = milliseconds mod 86400000;
            shifted = days + 719468;
            era = shifted div 146097;
            era_day = shifted - era * 146097;
            era_year = (era_day - era_day sdiv 1460 + era_day sdiv 36524 - era_day sdiv 146096) sdiv 365;
            year = era_year + era * 400;
            year_day = era_day - (365 * era_year + era_year sdiv 4 - era_year sdiv 100);
            month_phase = (5 * year_day + 2) sdiv 153;
            day = year_day - (153 * month_phase + 2) sdiv 5 + 1;
            month = month_phase + (if month_phase < 10 then 3 else - 9);
            year = year + (if month \<le> 2 then 1 else 0)
        in Inr (show_year year @ ''-'' @ pad 2 (nat month) @ ''-'' @ pad 2 (nat day) @ ''T'' @
             pad 2 (nat (time sdiv 3600000)) @ '':'' @
             pad 2 (nat (time sdiv 60000 smod 60)) @ '':'' @
             pad 2 (nat (time sdiv 1000 smod 60)) @ ''.'' @
             pad 3 (nat (time smod 1000)) @ ''Z''))"

definition invalid_timestamp :: failure where
  "invalid_timestamp =
     failure_new Invalid ''Timestamp is not in the canonical shared calendar format''"

definition civil_millis :: "int \<Rightarrow> int \<Rightarrow> int \<Rightarrow> int \<Rightarrow> int \<Rightarrow> int \<Rightarrow> int \<Rightarrow> int" where
  "civil_millis year month day hour minute second millis =
     (let year = year - (if month \<le> 2 then 1 else 0);
          era = year div 400;
          era_year = year - era * 400;
          phase = month + (if month > 2 then - 3 else 9);
          day_year = (153 * phase + 2) sdiv 5 + day - 1;
          days = era * 146097 + era_year * 365 + era_year sdiv 4 - era_year sdiv 100 + day_year - 719468
      in days * 86400000 + hour * 3600000 + minute * 60000 + second * 1000 + millis)"

definition parse_number :: "string \<Rightarrow> int result" where
  "parse_number s = ok_or (parse_i64 s) invalid_timestamp"

definition parse_iso_timestamp :: "string \<Rightarrow> int result" where
  "parse_iso_timestamp str =
     rbind (ok_or (split_once CHR ''T'' str) invalid_timestamp) (\<lambda>(date, time).
     rbind (ok_or (rsplit_once CHR ''-'' date) invalid_timestamp) (\<lambda>(month_year, day).
     rbind (ok_or (rsplit_once CHR ''-'' month_year) invalid_timestamp) (\<lambda>(year, month).
     rbind (parse_number year) (\<lambda>year.
     rbind (parse_number month) (\<lambda>month.
     rbind (parse_number day) (\<lambda>day.
     if \<not> (- 271821 \<le> year \<and> year \<le> 275760) \<or> \<not> (1 \<le> month \<and> month \<le> 12) \<or>
        \<not> (1 \<le> day \<and> day \<le> 31) \<or> length time \<noteq> 13 \<or> \<not> list_all (\<lambda>c. byte c < 128) time \<or>
        take 1 (drop 2 time) \<noteq> '':'' \<or> take 1 (drop 5 time) \<noteq> '':'' \<or>
        take 1 (drop 8 time) \<noteq> ''.'' \<or> drop 12 time \<noteq> ''Z''
     then Inl invalid_timestamp
     else
       rbind (parse_number (take 2 time)) (\<lambda>hour.
       rbind (parse_number (take 2 (drop 3 time))) (\<lambda>minute.
       rbind (parse_number (take 2 (drop 6 time))) (\<lambda>second.
       rbind (parse_number (take 3 (drop 9 time))) (\<lambda>millis.
       if hour > 23 \<or> minute > 59 \<or> second > 59 then Inl invalid_timestamp
       else
         let ms = civil_millis year month day hour minute second millis
         in rbind (iso_timestamp ms) (\<lambda>again.
              if again \<noteq> str then Inl invalid_timestamp else Inr ms)))))))))))"


section \<open>The calendar round trip\<close>

text \<open>
  \<open>year_start\<close> is the day of an era on which its \<open>y\<close>-th year starts; \<open>era_scale\<close> is the numerator
  of the division by 365 that finds the year of a day.
\<close>

definition year_start :: "int \<Rightarrow> int" where
  "year_start y = 365 * y + y div 4 - y div 100"

definition era_scale :: "int \<Rightarrow> int" where
  "era_scale d = d - d div 1460 + d div 36524 - d div 146096"

lemma div_bounds: "0 < b \<Longrightarrow> b * (a div b) \<le> a \<and> a < b * (a div b) + (b::int)"
  using mult_div_mod_eq [of b a] pos_mod_bound [of b a] pos_mod_sign [of b a] by linarith

lemma era_scale_step: "0 \<le> d \<Longrightarrow> era_scale d \<le> era_scale (d + 1)"
proof -
  have "(d + 1) div 1460 \<le> d div 1460 + 1"
    using div_bounds [of 1460 d] div_bounds [of 1460 "d + 1"] by linarith
  moreover have "d div 36524 - d div 146096 \<le> (d + 1) div 36524 - (d + 1) div 146096"
  proof -
    have "d div 146096 = d div 36524 div 4" "(d + 1) div 146096 = (d + 1) div 36524 div 4"
      by (simp_all add: zdiv_zmult2_eq [symmetric])
    moreover have "a \<le> b \<Longrightarrow> a - a div 4 \<le> b - b div 4" for a b :: int by presburger
    moreover have "d div 36524 \<le> (d + 1) div 36524" by (simp add: zdiv_mono1)
    ultimately show ?thesis by metis
  qed
  ultimately show ?thesis by (simp add: era_scale_def)
qed

lemma era_scale_mono: "0 \<le> a \<Longrightarrow> a \<le> b \<Longrightarrow> era_scale a \<le> era_scale b"
proof (induction "nat (b - a)" arbitrary: b)
  case 0
  then show ?case by simp
next
  case (Suc n)
  then have "era_scale a \<le> era_scale (b - 1)" by simp
  also have "\<dots> \<le> era_scale (b - 1 + 1)" by (rule era_scale_step) (use Suc in simp)
  finally show ?case by simp
qed

definition year_bounds_ok :: "int \<Rightarrow> bool" where
  "year_bounds_ok y \<longleftrightarrow>
     365 * y \<le> era_scale (year_start y) \<and> era_scale (year_start (y + 1) - 1) < 365 * (y + 1)"

lemma year_bounds_all: "list_all year_bounds_ok [0..399]"
  by code_simp

lemma year_bounds: "0 \<le> y \<Longrightarrow> y \<le> 399 \<Longrightarrow> year_bounds_ok y"
  using year_bounds_all by (simp add: list_all_iff)

lemma era_year_range:
  assumes "0 \<le> d" "d \<le> 146096"
  shows "0 \<le> era_scale d div 365 \<and> era_scale d div 365 \<le> 399"
proof -
  have "era_scale 0 \<le> era_scale d" "era_scale d \<le> era_scale 146096"
    using assms by (auto intro: era_scale_mono)
  then have "0 \<le> era_scale d" "era_scale d \<le> 145999" by (simp_all add: era_scale_def [of 0] era_scale_def [of 146096])
  then show ?thesis using div_bounds [of 365 "era_scale d"] by linarith
qed

lemma year_length: "year_start (y + 1) - year_start y \<le> 366"
proof -
  have "(y + 1) div 4 \<le> y div 4 + 1"
    using div_bounds [of 4 y] div_bounds [of 4 "y + 1"] by linarith
  moreover have "y div 100 \<le> (y + 1) div 100" by (simp add: zdiv_mono1)
  ultimately show ?thesis by (simp add: year_start_def)
qed

lemma year_start_bounds:
  assumes "0 \<le> d" "d \<le> 146096"
  defines "y \<equiv> era_scale d div 365"
  shows "year_start y \<le> d \<and> d \<le> year_start y + 365"
proof -
  have y: "0 \<le> y" "y \<le> 399" using era_year_range [OF assms(1,2)] by (simp_all add: y_def)
  have lo: "365 * y \<le> era_scale d" and hi: "era_scale d < 365 * (y + 1)"
    using div_bounds [of 365 "era_scale d"] by (simp_all add: y_def algebra_simps)
  have "year_start y \<le> d"
  proof (rule ccontr)
    assume "\<not> year_start y \<le> d"
    then have "d \<le> year_start y - 1" by simp
    with assms(1) have "era_scale d \<le> era_scale (year_start y - 1)" by (rule era_scale_mono)
    moreover have "y \<noteq> 0" using \<open>\<not> year_start y \<le> d\<close> assms(1) by (auto simp: year_start_def)
    ultimately show False using year_bounds [of "y - 1"] y lo by (simp add: year_bounds_ok_def)
  qed
  moreover have "d \<le> year_start y + 365"
  proof (cases "y = 399")
    case True
    with assms(2) show ?thesis by (simp add: year_start_def)
  next
    case False
    show ?thesis
    proof (rule ccontr)
      assume "\<not> d \<le> year_start y + 365"
      with year_length [of y] have le: "year_start (y + 1) \<le> d" by linarith
      have "0 \<le> year_start (y + 1)"
        using y(1) zdiv_mono2 [of "y + 1" 4 100] by (simp add: year_start_def)
      with era_scale_mono [OF _ le] year_bounds [of "y + 1"] y hi False show False
        by (simp add: year_bounds_ok_def)
    qed
  qed
  ultimately show ?thesis ..
qed

lemma sdiv_pos: "0 \<le> (a::int) \<Longrightarrow> 0 < b \<Longrightarrow> a sdiv b = a div b"
  by (cases "a = 0") (simp_all add: signed_divide_int_def)

lemma smod_pos: "0 \<le> (a::int) \<Longrightarrow> 0 < b \<Longrightarrow> a smod b = a mod b"
  by (cases "a = 0") (simp_all add: signed_modulo_int_def)

text \<open>The month and day of a day of the year, which starts in March.\<close>

lemma month_phase_range: "0 \<le> d \<Longrightarrow> d \<le> 365 \<Longrightarrow> 0 \<le> (5 * d + 2) div 153 \<and> (5 * d + 2) div (153::int) \<le> 11"
  using div_bounds [of 153 "5 * d + 2"] by linarith

lemma month_day_range:
  assumes "0 \<le> d" "d \<le> (365::int)"
  shows "1 \<le> d - (153 * ((5 * d + 2) div 153) + 2) div 5 + 1 \<and>
         d - (153 * ((5 * d + 2) div 153) + 2) div 5 + 1 \<le> 31"
proof -
  let ?m = "(5 * d + 2) div 153"
  show ?thesis
    using div_bounds [of 153 "5 * d + 2"] div_bounds [of 5 "153 * ?m + 2"] by linarith
qed


text \<open>
  The printed fields of a day number, with the truncating divisions replaced by \<open>div\<close>: the
  operands are never negative.
\<close>

definition era_of :: "int \<Rightarrow> int" where
  "era_of shifted = shifted div 146097"

definition era_year_of :: "int \<Rightarrow> int" where
  "era_year_of shifted = era_scale (shifted mod 146097) div 365"

definition year_day_of :: "int \<Rightarrow> int" where
  "year_day_of shifted = shifted mod 146097 - year_start (era_year_of shifted)"

definition phase_of :: "int \<Rightarrow> int" where
  "phase_of shifted = (5 * year_day_of shifted + 2) div 153"

definition day_of :: "int \<Rightarrow> int" where
  "day_of shifted = year_day_of shifted - (153 * phase_of shifted + 2) div 5 + 1"

definition month_of :: "int \<Rightarrow> int" where
  "month_of shifted = phase_of shifted + (if phase_of shifted < 10 then 3 else - 9)"

definition year_of :: "int \<Rightarrow> int" where
  "year_of shifted = era_year_of shifted + era_of shifted * 400 + (if month_of shifted \<le> 2 then 1 else 0)"

lemma civil_ranges:
  shows era_year_of_range: "0 \<le> era_year_of n \<and> era_year_of n \<le> 399"
    and year_day_of_range: "0 \<le> year_day_of n \<and> year_day_of n \<le> 365"
    and phase_of_range: "0 \<le> phase_of n \<and> phase_of n \<le> 11"
    and day_of_range: "1 \<le> day_of n \<and> day_of n \<le> 31"
    and month_of_range: "1 \<le> month_of n \<and> month_of n \<le> 12"
proof -
  have d: "0 \<le> n mod 146097" "n mod 146097 \<le> 146096"
    using pos_mod_bound [of 146097 n] by auto
  show "0 \<le> era_year_of n \<and> era_year_of n \<le> 399"
    unfolding era_year_of_def by (rule era_year_range [OF d])
  show yd: "0 \<le> year_day_of n \<and> year_day_of n \<le> 365"
    using year_start_bounds [OF d] by (simp add: year_day_of_def era_year_of_def)
  then show ph: "0 \<le> phase_of n \<and> phase_of n \<le> 11"
    unfolding phase_of_def by (intro month_phase_range) auto
  show "1 \<le> day_of n \<and> day_of n \<le> 31"
    unfolding day_of_def phase_of_def by (intro month_day_range) (use yd in auto)
  show "1 \<le> month_of n \<and> month_of n \<le> 12"
    using ph by (auto simp: month_of_def)
qed

lemma civil_millis_inverse:
  "civil_millis (year_of n) (month_of n) (day_of n) h m s ms =
     (n - 719468) * 86400000 + h * 3600000 + m * 60000 + s * 1000 + ms"
proof -
  let ?y = "era_year_of n" and ?e = "era_of n" and ?p = "phase_of n"
  note r = civil_ranges [of n]
  have y: "year_of n - (if month_of n \<le> 2 then 1 else 0) = ?y + ?e * 400"
    by (simp add: year_of_def)
  have e: "(?y + ?e * 400) div 400 = ?e" using r(1) by simp
  have p: "month_of n + (if month_of n > 2 then - 3 else 9) = ?p"
    using r(3) by (auto simp: month_of_def)
  have s: "(153 * ?p + 2) sdiv 5 = (153 * ?p + 2) div 5" "?y sdiv 4 = ?y div 4" "?y sdiv 100 = ?y div 100"
    using r(1,3) by (simp_all add: sdiv_pos)
  have key: "?e * 146097 + ?y * 365 + ?y div 4 - ?y div 100 + ((153 * ?p + 2) div 5 + day_of n - 1) = n"
    using mult_div_mod_eq [of 146097 n]
    by (simp add: day_of_def year_day_of_def year_start_def era_of_def)
  then show ?thesis
    unfolding civil_millis_def Let_def y e p by (simp only: add_diff_cancel_right' s key)
qed


lemma year_of_range:
  assumes "- 99280532 \<le> n" "n \<le> 100719468"
  shows "- 271821 \<le> year_of n \<and> year_of n \<le> 275760"
proof -
  let ?y = "era_year_of n" and ?e = "era_of n" and ?d = "n mod 146097"
  note r = civil_ranges [of n]
  have n: "n = ?e * 146097 + ?d" "0 \<le> ?d" "?d < 146097"
    using mult_div_mod_eq [of 146097 n] pos_mod_bound [of 146097 n] by (simp_all add: era_of_def)
  have start: "?d = year_start ?y + year_day_of n" by (simp add: year_day_of_def)
  have e: "- 680 \<le> ?e" "?e \<le> 689" using n assms by linarith+
  have ys: "365 * ?y \<le> year_start ?y" "4 * year_start ?y \<le> 1461 * ?y"
  proof -
    have q: "0 \<le> ?y div 100" "?y div 100 \<le> ?y div 4" "4 * (?y div 4) \<le> ?y"
      using r(1) div_bounds [of 4 ?y] zdiv_mono2 [of ?y 4 100]
      by (simp_all add: pos_imp_zdiv_nonneg_iff)
    from q(2) show "365 * ?y \<le> year_start ?y" unfolding year_start_def by linarith
    have "0 \<le> b \<Longrightarrow> 4 * a \<le> y \<Longrightarrow> 4 * (365 * y + a - b) \<le> 1461 * y" for a b y :: int
      by (simp add: algebra_simps)
    from this [OF q(1,3)] show "4 * year_start ?y \<le> 1461 * ?y" by (simp only: year_start_def)
  qed
  have lo: "- 271821 \<le> year_of n"
  proof (cases "?e = - 680")
    case True
    with n(1) assms(1) have "65428 \<le> ?d" by linarith
    with start r(2) have "65063 \<le> year_start ?y" by linarith
    have "179 \<le> ?y"
    proof (rule ccontr)
      assume "\<not> 179 \<le> ?y"
      then have "?y \<le> 178" by simp
      then have "year_start ?y \<le> 65014"
        using ys(2) by linarith
      with \<open>65063 \<le> year_start ?y\<close> show False by simp
    qed
    with True show ?thesis by (simp add: year_of_def)
  next
    case False
    with e(1) r(1) show ?thesis by (simp add: year_of_def)
  qed
  have hi: "year_of n \<le> 275760"
  proof (cases "?e = 689")
    case True
    with n(1) assms(2) have d: "?d \<le> 58635" by linarith
    with start r(2) have s: "year_start ?y \<le> 58635" by linarith
    with ys(1) have y: "?y \<le> 160" by linarith
    show ?thesis
    proof (cases "?y = 160")
      case True
      with start d have "year_day_of n \<le> 196" by (simp add: year_start_def)
      with r(2) have "phase_of n < 10"
        using div_bounds [of 153 "5 * year_day_of n + 2"] by (simp add: phase_of_def)
      then have "\<not> month_of n \<le> 2" using r(3) by (simp add: month_of_def)
      with True \<open>?e = 689\<close> show ?thesis by (simp add: year_of_def)
    next
      case False
      with y \<open>?e = 689\<close> show ?thesis by (simp add: year_of_def)
    qed
  next
    case False
    with e(2) r(1) show ?thesis by (simp add: year_of_def)
  qed
  from lo hi show ?thesis ..
qed

text \<open>What \<open>iso_timestamp\<close> prints, in terms of these fields.\<close>

definition iso_date :: "int \<Rightarrow> string" where
  "iso_date n = show_year (year_of n) @ ''-'' @ pad 2 (nat (month_of n)) @ ''-'' @ pad 2 (nat (day_of n))"

definition clock_text :: "int \<Rightarrow> int \<Rightarrow> int \<Rightarrow> int \<Rightarrow> string" where
  "clock_text h m s l = pad 2 (nat h) @ '':'' @ pad 2 (nat m) @ '':'' @ pad 2 (nat s) @ ''.'' @
     pad 3 (nat l) @ ''Z''"

definition iso_time :: "int \<Rightarrow> string" where
  "iso_time t = clock_text (t div 3600000) (t div 60000 mod 60) (t div 1000 mod 60) (t mod 1000)"

lemma era_day_eq: "n - n div 146097 * 146097 = n mod (146097::int)"
  by (simp add: minus_div_mult_eq_mod)

lemma iso_timestamp_fields:
  assumes "- max_timestamp \<le> ms" "ms \<le> max_timestamp"
  shows "iso_timestamp ms =
    Inr (iso_date (ms div 86400000 + 719468) @ ''T'' @ iso_time (ms mod 86400000))"
proof -
  let ?n = "ms div 86400000 + 719468" and ?t = "ms mod 86400000"
  let ?d = "?n mod 146097"
  note r = civil_ranges [of ?n]
  have t: "0 \<le> ?t" "0 \<le> ?t div 60000" "0 \<le> ?t div 1000"
    by (simp_all add: pos_imp_zdiv_nonneg_iff)
  have d: "0 \<le> ?d" "?d \<le> 146096" using pos_mod_bound [of 146097 ?n] by auto
  have s: "0 \<le> era_scale ?d"
    using era_scale_mono [of 0 ?d] d by (simp add: era_scale_def [of 0])
  have y: "(?d - ?d sdiv 1460 + ?d sdiv 36524 - ?d sdiv 146096) sdiv 365 = era_year_of ?n"
    using s unfolding era_scale_def era_year_of_def
    by (simp only: sdiv_pos [OF d(1)] sdiv_pos zero_less_numeral)
  have yd: "?d - (365 * era_year_of ?n + era_year_of ?n sdiv 4 - era_year_of ?n sdiv 100) = year_day_of ?n"
    using r(1) by (simp only: sdiv_pos zero_less_numeral year_day_of_def year_start_def)
  have ph: "(5 * year_day_of ?n + 2) sdiv 153 = phase_of ?n"
    using r(2) by (simp add: sdiv_pos phase_of_def)
  have day: "year_day_of ?n - (153 * phase_of ?n + 2) sdiv 5 + 1 = day_of ?n"
    using r(3) by (simp add: sdiv_pos day_of_def)
  have time: "?t sdiv 3600000 = ?t div 3600000" "?t sdiv 60000 smod 60 = ?t div 60000 mod 60"
    "?t sdiv 1000 smod 60 = ?t div 1000 mod 60" "?t smod 1000 = ?t mod 1000"
    using t by (simp_all only: sdiv_pos smod_pos zero_less_numeral)
  have range: "\<not> \<not> (- max_timestamp \<le> ms \<and> ms \<le> max_timestamp)" using assms by simp
  show ?thesis
    unfolding iso_timestamp_def Let_def era_day_eq y yd ph day time if_not_P [OF range]
    by (simp only: iso_date_def iso_time_def clock_text_def year_of_def month_of_def era_of_def append_assoc)
qed


section \<open>Parsing what was printed\<close>

lemma digit_bytes: "list_all ascii_digit s \<Longrightarrow> c \<in> set s \<Longrightarrow> 48 \<le> byte c \<and> byte c \<le> 57"
  by (auto simp: list_all_iff ascii_digit_def)

lemma no_digit: "list_all ascii_digit s \<Longrightarrow> byte c < 48 \<or> 57 < byte c \<Longrightarrow> c \<notin> set s"
  using digit_bytes [of s c] by auto

lemma pad_no [simp]:
  "CHR ''T'' \<notin> set (pad w n)" "CHR ''-'' \<notin> set (pad w n)"
  by (rule no_digit [OF pad_digits], simp add: byte_def)+

lemma show_year_no_T [simp]: "CHR ''T'' \<notin> set (show_year y)"
  by (simp add: show_year_def)

lemma iso_date_no_T: "CHR ''T'' \<notin> set (iso_date n)"
  by (simp add: iso_date_def)

lemma parse_number_pad: "0 \<le> k \<Longrightarrow> k < 1000 \<Longrightarrow> parse_number (pad w (nat k)) = Inr k"
  by (simp add: parse_number_def parse_i64_pad)

lemma parse_number_year: "- 271821 \<le> y \<Longrightarrow> y \<le> 275760 \<Longrightarrow> parse_number (show_year y) = Inr y"
  by (simp add: parse_number_def show_year_def parse_i64_pad parse_i64_signed)

lemma pad_two: "0 \<le> k \<Longrightarrow> k < 100 \<Longrightarrow> \<exists>a b. pad 2 (nat k) = [a, b] \<and> byte a < 128 \<and> byte b < 128"
proof -
  assume "0 \<le> k" "k < 100"
  then have "length (pad 2 (nat k)) = 2" by (intro length_pad) simp_all
  then obtain a b where ab: "pad 2 (nat k) = [a, b]"
    by (auto simp: length_Suc_conv numeral_2_eq_2)
  with pad_digits [of 2 "nat k"] show ?thesis by (auto simp: ascii_digit_def)
qed

lemma pad_three:
  "0 \<le> k \<Longrightarrow> k < 1000 \<Longrightarrow>
   \<exists>a b c. pad 3 (nat k) = [a, b, c] \<and> byte a < 128 \<and> byte b < 128 \<and> byte c < 128"
proof -
  assume "0 \<le> k" "k < 1000"
  then have "length (pad 3 (nat k)) = 3" by (intro length_pad) simp_all
  then obtain a b c where ab: "pad 3 (nat k) = [a, b, c]"
    by (auto simp: length_Suc_conv numeral_3_eq_3)
  with pad_digits [of 3 "nat k"] show ?thesis by (auto simp: ascii_digit_def)
qed

lemma clock_digits:
  "h * 60 + m = x \<Longrightarrow> x * 60 + s = y \<Longrightarrow> y * 1000 + l = t \<Longrightarrow>
   h * 3600000 + m * 60000 + s * 1000 + l = (t::int)"
  by (auto simp: algebra_simps)

lemma time_fields:
  assumes "0 \<le> t" "t < (86400000::int)"
  shows "t div 3600000 \<le> 23" "t div 60000 mod 60 \<le> 59" "t div 1000 mod 60 \<le> 59" "t mod 1000 \<le> 999"
    and "0 \<le> t div 3600000"
    and "t div 3600000 * 3600000 + t div 60000 mod 60 * 60000 + t div 1000 mod 60 * 1000 + t mod 1000 = t"
proof -
  show "t div 3600000 \<le> 23" using div_bounds [of 3600000 t] assms by linarith
  show "0 \<le> t div 3600000" using assms by (simp add: pos_imp_zdiv_nonneg_iff)
  show "t div 60000 mod 60 \<le> 59" using pos_mod_bound [of 60 "t div 60000"] by simp
  show "t div 1000 mod 60 \<le> 59" using pos_mod_bound [of 60 "t div 1000"] by simp
  show "t mod 1000 \<le> 999" using pos_mod_bound [of 1000 t] by simp
  have "t div 60000 = t div 1000 div 60" "t div 3600000 = t div 60000 div 60"
    by (simp_all add: zdiv_zmult2_eq [symmetric])
  then show "t div 3600000 * 3600000 + t div 60000 mod 60 * 60000 + t div 1000 mod 60 * 1000 + t mod 1000 = t"
    by (intro clock_digits [of _ _ "t div 60000" _ "t div 1000"]) (simp_all only: div_mult_mod_eq)
qed

lemma clock_text_shape:
  assumes "0 \<le> h" "h < 100" "0 \<le> m" "m < 100" "0 \<le> s" "s < 100" "0 \<le> l" "l < 1000"
  defines "c \<equiv> clock_text h m s l"
  shows "length c = 13" "list_all (\<lambda>c. byte c < 128) c"
    "take 1 (drop 2 c) = '':''" "take 1 (drop 5 c) = '':''" "take 1 (drop 8 c) = ''.''"
    "drop 12 c = ''Z''"
    "take 2 c = pad 2 (nat h)" "take 2 (drop 3 c) = pad 2 (nat m)"
    "take 2 (drop 6 c) = pad 2 (nat s)" "take 3 (drop 9 c) = pad 3 (nat l)"
proof -
  obtain h1 h2 where h: "pad 2 (nat h) = [h1, h2]" "byte h1 < 128" "byte h2 < 128"
    using pad_two [OF assms(1,2)] by auto
  obtain m1 m2 where m: "pad 2 (nat m) = [m1, m2]" "byte m1 < 128" "byte m2 < 128"
    using pad_two [OF assms(3,4)] by auto
  obtain s1 s2 where s: "pad 2 (nat s) = [s1, s2]" "byte s1 < 128" "byte s2 < 128"
    using pad_two [OF assms(5,6)] by auto
  obtain l1 l2 l3 where l: "pad 3 (nat l) = [l1, l2, l3]"
      "byte l1 < 128" "byte l2 < 128" "byte l3 < 128"
    using pad_three [OF assms(7,8)] by auto
  have i: "c = [h1, h2, CHR '':'', m1, m2, CHR '':'', s1, s2, CHR ''.'', l1, l2, l3, CHR ''Z'']"
    by (simp add: c_def clock_text_def h m s l)
  have sep: "byte CHR '':'' < 128" "byte CHR ''.'' < 128" "byte CHR ''Z'' < 128"
    by (simp_all add: byte_def)
  show "length c = 13" "list_all (\<lambda>c. byte c < 128) c"
    "take 1 (drop 2 c) = '':''" "take 1 (drop 5 c) = '':''" "take 1 (drop 8 c) = ''.''"
    "drop 12 c = ''Z''"
    "take 2 c = pad 2 (nat h)" "take 2 (drop 3 c) = pad 2 (nat m)"
    "take 2 (drop 6 c) = pad 2 (nat s)" "take 3 (drop 9 c) = pad 3 (nat l)"
    unfolding i using sep by (simp_all add: h m s l)
qed

text \<open>The parser on any well-formed fields, whatever instant they denote.\<close>

lemma parse_iso_fields:
  assumes y: "- 271821 \<le> y" "y \<le> 275760" and mo: "1 \<le> mo" "mo \<le> 12" and d: "1 \<le> d" "d \<le> 31"
    and h: "0 \<le> h" "h \<le> 23" and m: "0 \<le> m" "m \<le> 59" and s: "0 \<le> s" "s \<le> 59"
    and l: "0 \<le> l" "l \<le> 999"
  defines "str \<equiv> (show_year y @ ''-'' @ pad 2 (nat mo) @ ''-'' @ pad 2 (nat d)) @ ''T'' @ clock_text h m s l"
  assumes again: "iso_timestamp (civil_millis y mo d h m s l) = Inr str"
  shows "parse_iso_timestamp str = Inr (civil_millis y mo d h m s l)"
proof -
  let ?date = "show_year y @ ''-'' @ pad 2 (nat mo) @ ''-'' @ pad 2 (nat d)"
  have "CHR ''T'' \<notin> set ?date" by simp
  from split_once_append [OF this, of "clock_text h m s l"]
  have T: "split_once CHR ''T'' str = Some (?date, clock_text h m s l)" by (simp add: str_def)
  have D: "rsplit_once CHR ''-'' ?date = Some (show_year y @ ''-'' @ pad 2 (nat mo), pad 2 (nat d))"
    using rsplit_once_append [of "CHR ''-''" "pad 2 (nat d)" "show_year y @ ''-'' @ pad 2 (nat mo)"]
    by simp
  have M: "rsplit_once CHR ''-'' (show_year y @ ''-'' @ pad 2 (nat mo)) = Some (show_year y, pad 2 (nat mo))"
    using rsplit_once_append [of "CHR ''-''" "pad 2 (nat mo)" "show_year y"] by simp
  have c: "h < 100" "m < 100" "s < 100" "l < 1000" using h m s l by simp_all
  note shape = clock_text_shape [OF h(1) c(1) m(1) c(2) s(1) c(3) l(1) c(4)]
  have num: "parse_number (show_year y) = Inr y" "parse_number (pad 2 (nat mo)) = Inr mo"
    "parse_number (pad 2 (nat d)) = Inr d" "parse_number (pad 2 (nat h)) = Inr h"
    "parse_number (pad 2 (nat m)) = Inr m" "parse_number (pad 2 (nat s)) = Inr s"
    "parse_number (pad 3 (nat l)) = Inr l"
    using y mo d h m s l by (simp_all add: parse_number_year parse_number_pad)
  show ?thesis
    unfolding parse_iso_timestamp_def T ok_or_simps rbind_simps prod.case D M num
    using y mo d h m s l again by (simp add: shape num del: One_nat_def)
qed

lemma parse_iso_printed:
  assumes "- max_timestamp \<le> ms" "ms \<le> max_timestamp" and run: "iso_timestamp ms = Inr str"
  shows "parse_iso_timestamp str = Inr ms"
proof -
  let ?n = "ms div 86400000 + 719468" and ?t = "ms mod 86400000"
  have t: "0 \<le> ?t" "?t < 86400000" by simp_all
  have n: "- 99280532 \<le> ?n" "?n \<le> 100719468"
    using assms(1,2) div_bounds [of 86400000 ms] by (simp_all add: max_timestamp_def)
  note r = civil_ranges [of ?n] and y = year_of_range [OF n] and f = time_fields [OF t]
  let ?ms = "civil_millis (year_of ?n) (month_of ?n) (day_of ?n) (?t div 3600000)
      (?t div 60000 mod 60) (?t div 1000 mod 60) (?t mod 1000)"
  have "?ms = (?n - 719468) * 86400000 + (?t div 3600000 * 3600000 + ?t div 60000 mod 60 * 60000 +
      ?t div 1000 mod 60 * 1000 + ?t mod 1000)"
    by (simp only: civil_millis_inverse add.assoc)
  also have "\<dots> = ms" by (simp only: f(6) add_diff_cancel_right' div_mult_mod_eq)
  finally have ms: "?ms = ms" .
  have str: "str = (show_year (year_of ?n) @ ''-'' @ pad 2 (nat (month_of ?n)) @ ''-'' @
      pad 2 (nat (day_of ?n))) @ ''T'' @ clock_text (?t div 3600000) (?t div 60000 mod 60)
      (?t div 1000 mod 60) (?t mod 1000)"
    using run iso_timestamp_fields [OF assms(1,2)] by (simp add: iso_date_def iso_time_def)
  have m: "0 \<le> ?t div 60000 mod 60" "0 \<le> ?t div 1000 mod 60" "0 \<le> ?t mod 1000"
    by (rule pos_mod_sign, simp)+
  have again: "iso_timestamp ?ms = Inr str" unfolding ms by (rule run)
  show ?thesis
    using parse_iso_fields [of "year_of ?n" "month_of ?n" "day_of ?n" "?t div 3600000"
        "?t div 60000 mod 60" "?t div 1000 mod 60" "?t mod 1000"]
      y r(4,5) f(1-5) m again unfolding str ms by blast
qed

text \<open>A parsed timestamp is printed again and compared, so the parser accepts nothing else.\<close>

lemma parse_iso_canonical: "parse_iso_timestamp str = Inr ms \<Longrightarrow> iso_timestamp ms = Inr str"
proof -
  have "returns (\<lambda>ms. iso_timestamp ms = Inr str) (parse_iso_timestamp str)"
    unfolding parse_iso_timestamp_def Let_def by (intro returns_intros) (simp add: returns_def)
  then show "parse_iso_timestamp str = Inr ms \<Longrightarrow> iso_timestamp ms = Inr str" by (rule returnsD)
qed

lemma iso_timestamp_range: "iso_timestamp ms = Inr str \<Longrightarrow> - max_timestamp \<le> ms \<and> ms \<le> max_timestamp"
  unfolding iso_timestamp_def by (rule ccontr) simp

section \<open>Properties\<close>

text \<open>
  C11: Parsing is the exact inverse of printing: a string parses to a number of milliseconds if and only
  if it is the canonical text that the printer gives for that number. In particular every time in the
  calendar range survives printing and parsing, and no second spelling of a time is accepted.
\<close>
theorem timestamp_roundtrip: "parse_iso_timestamp str = Inr ms \<longleftrightarrow> iso_timestamp ms = Inr str"
  using parse_iso_canonical parse_iso_printed iso_timestamp_range by blast

end
