(* ===== verification/Sql.thy ===== *)
theory Sql
  imports Kernel_Text
begin

text \<open>
  Statements of the storage adapter. A table is a list of rows; a Diesel statement is the operation
  it denotes on that list: \<open>INSERT\<close> checks the table's constraints (declared in the schema under
  \<open>database/management/sqlite/schema.json\<close>) in SQLite's order (row checks, then uniqueness, then
  foreign keys) and appends, \<open>UPDATE .. WHERE\<close> rewrites the rows that match and reports how many.
  A violated constraint is an \<open>sql_error\<close>, which \<open>sql_failure\<close>
  (\<open>adapter-sqlite/src/error.rs\<close>) maps to the program's failure. I/O errors of the database engine
  (a full disk, a lock time-out) are mapped by \<open>sql_failure\<close> as the code does, but no statement of the
  model raises them.
\<close>

datatype sql_error =
    NotFound
  | UniqueViolation
  | ForeignKeyViolation
  | CheckViolation
  | NotNullViolation
  | OtherDatabaseError string
  | OtherSqlError

fun contains_str :: "string \<Rightarrow> string \<Rightarrow> bool" where
  "contains_str [] p \<longleftrightarrow> p = []"
| "contains_str (c # s) p \<longleftrightarrow> take (length p) (c # s) = p \<or> contains_str s p"

fun sql_failure :: "sql_error \<Rightarrow> failure" where
  "sql_failure NotFound = failure_new Missing ''Stored record not found''"
| "sql_failure UniqueViolation = failure_new Conflict ''Unique state conflict''"
| "sql_failure ForeignKeyViolation =
     failure_new Conflict ''Stored state violates an integrity constraint''"
| "sql_failure CheckViolation =
     failure_new Conflict ''Stored state violates an integrity constraint''"
| "sql_failure NotNullViolation =
     failure_new Conflict ''Stored state violates an integrity constraint''"
| "sql_failure (OtherDatabaseError information) =
     (if contains_str information ''database or disk is full''
      then failure_new Capacity ''Management storage is full''
      else if contains_str information ''database is locked''
      then failure_new Unavailable ''Management storage is busy''
      else failure_new Unavailable ''Management storage failed'')"
| "sql_failure OtherSqlError = failure_new Unavailable ''Management storage failed''"

definition sql_insert ::
  "('s \<Rightarrow> bool) \<Rightarrow> ('s \<Rightarrow> bool) \<Rightarrow> ('s \<Rightarrow> bool) \<Rightarrow> ('s \<Rightarrow> 's) \<Rightarrow> ('s, failure, unit) op" where
  "sql_insert check unique references store s =
     (if \<not> check s then (Inl (sql_failure CheckViolation), s)
      else if \<not> unique s then (Inl (sql_failure UniqueViolation), s)
      else if \<not> references s then (Inl (sql_failure ForeignKeyViolation), s)
      else (Inr (), store s))"

definition affected :: "nat \<Rightarrow> string \<Rightarrow> unit result" where
  "affected count name =
     (if count = 1 then Inr () else Inl (failure_new Missing (name @ '' not found'')))"

lemma sql_insert_Inr [op_iff]:
  "sql_insert check unique references store s = (Inr u, s') \<longleftrightarrow>
     check s \<and> unique s \<and> references s \<and> s' = store s"
  by (auto simp: sql_insert_def)

lemma sql_insert_Inl:
  "sql_insert check unique references store s = (Inl e, s') \<Longrightarrow> s' = s \<and> failure_code e = Conflict"
  by (auto simp: sql_insert_def split: if_splits)

lemma affected_Inr [op_iff]: "affected n name = Inr u \<longleftrightarrow> n = 1"
  by (simp add: affected_def)

section \<open>Constraints on columns and rows\<close>

text \<open>SQLite's \<open>length\<close> counts the characters before the first NUL.\<close>

definition sql_length :: "string \<Rightarrow> nat" where
  "sql_length v = length (takeWhile (\<lambda>c. c \<noteq> 0) (chars v))"

text \<open>Primary keys and \<open>UNIQUE\<close> clauses.\<close>

definition unique_on :: "('r \<Rightarrow> 'k) \<Rightarrow> 'r list \<Rightarrow> bool" where
  "unique_on key rows \<longleftrightarrow> distinct (map key rows)"

text \<open>Foreign keys. A reference with a NULL column is not checked.\<close>

definition refers :: "('r \<Rightarrow> 'k) \<Rightarrow> 'r list \<Rightarrow> ('t \<Rightarrow> 'k) \<Rightarrow> 't list \<Rightarrow> bool" where
  "refers key rows target_key targets \<longleftrightarrow>
     list_all (\<lambda>r. key r \<in> set (map target_key targets)) rows"

definition refers_opt :: "('r \<Rightarrow> 'k option) \<Rightarrow> 'r list \<Rightarrow> ('t \<Rightarrow> 'k) \<Rightarrow> 't list \<Rightarrow> bool" where
  "refers_opt key rows target_key targets \<longleftrightarrow>
     list_all (\<lambda>r. case key r of None \<Rightarrow> True | Some k \<Rightarrow> k \<in> set (map target_key targets)) rows"

lemma unique_on_find:
  "unique_on key rows \<Longrightarrow> r \<in> set rows \<Longrightarrow> find_row (\<lambda>q. key q = key r) rows = Some r"
  by (induction rows) (auto simp: unique_on_def)

lemma unique_on_eq: "unique_on key rows \<Longrightarrow> q \<in> set rows \<Longrightarrow> r \<in> set rows \<Longrightarrow> key q = key r \<Longrightarrow> q = r"
  by (auto simp: unique_on_def distinct_map inj_on_def)

end
