(* ===== verification/Decision_Values.thy ===== *)
theory Decision_Values
  imports Kernel_Text
begin

text \<open>
  The values of the native runtime domain (\<open>domain/src/runtime/values.rs\<close>): the coded enumerations
  the macro \<open>codes!\<close> generates (\<open>code\<close> and \<open>parse\<close>), decisions, questions and answers, observations,
  and the summary of several native states.
\<close>

section \<open>Coded enumerations\<close>

definition invalid_code :: "string \<Rightarrow> failure" where
  "invalid_code name = failure_new Invalid (''Invalid '' @ name)"

definition parse_code :: "string \<Rightarrow> ('a \<Rightarrow> string) \<Rightarrow> 'a list \<Rightarrow> string \<Rightarrow> 'a result" where
  "parse_code name code variants v = ok_or (find_row (\<lambda>x. v = code x) variants) (invalid_code name)"

datatype runtime = Codex | Pi
datatype decision_kind = PermissionKind | QuestionKind
datatype decision_status = Pending | Answered | Responded | Cancelled | Expired
datatype history_mode = Shared | PerRoom
datatype native_state =
  Idle | Working | WaitingApproval | WaitingAnswer | FailedState | UnavailableState | Sleeping | Waking
datatype incident_kind = FailureIncident | ContactIncident
datatype notification_phase = Initial | Recovery

fun runtime_code :: "runtime \<Rightarrow> string" where
  "runtime_code Codex = ''codex''"
| "runtime_code Pi = ''pi''"

fun decision_kind_code :: "decision_kind \<Rightarrow> string" where
  "decision_kind_code PermissionKind = ''permission''"
| "decision_kind_code QuestionKind = ''question''"

fun decision_status_code :: "decision_status \<Rightarrow> string" where
  "decision_status_code Pending = ''pending''"
| "decision_status_code Answered = ''answered''"
| "decision_status_code Responded = ''responded''"
| "decision_status_code Cancelled = ''cancelled''"
| "decision_status_code Expired = ''expired''"

fun history_mode_code :: "history_mode \<Rightarrow> string" where
  "history_mode_code Shared = ''shared''"
| "history_mode_code PerRoom = ''per-room''"

fun native_state_code :: "native_state \<Rightarrow> string" where
  "native_state_code Idle = ''idle''"
| "native_state_code Working = ''working''"
| "native_state_code WaitingApproval = ''waiting-approval''"
| "native_state_code WaitingAnswer = ''waiting-answer''"
| "native_state_code FailedState = ''failed''"
| "native_state_code UnavailableState = ''unavailable''"
| "native_state_code Sleeping = ''sleeping''"
| "native_state_code Waking = ''waking''"

fun incident_kind_code :: "incident_kind \<Rightarrow> string" where
  "incident_kind_code FailureIncident = ''failure''"
| "incident_kind_code ContactIncident = ''contact''"

fun notification_phase_code :: "notification_phase \<Rightarrow> string" where
  "notification_phase_code Initial = ''initial''"
| "notification_phase_code Recovery = ''recovery''"

definition runtime_parse :: "string \<Rightarrow> runtime result" where
  "runtime_parse = parse_code ''Runtime'' runtime_code [Codex, Pi]"

definition decision_kind_parse :: "string \<Rightarrow> decision_kind result" where
  "decision_kind_parse = parse_code ''DecisionKind'' decision_kind_code [PermissionKind, QuestionKind]"

definition decision_status_parse :: "string \<Rightarrow> decision_status result" where
  "decision_status_parse = parse_code ''DecisionStatus'' decision_status_code
     [Pending, Answered, Responded, Cancelled, Expired]"

definition history_mode_parse :: "string \<Rightarrow> history_mode result" where
  "history_mode_parse = parse_code ''HistoryMode'' history_mode_code [Shared, PerRoom]"

definition native_state_parse :: "string \<Rightarrow> native_state result" where
  "native_state_parse = parse_code ''State'' native_state_code
     [Idle, Working, WaitingApproval, WaitingAnswer, FailedState, UnavailableState, Sleeping, Waking]"

definition incident_kind_parse :: "string \<Rightarrow> incident_kind result" where
  "incident_kind_parse = parse_code ''IncidentKind'' incident_kind_code [FailureIncident, ContactIncident]"

definition notification_phase_parse :: "string \<Rightarrow> notification_phase result" where
  "notification_phase_parse =
     parse_code ''NotificationPhase'' notification_phase_code [Initial, Recovery]"

lemma runtime_parse_Inr: "runtime_parse v = Inr x \<longleftrightarrow> v = runtime_code x"
  by (cases x) (auto simp: runtime_parse_def parse_code_def op_iff)

lemma decision_kind_parse_Inr: "decision_kind_parse v = Inr x \<longleftrightarrow> v = decision_kind_code x"
  by (cases x) (auto simp: decision_kind_parse_def parse_code_def op_iff)

lemma decision_status_parse_Inr: "decision_status_parse v = Inr x \<longleftrightarrow> v = decision_status_code x"
  by (cases x) (auto simp: decision_status_parse_def parse_code_def op_iff)

lemma history_mode_parse_Inr: "history_mode_parse v = Inr x \<longleftrightarrow> v = history_mode_code x"
  by (cases x) (auto simp: history_mode_parse_def parse_code_def op_iff)

lemma native_state_parse_Inr: "native_state_parse v = Inr x \<longleftrightarrow> v = native_state_code x"
  by (cases x) (auto simp: native_state_parse_def parse_code_def op_iff)

lemma incident_kind_parse_Inr: "incident_kind_parse v = Inr x \<longleftrightarrow> v = incident_kind_code x"
  by (cases x) (auto simp: incident_kind_parse_def parse_code_def op_iff)

lemma notification_phase_parse_Inr: "notification_phase_parse v = Inr x \<longleftrightarrow> v = notification_phase_code x"
  by (cases x) (auto simp: notification_phase_parse_def parse_code_def op_iff)

section \<open>Decisions\<close>

record option_choice =
  choice_id :: string
  choice_label :: string
  choice_description :: string

record question =
  question_id :: string
  question_title :: string
  question_prompt :: string
  question_secret :: bool
  question_allow_text :: bool
  question_options :: "option_choice list"

record decision_header =
  header_id :: string
  header_run_id :: string
  header_runtime :: runtime
  header_session_id :: string
  header_request_id :: string
  header_turn_id :: string
  header_item_id :: string
  header_kind :: decision_kind
  header_action :: string
  header_blocking :: bool
  header_expires_at :: "int option"

record decision_request =
  request_header :: decision_header
  request_review :: string
  request_questions :: "question list"

record decision_summary =
  summary_header :: decision_header
  summary_agent_id :: string
  summary_status :: decision_status
  summary_created_at :: int

record decision =
  decision_summary :: decision_summary
  decision_review :: string
  decision_questions :: "question list"

record answer =
  answer_question_id :: string
  answer_option_id :: "string option"
  answer_text :: "string option"

section \<open>Native observations\<close>

record setting =
  setting_name :: string
  setting_configured :: "string option"
  setting_effective :: "string option"

record observation =
  obs_session_id :: string
  obs_room_id :: "string option"
  obs_runtime :: runtime
  obs_state :: native_state
  obs_observed_at :: int
  obs_last_activity_at :: "int option"
  obs_history_available :: "bool option"
  obs_history_mode :: history_mode
  obs_max_input_bytes :: int
  obs_settings :: "setting list"
  obs_error_message :: "string option"

record observation_view =
  obsview_run_id :: string
  obsview_observation :: observation

datatype summary_state = Native native_state | Stopped

record native_summary =
  sum_state :: summary_state
  sum_observed_at :: int
  sum_last_activity_at :: "int option"
  sum_history_available :: "bool option"

record measurement =
  meas_state :: native_state
  meas_observed_at :: int
  meas_last_activity_at :: "int option"
  meas_history_available :: "bool option"

definition measurement_of :: "observation_view \<Rightarrow> measurement" where
  "measurement_of v = \<lparr>
     meas_state = obs_state (obsview_observation v),
     meas_observed_at = obs_observed_at (obsview_observation v),
     meas_last_activity_at = obs_last_activity_at (obsview_observation v),
     meas_history_available = obs_history_available (obsview_observation v)\<rparr>"

fun priority :: "native_state \<Rightarrow> nat" where
  "priority FailedState = 0"
| "priority WaitingApproval = 1"
| "priority WaitingAnswer = 2"
| "priority Waking = 3"
| "priority Working = 4"
| "priority UnavailableState = 5"
| "priority Idle = 6"
| "priority Sleeping = 7"

fun max_option :: "int option \<Rightarrow> int option \<Rightarrow> int option" where
  "max_option None b = b"
| "max_option a None = a"
| "max_option (Some a) (Some b) = Some (max a b)"

fun merge_available :: "bool option \<Rightarrow> bool option \<Rightarrow> bool option" where
  "merge_available (Some False) _ = Some False"
| "merge_available _ (Some False) = Some False"
| "merge_available (Some True) (Some True) = Some True"
| "merge_available _ _ = None"

definition summarize_step :: "native_summary option \<Rightarrow> measurement \<Rightarrow> native_summary option" where
  "summarize_step acc v = (case acc of
     Some s \<Rightarrow> Some \<lparr>
       sum_state = (case sum_state s of
           Native st \<Rightarrow> if priority (meas_state v) < priority st then Native (meas_state v) else sum_state s
         | Stopped \<Rightarrow> Stopped),
       sum_observed_at = max (sum_observed_at s) (meas_observed_at v),
       sum_last_activity_at = max_option (sum_last_activity_at s) (meas_last_activity_at v),
       sum_history_available = merge_available (sum_history_available s) (meas_history_available v)\<rparr>
   | None \<Rightarrow> Some \<lparr>sum_state = Native (meas_state v), sum_observed_at = meas_observed_at v,
       sum_last_activity_at = meas_last_activity_at v,
       sum_history_available = meas_history_available v\<rparr>)"

definition summarize :: "measurement list \<Rightarrow> native_summary option" where
  "summarize values = foldl summarize_step None values"

text \<open>
  The summary of at least one measurement, as a specification: the most urgent state, the latest
  times, and availability unless some session denies it or leaves it unknown.
\<close>

definition all_available :: "bool option list \<Rightarrow> bool option" where
  "all_available bs =
     (if Some False \<in> set bs then Some False else if None \<in> set bs then None else Some True)"

lemma merge_available_all:
  "bs \<noteq> [] \<Longrightarrow> merge_available (all_available bs) b = all_available (bs @ [b])"
  by (cases b; cases "the b") (auto simp: all_available_def)

lemma summarize_snoc: "summarize (xs @ [x]) = summarize_step (summarize xs) x"
  by (simp add: summarize_def)

lemma summarize_Nil [simp]: "summarize [] = None"
  by (simp add: summarize_def)

lemma priority_inj: "priority a = priority b \<longleftrightarrow> a = b"
  by (cases a; cases b) simp_all

lemma max_option_None [simp]: "max_option a None = a"
  by (cases a) simp_all

lemma summarize_spec:
  "xs \<noteq> [] \<Longrightarrow> \<exists>s st. summarize xs = Some s \<and> sum_state s = Native st \<and>
     st \<in> meas_state ` set xs \<and> (\<forall>x \<in> set xs. priority st \<le> priority (meas_state x)) \<and>
     sum_observed_at s = Max (meas_observed_at ` set xs) \<and>
     sum_history_available s = all_available (map meas_history_available xs)"
proof (induction xs rule: rev_induct)
  case Nil
  then show ?case by simp
next
  case (snoc x xs)
  show ?case
  proof (cases "xs = []")
    case True
    then show ?thesis
      by (cases "meas_history_available x"; cases "the (meas_history_available x)")
        (simp_all add: summarize_def summarize_step_def all_available_def)
  next
    case False
    with snoc obtain s st where s: "summarize xs = Some s" "sum_state s = Native st"
      "st \<in> meas_state ` set xs" "\<forall>x \<in> set xs. priority st \<le> priority (meas_state x)"
      "sum_observed_at s = Max (meas_observed_at ` set xs)"
      "sum_history_available s = all_available (map meas_history_available xs)" by blast
    have "Max (insert (meas_observed_at x) (meas_observed_at ` set xs))
        = max (Max (meas_observed_at ` set xs)) (meas_observed_at x)"
      using False by (simp add: max.commute)
    with s False show ?thesis
      by (auto simp: summarize_snoc summarize_step_def merge_available_all)
  qed
qed

section \<open>Incidents\<close>

record incident =
  inc_id :: string
  inc_owner_id :: string
  inc_agent_id :: "string option"
  inc_fleet_id :: "string option"
  inc_run_id :: "string option"
  inc_session_id :: "string option"
  inc_kind :: incident_kind
  inc_message :: string
  inc_created_at :: int
  inc_recovered_at :: "int option"

record notification =
  notif_incident_id :: string
  notif_phase :: notification_phase
  notif_body :: string
  notif_next_attempt_at :: int
  notif_event_id :: "string option"

record management_conversation =
  conv_owner_id :: string
  conv_room_id :: string
  conv_created_at :: int

end
