(* ===== verification/Room_Tables.thy ===== *)
theory Room_Tables
  imports Sql Decision_Values
begin

text \<open>
  The tables of room access: the grants of an agent, the permission it holds in a room, what was last
  applied to the messaging backend, the private conversation of an agent with its owner, the owner's
  management conversation and the policy a fleet approved for an instance. The rows are those of
  \<open>adapter-sqlite/src/room_access/rows.rs\<close>; the constraints are the schema's.

  A column of JSON text only ever holds a printed object, so of its check the length remains.
\<close>

section \<open>Rows\<close>

record room_grant_row =
  grrow_agent_id :: string
  grrow_room_id :: string
  grrow_generation :: string
  grrow_authorizer_id :: string
  grrow_added_by_id :: string
  grrow_invitation_event_id :: "string option"
  grrow_admission_kind :: string
  grrow_access_mode :: string
  grrow_native_access :: "string option"
  grrow_muted :: int
  grrow_revision :: int
  grrow_access_revision :: int
  grrow_updated_at :: int

record room_permission_row =
  rprow_agent_id :: string
  rprow_room_id :: string
  rprow_generation :: string
  rprow_permission_code :: string
  rprow_grant_scope :: string
  rprow_granted_by_member_id :: string
  rprow_granted_at :: int

record room_application_row =
  raprow_agent_id :: string
  raprow_room_id :: string
  raprow_observed_generation :: "string option"
  raprow_applied_revision :: "int option"
  raprow_applied_access_revision :: "int option"
  raprow_membership :: "string option"
  raprow_native_access :: "string option"
  raprow_last_attempt_at :: "int option"
  raprow_last_success_at :: "int option"
  raprow_next_check_at :: int
  raprow_error_code :: "string option"
  raprow_error_message :: "string option"

record owner_conversation =
  own_agent_id :: string
  own_owner_id :: string
  own_room_id :: string
  own_created_at :: int

record fleet_policy_row =
  fprow_agent_id :: string
  fprow_approved_by_member_id :: string
  fprow_approved_at :: int

record fleet_permission_row =
  fpmrow_agent_id :: string
  fpmrow_permission_code :: string
  fpmrow_grant_scope :: string

record room_tables =
  room_grants :: "room_grant_row list"
  room_permissions :: "room_permission_row list"
  room_applications :: "room_application_row list"
  owner_conversations :: "owner_conversation list"
  management_conversations :: "management_conversation list"
  fleet_policies :: "fleet_policy_row list"
  fleet_permissions :: "fleet_permission_row list"

definition no_rooms :: room_tables where
  "no_rooms = \<lparr>room_grants = [], room_permissions = [], room_applications = [],
     owner_conversations = [], management_conversations = [], fleet_policies = [],
     fleet_permissions = []\<rparr>"

section \<open>Constraints\<close>

definition json_column_check :: "string option \<Rightarrow> bool" where
  "json_column_check v \<longleftrightarrow> (case v of None \<Rightarrow> True | Some t \<Rightarrow> length t \<le> 8192)"

definition room_grant_check :: "room_grant_row \<Rightarrow> bool" where
  "room_grant_check r \<longleftrightarrow>
     (case grrow_invitation_event_id r of None \<Rightarrow> True
      | Some e \<Rightarrow> 1 \<le> sql_length e \<and> sql_length e \<le> 255) \<and>
     grrow_admission_kind r \<in> {''managed'', ''invitation''} \<and>
     (grrow_admission_kind r \<noteq> ''invitation'' \<or> grrow_invitation_event_id r \<noteq> None) \<and>
     json_column_check (grrow_native_access r) \<and>
     grrow_access_mode r \<in> {''none'', ''read'', ''reply'', ''custom''} \<and>
     (grrow_access_mode r = ''custom'' \<longleftrightarrow> grrow_native_access r \<noteq> None) \<and>
     grrow_muted r \<in> {0, 1} \<and> 0 \<le> grrow_revision r \<and> 0 \<le> grrow_access_revision r"

definition room_permission_check :: "room_permission_row \<Rightarrow> bool" where
  "room_permission_check r \<longleftrightarrow> rprow_grant_scope r = ''agent_room''"

definition room_application_check :: "room_application_row \<Rightarrow> bool" where
  "room_application_check r \<longleftrightarrow>
     json_column_check (raprow_native_access r) \<and>
     (case raprow_membership r of None \<Rightarrow> True
      | Some m \<Rightarrow> m \<in> {''join'', ''leave'', ''invite'', ''ban''})"

definition fleet_permission_check :: "fleet_permission_row \<Rightarrow> bool" where
  "fleet_permission_check r \<longleftrightarrow>
     fpmrow_permission_code r = ''room.agent.invite'' \<and> fpmrow_grant_scope r = ''agent_room''"

definition room_checks_ok :: "room_tables \<Rightarrow> bool" where
  "room_checks_ok t \<longleftrightarrow>
     list_all room_grant_check (room_grants t) \<and>
     list_all room_permission_check (room_permissions t) \<and>
     list_all room_application_check (room_applications t) \<and>
     list_all (\<lambda>r. 0 \<le> conv_created_at r) (management_conversations t) \<and>
     list_all fleet_permission_check (fleet_permissions t)"

definition room_uniques_ok :: "room_tables \<Rightarrow> bool" where
  "room_uniques_ok t \<longleftrightarrow>
     unique_on (\<lambda>r. (grrow_agent_id r, grrow_room_id r)) (room_grants t) \<and>
     unique_on (\<lambda>r. (rprow_agent_id r, rprow_room_id r, rprow_permission_code r)) (room_permissions t) \<and>
     unique_on (\<lambda>r. (raprow_agent_id r, raprow_room_id r)) (room_applications t) \<and>
     unique_on own_agent_id (owner_conversations t) \<and>
     unique_on own_room_id (owner_conversations t) \<and>
     unique_on conv_owner_id (management_conversations t) \<and>
     unique_on conv_room_id (management_conversations t) \<and>
     unique_on fprow_agent_id (fleet_policies t) \<and>
     unique_on (\<lambda>r. (fpmrow_agent_id r, fpmrow_permission_code r)) (fleet_permissions t)"

text \<open>The foreign keys between these tables; those into the identity tables are the database's.\<close>

definition room_links_ok :: "room_tables \<Rightarrow> bool" where
  "room_links_ok t \<longleftrightarrow>
     refers (\<lambda>r. (rprow_agent_id r, rprow_room_id r, rprow_generation r)) (room_permissions t)
       (\<lambda>g. (grrow_agent_id g, grrow_room_id g, grrow_generation g)) (room_grants t) \<and>
     refers (\<lambda>r. (raprow_agent_id r, raprow_room_id r)) (room_applications t)
       (\<lambda>g. (grrow_agent_id g, grrow_room_id g)) (room_grants t) \<and>
     refers (\<lambda>r. (own_agent_id r, own_room_id r)) (owner_conversations t)
       (\<lambda>g. (grrow_agent_id g, grrow_room_id g)) (room_grants t) \<and>
     refers fpmrow_agent_id (fleet_permissions t) fprow_agent_id (fleet_policies t)"

end
