(* ===== verification/Permissions.thy ===== *)
theory Permissions
  imports Kernel_Failure
begin

text \<open>
  The permission catalogue (\<open>domain/src/permission.rs\<close>): the enumeration, its list \<open>ALL\<close>, and the
  codec between a permission and the code the database and the wire carry. \<open>role_permissions\<close> is the
  grant table that the schema's initial data installs (\<open>schema.json\<close>, \<open>role_permission\<close>).
\<close>

datatype permission =
    PublicationPublishSelf
  | PublicationReadOwned
  | PublicationReadAny
  | PublicationDeleteOwned
  | PublicationDeleteAny
  | RuntimeReportSelf
  | RuntimeDecisionAnswerOwned
  | WakeRuleReadOwned
  | WakeRuleReadAny
  | WakeRuleManageOwned
  | WakeRuleManageAny
  | WakeDeliveryReceiveSelf
  | PrincipalRead
  | AgentReadSelf
  | OwnerConversationEnsureSelf
  | AgentReadOwned
  | AgentReadAny
  | AgentConfigureOwned
  | AgentConfigureAny
  | AgentRoomGrantManageOwned
  | AgentRoomGrantManageAny
  | ListenerReportSelf
  | RoomInvitationAcceptSelf
  | WakeNoticePublishSelf
  | EnrollmentApproveOwned
  | EnrollmentRejectOwned
  | EnrollmentRejectAny
  | EnrollmentReadOwned
  | EnrollmentReadAny
  | RoomManageNative
  | MemberManage
  | MemberInvite
  | PolicyManage
  | AuditReadOwned
  | AuditReadAny
  | RoomAgentInvite

definition permission_all :: "permission list" where
  "permission_all = [
     PublicationPublishSelf, PublicationReadOwned, PublicationReadAny,
     PublicationDeleteOwned, PublicationDeleteAny, RuntimeReportSelf,
     RuntimeDecisionAnswerOwned, WakeRuleReadOwned, WakeRuleReadAny, WakeRuleManageOwned,
     WakeRuleManageAny, WakeDeliveryReceiveSelf, PrincipalRead, AgentReadSelf,
     OwnerConversationEnsureSelf, AgentReadOwned, AgentReadAny, AgentConfigureOwned,
     AgentConfigureAny, AgentRoomGrantManageOwned, AgentRoomGrantManageAny,
     ListenerReportSelf, RoomInvitationAcceptSelf, WakeNoticePublishSelf,
     EnrollmentApproveOwned, EnrollmentRejectOwned, EnrollmentRejectAny,
     EnrollmentReadOwned, EnrollmentReadAny, RoomManageNative, MemberManage, MemberInvite,
     PolicyManage, AuditReadOwned, AuditReadAny, RoomAgentInvite]"

fun permission_code :: "permission \<Rightarrow> string" where
  "permission_code PublicationPublishSelf = ''publication.publish.self''"
| "permission_code PublicationReadOwned = ''publication.read.owned''"
| "permission_code PublicationReadAny = ''publication.read.any''"
| "permission_code PublicationDeleteOwned = ''publication.delete.owned''"
| "permission_code PublicationDeleteAny = ''publication.delete.any''"
| "permission_code RuntimeReportSelf = ''runtime.report.self''"
| "permission_code RuntimeDecisionAnswerOwned = ''runtime.decision.answer.owned''"
| "permission_code WakeRuleReadOwned = ''wake-rule.read.owned''"
| "permission_code WakeRuleReadAny = ''wake-rule.read.any''"
| "permission_code WakeRuleManageOwned = ''wake-rule.manage.owned''"
| "permission_code WakeRuleManageAny = ''wake-rule.manage.any''"
| "permission_code WakeDeliveryReceiveSelf = ''wake-delivery.receive.self''"
| "permission_code PrincipalRead = ''principal.read''"
| "permission_code AgentReadSelf = ''agent.read.self''"
| "permission_code OwnerConversationEnsureSelf = ''owner-conversation.ensure.self''"
| "permission_code AgentReadOwned = ''agent.read.owned''"
| "permission_code AgentReadAny = ''agent.read.any''"
| "permission_code AgentConfigureOwned = ''agent.configure.owned''"
| "permission_code AgentConfigureAny = ''agent.configure.any''"
| "permission_code AgentRoomGrantManageOwned = ''agent.room-grant.manage.owned''"
| "permission_code AgentRoomGrantManageAny = ''agent.room-grant.manage.any''"
| "permission_code ListenerReportSelf = ''listener.report.self''"
| "permission_code RoomInvitationAcceptSelf = ''room-invitation.accept.self''"
| "permission_code WakeNoticePublishSelf = ''wake-notice.publish.self''"
| "permission_code EnrollmentApproveOwned = ''enrollment.approve.owned''"
| "permission_code EnrollmentRejectOwned = ''enrollment.reject.owned''"
| "permission_code EnrollmentRejectAny = ''enrollment.reject.any''"
| "permission_code EnrollmentReadOwned = ''enrollment.read.owned''"
| "permission_code EnrollmentReadAny = ''enrollment.read.any''"
| "permission_code RoomManageNative = ''room.manage.native''"
| "permission_code MemberManage = ''member.manage''"
| "permission_code MemberInvite = ''member.invite''"
| "permission_code PolicyManage = ''policy.manage''"
| "permission_code AuditReadOwned = ''audit.read.owned''"
| "permission_code AuditReadAny = ''audit.read.any''"
| "permission_code RoomAgentInvite = ''room.agent.invite''"

text \<open>The arms of \<open>parse\<close> in their order; the first arm that matches wins.\<close>

definition permission_parse_arms :: "(string \<times> permission) list" where
  "permission_parse_arms = [
     (''publication.publish.self'', PublicationPublishSelf),
     (''publication.read.owned'', PublicationReadOwned),
     (''publication.read.any'', PublicationReadAny),
     (''publication.delete.owned'', PublicationDeleteOwned),
     (''publication.delete.any'', PublicationDeleteAny),
     (''runtime.report.self'', RuntimeReportSelf),
     (''runtime.decision.answer.owned'', RuntimeDecisionAnswerOwned),
     (''wake-rule.read.owned'', WakeRuleReadOwned),
     (''wake-rule.read.any'', WakeRuleReadAny),
     (''wake-rule.manage.owned'', WakeRuleManageOwned),
     (''wake-rule.manage.any'', WakeRuleManageAny),
     (''wake-delivery.receive.self'', WakeDeliveryReceiveSelf),
     (''principal.read'', PrincipalRead),
     (''agent.read.self'', AgentReadSelf),
     (''owner-conversation.ensure.self'', OwnerConversationEnsureSelf),
     (''agent.read.owned'', AgentReadOwned),
     (''agent.read.any'', AgentReadAny),
     (''agent.configure.owned'', AgentConfigureOwned),
     (''agent.configure.any'', AgentConfigureAny),
     (''agent.room-grant.manage.owned'', AgentRoomGrantManageOwned),
     (''agent.room-grant.manage.any'', AgentRoomGrantManageAny),
     (''listener.report.self'', ListenerReportSelf),
     (''room-invitation.accept.self'', RoomInvitationAcceptSelf),
     (''wake-notice.publish.self'', WakeNoticePublishSelf),
     (''enrollment.approve.owned'', EnrollmentApproveOwned),
     (''enrollment.reject.owned'', EnrollmentRejectOwned),
     (''enrollment.reject.any'', EnrollmentRejectAny),
     (''enrollment.read.owned'', EnrollmentReadOwned),
     (''enrollment.read.any'', EnrollmentReadAny),
     (''room.manage.native'', RoomManageNative),
     (''member.manage'', MemberManage),
     (''member.invite'', MemberInvite),
     (''policy.manage'', PolicyManage),
     (''audit.read.owned'', AuditReadOwned),
     (''audit.read.any'', AuditReadAny),
     (''room.agent.invite'', RoomAgentInvite)]"

definition permission_parse :: "string \<Rightarrow> permission option" where
  "permission_parse code = map_of permission_parse_arms code"

definition role_permissions :: "(string \<times> string) list" where
  "role_permissions = [
     (''agent'', ''publication.publish.self''), (''member'', ''publication.read.owned''),
     (''administrator'', ''publication.read.owned''),
     (''administrator'', ''publication.read.any''),
     (''member'', ''publication.delete.owned''),
     (''administrator'', ''publication.delete.owned''),
     (''administrator'', ''publication.delete.any''), (''agent'', ''runtime.report.self''),
     (''member'', ''runtime.decision.answer.owned''),
     (''administrator'', ''runtime.decision.answer.owned''),
     (''member'', ''wake-rule.read.owned''), (''administrator'', ''wake-rule.read.owned''),
     (''administrator'', ''wake-rule.read.any''), (''member'', ''wake-rule.manage.owned''),
     (''administrator'', ''wake-rule.manage.owned''),
     (''administrator'', ''wake-rule.manage.any''),
     (''agent'', ''wake-delivery.receive.self''), (''member'', ''principal.read''),
     (''administrator'', ''principal.read''), (''agent'', ''principal.read''),
     (''agent'', ''agent.read.self''), (''agent'', ''owner-conversation.ensure.self''),
     (''member'', ''agent.read.owned''), (''administrator'', ''agent.read.owned''),
     (''administrator'', ''agent.read.any''), (''member'', ''agent.configure.owned''),
     (''administrator'', ''agent.configure.owned''),
     (''administrator'', ''agent.configure.any''),
     (''member'', ''agent.room-grant.manage.owned''),
     (''administrator'', ''agent.room-grant.manage.owned''),
     (''administrator'', ''agent.room-grant.manage.any''),
     (''agent'', ''listener.report.self''), (''agent'', ''room-invitation.accept.self''),
     (''agent'', ''wake-notice.publish.self''), (''member'', ''enrollment.approve.owned''),
     (''administrator'', ''enrollment.approve.owned''),
     (''member'', ''enrollment.reject.owned''),
     (''administrator'', ''enrollment.reject.owned''),
     (''administrator'', ''enrollment.reject.any''),
     (''member'', ''enrollment.read.owned''),
     (''administrator'', ''enrollment.read.owned''),
     (''administrator'', ''enrollment.read.any''), (''member'', ''room.manage.native''),
     (''administrator'', ''room.manage.native''), (''administrator'', ''member.manage''),
     (''member'', ''member.invite''), (''administrator'', ''member.invite''),
     (''administrator'', ''policy.manage''), (''member'', ''audit.read.owned''),
     (''administrator'', ''audit.read.owned''), (''administrator'', ''audit.read.any'')]"

lemma permission_all_complete: "set permission_all = UNIV"
proof -
  have "p \<in> set permission_all" for p by (cases p) (simp_all add: permission_all_def)
  then show ?thesis by blast
qed

lemma permission_arms_code: "map (\<lambda>(c, p). permission_code p) permission_parse_arms = map fst permission_parse_arms"
  by (simp add: permission_parse_arms_def)

lemma permission_arms_distinct: "distinct (map fst permission_parse_arms)"
  by code_simp

lemma permission_arms_snd: "map snd permission_parse_arms = permission_all"
  by (simp add: permission_parse_arms_def permission_all_def)

lemma permission_arms_mem: "(permission_code p, p) \<in> set permission_parse_arms"
proof -
  have "p \<in> set (map snd permission_parse_arms)"
    unfolding permission_arms_snd permission_all_complete by simp
  then obtain c where c: "(c, p) \<in> set permission_parse_arms" by auto
  have "\<forall>(c, p) \<in> set permission_parse_arms. permission_code p = c"
    using permission_arms_code by (auto simp: map_eq_conv split_beta)
  with c show ?thesis by auto
qed

lemma permission_parse_code [simp]: "permission_parse (permission_code p) = Some p"
  unfolding permission_parse_def
  using permission_arms_distinct permission_arms_mem by (rule map_of_is_SomeI)

lemma permission_parse_Some: "permission_parse c = Some p \<longleftrightarrow> c = permission_code p"
proof
  assume "permission_parse c = Some p"
  then have "(c, p) \<in> set permission_parse_arms"
    unfolding permission_parse_def by (rule map_of_SomeD)
  moreover have "\<forall>(c, p) \<in> set permission_parse_arms. permission_code p = c"
    using permission_arms_code by (auto simp: map_eq_conv split_beta)
  ultimately show "c = permission_code p" by auto
qed simp

lemma permission_code_inj: "permission_code p = permission_code q \<longleftrightarrow> p = q"
  by (metis option.inject permission_parse_code)

lemma role_permissions_parse:
  "list_all (\<lambda>(r, c). permission_parse c \<noteq> None) role_permissions"
  by code_simp

end
