(* ===== verification/Identity.thy ===== *)
theory Identity
  imports Permissions Kernel_Text
begin

text \<open>
  The identity values of the server (\<open>domain/src/identity.rs\<close>, \<open>domain/src/port.rs\<close>) and their
  stored rows (\<open>adapter-sqlite/src/rows.rs\<close>): discriminants are stored as text, so reading a row can
  fail on an unknown discriminant, and writing then reading a value gives it back.
  A \<open>Secret\<close> is the string it holds. Field names carry their record's name.
\<close>

section \<open>Values\<close>

datatype principal_kind = Human | AgentKind
datatype status = Active | Suspended | Revoked
datatype wake_mode = WakeHumans | WakeEveryone | WakeSelected
datatype role = RoleMember | RoleAdministrator | RoleAgent

fun wake_mode_code :: "wake_mode \<Rightarrow> string" where
  "wake_mode_code WakeHumans = ''humans''"
| "wake_mode_code WakeEveryone = ''everyone''"
| "wake_mode_code WakeSelected = ''selected''"

record principal =
  principal_id :: string
  principal_backend_user_id :: string
  principal_kind :: principal_kind
  principal_status :: status
  principal_revision :: int
  principal_created_at :: int

record member =
  member_principal_id :: string
  member_display_name :: string

record agent =
  agent_principal_id :: string
  agent_owner_id :: string
  agent_wake_mode :: wake_mode

record principal_role =
  role_principal_id :: string
  role_principal_kind :: principal_kind
  role_role :: role
  role_assigned_by :: "string option"
  role_assigned_at :: int

record application =
  app_principal_id :: string
  app_applied_revision :: "int option"
  app_applied_intent_hash :: "string option"
  app_applied_status :: "status option"
  app_native_display_name :: "string option"
  app_last_attempt_at :: "int option"
  app_last_success_at :: "int option"
  app_next_check_at :: int
  app_error_code :: "string option"
  app_error_message :: "string option"

record member_view =
  view_principal :: principal
  view_member :: member
  view_role :: principal_role
  view_application :: application

record member_session =
  session_secret_hash :: string
  session_member_id :: string
  session_csrf_secret :: string
  session_native_access_token :: string
  session_created_at :: int
  session_expires_at :: int

datatype authentication = Management string | NativeAuth string

record actor =
  actor_principal_id :: string
  actor_kind :: principal_kind
  actor_authentication :: "authentication option"

record agent_binding =
  binding_agent_id :: string
  binding_retired_at :: "int option"
  binding_fleet_archived_at :: "int option"

record 'a page =
  page_items :: "'a list"
  page_page :: int
  page_size :: int
  page_total_items :: int
  page_total_pages :: int

definition agent_display_name :: "string \<Rightarrow> string \<Rightarrow> string" where
  "agent_display_name name owner_name = name @ '' ('' @ owner_name @ '')''"

definition pending_application :: "string \<Rightarrow> int \<Rightarrow> application" where
  "pending_application pid now = \<lparr>
     app_principal_id = pid, app_applied_revision = None, app_applied_intent_hash = None,
     app_applied_status = None, app_native_display_name = None, app_last_attempt_at = None,
     app_last_success_at = None, app_next_check_at = now, app_error_code = None,
     app_error_message = None\<rparr>"

section \<open>Audit records\<close>

datatype audit_actor =
    AuditPrincipal actor
  | AuditController string
  | AuditSystem
  | AuditAnonymous

record audit =
  audit_request_id :: string
  audit_actor :: audit_actor
  audit_target_kind :: string
  audit_target_id :: string
  audit_action :: string
  audit_message :: string
  audit_owner_id :: "string option"
  audit_room_id :: "string option"
  audit_membership_generation :: "string option"
  audit_authorizer_id :: "string option"
  audit_added_by_id :: "string option"
  audit_permission_code :: "string option"
  audit_created_at :: int

definition audit_new ::
  "actor \<Rightarrow> string \<Rightarrow> string \<Rightarrow> string \<Rightarrow> string \<Rightarrow> string option \<Rightarrow> int \<Rightarrow> audit" where
  "audit_new a request_id target_kind target_id action owner_id now = \<lparr>
     audit_request_id = request_id, audit_actor = AuditPrincipal a,
     audit_target_kind = target_kind, audit_target_id = target_id, audit_action = action,
     audit_message = [], audit_owner_id = owner_id, audit_room_id = None,
     audit_membership_generation = None, audit_authorizer_id = None, audit_added_by_id = None,
     audit_permission_code = None, audit_created_at = now\<rparr>"

section \<open>Stored rows\<close>

record principal_row =
  prow_id :: string
  prow_backend_user_id :: string
  prow_kind :: string
  prow_status :: string
  prow_revision :: int
  prow_created_at :: int

record member_row =
  mrow_principal_id :: string
  mrow_principal_kind :: string
  mrow_display_name :: string

record role_row =
  rrow_principal_id :: string
  rrow_principal_kind :: string
  rrow_role_code :: string
  rrow_assigned_by :: "string option"
  rrow_assigned_at :: int

record application_row =
  arow_principal_id :: string
  arow_applied_revision :: "int option"
  arow_applied_intent_hash :: "string option"
  arow_applied_status :: "string option"
  arow_native_display_name :: "string option"
  arow_last_attempt_at :: "int option"
  arow_last_success_at :: "int option"
  arow_next_check_at :: int
  arow_error_code :: "string option"
  arow_error_message :: "string option"

definition corrupt :: failure where
  "corrupt = failure_new Unavailable ''Stored identity discriminant is invalid''"

definition kind_of_text :: "string \<Rightarrow> principal_kind result" where
  "kind_of_text v =
     (if v = ''human'' then Inr Human else if v = ''agent'' then Inr AgentKind else Inl corrupt)"

definition status_of_text :: "string \<Rightarrow> status result" where
  "status_of_text v =
     (if v = ''active'' then Inr Active
      else if v = ''suspended'' then Inr Suspended
      else if v = ''revoked'' then Inr Revoked else Inl corrupt)"

definition role_of_text :: "string \<Rightarrow> role result" where
  "role_of_text v =
     (if v = ''member'' then Inr RoleMember
      else if v = ''administrator'' then Inr RoleAdministrator
      else if v = ''agent'' then Inr RoleAgent else Inl corrupt)"

definition wake_of_text :: "string \<Rightarrow> wake_mode result" where
  "wake_of_text v =
     (if v = ''humans'' then Inr WakeHumans
      else if v = ''everyone'' then Inr WakeEveryone
      else if v = ''selected'' then Inr WakeSelected else Inl corrupt)"

fun kind_text :: "principal_kind \<Rightarrow> string" where
  "kind_text Human = ''human''"
| "kind_text AgentKind = ''agent''"

fun wake_text :: "wake_mode \<Rightarrow> string" where
  "wake_text WakeHumans = ''humans''"
| "wake_text WakeEveryone = ''everyone''"
| "wake_text WakeSelected = ''selected''"

fun status_text :: "status \<Rightarrow> string" where
  "status_text Active = ''active''"
| "status_text Suspended = ''suspended''"
| "status_text Revoked = ''revoked''"

fun role_text :: "role \<Rightarrow> string" where
  "role_text RoleMember = ''member''"
| "role_text RoleAdministrator = ''administrator''"
| "role_text RoleAgent = ''agent''"

definition principal_of_row :: "principal_row \<Rightarrow> principal result" where
  "principal_of_row r =
     rbind (kind_of_text (prow_kind r)) (\<lambda>k.
     rbind (status_of_text (prow_status r)) (\<lambda>s.
     Inr \<lparr>principal_id = prow_id r, principal_backend_user_id = prow_backend_user_id r,
       principal_kind = k, principal_status = s, principal_revision = prow_revision r,
       principal_created_at = prow_created_at r\<rparr>))"

definition principal_row_of :: "principal \<Rightarrow> principal_row" where
  "principal_row_of p = \<lparr>prow_id = principal_id p,
     prow_backend_user_id = principal_backend_user_id p, prow_kind = kind_text (principal_kind p),
     prow_status = status_text (principal_status p), prow_revision = principal_revision p,
     prow_created_at = principal_created_at p\<rparr>"

definition application_row_of :: "application \<Rightarrow> application_row" where
  "application_row_of a = \<lparr>arow_principal_id = app_principal_id a,
     arow_applied_revision = app_applied_revision a,
     arow_applied_intent_hash = app_applied_intent_hash a,
     arow_applied_status = map_option status_text (app_applied_status a),
     arow_native_display_name = app_native_display_name a,
     arow_last_attempt_at = app_last_attempt_at a, arow_last_success_at = app_last_success_at a,
     arow_next_check_at = app_next_check_at a, arow_error_code = app_error_code a,
     arow_error_message = app_error_message a\<rparr>"

definition transpose_option :: "'a result option \<Rightarrow> 'a option result" where
  "transpose_option x =
     (case x of None \<Rightarrow> Inr None | Some (Inl e) \<Rightarrow> Inl e | Some (Inr v) \<Rightarrow> Inr (Some v))"

definition application_of_row :: "application_row \<Rightarrow> application result" where
  "application_of_row r =
     rbind (transpose_option (map_option status_of_text (arow_applied_status r))) (\<lambda>s.
     Inr \<lparr>app_principal_id = arow_principal_id r, app_applied_revision = arow_applied_revision r,
       app_applied_intent_hash = arow_applied_intent_hash r, app_applied_status = s,
       app_native_display_name = arow_native_display_name r,
       app_last_attempt_at = arow_last_attempt_at r, app_last_success_at = arow_last_success_at r,
       app_next_check_at = arow_next_check_at r, app_error_code = arow_error_code r,
       app_error_message = arow_error_message r\<rparr>)"

definition member_view_of_rows ::
  "principal_row \<times> member_row \<times> role_row \<times> application_row \<Rightarrow> member_view result" where
  "member_view_of_rows rows = (case rows of (p, m, assigned, a) \<Rightarrow>
     rbind (kind_of_text (mrow_principal_kind m)) (\<lambda>k.
     if k \<noteq> Human then Inl corrupt else
     rbind (principal_of_row p) (\<lambda>pv.
     rbind (kind_of_text (rrow_principal_kind assigned)) (\<lambda>rk.
     rbind (role_of_text (rrow_role_code assigned)) (\<lambda>rv.
     rbind (application_of_row a) (\<lambda>av.
     Inr \<lparr>view_principal = pv,
       view_member = \<lparr>member_principal_id = mrow_principal_id m,
                      member_display_name = mrow_display_name m\<rparr>,
       view_role = \<lparr>role_principal_id = rrow_principal_id assigned, role_principal_kind = rk,
                    role_role = rv, role_assigned_by = rrow_assigned_by assigned,
                    role_assigned_at = rrow_assigned_at assigned\<rparr>,
       view_application = av\<rparr>))))))"

section \<open>Round trips\<close>

lemma kind_text_roundtrip [simp]: "kind_of_text (kind_text k) = Inr k"
  by (cases k) (simp_all add: kind_of_text_def)

lemma status_text_roundtrip [simp]: "status_of_text (status_text s) = Inr s"
  by (cases s) (simp_all add: status_of_text_def)

lemma role_text_roundtrip [simp]: "role_of_text (role_text r) = Inr r"
  by (cases r) (simp_all add: role_of_text_def)

lemma wake_text_roundtrip [simp]: "wake_of_text (wake_text w) = Inr w"
  by (cases w) (simp_all add: wake_of_text_def)

lemma kind_of_text_Inr: "kind_of_text v = Inr k \<longleftrightarrow> v = kind_text k"
  by (cases k) (auto simp: kind_of_text_def)

lemma status_of_text_Inr: "status_of_text v = Inr s \<longleftrightarrow> v = status_text s"
  by (cases s) (auto simp: status_of_text_def)

lemma role_of_text_Inr: "role_of_text v = Inr r \<longleftrightarrow> v = role_text r"
  by (cases r) (auto simp: role_of_text_def)

lemma wake_of_text_Inr: "wake_of_text v = Inr w \<longleftrightarrow> v = wake_text w"
  by (cases w) (auto simp: wake_of_text_def)

lemma transpose_option_simps [simp]:
  "transpose_option None = Inr None"
  "transpose_option (Some (Inl e)) = Inl e"
  "transpose_option (Some (Inr v)) = Inr (Some v)"
  by (simp_all add: transpose_option_def)

lemma transpose_option_eq_Some [op_iff]: "transpose_option x = Inr (Some v) \<longleftrightarrow> x = Some (Inr v)"
  by (auto simp: transpose_option_def split: option.splits sum.splits)

lemma transpose_option_eq_None [op_iff]: "transpose_option x = Inr None \<longleftrightarrow> x = None"
  by (auto simp: transpose_option_def split: option.splits sum.splits)

lemma principal_row_roundtrip [simp]: "principal_of_row (principal_row_of p) = Inr p"
  by (simp add: principal_of_row_def principal_row_of_def)

lemma application_row_roundtrip [simp]: "application_of_row (application_row_of a) = Inr a"
  by (cases "app_applied_status a") (simp_all add: application_of_row_def application_row_of_def)

lemma principal_of_row_Inr: "principal_of_row r = Inr p \<longleftrightarrow> r = principal_row_of p"
proof
  assume "principal_of_row r = Inr p"
  then show "r = principal_row_of p"
    by (cases r) (auto simp: principal_of_row_def principal_row_of_def op_iff kind_of_text_Inr
        status_of_text_Inr)
qed simp

lemma principal_row_of_simps [simp]:
  "prow_id (principal_row_of p) = principal_id p"
  "prow_backend_user_id (principal_row_of p) = principal_backend_user_id p"
  "prow_kind (principal_row_of p) = kind_text (principal_kind p)"
  "prow_status (principal_row_of p) = status_text (principal_status p)"
  "prow_revision (principal_row_of p) = principal_revision p"
  by (simp_all add: principal_row_of_def)

end
