(* ===== verification/Fleet_Values.thy ===== *)
theory Fleet_Values
  imports Identity
begin

text \<open>
  Fleets, their controllers and listener runs as values: \<open>domain/src/fleet/values.rs\<close>, the records of
  \<open>domain/src/listener.rs\<close> with the pure admission rule \<open>admits_controller\<close>, and the stored fleet row
  of \<open>adapter-sqlite/src/fleet.rs\<close>, whose delivery flag is an integer.
\<close>

record fleet =
  fleet_id :: string
  fleet_owner_id :: string
  fleet_key :: string
  fleet_archived_at :: "int option"
  fleet_delivery_enabled :: bool
  fleet_label :: string
  fleet_controller_name :: string
  fleet_revision :: int
  fleet_updated_at :: int
  fleet_created_at :: int

record fleet_credential =
  cred_id :: string
  cred_fleet_id :: string
  cred_secret_hash :: string
  cred_created_at :: int
  cred_revoked_at :: "int option"

record fleet_connection =
  conn_fleet_id :: string
  conn_connection_id :: string
  conn_credential_id :: string
  conn_last_seen_at :: int
  conn_expires_at :: int
  conn_closed_at :: "int option"

record fleet_instance =
  inst_owner_id :: string
  inst_fleet_key :: string
  inst_instance_key :: string
  inst_agent_id :: string
  inst_retired_at :: "int option"

datatype fleet_actor = FleetPrincipal actor | FleetController string string

record fleet_row =
  frow_archived_at :: "int option"
  frow_id :: string
  frow_delivery_enabled :: int
  frow_label :: string
  frow_controller_name :: string
  frow_revision :: int
  frow_updated_at :: int
  frow_owner_id :: string
  frow_fleet_key :: string
  frow_created_at :: int

definition fleet_row_of :: "fleet \<Rightarrow> fleet_row" where
  "fleet_row_of v = \<lparr>frow_archived_at = fleet_archived_at v, frow_id = fleet_id v,
     frow_delivery_enabled = (if fleet_delivery_enabled v then 1 else 0), frow_label = fleet_label v,
     frow_controller_name = fleet_controller_name v, frow_revision = fleet_revision v,
     frow_updated_at = fleet_updated_at v, frow_owner_id = fleet_owner_id v,
     frow_fleet_key = fleet_key v, frow_created_at = fleet_created_at v\<rparr>"

definition fleet_of_row :: "fleet_row \<Rightarrow> fleet result" where
  "fleet_of_row r =
     rbind (if frow_delivery_enabled r = 0 then Inr False
            else if frow_delivery_enabled r = 1 then Inr True
            else Inl (failure_new Unavailable ''Invalid stored fleet delivery state'')) (\<lambda>d.
     Inr \<lparr>fleet_id = frow_id r, fleet_owner_id = frow_owner_id r, fleet_key = frow_fleet_key r,
       fleet_archived_at = frow_archived_at r, fleet_delivery_enabled = d, fleet_label = frow_label r,
       fleet_controller_name = frow_controller_name r, fleet_revision = frow_revision r,
       fleet_updated_at = frow_updated_at r, fleet_created_at = frow_created_at r\<rparr>)"

lemma fleet_row_roundtrip [simp]: "fleet_of_row (fleet_row_of f) = Inr f"
  by (simp add: fleet_of_row_def fleet_row_of_def)

section \<open>Listener runs\<close>

definition heartbeat_interval_ms :: int where
  "heartbeat_interval_ms = 30000"

definition heartbeat_expiry_ms :: int where
  "heartbeat_expiry_ms = 90000"

record controller =
  ctl_fleet_id :: string
  ctl_connection_id :: string
  ctl_credential_id :: string

record run =
  run_id :: string
  run_agent_id :: string
  run_controller :: controller
  run_release :: string
  run_started_at :: int
  run_last_seen_at :: int
  run_active_ms :: int
  run_messages_delivered :: int
  run_stopped_at :: "int option"
  run_disconnect_requested_at :: "int option"

record proof_of_control =
  proof_fleet_id :: string
  proof_connection_id :: string
  proof_credential :: string

record 'batch report =
  report_run_id :: string
  report_release :: string
  report_messages_delivered :: int
  report_stopped :: bool
  report_statistics :: "'batch option"
  report_controller :: proof_of_control

record report_outcome =
  outcome_disconnect :: bool
  outcome_closed :: bool
  outcome_current_release :: string
  outcome_statistics_accepted :: bool

record controller_binding =
  cb_owner_id :: string
  cb_fleet_key :: string
  cb_retired_at :: "int option"

record admission_facts =
  facts_binding :: controller_binding
  facts_fleet :: fleet
  facts_connection :: fleet_connection
  facts_credential :: fleet_credential
  facts_owner_status :: status

datatype controller_purpose = Reporting | Delivery

definition admits_controller ::
  "controller \<Rightarrow> admission_facts option \<Rightarrow> int \<Rightarrow> controller_purpose \<Rightarrow> bool" where
  "admits_controller c facts now purpose = (case facts of
     None \<Rightarrow> False
   | Some f \<Rightarrow>
       facts_owner_status f = Active \<and>
       cb_retired_at (facts_binding f) = None \<and>
       fleet_archived_at (facts_fleet f) = None \<and>
       cb_owner_id (facts_binding f) = fleet_owner_id (facts_fleet f) \<and>
       cb_fleet_key (facts_binding f) = fleet_key (facts_fleet f) \<and>
       fleet_id (facts_fleet f) = ctl_fleet_id c \<and>
       (purpose = Reporting \<or> fleet_delivery_enabled (facts_fleet f)) \<and>
       conn_connection_id (facts_connection f) = ctl_connection_id c \<and>
       conn_credential_id (facts_connection f) = ctl_credential_id c \<and>
       conn_closed_at (facts_connection f) = None \<and>
       conn_expires_at (facts_connection f) > now \<and>
       cred_fleet_id (facts_credential f) = fleet_id (facts_fleet f) \<and>
       cred_revoked_at (facts_credential f) = None)"

text \<open>Delivery asks for more than reporting, and admission only ever lapses as time passes.\<close>

lemma delivery_admission_stronger:
  "admits_controller c facts now Delivery \<Longrightarrow> admits_controller c facts now Reporting"
  by (auto simp: admits_controller_def split: option.splits)

lemma admission_lapses:
  "admits_controller c facts later purpose \<Longrightarrow> now \<le> later \<Longrightarrow> admits_controller c facts now purpose"
  by (auto simp: admits_controller_def split: option.splits)

end
