(* ===== verification/Store.thy ===== *)
theory Store
  imports Room_Tables Fleet_Values Decision_Values
begin

text \<open>
  The management database: one list of rows per table, the constraints its schema declares
  (\<open>database/management/sqlite/schema.json\<close>), and the statement on it. \<open>execute f\<close> is one statement
  whose effect on the tables is \<open>f\<close>: the constraints are checked on the result, in SQLite's order,
  and a statement that violates one leaves the database as it was. Starting from a database that
  satisfies its constraints this is the check SQLite makes row by row, so \<open>store_ok\<close> is an invariant
  of every statement.

  The row types are those of \<open>adapter-sqlite/src\<close> (\<open>core.rs\<close>, \<open>fleet.rs\<close>, \<open>listener.rs\<close>,
  \<open>runtime/decisions.rs\<close>); a table keeps the columns that the modelled statements read or write.
\<close>

section \<open>Rows\<close>

record agent_row =
  agrow_principal_id :: string
  agrow_principal_kind :: string
  agrow_owner_id :: string
  agrow_wake_mode :: string

record policy_row =
  polrow_id :: string
  polrow_revision :: int
  polrow_max_owner_agents :: int
  polrow_max_agents :: int
  polrow_max_pending :: int
  polrow_enrollment_seconds :: int
  polrow_reconcile_seconds :: int
  polrow_max_message_bytes :: int
  polrow_fleet_idle_timeout_seconds :: int
  polrow_agent_instructions :: string
  polrow_signup_mode :: string
  polrow_invitation_issuers :: string

record audit_row =
  aurow_id :: string
  aurow_request_id :: string
  aurow_actor_kind :: string
  aurow_actor_principal_id :: "string option"
  aurow_actor_credential_id :: "string option"
  aurow_owner_id :: "string option"
  aurow_room_id :: "string option"
  aurow_membership_generation :: "string option"
  aurow_authorizer_id :: "string option"
  aurow_added_by_id :: "string option"
  aurow_permission_code :: "string option"
  aurow_target_kind :: string
  aurow_target_id :: string
  aurow_action :: string
  aurow_outcome :: string
  aurow_message :: string
  aurow_created_at :: int

record agent_name_row =
  anrow_name :: string
  anrow_request_id :: "string option"
  anrow_instance_key :: "string option"
  anrow_agent_id :: "string option"

record wake_sender_row =
  wsrow_agent_id :: string
  wsrow_sender_principal_id :: string
  wsrow_include_agents :: int

record listener_row =
  lrow_controller_fleet_id :: string
  lrow_controller_connection_id :: string
  lrow_controller_credential_id :: string
  lrow_id :: string
  lrow_agent_id :: string
  lrow_release :: string
  lrow_started_at :: int
  lrow_last_seen_at :: int
  lrow_active_ms :: int
  lrow_messages_delivered :: int
  lrow_stopped_at :: "int option"
  lrow_disconnect_requested_at :: "int option"

record summary_row =
  srow_id :: string
  srow_agent_id :: string
  srow_run_id :: string
  srow_runtime :: string
  srow_session_id :: string
  srow_request_id :: string
  srow_turn_id :: string
  srow_item_id :: string
  srow_kind :: string
  srow_action :: string
  srow_blocking :: int
  srow_expires_at :: "int option"
  srow_created_at :: int
  srow_status :: string
  srow_review_text :: string

record question_row =
  qrow_decision_id :: string
  qrow_question_id :: string
  qrow_position :: int
  qrow_title :: string
  qrow_prompt :: string
  qrow_secret :: int
  qrow_allow_text :: int

record option_row =
  orow_decision_id :: string
  orow_question_id :: string
  orow_option_id :: string
  orow_position :: int
  orow_label :: string
  orow_description :: string

record answer_row =
  answrow_decision_id :: string
  answrow_question_id :: string
  answrow_option_id :: "string option"
  answrow_answer_text :: "string option"

section \<open>The database\<close>

record store =
  principals :: "principal_row list"
  members :: "member_row list"
  agents :: "agent_row list"
  principal_roles :: "role_row list"
  principal_applications :: "application_row list"
  sessions :: "member_session list"
  policies :: "policy_row list"
  audits :: "audit_row list"
  agent_names :: "agent_name_row list"
  wake_sender_rows :: "wake_sender_row list"
  rooms :: room_tables
  fleets :: "fleet_row list"
  fleet_instances :: "fleet_instance list"
  fleet_credentials :: "fleet_credential list"
  fleet_connections :: "fleet_connection list"
  listener_runs :: "listener_row list"
  decisions :: "summary_row list"
  decision_questions :: "question_row list"
  decision_options :: "option_row list"
  decision_answers :: "answer_row list"

type_synonym 'a db = "(store, failure, 'a) op"

text \<open>The \<open>role\<close> table is reference data: no statement of the program changes it.\<close>

definition role_rows :: "(string \<times> string) list" where
  "role_rows = [(''member'', ''human''), (''administrator'', ''human''), (''agent'', ''agent'')]"

text \<open>The permission of the catalogue whose scope is a room, beside the permissions of roles.\<close>

definition room_scope_permissions :: "(string \<times> string) list" where
  "room_scope_permissions = [(''room.agent.invite'', ''agent_room'')]"

section \<open>Constraints\<close>

text \<open>Row checks: the \<open>CHECK\<close> clauses of each table.\<close>

definition principal_check :: "principal_row \<Rightarrow> bool" where
  "principal_check r \<longleftrightarrow>
     1 \<le> sql_length (prow_backend_user_id r) \<and> sql_length (prow_backend_user_id r) \<le> 255 \<and>
     prow_kind r \<in> {''human'', ''agent''} \<and> prow_status r \<in> {''active'', ''suspended'', ''revoked''} \<and>
     0 \<le> prow_revision r"

definition member_check :: "member_row \<Rightarrow> bool" where
  "member_check r \<longleftrightarrow> mrow_principal_kind r = ''human''"

definition agent_check :: "agent_row \<Rightarrow> bool" where
  "agent_check r \<longleftrightarrow> agrow_principal_kind r = ''agent'' \<and>
     agrow_wake_mode r \<in> {''humans'', ''everyone'', ''selected''}"

definition agent_name_check :: "agent_name_row \<Rightarrow> bool" where
  "agent_name_check r \<longleftrightarrow>
     (anrow_agent_id r \<noteq> None \<and> anrow_request_id r = None \<and> anrow_instance_key r = None) \<or>
     (anrow_agent_id r = None \<and> anrow_request_id r \<noteq> None \<and> anrow_instance_key r \<noteq> None)"

definition wake_sender_check :: "wake_sender_row \<Rightarrow> bool" where
  "wake_sender_check r \<longleftrightarrow>
     wsrow_include_agents r \<in> {0, 1} \<and> wsrow_agent_id r \<noteq> wsrow_sender_principal_id r"

definition application_check :: "application_row \<Rightarrow> bool" where
  "application_check r \<longleftrightarrow> (case arow_applied_status r of None \<Rightarrow> True
     | Some st \<Rightarrow> st \<in> {''active'', ''suspended'', ''revoked''})"

definition session_check :: "member_session \<Rightarrow> bool" where
  "session_check r \<longleftrightarrow> session_created_at r < session_expires_at r"

definition policy_check :: "policy_row \<Rightarrow> bool" where
  "policy_check r \<longleftrightarrow>
     polrow_id r = ''instance'' \<and> 0 \<le> polrow_revision r \<and>
     1 \<le> polrow_max_owner_agents r \<and> polrow_max_owner_agents r \<le> 100 \<and>
     polrow_max_owner_agents r \<le> polrow_max_agents r \<and> polrow_max_agents r \<le> 1000 \<and>
     1 \<le> polrow_max_pending r \<and> polrow_max_pending r \<le> 1000 \<and>
     60 \<le> polrow_enrollment_seconds r \<and> polrow_enrollment_seconds r \<le> 3600 \<and>
     30 \<le> polrow_reconcile_seconds r \<and> polrow_reconcile_seconds r \<le> 3600 \<and>
     4096 \<le> polrow_max_message_bytes r \<and> polrow_max_message_bytes r \<le> 4194304 \<and>
     0 \<le> polrow_fleet_idle_timeout_seconds r \<and> polrow_fleet_idle_timeout_seconds r \<le> 604800 \<and>
     polrow_signup_mode r \<in> {''invitation'', ''open''} \<and>
     polrow_invitation_issuers r \<in> {''administrators'', ''members''} \<and>
     length (polrow_agent_instructions r) \<le> 8192"

definition audit_check :: "audit_row \<Rightarrow> bool" where
  "audit_check r \<longleftrightarrow>
     aurow_actor_kind r \<in> {''human'', ''agent'', ''controller'', ''system'', ''anonymous''} \<and>
     (aurow_actor_kind r \<in> {''human'', ''agent''} \<longleftrightarrow> aurow_actor_principal_id r \<noteq> None) \<and>
     (aurow_actor_kind r = ''controller'' \<longleftrightarrow> aurow_actor_credential_id r \<noteq> None) \<and>
     aurow_outcome r \<in> {''accepted'', ''rejected'', ''applied'', ''failed''}"

definition fleet_check :: "fleet_row \<Rightarrow> bool" where
  "fleet_check r \<longleftrightarrow> frow_delivery_enabled r \<in> {0, 1} \<and> 0 \<le> frow_revision r"

definition connection_check :: "fleet_connection \<Rightarrow> bool" where
  "connection_check r \<longleftrightarrow> conn_last_seen_at r < conn_expires_at r"

definition listener_check :: "listener_row \<Rightarrow> bool" where
  "listener_check r \<longleftrightarrow>
     1 \<le> sql_length (lrow_release r) \<and> sql_length (lrow_release r) \<le> 200 \<and>
     0 \<le> lrow_active_ms r \<and> 0 \<le> lrow_messages_delivered r \<and> lrow_started_at r \<le> lrow_last_seen_at r"

definition decision_check :: "summary_row \<Rightarrow> bool" where
  "decision_check r \<longleftrightarrow>
     srow_kind r \<in> {''permission'', ''question''} \<and> srow_blocking r \<in> {0, 1} \<and>
     (case srow_expires_at r of None \<Rightarrow> True | Some t \<Rightarrow> 0 \<le> t) \<and> 0 \<le> srow_created_at r \<and>
     srow_status r \<in> {''pending'', ''answered'', ''responded'', ''cancelled'', ''expired''}"

definition question_check :: "question_row \<Rightarrow> bool" where
  "question_check r \<longleftrightarrow> 0 \<le> qrow_position r \<and> qrow_secret r \<in> {0, 1} \<and> qrow_allow_text r \<in> {0, 1}"

definition option_check :: "option_row \<Rightarrow> bool" where
  "option_check r \<longleftrightarrow> 0 \<le> orow_position r"

definition answer_check :: "answer_row \<Rightarrow> bool" where
  "answer_check r \<longleftrightarrow> (answrow_option_id r = None) \<noteq> (answrow_answer_text r = None)"

definition checks_ok :: "store \<Rightarrow> bool" where
  "checks_ok s \<longleftrightarrow>
     list_all principal_check (principals s) \<and> list_all member_check (members s) \<and>
     list_all agent_check (agents s) \<and> list_all application_check (principal_applications s) \<and>
     list_all session_check (sessions s) \<and> list_all policy_check (policies s) \<and>
     list_all audit_check (audits s) \<and> list_all fleet_check (fleets s) \<and>
     list_all connection_check (fleet_connections s) \<and> list_all listener_check (listener_runs s) \<and>
     list_all decision_check (decisions s) \<and> list_all question_check (decision_questions s) \<and>
     list_all option_check (decision_options s) \<and> list_all answer_check (decision_answers s) \<and>
     list_all agent_name_check (agent_names s) \<and> list_all wake_sender_check (wake_sender_rows s) \<and>
     room_checks_ok (rooms s)"

definition uniques_ok :: "store \<Rightarrow> bool" where
  "uniques_ok s \<longleftrightarrow>
     unique_on prow_id (principals s) \<and> unique_on prow_backend_user_id (principals s) \<and>
     unique_on mrow_principal_id (members s) \<and> unique_on agrow_principal_id (agents s) \<and>
     unique_on rrow_principal_id (principal_roles s) \<and>
     unique_on arow_principal_id (principal_applications s) \<and>
     unique_on session_secret_hash (sessions s) \<and> unique_on polrow_id (policies s) \<and>
     unique_on aurow_id (audits s) \<and> unique_on anrow_name (agent_names s) \<and>
     unique_on (\<lambda>r. (anrow_request_id r, anrow_instance_key r))
       (filter (\<lambda>r. anrow_request_id r \<noteq> None \<and> anrow_instance_key r \<noteq> None) (agent_names s)) \<and>
     unique_on anrow_agent_id (filter (\<lambda>r. anrow_agent_id r \<noteq> None) (agent_names s)) \<and>
     unique_on (\<lambda>r. (wsrow_agent_id r, wsrow_sender_principal_id r)) (wake_sender_rows s) \<and>
     room_uniques_ok (rooms s) \<and>
     unique_on frow_id (fleets s) \<and> unique_on (\<lambda>r. (frow_owner_id r, frow_fleet_key r)) (fleets s) \<and>
     unique_on (\<lambda>r. (inst_owner_id r, inst_fleet_key r, inst_instance_key r)) (fleet_instances s) \<and>
     unique_on inst_agent_id (fleet_instances s) \<and> unique_on cred_id (fleet_credentials s) \<and>
     unique_on conn_fleet_id (fleet_connections s) \<and>
     unique_on conn_connection_id (fleet_connections s) \<and> unique_on lrow_id (listener_runs s) \<and>
     unique_on srow_id (decisions s) \<and>
     unique_on (\<lambda>r. (srow_run_id r, srow_session_id r, srow_request_id r)) (decisions s) \<and>
     unique_on (\<lambda>r. (qrow_decision_id r, qrow_question_id r)) (decision_questions s) \<and>
     unique_on (\<lambda>r. (qrow_decision_id r, qrow_position r)) (decision_questions s) \<and>
     unique_on (\<lambda>r. (orow_decision_id r, orow_question_id r, orow_option_id r)) (decision_options s) \<and>
     unique_on (\<lambda>r. (orow_decision_id r, orow_question_id r, orow_position r)) (decision_options s) \<and>
     unique_on (\<lambda>r. (answrow_decision_id r, answrow_question_id r)) (decision_answers s)"

definition identity_references_ok :: "store \<Rightarrow> bool" where
  "identity_references_ok s \<longleftrightarrow>
     refers (\<lambda>r. (mrow_principal_id r, mrow_principal_kind r)) (members s)
       (\<lambda>p. (prow_id p, prow_kind p)) (principals s) \<and>
     refers (\<lambda>r. (agrow_principal_id r, agrow_principal_kind r)) (agents s)
       (\<lambda>p. (prow_id p, prow_kind p)) (principals s) \<and>
     refers agrow_owner_id (agents s) mrow_principal_id (members s) \<and>
     refers (\<lambda>r. (rrow_principal_id r, rrow_principal_kind r)) (principal_roles s)
       (\<lambda>p. (prow_id p, prow_kind p)) (principals s) \<and>
     refers (\<lambda>r. (rrow_role_code r, rrow_principal_kind r)) (principal_roles s) id role_rows \<and>
     refers_opt rrow_assigned_by (principal_roles s) mrow_principal_id (members s) \<and>
     refers arow_principal_id (principal_applications s) prow_id (principals s) \<and>
     refers session_member_id (sessions s) mrow_principal_id (members s) \<and>
     refers_opt aurow_actor_principal_id (audits s) prow_id (principals s) \<and>
     refers_opt aurow_owner_id (audits s) mrow_principal_id (members s) \<and>
     refers_opt aurow_authorizer_id (audits s) prow_id (principals s) \<and>
     refers_opt aurow_added_by_id (audits s) prow_id (principals s) \<and>
     refers_opt aurow_permission_code (audits s) permission_code permission_all \<and>
     refers_opt anrow_agent_id (agent_names s) agrow_principal_id (agents s) \<and>
     refers wsrow_agent_id (wake_sender_rows s) agrow_principal_id (agents s) \<and>
     refers wsrow_sender_principal_id (wake_sender_rows s) prow_id (principals s)"

definition fleet_references_ok :: "store \<Rightarrow> bool" where
  "fleet_references_ok s \<longleftrightarrow>
     refers frow_owner_id (fleets s) mrow_principal_id (members s) \<and>
     refers (\<lambda>r. (inst_owner_id r, inst_fleet_key r)) (fleet_instances s)
       (\<lambda>f. (frow_owner_id f, frow_fleet_key f)) (fleets s) \<and>
     refers (\<lambda>r. (inst_agent_id r, inst_owner_id r)) (fleet_instances s)
       (\<lambda>a. (agrow_principal_id a, agrow_owner_id a)) (agents s) \<and>
     refers cred_fleet_id (fleet_credentials s) frow_id (fleets s) \<and>
     refers conn_fleet_id (fleet_connections s) frow_id (fleets s) \<and>
     refers (\<lambda>r. (conn_credential_id r, conn_fleet_id r)) (fleet_connections s)
       (\<lambda>c. (cred_id c, cred_fleet_id c)) (fleet_credentials s) \<and>
     refers lrow_agent_id (listener_runs s) agrow_principal_id (agents s) \<and>
     refers lrow_controller_fleet_id (listener_runs s) frow_id (fleets s) \<and>
     refers (\<lambda>r. (lrow_controller_credential_id r, lrow_controller_fleet_id r)) (listener_runs s)
       (\<lambda>c. (cred_id c, cred_fleet_id c)) (fleet_credentials s)"

definition decision_references_ok :: "store \<Rightarrow> bool" where
  "decision_references_ok s \<longleftrightarrow>
     refers srow_agent_id (decisions s) agrow_principal_id (agents s) \<and>
     refers (\<lambda>r. (srow_run_id r, srow_agent_id r)) (decisions s)
       (\<lambda>l. (lrow_id l, lrow_agent_id l)) (listener_runs s) \<and>
     refers qrow_decision_id (decision_questions s) srow_id (decisions s) \<and>
     refers (\<lambda>r. (orow_decision_id r, orow_question_id r)) (decision_options s)
       (\<lambda>q. (qrow_decision_id q, qrow_question_id q)) (decision_questions s) \<and>
     refers (\<lambda>r. (answrow_decision_id r, answrow_question_id r)) (decision_answers s)
       (\<lambda>q. (qrow_decision_id q, qrow_question_id q)) (decision_questions s) \<and>
     refers_opt (\<lambda>r. map_option (\<lambda>opt. (answrow_decision_id r, answrow_question_id r, opt)) (answrow_option_id r))
       (decision_answers s)
       (\<lambda>q. (orow_decision_id q, orow_question_id q, orow_option_id q)) (decision_options s)"

definition room_references_ok :: "store \<Rightarrow> bool" where
  "room_references_ok s \<longleftrightarrow>
     refers grrow_agent_id (room_grants (rooms s)) agrow_principal_id (agents s) \<and>
     refers grrow_authorizer_id (room_grants (rooms s)) prow_id (principals s) \<and>
     refers grrow_added_by_id (room_grants (rooms s)) prow_id (principals s) \<and>
     refers (\<lambda>r. (rprow_permission_code r, rprow_grant_scope r)) (room_permissions (rooms s)) id
       room_scope_permissions \<and>
     refers (\<lambda>r. (fpmrow_permission_code r, fpmrow_grant_scope r)) (fleet_permissions (rooms s)) id
       room_scope_permissions \<and>
     refers rprow_granted_by_member_id (room_permissions (rooms s)) mrow_principal_id (members s) \<and>
     refers (\<lambda>r. (own_agent_id r, own_owner_id r)) (owner_conversations (rooms s))
       (\<lambda>a. (agrow_principal_id a, agrow_owner_id a)) (agents s) \<and>
     refers conv_owner_id (management_conversations (rooms s)) mrow_principal_id (members s) \<and>
     refers fprow_agent_id (fleet_policies (rooms s)) inst_agent_id (fleet_instances s) \<and>
     refers (\<lambda>r. (fprow_agent_id r, fprow_approved_by_member_id r)) (fleet_policies (rooms s))
       (\<lambda>a. (agrow_principal_id a, agrow_owner_id a)) (agents s) \<and>
     room_links_ok (rooms s)"

definition references_ok :: "store \<Rightarrow> bool" where
  "references_ok s \<longleftrightarrow>
     identity_references_ok s \<and> fleet_references_ok s \<and> decision_references_ok s \<and>
     room_references_ok s"

text \<open>A revision is a 64-bit integer: the columns are \<open>STRICT\<close>, so a sum that leaves the range is refused.\<close>

definition ranges_ok :: "store \<Rightarrow> bool" where
  "ranges_ok s \<longleftrightarrow> list_all (\<lambda>r. i64_ok (prow_revision r)) (principals s)"

definition store_ok :: "store \<Rightarrow> bool" where
  "store_ok s \<longleftrightarrow> ranges_ok s \<and> checks_ok s \<and> uniques_ok s \<and> references_ok s"

section \<open>Statements\<close>

definition execute :: "(store \<Rightarrow> store) \<Rightarrow> unit db" where
  "execute f s =
     (if \<not> ranges_ok (f s)
      then (Inl (sql_failure (OtherDatabaseError ''cannot store REAL value in INTEGER column'')), s)
      else if \<not> checks_ok (f s) then (Inl (sql_failure CheckViolation), s)
      else if \<not> uniques_ok (f s) then (Inl (sql_failure UniqueViolation), s)
      else if \<not> references_ok (f s) then (Inl (sql_failure ForeignKeyViolation), s)
      else (Inr (), f s))"

text \<open>An \<open>UPDATE\<close> whose row count the program compares: \<open>count\<close> is the number of matching rows.\<close>

definition execute_counted :: "(store \<Rightarrow> nat) \<Rightarrow> (store \<Rightarrow> store) \<Rightarrow> nat db" where
  "execute_counted count f s = (case execute f s of (Inl e, t) \<Rightarrow> (Inl e, t) | (Inr _, t) \<Rightarrow> (Inr (count s), t))"

lemma execute_Inr [op_iff]: "execute f s = (Inr u, s') \<longleftrightarrow> store_ok (f s) \<and> s' = f s"
  by (auto simp: execute_def store_ok_def)

lemma execute_Inl: "execute f s = (Inl e, s') \<Longrightarrow> s' = s \<and> \<not> store_ok (f s)"
  by (auto simp: execute_def store_ok_def split: if_splits)

lemma execute_ok: "store_ok (f s) \<Longrightarrow> execute f s = (Inr (), f s)"
  by (simp add: execute_Inr)

lemma execute_counted_Inr [op_iff]:
  "execute_counted count f s = (Inr n, s') \<longleftrightarrow> store_ok (f s) \<and> s' = f s \<and> n = count s"
  by (cases "store_ok (f s)")
    (auto simp: execute_counted_def execute_ok op_iff split: prod.splits sum.splits)

lemma execute_counted_Inl: "execute_counted count f s = (Inl e, s') \<Longrightarrow> s' = s"
  by (auto simp: execute_counted_def split: prod.splits sum.splits dest: execute_Inl)

text \<open>Every statement keeps the constraints, and so does every program built from statements.\<close>

lemma keeps_execute [intro]: "keeps store_ok (execute f)"
  by (rule keepsI) (auto simp: execute_def store_ok_def split: if_splits)

lemma keeps_execute_counted [intro]: "keeps store_ok (execute_counted count f)"
proof (rule keepsI)
  fix s r s'
  assume "store_ok s" and "execute_counted count f s = (r, s')"
  then show "store_ok s'"
    by (cases r) (auto simp: op_iff dest: execute_counted_Inl)
qed

end
