(* ===== verification/Store_Core.thy ===== *)
theory Store_Core
  imports Store "HOL-Library.List_Lexorder" "HOL-Library.Char_ord" "HOL-Library.Product_Lexorder" "HOL-Library.Signed_Division"
begin

text \<open>
  The identity, authorization and policy statements of the storage adapter:
  \<open>adapter-sqlite/src/authorization.rs\<close> and \<open>adapter-sqlite/src/core.rs\<close>, one definition per method
  of the \<open>AuthorizationRepository\<close> and \<open>CoreRepository\<close> traits. SQLite orders text by its bytes, which
  is the lexicographic order of lists of characters. \<open>identity::id()\<close>, a fresh UUID, is an argument.
\<close>

section \<open>Authorization reads\<close>

definition transpose_row :: "('r \<Rightarrow> 'a result) \<Rightarrow> 'r option \<Rightarrow> 'a option result" where
  "transpose_row f x = transpose_option (map_option f x)"

lemma transpose_row_simps [simp]:
  "transpose_row f None = Inr None"
  "transpose_row f (Some r) = rbind (f r) (\<lambda>v. Inr (Some v))"
  by (simp_all add: transpose_row_def transpose_option_def rbind_def split: sum.splits)

lemma transpose_row_eq_Some [op_iff]:
  "transpose_row f x = Inr (Some v) \<longleftrightarrow> (\<exists>r. x = Some r \<and> f r = Inr v)"
  by (cases x) (auto simp: op_iff)

lemma transpose_row_eq_None [op_iff]: "transpose_row f x = Inr None \<longleftrightarrow> x = None"
  by (cases x) (auto simp: op_iff)

definition repo_principal :: "string \<Rightarrow> principal option db" where
  "repo_principal pid = read_op (\<lambda>s.
     transpose_row principal_of_row (find_row (\<lambda>r. prow_id r = pid) (principals s)))"

definition repo_principal_by_backend_user_id :: "string \<Rightarrow> principal option db" where
  "repo_principal_by_backend_user_id uid = read_op (\<lambda>s.
     transpose_row principal_of_row (find_row (\<lambda>r. prow_backend_user_id r = uid) (principals s)))"

definition agent_of_row :: "agent_row \<Rightarrow> agent result" where
  "agent_of_row r = rbind (wake_of_text (agrow_wake_mode r)) (\<lambda>mode.
     Inr \<lparr>agent_principal_id = agrow_principal_id r, agent_owner_id = agrow_owner_id r,
       agent_wake_mode = mode\<rparr>)"

definition repo_agent :: "string \<Rightarrow> agent option db" where
  "repo_agent aid = read_op (\<lambda>s.
     transpose_row agent_of_row (find_row (\<lambda>r. agrow_principal_id r = aid) (agents s)))"

definition binding_rows :: "store \<Rightarrow> agent_binding list" where
  "binding_rows s =
     [\<lparr>binding_agent_id = inst_agent_id i, binding_retired_at = inst_retired_at i,
       binding_fleet_archived_at = frow_archived_at f\<rparr>.
       i <- fleet_instances s, f <- fleets s,
       frow_owner_id f = inst_owner_id i \<and> frow_fleet_key f = inst_fleet_key i]"

definition repo_agent_binding :: "string \<Rightarrow> agent_binding option db" where
  "repo_agent_binding aid = read_op (\<lambda>s.
     Inr (find_row (\<lambda>b. binding_agent_id b = aid) (binding_rows s)))"

definition repo_session :: "string \<Rightarrow> member_session option db" where
  "repo_session hash = read_op (\<lambda>s. Inr (find_row (\<lambda>r. session_secret_hash r = hash) (sessions s)))"

definition permission_of_code :: "string \<Rightarrow> permission result" where
  "permission_of_code code = ok_or (permission_parse code)
     (failure_new Unavailable ''Stored permission is not in the current catalog'')"

definition permission_codes :: "string \<Rightarrow> store \<Rightarrow> string list" where
  "permission_codes pid s =
     sort [c. r <- principal_roles s, rrow_principal_id r = pid,
           (role, c) <- role_permissions, role = rrow_role_code r]"

definition repo_permissions :: "string \<Rightarrow> permission list db" where
  "repo_permissions pid = read_op (\<lambda>s.
     collect_results (map permission_of_code (permission_codes pid s)))"

section \<open>Principals, members and their applications\<close>

definition repo_insert_principal :: "principal \<Rightarrow> unit db" where
  "repo_insert_principal v = execute (\<lambda>s. s\<lparr>principals := principals s @ [principal_row_of v]\<rparr>)"

definition repo_save_principal :: "principal \<Rightarrow> unit db" where
  "repo_save_principal v =
     bind_op (execute_counted
       (\<lambda>s. count_rows (\<lambda>r. prow_id r = principal_id v) (principals s))
       (\<lambda>s. s\<lparr>principals := update_rows (\<lambda>r. prow_id r = principal_id v) (\<lambda>_. principal_row_of v) (principals s)\<rparr>))
     (\<lambda>n. lift_op (affected n ''Principal''))"

definition repo_insert_application :: "application \<Rightarrow> unit db" where
  "repo_insert_application v =
     execute (\<lambda>s. s\<lparr>principal_applications := principal_applications s @ [application_row_of v]\<rparr>)"

definition repo_save_application :: "application \<Rightarrow> unit db" where
  "repo_save_application v =
     bind_op (execute_counted
       (\<lambda>s. count_rows (\<lambda>r. arow_principal_id r = app_principal_id v) (principal_applications s))
       (\<lambda>s. s\<lparr>principal_applications := update_rows (\<lambda>r. arow_principal_id r = app_principal_id v)
              (\<lambda>_. application_row_of v) (principal_applications s)\<rparr>))
     (\<lambda>n. lift_op (affected n ''Principal application''))"

definition repo_insert_role :: "principal_role \<Rightarrow> unit db" where
  "repo_insert_role v = execute (\<lambda>s. s\<lparr>principal_roles := principal_roles s @
     [\<lparr>rrow_principal_id = role_principal_id v, rrow_principal_kind = kind_text (role_principal_kind v),
       rrow_role_code = role_text (role_role v), rrow_assigned_by = role_assigned_by v,
       rrow_assigned_at = role_assigned_at v\<rparr>]\<rparr>)"

definition repo_save_role :: "principal_role \<Rightarrow> unit db" where
  "repo_save_role v =
     bind_op (execute_counted
       (\<lambda>s. count_rows (\<lambda>r. rrow_principal_id r = role_principal_id v) (principal_roles s))
       (\<lambda>s. s\<lparr>principal_roles := update_rows (\<lambda>r. rrow_principal_id r = role_principal_id v)
              (\<lambda>r. r\<lparr>rrow_role_code := role_text (role_role v), rrow_assigned_by := role_assigned_by v,
                     rrow_assigned_at := role_assigned_at v\<rparr>) (principal_roles s)\<rparr>))
     (\<lambda>n. lift_op (affected n ''Principal role''))"

definition repo_insert_member :: "member \<Rightarrow> unit db" where
  "repo_insert_member v = execute (\<lambda>s. s\<lparr>members := members s @
     [\<lparr>mrow_principal_id = member_principal_id v, mrow_principal_kind = ''human'',
       mrow_display_name = member_display_name v\<rparr>]\<rparr>)"

definition repo_save_member :: "member \<Rightarrow> unit db" where
  "repo_save_member v =
     bind_op (execute_counted
       (\<lambda>s. count_rows (\<lambda>r. mrow_principal_id r = member_principal_id v) (members s))
       (\<lambda>s. s\<lparr>members := update_rows (\<lambda>r. mrow_principal_id r = member_principal_id v)
              (\<lambda>r. r\<lparr>mrow_display_name := member_display_name v\<rparr>) (members s)\<rparr>))
     (\<lambda>n. lift_op (affected n ''Member''))"

definition member_query :: "store \<Rightarrow> (principal_row \<times> member_row \<times> role_row \<times> application_row) list" where
  "member_query s =
     [(p, m, r, a). p <- principals s, m <- members s, mrow_principal_id m = prow_id p,
       r <- principal_roles s, rrow_principal_id r = prow_id p,
       a <- principal_applications s, arow_principal_id a = prow_id p]"

definition repo_member_view :: "string \<Rightarrow> member_view option db" where
  "repo_member_view mid = read_op (\<lambda>s.
     transpose_row member_view_of_rows (find_row (\<lambda>(p, _). prow_id p = mid) (member_query s)))"

text \<open>The message is the UTF-8 text "Use page >= 1 and pageSize 1-100" with the two typographic signs.\<close>

definition page_message :: string where
  "page_message = ''Use page '' @ [CHR 0xE2, CHR 0x89, CHR 0xA5] @ '' 1 and pageSize 1'' @
     [CHR 0xE2, CHR 0x80, CHR 0x93] @ ''100''"

definition total_pages :: "int \<Rightarrow> int \<Rightarrow> int" where
  "total_pages total_items limit = max 1 ((total_items + limit - 1) sdiv limit)"

definition page_rows :: "int \<Rightarrow> int \<Rightarrow> 'a list \<Rightarrow> 'a list" where
  "page_rows page limit rows = take (nat limit) (drop (nat ((page - 1) * limit)) rows)"

definition repo_members_page :: "int \<Rightarrow> int \<Rightarrow> member_view page db" where
  "repo_members_page page limit = read_op (\<lambda>s.
     if \<not> (1 \<le> page \<and> page \<le> 100000) \<or> \<not> (1 \<le> limit \<and> limit \<le> 100)
     then Inl (failure_new Invalid page_message)
     else
       let total_items = int (length (member_query s));
           rows = page_rows page limit
             (sort_key (\<lambda>(p, _). (prow_created_at p, prow_id p)) (member_query s))
       in rbind (collect_results (map member_view_of_rows rows)) (\<lambda>items.
            Inr \<lparr>page_items = items, page_page = page, page_size = limit, page_total_items = total_items,
              page_total_pages = total_pages total_items limit\<rparr>))"

definition active_administrators :: "store \<Rightarrow> (principal_row \<times> role_row) list" where
  "active_administrators s =
     filter (\<lambda>(p, r). rrow_principal_id r = prow_id p \<and> prow_status p = ''active'' \<and>
         rrow_role_code r = ''administrator'')
       (List.product (principals s) (principal_roles s))"

definition repo_active_administrator_count :: "int db" where
  "repo_active_administrator_count = read_op (\<lambda>s. Inr (int (length (active_administrators s))))"

definition owned_agent_ids :: "string \<Rightarrow> store \<Rightarrow> string list" where
  "owned_agent_ids owner s = map agrow_principal_id (filter (\<lambda>r. agrow_owner_id r = owner) (agents s))"

definition revoke_principals :: "string list \<Rightarrow> store \<Rightarrow> store" where
  "revoke_principals ids s = s\<lparr>principals :=
     update_rows (\<lambda>r. prow_id r \<in> set ids \<and> prow_status r \<noteq> ''revoked'')
       (\<lambda>r. r\<lparr>prow_status := ''revoked'', prow_revision := prow_revision r + 1\<rparr>) (principals s)\<rparr>"

definition check_applications_at :: "string list \<Rightarrow> int \<Rightarrow> store \<Rightarrow> store" where
  "check_applications_at ids now s = s\<lparr>principal_applications :=
     update_rows (\<lambda>r. arow_principal_id r \<in> set ids) (\<lambda>r. r\<lparr>arow_next_check_at := now\<rparr>)
       (principal_applications s)\<rparr>"

definition check_grants_at :: "string list \<Rightarrow> int \<Rightarrow> store \<Rightarrow> store" where
  "check_grants_at ids now s = s\<lparr>rooms := rooms s\<lparr>room_applications :=
     update_rows (\<lambda>r. raprow_agent_id r \<in> set ids) (\<lambda>r. r\<lparr>raprow_next_check_at := now\<rparr>)
       (room_applications (rooms s))\<rparr>\<rparr>"

definition repo_schedule_owned_agents :: "string \<Rightarrow> bool \<Rightarrow> int \<Rightarrow> unit db" where
  "repo_schedule_owned_agents owner revoke now =
     bind_op (read_op (\<lambda>s. Inr (owned_agent_ids owner s))) (\<lambda>ids.
     bind_op (if revoke then execute (revoke_principals ids) else return_op ()) (\<lambda>_.
     bind_op (execute_counted (\<lambda>s. count_rows (\<lambda>r. arow_principal_id r \<in> set ids) (principal_applications s))
       (check_applications_at ids now)) (\<lambda>changed.
     if changed \<noteq> length ids then fail_op (failure_new Missing ''Owned agent state is missing'')
     else execute (check_grants_at ids now))))"

section \<open>The instance policy\<close>

record instance_policy =
  policy_revision :: int
  policy_max_owner_agents :: int
  policy_max_agents :: int
  policy_max_pending :: int
  policy_enrollment_seconds :: int
  policy_reconcile_seconds :: int
  policy_max_message_bytes :: int
  policy_fleet_idle_timeout_seconds :: int
  policy_agent_instructions :: string
  policy_signup_mode :: string
  policy_invitation_issuers :: string

definition policy_row_of :: "instance_policy \<Rightarrow> policy_row" where
  "policy_row_of v = \<lparr>polrow_id = ''instance'', polrow_revision = policy_revision v,
     polrow_max_owner_agents = policy_max_owner_agents v, polrow_max_agents = policy_max_agents v,
     polrow_max_pending = policy_max_pending v, polrow_enrollment_seconds = policy_enrollment_seconds v,
     polrow_reconcile_seconds = policy_reconcile_seconds v,
     polrow_max_message_bytes = policy_max_message_bytes v,
     polrow_fleet_idle_timeout_seconds = policy_fleet_idle_timeout_seconds v,
     polrow_agent_instructions = policy_agent_instructions v,
     polrow_signup_mode = policy_signup_mode v,
     polrow_invitation_issuers = policy_invitation_issuers v\<rparr>"

definition policy_of_row :: "policy_row \<Rightarrow> instance_policy" where
  "policy_of_row r = \<lparr>policy_revision = polrow_revision r,
     policy_max_owner_agents = polrow_max_owner_agents r, policy_max_agents = polrow_max_agents r,
     policy_max_pending = polrow_max_pending r, policy_enrollment_seconds = polrow_enrollment_seconds r,
     policy_reconcile_seconds = polrow_reconcile_seconds r,
     policy_max_message_bytes = polrow_max_message_bytes r,
     policy_fleet_idle_timeout_seconds = polrow_fleet_idle_timeout_seconds r,
     policy_agent_instructions = polrow_agent_instructions r, policy_signup_mode = polrow_signup_mode r,
     policy_invitation_issuers = polrow_invitation_issuers r\<rparr>"

definition repo_policy :: "instance_policy option db" where
  "repo_policy = read_op (\<lambda>s.
     Inr (map_option policy_of_row (find_row (\<lambda>r. polrow_id r = ''instance'') (policies s))))"

definition repo_insert_policy :: "instance_policy \<Rightarrow> unit db" where
  "repo_insert_policy v = execute (\<lambda>s. s\<lparr>policies := policies s @ [policy_row_of v]\<rparr>)"

definition repo_save_policy :: "instance_policy \<Rightarrow> unit db" where
  "repo_save_policy v =
     bind_op (execute_counted
       (\<lambda>s. count_rows (\<lambda>r. polrow_id r = ''instance'') (policies s))
       (\<lambda>s. s\<lparr>policies := update_rows (\<lambda>r. polrow_id r = ''instance'') (\<lambda>_. policy_row_of v) (policies s)\<rparr>))
     (\<lambda>n. lift_op (affected n ''Instance policy''))"

lemma policy_row_roundtrip [simp]: "policy_of_row (policy_row_of v) = v"
  by (simp add: policy_of_row_def policy_row_of_def)

section \<open>Audit events\<close>

fun audit_actor_columns :: "audit_actor \<Rightarrow> string \<times> string option \<times> string option" where
  "audit_actor_columns (AuditPrincipal a) =
     (kind_text (actor_kind a), Some (actor_principal_id a), None)"
| "audit_actor_columns (AuditController c) = (''controller'', None, Some c)"
| "audit_actor_columns AuditSystem = (''system'', None, None)"
| "audit_actor_columns AuditAnonymous = (''anonymous'', None, None)"

definition audit_row_of :: "string \<Rightarrow> audit \<Rightarrow> audit_row" where
  "audit_row_of event_id v = (case audit_actor_columns (audit_actor v) of (kind, pid, cid) \<Rightarrow>
     \<lparr>aurow_id = event_id, aurow_request_id = audit_request_id v, aurow_actor_kind = kind,
      aurow_actor_principal_id = pid, aurow_actor_credential_id = cid,
      aurow_owner_id = audit_owner_id v, aurow_room_id = audit_room_id v,
      aurow_membership_generation = audit_membership_generation v,
      aurow_authorizer_id = audit_authorizer_id v, aurow_added_by_id = audit_added_by_id v,
      aurow_permission_code = audit_permission_code v, aurow_target_kind = audit_target_kind v,
      aurow_target_id = audit_target_id v, aurow_action = audit_action v,
      aurow_outcome = ''accepted'', aurow_message = audit_message v,
      aurow_created_at = audit_created_at v\<rparr>)"

definition repo_audit :: "string \<Rightarrow> audit \<Rightarrow> unit db" where
  "repo_audit event_id v = execute (\<lambda>s. s\<lparr>audits := audits s @ [audit_row_of event_id v]\<rparr>)"

section \<open>Sessions\<close>

definition repo_remove_expired_sessions :: "int \<Rightarrow> unit db" where
  "repo_remove_expired_sessions now =
     execute (\<lambda>s. s\<lparr>sessions := filter (\<lambda>r. \<not> session_expires_at r \<le> now) (sessions s)\<rparr>)"

definition repo_session_count :: "string \<Rightarrow> int \<Rightarrow> int db" where
  "repo_session_count mid now = read_op (\<lambda>s.
     Inr (int (count_rows (\<lambda>r. session_member_id r = mid \<and> session_expires_at r > now) (sessions s))))"

definition repo_insert_session :: "member_session \<Rightarrow> unit db" where
  "repo_insert_session v = execute (\<lambda>s. s\<lparr>sessions := sessions s @ [v]\<rparr>)"

definition repo_remove_session :: "string \<Rightarrow> unit db" where
  "repo_remove_session hash =
     execute (\<lambda>s. s\<lparr>sessions := filter (\<lambda>r. session_secret_hash r \<noteq> hash) (sessions s)\<rparr>)"

section \<open>What a statement that succeeded did\<close>

lemma repo_save_principal_Inr [op_iff]:
  "repo_save_principal v s = (Inr u, s') \<longleftrightarrow>
     s' = s\<lparr>principals := update_rows (\<lambda>r. prow_id r = principal_id v) (\<lambda>_. principal_row_of v) (principals s)\<rparr> \<and>
     store_ok s' \<and> count_rows (\<lambda>r. prow_id r = principal_id v) (principals s) = 1"
  by (auto simp: repo_save_principal_def op_iff)

lemma repo_save_role_Inr [op_iff]:
  "repo_save_role v s = (Inr u, s') \<longleftrightarrow>
     s' = s\<lparr>principal_roles := update_rows (\<lambda>r. rrow_principal_id r = role_principal_id v)
              (\<lambda>r. r\<lparr>rrow_role_code := role_text (role_role v), rrow_assigned_by := role_assigned_by v,
                     rrow_assigned_at := role_assigned_at v\<rparr>) (principal_roles s)\<rparr> \<and>
     store_ok s' \<and> count_rows (\<lambda>r. rrow_principal_id r = role_principal_id v) (principal_roles s) = 1"
  by (auto simp: repo_save_role_def op_iff)

lemma repo_save_member_Inr [op_iff]:
  "repo_save_member v s = (Inr u, s') \<longleftrightarrow>
     s' = s\<lparr>members := update_rows (\<lambda>r. mrow_principal_id r = member_principal_id v)
              (\<lambda>r. r\<lparr>mrow_display_name := member_display_name v\<rparr>) (members s)\<rparr> \<and>
     store_ok s' \<and> count_rows (\<lambda>r. mrow_principal_id r = member_principal_id v) (members s) = 1"
  by (auto simp: repo_save_member_def op_iff)

lemma repo_save_application_Inr [op_iff]:
  "repo_save_application v s = (Inr u, s') \<longleftrightarrow>
     s' = s\<lparr>principal_applications := update_rows (\<lambda>r. arow_principal_id r = app_principal_id v)
              (\<lambda>_. application_row_of v) (principal_applications s)\<rparr> \<and>
     store_ok s' \<and>
     count_rows (\<lambda>r. arow_principal_id r = app_principal_id v) (principal_applications s) = 1"
  by (auto simp: repo_save_application_def op_iff)

lemma repo_audit_Inr [op_iff]:
  "repo_audit ev v s = (Inr u, s') \<longleftrightarrow> s' = s\<lparr>audits := audits s @ [audit_row_of ev v]\<rparr> \<and> store_ok s'"
  by (auto simp: repo_audit_def op_iff)

end
