(* ===== verification/Sample_Store.thy ===== *)
theory Sample_Store
  imports Store_Core "HOL-Library.Code_Target_Nat"
begin

text \<open>
  A small management database for evaluating the operations on: two human members, \<open>ada\<close> an
  administrator with a session and \<open>bea\<close> a member, and \<open>bot\<close>, an agent of \<open>ada\<close> whose fleet has a
  credential, an open connection and a running listener. It satisfies every constraint of the schema.
\<close>

definition sample_digest :: string where
  "sample_digest = replicate 64 CHR ''a''"

definition sample_uuid :: string where
  "sample_uuid = replicate 36 CHR ''c''"

definition sample_principals :: "principal_row list" where
  "sample_principals =
    [\<lparr>prow_id = ''ada'', prow_backend_user_id = ''@ada'', prow_kind = ''human'',
      prow_status = ''active'', prow_revision = 3, prow_created_at = 10\<rparr>,
     \<lparr>prow_id = ''bea'', prow_backend_user_id = ''@bea'', prow_kind = ''human'',
      prow_status = ''active'', prow_revision = 0, prow_created_at = 20\<rparr>,
     \<lparr>prow_id = ''bot'', prow_backend_user_id = ''@bot'', prow_kind = ''agent'',
      prow_status = ''active'', prow_revision = 1, prow_created_at = 30\<rparr>]"

definition sample_application :: "string \<Rightarrow> application_row" where
  "sample_application pid = \<lparr>arow_principal_id = pid, arow_applied_revision = None,
     arow_applied_intent_hash = None, arow_applied_status = None, arow_native_display_name = None,
     arow_last_attempt_at = None, arow_last_success_at = None, arow_next_check_at = 0,
     arow_error_code = None, arow_error_message = None\<rparr>"

definition sample_store :: store where
  "sample_store = \<lparr>
     principals = sample_principals,
     members = [\<lparr>mrow_principal_id = ''ada'', mrow_principal_kind = ''human'', mrow_display_name = ''Ada''\<rparr>,
       \<lparr>mrow_principal_id = ''bea'', mrow_principal_kind = ''human'', mrow_display_name = ''Bea''\<rparr>],
     agents = [\<lparr>agrow_principal_id = ''bot'', agrow_principal_kind = ''agent'', agrow_owner_id = ''ada'',
       agrow_wake_mode = ''humans''\<rparr>],
     principal_roles = [
       \<lparr>rrow_principal_id = ''ada'', rrow_principal_kind = ''human'', rrow_role_code = ''administrator'',
         rrow_assigned_by = None, rrow_assigned_at = 10\<rparr>,
       \<lparr>rrow_principal_id = ''bea'', rrow_principal_kind = ''human'', rrow_role_code = ''member'',
         rrow_assigned_by = Some ''ada'', rrow_assigned_at = 20\<rparr>,
       \<lparr>rrow_principal_id = ''bot'', rrow_principal_kind = ''agent'', rrow_role_code = ''agent'',
         rrow_assigned_by = Some ''ada'', rrow_assigned_at = 30\<rparr>],
     principal_applications = map sample_application [''ada'', ''bea'', ''bot''],
     sessions = [\<lparr>session_secret_hash = ''s1'', session_member_id = ''ada'', session_csrf_secret = ''x'',
       session_native_access_token = ''t'', session_created_at = 100, session_expires_at = 5000\<rparr>],
     policies = [\<lparr>polrow_id = ''instance'', polrow_revision = 0, polrow_max_owner_agents = 10,
       polrow_max_agents = 100, polrow_max_pending = 100, polrow_enrollment_seconds = 600,
       polrow_reconcile_seconds = 300, polrow_max_message_bytes = 65536,
       polrow_fleet_idle_timeout_seconds = 1800, polrow_agent_instructions = [],
       polrow_signup_mode = ''invitation'', polrow_invitation_issuers = ''administrators''\<rparr>],
     audits = [], agent_names = [\<lparr>anrow_name = ''Bot'', anrow_request_id = None,
       anrow_instance_key = None, anrow_agent_id = Some ''bot''\<rparr>],
     wake_sender_rows = [], rooms = no_rooms,
     fleets = [\<lparr>frow_archived_at = None, frow_id = ''f1'', frow_delivery_enabled = 1, frow_label = ''F'',
       frow_controller_name = ''C'', frow_revision = 0, frow_updated_at = 40, frow_owner_id = ''ada'',
       frow_fleet_key = ''k1'', frow_created_at = 40\<rparr>],
     fleet_instances = [\<lparr>inst_owner_id = ''ada'', inst_fleet_key = ''k1'', inst_instance_key = ''i1'',
       inst_agent_id = ''bot'', inst_retired_at = None\<rparr>],
     fleet_credentials = [\<lparr>cred_id = sample_uuid, cred_fleet_id = ''f1'', cred_secret_hash = sample_digest,
       cred_created_at = 40, cred_revoked_at = None\<rparr>],
     fleet_connections = [\<lparr>conn_fleet_id = ''f1'', conn_connection_id = ''c1'',
       conn_credential_id = sample_uuid, conn_last_seen_at = 900, conn_expires_at = 200000,
       conn_closed_at = None\<rparr>],
     listener_runs = [\<lparr>lrow_controller_fleet_id = ''f1'', lrow_controller_connection_id = ''c1'',
       lrow_controller_credential_id = sample_uuid, lrow_id = sample_uuid, lrow_agent_id = ''bot'',
       lrow_release = ''1.0'', lrow_started_at = 500, lrow_last_seen_at = 900, lrow_active_ms = 400,
       lrow_messages_delivered = 7, lrow_stopped_at = None, lrow_disconnect_requested_at = None\<rparr>],
     decisions = [], decision_questions = [], decision_options = [], decision_answers = []\<rparr>"

definition ada :: actor where
  "ada = \<lparr>actor_principal_id = ''ada'', actor_kind = Human,
     actor_authentication = Some (Management ''s1'')\<rparr>"

definition bot :: actor where
  "bot = \<lparr>actor_principal_id = ''bot'', actor_kind = AgentKind,
     actor_authentication = Some (NativeAuth ''@bot'')\<rparr>"

lemma sample_store_ok: "store_ok sample_store"
  by code_simp

text \<open>Variants: \<open>bea\<close> revoked (and listed first), and \<open>bea\<close> a second administrator.\<close>

definition revoked_store :: store where
  "revoked_store = sample_store\<lparr>principals :=
     \<lparr>prow_id = ''bea'', prow_backend_user_id = ''@bea'', prow_kind = ''human'',
      prow_status = ''revoked'', prow_revision = 0, prow_created_at = 20\<rparr> #
     filter (\<lambda>p. prow_id p \<noteq> ''bea'') sample_principals\<rparr>"

definition two_administrators :: store where
  "two_administrators = sample_store\<lparr>principal_roles :=
     update_rows (\<lambda>r. rrow_principal_id r = ''bea'') (\<lambda>r. r\<lparr>rrow_role_code := ''administrator''\<rparr>)
       (principal_roles sample_store)\<rparr>"

lemma revoked_store_ok: "store_ok revoked_store"
  by code_simp

lemma two_administrators_ok: "store_ok two_administrators"
  by code_simp

end
