(* ===== verification/Authorization.thy ===== *)
theory Authorization
  imports Sample_Store
begin

text \<open>
  Who may act: \<open>domain/src/authorization.rs\<close>. \<open>active_actor\<close> re-reads the caller's identity on every
  operation; \<open>authorize\<close> asks for a permission of its role; \<open>authorize_agent\<close> decides on an agent.
  \<open>require_op m p e\<close> is \<open>m?.filter(p).ok_or_else(e)?\<close>.
\<close>

definition require_op :: "'a option db \<Rightarrow> ('a \<Rightarrow> bool) \<Rightarrow> failure \<Rightarrow> 'a db" where
  "require_op m p e = bind_op m (\<lambda>x. lift_op (ok_or (opt_filter p x) e))"

definition require_some :: "'a option db \<Rightarrow> failure \<Rightarrow> 'a db" where
  "require_some m e = require_op m (\<lambda>_. True) e"

definition check_op :: "bool \<Rightarrow> failure \<Rightarrow> unit db" where
  "check_op b e = lift_op (guard_r b e)"

definition active_actor :: "actor \<Rightarrow> int \<Rightarrow> principal db" where
  "active_actor a now =
     bind_op (require_op (repo_principal (actor_principal_id a))
       (\<lambda>v. principal_kind v = actor_kind a \<and> principal_status v = Active)
       (failure_new Forbidden ''An active registered identity is required'')) (\<lambda>p.
     bind_op (case actor_authentication a of
         Some (NativeAuth uid) \<Rightarrow> check_op (uid = principal_backend_user_id p)
           (failure_new Unauthorized ''Native session identity changed'')
       | _ \<Rightarrow> return_op ()) (\<lambda>_.
     bind_op (if actor_kind a = Human then
         (case actor_authentication a of
            Some (NativeAuth _) \<Rightarrow> return_op ()
          | Some (Management hash) \<Rightarrow>
              bind_op (require_op (repo_session hash)
                (\<lambda>v. session_member_id v = actor_principal_id a \<and> session_expires_at v > now)
                (failure_new Unauthorized ''Management session expired or ended'')) (\<lambda>_. return_op ())
          | None \<Rightarrow> fail_op (failure_new Unauthorized ''A verified human session is required''))
       else return_op ()) (\<lambda>_.
     bind_op (if actor_kind a = AgentKind then
         bind_op (require_some (repo_agent (actor_principal_id a))
           (failure_new Forbidden ''Agent identity is not registered'')) (\<lambda>g.
         bind_op (require_op (repo_principal (agent_owner_id g)) (\<lambda>v. principal_status v = Active)
           (failure_new Forbidden ''Agent owner must be active'')) (\<lambda>_.
         bind_op (require_op (repo_agent_binding (actor_principal_id a)) (\<lambda>v. binding_retired_at v = None)
           (failure_new Forbidden ''Agent requires a current approved fleet controller'')) (\<lambda>b.
         check_op (binding_fleet_archived_at b = None)
           (failure_new Forbidden ''Agent fleet is archived''))))
       else return_op ()) (\<lambda>_.
     return_op p))))"

definition authorize :: "actor \<Rightarrow> permission \<Rightarrow> int \<Rightarrow> principal db" where
  "authorize a perm now =
     bind_op (active_actor a now) (\<lambda>p.
     bind_op (repo_permissions (actor_principal_id a)) (\<lambda>perms.
     if perm \<notin> set perms
     then fail_op (failure_new Forbidden (''Permission required: '' @ permission_code perm))
     else return_op p))"

datatype agent_action = ReadAgent | ConfigureAgent | ManageRoomGrant

fun action_permissions :: "agent_action \<Rightarrow> permission \<times> permission" where
  "action_permissions ReadAgent = (AgentReadAny, AgentReadOwned)"
| "action_permissions ConfigureAgent = (AgentConfigureAny, AgentConfigureOwned)"
| "action_permissions ManageRoomGrant = (AgentRoomGrantManageAny, AgentRoomGrantManageOwned)"

definition authorize_agent :: "actor \<Rightarrow> string \<Rightarrow> agent_action \<Rightarrow> int \<Rightarrow> agent db" where
  "authorize_agent a aid action now =
     bind_op (active_actor a now) (\<lambda>_.
     bind_op (require_some (repo_agent aid) (failure_new Missing ''Agent not found'')) (\<lambda>g.
     bind_op (require_op (repo_agent_binding aid)
       (\<lambda>v. binding_retired_at v = None \<and> binding_fleet_archived_at v = None)
       (failure_new Missing ''Current fleet-managed agent not found'')) (\<lambda>b.
     case action_permissions action of (any_perm, owned_perm) \<Rightarrow>
     bind_op (repo_permissions (actor_principal_id a)) (\<lambda>perms.
     if any_perm \<in> set perms \<or>
        (agent_owner_id g = actor_principal_id a \<and> owned_perm \<in> set perms) \<or>
        (action = ReadAgent \<and> binding_agent_id b = actor_principal_id a \<and> AgentReadSelf \<in> set perms)
     then return_op g
     else fail_op (failure_new Missing ''Agent not found'')))))"

section \<open>Reads leave the database as it is\<close>

text \<open>
  \<open>query m\<close>: the operation only reads. The rules follow the combinators, so that every authorization
  check, being built of reads, is one.
\<close>

definition query :: "'a db \<Rightarrow> bool" where
  "query m \<longleftrightarrow> (\<forall>s. snd (m s) = s)"

lemma queryD: "query m \<Longrightarrow> m s = (r, s') \<Longrightarrow> s' = s"
  unfolding query_def by (metis snd_conv)

lemma query_return [simp]: "query (return_op v)" by (simp add: query_def)
lemma query_fail [simp]: "query (fail_op e)" by (simp add: query_def)
lemma query_read [simp]: "query (read_op f)" by (simp add: query_def)
lemma query_lift [simp]: "query (lift_op r)" by (simp add: query_def)
lemma query_check [simp]: "query (check_op b e)" by (simp add: check_op_def)

lemma query_bind: "query m \<Longrightarrow> (\<And>v. query (f v)) \<Longrightarrow> query (bind_op m f)"
  unfolding query_def bind_op_def by (auto split: prod.splits sum.splits) (metis snd_conv)+

lemma query_require: "query m \<Longrightarrow> query (require_op m p e)"
  unfolding require_op_def by (intro query_bind) simp_all

lemma query_require_some: "query m \<Longrightarrow> query (require_some m e)"
  unfolding require_some_def by (rule query_require)

lemma query_keeps: "query m \<Longrightarrow> keeps P m"
  by (simp add: query_def keeps_def)

lemma query_transaction: "query m \<Longrightarrow> transaction m s = m s"
  unfolding transaction_def by (auto split: prod.splits sum.splits dest: queryD)

lemma query_repo [simp]:
  "query (repo_principal pid)" "query (repo_principal_by_backend_user_id uid)" "query (repo_agent aid)"
  "query (repo_agent_binding aid)" "query (repo_session h)" "query (repo_permissions pid)"
  "query (repo_member_view pid)" "query (repo_members_page n l)"
  "query (repo_active_administrator_count)" "query repo_policy" "query (repo_session_count pid now)"
  by (simp_all add: repo_principal_def repo_principal_by_backend_user_id_def repo_agent_def
      repo_agent_binding_def repo_session_def repo_permissions_def repo_member_view_def
      repo_members_page_def repo_active_administrator_count_def repo_policy_def repo_session_count_def)

lemma query_active_actor [simp]: "query (active_actor a now)"
  unfolding active_actor_def
  by (intro query_bind query_require query_require_some query_repo)
    (auto intro!: query_bind query_require query_require_some split: option.splits authentication.splits)

lemma query_authorize [simp]: "query (authorize a perm now)"
  unfolding authorize_def by (auto intro!: query_bind)

lemma query_authorize_agent [simp]: "query (authorize_agent a aid action now)"
  unfolding authorize_agent_def
  by (auto intro!: query_bind query_require query_require_some split: prod.splits)

lemmas query_intros = query_bind query_require query_require_some query_repo query_return query_fail
  query_read query_lift query_check query_active_actor query_authorize query_authorize_agent

section \<open>Who is admitted\<close>

lemma require_op_Inr [op_iff]:
  "require_op m p e s = (Inr v, s') \<longleftrightarrow> m s = (Inr (Some v), s') \<and> p v"
  by (auto simp: require_op_def op_iff)

lemma require_some_Inr [op_iff]: "require_some m e s = (Inr v, s') \<longleftrightarrow> m s = (Inr (Some v), s')"
  by (simp add: require_some_def op_iff)

lemma check_op_Inr [op_iff]: "check_op b e s = (Inr u, s') \<longleftrightarrow> b \<and> s' = s"
  by (auto simp: check_op_def op_iff)

lemma return_op_Inr [op_iff]: "return_op v s = (Inr w, s') \<longleftrightarrow> w = v \<and> s' = s"
  by auto

lemma fail_op_Inr [op_iff]: "fail_op e s = (Inr w, s') \<longleftrightarrow> False"
  by simp

lemma lift_op_Inr [op_iff]: "lift_op r s = (Inr w, s') \<longleftrightarrow> r = Inr w \<and> s' = s"
  by auto

lemma read_op_Inr [op_iff]: "read_op f s = (Inr w, s') \<longleftrightarrow> f s = Inr w \<and> s' = s"
  by auto

text \<open>What an active caller is, row by row.\<close>

definition session_live :: "string \<Rightarrow> string \<Rightarrow> int \<Rightarrow> store \<Rightarrow> bool" where
  "session_live hash mid now s \<longleftrightarrow> (\<exists>v \<in> set (sessions s).
     session_secret_hash v = hash \<and> session_member_id v = mid \<and> session_expires_at v > now)"

definition identity_proved :: "actor \<Rightarrow> principal \<Rightarrow> int \<Rightarrow> store \<Rightarrow> bool" where
  "identity_proved a p now s \<longleftrightarrow> (case actor_authentication a of
     Some (NativeAuth uid) \<Rightarrow> uid = principal_backend_user_id p
   | Some (Management hash) \<Rightarrow> actor_kind a = Human \<longrightarrow> session_live hash (actor_principal_id a) now s
   | None \<Rightarrow> actor_kind a = AgentKind)"

definition stored_principal :: "string \<Rightarrow> principal \<Rightarrow> store \<Rightarrow> bool" where
  "stored_principal pid p s \<longleftrightarrow> principal_id p = pid \<and> principal_row_of p \<in> set (principals s)"

definition agent_admitted :: "string \<Rightarrow> store \<Rightarrow> bool" where
  "agent_admitted aid s \<longleftrightarrow>
     (\<exists>g \<in> set (agents s). agrow_principal_id g = aid \<and>
        (\<exists>w \<in> set (principals s). prow_id w = agrow_owner_id g \<and> prow_status w = ''active'')) \<and>
     (\<exists>b \<in> set (binding_rows s). binding_agent_id b = aid \<and> binding_retired_at b = None \<and>
        binding_fleet_archived_at b = None)"

definition granted :: "string \<Rightarrow> permission \<Rightarrow> store \<Rightarrow> bool" where
  "granted pid perm s \<longleftrightarrow> (\<exists>r \<in> set (principal_roles s). rrow_principal_id r = pid \<and>
     (rrow_role_code r, permission_code perm) \<in> set role_permissions)"

lemma find_row_only:
  assumes "r \<in> set rows" "p r" and only: "\<And>q. q \<in> set rows \<Longrightarrow> p q \<Longrightarrow> q = r"
  shows "find_row p rows = Some r"
proof (cases "find_row p rows")
  case None
  with assms(1,2) show ?thesis by (simp add: find_row_None_iff)
next
  case (Some q)
  from only find_row_SomeD [OF Some] have "q = r" by blast
  with Some show ?thesis by simp
qed

lemma find_key_iff:
  assumes "unique_on key rows"
  shows "find_row (\<lambda>r. key r = k) rows = Some r \<longleftrightarrow> r \<in> set rows \<and> key r = k"
  using unique_on_find [OF assms, of r] find_row_SomeD [of "\<lambda>r. key r = k" rows r] by blast

lemma store_ok_uniques:
  assumes "store_ok s"
  shows "unique_on prow_id (principals s)" "unique_on prow_backend_user_id (principals s)"
    "unique_on agrow_principal_id (agents s)" "unique_on session_secret_hash (sessions s)"
    "unique_on mrow_principal_id (members s)" "unique_on rrow_principal_id (principal_roles s)"
    "unique_on arow_principal_id (principal_applications s)"
    "unique_on inst_agent_id (fleet_instances s)"
    "unique_on (\<lambda>r. (frow_owner_id r, frow_fleet_key r)) (fleets s)"
    "unique_on polrow_id (policies s)"
  using assms by (simp_all add: store_ok_def uniques_ok_def)

lemma repo_principal_Inr:
  assumes "store_ok s"
  shows "repo_principal pid s = (Inr (Some p), s') \<longleftrightarrow> s' = s \<and> stored_principal pid p s"
  unfolding repo_principal_def stored_principal_def
  by (auto simp: op_iff principal_of_row_Inr find_key_iff [OF store_ok_uniques(1) [OF assms]])

lemma repo_session_Inr:
  assumes "store_ok s"
  shows "repo_session h s = (Inr (Some v), s') \<longleftrightarrow> s' = s \<and> v \<in> set (sessions s) \<and> session_secret_hash v = h"
  unfolding repo_session_def
  by (auto simp: op_iff find_key_iff [OF store_ok_uniques(4) [OF assms]])

lemma agent_wake_ok: "store_ok s \<Longrightarrow> g \<in> set (agents s) \<Longrightarrow> \<exists>m. wake_of_text (agrow_wake_mode g) = Inr m"
  by (auto simp: store_ok_def checks_ok_def list_all_iff agent_check_def wake_of_text_def)

lemma repo_agent_Inr:
  assumes "store_ok s"
  shows "repo_agent aid s = (Inr (Some g), s') \<longleftrightarrow> s' = s \<and>
    (\<exists>r \<in> set (agents s). agrow_principal_id r = aid \<and> agent_of_row r = Inr g)"
  unfolding repo_agent_def
  by (auto simp: op_iff find_key_iff [OF store_ok_uniques(3) [OF assms]])

lemma binding_rows_iff:
  "b \<in> set (binding_rows s) \<longleftrightarrow> (\<exists>i \<in> set (fleet_instances s). \<exists>f \<in> set (fleets s).
     frow_owner_id f = inst_owner_id i \<and> frow_fleet_key f = inst_fleet_key i \<and>
     b = \<lparr>binding_agent_id = inst_agent_id i, binding_retired_at = inst_retired_at i,
       binding_fleet_archived_at = frow_archived_at f\<rparr>)"
  by (auto simp: binding_rows_def)

lemma binding_rows_eq:
  assumes "store_ok s" "b \<in> set (binding_rows s)" "c \<in> set (binding_rows s)"
    "binding_agent_id b = binding_agent_id c"
  shows "b = c"
proof -
  from assms obtain i f j g where *: "i \<in> set (fleet_instances s)" "f \<in> set (fleets s)"
    "j \<in> set (fleet_instances s)" "g \<in> set (fleets s)"
    "frow_owner_id f = inst_owner_id i" "frow_fleet_key f = inst_fleet_key i"
    "frow_owner_id g = inst_owner_id j" "frow_fleet_key g = inst_fleet_key j"
    "inst_agent_id i = inst_agent_id j"
    and b: "b = \<lparr>binding_agent_id = inst_agent_id i, binding_retired_at = inst_retired_at i,
       binding_fleet_archived_at = frow_archived_at f\<rparr>"
    and c: "c = \<lparr>binding_agent_id = inst_agent_id j, binding_retired_at = inst_retired_at j,
       binding_fleet_archived_at = frow_archived_at g\<rparr>"
    unfolding binding_rows_iff by force
  have "i = j" by (rule unique_on_eq [OF store_ok_uniques(8) [OF assms(1)] *(1,3,9)])
  moreover from this * have "f = g"
    by (intro unique_on_eq [OF store_ok_uniques(9) [OF assms(1)] *(2,4)]) simp
  ultimately show ?thesis by (simp add: b c)
qed

lemma repo_agent_binding_Inr:
  assumes "store_ok s"
  shows "repo_agent_binding aid s = (Inr (Some b), s') \<longleftrightarrow>
    s' = s \<and> b \<in> set (binding_rows s) \<and> binding_agent_id b = aid"
  unfolding repo_agent_binding_def
  by (auto simp: op_iff dest: find_row_SomeD intro!: find_row_only binding_rows_eq [OF assms])

lemma collect_permissions:
  "set codes \<subseteq> snd ` set role_permissions \<Longrightarrow>
   \<exists>perms. collect_results (map permission_of_code codes) = Inr perms \<and>
     set perms = {p. permission_code p \<in> set codes}"
proof (induction codes)
  case Nil
  then show ?case by simp
next
  case (Cons c codes)
  from Cons.prems role_permissions_parse obtain p where p: "permission_parse c = Some p"
    by (fastforce simp: list_all_iff)
  then have "c = permission_code p" by (simp add: permission_parse_Some)
  with p Cons show ?case by (auto simp: permission_of_code_def permission_code_inj)
qed

lemma permission_codes_iff:
  "c \<in> set (permission_codes pid s) \<longleftrightarrow>
   (\<exists>r \<in> set (principal_roles s). rrow_principal_id r = pid \<and> (rrow_role_code r, c) \<in> set role_permissions)"
  unfolding permission_codes_def by force

lemma repo_permissions_granted:
  "\<exists>perms. repo_permissions pid s = (Inr perms, s) \<and> set perms = {p. granted pid p s}"
proof -
  have "set (permission_codes pid s) \<subseteq> snd ` set role_permissions"
    by (force simp: permission_codes_iff)
  from collect_permissions [OF this] show ?thesis
    by (auto simp: repo_permissions_def permission_codes_iff granted_def)
qed

lemma repo_permissions_Inr:
  "repo_permissions pid s = (Inr perms, s') \<Longrightarrow> s' = s \<and> (perm \<in> set perms \<longleftrightarrow> granted pid perm s)"
  using repo_permissions_granted [of pid s] by auto

definition actor_admitted :: "actor \<Rightarrow> principal \<Rightarrow> int \<Rightarrow> store \<Rightarrow> bool" where
  "actor_admitted a p now s \<longleftrightarrow>
     stored_principal (actor_principal_id a) p s \<and> principal_kind p = actor_kind a \<and>
     principal_status p = Active \<and> identity_proved a p now s \<and>
     (actor_kind a = AgentKind \<longrightarrow> agent_admitted (actor_principal_id a) s)"

lemma active_row:
  assumes "store_ok s"
  shows "(\<exists>w. stored_principal pid w s \<and> principal_status w = Active) \<longleftrightarrow>
    (\<exists>r \<in> set (principals s). prow_id r = pid \<and> prow_status r = ''active'')"
proof
  assume "\<exists>w. stored_principal pid w s \<and> principal_status w = Active"
  then obtain w where "principal_id w = pid" "principal_row_of w \<in> set (principals s)"
    "principal_status w = Active" by (auto simp: stored_principal_def)
  then show "\<exists>r \<in> set (principals s). prow_id r = pid \<and> prow_status r = ''active''"
    by (intro bexI [of _ "principal_row_of w"]) simp_all
next
  assume "\<exists>r \<in> set (principals s). prow_id r = pid \<and> prow_status r = ''active''"
  then obtain r where r: "r \<in> set (principals s)" "prow_id r = pid" "prow_status r = ''active''" by blast
  with assms have "prow_kind r \<in> {''human'', ''agent''}"
    by (auto simp: store_ok_def checks_ok_def list_all_iff principal_check_def)
  then obtain k where "kind_of_text (prow_kind r) = Inr k" by (auto simp: kind_of_text_def)
  with r(3) obtain p where p: "principal_of_row r = Inr p" "principal_status p = Active"
    by (simp add: principal_of_row_def status_of_text_def)
  then have row: "r = principal_row_of p" by (simp add: principal_of_row_Inr)
  with r p show "\<exists>w. stored_principal pid w s \<and> principal_status w = Active"
    unfolding stored_principal_def by auto
qed

lemma agent_part:
  assumes "store_ok s"
  shows "(\<exists>s1 g s2 w s3 b.
      repo_agent aid s = (Inr (Some g), s1) \<and>
      repo_principal (agent_owner_id g) s1 = (Inr (Some w), s2) \<and> principal_status w = Active \<and>
      repo_agent_binding aid s2 = (Inr (Some b), s3) \<and> binding_retired_at b = None \<and>
      binding_fleet_archived_at b = None \<and> s' = s3) \<longleftrightarrow> s' = s \<and> agent_admitted aid s"
  unfolding agent_admitted_def active_row [OF assms, symmetric]
  using agent_wake_ok [OF assms]
  by (auto simp: repo_agent_Inr [OF assms] repo_principal_Inr [OF assms] repo_agent_binding_Inr [OF assms]
      agent_of_row_def op_iff) (metis|fastforce)+

lemma active_actor_Inr:
  assumes "store_ok s"
  shows "active_actor a now s = (Inr p, s') \<longleftrightarrow> s' = s \<and> actor_admitted a p now s"
proof -
  have session: "(\<exists>v t. repo_session hash s = (Inr (Some v), t) \<and> session_member_id v = mid \<and>
      now < session_expires_at v \<and> s' = t) \<longleftrightarrow> s' = s \<and> session_live hash mid now s" for hash mid
    by (auto simp: repo_session_Inr [OF assms] session_live_def)
  have agent: "(\<exists>g s1. repo_agent aid s = (Inr (Some g), s1) \<and>
      (\<exists>w s2. repo_principal (agent_owner_id g) s1 = (Inr (Some w), s2) \<and> principal_status w = Active \<and>
      (\<exists>b. repo_agent_binding aid s2 = (Inr (Some b), s') \<and> binding_retired_at b = None \<and>
      binding_fleet_archived_at b = None))) \<longleftrightarrow> s' = s \<and> agent_admitted aid s" for aid
    using agent_part [OF assms, of aid s'] by blast
  show ?thesis
    unfolding active_actor_def actor_admitted_def identity_proved_def
    using session agent
    by (cases "actor_kind a"; cases "actor_authentication a"; cases "the (actor_authentication a)")
      (simp_all add: bind_op_eq_Inr require_op_Inr require_some_Inr check_op_Inr
        repo_principal_Inr [OF assms], blast+)
qed

lemma authorize_Inr:
  assumes "store_ok s"
  shows "authorize a perm now s = (Inr p, s') \<longleftrightarrow>
    s' = s \<and> actor_admitted a p now s \<and> granted (actor_principal_id a) perm s"
proof -
  obtain perms where perms: "repo_permissions (actor_principal_id a) s = (Inr perms, s)"
    "set perms = {p. granted (actor_principal_id a) p s}"
    using repo_permissions_granted by blast
  show ?thesis
    unfolding authorize_def by (auto simp: op_iff active_actor_Inr [OF assms] perms split: if_splits)
qed


definition agent_permitted :: "actor \<Rightarrow> agent \<Rightarrow> agent_action \<Rightarrow> store \<Rightarrow> bool" where
  "agent_permitted a g action s \<longleftrightarrow>
     granted (actor_principal_id a) (fst (action_permissions action)) s \<or>
     (agent_owner_id g = actor_principal_id a \<and>
        granted (actor_principal_id a) (snd (action_permissions action)) s) \<or>
     (action = ReadAgent \<and> agent_principal_id g = actor_principal_id a \<and>
        granted (actor_principal_id a) AgentReadSelf s)"

definition stored_agent :: "string \<Rightarrow> agent \<Rightarrow> store \<Rightarrow> bool" where
  "stored_agent aid g s \<longleftrightarrow>
     agent_principal_id g = aid \<and> (\<exists>r \<in> set (agents s). agrow_principal_id r = aid \<and> agent_of_row r = Inr g)"

definition agent_managed :: "string \<Rightarrow> store \<Rightarrow> bool" where
  "agent_managed aid s \<longleftrightarrow> (\<exists>b \<in> set (binding_rows s). binding_agent_id b = aid \<and>
     binding_retired_at b = None \<and> binding_fleet_archived_at b = None)"

lemma agent_of_row_id: "agent_of_row r = Inr g \<Longrightarrow> agent_principal_id g = agrow_principal_id r"
  by (auto simp: agent_of_row_def op_iff)

lemma repo_agent_stored:
  assumes "store_ok s"
  shows "repo_agent aid s = (Inr (Some g), s') \<longleftrightarrow> s' = s \<and> stored_agent aid g s"
  by (auto simp: repo_agent_Inr [OF assms] stored_agent_def dest: agent_of_row_id)

lemma authorize_agent_Inr:
  assumes "store_ok s"
  shows "authorize_agent a aid action now s = (Inr g, s') \<longleftrightarrow>
    s' = s \<and> (\<exists>p. actor_admitted a p now s) \<and> stored_agent aid g s \<and> agent_managed aid s \<and>
    agent_permitted a g action s"
proof -
  obtain perms where perms: "repo_permissions (actor_principal_id a) s = (Inr perms, s)"
    "set perms = {p. granted (actor_principal_id a) p s}"
    using repo_permissions_granted by blast
  obtain any_perm owned where ap: "action_permissions action = (any_perm, owned)"
    by (cases "action_permissions action")
  have choice: "(if c then return_op h else fail_op e) t = (Inr g, s') \<longleftrightarrow> c \<and> h = g \<and> s' = t"
    for c h e and t :: store by auto
  have "authorize_agent a aid action now s = (Inr g, s') \<longleftrightarrow>
    s' = s \<and> (\<exists>p. actor_admitted a p now s) \<and> stored_agent aid g s \<and>
    (\<exists>b. b \<in> set (binding_rows s) \<and> binding_agent_id b = aid \<and> binding_retired_at b = None \<and>
      binding_fleet_archived_at b = None \<and>
      (granted (actor_principal_id a) any_perm s \<or>
       agent_owner_id g = actor_principal_id a \<and> granted (actor_principal_id a) owned s \<or>
       action = ReadAgent \<and> binding_agent_id b = actor_principal_id a \<and>
         granted (actor_principal_id a) AgentReadSelf s))"
    unfolding authorize_agent_def ap prod.case
    by (simp add: bind_op_eq_Inr require_op_Inr require_some_Inr active_actor_Inr [OF assms]
        repo_agent_stored [OF assms] repo_agent_binding_Inr [OF assms] perms choice) blast
  moreover have "stored_agent aid g s \<Longrightarrow> agent_principal_id g = aid" by (simp add: stored_agent_def)
  ultimately show ?thesis
    unfolding agent_permitted_def agent_managed_def ap fst_conv snd_conv
    by (cases "stored_agent aid g s") (simp_all, metis)
qed

lemma active_actor_status:
  "store_ok s \<Longrightarrow> active_actor a now s = (Inr p, s') \<Longrightarrow> principal_status p = Active \<and> principal_id p = actor_principal_id a"
  by (simp add: active_actor_Inr actor_admitted_def stored_principal_def)

section \<open>Who is refused, and how\<close>

lemma require_op_Inl:
  "require_op m p e s = (Inl e', s') \<longleftrightarrow>
   m s = (Inl e', s') \<or> (\<exists>x. m s = (Inr x, s') \<and> opt_filter p x = None \<and> e' = e)"
  by (auto simp: require_op_def bind_op_eq_Inl ok_or_eq_Inl)

lemma check_op_Inl: "check_op b e s = (Inl e', s') \<longleftrightarrow> \<not> b \<and> e' = e \<and> s' = s"
  by (auto simp: check_op_def guard_r_eq_Inl)

lemma transpose_row_total: "(\<And>r. x = Some r \<Longrightarrow> \<exists>v. f r = Inr v) \<Longrightarrow> transpose_row f x \<noteq> Inl e"
  by (cases x) (auto simp: rbind_eq_Inl)

text \<open>Under the constraints of the schema no stored row is malformed.\<close>

lemma authorization_reads_total:
  assumes "store_ok s"
  shows "fst (repo_principal pid s) \<noteq> Inl e" "fst (repo_agent aid s) \<noteq> Inl e"
    "fst (repo_agent_binding aid s) \<noteq> Inl e" "fst (repo_session h s) \<noteq> Inl e"
proof -
  have "\<exists>p. principal_of_row r = Inr p" if "r \<in> set (principals s)" for r
  proof -
    from assms that have "prow_kind r \<in> {''human'', ''agent''}" "prow_status r \<in> {''active'', ''suspended'', ''revoked''}"
      by (auto simp: store_ok_def checks_ok_def list_all_iff principal_check_def)
    then show ?thesis by (auto simp: principal_of_row_def kind_of_text_def status_of_text_def)
  qed
  then show "fst (repo_principal pid s) \<noteq> Inl e"
    unfolding repo_principal_def by (auto intro!: transpose_row_total dest!: find_row_SomeD)
  have "\<exists>g. agent_of_row r = Inr g" if "r \<in> set (agents s)" for r
    using agent_wake_ok [OF assms that] by (auto simp: agent_of_row_def)
  then show "fst (repo_agent aid s) \<noteq> Inl e"
    unfolding repo_agent_def by (auto intro!: transpose_row_total dest!: find_row_SomeD)
qed (simp_all add: repo_agent_binding_def repo_session_def)

text \<open>\<open>refused s m\<close>: if \<open>m\<close> fails on \<open>s\<close>, then as \<open>Forbidden\<close> or \<open>Unauthorized\<close>.\<close>

definition refused :: "store \<Rightarrow> 'a db \<Rightarrow> bool" where
  "refused s m \<longleftrightarrow> (\<forall>e. fst (m s) = Inl e \<longrightarrow> failure_code e = Forbidden \<or> failure_code e = Unauthorized)"

lemma refused_bind: "query m \<Longrightarrow> refused s m \<Longrightarrow> (\<And>v. refused s (f v)) \<Longrightarrow> refused s (bind_op m f)"
  unfolding refused_def bind_op_def query_def by (auto split: prod.splits sum.splits) (metis fst_conv snd_conv)+

lemma refused_require:
  "query m \<Longrightarrow> (\<And>e'. fst (m s) \<noteq> Inl e') \<Longrightarrow> failure_code e = Forbidden \<or> failure_code e = Unauthorized \<Longrightarrow>
   refused s (require_op m p e)"
  unfolding refused_def
  by (auto simp: require_op_def bind_op_def op_iff split: prod.splits sum.splits) (metis fst_conv)+

lemma refused_active_actor:
  assumes "store_ok s"
  shows "refused s (active_actor a now)"
proof -
  have simple: "refused s (return_op v)" "refused s (fail_op e) \<longleftrightarrow> failure_code e \<in> {Forbidden, Unauthorized}"
    "refused s (check_op b e) \<longleftrightarrow> b \<or> failure_code e \<in> {Forbidden, Unauthorized}" for v :: 'x and e b
    by (auto simp: refused_def check_op_def guard_r_def)
  show ?thesis
    unfolding active_actor_def require_some_def
    by (intro refused_bind query_require query_repo refused_require authorization_reads_total [OF assms])
      (auto simp: simple intro!: refused_bind refused_require query_require authorization_reads_total [OF assms]
        query_bind split: option.splits authentication.splits)
qed

lemma unadmitted_refused:
  assumes "store_ok s" "\<nexists>p. actor_admitted a p now s"
  shows "\<exists>e. authorize_agent a aid action now s = (Inl e, s) \<and> failure_code e \<in> {Forbidden, Unauthorized}"
proof -
  obtain r s1 where run: "active_actor a now s = (r, s1)" by (cases "active_actor a now s")
  with assms active_actor_Inr [OF assms(1)] obtain e where e: "active_actor a now s = (Inl e, s1)"
    by (cases r) blast+
  with queryD [OF query_active_actor] refused_active_actor [OF assms(1), of a now] show ?thesis
    unfolding authorize_agent_def refused_def by (auto simp: bind_op_Inl)
qed

definition agent_refusal :: "string \<Rightarrow> store \<Rightarrow> failure" where
  "agent_refusal aid s = failure_new Missing
     (if list_ex (\<lambda>r. agrow_principal_id r = aid) (agents s) \<and> \<not> agent_managed aid s
      then ''Current fleet-managed agent not found'' else ''Agent not found'')"

lemma admitted_refused:
  assumes "store_ok s" "actor_admitted a p now s"
    "\<nexists>g. stored_agent aid g s \<and> agent_managed aid s \<and> agent_permitted a g action s"
  shows "authorize_agent a aid action now s = (Inl (agent_refusal aid s), s)"
proof -
  have act: "active_actor a now s = (Inr p, s)" using assms(1,2) by (simp add: active_actor_Inr)
  obtain found where agent: "repo_agent aid s = (Inr found, s)"
    using authorization_reads_total(2) [OF assms(1)] queryD [OF query_repo(3)]
    by (metis old.sum.exhaust prod.collapse)
  show ?thesis
  proof (cases found)
    case None
    with agent have "\<not> list_ex (\<lambda>r. agrow_principal_id r = aid) (agents s)"
      by (auto simp: repo_agent_def op_iff list_ex_iff find_row_None_iff)
    with None act agent show ?thesis
      by (simp add: authorize_agent_def agent_refusal_def require_some_def require_op_def)
  next
    case (Some g)
    from agent Some have stored: "stored_agent aid g s" by (simp add: repo_agent_stored [OF assms(1)])
    then have exists: "list_ex (\<lambda>r. agrow_principal_id r = aid) (agents s)"
      by (auto simp: stored_agent_def list_ex_iff)
    have binding: "repo_agent_binding aid s = (Inr b, s) \<Longrightarrow>
        opt_filter (\<lambda>v. binding_retired_at v = None \<and> binding_fleet_archived_at v = None) b \<noteq> None \<longleftrightarrow>
        agent_managed aid s" for b
    proof (cases b)
      case None
      moreover assume "repo_agent_binding aid s = (Inr b, s)"
      ultimately show ?thesis
        by (auto simp: agent_managed_def repo_agent_binding_def find_row_None_iff op_iff)
    next
      case (Some v)
      moreover assume "repo_agent_binding aid s = (Inr b, s)"
      ultimately have v: "v \<in> set (binding_rows s)" "binding_agent_id v = aid"
        by (simp_all add: repo_agent_binding_Inr [OF assms(1)])
      have only: "w = v" if "w \<in> set (binding_rows s)" "binding_agent_id w = aid" for w
        by (rule binding_rows_eq [OF assms(1)]) (use v that in simp_all)
      have "agent_managed aid s \<longleftrightarrow> binding_retired_at v = None \<and> binding_fleet_archived_at v = None"
        unfolding agent_managed_def using v only by blast
      with Some show ?thesis by simp
    qed
    obtain b where b: "repo_agent_binding aid s = (Inr b, s)" by (simp add: repo_agent_binding_def)
    obtain e where e: "authorize_agent a aid action now s = (Inl e, s)"
      using authorize_agent_Inr [OF assms(1)] assms(3) queryD [OF query_authorize_agent]
      by (metis old.sum.exhaust prod.collapse)
    obtain perms where perms: "repo_permissions (actor_principal_id a) s = (Inr perms, s)"
      using repo_permissions_granted by blast
    show ?thesis
    proof (cases "agent_managed aid s")
      case False
      with binding [OF b] act agent Some b exists show ?thesis
        by (simp add: authorize_agent_def agent_refusal_def require_some_def require_op_def)
    next
      case True
      with binding [OF b] obtain v where v: "opt_filter (\<lambda>v. binding_retired_at v = None \<and>
          binding_fleet_archived_at v = None) b = Some v" by blast
      obtain any_perm owned where "action_permissions action = (any_perm, owned)"
        by (cases "action_permissions action")
      with act agent Some b v perms have "authorize_agent a aid action now s \<in>
          {(Inr g, s), (Inl (failure_new Missing ''Agent not found''), s)}"
        by (simp add: authorize_agent_def require_some_def require_op_def)
      with e have "e = failure_new Missing ''Agent not found''" by simp
      with e True show ?thesis by (simp add: agent_refusal_def)
    qed
  qed
qed

section \<open>Properties\<close>

text \<open>
  C1: A permission check succeeds exactly when the caller's stored identity is of the stated kind and
  active, its authentication holds now (a native identity that still matches, or a management session of
  that member that has not expired), an agent caller is owned by an active principal and bound to an
  unretired instance of a fleet that is not archived, and the stored role of the caller grants the
  permission; it then returns the stored principal, and it never changes the database.
\<close>
theorem authorize_exact:
  assumes "store_ok s"
  shows "authorize a perm now s = (Inr p, s') \<longleftrightarrow>
    s' = s \<and> actor_admitted a p now s \<and> granted (actor_principal_id a) perm s"
  using assms by (rule authorize_Inr)

lemma authorize_exact_witness:
  "\<exists>p. authorize ada MemberManage 1000 sample_store = (Inr p, sample_store) \<and> principal_status p = Active"
proof -
  let ?p = "\<lparr>principal_id = ''ada'', principal_backend_user_id = ''@ada'', principal_kind = Human,
    principal_status = Active, principal_revision = 3, principal_created_at = 10\<rparr>"
  have "actor_admitted ada ?p 1000 sample_store \<and> granted (actor_principal_id ada) MemberManage sample_store"
    by code_simp
  with authorize_exact [OF sample_store_ok, of ada MemberManage 1000 ?p sample_store] show ?thesis
    by fastforce
qed

text \<open>
  C2: Acting on an agent is allowed exactly to an admitted caller, on a stored agent whose fleet binding
  is current, who holds the permission on any agent, or owns the agent and holds the permission on owned
  agents, or reads itself. Any other admitted caller is told that the agent does not exist, or, when the
  agent is stored but its fleet binding is not current, that there is no current managed agent of that
  name, whatever it was permitted. A caller that is not admitted is told \<open>Forbidden\<close> or
  \<open>Unauthorized\<close>. Nothing ever changes the database.
\<close>
theorem authorize_agent_exact:
  assumes "store_ok s"
  shows "(authorize_agent a aid action now s = (Inr g, s') \<longleftrightarrow>
      s' = s \<and> (\<exists>p. actor_admitted a p now s) \<and> stored_agent aid g s \<and> agent_managed aid s \<and>
      agent_permitted a g action s) \<and>
    (actor_admitted a p now s \<and>
       (\<nexists>h. stored_agent aid h s \<and> agent_managed aid s \<and> agent_permitted a h action s) \<longrightarrow>
     authorize_agent a aid action now s = (Inl (agent_refusal aid s), s)) \<and>
    ((\<nexists>q. actor_admitted a q now s) \<longrightarrow>
     (\<exists>e. authorize_agent a aid action now s = (Inl e, s) \<and> failure_code e \<in> {Forbidden, Unauthorized}))"
  by (intro conjI impI authorize_agent_Inr [OF assms] unadmitted_refused [OF assms])
    (auto intro: admitted_refused [OF assms])

text \<open>A caller without a session is refused, \<open>bea\<close> is told that \<open>bot\<close> does not exist.\<close>

definition nobody :: actor where
  "nobody = \<lparr>actor_principal_id = ''ada'', actor_kind = Human, actor_authentication = None\<rparr>"

definition bea :: actor where
  "bea = \<lparr>actor_principal_id = ''bea'', actor_kind = Human, actor_authentication = Some (NativeAuth ''@bea'')\<rparr>"

lemma authorize_agent_exact_witness:
  "(\<exists>g. authorize_agent bot ''bot'' ReadAgent 1000 sample_store = (Inr g, sample_store)) \<and>
   authorize_agent bea ''bot'' ConfigureAgent 1000 sample_store =
     (Inl (failure_new Missing ''Agent not found''), sample_store) \<and>
   (\<exists>e. authorize_agent nobody ''bot'' ReadAgent 1000 sample_store = (Inl e, sample_store) \<and>
      failure_code e \<in> {Forbidden, Unauthorized})"
proof (intro conjI)
  let ?p = "\<lparr>principal_id = ''bot'', principal_backend_user_id = ''@bot'', principal_kind = AgentKind,
    principal_status = Active, principal_revision = 1, principal_created_at = 30\<rparr>"
  let ?g = "\<lparr>agent_principal_id = ''bot'', agent_owner_id = ''ada'', agent_wake_mode = WakeHumans\<rparr>"
  have "actor_admitted bot ?p 1000 sample_store \<and> agent_managed ''bot'' sample_store
      \<and> agent_permitted bot ?g ReadAgent sample_store \<and> stored_agent ''bot'' ?g sample_store"
    by code_simp
  with authorize_agent_exact [OF sample_store_ok, of bot "''bot''" ReadAgent 1000 ?g sample_store]
  show "\<exists>g. authorize_agent bot ''bot'' ReadAgent 1000 sample_store = (Inr g, sample_store)" by blast
next
  let ?p = "\<lparr>principal_id = ''bea'', principal_backend_user_id = ''@bea'', principal_kind = Human,
    principal_status = Active, principal_revision = 0, principal_created_at = 20\<rparr>"
  have admitted: "actor_admitted bea ?p 1000 sample_store \<and>
      agent_refusal ''bot'' sample_store = failure_new Missing ''Agent not found''"
    by code_simp
  have "\<not> granted ''bea'' AgentConfigureAny sample_store \<and>
      list_all (\<lambda>r. agrow_owner_id r \<noteq> ''bea'') (agents sample_store)" by code_simp
  then have "\<nexists>h. stored_agent ''bot'' h sample_store \<and> agent_managed ''bot'' sample_store \<and>
      agent_permitted bea h ConfigureAgent sample_store"
    by (auto simp: agent_permitted_def stored_agent_def agent_of_row_def op_iff list_all_iff bea_def)
  with authorize_agent_exact [OF sample_store_ok, of bea "''bot''" ConfigureAgent 1000 _ _ ?p] admitted
  show "authorize_agent bea ''bot'' ConfigureAgent 1000 sample_store =
     (Inl (failure_new Missing ''Agent not found''), sample_store)" by metis
next
  have "\<nexists>q. actor_admitted nobody q 1000 sample_store"
    by (simp add: actor_admitted_def identity_proved_def nobody_def)
  with authorize_agent_exact [OF sample_store_ok, of nobody "''bot''" ReadAgent 1000]
  show "\<exists>e. authorize_agent nobody ''bot'' ReadAgent 1000 sample_store = (Inl e, sample_store) \<and>
      failure_code e \<in> {Forbidden, Unauthorized}" by blast
qed

end
