(* ===== verification/Policy.thy ===== *)
theory Policy
  imports Authorization
begin

text \<open>The instance policy (\<open>domain/src/policy.rs\<close>): its defaults, and the read and the guarded change.\<close>

definition default_policy :: instance_policy where
  "default_policy = \<lparr>policy_revision = 0, policy_max_owner_agents = 10, policy_max_agents = 100,
     policy_max_pending = 100, policy_enrollment_seconds = 600, policy_reconcile_seconds = 300,
     policy_max_message_bytes = 65536, policy_fleet_idle_timeout_seconds = 1800,
     policy_agent_instructions = [], policy_signup_mode = ''invitation'',
     policy_invitation_issuers = ''administrators''\<rparr>"

definition uninitialized_policy :: failure where
  "uninitialized_policy = failure_new Unavailable ''Instance policy is not initialized''"

definition read_policy :: "actor \<Rightarrow> int \<Rightarrow> instance_policy db" where
  "read_policy a now =
     bind_op (authorize a PrincipalRead now) (\<lambda>_. require_some repo_policy uninitialized_policy)"

text \<open>A control character other than tab, line feed and carriage return.\<close>

definition instruction_control :: "nat \<Rightarrow> bool" where
  "instruction_control c \<longleftrightarrow> c \<le> 8 \<or> c = 0xB \<or> c = 0xC \<or> (0xE \<le> c \<and> c \<le> 0x1F) \<or> c = 0x7F"

definition invalid_policy :: "instance_policy \<Rightarrow> bool" where
  "invalid_policy v \<longleftrightarrow>
     \<not> (1 \<le> policy_max_owner_agents v \<and> policy_max_owner_agents v \<le> 100) \<or>
     policy_max_agents v < policy_max_owner_agents v \<or> policy_max_agents v > 1000 \<or>
     \<not> (1 \<le> policy_max_pending v \<and> policy_max_pending v \<le> 1000) \<or>
     \<not> (60 \<le> policy_enrollment_seconds v \<and> policy_enrollment_seconds v \<le> 3600) \<or>
     \<not> (30 \<le> policy_reconcile_seconds v \<and> policy_reconcile_seconds v \<le> 3600) \<or>
     \<not> (4096 \<le> policy_max_message_bytes v \<and> policy_max_message_bytes v \<le> 4194304) \<or>
     \<not> (0 \<le> policy_fleet_idle_timeout_seconds v \<and> policy_fleet_idle_timeout_seconds v \<le> 604800) \<or>
     policy_signup_mode v \<notin> {''invitation'', ''open''} \<or>
     policy_invitation_issuers v \<notin> {''administrators'', ''members''} \<or>
     length (policy_agent_instructions v) > 8192 \<or>
     list_ex instruction_control (chars (policy_agent_instructions v))"

definition change_policy :: "actor \<Rightarrow> instance_policy \<Rightarrow> string \<Rightarrow> string \<Rightarrow> int \<Rightarrow> int db" where
  "change_policy a values request_id event_id now =
     (if invalid_policy values
      then fail_op (failure_new Invalid ''Invalid bounded instance policy'')
      else transaction (
        bind_op (authorize a PolicyManage now) (\<lambda>_.
        bind_op (require_some repo_policy uninitialized_policy) (\<lambda>current.
        if policy_revision current \<noteq> policy_revision values
        then fail_op (failure_new Conflict ''Policy revision changed'')
        else
          bind_op (lift_op (ok_or (checked_i64 (policy_revision values + 1))
            (failure_new Conflict ''Policy revision exhausted''))) (\<lambda>revision.
          bind_op (repo_save_policy (values\<lparr>policy_revision := revision\<rparr>)) (\<lambda>_.
          bind_op (repo_audit event_id (audit_new a request_id ''instance-policy'' ''instance''
            ''instance-policy.configure'' None now)) (\<lambda>_.
          return_op revision)))))))"

section \<open>The effect of a change\<close>

lemma repo_save_policy_Inr [op_iff]:
  "repo_save_policy v s = (Inr u, s') \<longleftrightarrow>
     s' = s\<lparr>policies := update_rows (\<lambda>r. polrow_id r = ''instance'') (\<lambda>_. policy_row_of v) (policies s)\<rparr> \<and>
     store_ok s' \<and> count_rows (\<lambda>r. polrow_id r = ''instance'') (policies s) = 1"
  by (auto simp: repo_save_policy_def op_iff)

lemma change_policy_Inr:
  assumes "change_policy a v rq ev now s = (Inr n, s')"
  shows "\<not> invalid_policy v \<and> n = policy_revision v + 1 \<and> i64_ok n \<and>
    (\<exists>p. authorize a PolicyManage now s = (Inr p, s)) \<and>
    (\<exists>cur. repo_policy s = (Inr (Some cur), s) \<and> policy_revision cur = policy_revision v) \<and>
    s' = s\<lparr>policies := update_rows (\<lambda>r. polrow_id r = ''instance'')
             (\<lambda>_. policy_row_of (v\<lparr>policy_revision := n\<rparr>)) (policies s),
           audits := audits s @ [audit_row_of ev (audit_new a rq ''instance-policy'' ''instance''
             ''instance-policy.configure'' None now)]\<rparr> \<and>
    store_ok s' \<and> count_rows (\<lambda>r. polrow_id r = ''instance'') (policies s) = 1"
proof -
  from assms obtain p s1 cur s2 t where
    valid: "\<not> invalid_policy v" and
    auth: "authorize a PolicyManage now s = (Inr p, s1)" and
    cur: "repo_policy s1 = (Inr (Some cur), s2)" "policy_revision cur = policy_revision v" and
    n: "i64_ok n" "n = policy_revision v + 1" and
    save: "repo_save_policy (v\<lparr>policy_revision := n\<rparr>) s2 = (Inr (), t)" and
    audit: "repo_audit ev (audit_new a rq ''instance-policy'' ''instance''
            ''instance-policy.configure'' None now) t = (Inr (), s')"
    unfolding change_policy_def choice_Inr transaction_eq_Inr bind_op_eq_Inr require_some_Inr
      lift_op_Inr ok_or_eq_Inr checked_i64_eq_Some return_op_Inr
    by auto
  have "s1 = s" using queryD [OF query_authorize auth] .
  moreover have "s2 = s1" using queryD [OF query_repo(10) cur(1)] .
  ultimately show ?thesis
    using valid auth cur n save audit unfolding repo_save_policy_Inr repo_audit_Inr by auto
qed

lemma change_policy_Inl: "change_policy a v rq ev now s = (Inl e, s') \<Longrightarrow> s' = s"
  by (auto simp: change_policy_def op_iff split: if_splits)

lemma change_policy_stored:
  assumes "change_policy a v rq ev now s = (Inr n, s')"
  shows "repo_policy s' = (Inr (Some (v\<lparr>policy_revision := n\<rparr>)), s')"
proof -
  note run = change_policy_Inr [OF assms]
  let ?row = "policy_row_of (v\<lparr>policy_revision := n\<rparr>)"
  from run have "filter (\<lambda>r. polrow_id r = ''instance'') (policies s) \<noteq> []"
    by (auto simp: count_rows_def)
  then obtain r where "find_row (\<lambda>r. polrow_id r = ''instance'') (policies s) = Some r"
    using find_row_None_iff [of "\<lambda>r. polrow_id r = ''instance''" "policies s"]
    by (cases "find_row (\<lambda>r. polrow_id r = ''instance'') (policies s)") (auto simp: filter_empty_conv)
  moreover have "find_row (\<lambda>r. polrow_id r = ''instance'')
      (update_rows (\<lambda>r. polrow_id r = ''instance'') (\<lambda>_. ?row) (policies s)) =
    map_option (\<lambda>r. if polrow_id r = ''instance'' then ?row else r)
      (find_row (\<lambda>r. polrow_id r = ''instance'') (policies s))"
    by (rule find_row_update) (simp add: policy_row_of_def)
  ultimately show ?thesis
    using run find_row_SomeD [of "\<lambda>r. polrow_id r = ''instance''" "policies s" r]
    by (simp add: repo_policy_def)
qed

section \<open>Properties\<close>

text \<open>
  C17: A policy change that succeeds was allowed, within the bounds and made against the current revision;
  afterwards the stored policy is the requested one under the next revision, exactly one audit event was
  added, nothing else changed, and the schema's constraints hold.
\<close>
theorem policy_change_exact:
  assumes "change_policy a v rq ev now s = (Inr n, s')"
  shows "\<not> invalid_policy v \<and> n = policy_revision v + 1 \<and>
    (\<exists>p. authorize a PolicyManage now s = (Inr p, s)) \<and>
    (\<exists>cur. repo_policy s = (Inr (Some cur), s) \<and> policy_revision cur = policy_revision v) \<and>
    repo_policy s' = (Inr (Some (v\<lparr>policy_revision := n\<rparr>)), s') \<and>
    length (audits s') = length (audits s) + 1 \<and>
    s' = s\<lparr>policies := policies s', audits := audits s'\<rparr> \<and> store_ok s'"
  using change_policy_Inr [OF assms] change_policy_stored [OF assms] by auto

definition sample_policy_change :: instance_policy where
  "sample_policy_change = default_policy\<lparr>policy_max_agents := 200\<rparr>"

lemma policy_change_exact_witness:
  "\<exists>s'. repo_policy s' = (Inr (Some (sample_policy_change\<lparr>policy_revision := 1\<rparr>)), s')"
proof -
  let ?run = "change_policy ada sample_policy_change ''r'' ''e'' 1000 sample_store"
  have "case ?run of (Inl _, _) \<Rightarrow> False | (Inr n, _) \<Rightarrow> n = 1" by code_simp
  then obtain s' where "?run = (Inr 1, s')" by (auto split: prod.splits sum.splits)
  from policy_change_exact [OF this] show ?thesis by blast
qed

text \<open>
  C18: Updates are never lost: after a successful change, a second change made against the same revision
  fails and leaves the database as the first one left it.
\<close>
theorem policy_lost_update:
  assumes "change_policy a v rq ev now s = (Inr n, s')" and "policy_revision w = policy_revision v"
  shows "is_err (fst (change_policy b w rq2 ev2 later s')) \<and> snd (change_policy b w rq2 ev2 later s') = s'"
proof (cases "change_policy b w rq2 ev2 later s'")
  case (Pair r t)
  show ?thesis
  proof (cases r)
    case (Inl e)
    with Pair change_policy_Inl [of b w rq2 ev2 later s' e t] show ?thesis by simp
  next
    case (Inr m)
    from change_policy_Inr [OF Pair [unfolded Inr]] obtain cur where
      "repo_policy s' = (Inr (Some cur), s')" "policy_revision cur = policy_revision w" by blast
    with change_policy_stored [OF assms(1)] change_policy_Inr [OF assms(1)] assms(2) show ?thesis by auto
  qed
qed

lemma policy_lost_update_witness:
  "\<exists>s'. is_err (fst (change_policy ada default_policy ''q'' ''f'' 1001 s'))"
proof -
  let ?run = "change_policy ada sample_policy_change ''r'' ''e'' 1000 sample_store"
  have "case ?run of (Inl _, _) \<Rightarrow> False | (Inr n, _) \<Rightarrow> n = 1" by code_simp
  then obtain s' where run: "?run = (Inr 1, s')" by (auto split: prod.splits sum.splits)
  have "policy_revision default_policy = policy_revision sample_policy_change"
    by (simp add: sample_policy_change_def)
  from policy_lost_update [OF run this, of ada "''q''" "''f''" 1001] show ?thesis by blast
qed

end
