(* ===== verification/Session.thy ===== *)
theory Session
  imports Authorization
begin

text \<open>
  Management sessions (\<open>domain/src/session.rs\<close>). The messaging backend's answer to \<open>identify\<close>, the clock,
  the two fresh secrets and the digest \<open>identity::hash\<close> are arguments. \<open>repository.with\<close> runs its
  closure on the database; a poisoned lock is not modelled.
\<close>

record opened =
  opened_secret :: string
  opened_csrf_secret :: string
  opened_member :: member_view
  opened_permissions :: "permission list"

record authenticated =
  auth_actor :: actor
  auth_member :: member_view
  auth_csrf_secret :: string
  auth_native_access_token :: string
  auth_permissions :: "permission list"

definition membership_required :: failure where
  "membership_required = failure_new Forbidden ''An active human membership is required''"

definition session_lifetime_ms :: int where
  "session_lifetime_ms = 8 * 60 * 60 * 1000"

definition create_session ::
  "(string \<Rightarrow> string) \<Rightarrow> string result \<Rightarrow> string \<Rightarrow> int result \<Rightarrow> string result \<Rightarrow> string result \<Rightarrow> opened db" where
  "create_session hash identified token clock fresh_secret fresh_csrf =
     bind_op (lift_op identified) (\<lambda>backend_user_id.
     transaction (
       bind_op (lift_op clock) (\<lambda>now.
       bind_op (require_op (repo_principal_by_backend_user_id backend_user_id)
         (\<lambda>v. principal_kind v = Human \<and> principal_status v = Active) membership_required) (\<lambda>p.
       bind_op (require_some (repo_member_view (principal_id p)) membership_required) (\<lambda>member.
       bind_op (repo_remove_expired_sessions now) (\<lambda>_.
       bind_op (repo_session_count (principal_id p) now) (\<lambda>count.
       if count \<ge> 10
       then fail_op (failure_new Limit ''End an existing management session before opening another'')
       else
         bind_op (lift_op fresh_secret) (\<lambda>secret.
         bind_op (lift_op fresh_csrf) (\<lambda>csrf.
         bind_op (lift_op (ok_or (checked_i64 (now + session_lifetime_ms))
           (failure_new Unavailable ''Invalid session clock''))) (\<lambda>expires_at.
         bind_op (repo_insert_session \<lparr>session_secret_hash = hash secret,
           session_member_id = principal_id p, session_csrf_secret = csrf,
           session_native_access_token = token, session_created_at = now,
           session_expires_at = expires_at\<rparr>) (\<lambda>_.
         bind_op (repo_permissions (principal_id p)) (\<lambda>permissions.
         return_op \<lparr>opened_secret = secret, opened_csrf_secret = csrf, opened_member = member,
           opened_permissions = permissions\<rparr>))))))))))))"

definition native_session ::
  "string result \<Rightarrow> principal_kind option \<Rightarrow> int result \<Rightarrow> actor db" where
  "native_session identified kind clock =
     bind_op (lift_op identified) (\<lambda>backend_user_id.
     bind_op (require_op (repo_principal_by_backend_user_id backend_user_id)
       (\<lambda>v. case kind of None \<Rightarrow> True | Some k \<Rightarrow> principal_kind v = k)
       (failure_new Unauthorized
          ''The native session requires a registered identity of the correct kind'')) (\<lambda>p.
     (let a = \<lparr>actor_principal_id = principal_id p, actor_kind = principal_kind p,
               actor_authentication = Some (NativeAuth backend_user_id)\<rparr>
      in bind_op (lift_op clock) (\<lambda>now.
         bind_op (active_actor a now) (\<lambda>_. return_op a)))))"

definition authenticate :: "(string \<Rightarrow> string) \<Rightarrow> string \<Rightarrow> int \<Rightarrow> authenticated db" where
  "authenticate hash secret now =
     bind_op (require_op (repo_session (hash secret)) (\<lambda>v. session_expires_at v > now)
       (failure_new Unauthorized ''Management session expired or ended'')) (\<lambda>session.
     (let a = \<lparr>actor_principal_id = session_member_id session, actor_kind = Human,
               actor_authentication = Some (Management (session_secret_hash session))\<rparr>
      in bind_op (active_actor a now) (\<lambda>_.
         bind_op (require_some (repo_member_view (actor_principal_id a)) membership_required) (\<lambda>member.
         bind_op (repo_permissions (actor_principal_id a)) (\<lambda>permissions.
         return_op \<lparr>auth_actor = a, auth_member = member,
           auth_csrf_secret = session_csrf_secret session,
           auth_native_access_token = session_native_access_token session,
           auth_permissions = permissions\<rparr>)))))"

definition end_session :: "(string \<Rightarrow> string) \<Rightarrow> string \<Rightarrow> unit db" where
  "end_session hash secret = repo_remove_session (hash secret)"

section \<open>The effect of the operations\<close>

definition open_session :: "(string \<Rightarrow> string) \<Rightarrow> principal \<Rightarrow> string \<Rightarrow> string \<Rightarrow> string \<Rightarrow> int \<Rightarrow> member_session" where
  "open_session hash p secret csrf token now = \<lparr>session_secret_hash = hash secret,
     session_member_id = principal_id p, session_csrf_secret = csrf,
     session_native_access_token = token, session_created_at = now,
     session_expires_at = now + session_lifetime_ms\<rparr>"

definition live_sessions :: "string \<Rightarrow> int \<Rightarrow> store \<Rightarrow> nat" where
  "live_sessions mid now s =
     count_rows (\<lambda>r. session_member_id r = mid \<and> session_expires_at r > now) (sessions s)"

lemma create_session_Inr:
  assumes "create_session hash identified token clock fresh_secret fresh_csrf s = (Inr v, s')"
  shows "\<exists>uid now p secret csrf. identified = Inr uid \<and> clock = Inr now \<and>
    repo_principal_by_backend_user_id uid s = (Inr (Some p), s) \<and>
    principal_kind p = Human \<and> principal_status p = Active \<and>
    repo_member_view (principal_id p) s = (Inr (Some (opened_member v)), s) \<and>
    secret = opened_secret v \<and> csrf = opened_csrf_secret v \<and>
    (let kept = filter (\<lambda>r. \<not> session_expires_at r \<le> now) (sessions s) in
       count_rows (\<lambda>r. session_member_id r = principal_id p \<and> session_expires_at r > now) kept < 10 \<and>
       s' = s\<lparr>sessions := kept @ [open_session hash p secret csrf token now]\<rparr>) \<and>
    repo_permissions (principal_id p) s' = (Inr (opened_permissions v), s') \<and> store_ok s'"
proof -
  from assms obtain uid now p s1 member s2 t count secret csrf expires t2 perms t3 where
    id: "identified = Inr uid" and clock: "clock = Inr now" and
    p: "repo_principal_by_backend_user_id uid s = (Inr (Some p), s1)" and
    active: "principal_kind p = Human" "principal_status p = Active" and
    member: "repo_member_view (principal_id p) s1 = (Inr (Some member), s2)" and
    expired: "repo_remove_expired_sessions now s2 = (Inr (), t)" and
    count: "repo_session_count (principal_id p) now t = (Inr count, t2)" "\<not> count \<ge> 10" and
    expires: "expires = now + session_lifetime_ms" and
    ins: "repo_insert_session \<lparr>session_secret_hash = hash secret, session_member_id = principal_id p,
      session_csrf_secret = csrf, session_native_access_token = token, session_created_at = now,
      session_expires_at = expires\<rparr> t2 = (Inr (), t3)" and
    perms: "repo_permissions (principal_id p) t3 = (Inr perms, s')" and
    v: "v = \<lparr>opened_secret = secret, opened_csrf_secret = csrf, opened_member = member,
           opened_permissions = perms\<rparr>"
    unfolding create_session_def choice_Inr transaction_eq_Inr bind_op_eq_Inr require_some_Inr
      require_op_Inr lift_op_Inr ok_or_eq_Inr checked_i64_eq_Some return_op_Inr
    by auto
  have st: "s1 = s" "s2 = s1" "t2 = t" "s' = t3"
    using queryD [OF query_repo(2) p] queryD [OF query_repo(7) member]
      queryD [OF query_repo(11) count(1)] queryD [OF query_repo(6) perms] by auto
  from expired have t: "t = s\<lparr>sessions := filter (\<lambda>r. \<not> session_expires_at r \<le> now) (sessions s)\<rparr>"
    unfolding repo_remove_expired_sessions_def execute_Inr st by simp
  from ins have t3: "store_ok t3" "t3 = t\<lparr>sessions := sessions t @ [open_session hash p secret csrf token now]\<rparr>"
    unfolding repo_insert_session_def execute_Inr st expires open_session_def by auto
  from count have "count_rows (\<lambda>r. session_member_id r = principal_id p \<and> session_expires_at r > now)
      (filter (\<lambda>r. \<not> session_expires_at r \<le> now) (sessions s)) < 10"
    by (auto simp: repo_session_count_def st t)
  with id clock p active member perms st t t3 v show ?thesis by (auto simp: Let_def)
qed


lemma unchanged_tables:
  assumes "principals s' = principals s" "members s' = members s"
    "principal_roles s' = principal_roles s" "principal_applications s' = principal_applications s"
    and "repo_member_view mid s = (Inr x, s)"
  shows "repo_member_view mid s' = (Inr x, s')"
proof -
  have "member_query s' = member_query s" unfolding member_query_def assms(1-4) ..
  with assms(5) show ?thesis by (simp add: repo_member_view_def)
qed

lemma create_session_live:
  assumes run: "create_session hash identified token (Inr now) fresh_secret fresh_csrf s = (Inr v, s')"
    and few: "\<And>m. live_sessions m now s \<le> 10"
  shows "live_sessions m now s' \<le> 10"
proof -
  from create_session_Inr [OF run] obtain p where
    count: "count_rows (\<lambda>r. session_member_id r = principal_id p \<and> session_expires_at r > now)
      (filter (\<lambda>r. \<not> session_expires_at r \<le> now) (sessions s)) < 10" and
    s': "sessions s' = filter (\<lambda>r. \<not> session_expires_at r \<le> now) (sessions s) @
      [open_session hash p (opened_secret v) (opened_csrf_secret v) token now]"
    unfolding Let_def by auto
  have "count_rows (\<lambda>r. session_member_id r = m \<and> session_expires_at r > now)
      (filter (\<lambda>r. \<not> session_expires_at r \<le> now) (sessions s)) = live_sessions m now s"
    unfolding live_sessions_def count_rows_def filter_filter
    by (intro arg_cong [of _ _ length] filter_cong) auto
  with count few [of m] show ?thesis
    by (auto simp: live_sessions_def s' count_rows_def open_session_def session_lifetime_ms_def)
qed

lemma authenticate_opened:
  assumes ok: "store_ok s"
    and run: "create_session hash identified token (Inr now) fresh_secret fresh_csrf s = (Inr v, s')"
    and later: "now \<le> later" "later < now + session_lifetime_ms"
  shows "\<exists>au. authenticate hash (opened_secret v) later s' = (Inr au, s') \<and>
     auth_member au = opened_member v \<and> auth_permissions au = opened_permissions v \<and>
     auth_csrf_secret au = opened_csrf_secret v \<and> auth_native_access_token au = token"
proof -
  from create_session_Inr [OF run] obtain uid p where
    p: "repo_principal_by_backend_user_id uid s = (Inr (Some p), s)" "principal_kind p = Human"
      "principal_status p = Active" and
    view: "repo_member_view (principal_id p) s = (Inr (Some (opened_member v)), s)" and
    s': "s' = s\<lparr>sessions := filter (\<lambda>r. \<not> session_expires_at r \<le> now) (sessions s) @
      [open_session hash p (opened_secret v) (opened_csrf_secret v) token now]\<rparr>" and
    perms: "repo_permissions (principal_id p) s' = (Inr (opened_permissions v), s')" and
    ok': "store_ok s'"
    unfolding Let_def by auto
  let ?session = "open_session hash p (opened_secret v) (opened_csrf_secret v) token now"
  have sess: "repo_session (hash (opened_secret v)) s' = (Inr (Some ?session), s')"
    unfolding repo_session_Inr [OF ok'] by (simp add: s' open_session_def)
  have "principal_row_of p \<in> set (principals s)"
    using p(1) find_row_SomeD by (fastforce simp: repo_principal_by_backend_user_id_def op_iff principal_of_row_Inr)
  then have stored: "stored_principal (principal_id p) p s'" by (simp add: s' stored_principal_def)
  let ?a = "\<lparr>actor_principal_id = principal_id p, actor_kind = Human,
    actor_authentication = Some (Management (hash (opened_secret v)))\<rparr>"
  have "session_live (hash (opened_secret v)) (principal_id p) later s'"
    using later by (simp add: session_live_def s' open_session_def)
  with stored p have "active_actor ?a later s' = (Inr p, s')"
    unfolding active_actor_Inr [OF ok'] by (simp add: actor_admitted_def identity_proved_def)
  moreover have "repo_member_view (principal_id p) s' = (Inr (Some (opened_member v)), s')"
    by (rule unchanged_tables [OF _ _ _ _ view]) (simp_all add: s')
  ultimately show ?thesis
    using sess perms later
    by (simp add: authenticate_def bind_op_def require_op_def require_some_def Let_def open_session_def)
qed

lemma end_session_ends:
  assumes "end_session hash secret s = (Inr (), s')"
  shows "is_err (fst (authenticate hash secret later s'))"
proof -
  from assms have "s' = s\<lparr>sessions := filter (\<lambda>r. session_secret_hash r \<noteq> hash secret) (sessions s)\<rparr>"
    by (auto simp: end_session_def repo_remove_session_def op_iff)
  then have "find_row (\<lambda>r. session_secret_hash r = hash secret) (sessions s') = None"
    by (auto simp: find_row_None_iff)
  then show ?thesis
    by (simp add: authenticate_def repo_session_def bind_op_def require_op_def)
qed

section \<open>Properties\<close>

text \<open>
  C19: The session that was just opened authenticates its secret until it expires: within the next eight
  hours \<open>authenticate\<close> returns the member, the permissions, the cross-site secret and the native token
  that opening it returned.
\<close>
theorem opened_session_authenticates:
  assumes "store_ok s"
    and "create_session hash identified token (Inr now) fresh_secret fresh_csrf s = (Inr v, s')"
    and "now \<le> later" and "later < now + session_lifetime_ms"
  shows "\<exists>au. authenticate hash (opened_secret v) later s' = (Inr au, s') \<and>
     auth_member au = opened_member v \<and> auth_permissions au = opened_permissions v \<and>
     auth_csrf_secret au = opened_csrf_secret v \<and> auth_native_access_token au = token"
  using assms by (rule authenticate_opened)

definition sample_hash :: "string \<Rightarrow> string" where
  "sample_hash v = ''h'' @ v"

lemma opened_session_authenticates_witness:
  "\<exists>(v :: opened) au s'. authenticate sample_hash (opened_secret v) 2000 s' = (Inr au, s') \<and> auth_member au = opened_member v"
proof -
  let ?run = "create_session sample_hash (Inr ''@ada'') ''tok'' (Inr 1000) (Inr ''new'') (Inr ''csrf'') sample_store"
  have "case ?run of (Inl _, _) \<Rightarrow> False | (Inr _, _) \<Rightarrow> True" by code_simp
  then obtain v s' where run: "?run = (Inr v, s')" by (auto split: prod.splits sum.splits)
  have "(1000 :: int) \<le> 2000" "2000 < 1000 + session_lifetime_ms"
    by (simp_all add: session_lifetime_ms_def)
  from opened_session_authenticates [OF sample_store_ok run this] show ?thesis by blast
qed

text \<open>
  C20: Opening a session, successful or not, never takes a member above ten live sessions: if no member
  holds more than ten that are live at the time of opening, none does afterwards.
\<close>
theorem sessions_bounded:
  assumes "\<And>m. live_sessions m now s \<le> 10"
  shows "live_sessions m now (snd (create_session hash identified token (Inr now) fresh_secret fresh_csrf s)) \<le> 10"
proof (cases "create_session hash identified token (Inr now) fresh_secret fresh_csrf s")
  case (Pair r t)
  show ?thesis
  proof (cases r)
    case (Inl e)
    with Pair have "t = s" by (auto simp: create_session_def op_iff)
    with Pair assms show ?thesis by simp
  next
    case (Inr v)
    with Pair create_session_live [OF Pair [unfolded Inr] assms] show ?thesis by simp
  qed
qed

lemma sessions_bounded_witness:
  "live_sessions ''ada'' 1000 (snd (create_session sample_hash (Inr ''@ada'') ''tok'' (Inr 1000)
     (Inr ''new'') (Inr ''csrf'') sample_store)) \<le> 10"
proof (rule sessions_bounded)
  show "live_sessions m 1000 sample_store \<le> 10" for m
    by (simp add: live_sessions_def sample_store_def count_rows_def)
qed

text \<open>
  C21: Ending a session ends it: whatever the session's secret was, it does not authenticate afterwards,
  at any time.
\<close>
theorem ended_session_rejected:
  assumes "end_session hash secret s = (Inr (), s')"
  shows "is_err (fst (authenticate hash secret later s'))"
  using assms by (rule end_session_ends)

lemma ended_session_rejected_witness:
  "\<exists>s'. is_err (fst (authenticate (\<lambda>_. ''s1'') ''secret'' 1000 s'))"
proof -
  let ?run = "end_session (\<lambda>_. ''s1'') ''secret'' sample_store"
  have "case ?run of (Inl _, _) \<Rightarrow> False | (Inr _, _) \<Rightarrow> True" by code_simp
  then obtain s' where "?run = (Inr (), s')" by (auto split: prod.splits sum.splits)
  from ended_session_rejected [OF this] show ?thesis by blast
qed

end
