(* ===== verification/Members.thy ===== *)
theory Members
  imports Authorization
begin

text \<open>
  Membership administration (\<open>domain/src/member/mod.rs\<close>): reading and listing members, and the change
  of a member's status, role and name, which reschedules the owned agents and is audited.
\<close>

record member_change =
  change_expected_revision :: int
  change_status :: "status option"
  change_display_name :: "string option"
  change_role :: "role option"

definition read_member :: "actor \<Rightarrow> string \<Rightarrow> int \<Rightarrow> member_view db" where
  "read_member a member_id now =
     bind_op (authorize a MemberManage now) (\<lambda>_.
     require_some (repo_member_view member_id) (failure_new Missing ''Member not found''))"

definition list_members :: "actor \<Rightarrow> int \<Rightarrow> int \<Rightarrow> int \<Rightarrow> member_view page db" where
  "list_members a page limit now =
     bind_op (authorize a MemberManage now) (\<lambda>_. repo_members_page page limit)"

definition invalid_member_name :: "string \<Rightarrow> bool" where
  "invalid_member_name name \<longleftrightarrow>
     name = [] \<or> utf16_count (chars name) > 100 \<or> list_ex (\<lambda>c. c \<le> 0x1F \<or> c = 0x7F) (chars name)"

text \<open>The message is UTF-8 text with an en dash between 1 and 100.\<close>

definition member_name_message :: string where
  "member_name_message = ''Member names must contain 1'' @ [CHR 0xE2, CHR 0x80, CHR 0x93] @
     ''100 characters without control characters''"

definition self_name_change :: "actor \<Rightarrow> string \<Rightarrow> member_change \<Rightarrow> bool" where
  "self_name_change a member_id input \<longleftrightarrow>
     actor_kind a = Human \<and>
     (case actor_authentication a of Some (NativeAuth _) \<Rightarrow> True | _ \<Rightarrow> False) \<and>
     actor_principal_id a = member_id \<and> change_display_name input \<noteq> None \<and>
     change_status input = None \<and> change_role input = None"

definition or_else :: "'a option \<Rightarrow> 'a \<Rightarrow> 'a" where
  "or_else x d = (case x of None \<Rightarrow> d | Some v \<Rightarrow> v)"

text \<open>The guard that at least one active administrator remains.\<close>

definition demotes :: "member_change \<Rightarrow> member_view \<Rightarrow> bool" where
  "demotes input current \<longleftrightarrow>
     role_role (view_role current) = RoleAdministrator \<and>
     principal_status (view_principal current) = Active \<and>
     (or_else (change_role input) (role_role (view_role current)) \<noteq> RoleAdministrator \<or>
      or_else (change_status input) (principal_status (view_principal current)) \<noteq> Active)"

definition administrator_guard :: "member_change \<Rightarrow> member_view \<Rightarrow> unit db" where
  "administrator_guard input current =
     (if demotes input current
      then bind_op repo_active_administrator_count (\<lambda>count. check_op (\<not> count \<le> 1)
        (failure_new Forbidden ''At least one active administrator is required''))
      else return_op ())"

text \<open>The changed view and the statements that store it, in the order of the code.\<close>

definition member_after ::
  "actor \<Rightarrow> string \<Rightarrow> member_change \<Rightarrow> int \<Rightarrow> int \<Rightarrow> member_view \<Rightarrow> member_view" where
  "member_after a member_id input revision now current = \<lparr>
     view_principal = (view_principal current)\<lparr>
       principal_status := or_else (change_status input) (principal_status (view_principal current)),
       principal_revision := revision\<rparr>,
     view_member = (case change_display_name input of None \<Rightarrow> view_member current
       | Some name \<Rightarrow> (view_member current)\<lparr>member_display_name := name\<rparr>),
     view_role = (if self_name_change a member_id input then view_role current
       else (view_role current)\<lparr>
         role_role := or_else (change_role input) (role_role (view_role current)),
         role_assigned_by := Some (actor_principal_id a), role_assigned_at := now\<rparr>),
     view_application = (view_application current)\<lparr>app_next_check_at := now\<rparr>\<rparr>"

definition save_member_view ::
  "actor \<Rightarrow> string \<Rightarrow> bool \<Rightarrow> member_view \<Rightarrow> string \<Rightarrow> string \<Rightarrow> int \<Rightarrow> unit db" where
  "save_member_view a member_id self_name v request_id event_id now =
     bind_op (repo_save_principal (view_principal v)) (\<lambda>_.
     bind_op (if self_name then return_op () else repo_save_role (view_role v)) (\<lambda>_.
     bind_op (repo_save_member (view_member v)) (\<lambda>_.
     bind_op (repo_save_application (view_application v)) (\<lambda>_.
     bind_op (repo_schedule_owned_agents member_id (principal_status (view_principal v) = Revoked) now) (\<lambda>_.
     repo_audit event_id (audit_new a request_id ''member'' member_id ''member.configure''
       (Some member_id) now))))))"

definition change_member ::
  "actor \<Rightarrow> string \<Rightarrow> member_change \<Rightarrow> string \<Rightarrow> string \<Rightarrow> int \<Rightarrow> member_view db" where
  "change_member a member_id input request_id event_id now =
     (if (case change_display_name input of None \<Rightarrow> False | Some name \<Rightarrow> invalid_member_name name)
      then fail_op (failure_new Invalid member_name_message)
      else if change_role input = Some RoleAgent
      then fail_op (failure_new Invalid ''A human role is required'')
      else transaction (
        bind_op (if self_name_change a member_id input then active_actor a now
                 else authorize a MemberManage now) (\<lambda>_.
        bind_op (require_some (repo_member_view member_id) (failure_new Missing ''Member not found'')) (\<lambda>current.
        if principal_status (view_principal current) = Revoked
        then fail_op (failure_new Conflict ''Account revocation is permanent'')
        else if principal_revision (view_principal current) \<noteq> change_expected_revision input
        then fail_op (failure_new Conflict ''Member revision changed'')
        else
          bind_op (administrator_guard input current) (\<lambda>_.
          bind_op (lift_op (ok_or (checked_i64 (change_expected_revision input + 1))
            (failure_new Conflict ''Member revision exhausted''))) (\<lambda>revision.
          let v = member_after a member_id input revision now current in
          bind_op (save_member_view a member_id (self_name_change a member_id input) v
            request_id event_id now) (\<lambda>_. return_op v)))))))"

section \<open>The effect of a change\<close>

definition revoke_if :: "bool \<Rightarrow> string list \<Rightarrow> store \<Rightarrow> store" where
  "revoke_if b ids s = (if b then revoke_principals ids s else s)"

lemma repo_schedule_owned_agents_Inr:
  "repo_schedule_owned_agents owner b now s = (Inr u, s') \<Longrightarrow>
     s' = check_grants_at (owned_agent_ids owner s) now (check_applications_at (owned_agent_ids owner s) now
            (revoke_if b (owned_agent_ids owner s) s)) \<and> store_ok s'"
  by (auto simp: repo_schedule_owned_agents_def revoke_if_def op_iff split: if_splits)

text \<open>The join behind a member view, row by row.\<close>

definition member_rows :: "string \<Rightarrow> store \<Rightarrow> principal_row \<Rightarrow> member_row \<Rightarrow> role_row \<Rightarrow> application_row \<Rightarrow> bool" where
  "member_rows mid s p m r a \<longleftrightarrow>
     p \<in> set (principals s) \<and> m \<in> set (members s) \<and> r \<in> set (principal_roles s) \<and>
     a \<in> set (principal_applications s) \<and> prow_id p = mid \<and> mrow_principal_id m = mid \<and>
     rrow_principal_id r = mid \<and> arow_principal_id a = mid"

lemma member_query_iff:
  "(p, m, r, a) \<in> set (member_query s) \<longleftrightarrow> member_rows (prow_id p) s p m r a"
  unfolding member_query_def member_rows_def by auto

lemma member_rows_unique:
  assumes "store_ok s" "member_rows mid s p m r a" "member_rows mid s p' m' r' a'"
  shows "p' = p \<and> m' = m \<and> r' = r \<and> a' = a"
  using assms(2,3) store_ok_uniques [OF assms(1)] unfolding member_rows_def
  by (metis unique_on_eq)

lemma repo_member_view_Inr:
  assumes "store_ok s"
  shows "repo_member_view mid s = (Inr (Some v), s') \<longleftrightarrow>
    s' = s \<and> (\<exists>p m r a. member_rows mid s p m r a \<and> member_view_of_rows (p, m, r, a) = Inr v)"
proof -
  have "find_row (\<lambda>(p, _). prow_id p = mid) (member_query s) = Some q \<longleftrightarrow>
     (\<exists>p m r a. q = (p, m, r, a) \<and> member_rows mid s p m r a)" for q
  proof
    assume "find_row (\<lambda>(p, _). prow_id p = mid) (member_query s) = Some q"
    from find_row_SomeD [OF this] show "\<exists>p m r a. q = (p, m, r, a) \<and> member_rows mid s p m r a"
      by (cases q) (auto simp: member_query_iff)
  next
    assume "\<exists>p m r a. q = (p, m, r, a) \<and> member_rows mid s p m r a"
    then obtain p m r a where q: "q = (p, m, r, a)" and rows: "member_rows mid s p m r a" by blast
    then have id: "prow_id p = mid" by (simp add: member_rows_def)
    show "find_row (\<lambda>(p, _). prow_id p = mid) (member_query s) = Some q"
    proof (rule find_row_only)
      show "q \<in> set (member_query s)" using rows by (simp add: q member_query_iff id)
      show "case q of (p, _) \<Rightarrow> prow_id p = mid" by (simp add: q id)
      fix q' assume q': "q' \<in> set (member_query s)" "case q' of (p, _) \<Rightarrow> prow_id p = mid"
      obtain p' m' r' a' where eq: "q' = (p', m', r', a')" by (cases q')
      from q' have "member_rows mid s p' m' r' a'" by (simp add: eq member_query_iff)
      from member_rows_unique [OF assms rows this] show "q' = q" by (simp add: eq q)
    qed
  qed
  then show ?thesis
    unfolding repo_member_view_def by (auto simp: op_iff)
qed

lemma member_view_of_rows_Inr:
  "member_view_of_rows (p, m, r, a) = Inr v \<longleftrightarrow>
     p = principal_row_of (view_principal v) \<and> mrow_principal_kind m = ''human'' \<and>
     mrow_principal_id m = member_principal_id (view_member v) \<and>
     mrow_display_name m = member_display_name (view_member v) \<and>
     rrow_principal_id r = role_principal_id (view_role v) \<and>
     rrow_principal_kind r = kind_text (role_principal_kind (view_role v)) \<and>
     rrow_role_code r = role_text (role_role (view_role v)) \<and>
     rrow_assigned_by r = role_assigned_by (view_role v) \<and>
     rrow_assigned_at r = role_assigned_at (view_role v) \<and>
     application_of_row a = Inr (view_application v)"
  by (cases v; cases "view_member v"; cases "view_role v")
    (auto simp: member_view_of_rows_def op_iff kind_of_text_Inr principal_of_row_Inr role_of_text_Inr)

definition save_view :: "bool \<Rightarrow> member_view \<Rightarrow> store \<Rightarrow> store" where
  "save_view keep_role v s = s\<lparr>
     principals := update_rows (\<lambda>r. prow_id r = principal_id (view_principal v))
       (\<lambda>_. principal_row_of (view_principal v)) (principals s),
     principal_roles := (if keep_role then principal_roles s
       else update_rows (\<lambda>r. rrow_principal_id r = role_principal_id (view_role v))
         (\<lambda>r. r\<lparr>rrow_role_code := role_text (role_role (view_role v)),
            rrow_assigned_by := role_assigned_by (view_role v),
            rrow_assigned_at := role_assigned_at (view_role v)\<rparr>) (principal_roles s)),
     members := update_rows (\<lambda>r. mrow_principal_id r = member_principal_id (view_member v))
       (\<lambda>r. r\<lparr>mrow_display_name := member_display_name (view_member v)\<rparr>) (members s),
     principal_applications := update_rows (\<lambda>r. arow_principal_id r = app_principal_id (view_application v))
       (\<lambda>_. application_row_of (view_application v)) (principal_applications s)\<rparr>"

definition schedule_agents :: "string \<Rightarrow> bool \<Rightarrow> int \<Rightarrow> store \<Rightarrow> store" where
  "schedule_agents owner b now s =
     check_grants_at (owned_agent_ids owner s) now (check_applications_at (owned_agent_ids owner s) now
       (revoke_if b (owned_agent_ids owner s) s))"

lemma administrator_guard_Inr:
  "administrator_guard i cur s = (Inr u, s') \<longleftrightarrow>
     s' = s \<and> (demotes i cur \<longrightarrow> 1 < length (active_administrators s))"
  by (auto simp: administrator_guard_def repo_active_administrator_count_def op_iff)

lemma save_member_view_Inr:
  assumes "save_member_view a mid b v rq ev now s = (Inr u, s')"
  shows "store_ok s' \<and>
    s' = (schedule_agents mid (principal_status (view_principal v) = Revoked) now (save_view b v s))\<lparr>audits :=
      audits s @ [audit_row_of ev (audit_new a rq ''member'' mid ''member.configure'' (Some mid) now)]\<rparr>"
proof -
  from assms obtain s1 s2 s3 s4 s5 where
    p: "repo_save_principal (view_principal v) s = (Inr (), s1)" and
    role: "(if b then return_op () else repo_save_role (view_role v)) s1 = (Inr (), s2)" and
    m: "repo_save_member (view_member v) s2 = (Inr (), s3)" and
    ap: "repo_save_application (view_application v) s3 = (Inr (), s4)" and
    sched: "repo_schedule_owned_agents mid (principal_status (view_principal v) = Revoked) now s4 = (Inr (), s5)" and
    au: "repo_audit ev (audit_new a rq ''member'' mid ''member.configure'' (Some mid) now) s5 = (Inr (), s')"
    unfolding save_member_view_def bind_op_eq_Inr by auto
  have s1: "s1 = s\<lparr>principals := update_rows (\<lambda>r. prow_id r = principal_id (view_principal v))
       (\<lambda>_. principal_row_of (view_principal v)) (principals s)\<rparr>"
    and s3: "s3 = s2\<lparr>members := update_rows (\<lambda>r. mrow_principal_id r = member_principal_id (view_member v))
       (\<lambda>r. r\<lparr>mrow_display_name := member_display_name (view_member v)\<rparr>) (members s2)\<rparr>"
    and s4: "s4 = s3\<lparr>principal_applications :=
       update_rows (\<lambda>r. arow_principal_id r = app_principal_id (view_application v))
       (\<lambda>_. application_row_of (view_application v)) (principal_applications s3)\<rparr>"
    and s': "s' = s5\<lparr>audits := audits s5 @
       [audit_row_of ev (audit_new a rq ''member'' mid ''member.configure'' (Some mid) now)]\<rparr>" "store_ok s'"
    using p m ap au
    unfolding repo_save_principal_Inr repo_save_member_Inr repo_save_application_Inr repo_audit_Inr by blast+
  have s2: "s2 = s1\<lparr>principal_roles := (if b then principal_roles s1
       else update_rows (\<lambda>r. rrow_principal_id r = role_principal_id (view_role v))
         (\<lambda>r. r\<lparr>rrow_role_code := role_text (role_role (view_role v)),
            rrow_assigned_by := role_assigned_by (view_role v),
            rrow_assigned_at := role_assigned_at (view_role v)\<rparr>) (principal_roles s1))\<rparr>"
    using role by (cases b) (simp_all add: repo_save_role_Inr)
  have "s4 = save_view b v s"
    unfolding save_view_def s4 s3 s2 s1 by simp
  with repo_schedule_owned_agents_Inr [OF sched]
  have "s5 = schedule_agents mid (principal_status (view_principal v) = Revoked) now (save_view b v s)"
    by (simp add: schedule_agents_def)
  moreover have "audits (schedule_agents mid c now (save_view b v s)) = audits s" for c
    by (simp add: schedule_agents_def check_grants_at_def check_applications_at_def revoke_if_def
        revoke_principals_def save_view_def)
  ultimately show ?thesis using s' by simp
qed

lemma change_member_Inr:
  assumes run: "change_member a mid i rq ev now s = (Inr v, s')"
  shows "\<exists>cur. repo_member_view mid s = (Inr (Some cur), s) \<and>
    principal_status (view_principal cur) \<noteq> Revoked \<and>
    principal_revision (view_principal cur) = change_expected_revision i \<and>
    (demotes i cur \<longrightarrow> 1 < length (active_administrators s)) \<and>
    v = member_after a mid i (change_expected_revision i + 1) now cur \<and>
    save_member_view a mid (self_name_change a mid i) v rq ev now s = (Inr (), s') \<and>
    (if self_name_change a mid i then \<exists>p. active_actor a now s = (Inr p, s)
      else \<exists>p. authorize a MemberManage now s = (Inr p, s))"
proof -
  have choice: "(if c then fail_op e else m) t = (Inr w, t') \<longleftrightarrow> \<not> c \<and> m t = (Inr w, t')"
    for c e and m :: "'z db" and t w t' by auto
  from run obtain q s1 cur s2 where auth: "(if self_name_change a mid i then active_actor a now
      else authorize a MemberManage now) s = (Inr q, s1)" and view: "repo_member_view mid s1 = (Inr (Some cur), s2)"
    and "principal_status (view_principal cur) \<noteq> Revoked"
    "principal_revision (view_principal cur) = change_expected_revision i"
    "demotes i cur \<longrightarrow> 1 < length (active_administrators s2)"
    "v = member_after a mid i (change_expected_revision i + 1) now cur"
    "save_member_view a mid (self_name_change a mid i) v rq ev now s2 = (Inr (), s')"
    unfolding change_member_def Let_def choice transaction_eq_Inr bind_op_eq_Inr require_some_Inr
      lift_op_Inr ok_or_eq_Inr checked_i64_eq_Some administrator_guard_Inr return_op_Inr
    by (auto split: if_splits)
  moreover from auth have "s1 = s"
    by (auto split: if_splits dest: queryD [OF query_active_actor] queryD [OF query_authorize])
  moreover from queryD [OF query_repo(7) view] have "s2 = s1" .
  ultimately show ?thesis by (auto split: if_splits)
qed

lemma schedule_agents_fields:
  "principals (schedule_agents w b now s) = principals (revoke_if b (owned_agent_ids w s) s)"
  "principal_roles (schedule_agents w b now s) = principal_roles s"
  "members (schedule_agents w b now s) = members s"
  "agents (schedule_agents w b now s) = agents s"
  by (simp_all add: schedule_agents_def check_grants_at_def check_applications_at_def revoke_if_def
      revoke_principals_def)

lemma save_view_fields [simp]:
  "agents (save_view b v s) = agents s"
  "owned_agent_ids w (save_view b v s) = owned_agent_ids w s"
  "active_administrators (s\<lparr>audits := x\<rparr>) = active_administrators s"
  by (simp_all add: save_view_def owned_agent_ids_def active_administrators_def)

lemma active_administrators_iff:
  "(p, r) \<in> set (active_administrators s) \<longleftrightarrow> p \<in> set (principals s) \<and> r \<in> set (principal_roles s) \<and>
     rrow_principal_id r = prow_id p \<and> prow_status p = ''active'' \<and> rrow_role_code r = ''administrator''"
  by (auto simp: active_administrators_def)

lemma store_ok_agent_kind:
  assumes "store_ok s" "g \<in> set (agents s)" "p \<in> set (principals s)" "prow_id p = agrow_principal_id g"
  shows "prow_kind p = ''agent''"
proof -
  from assms(1,2) obtain q where q: "q \<in> set (principals s)" "prow_id q = agrow_principal_id g"
    "prow_kind q = agrow_principal_kind g" and "agrow_principal_kind g = ''agent''"
    by (force simp: store_ok_def references_ok_def identity_references_ok_def refers_def list_all_iff
        checks_ok_def agent_check_def)
  moreover from q assms(3,4) have "q = p"
    using unique_on_eq [OF store_ok_uniques(1) [OF assms(1)]] by simp
  ultimately show ?thesis by simp
qed

lemma store_ok_member_kind:
  assumes "store_ok s" "m \<in> set (members s)" "p \<in> set (principals s)" "prow_id p = mrow_principal_id m"
  shows "prow_kind p = ''human''"
proof -
  from assms(1,2) obtain q where q: "q \<in> set (principals s)" "prow_id q = mrow_principal_id m"
    "prow_kind q = mrow_principal_kind m" and "mrow_principal_kind m = ''human''"
    by (force simp: store_ok_def references_ok_def identity_references_ok_def refers_def list_all_iff
        checks_ok_def member_check_def)
  moreover from q assms(3,4) have "q = p"
    using unique_on_eq [OF store_ok_uniques(1) [OF assms(1)]] by simp
  ultimately show ?thesis by simp
qed

lemma administrator_not_agent:
  assumes ok: "store_ok s" and r: "r \<in> set (principal_roles s)" "rrow_role_code r = ''administrator''"
    and p: "p \<in> set (principals s)" "prow_id p = rrow_principal_id r" and g: "g \<in> set (agents s)"
  shows "agrow_principal_id g \<noteq> prow_id p"
proof
  assume "agrow_principal_id g = prow_id p"
  with store_ok_agent_kind [OF ok g p(1)] have "prow_kind p = ''agent''" by simp
  moreover from ok r obtain q where "q \<in> set (principals s)" "prow_id q = rrow_principal_id r"
    "prow_kind q = rrow_principal_kind r"
    by (force simp: store_ok_def references_ok_def identity_references_ok_def refers_def list_all_iff)
  moreover from this p have "q = p"
    using unique_on_eq [OF store_ok_uniques(1) [OF ok]] by simp
  moreover from ok r have "rrow_principal_kind r = ''human''"
    by (auto simp: store_ok_def references_ok_def identity_references_ok_def refers_def list_all_iff
        role_rows_def)
  ultimately show False by simp
qed

lemma owned_agent_ids_iff:
  "i \<in> set (owned_agent_ids w s) \<longleftrightarrow> (\<exists>g \<in> set (agents s). agrow_principal_id g = i \<and> agrow_owner_id g = w)"
  by (auto simp: owned_agent_ids_def)

lemma revoke_if_miss:
  "p \<in> set (principals s) \<Longrightarrow> prow_id p \<notin> set ids \<Longrightarrow> p \<in> set (principals (revoke_if b ids s))"
  by (simp add: revoke_if_def revoke_principals_def update_rows_miss)

lemma application_of_row_id: "application_of_row r = Inr a \<Longrightarrow> app_principal_id a = arow_principal_id r"
  by (auto simp: application_of_row_def op_iff)

text \<open>The ids in a stored view are the member's.\<close>

lemma view_ids:
  assumes "store_ok s" "repo_member_view mid s = (Inr (Some cur), s)"
  shows "principal_id (view_principal cur) = mid" "role_principal_id (view_role cur) = mid"
    "member_principal_id (view_member cur) = mid" "app_principal_id (view_application cur) = mid"
proof -
  from assms obtain p m r a where rows: "member_rows mid s p m r a"
    and v: "member_view_of_rows (p, m, r, a) = Inr cur" by (auto simp: repo_member_view_Inr)
  from v have "application_of_row a = Inr (view_application cur)"
    by (simp add: member_view_of_rows_Inr)
  then have "arow_principal_id a = app_principal_id (view_application cur)"
    by (simp add: application_of_row_id)
  with rows v show "principal_id (view_principal cur) = mid" "role_principal_id (view_role cur) = mid"
    "member_principal_id (view_member cur) = mid" "app_principal_id (view_application cur) = mid"
    by (auto simp: member_view_of_rows_Inr member_rows_def)
qed

lemma member_after_ids [simp]:
  "principal_id (view_principal (member_after a mid i n now cur)) = principal_id (view_principal cur)"
  "role_principal_id (view_role (member_after a mid i n now cur)) = role_principal_id (view_role cur)"
  "member_principal_id (view_member (member_after a mid i n now cur)) = member_principal_id (view_member cur)"
  "app_principal_id (view_application (member_after a mid i n now cur)) = app_principal_id (view_application cur)"
  by (simp_all add: member_after_def split: option.splits)

lemma save_member_view_admins:
  assumes run: "save_member_view a mid b v rq ev now s = (Inr (), s')"
    and ok: "store_ok s" and ids: "principal_id (view_principal v) = mid" "role_principal_id (view_role v) = mid"
    and admin: "(p, r) \<in> set (active_administrators s)" and other: "prow_id p \<noteq> mid"
  shows "(p, r) \<in> set (active_administrators s')"
proof -
  from admin have p: "p \<in> set (principals s)" "prow_status p = ''active''"
    and r: "r \<in> set (principal_roles s)" "rrow_principal_id r = prow_id p" "rrow_role_code r = ''administrator''"
    by (auto simp: active_administrators_iff)
  have "prow_id p \<notin> set (owned_agent_ids mid s)"
    using administrator_not_agent [OF ok r(1,3) p(1)] r(2) by (auto simp: owned_agent_ids_iff)
  moreover have "p \<in> set (principals (save_view b v s))"
    using p other ids by (simp add: save_view_def update_rows_miss)
  ultimately have "p \<in> set (principals (revoke_if c (owned_agent_ids mid (save_view b v s)) (save_view b v s)))" for c
    by (intro revoke_if_miss) simp_all
  moreover have "r \<in> set (principal_roles (save_view b v s))"
    using r other ids by (auto simp: save_view_def intro!: update_rows_miss)
  ultimately show ?thesis
    using save_member_view_Inr [OF run] p r
    by (simp add: active_administrators_iff schedule_agents_fields)
qed

lemma administrator_pairs_unique:
  assumes "store_ok s" "(p, r) \<in> set (active_administrators s)" "(p', r') \<in> set (active_administrators s)"
    "prow_id p = prow_id p'"
  shows "p = p' \<and> r = r'"
  using assms unique_on_eq [OF store_ok_uniques(1) [OF assms(1)], of p p']
    unique_on_eq [OF store_ok_uniques(6) [OF assms(1)], of r r']
  by (simp add: active_administrators_iff)

lemma distinct_administrators: "store_ok s \<Longrightarrow> distinct (active_administrators s)"
  using store_ok_uniques(1,6) [of s]
  by (simp add: active_administrators_def distinct_product unique_on_def distinct_map)

lemma another_administrator:
  assumes "store_ok s" "1 < length (active_administrators s)"
  shows "\<exists>p r. (p, r) \<in> set (active_administrators s) \<and> prow_id p \<noteq> mid"
proof -
  obtain x y zs where xs: "active_administrators s = x # y # zs"
    using assms(2) by (cases "active_administrators s"; cases "tl (active_administrators s)") auto
  with distinct_administrators [OF assms(1)] have "x \<noteq> y" by simp
  have "x \<in> set (active_administrators s)" "y \<in> set (active_administrators s)" by (simp_all add: xs)
  with \<open>x \<noteq> y\<close> obtain p r p' r' where "(p, r) \<in> set (active_administrators s)"
    "(p', r') \<in> set (active_administrators s)" "(p, r) \<noteq> (p', r')" by (metis prod.collapse)
  then show ?thesis using administrator_pairs_unique [OF assms(1)] by blast
qed

lemma change_member_administrators:
  assumes ok: "store_ok s" and some: "active_administrators s \<noteq> []"
  shows "active_administrators (snd (change_member a mid i rq ev now s)) \<noteq> []"
proof -
  obtain q s' where run: "change_member a mid i rq ev now s = (q, s')"
    by (cases "change_member a mid i rq ev now s")
  show ?thesis
  proof (cases q)
    case (Inl e)
    with run have "s' = s"
      by (auto simp: change_member_def op_iff split: if_splits option.splits)
    with run some show ?thesis by simp
  next
    case (Inr v)
    from change_member_Inr [OF run [unfolded Inr]] obtain cur where
      view: "repo_member_view mid s = (Inr (Some cur), s)" and
      guard: "demotes i cur \<longrightarrow> 1 < length (active_administrators s)" and
      v: "v = member_after a mid i (change_expected_revision i + 1) now cur" and
      save: "save_member_view a mid (self_name_change a mid i) v rq ev now s = (Inr (), s')" by blast
    note ids = view_ids [OF ok view]
    from ids have vids: "principal_id (view_principal v) = mid" "role_principal_id (view_role v) = mid"
      by (simp_all add: v)
    note keep = save_member_view_admins [OF save ok vids]
    have "\<exists>x. x \<in> set (active_administrators s')"
    proof (cases "\<exists>p r. (p, r) \<in> set (active_administrators s) \<and> prow_id p \<noteq> mid")
      case True
      with keep show ?thesis by blast
    next
      case False
      then have "\<not> demotes i cur" using guard another_administrator [OF ok] by blast
      from some obtain x where "x \<in> set (active_administrators s)" by (cases "active_administrators s") auto
      moreover obtain p r where "x = (p, r)" by (cases x)
      ultimately have pr: "(p, r) \<in> set (active_administrators s)" "prow_id p = mid" using False by auto
      from view ok obtain p' m r' ap where rows: "member_rows mid s p' m r' ap"
        "member_view_of_rows (p', m, r', ap) = Inr cur" by (auto simp: repo_member_view_Inr)
      with pr have "p' = p" "r' = r"
        using unique_on_eq [OF store_ok_uniques(1) [OF ok], of p' p]
          unique_on_eq [OF store_ok_uniques(6) [OF ok], of r' r]
        by (auto simp: member_rows_def active_administrators_iff)
      with rows(2) pr have cur: "principal_status (view_principal cur) = Active"
        "role_role (view_role cur) = RoleAdministrator"
        by (auto simp: member_view_of_rows_Inr active_administrators_iff status_text.simps)
          (cases "principal_status (view_principal cur)"; cases "role_role (view_role cur)"; simp)+
      with \<open>\<not> demotes i cur\<close> have after: "principal_status (view_principal v) = Active"
        "role_role (view_role v) = RoleAdministrator"
        by (auto simp: demotes_def v member_after_def)
      let ?p = "principal_row_of (view_principal v)"
      have "?p \<in> set (principals (save_view (self_name_change a mid i) v s))"
        using pr vids update_rows_hit [of p "principals s" "\<lambda>r. prow_id r = mid" "\<lambda>_. ?p"]
        by (simp add: save_view_def active_administrators_iff)
      moreover have "\<exists>r2. r2 \<in> set (principal_roles (save_view (self_name_change a mid i) v s)) \<and>
        rrow_principal_id r2 = mid \<and> rrow_role_code r2 = ''administrator''"
      proof (cases "self_name_change a mid i")
        case True
        with pr show ?thesis by (auto simp: save_view_def active_administrators_iff)
      next
        case False
        let ?f = "\<lambda>r. r\<lparr>rrow_role_code := role_text (role_role (view_role v)),
          rrow_assigned_by := role_assigned_by (view_role v),
          rrow_assigned_at := role_assigned_at (view_role v)\<rparr>"
        from pr have r: "r \<in> set (principal_roles s)" "rrow_principal_id r = mid"
          by (simp_all add: active_administrators_iff)
        from update_rows_hit [of r _ "\<lambda>r. rrow_principal_id r = mid" ?f] r
        have "?f r \<in> set (principal_roles (save_view (self_name_change a mid i) v s))"
          using False vids by (simp add: save_view_def)
        with r after show ?thesis by (intro exI [of _ "?f r"]) simp
      qed
      then obtain r2 where "r2 \<in> set (principal_roles (save_view (self_name_change a mid i) v s))"
        "rrow_principal_id r2 = mid" "rrow_role_code r2 = ''administrator''" by blast
      ultimately have "(?p, r2) \<in> set (active_administrators s')"
        using save_member_view_Inr [OF save] after vids
        by (simp add: active_administrators_iff schedule_agents_fields revoke_if_def)
      then show ?thesis by blast
    qed
    with run show ?thesis by auto
  qed
qed

lemma change_member_Inl: "change_member a mid i rq ev now s = (Inl e, s') \<Longrightarrow> s' = s"
  by (auto simp: change_member_def op_iff split: if_splits option.splits)

lemma member_not_owned:
  assumes "store_ok s" "member_rows mid s p m r ap"
  shows "mid \<notin> set (owned_agent_ids w s)"
proof
  assume "mid \<in> set (owned_agent_ids w s)"
  then obtain g where g: "g \<in> set (agents s)" "agrow_principal_id g = mid"
    by (auto simp: owned_agent_ids_iff)
  from assms(2) have p: "p \<in> set (principals s)" "m \<in> set (members s)" "prow_id p = mid"
    "mrow_principal_id m = mid" by (simp_all add: member_rows_def)
  from store_ok_member_kind [OF assms(1) p(2,1)] store_ok_agent_kind [OF assms(1) g(1) p(1)] p g
  show False by simp
qed

lemma change_member_revoked:
  assumes ok: "store_ok s" and p: "p \<in> set (principals s)" "prow_status p = ''revoked''"
  shows "p \<in> set (principals (snd (change_member a mid i rq ev now s)))"
proof -
  obtain q s' where run: "change_member a mid i rq ev now s = (q, s')"
    by (cases "change_member a mid i rq ev now s")
  show ?thesis
  proof (cases q)
    case (Inl e)
    with run change_member_Inl p show ?thesis by fastforce
  next
    case (Inr v)
    from change_member_Inr [OF run [unfolded Inr]] obtain cur where
      view: "repo_member_view mid s = (Inr (Some cur), s)" and
      status: "principal_status (view_principal cur) \<noteq> Revoked" and
      v: "v = member_after a mid i (change_expected_revision i + 1) now cur" and
      save: "save_member_view a mid (self_name_change a mid i) v rq ev now s = (Inr (), s')" by blast
    from view ok obtain p' m r ap where rows: "member_rows mid s p' m r ap"
      "member_view_of_rows (p', m, r, ap) = Inr cur" by (auto simp: repo_member_view_Inr)
    have other: "prow_id p \<noteq> mid"
    proof
      assume "prow_id p = mid"
      with p rows(1) have "p' = p"
        using unique_on_eq [OF store_ok_uniques(1) [OF ok], of p' p] by (simp add: member_rows_def)
      with rows(2) p(2) status show False
        by (cases "principal_status (view_principal cur)") (auto simp: member_view_of_rows_Inr)
    qed
    have "principal_id (view_principal v) = mid" using view_ids(1) [OF ok view] by (simp add: v)
    with p other have "p \<in> set (principals (save_view b v s))" for b
      by (simp add: save_view_def update_rows_miss)
    then have "p \<in> set (principals (revoke_if c ids (save_view b v s)))" for b c ids
      using p(2) by (simp add: revoke_if_def revoke_principals_def update_rows_miss)
    with save_member_view_Inr [OF save] run show ?thesis by (simp add: schedule_agents_fields)
  qed
qed

lemma save_member_view_stored:
  assumes run: "save_member_view a mid b v rq ev now s = (Inr (), s')" and ok: "store_ok s"
    and view: "repo_member_view mid s = (Inr (Some cur), s)"
    and ids: "principal_id (view_principal v) = mid" "role_principal_id (view_role v) = mid"
      "member_principal_id (view_member v) = mid" "app_principal_id (view_application v) = mid"
    and kind: "role_principal_kind (view_role v) = role_principal_kind (view_role cur)"
    and keep: "b \<Longrightarrow> view_role v = view_role cur"
  shows "repo_member_view mid s' = (Inr (Some v), s')"
proof -
  from view ok obtain p m r ap where rows: "member_rows mid s p m r ap"
    and cur: "member_view_of_rows (p, m, r, ap) = Inr cur" by (auto simp: repo_member_view_Inr)
  note in_s = rows [unfolded member_rows_def]
  let ?t = "save_view b v s" and ?ids = "owned_agent_ids mid s"
  let ?p = "principal_row_of (view_principal v)"
  let ?m = "m\<lparr>mrow_display_name := member_display_name (view_member v)\<rparr>"
  let ?r = "if b then r else r\<lparr>rrow_role_code := role_text (role_role (view_role v)),
     rrow_assigned_by := role_assigned_by (view_role v), rrow_assigned_at := role_assigned_at (view_role v)\<rparr>"
  let ?a = "application_row_of (view_application v)"
  have not_owned: "mid \<notin> set ?ids" by (rule member_not_owned [OF ok rows])
  have "?p \<in> set (principals ?t)"
    using update_rows_hit [of p "principals s" "\<lambda>r. prow_id r = mid" "\<lambda>_. ?p"] in_s ids
    by (simp add: save_view_def)
  then have "?p \<in> set (principals (revoke_if c ?ids ?t))" for c
    using not_owned ids by (simp add: revoke_if_miss)
  moreover have "?m \<in> set (members ?t)"
    using update_rows_hit [of m "members s" "\<lambda>r. mrow_principal_id r = mid"
        "\<lambda>r. r\<lparr>mrow_display_name := member_display_name (view_member v)\<rparr>"] in_s ids
    by (simp add: save_view_def)
  moreover have "?r \<in> set (principal_roles ?t)"
    using update_rows_hit [of r "principal_roles s" "\<lambda>r. rrow_principal_id r = mid"
        "\<lambda>r. r\<lparr>rrow_role_code := role_text (role_role (view_role v)),
          rrow_assigned_by := role_assigned_by (view_role v),
          rrow_assigned_at := role_assigned_at (view_role v)\<rparr>"] in_s ids
    by (simp add: save_view_def)
  moreover have "?a \<in> set (principal_applications ?t)"
    using update_rows_hit [of ap "principal_applications s" "\<lambda>r. arow_principal_id r = mid" "\<lambda>_. ?a"] in_s ids
    by (simp add: save_view_def)
  then have "?a \<in> set (principal_applications (schedule_agents mid c now ?t))" for c
    using not_owned ids
    by (simp add: schedule_agents_def check_grants_at_def check_applications_at_def revoke_if_def
        revoke_principals_def application_row_of_def update_rows_miss)
  ultimately have "member_rows mid s' ?p ?m ?r ?a"
    using save_member_view_Inr [OF run] in_s ids
    by (simp add: member_rows_def schedule_agents_fields application_row_of_def)
  moreover have "member_view_of_rows (?p, ?m, ?r, ?a) = Inr v"
    using cur ids in_s kind keep
    by (auto simp: member_view_of_rows_Inr member_rows_def)
  ultimately show ?thesis
    using repo_member_view_Inr [of s' mid v s'] save_member_view_Inr [OF run] by blast
qed

lemma change_member_stored:
  assumes ok: "store_ok s" and run: "change_member a mid i rq ev now s = (Inr v, s')"
  shows "repo_member_view mid s' = (Inr (Some v), s') \<and> store_ok s' \<and>
    principal_revision (view_principal v) = change_expected_revision i + 1 \<and>
    (\<exists>cur. repo_member_view mid s = (Inr (Some cur), s) \<and>
       principal_revision (view_principal cur) = change_expected_revision i \<and>
       v = member_after a mid i (change_expected_revision i + 1) now cur)"
proof -
  from change_member_Inr [OF run] obtain cur where
    view: "repo_member_view mid s = (Inr (Some cur), s)" and
    revision: "principal_revision (view_principal cur) = change_expected_revision i" and
    v: "v = member_after a mid i (change_expected_revision i + 1) now cur" and
    save: "save_member_view a mid (self_name_change a mid i) v rq ev now s = (Inr (), s')" by blast
  have "repo_member_view mid s' = (Inr (Some v), s')"
    by (rule save_member_view_stored [OF save ok view])
      (simp_all add: v view_ids [OF ok view] member_after_def split: option.splits)
  with save_member_view_Inr [OF save] view revision v show ?thesis
    by (auto simp: member_after_def)
qed

lemma change_member_cascade:
  assumes run: "change_member a mid i rq ev now s = (Inr v, s')"
    and revoked: "principal_status (view_principal v) = Revoked"
    and g: "g \<in> set (agents s')" "agrow_owner_id g = mid"
    and p: "p \<in> set (principals s')" "prow_id p = agrow_principal_id g"
  shows "prow_status p = ''revoked''"
proof -
  from change_member_Inr [OF run] obtain
    save: "save_member_view a mid (self_name_change a mid i) v rq ev now s = (Inr (), s')" by blast
  let ?t = "save_view (self_name_change a mid i) v s" and ?ids = "owned_agent_ids mid s"
  from save_member_view_Inr [OF save] g revoked
  have "agrow_principal_id g \<in> set ?ids" and "principals s' = principals (revoke_principals ?ids ?t)"
    by (auto simp: owned_agent_ids_iff schedule_agents_fields revoke_if_def)
  with p show ?thesis
    by (auto simp: revoke_principals_def update_rows_set split: if_splits)
qed

section \<open>Properties\<close>

text \<open>
  C13: Whatever a member change does, and whether or not it succeeds, a database that had an active
  administrator still has one: the guard counts before the change, and the agents that a revocation
  takes with it are never administrators, because the schema ties roles to kinds.
\<close>
theorem administrator_remains:
  assumes "store_ok s" and "active_administrators s \<noteq> []"
  shows "active_administrators (snd (change_member a mid i rq ev now s)) \<noteq> []"
  using assms by (rule change_member_administrators)

lemma administrator_remains_witness:
  "active_administrators (snd (change_member ada ''ada''
     \<lparr>change_expected_revision = 3, change_status = Some Suspended, change_display_name = None,
      change_role = None\<rparr> ''r'' ''e'' 1000 sample_store)) \<noteq> []"
proof -
  have "active_administrators sample_store \<noteq> []" by code_simp
  from administrator_remains [OF sample_store_ok this] show ?thesis .
qed

text \<open>
  C14: Revocation is permanent: a principal that is revoked is still there, unchanged, after any member
  change, successful or not.
\<close>
theorem revocation_permanent:
  assumes "store_ok s" and "p \<in> set (principals s)" and "prow_status p = ''revoked''"
  shows "p \<in> set (principals (snd (change_member a mid i rq ev now s)))"
  using assms by (rule change_member_revoked)

lemma revocation_permanent_witness:
  "hd (principals revoked_store) \<in> set (principals (snd (change_member ada ''bea''
     \<lparr>change_expected_revision = 0, change_status = Some Active, change_display_name = None,
      change_role = None\<rparr> ''r'' ''e'' 1000 revoked_store)))"
proof -
  have "hd (principals revoked_store) \<in> set (principals revoked_store)"
    "prow_status (hd (principals revoked_store)) = ''revoked''"
    by (simp_all add: revoked_store_def)
  from revocation_permanent [OF revoked_store_ok this] show ?thesis .
qed

text \<open>
  C15: A member change that succeeds was made against the current revision, returns the member as it is
  stored afterwards, moves the revision up by exactly one, and keeps every constraint of the schema.
\<close>
theorem member_change_stored:
  assumes "store_ok s" and "change_member a mid i rq ev now s = (Inr v, s')"
  shows "repo_member_view mid s' = (Inr (Some v), s') \<and> store_ok s' \<and>
    principal_revision (view_principal v) = change_expected_revision i + 1 \<and>
    (\<exists>cur. repo_member_view mid s = (Inr (Some cur), s) \<and>
       principal_revision (view_principal cur) = change_expected_revision i \<and>
       v = member_after a mid i (change_expected_revision i + 1) now cur)"
  using assms by (rule change_member_stored)

lemma member_change_stored_witness:
  "\<exists>v s'. repo_member_view ''bea'' s' = (Inr (Some v), s') \<and> principal_revision (view_principal v) = 1"
proof -
  let ?i = "\<lparr>change_expected_revision = 0, change_status = None, change_display_name = Some ''Beatrix'',
      change_role = Some RoleAdministrator\<rparr>"
  let ?run = "change_member ada ''bea'' ?i ''r'' ''e'' 1000 sample_store"
  have "case ?run of (Inl _, _) \<Rightarrow> False | (Inr _, _) \<Rightarrow> True" by code_simp
  then obtain v s' where "?run = (Inr v, s')" by (auto split: prod.splits sum.splits)
  from member_change_stored [OF sample_store_ok this] show ?thesis by auto
qed

text \<open>
  C16: Revoking a member revokes every agent it owns: after the change no principal of an agent of that
  member is anything but revoked.
\<close>
theorem revocation_cascades:
  assumes "change_member a mid i rq ev now s = (Inr v, s')"
    and "principal_status (view_principal v) = Revoked"
    and "g \<in> set (agents s')" and "agrow_owner_id g = mid"
    and "p \<in> set (principals s')" and "prow_id p = agrow_principal_id g"
  shows "prow_status p = ''revoked''"
  using assms by (rule change_member_cascade)

lemma revocation_cascades_witness:
  "\<exists>p :: principal_row. prow_id p = ''bot'' \<and> prow_status p = ''revoked''"
proof -
  let ?i = "\<lparr>change_expected_revision = 3, change_status = Some Revoked, change_display_name = None,
      change_role = None\<rparr>"
  let ?run = "change_member ada ''ada'' ?i ''r'' ''e'' 1000 two_administrators"
  have "case ?run of (Inl _, _) \<Rightarrow> False
      | (Inr v, s') \<Rightarrow> principal_status (view_principal v) = Revoked \<and>
          list_ex (\<lambda>g. agrow_owner_id g = ''ada'' \<and> agrow_principal_id g = ''bot'') (agents s') \<and>
          list_ex (\<lambda>p. prow_id p = ''bot'') (principals s')"
    by code_simp
  then obtain v s' g p where run: "?run = (Inr v, s')"
    and hyps: "principal_status (view_principal v) = Revoked" "g \<in> set (agents s')"
      "agrow_owner_id g = ''ada''" "p \<in> set (principals s')"
    and ids: "agrow_principal_id g = ''bot''" "prow_id p = ''bot''"
    by (auto split: prod.splits sum.splits simp: list_ex_iff)
  from ids have "prow_id p = agrow_principal_id g" by simp
  from revocation_cascades [OF run hyps this] ids show ?thesis by blast
qed

end
