(* ===== verification/Store_Fleet.thy ===== *)
theory Store_Fleet
  imports Authorization
begin

text \<open>
  The fleet and listener statements of the storage adapter: \<open>adapter-sqlite/src/fleet.rs\<close> and
  \<open>adapter-sqlite/src/listener.rs\<close>. Two triggers of the schema guard listener runs: a new run needs its
  agent's current fleet binding, and the controller of a run never changes; a trigger that fires ends
  the statement with an error of its own.
\<close>

section \<open>Fleets\<close>

definition repo_fleet_instance :: "string \<Rightarrow> string \<Rightarrow> string \<Rightarrow> fleet_instance option db" where
  "repo_fleet_instance owner key instance_key = read_op (\<lambda>s. Inr (find_row
     (\<lambda>r. inst_owner_id r = owner \<and> inst_fleet_key r = key \<and> inst_instance_key r = instance_key)
     (fleet_instances s)))"

definition repo_fleet_instance_by_agent :: "string \<Rightarrow> fleet_instance option db" where
  "repo_fleet_instance_by_agent aid =
     read_op (\<lambda>s. Inr (find_row (\<lambda>r. inst_agent_id r = aid) (fleet_instances s)))"

definition same_instance :: "fleet_instance \<Rightarrow> fleet_instance \<Rightarrow> bool" where
  "same_instance v r \<longleftrightarrow> inst_owner_id r = inst_owner_id v \<and> inst_fleet_key r = inst_fleet_key v \<and>
     inst_instance_key r = inst_instance_key v \<and> inst_agent_id r = inst_agent_id v"

definition repo_save_fleet_instance :: "fleet_instance \<Rightarrow> unit db" where
  "repo_save_fleet_instance v =
     bind_op (execute_counted (\<lambda>s. count_rows (same_instance v) (fleet_instances s))
       (\<lambda>s. s\<lparr>fleet_instances := update_rows (same_instance v)
              (\<lambda>r. r\<lparr>inst_retired_at := inst_retired_at v\<rparr>) (fleet_instances s)\<rparr>)) (\<lambda>n.
     if n = 1 then return_op () else fail_op (failure_new Missing ''Fleet instance is missing''))"

definition repo_current_fleet_instances :: "fleet \<Rightarrow> fleet_instance list db" where
  "repo_current_fleet_instances v = read_op (\<lambda>s. Inr (sort_key inst_instance_key
     (filter (\<lambda>r. inst_owner_id r = fleet_owner_id v \<and> inst_fleet_key r = fleet_key v \<and>
        inst_retired_at r = None) (fleet_instances s))))"

definition repo_insert_fleet_instance :: "fleet_instance \<Rightarrow> unit db" where
  "repo_insert_fleet_instance v = execute (\<lambda>s. s\<lparr>fleet_instances := fleet_instances s @ [v]\<rparr>)"

definition repo_fleet_by_key :: "string \<Rightarrow> string \<Rightarrow> fleet option db" where
  "repo_fleet_by_key owner key = read_op (\<lambda>s. transpose_row fleet_of_row
     (find_row (\<lambda>r. frow_owner_id r = owner \<and> frow_fleet_key r = key) (fleets s)))"

definition repo_insert_fleet :: "fleet \<Rightarrow> unit db" where
  "repo_insert_fleet v = execute (\<lambda>s. s\<lparr>fleets := fleets s @ [fleet_row_of v]\<rparr>)"

definition repo_save_fleet :: "fleet \<Rightarrow> unit db" where
  "repo_save_fleet v =
     bind_op (execute_counted (\<lambda>s. count_rows (\<lambda>r. frow_id r = fleet_id v) (fleets s))
       (\<lambda>s. s\<lparr>fleets := update_rows (\<lambda>r. frow_id r = fleet_id v) (\<lambda>_. fleet_row_of v) (fleets s)\<rparr>)) (\<lambda>n.
     if n = 1 then return_op () else fail_op (failure_new Missing ''Fleet not found''))"

definition repo_insert_fleet_credential :: "fleet_credential \<Rightarrow> unit db" where
  "repo_insert_fleet_credential v = execute (\<lambda>s. s\<lparr>fleet_credentials := fleet_credentials s @ [v]\<rparr>)"

definition repo_fleet_connection :: "string \<Rightarrow> fleet_connection option db" where
  "repo_fleet_connection fid =
     read_op (\<lambda>s. Inr (find_row (\<lambda>r. conn_fleet_id r = fid) (fleet_connections s)))"

definition repo_save_fleet_connection :: "fleet_connection \<Rightarrow> unit db" where
  "repo_save_fleet_connection v = execute (\<lambda>s. s\<lparr>fleet_connections :=
     (if list_ex (\<lambda>r. conn_fleet_id r = conn_fleet_id v) (fleet_connections s)
      then update_rows (\<lambda>r. conn_fleet_id r = conn_fleet_id v) (\<lambda>_. v) (fleet_connections s)
      else fleet_connections s @ [v])\<rparr>)"

definition repo_fleet :: "string \<Rightarrow> fleet option db" where
  "repo_fleet fid = read_op (\<lambda>s.
     transpose_row fleet_of_row (find_row (\<lambda>r. frow_id r = fid) (fleets s)))"

definition repo_fleet_credential :: "string \<Rightarrow> fleet_credential option db" where
  "repo_fleet_credential cid =
     read_op (\<lambda>s. Inr (find_row (\<lambda>r. cred_id r = cid) (fleet_credentials s)))"

section \<open>Listener runs\<close>

definition run_of_row :: "listener_row \<Rightarrow> run" where
  "run_of_row r = \<lparr>run_id = lrow_id r, run_agent_id = lrow_agent_id r,
     run_controller = \<lparr>ctl_fleet_id = lrow_controller_fleet_id r,
       ctl_connection_id = lrow_controller_connection_id r,
       ctl_credential_id = lrow_controller_credential_id r\<rparr>,
     run_release = lrow_release r, run_started_at = lrow_started_at r,
     run_last_seen_at = lrow_last_seen_at r, run_active_ms = lrow_active_ms r,
     run_messages_delivered = lrow_messages_delivered r, run_stopped_at = lrow_stopped_at r,
     run_disconnect_requested_at = lrow_disconnect_requested_at r\<rparr>"

definition listener_row_of :: "run \<Rightarrow> listener_row" where
  "listener_row_of v = \<lparr>lrow_controller_fleet_id = ctl_fleet_id (run_controller v),
     lrow_controller_connection_id = ctl_connection_id (run_controller v),
     lrow_controller_credential_id = ctl_credential_id (run_controller v),
     lrow_id = run_id v, lrow_agent_id = run_agent_id v, lrow_release = run_release v,
     lrow_started_at = run_started_at v, lrow_last_seen_at = run_last_seen_at v,
     lrow_active_ms = run_active_ms v, lrow_messages_delivered = run_messages_delivered v,
     lrow_stopped_at = run_stopped_at v,
     lrow_disconnect_requested_at = run_disconnect_requested_at v\<rparr>"

lemma run_row_roundtrip [simp]: "run_of_row (listener_row_of v) = v"
  by (simp add: run_of_row_def listener_row_of_def)

lemma listener_row_roundtrip [simp]: "listener_row_of (run_of_row r) = r"
  by (simp add: run_of_row_def listener_row_of_def)

definition repo_listener_run :: "string \<Rightarrow> run option db" where
  "repo_listener_run rid = read_op (\<lambda>s.
     Inr (map_option run_of_row (find_row (\<lambda>r. lrow_id r = rid) (listener_runs s))))"

text \<open>\<open>RAISE(ABORT, message)\<close> of a trigger.\<close>

definition trigger_abort :: "string \<Rightarrow> failure" where
  "trigger_abort message = sql_failure (OtherDatabaseError message)"

definition authoritative_binding :: "run \<Rightarrow> store \<Rightarrow> bool" where
  "authoritative_binding v s \<longleftrightarrow>
     list_ex (\<lambda>i. list_ex (\<lambda>f.
       frow_owner_id f = inst_owner_id i \<and> frow_fleet_key f = inst_fleet_key i \<and>
       inst_agent_id i = run_agent_id v \<and> inst_retired_at i = None \<and> frow_archived_at f = None \<and>
       frow_id f = ctl_fleet_id (run_controller v)) (fleets s)) (fleet_instances s)"

definition controller_unchanged :: "run \<Rightarrow> store \<Rightarrow> bool" where
  "controller_unchanged v s \<longleftrightarrow> list_all (\<lambda>r. lrow_id r = run_id v \<longrightarrow>
     lrow_agent_id r = run_agent_id v \<and> run_controller (run_of_row r) = run_controller v) (listener_runs s)"

definition repo_save_listener_run :: "run \<Rightarrow> bool \<Rightarrow> unit db" where
  "repo_save_listener_run v insert_row s =
     (if insert_row then
        (if \<not> authoritative_binding v s
         then (Inl (trigger_abort ''Listener requires its authoritative fleet controller binding''), s)
         else execute (\<lambda>s. s\<lparr>listener_runs := listener_runs s @ [listener_row_of v]\<rparr>) s)
      else if \<not> controller_unchanged v s
      then (Inl (trigger_abort ''Listener controller generations are immutable''), s)
      else
        bind_op (execute_counted (\<lambda>s. count_rows (\<lambda>r. lrow_id r = run_id v) (listener_runs s))
          (\<lambda>s. s\<lparr>listener_runs := update_rows (\<lambda>r. lrow_id r = run_id v) (\<lambda>_. listener_row_of v)
             (listener_runs s)\<rparr>)) (\<lambda>n.
        if n = 1 then return_op ()
        else fail_op (failure_new Missing ''Listener run not found'')) s)"

definition active_runs :: "string \<Rightarrow> int \<Rightarrow> int \<Rightarrow> store \<Rightarrow> (listener_row \<times> fleet_connection) list" where
  "active_runs aid since now s =
     [(r, c). r <- listener_runs s, c <- fleet_connections s,
        conn_fleet_id c = lrow_controller_fleet_id r \<and>
        conn_connection_id c = lrow_controller_connection_id r \<and>
        conn_credential_id c = lrow_controller_credential_id r \<and>
        lrow_agent_id r = aid \<and> lrow_stopped_at r = None \<and> lrow_last_seen_at r > since \<and>
        conn_closed_at c = None \<and> conn_expires_at c > now]"

definition repo_active_listener_count :: "string \<Rightarrow> int \<Rightarrow> int \<Rightarrow> int db" where
  "repo_active_listener_count aid since now = read_op (\<lambda>s. Inr (int (length (active_runs aid since now s))))"

lemma query_fleet_repo [simp]:
  "query (repo_fleet_instance ow k i)" "query (repo_fleet_instance_by_agent aid)"
  "query (repo_current_fleet_instances v)" "query (repo_fleet_by_key ow k)"
  "query (repo_fleet_connection fid)" "query (repo_fleet fid)" "query (repo_fleet_credential cid)"
  "query (repo_listener_run rid)" "query (repo_active_listener_count aid t now)"
  by (simp_all add: repo_fleet_instance_def repo_fleet_instance_by_agent_def
      repo_current_fleet_instances_def repo_fleet_by_key_def repo_fleet_connection_def repo_fleet_def
      repo_fleet_credential_def repo_listener_run_def repo_active_listener_count_def)

end
