(* ===== verification/Store_Decisions.thy ===== *)
theory Store_Decisions
  imports Store_Fleet
begin

text \<open>
  The decision statements of the storage adapter (\<open>adapter-sqlite/src/runtime/decisions.rs\<close> and the two
  codecs of \<open>runtime/mod.rs\<close>). Two queries have no \<open>ORDER BY\<close>: SQLite finds the answers of a decision
  by the primary key (\<open>decision_id\<close>, \<open>question_id\<close>) and so lists them by question; the open decisions are
  only ever settled one by one, in table order here.
\<close>

definition stored_code :: "'a result \<Rightarrow> 'a result" where
  "stored_code r = (case r of
     Inl _ \<Rightarrow> Inl (failure_new Unavailable ''Stored runtime discriminant is invalid'')
   | Inr v \<Rightarrow> Inr v)"

definition stored_boolean :: "int \<Rightarrow> bool result" where
  "stored_boolean v =
     (if v = 0 then Inr False else if v = 1 then Inr True
      else Inl (failure_new Unavailable ''Stored runtime boolean is invalid''))"

definition bool_int :: "bool \<Rightarrow> int" where
  "bool_int b = (if b then 1 else 0)"

lemma stored_code_Inr [op_iff]: "stored_code r = Inr v \<longleftrightarrow> r = Inr v"
  by (auto simp: stored_code_def split: sum.splits)

lemma stored_code_ok [simp]: "stored_code (Inr v) = Inr v"
  by (simp add: stored_code_def)

lemma stored_boolean_int [simp]: "stored_boolean (bool_int b) = Inr b"
  by (simp add: stored_boolean_def bool_int_def)

lemma stored_boolean_Inr: "stored_boolean v = Inr b \<longleftrightarrow> v = bool_int b"
  by (auto simp: stored_boolean_def bool_int_def)

definition summary_of_row :: "summary_row \<Rightarrow> decision_summary result" where
  "summary_of_row r =
     rbind (stored_code (runtime_parse (srow_runtime r))) (\<lambda>runtime.
     rbind (stored_code (decision_kind_parse (srow_kind r))) (\<lambda>kind.
     rbind (stored_boolean (srow_blocking r)) (\<lambda>blocking.
     rbind (stored_code (decision_status_parse (srow_status r))) (\<lambda>status.
     Inr \<lparr>summary_header = \<lparr>header_id = srow_id r, header_run_id = srow_run_id r,
         header_runtime = runtime, header_session_id = srow_session_id r,
         header_request_id = srow_request_id r, header_turn_id = srow_turn_id r,
         header_item_id = srow_item_id r, header_kind = kind, header_action = srow_action r,
         header_blocking = blocking, header_expires_at = srow_expires_at r\<rparr>,
       summary_agent_id = srow_agent_id r, summary_status = status,
       summary_created_at = srow_created_at r\<rparr>))))"

definition summary_row_of :: "decision \<Rightarrow> summary_row" where
  "summary_row_of v = (let h = summary_header (decision_summary v) in
     \<lparr>srow_id = header_id h, srow_agent_id = summary_agent_id (decision_summary v),
      srow_run_id = header_run_id h, srow_runtime = runtime_code (header_runtime h),
      srow_session_id = header_session_id h, srow_request_id = header_request_id h,
      srow_turn_id = header_turn_id h, srow_item_id = header_item_id h,
      srow_kind = decision_kind_code (header_kind h), srow_action = header_action h,
      srow_blocking = bool_int (header_blocking h), srow_expires_at = header_expires_at h,
      srow_created_at = summary_created_at (decision_summary v),
      srow_status = decision_status_code (summary_status (decision_summary v)),
      srow_review_text = decision_review v\<rparr>)"

definition question_row_of :: "string \<Rightarrow> nat \<times> question \<Rightarrow> question_row" where
  "question_row_of did iq = (case iq of (position, q) \<Rightarrow>
     \<lparr>qrow_decision_id = did, qrow_question_id = question_id q, qrow_position = int position,
      qrow_title = question_title q, qrow_prompt = question_prompt q,
      qrow_secret = bool_int (question_secret q), qrow_allow_text = bool_int (question_allow_text q)\<rparr>)"

definition option_rows_of :: "string \<Rightarrow> question \<Rightarrow> option_row list" where
  "option_rows_of did q = map (\<lambda>(position, c).
     \<lparr>orow_decision_id = did, orow_question_id = question_id q, orow_option_id = choice_id c,
      orow_position = int position, orow_label = choice_label c,
      orow_description = choice_description c\<rparr>) (enumerate 0 (question_options q))"

definition choice_of_row :: "option_row \<Rightarrow> option_choice" where
  "choice_of_row r = \<lparr>choice_id = orow_option_id r, choice_label = orow_label r,
     choice_description = orow_description r\<rparr>"

text \<open>
  The questions take their options out of the map \<open>by_question\<close>, which keeps the options of a question
  in the order they were loaded.
\<close>

fun take_questions :: "question_row list \<Rightarrow> option_row list \<Rightarrow> question list result" where
  "take_questions [] opts = Inr []"
| "take_questions (q # qs) opts =
     rbind (stored_boolean (qrow_secret q)) (\<lambda>secret.
     rbind (stored_boolean (qrow_allow_text q)) (\<lambda>allow_text.
     rbind (take_questions qs (filter (\<lambda>r. orow_question_id r \<noteq> qrow_question_id q) opts)) (\<lambda>rest.
     Inr (\<lparr>question_id = qrow_question_id q, question_title = qrow_title q,
       question_prompt = qrow_prompt q, question_secret = secret, question_allow_text = allow_text,
       question_options = map choice_of_row
         (filter (\<lambda>r. orow_question_id r = qrow_question_id q) opts)\<rparr> # rest))))"

definition repo_decision :: "string \<Rightarrow> decision option db" where
  "repo_decision did = read_op (\<lambda>s.
     case find_row (\<lambda>r. srow_id r = did) (decisions s) of
       None \<Rightarrow> Inr None
     | Some row \<Rightarrow>
         rbind (take_questions
           (sort_key qrow_position (filter (\<lambda>r. qrow_decision_id r = did) (decision_questions s)))
           (sort_key orow_position (filter (\<lambda>r. orow_decision_id r = did) (decision_options s)))) (\<lambda>qs.
         rbind (summary_of_row row) (\<lambda>summary.
         Inr (Some \<lparr>decision_summary = summary, decision_review = srow_review_text row,
           decision_questions = qs\<rparr>))))"

definition repo_decisions ::
  "string \<Rightarrow> int \<Rightarrow> int \<Rightarrow> decision_status option \<Rightarrow> decision_summary page db" where
  "repo_decisions aid page limit status = read_op (\<lambda>s.
     if \<not> (1 \<le> page \<and> page \<le> 100000) \<or> \<not> (1 \<le> limit \<and> limit \<le> 100)
     then Inl (failure_new Invalid ''Invalid pagination'')
     else
       let rows = filter (\<lambda>r. srow_agent_id r = aid \<and>
             (status = None \<or> map_option decision_status_code status = Some (srow_status r))) (decisions s);
           total_items = int (length rows)
       in rbind (collect_results (map summary_of_row
             (page_rows page limit (sort_key (\<lambda>r. (- srow_created_at r, srow_id r)) rows)))) (\<lambda>items.
          Inr \<lparr>page_items = items, page_page = page, page_size = limit, page_total_items = total_items,
            page_total_pages = total_pages total_items limit\<rparr>))"

definition repo_pending_decisions :: "decision_summary list db" where
  "repo_pending_decisions = read_op (\<lambda>s. collect_results (map summary_of_row
     (filter (\<lambda>r. srow_status r \<in> {''pending'', ''answered''}) (decisions s))))"

definition repo_insert_decision :: "decision \<Rightarrow> unit db" where
  "repo_insert_decision v =
     (let did = header_id (summary_header (decision_summary v)) in
     bind_op (execute (\<lambda>s. s\<lparr>decisions := decisions s @ [summary_row_of v]\<rparr>)) (\<lambda>_.
     bind_op (execute (\<lambda>s. s\<lparr>decision_questions := decision_questions s @
       map (question_row_of did) (enumerate 0 (decision.decision_questions v))\<rparr>)) (\<lambda>_.
     execute (\<lambda>s. s\<lparr>decision_options := decision_options s @
       concat (map (option_rows_of did) (decision.decision_questions v))\<rparr>))))"

definition set_decision_status :: "string \<Rightarrow> string \<Rightarrow> store \<Rightarrow> store" where
  "set_decision_status did st s =
     s\<lparr>decisions := update_rows (\<lambda>r. srow_id r = did) (\<lambda>r. r\<lparr>srow_status := st\<rparr>) (decisions s)\<rparr>"

definition delete_answers :: "string \<Rightarrow> store \<Rightarrow> store" where
  "delete_answers did s =
     s\<lparr>decision_answers := filter (\<lambda>r. answrow_decision_id r \<noteq> did) (decision_answers s)\<rparr>"

definition repo_decision_status :: "string \<Rightarrow> decision_status \<Rightarrow> unit db" where
  "repo_decision_status did status =
     bind_op (execute (set_decision_status did (decision_status_code status))) (\<lambda>_.
     if status \<noteq> Answered then execute (delete_answers did) else return_op ())"

definition answer_of_row :: "answer_row \<Rightarrow> answer" where
  "answer_of_row r = \<lparr>answer_question_id = answrow_question_id r, answer_option_id = answrow_option_id r,
     answer_text = answrow_answer_text r\<rparr>"

definition answer_row_of :: "string \<Rightarrow> answer \<Rightarrow> answer_row" where
  "answer_row_of did v = \<lparr>answrow_decision_id = did, answrow_question_id = answer_question_id v,
     answrow_option_id = answer_option_id v, answrow_answer_text = answer_text v\<rparr>"

definition repo_answers :: "string \<Rightarrow> answer list db" where
  "repo_answers did = read_op (\<lambda>s.
     Inr (map answer_of_row (sort_key answrow_question_id
       (filter (\<lambda>r. answrow_decision_id r = did) (decision_answers s)))))"

definition repo_answer :: "string \<Rightarrow> answer list \<Rightarrow> unit db" where
  "repo_answer did values =
     bind_op (execute (\<lambda>s. s\<lparr>decision_answers := decision_answers s @ map (answer_row_of did) values\<rparr>)) (\<lambda>_.
     execute (set_decision_status did ''answered''))"

lemma answer_row_roundtrip [simp]: "answer_of_row (answer_row_of did v) = v"
  by (simp add: answer_of_row_def answer_row_of_def)

lemma query_decision_repo [simp]:
  "query (repo_decision did)" "query (repo_decisions aid n l st)" "query repo_pending_decisions"
  "query (repo_answers did)"
  by (simp_all add: repo_decision_def repo_decisions_def repo_pending_decisions_def repo_answers_def)

section \<open>A decision is read back as it was stored\<close>

lemma summary_row_roundtrip: "summary_of_row (summary_row_of v) = Inr (decision_summary v)"
  by (simp add: summary_of_row_def summary_row_of_def Let_def runtime_parse_Inr [THEN iffD2, OF refl]
      decision_kind_parse_Inr [THEN iffD2, OF refl] decision_status_parse_Inr [THEN iffD2, OF refl])

lemma choice_eta [simp]:
  "\<lparr>choice_id = choice_id c, choice_label = choice_label c, choice_description = choice_description c\<rparr> = (c :: option_choice)"
  by (cases c) simp

lemma choice_row_roundtrip [simp]: "map choice_of_row (option_rows_of did q) = question_options q"
  by (simp add: option_rows_of_def choice_of_row_def case_prod_beta comp_def)

lemma option_rows_ids:
  "r \<in> set (option_rows_of did q) \<Longrightarrow> orow_decision_id r = did \<and> orow_question_id r = question_id q"
  by (auto simp: option_rows_of_def)

lemma sorted_enumerate: "sorted (map (\<lambda>p. int (fst p)) (enumerate n xs))"
  by (induction xs arbitrary: n) (auto simp: in_set_enumerate_eq)

lemma option_rows_sorted: "sorted (map orow_position (option_rows_of did q))"
proof -
  have "map orow_position (option_rows_of did q) = map (\<lambda>p. int (fst p)) (enumerate 0 (question_options q))"
    by (simp add: option_rows_of_def case_prod_beta comp_def)
  then show ?thesis by (simp add: sorted_enumerate)
qed

lemma question_row_fields [simp]:
  "qrow_decision_id (question_row_of did iq) = did"
  "qrow_question_id (question_row_of did iq) = question_id (snd iq)"
  "qrow_position (question_row_of did iq) = int (fst iq)"
  "qrow_title (question_row_of did iq) = question_title (snd iq)"
  "qrow_prompt (question_row_of did iq) = question_prompt (snd iq)"
  "qrow_secret (question_row_of did iq) = bool_int (question_secret (snd iq))"
  "qrow_allow_text (question_row_of did iq) = bool_int (question_allow_text (snd iq))"
  by (simp_all add: question_row_of_def split: prod.splits)

lemma question_rows_sorted: "sorted (map qrow_position (map (question_row_of did) (enumerate 0 qs)))"
proof -
  have "qrow_position \<circ> question_row_of did = (\<lambda>p. int (fst p))"
    by (auto simp: fun_eq_iff)
  then show ?thesis by (simp add: sorted_enumerate)
qed

text \<open>The options loaded for a question are the ones stored with it, and in their order.\<close>

lemma options_of_question:
  assumes "distinct (map question_id qs)" "q \<in> set qs"
  shows "filter (\<lambda>r. orow_question_id r = question_id q) (concat (map (option_rows_of did) qs)) =
    option_rows_of did q"
  using assms
proof (induction qs)
  case Nil
  then show ?case by simp
next
  case (Cons x qs)
  have own: "filter (\<lambda>r. orow_question_id r = question_id x) (option_rows_of did x) = option_rows_of did x"
    by (simp add: filter_id_conv option_rows_ids)
  have other: "filter (\<lambda>r. orow_question_id r = question_id q) (option_rows_of did x) = []" if "question_id q \<noteq> question_id x"
    using that by (auto simp: filter_empty_conv dest: option_rows_ids)
  have rest: "filter (\<lambda>r. orow_question_id r = question_id x) (concat (map (option_rows_of did) qs)) = []"
    using Cons.prems(1) by (auto simp: filter_empty_conv dest!: option_rows_ids)
  show ?case
  proof (cases "q = x")
    case True
    with own rest show ?thesis by simp
  next
    case False
    with Cons.prems(2) have "q \<in> set qs" by simp
    then have "question_id q \<in> set (map question_id qs)" by simp
    with Cons.prems(1) have "question_id q \<noteq> question_id x" by auto
    note facts = \<open>q \<in> set qs\<close> this
    with Cons other facts show ?thesis by simp
  qed
qed

lemma take_questions_stored:
  assumes "distinct (map question_id qs)"
    and "\<And>q. q \<in> set qs \<Longrightarrow> filter (\<lambda>r. orow_question_id r = question_id q) opts = option_rows_of did q"
  shows "take_questions (map (question_row_of did) (enumerate n qs)) opts = Inr qs"
  using assms
proof (induction qs arbitrary: n opts)
  case Nil
  then show ?case by simp
next
  case (Cons q qs)
  let ?rest = "filter (\<lambda>r. orow_question_id r \<noteq> question_id q) opts"
  have "filter (\<lambda>r. orow_question_id r = question_id x) ?rest = option_rows_of did x" if "x \<in> set qs" for x
  proof -
    have "question_id x \<in> set (map question_id qs)" using that by simp
    with Cons.prems(1) have "question_id x \<noteq> question_id q" by auto
    then have "filter (\<lambda>r. orow_question_id r = question_id x) ?rest =
        filter (\<lambda>r. orow_question_id r = question_id x) opts"
      by (auto simp: filter_filter intro!: filter_cong)
    with Cons.prems(2) that show ?thesis by simp
  qed
  with Cons have "take_questions (map (question_row_of did) (enumerate (Suc n) qs)) ?rest = Inr qs" by simp
  with Cons.prems(2) [of q] show ?case
    by simp
qed

lemma repo_insert_decision_Inr:
  assumes "repo_insert_decision v s = (Inr u, s')"
  shows "store_ok s' \<and> store_ok (s\<lparr>decisions := decisions s @ [summary_row_of v]\<rparr>) \<and>
    s' = s\<lparr>decisions := decisions s @ [summary_row_of v],
      decision_questions := decision_questions s @ map (question_row_of (header_id (summary_header (decision_summary v))))
        (enumerate 0 (decision.decision_questions v)),
      decision_options := decision_options s @
        concat (map (option_rows_of (header_id (summary_header (decision_summary v)))) (decision.decision_questions v))\<rparr>"
  using assms unfolding repo_insert_decision_def Let_def by (auto simp: op_iff)

lemma store_ok_decisions:
  assumes "store_ok s"
  shows "unique_on srow_id (decisions s)"
    "unique_on (\<lambda>r. (qrow_decision_id r, qrow_question_id r)) (decision_questions s)"
    "q \<in> set (decision_questions s) \<Longrightarrow> qrow_decision_id q \<in> srow_id ` set (decisions s)"
    "opt \<in> set (decision_options s) \<Longrightarrow>
       (orow_decision_id opt, orow_question_id opt) \<in>
         (\<lambda>q. (qrow_decision_id q, qrow_question_id q)) ` set (decision_questions s)"
    "an \<in> set (decision_answers s) \<Longrightarrow>
       (answrow_decision_id an, answrow_question_id an) \<in>
         (\<lambda>q. (qrow_decision_id q, qrow_question_id q)) ` set (decision_questions s)"
  using assms
  by (auto simp: store_ok_def uniques_ok_def references_ok_def decision_references_ok_def refers_def
      list_all_iff)

lemma insert_then_read:
  assumes ok: "store_ok s" and run: "repo_insert_decision v s = (Inr u, s')"
  shows "repo_decision (header_id (summary_header (decision_summary v))) s' = (Inr (Some v), s')"
proof -
  let ?id = "header_id (summary_header (decision_summary v))"
  let ?qs = "decision.decision_questions v"
  from repo_insert_decision_Inr [OF run] have
    ok': "store_ok s'" and ok1: "store_ok (s\<lparr>decisions := decisions s @ [summary_row_of v]\<rparr>)" and
    d: "decisions s' = decisions s @ [summary_row_of v]" and
    q: "decision_questions s' = decision_questions s @ map (question_row_of ?id) (enumerate 0 ?qs)" and
    c: "decision_options s' = decision_options s @ concat (map (option_rows_of ?id) ?qs)"
    by auto
  have id: "srow_id (summary_row_of v) = ?id" by (simp add: summary_row_of_def Let_def)
  from store_ok_decisions(1) [OF ok1] id have fresh: "\<And>r. r \<in> set (decisions s) \<Longrightarrow> srow_id r \<noteq> ?id"
    by (force simp: unique_on_def)
  with store_ok_decisions(3) [OF ok] have fresh_q: "\<And>x. x \<in> set (decision_questions s) \<Longrightarrow> qrow_decision_id x \<noteq> ?id"
    by fastforce
  with store_ok_decisions(4) [OF ok] have fresh_c: "\<And>x. x \<in> set (decision_options s) \<Longrightarrow> orow_decision_id x \<noteq> ?id"
    by fastforce
  have row: "find_row (\<lambda>r. srow_id r = ?id) (decisions s') = Some (summary_row_of v)"
  proof -
    have "find_row (\<lambda>r. srow_id r = ?id) (decisions s) = None" using fresh by (simp add: find_row_None_iff)
    then show ?thesis by (simp add: d find_row_append id)
  qed
  have qrows: "filter (\<lambda>r. qrow_decision_id r = ?id) (decision_questions s') =
      map (question_row_of ?id) (enumerate 0 ?qs)"
    using fresh_q by (simp add: q filter_empty_conv filter_id_conv)
  have crows: "filter (\<lambda>r. orow_decision_id r = ?id) (decision_options s') = concat (map (option_rows_of ?id) ?qs)"
    using fresh_c option_rows_ids by (fastforce simp: c filter_empty_conv filter_id_conv)
  have dist: "distinct (map question_id ?qs)"
  proof -
    have rows: "map (\<lambda>r. (qrow_decision_id r, qrow_question_id r)) (map (question_row_of ?id) (enumerate n xs)) =
        map (Pair ?id) (map question_id xs)" for n xs
      by (induction xs arbitrary: n) simp_all
    have "distinct (map (Pair ?id) (map question_id ?qs))"
      using store_ok_decisions(2) [OF ok'] unfolding unique_on_def q map_append distinct_append rows by blast
    then show ?thesis by (simp only: distinct_map)
  qed
  have "filter (\<lambda>r. orow_question_id r = question_id x)
      (sort_key orow_position (concat (map (option_rows_of ?id) ?qs))) = option_rows_of ?id x" if "x \<in> set ?qs" for x
    using options_of_question [OF dist that] option_rows_sorted
    by (simp add: filter_sort sort_key_id_if_sorted)
  then have "take_questions (map (question_row_of ?id) (enumerate 0 ?qs))
      (sort_key orow_position (concat (map (option_rows_of ?id) ?qs))) = Inr ?qs"
    by (rule take_questions_stored [OF dist])
  with question_rows_sorted [of ?id ?qs] show ?thesis
    by (simp add: repo_decision_def row qrows crows sort_key_id_if_sorted summary_row_roundtrip)
      (simp add: summary_row_of_def Let_def)
qed

end
