(* ===== verification/Fleet_Authority.thy ===== *)
theory Fleet_Authority
  imports Store_Fleet
begin

text \<open>
  Authority over fleets and controllers: \<open>domain/src/fleet/authority.rs\<close>. The digest \<open>identity::hash\<close>
  (hexadecimal SHA-256) is an argument; \<open>identity::matches\<close> compares with it.
\<close>

definition fleet_permission :: "fleet \<Rightarrow> string \<Rightarrow> bool \<Rightarrow> permission" where
  "fleet_permission f pid wr = (case (fleet_owner_id f = pid, wr) of
     (True, True) \<Rightarrow> AgentConfigureOwned
   | (False, True) \<Rightarrow> AgentConfigureAny
   | (True, False) \<Rightarrow> AgentReadOwned
   | (False, False) \<Rightarrow> AgentReadAny)"

definition requester_authorized :: "string \<Rightarrow> fleet \<Rightarrow> bool db" where
  "requester_authorized pid f =
     bind_op (repo_principal pid) (\<lambda>p.
     if (case p of None \<Rightarrow> True | Some v \<Rightarrow> principal_kind v \<noteq> Human \<or> principal_status v \<noteq> Active)
     then return_op False
     else bind_op (repo_permissions pid) (\<lambda>perms.
       return_op (list_ex (\<lambda>v. v = fleet_permission f pid True) perms)))"

definition controller_token :: "(string \<Rightarrow> string) \<Rightarrow> string \<Rightarrow> string \<Rightarrow> string" where
  "controller_token hash enrollment_id claim =
     ''fleet.'' @ enrollment_id @ ''.'' @ hash (''crossfire-controller:'' @ claim)"

definition hash_matches :: "(string \<Rightarrow> string) \<Rightarrow> string \<Rightarrow> string \<Rightarrow> bool" where
  "hash_matches hash v digest \<longleftrightarrow> hash v = digest"

definition lower_hex :: "char \<Rightarrow> bool" where
  "lower_hex c \<longleftrightarrow> (48 \<le> byte c \<and> byte c \<le> 57) \<or> (97 \<le> byte c \<and> byte c \<le> 102)"

definition uuid_text :: "string \<Rightarrow> bool" where
  "uuid_text v \<longleftrightarrow> length v = 36 \<and> list_all (\<lambda>c. lower_hex c \<or> c = CHR ''-'') v"

definition digest_text :: "string \<Rightarrow> bool" where
  "digest_text v \<longleftrightarrow> length v = 64 \<and> list_all lower_hex v"

definition invalid_credential :: failure where
  "invalid_credential = failure_new Unauthorized ''Invalid controller credential''"

definition authenticate_controller :: "(string \<Rightarrow> string) \<Rightarrow> string \<Rightarrow> fleet_actor db" where
  "authenticate_controller hash token =
     (case split_on CHR ''.'' token of
        [tag, cid, digest] \<Rightarrow>
          if tag \<noteq> ''fleet'' then fail_op invalid_credential
          else if \<not> uuid_text cid \<or> \<not> digest_text digest then fail_op invalid_credential
          else
            bind_op (require_op (repo_fleet_credential cid)
              (\<lambda>v. cred_revoked_at v = None \<and> hash_matches hash token (cred_secret_hash v))
              invalid_credential) (\<lambda>credential.
            bind_op (require_op (repo_fleet (cred_fleet_id credential)) (\<lambda>v. fleet_archived_at v = None)
              (failure_new Unauthorized ''Fleet is unavailable'')) (\<lambda>fleet.
            bind_op (repo_principal (fleet_owner_id fleet)) (\<lambda>owner.
            if (case owner of None \<Rightarrow> True | Some p \<Rightarrow> principal_status p \<noteq> Active)
            then fail_op (failure_new Forbidden ''Fleet owner is not active'')
            else return_op (FleetController (fleet_id fleet) (cred_id credential)))))
      | _ \<Rightarrow> fail_op invalid_credential)"

definition authorize_fleet :: "fleet_actor \<Rightarrow> fleet \<Rightarrow> bool \<Rightarrow> int \<Rightarrow> unit db" where
  "authorize_fleet actor fleet wr now =
     (if wr \<and> fleet_archived_at fleet \<noteq> None
      then fail_op (failure_new Forbidden ''Fleet is archived'')
      else case actor of
        FleetPrincipal a \<Rightarrow>
          bind_op (authorize a (fleet_permission fleet (actor_principal_id a) wr) now) (\<lambda>_. return_op ())
      | FleetController fid cid \<Rightarrow>
          if fleet_archived_at fleet \<noteq> None
          then fail_op (failure_new Forbidden ''Fleet is archived'')
          else
            bind_op (repo_fleet_credential cid) (\<lambda>credential.
            bind_op (repo_principal (fleet_owner_id fleet)) (\<lambda>owner.
            if fid = fleet_id fleet \<and>
               (case credential of None \<Rightarrow> False
                | Some v \<Rightarrow> cred_fleet_id v = fleet_id fleet \<and> cred_revoked_at v = None) \<and>
               (case owner of None \<Rightarrow> False | Some v \<Rightarrow> principal_status v = Active)
            then return_op ()
            else fail_op (failure_new Forbidden ''Controller authority does not cover this fleet''))))"

lemma query_authenticate_controller [simp]: "query (authenticate_controller hash token)"
  unfolding authenticate_controller_def
  by (auto intro!: query_bind query_require split: list.splits option.splits)

lemma query_authorize_fleet [simp]: "query (authorize_fleet actor fleet wr now)"
  unfolding authorize_fleet_def by (auto intro!: query_bind split: fleet_actor.splits option.splits)

lemma query_requester_authorized [simp]: "query (requester_authorized pid f)"
  unfolding requester_authorized_def by (auto intro!: query_bind split: option.splits)

section \<open>Tokens\<close>

lemma lower_hex_no_dot: "list_all lower_hex v \<Longrightarrow> CHR ''.'' \<notin> set v"
  by (auto simp: list_all_iff lower_hex_def byte_def)

lemma uuid_no_dot: "uuid_text v \<Longrightarrow> CHR ''.'' \<notin> set v"
  by (auto simp: uuid_text_def list_all_iff lower_hex_def byte_def)

lemma token_pieces:
  "uuid_text cid \<Longrightarrow> digest_text digest \<Longrightarrow>
   split_on CHR ''.'' token = [''fleet'', cid, digest] \<longleftrightarrow> token = ''fleet.'' @ cid @ ''.'' @ digest"
  using uuid_no_dot [of cid] lower_hex_no_dot [of digest]
  by (simp add: split_on_three digest_text_def)

section \<open>Controllers\<close>

definition stored_fleet :: "string \<Rightarrow> fleet \<Rightarrow> store \<Rightarrow> bool" where
  "stored_fleet fid f s \<longleftrightarrow> fleet_id f = fid \<and> fleet_row_of f \<in> set (fleets s)"

lemma fleet_of_row_Inr: "fleet_of_row r = Inr f \<longleftrightarrow> r = fleet_row_of f"
proof
  assume "fleet_of_row r = Inr f"
  then show "r = fleet_row_of f"
    by (cases r) (auto simp: fleet_of_row_def fleet_row_of_def op_iff split: if_splits)
qed simp

lemma fleet_row_of_id [simp]: "frow_id (fleet_row_of f) = fleet_id f"
  by (simp add: fleet_row_of_def)

lemma store_ok_fleet_uniques:
  assumes "store_ok s"
  shows "unique_on frow_id (fleets s)" "unique_on cred_id (fleet_credentials s)"
    "unique_on conn_fleet_id (fleet_connections s)" "unique_on lrow_id (listener_runs s)"
  using assms by (simp_all add: store_ok_def uniques_ok_def)

lemma repo_fleet_Inr:
  assumes "store_ok s"
  shows "repo_fleet fid s = (Inr (Some f), s') \<longleftrightarrow> s' = s \<and> stored_fleet fid f s"
  unfolding repo_fleet_def stored_fleet_def
  by (auto simp: op_iff fleet_of_row_Inr find_key_iff [OF store_ok_fleet_uniques(1) [OF assms]])

lemma repo_fleet_credential_Inr:
  assumes "store_ok s"
  shows "repo_fleet_credential cid s = (Inr (Some c), s') \<longleftrightarrow>
    s' = s \<and> c \<in> set (fleet_credentials s) \<and> cred_id c = cid"
  unfolding repo_fleet_credential_def
  by (auto simp: op_iff find_key_iff [OF store_ok_fleet_uniques(2) [OF assms]])

definition credential_valid :: "(string \<Rightarrow> string) \<Rightarrow> string \<Rightarrow> string \<Rightarrow> fleet_credential \<Rightarrow> store \<Rightarrow> bool" where
  "credential_valid hash token cid c s \<longleftrightarrow>
     c \<in> set (fleet_credentials s) \<and> cred_id c = cid \<and> cred_revoked_at c = None \<and>
     hash token = cred_secret_hash c"

definition fleet_open :: "string \<Rightarrow> fleet \<Rightarrow> store \<Rightarrow> bool" where
  "fleet_open fid f s \<longleftrightarrow> stored_fleet fid f s \<and> fleet_archived_at f = None \<and>
     (\<exists>r \<in> set (principals s). prow_id r = fleet_owner_id f \<and> prow_status r = ''active'')"

lemma repo_principal_total:
  assumes "store_ok s"
  shows "\<exists>w. repo_principal pid s = (Inr w, s) \<and>
    ((case w of None \<Rightarrow> False | Some p \<Rightarrow> principal_status p = Active) \<longleftrightarrow>
      (\<exists>r \<in> set (principals s). prow_id r = pid \<and> prow_status r = ''active''))"
proof -
  have "\<exists>w. repo_principal pid s = (Inr w, s)"
  proof (cases "find_row (\<lambda>r. prow_id r = pid) (principals s)")
    case None
    then show ?thesis by (simp add: repo_principal_def)
  next
    case (Some r)
    then have "r \<in> set (principals s)" using find_row_SomeD by fast
    with assms have "principal_check r" by (auto simp: store_ok_def checks_ok_def list_all_iff)
    then obtain p where "principal_of_row r = Inr p"
      by (auto simp: principal_check_def principal_of_row_def kind_of_text_def status_of_text_def)
    with Some show ?thesis by (simp add: repo_principal_def)
  qed
  then obtain w where w: "repo_principal pid s = (Inr w, s)" by blast
  have iff: "w = Some p \<longleftrightarrow> stored_principal pid p s" for p
    using repo_principal_Inr [OF assms, of pid p s] w by simp
  have "(case w of None \<Rightarrow> False | Some p \<Rightarrow> principal_status p = Active) \<longleftrightarrow>
      (\<exists>p. stored_principal pid p s \<and> principal_status p = Active)"
    unfolding iff [symmetric] by (cases w) auto
  with w show ?thesis unfolding active_row [OF assms] by blast
qed

lemma authenticate_controller_Inr:
  assumes ok: "store_ok s"
  shows "authenticate_controller hash token s = (Inr act, s') \<longleftrightarrow>
    s' = s \<and> (\<exists>cid digest c f. uuid_text cid \<and> digest_text digest \<and>
      token = ''fleet.'' @ cid @ ''.'' @ digest \<and> credential_valid hash token cid c s \<and>
      fleet_open (cred_fleet_id c) f s \<and> act = FleetController (fleet_id f) cid)"
proof -
  obtain w where w: "\<And>pid. repo_principal pid s = (Inr (w pid), s)"
    and active: "\<And>pid. (case w pid of None \<Rightarrow> False | Some p \<Rightarrow> principal_status p = Active) \<longleftrightarrow>
      (\<exists>r \<in> set (principals s). prow_id r = pid \<and> prow_status r = ''active'')"
    using repo_principal_total [OF ok] by metis
  have owner: "bind_op (repo_principal pid) (\<lambda>owner.
      if (case owner of None \<Rightarrow> True | Some p \<Rightarrow> principal_status p \<noteq> Active) then fail_op e2
      else return_op x) s = (Inr y, t) \<longleftrightarrow>
      t = s \<and> y = x \<and> (\<exists>r \<in> set (principals s). prow_id r = pid \<and> prow_status r = ''active'')"
    for pid e2 and x y :: fleet_actor and t
    unfolding active [symmetric] by (auto simp: bind_op_def w split: option.splits)
  have body: "bind_op (require_op (repo_fleet_credential cid)
              (\<lambda>v. cred_revoked_at v = None \<and> hash_matches hash token (cred_secret_hash v)) e) (\<lambda>credential.
            bind_op (require_op (repo_fleet (cred_fleet_id credential)) (\<lambda>v. fleet_archived_at v = None) e') (\<lambda>fleet.
            bind_op (repo_principal (fleet_owner_id fleet)) (\<lambda>owner.
            if (case owner of None \<Rightarrow> True | Some p \<Rightarrow> principal_status p \<noteq> Active) then fail_op e2
            else return_op (FleetController (fleet_id fleet) (cred_id credential))))) s = (Inr act, s') \<longleftrightarrow>
      s' = s \<and> (\<exists>c f. credential_valid hash token cid c s \<and> fleet_open (cred_fleet_id c) f s \<and>
        act = FleetController (fleet_id f) cid)" for cid e e' e2
    unfolding bind_op_eq_Inr [of "require_op m p f" for m p f] require_op_Inr owner
      repo_fleet_credential_Inr [OF ok] repo_fleet_Inr [OF ok]
    by (auto simp: owner repo_fleet_Inr [OF ok] credential_valid_def fleet_open_def hash_matches_def)
  show ?thesis
  proof (cases "\<exists>cid digest. split_on CHR ''.'' token = [''fleet'', cid, digest] \<and> uuid_text cid \<and> digest_text digest")
    case True
    then obtain cid digest where t: "split_on CHR ''.'' token = [''fleet'', cid, digest]"
      "uuid_text cid" "digest_text digest" by blast
    from t token_pieces [of cid digest token]
    have tk: "token = ''fleet.'' @ cid @ ''.'' @ digest" by simp
    have same: "cid' = cid"
      if "uuid_text cid'" "digest_text digest'" "token = ''fleet.'' @ cid' @ ''.'' @ digest'" for cid' digest'
      using that t(1) token_pieces [of cid' digest' token] by simp
    have "authenticate_controller hash token s = (Inr act, s') \<longleftrightarrow>
      s' = s \<and> (\<exists>c f. credential_valid hash token cid c s \<and> fleet_open (cred_fleet_id c) f s \<and>
        act = FleetController (fleet_id f) cid)"
      using body [of cid] t by (simp add: authenticate_controller_def)
    also have "\<dots> \<longleftrightarrow> s' = s \<and> (\<exists>cid' digest'. uuid_text cid' \<and> digest_text digest' \<and>
        token = ''fleet.'' @ cid' @ ''.'' @ digest' \<and> (\<exists>c f. credential_valid hash token cid' c s \<and>
        fleet_open (cred_fleet_id c) f s \<and> act = FleetController (fleet_id f) cid'))"
      using same t(2,3) tk by blast
    finally show ?thesis by blast
  next
    case False
    have "fst (authenticate_controller hash token s) = Inl invalid_credential"
      using False unfolding authenticate_controller_def by (auto split: list.splits)
    moreover have "\<not> (uuid_text cid \<and> digest_text digest \<and> token = ''fleet.'' @ cid @ ''.'' @ digest)" for cid digest
      using False token_pieces [of cid digest token] by blast
    ultimately show ?thesis by auto
  qed
qed

end
