(* ===== verification/Progress.thy ===== *)
theory Progress
  imports Prelude
begin

text \<open>
  Operations that only move forward. The persistent tables carry histories: a listener run never loses
  time it was active, a settled decision never reopens. Such a law is a preorder on states, and a
  program respects it when every operation it is built of does. \<open>state_order\<close> holds the rules of the
  combinators for one preorder, \<open>row_order\<close> lifts a preorder on rows to tables, and \<open>table_order\<close> to
  the states that hold the table.
\<close>

definition advances :: "('s \<Rightarrow> 's \<Rightarrow> bool) \<Rightarrow> ('s, 'e, 'a) op \<Rightarrow> bool" where
  "advances le m \<longleftrightarrow> (\<forall>s. le s (snd (m s)))"

definition rows_progress :: "('r \<Rightarrow> 'r \<Rightarrow> bool) \<Rightarrow> 'r list \<Rightarrow> 'r list \<Rightarrow> bool" where
  "rows_progress le rows rows' \<longleftrightarrow> (\<forall>r \<in> set rows. \<exists>r' \<in> set rows'. le r r')"

locale state_order =
  fixes le :: "'s \<Rightarrow> 's \<Rightarrow> bool"
  assumes refl [simp, intro]: "le s s"
    and trans: "le s t \<Longrightarrow> le t u \<Longrightarrow> le s u"
begin

lemma advI: "(\<And>s r s'. m s = (r, s') \<Longrightarrow> le s s') \<Longrightarrow> advances le m"
  unfolding advances_def by (metis prod.collapse)

lemma advD: "advances le m \<Longrightarrow> m s = (r, s') \<Longrightarrow> le s s'"
  unfolding advances_def by (metis snd_conv)

lemma adv_pure [intro]:
  "advances le (return_op v)" "advances le (fail_op e)" "advances le (read_op f)" "advances le (lift_op r)"
  by (simp_all add: advances_def)

lemma adv_bind [intro]:
  assumes "advances le m" and "\<And>v. advances le (f v)"
  shows "advances le (bind_op m f)"
proof (rule advI)
  fix s r s'
  assume run: "bind_op m f s = (r, s')"
  obtain q t where q: "m s = (q, t)" by (cases "m s")
  show "le s s'"
  proof (cases q)
    case (Inl e)
    with q run show ?thesis using advD [OF assms(1) q] by simp
  next
    case (Inr v)
    with q run have "f v t = (r, s')" by simp
    from trans [OF advD [OF assms(1) q] advD [OF assms(2) this]] show ?thesis .
  qed
qed

lemma adv_transaction [intro]: "advances le m \<Longrightarrow> advances le (transaction m)"
  by (auto simp: advances_def transaction_def split: prod.splits sum.splits) (metis snd_conv)

lemma adv_for_each [intro]: "(\<And>x. x \<in> set xs \<Longrightarrow> advances le (f x)) \<Longrightarrow> advances le (for_each_op f xs)"
  by (induction xs) auto

lemma adv_success:
  assumes "\<And>s v s'. m s = (Inr v, s') \<Longrightarrow> le s s'"
  shows "advances le (transaction m)"
  using assms by (intro advI) (auto simp: transaction_def split: prod.splits sum.splits)

end

locale row_order = state_order le for le :: "'r \<Rightarrow> 'r \<Rightarrow> bool"
begin

lemma rows_refl: "rows_progress le rows rows"
  by (auto simp: rows_progress_def)

lemma rows_trans: "rows_progress le rows rows' \<Longrightarrow> rows_progress le rows' rows'' \<Longrightarrow> rows_progress le rows rows''"
  unfolding rows_progress_def by (meson trans)

lemma rows_append: "rows_progress le rows (rows @ more)"
  by (auto simp: rows_progress_def)

lemma rows_update:
  assumes "\<And>r. r \<in> set rows \<Longrightarrow> p r \<Longrightarrow> le r (f r)"
  shows "rows_progress le rows (update_rows p f rows)"
  unfolding rows_progress_def
proof (intro ballI)
  fix r
  assume r: "r \<in> set rows"
  show "\<exists>r' \<in> set (update_rows p f rows). le r r'"
  proof (cases "p r")
    case True
    with r assms show ?thesis by (blast intro: update_rows_hit)
  next
    case False
    with r show ?thesis by (blast intro: update_rows_miss)
  qed
qed

end

sublocale row_order \<subseteq> rows: state_order "rows_progress le"
  by unfold_locales (auto intro: rows_refl rows_trans)

locale table_order = row_order le for le :: "'r \<Rightarrow> 'r \<Rightarrow> bool" +
  fixes table :: "'s \<Rightarrow> 'r list"
begin

lemma table_refl: "rows_progress le (table s) (table s)"
  by (rule rows_refl)

end

sublocale table_order \<subseteq> store: state_order "\<lambda>s s'. rows_progress le (table s) (table s')"
  by unfold_locales (auto intro: rows_refl rows_trans)

end
