(* ===== verification/Listener.thy ===== *)
theory Listener
  imports Fleet_Authority Progress Sample_Store
begin

text \<open>
  Listener heartbeats: \<open>controller_proof\<close>, \<open>controller_admission\<close> and \<open>report\<close> of
  \<open>domain/src/listener.rs\<close>. Recording a statistics batch is an argument: whatever it does runs in a
  transaction of its own and only its success is reported.
\<close>

definition controller_mismatch :: failure where
  "controller_mismatch = failure_new Forbidden ''Controller authority does not cover this agent''"

definition controller_proof :: "(string \<Rightarrow> string) \<Rightarrow> string \<Rightarrow> proof_of_control \<Rightarrow> controller db" where
  "controller_proof hash aid pr =
     bind_op (authenticate_controller hash (proof_credential pr)) (\<lambda>actor.
     case actor of
       FleetPrincipal _ \<Rightarrow>
         fail_op (failure_new Forbidden ''A verified fleet controller connection is required'')
     | FleetController fid cid \<Rightarrow>
         if fid \<noteq> proof_fleet_id pr
         then fail_op (failure_new Forbidden ''Controller authority belongs to another fleet'')
         else
           bind_op (repo_fleet_instance_by_agent aid) (\<lambda>binding.
           bind_op (repo_fleet (proof_fleet_id pr)) (\<lambda>fleet.
           case (binding, fleet) of
             (Some b, Some f) \<Rightarrow>
               if inst_retired_at b \<noteq> None \<or> fleet_archived_at f \<noteq> None \<or>
                  inst_owner_id b \<noteq> fleet_owner_id f \<or> inst_fleet_key b \<noteq> fleet_key f
               then fail_op controller_mismatch
               else return_op \<lparr>ctl_fleet_id = fid, ctl_connection_id = proof_connection_id pr,
                      ctl_credential_id = cid\<rparr>
           | _ \<Rightarrow> fail_op controller_mismatch)))"

definition controller_admission :: "string \<Rightarrow> controller \<Rightarrow> int \<Rightarrow> controller_purpose \<Rightarrow> bool db" where
  "controller_admission aid ctl now purpose =
     bind_op (repo_fleet_instance_by_agent aid) (\<lambda>binding.
     bind_op (repo_fleet (ctl_fleet_id ctl)) (\<lambda>fleet.
     bind_op (repo_fleet_connection (ctl_fleet_id ctl)) (\<lambda>connection.
     bind_op (repo_fleet_credential (ctl_credential_id ctl)) (\<lambda>credential.
     bind_op (case fleet of None \<Rightarrow> return_op None | Some f \<Rightarrow> repo_principal (fleet_owner_id f)) (\<lambda>owner.
     case (binding, fleet, connection, credential, owner) of
       (Some b, Some f, Some cn, Some cr, Some ow) \<Rightarrow>
         return_op (admits_controller ctl (Some \<lparr>facts_binding = \<lparr>cb_owner_id = inst_owner_id b,
             cb_fleet_key = inst_fleet_key b, cb_retired_at = inst_retired_at b\<rparr>,
           facts_fleet = f, facts_connection = cn, facts_credential = cr,
           facts_owner_status = principal_status ow\<rparr>) now purpose)
     | _ \<Rightarrow> return_op False)))))"

definition max_exact_integer :: int where
  "max_exact_integer = 9007199254740991"

definition invalid_report :: "'batch report \<Rightarrow> bool" where
  "invalid_report input \<longleftrightarrow>
     \<not> uuid_text (report_run_id input) \<or> report_release input = [] \<or>
     utf16_count (chars (report_release input)) > 200 \<or>
     report_messages_delivered input < 0 \<or> report_messages_delivered input > max_exact_integer"

definition previous_or :: "'a \<Rightarrow> (run \<Rightarrow> 'a) \<Rightarrow> run option \<Rightarrow> 'a" where
  "previous_or d f previous = (case previous of None \<Rightarrow> d | Some r \<Rightarrow> f r)"

definition elapsed_since :: "run option \<Rightarrow> int \<Rightarrow> int" where
  "elapsed_since previous now =
     previous_or 0 (\<lambda>r. max 0 (saturate_i64 (now - run_last_seen_at r))) previous"

definition reported_run ::
  "string \<Rightarrow> 'batch report \<Rightarrow> controller \<Rightarrow> run option \<Rightarrow> bool \<Rightarrow> int \<Rightarrow> int \<Rightarrow> run" where
  "reported_run aid input ctl previous admitted active now = \<lparr>
     run_id = report_run_id input, run_agent_id = aid, run_controller = ctl,
     run_release = report_release input,
     run_started_at = previous_or now run_started_at previous,
     run_last_seen_at = previous_or now (\<lambda>r. max now (run_last_seen_at r)) previous,
     run_active_ms = active,
     run_messages_delivered = previous_or (report_messages_delivered input)
       (\<lambda>r. max (run_messages_delivered r) (report_messages_delivered input)) previous,
     run_stopped_at = (if report_stopped input then Some now else None),
     run_disconnect_requested_at =
       (case previous_or None run_disconnect_requested_at previous of
          Some t \<Rightarrow> Some t | None \<Rightarrow> if admitted then None else Some now)\<rparr>"

definition report_in_transaction ::
  "(string \<Rightarrow> string) \<Rightarrow> actor \<Rightarrow> string \<Rightarrow> 'batch report \<Rightarrow> string \<Rightarrow> int \<Rightarrow> report_outcome db" where
  "report_in_transaction hash a aid input current_release now =
     bind_op (authorize a ListenerReportSelf now) (\<lambda>_.
     if actor_principal_id a \<noteq> aid then fail_op (failure_new Missing ''Listener agent not found'')
     else
       bind_op (controller_proof hash aid (report_controller input)) (\<lambda>ctl.
       bind_op (repo_listener_run (report_run_id input)) (\<lambda>previous.
       if previous_or False (\<lambda>r. run_agent_id r \<noteq> aid) previous
       then fail_op (failure_new Missing ''Listener run not found'')
       else if previous_or False (\<lambda>r. run_stopped_at r \<noteq> None) previous
       then return_op \<lparr>outcome_disconnect = True, outcome_closed = True,
              outcome_current_release = current_release, outcome_statistics_accepted = False\<rparr>
       else if previous_or False (\<lambda>r. run_release r \<noteq> report_release input) previous
       then fail_op (failure_new Conflict ''A running listener cannot change its software version'')
       else if previous_or False (\<lambda>r. run_controller r \<noteq> ctl) previous
       then fail_op (failure_new Conflict ''A listener run cannot change its controller generation'')
       else if previous = None \<and> report_release input \<noteq> current_release
       then fail_op (failure_new Conflict (''Update the project-local Crossfire client and skill before reconnecting. Current release: '' @ current_release))
       else
         bind_op (controller_admission aid ctl now Reporting) (\<lambda>admitted.
         if previous = None \<and> \<not> admitted
         then fail_op (failure_new Conflict ''An active authenticated controller lease is required'')
         else
           let elapsed = elapsed_since previous now in
           bind_op (lift_op (ok_or (opt_filter (\<lambda>v. v \<le> max_exact_integer)
             (checked_i64 (previous_or 0 run_active_ms previous +
                (if elapsed \<le> heartbeat_expiry_ms then elapsed else 0))))
             (failure_new Limit ''Listener active duration exceeds the exact integer range''))) (\<lambda>active.
           let run = reported_run aid input ctl previous admitted active now in
           bind_op (if previous = None
             then bind_op (repo_active_listener_count aid (now - heartbeat_expiry_ms) now) (\<lambda>count.
               check_op (\<not> count \<ge> 100) (failure_new Limit ''Too many reporting listeners''))
             else return_op ()) (\<lambda>_.
           bind_op (repo_save_listener_run run (previous = None)) (\<lambda>_.
           return_op \<lparr>outcome_disconnect = (run_disconnect_requested_at run \<noteq> None),
             outcome_closed = False, outcome_current_release = current_release,
             outcome_statistics_accepted = False\<rparr>)))))))"

definition succeeded :: "'a db \<Rightarrow> bool db" where
  "succeeded m s = (case m s of (Inl _, t) \<Rightarrow> (Inr False, t) | (Inr _, t) \<Rightarrow> (Inr True, t))"

definition report_listener ::
  "(string \<Rightarrow> string) \<Rightarrow> (string \<Rightarrow> string \<Rightarrow> 'batch \<Rightarrow> int \<Rightarrow> unit db) \<Rightarrow>
   actor \<Rightarrow> string \<Rightarrow> 'batch report \<Rightarrow> string \<Rightarrow> int \<Rightarrow> report_outcome db" where
  "report_listener hash record_statistics a aid input current_release now =
     (if invalid_report input then fail_op (failure_new Invalid ''Invalid listener report'')
      else
        bind_op (transaction (report_in_transaction hash a aid input current_release now)) (\<lambda>outcome.
        if outcome_closed outcome then return_op outcome
        else
          bind_op (case report_statistics input of
              None \<Rightarrow> return_op True
            | Some batch \<Rightarrow> succeeded (transaction (record_statistics aid (report_run_id input) batch now)))
          (\<lambda>accepted. return_op (outcome\<lparr>outcome_statistics_accepted := accepted\<rparr>))))"

lemma query_controller_proof [simp]: "query (controller_proof hash aid pr)"
  unfolding controller_proof_def
  by (auto intro!: query_bind split: fleet_actor.splits option.splits prod.splits)

lemma query_controller_admission [simp]: "query (controller_admission aid ctl now purpose)"
  unfolding controller_admission_def
  by (auto intro!: query_bind split: option.splits prod.splits)

section \<open>Reports\<close>

lemma checked_i64_Some [op_iff]: "checked_i64 n = Some v \<longleftrightarrow> i64_ok n \<and> v = n"
  by (auto simp: checked_i64_def)

lemma query_fst: "query m \<Longrightarrow> m s = (r, t) \<longleftrightarrow> t = s \<and> fst (m s) = r"
  using queryD by (cases "m s") fastforce

lemmas controller_admission_fst = query_fst [OF query_controller_admission]

lemma repo_active_listener_count_Inr [op_iff]:
  "repo_active_listener_count aid since now s = (Inr c, s') \<longleftrightarrow>
     s' = s \<and> c = int (length (active_runs aid since now s))"
  by (auto simp: repo_active_listener_count_def op_iff)

definition admitted_report ::
  "string \<Rightarrow> 'batch report \<Rightarrow> string \<Rightarrow> int \<Rightarrow> controller \<Rightarrow> run option \<Rightarrow> bool \<Rightarrow> store \<Rightarrow> bool" where
  "admitted_report aid input current_release now ctl previous admitted s \<longleftrightarrow>
     (case previous of
        Some r \<Rightarrow> run_agent_id r = aid \<and> run_stopped_at r = None \<and> run_release r = report_release input \<and>
          run_controller r = ctl
      | None \<Rightarrow> report_release input = current_release \<and> admitted \<and>
          length (active_runs aid (now - heartbeat_expiry_ms) now s) < 100)"

definition active_after :: "run option \<Rightarrow> int \<Rightarrow> int" where
  "active_after previous now = previous_or 0 run_active_ms previous +
     (if elapsed_since previous now \<le> heartbeat_expiry_ms then elapsed_since previous now else 0)"

lemma report_in_transaction_Inr:
  assumes "report_in_transaction hash a aid input current_release now s = (Inr out, s')"
  shows "(\<exists>p. authorize a ListenerReportSelf now s = (Inr p, s)) \<and> actor_principal_id a = aid \<and>
    (\<exists>ctl previous. controller_proof hash aid (report_controller input) s = (Inr ctl, s) \<and>
      repo_listener_run (report_run_id input) s = (Inr previous, s) \<and>
      ((\<exists>r. previous = Some r \<and> run_agent_id r = aid \<and> run_stopped_at r \<noteq> None \<and> s' = s \<and>
          outcome_closed out \<and> outcome_disconnect out) \<or>
       (\<exists>admitted. controller_admission aid ctl now Reporting s = (Inr admitted, s) \<and>
          admitted_report aid input current_release now ctl previous admitted s \<and>
          active_after previous now \<le> max_exact_integer \<and> \<not> outcome_closed out \<and>
          repo_save_listener_run
            (reported_run aid input ctl previous admitted (active_after previous now) now)
            (previous = None) s = (Inr (), s'))))"
proof -
  from assms obtain p s1 ctl s2 previous s3 where
    auth: "authorize a ListenerReportSelf now s = (Inr p, s1)" and
    self: "actor_principal_id a = aid" and
    ctl: "controller_proof hash aid (report_controller input) s1 = (Inr ctl, s2)" and
    prev: "repo_listener_run (report_run_id input) s2 = (Inr previous, s3)"
    unfolding report_in_transaction_def bind_op_eq_Inr choice_Inr by auto
  have st: "s1 = s" "s2 = s" "s3 = s"
    using queryD [OF query_authorize auth] queryD [OF query_controller_proof ctl]
      queryD [OF query_fleet_repo(8) prev] by auto
  note facts = auth ctl prev
  show ?thesis
  proof (cases "previous_or False (\<lambda>r. run_stopped_at r \<noteq> None) previous")
    case True
    then obtain r where r: "previous = Some r" "run_stopped_at r \<noteq> None"
      by (cases previous) (auto simp: previous_or_def)
    with assms facts st self have "run_agent_id r = aid \<and> s' = s \<and> outcome_closed out \<and> outcome_disconnect out"
      unfolding report_in_transaction_def
      by (auto simp: bind_op_eq_Inr choice_Inr previous_or_def split: if_splits)
    with facts st self r show ?thesis by blast
  next
    case False
    from assms facts st self False obtain admitted where
      adm: "controller_admission aid ctl now Reporting s = (Inr admitted, s)" and
      ok: "\<not> previous_or False (\<lambda>r. run_agent_id r \<noteq> aid) previous"
        "\<not> previous_or False (\<lambda>r. run_release r \<noteq> report_release input) previous"
        "\<not> previous_or False (\<lambda>r. run_controller r \<noteq> ctl) previous"
        "\<not> (previous = None \<and> report_release input \<noteq> current_release)"
        "\<not> (previous = None \<and> \<not> admitted)" and
      active: "active_after previous now \<le> max_exact_integer" and
      count: "previous = None \<longrightarrow> length (active_runs aid (now - heartbeat_expiry_ms) now s) < 100" and
      save: "repo_save_listener_run
            (reported_run aid input ctl previous admitted (active_after previous now) now)
            (previous = None) s = (Inr (), s')" and
      "\<not> outcome_closed out"
      using assms unfolding report_in_transaction_def
      by (cases previous)
        (auto simp: bind_op_eq_Inr choice_Inr active_after_def op_iff previous_or_def Let_def
          controller_admission_fst split: if_splits)
    then show ?thesis
      using facts st self False
      by (cases previous) (auto simp: admitted_report_def previous_or_def)
  qed
qed

section \<open>What a report does to the runs\<close>

lemma count_one: "count_rows p rows = 1 \<Longrightarrow> q \<in> set rows \<Longrightarrow> p q \<Longrightarrow> find_row p rows = Some r \<Longrightarrow> q = r"
  by (induction rows) (auto simp: count_rows_def find_row_None_iff filter_empty_conv split: if_splits)

lemma repo_listener_run_Inr [op_iff]:
  "repo_listener_run rid s = (Inr v, s') \<longleftrightarrow>
     s' = s \<and> v = map_option run_of_row (find_row (\<lambda>r. lrow_id r = rid) (listener_runs s))"
  by (auto simp: repo_listener_run_def)

lemma repo_save_listener_run_Inr:
  "repo_save_listener_run v True s = (Inr u, s') \<longleftrightarrow> authoritative_binding v s \<and> store_ok s' \<and>
     s' = s\<lparr>listener_runs := listener_runs s @ [listener_row_of v]\<rparr>"
  "repo_save_listener_run v False s = (Inr u, s') \<longleftrightarrow> controller_unchanged v s \<and> store_ok s' \<and>
     count_rows (\<lambda>r. lrow_id r = run_id v) (listener_runs s) = 1 \<and>
     s' = s\<lparr>listener_runs := update_rows (\<lambda>r. lrow_id r = run_id v) (\<lambda>_. listener_row_of v) (listener_runs s)\<rparr>"
  by (auto simp: repo_save_listener_run_def op_iff)

definition run_progress :: "listener_row \<Rightarrow> listener_row \<Rightarrow> bool" where
  "run_progress r r' \<longleftrightarrow> lrow_id r' = lrow_id r \<and> lrow_agent_id r' = lrow_agent_id r \<and>
     run_controller (run_of_row r') = run_controller (run_of_row r) \<and>
     lrow_release r' = lrow_release r \<and> lrow_started_at r' = lrow_started_at r \<and>
     lrow_last_seen_at r \<le> lrow_last_seen_at r' \<and> lrow_active_ms r \<le> lrow_active_ms r' \<and>
     lrow_messages_delivered r \<le> lrow_messages_delivered r' \<and>
     (lrow_disconnect_requested_at r \<noteq> None \<longrightarrow>
        lrow_disconnect_requested_at r' = lrow_disconnect_requested_at r) \<and>
     (lrow_stopped_at r \<noteq> None \<longrightarrow> r' = r)"

interpretation runs: table_order run_progress listener_runs
  by unfold_locales (auto simp: run_progress_def)

lemma run_fields [simp]:
  "lrow_id (listener_row_of v) = run_id v" "lrow_agent_id (listener_row_of v) = run_agent_id v"
  "lrow_release (listener_row_of v) = run_release v" "lrow_started_at (listener_row_of v) = run_started_at v"
  "lrow_last_seen_at (listener_row_of v) = run_last_seen_at v"
  "lrow_active_ms (listener_row_of v) = run_active_ms v"
  "lrow_messages_delivered (listener_row_of v) = run_messages_delivered v"
  "lrow_stopped_at (listener_row_of v) = run_stopped_at v"
  "lrow_disconnect_requested_at (listener_row_of v) = run_disconnect_requested_at v"
  by (simp_all add: listener_row_of_def)

lemma run_of_row_fields [simp]:
  "run_id (run_of_row r) = lrow_id r" "run_agent_id (run_of_row r) = lrow_agent_id r"
  "run_release (run_of_row r) = lrow_release r" "run_started_at (run_of_row r) = lrow_started_at r"
  "run_last_seen_at (run_of_row r) = lrow_last_seen_at r"
  "run_active_ms (run_of_row r) = lrow_active_ms r"
  "run_messages_delivered (run_of_row r) = lrow_messages_delivered r"
  "run_stopped_at (run_of_row r) = lrow_stopped_at r"
  "run_disconnect_requested_at (run_of_row r) = lrow_disconnect_requested_at r"
  by (simp_all add: run_of_row_def)

lemma elapsed_nonneg: "0 \<le> elapsed_since previous now"
  by (cases previous) (auto simp: elapsed_since_def previous_or_def)

lemma elapsed_le: "elapsed_since (Some r) now \<le> heartbeat_expiry_ms \<Longrightarrow>
  elapsed_since (Some r) now \<le> max now (run_last_seen_at r) - run_last_seen_at r"
  by (auto simp: elapsed_since_def previous_or_def saturate_i64_def heartbeat_expiry_ms_def)

lemma reported_run_fields [simp]:
  "run_id (reported_run aid input ctl previous admitted active now) = report_run_id input"
  "run_agent_id (reported_run aid input ctl previous admitted active now) = aid"
  "run_controller (reported_run aid input ctl previous admitted active now) = ctl"
  "run_release (reported_run aid input ctl previous admitted active now) = report_release input"
  "run_active_ms (reported_run aid input ctl previous admitted active now) = active"
  by (simp_all add: reported_run_def)

lemma reported_run_progress:
  assumes "admitted_report aid input current_release now ctl (Some (run_of_row r)) admitted s"
    and "lrow_id r = report_run_id input"
  shows "run_progress r (listener_row_of
    (reported_run aid input ctl (Some (run_of_row r)) admitted (active_after (Some (run_of_row r)) now) now))"
proof -
  from assms have same: "lrow_agent_id r = aid" "lrow_release r = report_release input"
    "run_controller (run_of_row r) = ctl" "lrow_stopped_at r = None"
    by (simp_all add: admitted_report_def)
  have "lrow_active_ms r \<le> active_after (Some (run_of_row r)) now"
    using elapsed_nonneg [of "Some (run_of_row r)" now]
    by (simp add: active_after_def previous_or_def)
  with same assms(2) show ?thesis
    by (simp add: run_progress_def reported_run_def previous_or_def split: option.splits)
qed

text \<open>A report either appends the first row of a run or replaces the one row of a running one.\<close>

definition run_saved :: "string \<Rightarrow> 'batch report \<Rightarrow> int \<Rightarrow> controller \<Rightarrow> run option \<Rightarrow> bool \<Rightarrow> store \<Rightarrow> store \<Rightarrow> bool" where
  "run_saved aid input now ctl previous admitted s s' \<longleftrightarrow>
     (let row = listener_row_of (reported_run aid input ctl previous admitted (active_after previous now) now) in
      case previous of
        None \<Rightarrow> (\<forall>q \<in> set (listener_runs s). lrow_id q \<noteq> report_run_id input) \<and>
          listener_runs s' = listener_runs s @ [row]
      | Some v \<Rightarrow> \<exists>r \<in> set (listener_runs s). v = run_of_row r \<and> lrow_id r = report_run_id input \<and>
          (\<forall>q \<in> set (listener_runs s). q \<noteq> r \<longrightarrow> lrow_id q \<noteq> report_run_id input) \<and>
          listener_runs s' = update_rows (\<lambda>q. lrow_id q = report_run_id input) (\<lambda>_. row) (listener_runs s))"

lemma run_saved_cases:
  assumes "run_saved aid input now ctl previous admitted s s'"
  obtains "previous = None" "\<forall>q \<in> set (listener_runs s). lrow_id q \<noteq> report_run_id input"
      "listener_runs s' = listener_runs s @
        [listener_row_of (reported_run aid input ctl None admitted (active_after None now) now)]"
  | r where "previous = Some (run_of_row r)" "r \<in> set (listener_runs s)" "lrow_id r = report_run_id input"
      "\<forall>q \<in> set (listener_runs s). q \<noteq> r \<longrightarrow> lrow_id q \<noteq> report_run_id input"
      "listener_runs s' = update_rows (\<lambda>q. lrow_id q = report_run_id input)
        (\<lambda>_. listener_row_of (reported_run aid input ctl (Some (run_of_row r)) admitted
          (active_after (Some (run_of_row r)) now) now)) (listener_runs s)"
proof (cases previous)
  case None
  with assms that(1) show ?thesis by (simp add: run_saved_def)
next
  case (Some v)
  with assms that(2) show ?thesis by (auto simp: run_saved_def Let_def)
qed

lemma run_savedI:
  assumes prev: "previous = map_option run_of_row (find_row (\<lambda>r. lrow_id r = report_run_id input) (listener_runs s))"
    and save: "repo_save_listener_run (reported_run aid input ctl previous admitted (active_after previous now) now)
       (previous = None) s = (Inr (), s')"
  shows "run_saved aid input now ctl previous admitted s s'"
proof (cases "find_row (\<lambda>r. lrow_id r = report_run_id input) (listener_runs s)")
  case None
  then have none: "\<forall>q \<in> set (listener_runs s). lrow_id q \<noteq> report_run_id input"
    by (simp add: find_row_None_iff)
  from None prev have "previous = None" by simp
  with none save show ?thesis by (simp add: run_saved_def repo_save_listener_run_Inr)
next
  case (Some r)
  from find_row_SomeD [OF Some] have r: "r \<in> set (listener_runs s)" "lrow_id r = report_run_id input"
    by auto
  from prev Some have p: "previous = Some (run_of_row r)" by simp
  with save have saved: "count_rows (\<lambda>q. lrow_id q = report_run_id input) (listener_runs s) = 1"
    "listener_runs s' = update_rows (\<lambda>q. lrow_id q = report_run_id input)
      (\<lambda>_. listener_row_of (reported_run aid input ctl previous admitted (active_after previous now) now))
      (listener_runs s)"
    by (simp_all add: repo_save_listener_run_Inr)
  have "\<forall>q \<in> set (listener_runs s). q \<noteq> r \<longrightarrow> lrow_id q \<noteq> report_run_id input"
    using count_one [OF saved(1) _ _ Some] by blast
  with r p saved(2) show ?thesis
    by (auto simp: run_saved_def)
qed

lemma report_rows:
  assumes "report_in_transaction hash a aid input current_release now s = (Inr out, s')"
  shows "s' = s \<or> (\<exists>ctl previous admitted. controller_proof hash aid (report_controller input) s = (Inr ctl, s) \<and>
      controller_admission aid ctl now Reporting s = (Inr admitted, s) \<and>
      admitted_report aid input current_release now ctl previous admitted s \<and>
      run_saved aid input now ctl previous admitted s s')"
  using report_in_transaction_Inr [OF assms] unfolding repo_listener_run_Inr
  by (blast intro: run_savedI)

lemma report_in_transaction_progress:
  assumes "report_in_transaction hash a aid input current_release now s = (Inr out, s')"
  shows "rows_progress run_progress (listener_runs s) (listener_runs s')"
proof -
  from report_rows [OF assms] consider "s' = s"
    | ctl p admitted where "admitted_report aid input current_release now ctl p admitted s"
      "run_saved aid input now ctl p admitted s s'" by blast
  then show ?thesis
  proof cases
    case 1
    then show ?thesis using runs.rows_refl by simp
  next
    case (2 ctl p admitted)
    from 2(2) show ?thesis
    proof (cases rule: run_saved_cases)
      case 1
      then show ?thesis using runs.rows_append by simp
    next
      case (2 r)
      with \<open>admitted_report _ _ _ _ _ _ _ _\<close> have "run_progress r (listener_row_of (reported_run aid input ctl
          (Some (run_of_row r)) admitted (active_after (Some (run_of_row r)) now) now))"
        by (simp add: reported_run_progress)
      with 2(4) show ?thesis unfolding 2(5) by (intro runs.rows_update) auto
    qed
  qed
qed

section \<open>Run histories\<close>

lemma listener_runs_succeeded:
  "listener_runs (snd (m s)) = listener_runs s \<Longrightarrow> listener_runs (snd (succeeded m s)) = listener_runs s"
  by (auto simp: succeeded_def split: prod.splits sum.splits)

lemma listener_runs_transaction:
  "listener_runs (snd (m s)) = listener_runs s \<Longrightarrow> listener_runs (snd (transaction m s)) = listener_runs s"
  by (auto simp: transaction_def split: prod.splits sum.splits)

text \<open>
  A report commits its transaction first; what follows leaves the runs alone, if recording statistics
  does.
\<close>

lemma report_listener_runs:
  assumes runs_kept: "\<And>aid rid b now s. listener_runs (snd (record_statistics aid rid b now s)) = listener_runs s"
    and run: "report_listener hash record_statistics a aid input current_release now s = (res, s')"
  shows "s' = s \<and> is_err res \<or>
    (\<exists>out t. report_in_transaction hash a aid input current_release now s = (Inr out, t) \<and>
      listener_runs s' = listener_runs t)"
proof (cases "invalid_report input")
  case True
  with run show ?thesis by (auto simp: report_listener_def)
next
  case False
  obtain r t where rt: "report_in_transaction hash a aid input current_release now s = (r, t)"
    by (cases "report_in_transaction hash a aid input current_release now s")
  show ?thesis
  proof (cases r)
    case (Inl e)
    with rt run False show ?thesis by (auto simp: report_listener_def op_eval)
  next
    case (Inr out)
    let ?stat = "case report_statistics input of None \<Rightarrow> return_op True
      | Some batch \<Rightarrow> succeeded (transaction (record_statistics aid (report_run_id input) batch now))"
    have stat: "listener_runs (snd (?stat t)) = listener_runs t"
      by (auto split: option.splits intro!: listener_runs_succeeded listener_runs_transaction runs_kept)
    have "listener_runs s' = listener_runs t"
    proof (cases "outcome_closed out")
      case True
      with rt run False Inr show ?thesis by (simp add: report_listener_def op_eval)
    next
      case going: False
      from rt run False Inr going have "bind_op ?stat (\<lambda>accepted. return_op (out\<lparr>outcome_statistics_accepted := accepted\<rparr>)) t = (res, s')"
        by (simp add: report_listener_def op_eval)
      with stat show ?thesis
        by (cases "?stat t") (auto simp: bind_op_def split: sum.splits)
    qed
    with rt Inr show ?thesis by blast
  qed
qed

lemma report_listener_progress:
  assumes "\<And>aid rid b now s. listener_runs (snd (record_statistics aid rid b now s)) = listener_runs s"
    and "report_listener hash record_statistics a aid input current_release now s = (res, s')"
  shows "rows_progress run_progress (listener_runs s) (listener_runs s')"
  using report_listener_runs [OF assms] report_in_transaction_progress runs.rows_refl by fastforce

text \<open>
  C22: Whatever a heartbeat does, no listener run that was stored is lost or rewritten: it keeps its
  agent, controller generation, release and start, its counters and last contact only grow, a
  requested disconnection stays requested, and a run that has stopped keeps its row unchanged.
\<close>
theorem run_history:
  assumes "\<And>aid rid b now s. listener_runs (snd (record_statistics aid rid b now s)) = listener_runs s"
    and "report_listener hash record_statistics a aid input current_release now s = (res, s')"
    and "r \<in> set (listener_runs s)"
  shows "\<exists>r' \<in> set (listener_runs s'). run_progress r r'"
  using report_listener_progress [OF assms(1,2)] assms(3) unfolding rows_progress_def by blast

definition sample_proof :: proof_of_control where
  "sample_proof = \<lparr>proof_fleet_id = ''f1'', proof_connection_id = ''c1'',
     proof_credential = ''fleet.'' @ sample_uuid @ ''.'' @ sample_digest\<rparr>"

definition sample_report :: "string \<Rightarrow> unit report" where
  "sample_report rid = \<lparr>report_run_id = rid, report_release = ''1.0'', report_messages_delivered = 9,
     report_stopped = False, report_statistics = Some (), report_controller = sample_proof\<rparr>"

theorem run_history_witness:
  "case report_listener (\<lambda>_. sample_digest) (\<lambda>_ _ _ _. return_op ()) bot ''bot'' (sample_report sample_uuid)
      ''1.0'' 50000 sample_store of
     (Inl _, _) \<Rightarrow> False
   | (Inr out, s') \<Rightarrow> \<not> outcome_closed out \<and> map lrow_active_ms (listener_runs s') = [49500] \<and>
       (\<exists>r' \<in> set (listener_runs s'). run_progress (hd (listener_runs sample_store)) r')"
proof -
  obtain res s' where run: "report_listener (\<lambda>_. sample_digest) (\<lambda>_ _ _ _. return_op ()) bot ''bot''
      (sample_report sample_uuid) ''1.0'' 50000 sample_store = (res, s')" by (meson surj_pair)
  have "\<exists>r' \<in> set (listener_runs s'). run_progress (hd (listener_runs sample_store)) r'"
    by (rule run_history [OF _ run]) (simp_all add: sample_store_def)
  moreover have "case report_listener (\<lambda>_. sample_digest) (\<lambda>_ _ _ _. return_op ()) bot ''bot''
      (sample_report sample_uuid) ''1.0'' 50000 sample_store of (Inl _, _) \<Rightarrow> False
    | (Inr out, s') \<Rightarrow> \<not> outcome_closed out \<and> map lrow_active_ms (listener_runs s') = [49500]"
    by code_simp
  ultimately show ?thesis using run by (auto split: sum.splits)
qed

text \<open>Active time never exceeds the time over which the run was seen.\<close>

definition active_time_ok :: "store \<Rightarrow> bool" where
  "active_time_ok s \<longleftrightarrow> (\<forall>r \<in> set (listener_runs s).
     0 \<le> lrow_active_ms r \<and> lrow_active_ms r \<le> lrow_last_seen_at r - lrow_started_at r)"

lemma reported_active_time:
  assumes "0 \<le> lrow_active_ms r \<and> lrow_active_ms r \<le> lrow_last_seen_at r - lrow_started_at r"
    and "row = listener_row_of (reported_run aid input ctl (Some (run_of_row r)) admitted
      (active_after (Some (run_of_row r)) now) now)"
  shows "0 \<le> lrow_active_ms row \<and> lrow_active_ms row \<le> lrow_last_seen_at row - lrow_started_at row"
  using assms elapsed_nonneg [of "Some (run_of_row r)" now] elapsed_le [of "run_of_row r" now]
  by (auto simp: reported_run_def active_after_def previous_or_def)

text \<open>
  C23: The active time a run reports never exceeds the span between its start and its last contact,
  whatever heartbeats arrive in whatever order, late or with a clock that jumps.
\<close>
theorem active_time_bounded:
  assumes "\<And>aid rid b now s. listener_runs (snd (record_statistics aid rid b now s)) = listener_runs s"
  shows "keeps active_time_ok (report_listener hash record_statistics a aid input current_release now)"
proof (rule keepsI)
  fix s res s'
  assume ok: "active_time_ok s"
    and run: "report_listener hash record_statistics a aid input current_release now s = (res, s')"
  let ?row = "\<lambda>ctl p admitted. listener_row_of (reported_run aid input ctl p admitted (active_after p now) now)"
  from report_listener_runs [OF assms run] consider "s' = s"
    | out t where "report_in_transaction hash a aid input current_release now s = (Inr out, t)"
      "listener_runs s' = listener_runs t" by blast
  then show "active_time_ok s'"
  proof cases
    case 1
    with ok show ?thesis by simp
  next
    case (2 out t)
    from report_rows [OF 2(1)] consider "t = s"
      | ctl admitted where "listener_runs t = listener_runs s @ [?row ctl None admitted]"
      | ctl admitted r where "r \<in> set (listener_runs s)" "listener_runs t =
          update_rows (\<lambda>q. lrow_id q = report_run_id input) (\<lambda>_. ?row ctl (Some (run_of_row r)) admitted) (listener_runs s)"
      by (auto elim!: run_saved_cases)
    then have "active_time_ok t"
    proof cases
      case 1
      with ok show ?thesis by simp
    next
      case 2
      with ok show ?thesis
        by (auto simp: active_time_ok_def reported_run_def active_after_def previous_or_def elapsed_since_def
            heartbeat_expiry_ms_def)
    next
      case (3 ctl admitted r)
      from ok 3(1) have "0 \<le> lrow_active_ms r \<and> lrow_active_ms r \<le> lrow_last_seen_at r - lrow_started_at r"
        by (simp add: active_time_ok_def)
      from reported_active_time [OF this refl, of aid input ctl admitted now]
      have "0 \<le> lrow_active_ms (?row ctl (Some (run_of_row r)) admitted) \<and>
        lrow_active_ms (?row ctl (Some (run_of_row r)) admitted) \<le>
          lrow_last_seen_at (?row ctl (Some (run_of_row r)) admitted) -
          lrow_started_at (?row ctl (Some (run_of_row r)) admitted)" .
      with ok show ?thesis
        unfolding active_time_ok_def 3(2) update_rows_set by (auto simp del: run_fields)
    qed
    with 2(2) show ?thesis by (simp add: active_time_ok_def)
  qed
qed

theorem active_time_bounded_witness:
  "active_time_ok (snd (report_listener (\<lambda>_. sample_digest) (\<lambda>_ _ _ _. return_op ()) bot ''bot''
     (sample_report sample_uuid) ''1.0'' 50000 sample_store))"
proof -
  have "keeps active_time_ok (report_listener (\<lambda>_. sample_digest) (\<lambda>_ _ _ _. return_op ()) bot ''bot''
      (sample_report sample_uuid) ''1.0'' 50000)"
    by (rule active_time_bounded) simp
  moreover have "active_time_ok sample_store"
    by (simp add: active_time_ok_def sample_store_def)
  ultimately show ?thesis by (simp add: keeps_def)
qed

section \<open>Controllers that may report\<close>

text \<open>
  C24: A bearer token authenticates a fleet controller exactly when it spells a stored, unrevoked
  credential whose digest it matches, of a fleet that is not archived and whose owner is active; the
  check only reads, and the caller it yields is that fleet's.
\<close>
theorem controller_authenticated_exact:
  assumes "store_ok s"
  shows "authenticate_controller hash token s = (Inr act, s') \<longleftrightarrow>
    s' = s \<and> (\<exists>cid digest c f. uuid_text cid \<and> digest_text digest \<and>
      token = ''fleet.'' @ cid @ ''.'' @ digest \<and> credential_valid hash token cid c s \<and>
      fleet_open (cred_fleet_id c) f s \<and> act = FleetController (fleet_id f) cid)"
  by (rule authenticate_controller_Inr [OF assms])

definition sample_token :: string where
  "sample_token = ''fleet.'' @ sample_uuid @ ''.'' @ sample_digest"

theorem controller_authenticated_exact_witness:
  "(\<exists>cid digest (c :: fleet_credential) (f :: fleet). uuid_text cid \<and> digest_text digest \<and>
      sample_token = ''fleet.'' @ cid @ ''.'' @ digest \<and>
      credential_valid (\<lambda>_. sample_digest) sample_token cid c sample_store \<and>
      fleet_open (cred_fleet_id c) f sample_store \<and>
      FleetController ''f1'' sample_uuid = FleetController (fleet_id f) cid) \<and>
   \<not> (\<exists>cid digest (c :: fleet_credential) (f :: fleet). uuid_text cid \<and> digest_text digest \<and>
      sample_token = ''fleet.'' @ cid @ ''.'' @ digest \<and>
      credential_valid (\<lambda>_. ''other'') sample_token cid c sample_store \<and>
      fleet_open (cred_fleet_id c) f sample_store \<and>
      FleetController ''f1'' sample_uuid = FleetController (fleet_id f) cid)"
proof -
  have yes: "authenticate_controller (\<lambda>_. sample_digest) sample_token sample_store =
      (Inr (FleetController ''f1'' sample_uuid), sample_store)"
    by code_simp
  have no: "\<not> authenticate_controller (\<lambda>_. ''other'') sample_token sample_store =
      (Inr (FleetController ''f1'' sample_uuid), sample_store)"
    by code_simp
  show ?thesis
    using yes no unfolding controller_authenticated_exact [OF sample_store_ok] by blast
qed

text \<open>
  The token minted for an enrollment authenticates as that enrollment's credential, and only as
  it: the identifier and the digest written into the token are the ones read back.
\<close>
theorem controller_token_roundtrip:
  assumes "store_ok s" "uuid_text eid" "\<And>v. digest_text (hash v)"
    and "c \<in> set (fleet_credentials s)" "cred_id c = eid" "cred_revoked_at c = None"
    and "cred_secret_hash c = hash (controller_token hash eid claim)"
    and "fleet_open (cred_fleet_id c) f s"
  shows "authenticate_controller hash (controller_token hash eid claim) s =
    (Inr (FleetController (fleet_id f) eid), s)"
  unfolding authenticate_controller_Inr [OF assms(1)] credential_valid_def controller_token_def
proof (intro conjI exI)
  show "uuid_text eid" "digest_text (hash (''crossfire-controller:'' @ claim))" "c \<in> set (fleet_credentials s)"
    "cred_id c = eid" "cred_revoked_at c = None" "fleet_open (cred_fleet_id c) f s"
    using assms by simp_all
  show "hash (''fleet.'' @ eid @ ''.'' @ hash (''crossfire-controller:'' @ claim)) = cred_secret_hash c"
    using assms(7) by (simp add: controller_token_def)
qed (rule refl)+

theorem controller_token_roundtrip_witness:
  "authenticate_controller (\<lambda>_. sample_digest) (controller_token (\<lambda>_. sample_digest) sample_uuid ''claim'')
     sample_store = (Inr (FleetController ''f1'' sample_uuid), sample_store)"
proof -
  have "fleet_open ''f1'' f sample_store \<Longrightarrow> fleet_id f = ''f1''" for f
    by (simp add: fleet_open_def stored_fleet_def)
  moreover have "fleet_open ''f1'' \<lparr>fleet_id = ''f1'', fleet_owner_id = ''ada'', fleet_key = ''k1'',
      fleet_archived_at = None, fleet_delivery_enabled = True, fleet_label = ''F'',
      fleet_controller_name = ''C'', fleet_revision = 0, fleet_updated_at = 40, fleet_created_at = 40\<rparr> sample_store"
    by (simp add: fleet_open_def stored_fleet_def fleet_row_of_def sample_store_def sample_principals_def)
  moreover have "uuid_text sample_uuid" "digest_text sample_digest" by code_simp+
  ultimately show ?thesis
    using controller_token_roundtrip [OF sample_store_ok, of sample_uuid "\<lambda>_. sample_digest"
      "hd (fleet_credentials sample_store)" "''claim''"]
    by (simp add: sample_store_def)
qed

definition lease_current :: "string \<Rightarrow> controller \<Rightarrow> int \<Rightarrow> store \<Rightarrow> bool" where
  "lease_current aid ctl now s \<longleftrightarrow> (\<exists>i \<in> set (fleet_instances s). \<exists>cn \<in> set (fleet_connections s).
     \<exists>cr \<in> set (fleet_credentials s). \<exists>f. fleet_open (ctl_fleet_id ctl) f s \<and>
       inst_agent_id i = aid \<and> inst_retired_at i = None \<and> inst_owner_id i = fleet_owner_id f \<and>
       inst_fleet_key i = fleet_key f \<and>
       conn_fleet_id cn = fleet_id f \<and> conn_connection_id cn = ctl_connection_id ctl \<and>
       conn_credential_id cn = ctl_credential_id ctl \<and> conn_closed_at cn = None \<and> now < conn_expires_at cn \<and>
       cred_id cr = ctl_credential_id ctl \<and> cred_fleet_id cr = fleet_id f \<and> cred_revoked_at cr = None)"

lemma repo_fleet_lookup_Inr:
  "repo_fleet_instance_by_agent aid s = (Inr v, s') \<longleftrightarrow> s' = s \<and>
     v = find_row (\<lambda>r. inst_agent_id r = aid) (fleet_instances s)"
  "repo_fleet_connection fid s = (Inr w, s') \<longleftrightarrow> s' = s \<and>
     w = find_row (\<lambda>r. conn_fleet_id r = fid) (fleet_connections s)"
  "repo_fleet_credential cid s = (Inr x, s') \<longleftrightarrow> s' = s \<and>
     x = find_row (\<lambda>r. cred_id r = cid) (fleet_credentials s)"
  by (auto simp: repo_fleet_instance_by_agent_def repo_fleet_connection_def repo_fleet_credential_def)

lemma controller_admission_lease:
  assumes ok: "store_ok s" and run: "controller_admission aid ctl now purpose s = (Inr True, s')"
  shows "lease_current aid ctl now s"
proof -
  let ?i = "find_row (\<lambda>r. inst_agent_id r = aid) (fleet_instances s)"
  let ?cn = "find_row (\<lambda>r. conn_fleet_id r = ctl_fleet_id ctl) (fleet_connections s)"
  let ?cr = "find_row (\<lambda>r. cred_id r = ctl_credential_id ctl) (fleet_credentials s)"
  have read: "bind_op (read_op (\<lambda>s. Inr (F s))) g s = g (F s) s" for F :: "store \<Rightarrow> 'x" and g :: "'x \<Rightarrow> bool db" and s
    by (simp add: bind_op_def)
  from run obtain fl s1 ow t where fl':"repo_fleet (ctl_fleet_id ctl) s = (Inr fl, s1)" and
    ow': "(case fl of None \<Rightarrow> return_op None | Some f \<Rightarrow> repo_principal (fleet_owner_id f)) s1 = (Inr ow, t)" and
    final': "(case (?i, fl, find_row (\<lambda>r. conn_fleet_id r = ctl_fleet_id ctl) (fleet_connections s1),
         find_row (\<lambda>r. cred_id r = ctl_credential_id ctl) (fleet_credentials s1), ow) of
       (Some b, Some f, Some cn, Some cr, Some ow) \<Rightarrow>
         return_op (admits_controller ctl (Some \<lparr>facts_binding = \<lparr>cb_owner_id = inst_owner_id b,
             cb_fleet_key = inst_fleet_key b, cb_retired_at = inst_retired_at b\<rparr>,
           facts_fleet = f, facts_connection = cn, facts_credential = cr,
           facts_owner_status = principal_status ow\<rparr>) now purpose)
     | _ \<Rightarrow> return_op False) t = ((Inr True, s') :: (failure + bool) \<times> store)"
    unfolding controller_admission_def repo_fleet_instance_by_agent_def repo_fleet_connection_def
      repo_fleet_credential_def read
    unfolding bind_op_eq_Inr read
    by blast
  have "s1 = s" using queryD [OF query_fleet_repo(6) fl'] .
  note fl = fl' [unfolded this] and ow = ow' [unfolded this] and final = final' [unfolded this]
  obtain i where i: "?i = Some i" using final by (cases ?i) auto
  obtain f where f: "fl = Some f" using final i by (cases fl) auto
  obtain cn where cn: "?cn = Some cn" using final i f by (cases ?cn) auto
  obtain cr where cr: "?cr = Some cr" using final i f cn by (cases ?cr) auto
  obtain w where w: "ow = Some w" using final i f cn cr by (cases ow) auto
  from final i f cn cr w have
    adm: "admits_controller ctl (Some \<lparr>facts_binding = \<lparr>cb_owner_id = inst_owner_id i,
             cb_fleet_key = inst_fleet_key i, cb_retired_at = inst_retired_at i\<rparr>,
           facts_fleet = f, facts_connection = cn, facts_credential = cr,
           facts_owner_status = principal_status w\<rparr>) now purpose" by simp
  from fl f have "stored_fleet (ctl_fleet_id ctl) f s" by (simp add: repo_fleet_Inr [OF ok])
  moreover from ow f w have "stored_principal (fleet_owner_id f) w s"
    by (simp add: repo_principal_Inr [OF ok])
  with adm have "\<exists>r \<in> set (principals s). prow_id r = fleet_owner_id f \<and> prow_status r = ''active''"
    unfolding active_row [OF ok, symmetric] by (auto simp: admits_controller_def)
  ultimately have "fleet_open (ctl_fleet_id ctl) f s"
    using adm by (simp add: fleet_open_def admits_controller_def)
  with adm find_row_SomeD [OF i] find_row_SomeD [OF cn] find_row_SomeD [OF cr]
  show ?thesis unfolding lease_current_def
    by (intro bexI [of _ i] bexI [of _ cn] bexI [of _ cr] exI [of _ f]) (auto simp: admits_controller_def)
qed

text \<open>
  C25: A new listener run appears only for the agent that reports, on the current release, under a
  controller whose proof holds and whose lease is current, while fewer than a hundred runs report.
\<close>
theorem new_run_admitted:
  assumes "\<And>aid rid b now s. listener_runs (snd (record_statistics aid rid b now s)) = listener_runs s"
    and ok: "store_ok s"
    and run: "report_listener hash record_statistics a aid input current_release now s = (res, s')"
    and new: "r \<in> set (listener_runs s')" "\<forall>q \<in> set (listener_runs s). lrow_id q \<noteq> lrow_id r"
  shows "lrow_id r = report_run_id input \<and> lrow_agent_id r = aid \<and> actor_principal_id a = aid \<and>
    lrow_release r = current_release \<and> lrow_active_ms r = 0 \<and> lrow_started_at r = now \<and>
    controller_proof hash aid (report_controller input) s = (Inr (run_controller (run_of_row r)), s) \<and>
    lease_current aid (run_controller (run_of_row r)) now s \<and>
    length (active_runs aid (now - heartbeat_expiry_ms) now s) < 100"
proof -
  from new have "listener_runs s' \<noteq> listener_runs s" by auto
  with report_listener_runs [OF assms(1) run] obtain out t where
    t: "report_in_transaction hash a aid input current_release now s = (Inr out, t)"
      "listener_runs s' = listener_runs t" by auto
  from report_in_transaction_Inr [OF t(1)] have self: "actor_principal_id a = aid" by blast
  from report_rows [OF t(1)] new t(2) obtain ctl p admitted where
    ctl: "controller_proof hash aid (report_controller input) s = (Inr ctl, s)" and
    adm: "controller_admission aid ctl now Reporting s = (Inr admitted, s)"
      "admitted_report aid input current_release now ctl p admitted s" and
    saved: "run_saved aid input now ctl p admitted s t" by auto
  from saved show ?thesis
  proof (cases rule: run_saved_cases)
    case 1
    with adm have "lease_current aid ctl now s"
      by (auto simp: admitted_report_def dest: controller_admission_lease [OF ok])
    with 1 adm(2) new self ctl t(2) show ?thesis
      by (auto simp: admitted_report_def reported_run_def active_after_def previous_or_def elapsed_since_def
          heartbeat_expiry_ms_def)
  next
    case (2 q)
    with new t(2) show ?thesis by (auto simp: update_rows_set)
  qed
qed

definition other_uuid :: string where
  "other_uuid = replicate 36 CHR ''d''"

theorem new_run_admitted_witness:
  "case report_listener (\<lambda>_. sample_digest) (\<lambda>_ _ _ _. return_op ()) bot ''bot'' (sample_report other_uuid)
      ''1.0'' 50000 sample_store of
     (Inl _, _) \<Rightarrow> False
   | (Inr out, s') \<Rightarrow> lrow_agent_id (last (listener_runs s')) = ''bot'' \<and>
       lease_current ''bot'' (run_controller (run_of_row (last (listener_runs s')))) 50000 sample_store"
proof -
  obtain res s' where run: "report_listener (\<lambda>_. sample_digest) (\<lambda>_ _ _ _. return_op ()) bot ''bot''
      (sample_report other_uuid) ''1.0'' 50000 sample_store = (res, s')" by (meson surj_pair)
  have eval: "case report_listener (\<lambda>_. sample_digest) (\<lambda>_ _ _ _. return_op ()) bot ''bot''
      (sample_report other_uuid) ''1.0'' 50000 sample_store of (Inl _, _) \<Rightarrow> False
    | (Inr out, s') \<Rightarrow> map lrow_id (listener_runs s') = [sample_uuid, other_uuid]"
    by code_simp
  then have ids: "map lrow_id (listener_runs s') = [sample_uuid, other_uuid]" "\<exists>out. res = Inr out"
    using run by (auto split: sum.splits)
  then obtain q r where rows: "listener_runs s' = [q, r]" "lrow_id r = other_uuid" by auto
  have "lrow_agent_id r = ''bot'' \<and> lease_current ''bot'' (run_controller (run_of_row r)) 50000 sample_store"
    using new_run_admitted [OF _ sample_store_ok run, of r] rows
    by (simp add: sample_store_def sample_uuid_def other_uuid_def)
  with run ids(2) rows(1) show ?thesis by auto
qed

end
