(* ===== verification/Decisions.thy ===== *)
theory Decisions
  imports Store_Decisions Listener
begin

text \<open>
  Native decisions (\<open>domain/src/runtime/decisions.rs\<close>): a running agent asks its owner for a decision,
  the owner answers it once, the agent polls the answer and acknowledges it. The status of a stored
  decision moves from pending over answered to one of the settled states; a decision whose listener
  is gone, or whose deadline has passed, is reported as expired.
\<close>

section \<open>The live listener behind a decision\<close>

definition live_run :: "string \<Rightarrow> string \<Rightarrow> int \<Rightarrow> run db" where
  "live_run aid rid now =
     bind_op (require_op (repo_listener_run rid)
       (\<lambda>r. run_agent_id r = aid \<and> run_stopped_at r = None \<and> run_disconnect_requested_at r = None \<and>
          saturate_i64 (run_last_seen_at r + heartbeat_expiry_ms) > now)
       (failure_new Conflict ''The original listener is no longer available'')) (\<lambda>r.
     bind_op (controller_admission aid (run_controller r) now Reporting) (\<lambda>admitted.
     if \<not> admitted
     then fail_op (failure_new Conflict ''The original controller lease is no longer available'')
     else return_op r))"

definition attempt :: "'a db \<Rightarrow> 'a result db" where
  "attempt m s = (case m s of (r, t) \<Rightarrow> (Inr r, t))"

definition current_decision :: "decision_summary \<Rightarrow> int \<Rightarrow> decision_summary db" where
  "current_decision v now =
     (if summary_status v \<notin> {Pending, Answered} then return_op v
      else
        bind_op (attempt (live_run (summary_agent_id v) (header_run_id (summary_header v)) now)) (\<lambda>live.
        case live of
          Inl e \<Rightarrow> if failure_code e \<noteq> Conflict then fail_op e
                  else return_op (v\<lparr>summary_status := Expired\<rparr>)
        | Inr _ \<Rightarrow>
            if (case header_expires_at (summary_header v) of None \<Rightarrow> False | Some t \<Rightarrow> t \<le> now)
            then return_op (v\<lparr>summary_status := Expired\<rparr>)
            else return_op v))"

section \<open>Operations\<close>

text \<open>The set \<open>seen\<close> is the \<open>HashSet\<close> of the question identities met so far; \<open>insert\<close> reports a repeat.\<close>

fun options_unique :: "string set \<Rightarrow> option_choice list \<Rightarrow> bool" where
  "options_unique seen [] = True"
| "options_unique seen (c # cs) \<longleftrightarrow> choice_id c \<notin> seen \<and> options_unique (insert (choice_id c) seen) cs"

fun questions_valid :: "string set \<Rightarrow> question list \<Rightarrow> bool" where
  "questions_valid seen [] = True"
| "questions_valid seen (q # qs) \<longleftrightarrow>
     question_id q \<notin> seen \<and> \<not> (\<not> question_allow_text q \<and> question_options q = []) \<and>
     options_unique {} (question_options q) \<and> questions_valid (insert (question_id q) seen) qs"

definition expired_at :: "int option \<Rightarrow> int \<Rightarrow> bool" where
  "expired_at e now \<longleftrightarrow> (case e of None \<Rightarrow> False | Some t \<Rightarrow> t \<le> now)"

definition new_decision :: "string \<Rightarrow> decision_request \<Rightarrow> int \<Rightarrow> decision" where
  "new_decision aid input now = \<lparr>
     decision_summary = \<lparr>summary_header = request_header input, summary_agent_id = aid,
       summary_status = Pending, summary_created_at = now\<rparr>,
     decision_review = request_review input, decision_questions = request_questions input\<rparr>"

definition create_decision :: "actor \<Rightarrow> string \<Rightarrow> decision_request \<Rightarrow> int \<Rightarrow> decision db" where
  "create_decision a aid input now = transaction (
     bind_op (authorize a RuntimeReportSelf now) (\<lambda>_.
     if actor_principal_id a \<noteq> aid then fail_op (failure_new Missing ''Agent not found'')
     else
       bind_op (live_run aid (header_run_id (request_header input)) now) (\<lambda>_.
       if expired_at (header_expires_at (request_header input)) now
       then fail_op (failure_new Conflict ''The native decision has already expired'')
       else if \<not> questions_valid {} (request_questions input)
       then fail_op (failure_new Invalid
         ''Native questions need unique identities and an answer mechanism'')
       else
         bind_op (repo_decision (header_id (request_header input))) (\<lambda>previous.
         case previous of
           Some p \<Rightarrow>
             if summary_agent_id (decision_summary p) \<noteq> aid \<or>
                summary_header (decision_summary p) \<noteq> request_header input \<or>
                decision_review p \<noteq> request_review input \<or>
                decision.decision_questions p \<noteq> request_questions input
             then fail_op (failure_new Conflict
               ''Decision identity is already bound to another native request'')
             else bind_op (current_decision (decision_summary p) now) (\<lambda>summary.
               return_op (p\<lparr>decision_summary := summary\<rparr>))
         | None \<Rightarrow>
             let v = new_decision aid input now in
             bind_op (repo_insert_decision v) (\<lambda>_. return_op v)))))"

definition decision_missing :: failure where
  "decision_missing = failure_new Missing ''Decision not found''"

definition read_decision :: "actor \<Rightarrow> string \<Rightarrow> string \<Rightarrow> int \<Rightarrow> decision db" where
  "read_decision a aid did now =
     bind_op (authorize_agent a aid ReadAgent now) (\<lambda>_.
     bind_op (require_op (repo_decision did) (\<lambda>v. summary_agent_id (decision_summary v) = aid)
       decision_missing) (\<lambda>v.
     bind_op (transaction (current_decision (decision_summary v) now)) (\<lambda>summary.
     return_op (v\<lparr>decision_summary := summary\<rparr>))))"

fun map_op :: "('a \<Rightarrow> 'b db) \<Rightarrow> 'a list \<Rightarrow> 'b list db" where
  "map_op f [] = return_op []"
| "map_op f (x # xs) = bind_op (f x) (\<lambda>y. bind_op (map_op f xs) (\<lambda>ys. return_op (y # ys)))"

definition expire_decisions :: "int \<Rightarrow> unit db" where
  "expire_decisions now = transaction (
     bind_op repo_pending_decisions (\<lambda>pending.
     for_each_op (\<lambda>v.
       bind_op (current_decision v now) (\<lambda>c.
       if summary_status c = Expired then repo_decision_status (header_id (summary_header c)) Expired
       else return_op ())) pending))"

definition list_decisions ::
  "actor \<Rightarrow> string \<Rightarrow> int \<Rightarrow> int \<Rightarrow> decision_status option \<Rightarrow> int \<Rightarrow> decision_summary page db" where
  "list_decisions a aid page limit status now =
     bind_op (authorize_agent a aid ReadAgent now) (\<lambda>_.
     bind_op (expire_decisions now) (\<lambda>_.
     bind_op (repo_decisions aid page limit status) (\<lambda>values.
     bind_op (transaction (map_op (\<lambda>v. current_decision v now) (page_items values))) (\<lambda>items.
     return_op (values\<lparr>page_items := items\<rparr>)))))"

definition answer_valid :: "question \<Rightarrow> answer list \<Rightarrow> bool" where
  "answer_valid q answers =
     (case find_row (\<lambda>v. answer_question_id v = question_id q) answers of
        None \<Rightarrow> False
      | Some v \<Rightarrow>
          (case (answer_option_id v, answer_text v) of
             (Some opt, None) \<Rightarrow> list_ex (\<lambda>c. choice_id c = opt) (question_options q)
           | (None, Some t) \<Rightarrow> question_allow_text q \<and> trim_whitespace (chars t) \<noteq> []
           | _ \<Rightarrow> False))"

definition answer_decision ::
  "actor \<Rightarrow> string \<Rightarrow> string \<Rightarrow> answer list \<Rightarrow> string \<Rightarrow> string \<Rightarrow> int \<Rightarrow> unit db" where
  "answer_decision a aid did answers request_id event_id now = transaction (
     bind_op (authorize a RuntimeDecisionAnswerOwned now) (\<lambda>_.
     bind_op (if actor_kind a \<noteq> Human then return_op True
              else bind_op (repo_agent aid) (\<lambda>g. return_op
                (case g of None \<Rightarrow> True | Some v \<Rightarrow> agent_owner_id v \<noteq> actor_principal_id a))) (\<lambda>foreign.
     if foreign then fail_op (failure_new Missing ''Owner decision not found'')
     else
       bind_op (read_decision a aid did now) (\<lambda>v.
       if summary_status (decision_summary v) \<noteq> Pending
       then fail_op (failure_new Conflict ''This native request is no longer pending'')
       else if length answers \<noteq> length (decision.decision_questions v) \<or>
               card (set (map answer_question_id answers)) \<noteq> length (decision.decision_questions v)
       then fail_op (failure_new Invalid ''Answer every native question exactly once'')
       else if \<not> list_all (\<lambda>q. answer_valid q answers) (decision.decision_questions v)
       then fail_op (failure_new Invalid ''Answer is not one of the native choices'')
       else
         bind_op (repo_answer did answers) (\<lambda>_.
         repo_audit event_id ((audit_new a request_id ''runtime-decision'' did
           ''runtime-decision.answer'' (Some (actor_principal_id a)) now)\<lparr>audit_message :=
             ''Owner submitted a native answer; answer content is private.''\<rparr>))))))"

definition poll_decision ::
  "actor \<Rightarrow> string \<Rightarrow> string \<Rightarrow> int \<Rightarrow> (decision_status \<times> answer list) db" where
  "poll_decision a aid did now =
     bind_op (authorize a RuntimeReportSelf now) (\<lambda>_.
     if actor_principal_id a \<noteq> aid then fail_op decision_missing
     else
       bind_op (read_decision a aid did now) (\<lambda>v.
       bind_op (if summary_status (decision_summary v) = Answered then repo_answers did
                else return_op []) (\<lambda>answers.
       return_op (summary_status (decision_summary v), answers))))"

definition receipt_decision ::
  "actor \<Rightarrow> string \<Rightarrow> string \<Rightarrow> decision_status \<Rightarrow> int \<Rightarrow> bool db" where
  "receipt_decision a aid did status now =
     (if status \<notin> {Responded, Cancelled}
      then fail_op (failure_new Invalid ''Invalid native decision receipt'')
      else transaction (
        bind_op (authorize a RuntimeReportSelf now) (\<lambda>_.
        if actor_principal_id a \<noteq> aid then fail_op decision_missing
        else
          bind_op (repo_decision did) (\<lambda>found.
          case found of
            None \<Rightarrow> return_op False
          | Some v \<Rightarrow>
              if summary_agent_id (decision_summary v) \<noteq> aid then fail_op decision_missing
              else if status = Responded \<and>
                      summary_status (decision_summary v) \<notin> {Answered, Responded}
              then fail_op (failure_new Conflict ''No answer was submitted to this native request'')
              else if status = Cancelled \<and>
                      summary_status (decision_summary v) \<notin> {Pending, Answered, Cancelled}
              then fail_op (failure_new Conflict ''The native request is already settled'')
              else bind_op (repo_decision_status did status) (\<lambda>_. return_op True)))))"

end
