(* ===== verification/Decision_Docket.thy ===== *)
theory Decision_Docket
  imports Decisions
begin

text \<open>
  The decisions of \<open>Decisions\<close> against what they promise. The abstract machine is a docket: for every
  decision its status and the answers on file, and the moves it may make. The stored tables represent
  a docket, every operation only makes moves, and the properties of the operations follow from those of
  the machine.
\<close>

section \<open>The abstract life of a decision\<close>

text \<open>
  What the component promises: a map from decision identities to a status and the answers on file,
  and the moves a decision can make. Answers are on file only while a decision is answered.
\<close>

type_synonym docket = "string \<Rightarrow> (decision_status \<times> answer list) option"

inductive decision_move :: "docket \<Rightarrow> docket \<Rightarrow> bool" where
  opened: "m did = None \<Longrightarrow> decision_move m (m(did \<mapsto> (Pending, [])))"
| answered: "m did = Some (Pending, []) \<Longrightarrow> decision_move m (m(did \<mapsto> (Answered, answers)))"
| responded: "m did = Some (Answered, answers) \<Longrightarrow> decision_move m (m(did \<mapsto> (Responded, [])))"
| withdrawn: "m did = Some (st, answers) \<Longrightarrow> st \<in> {Pending, Answered} \<Longrightarrow> st' \<in> {Cancelled, Expired} \<Longrightarrow>
    decision_move m (m(did \<mapsto> (st', [])))"

definition settled :: "decision_status \<Rightarrow> bool" where
  "settled st \<longleftrightarrow> st \<notin> {Pending, Answered}"

definition docket_ok :: "docket \<Rightarrow> bool" where
  "docket_ok m \<longleftrightarrow> (\<forall>did st answers. m did = Some (st, answers) \<longrightarrow> st \<noteq> Answered \<longrightarrow> answers = [])"

lemma move_docket_ok: "decision_move m m' \<Longrightarrow> docket_ok m \<Longrightarrow> docket_ok m'"
  by (induction rule: decision_move.induct) (auto simp: docket_ok_def)

lemma move_settled: "decision_move m m' \<Longrightarrow> docket_ok m \<Longrightarrow> m did = Some (st, answers) \<Longrightarrow> settled st \<Longrightarrow> m' did = Some (st, [])"
  by (induction rule: decision_move.induct) (auto simp: settled_def docket_ok_def)

lemma moves_docket_ok: "decision_move\<^sup>*\<^sup>* m m' \<Longrightarrow> docket_ok m \<Longrightarrow> docket_ok m'"
  by (induction rule: rtranclp_induct) (auto intro: move_docket_ok)

lemma moves_settled:
  "decision_move\<^sup>*\<^sup>* m m' \<Longrightarrow> docket_ok m \<Longrightarrow> m did = Some (st, answers) \<Longrightarrow> settled st \<Longrightarrow> m' did = Some (st, [])"
proof (induction rule: rtranclp_induct)
  case base
  then show ?case by (auto simp: settled_def docket_ok_def)
next
  case (step y z)
  from step.hyps(1) step.prems(1) have "docket_ok y" by (rule moves_docket_ok)
  with step show ?case using move_settled by blast
qed

section \<open>The docket that is stored\<close>

definition stored_status :: "summary_row \<Rightarrow> decision_status" where
  "stored_status r = (case decision_status_parse (srow_status r) of Inr st \<Rightarrow> st | Inl _ \<Rightarrow> Expired)"

definition answers_on_file :: "string \<Rightarrow> store \<Rightarrow> answer list" where
  "answers_on_file did s = map answer_of_row (filter (\<lambda>r. answrow_decision_id r = did) (decision_answers s))"

definition docket_of :: "store \<Rightarrow> docket" where
  "docket_of s did = map_option (\<lambda>r. (stored_status r, answers_on_file did s))
     (find_row (\<lambda>r. srow_id r = did) (decisions s))"

lemma stored_status_code [simp]: "srow_status r = decision_status_code st \<Longrightarrow> stored_status r = st"
  by (simp add: stored_status_def decision_status_parse_Inr [THEN iffD2])

lemma stored_status_row [simp]: "stored_status (summary_row_of v) = summary_status (decision_summary v)"
  by (rule stored_status_code) (simp add: summary_row_of_def Let_def)

lemma docket_cong:
  "decisions s' = decisions s \<Longrightarrow> decision_answers s' = decision_answers s \<Longrightarrow> docket_of s' = docket_of s"
  by (auto simp: docket_of_def answers_on_file_def)

definition answers_private :: "store \<Rightarrow> bool" where
  "answers_private s \<longleftrightarrow> docket_ok (docket_of s)"

lemma docket_set_status:
  "docket_of (set_decision_status did (decision_status_code st) s) =
     (docket_of s)(did := map_option (\<lambda>(_, answers). (st, answers)) (docket_of s did))"
proof
  fix x
  have "find_row (\<lambda>r. srow_id r = x) (update_rows (\<lambda>r. srow_id r = did)
      (\<lambda>r. r\<lparr>srow_status := decision_status_code st\<rparr>) (decisions s)) =
    map_option (\<lambda>r. if srow_id r = did then r\<lparr>srow_status := decision_status_code st\<rparr> else r)
      (find_row (\<lambda>r. srow_id r = x) (decisions s))"
    by (rule find_row_update) auto
  then show "docket_of (set_decision_status did (decision_status_code st) s) x =
    ((docket_of s)(did := map_option (\<lambda>(_, answers). (st, answers)) (docket_of s did))) x"
    by (cases "find_row (\<lambda>r. srow_id r = x) (decisions s)")
      (auto simp: docket_of_def set_decision_status_def answers_on_file_def dest: find_row_SomeD)
qed

lemma docket_delete:
  "docket_of (delete_answers did s) = (docket_of s)(did := map_option (\<lambda>(st, _). (st, [])) (docket_of s did))"
  by (auto simp: docket_of_def delete_answers_def answers_on_file_def fun_eq_iff filter_empty_conv
      option.map_comp comp_def case_prod_beta
      intro!: map_option_cong arg_cong [where f = "map answer_of_row"] filter_cong)

text \<open>The statements make the moves.\<close>

lemma repo_decision_status_docket:
  assumes "repo_decision_status did st s = (Inr u, s')" "st \<noteq> Answered"
  shows "store_ok s' \<and>
    docket_of s' = (docket_of s)(did := map_option (\<lambda>_. (st, [])) (docket_of s did))"
proof -
  from assms have "store_ok s'" "s' = delete_answers did (set_decision_status did (decision_status_code st) s)"
    by (auto simp: repo_decision_status_def op_iff)
  then show ?thesis by (auto simp: docket_delete docket_set_status case_prod_beta option.map_comp comp_def)
qed

lemma repo_answer_docket:
  assumes "repo_answer did answers s = (Inr u, s')" "docket_of s did = Some (Pending, [])"
  shows "store_ok s' \<and> docket_of s' = (docket_of s)(did \<mapsto> (Answered, answers))"
proof -
  let ?s = "s\<lparr>decision_answers := decision_answers s @ map (answer_row_of did) answers\<rparr>"
  from assms(1) have ok: "store_ok s'" and s': "s' = set_decision_status did (decision_status_code Answered) ?s"
    by (auto simp: repo_answer_def op_iff)
  have rows: "filter (\<lambda>r. answrow_decision_id r = x) (map (answer_row_of did) answers) =
      (if x = did then map (answer_row_of did) answers else [])" for x
    by (auto simp: filter_empty_conv filter_id_conv answer_row_of_def)
  have "docket_of ?s = (docket_of s)(did \<mapsto> (Pending, answers))"
    using assms(2) by (auto simp: docket_of_def answers_on_file_def rows fun_eq_iff comp_def)
  with ok docket_set_status [of did Answered ?s] show ?thesis by (simp add: s')
qed

lemma repo_insert_decision_docket:
  assumes ok: "store_ok s" and run: "repo_insert_decision v s = (Inr u, s')"
    and "summary_status (decision_summary v) = Pending"
  defines "did \<equiv> header_id (summary_header (decision_summary v))"
  shows "store_ok s' \<and> docket_of s did = None \<and> docket_of s' = (docket_of s)(did \<mapsto> (Pending, []))"
proof -
  from repo_insert_decision_Inr [OF run] have ok': "store_ok s'" and
    ok1: "store_ok (s\<lparr>decisions := decisions s @ [summary_row_of v]\<rparr>)" and
    d: "decisions s' = decisions s @ [summary_row_of v]" and
    a: "decision_answers s' = decision_answers s" by auto
  have id: "srow_id (summary_row_of v) = did" by (simp add: summary_row_of_def Let_def did_def)
  from store_ok_decisions(1) [OF ok1] have "did \<notin> srow_id ` set (decisions s)"
    by (simp add: unique_on_def id)
  then have fresh: "\<And>r. r \<in> set (decisions s) \<Longrightarrow> srow_id r \<noteq> did" by blast
  then have none: "find_row (\<lambda>r. srow_id r = did) (decisions s) = None" by (simp add: find_row_None_iff)
  have "answrow_decision_id x \<noteq> did" if x: "x \<in> set (decision_answers s)" for x
    using store_ok_decisions(5) [OF ok x] store_ok_decisions(3) [OF ok] fresh by fastforce
  then have "answers_on_file did s = []" by (simp add: answers_on_file_def filter_empty_conv)
  with none assms(3) have "docket_of s' = (docket_of s)(did \<mapsto> (Pending, []))"
    by (auto simp: docket_of_def d answers_on_file_def a find_row_append id fun_eq_iff split: option.splits)
  with none ok' show ?thesis by (simp add: docket_of_def)
qed

section \<open>Every operation makes moves of the docket\<close>

lemma query_attempt [simp]: "query m \<Longrightarrow> query (attempt m)"
  by (auto simp: query_def attempt_def split: prod.splits) (metis snd_conv)

lemma query_live_run [simp]: "query (live_run aid rid now)"
  unfolding live_run_def by (auto intro!: query_bind query_require)

lemma query_current_decision [simp]: "query (current_decision v now)"
  unfolding current_decision_def by (auto intro!: query_bind split: sum.splits)

lemma query_read_decision [simp]: "query (read_decision a aid did now)"
proof -
  have "query (transaction (current_decision v now))" for v
    unfolding query_def query_transaction [OF query_current_decision] using query_current_decision query_def by blast
  then show ?thesis
    unfolding read_decision_def by (auto intro!: query_bind query_require)
qed

lemma query_poll_decision [simp]: "query (poll_decision a aid did now)"
  unfolding poll_decision_def by (auto intro!: query_bind)

lemma current_decision_Inr:
  assumes "current_decision v now s = (Inr c, s')"
  shows "s' = s \<and> (c = v \<or> \<not> settled (summary_status v) \<and> c = v\<lparr>summary_status := Expired\<rparr>)"
proof -
  have "snd (live_run aid rid now s) = s" for aid rid
    using query_live_run [of aid rid now] by (simp add: query_def)
  with assms show ?thesis
    by (cases "fst (live_run (summary_agent_id v) (header_run_id (summary_header v)) now s)")
      (auto simp: current_decision_def settled_def bind_op_def attempt_def case_prod_beta
        split: if_splits option.splits)
qed

lemma summary_of_row_fields:
  "summary_of_row r = Inr x \<Longrightarrow>
     header_id (summary_header x) = srow_id r \<and> srow_status r = decision_status_code (summary_status x)"
  by (auto simp: summary_of_row_def op_iff stored_code_Inr decision_status_parse_Inr)

lemma repo_decision_Inr:
  assumes "repo_decision did s = (Inr (Some v), s')"
  shows "s' = s \<and> header_id (summary_header (decision_summary v)) = did \<and>
    docket_of s did = Some (summary_status (decision_summary v), answers_on_file did s)"
proof -
  from assms obtain r where r: "find_row (\<lambda>r. srow_id r = did) (decisions s) = Some r"
    by (cases "find_row (\<lambda>r. srow_id r = did) (decisions s)") (simp_all add: repo_decision_def)
  with assms have sum: "summary_of_row r = Inr (decision_summary v)" and "s' = s"
    by (auto simp: repo_decision_def op_iff)
  note summary_of_row_fields [OF sum]
  with r find_row_SomeD [OF r] \<open>s' = s\<close> show ?thesis by (simp add: docket_of_def)
qed

text \<open>
  \<open>plays m\<close>: every run of the operation keeps the constraints and the privacy of the answers, and what
  it does to the docket is a sequence of moves.
\<close>

definition docket_le :: "store \<Rightarrow> store \<Rightarrow> bool" where
  "docket_le s s' \<longleftrightarrow> (store_ok s \<and> answers_private s \<longrightarrow>
     store_ok s' \<and> answers_private s' \<and> decision_move\<^sup>*\<^sup>* (docket_of s) (docket_of s'))"

interpretation docket: state_order docket_le
  by unfold_locales (auto simp: docket_le_def)

lemma docket_move:
  assumes "store_ok s'" and "decision_move\<^sup>*\<^sup>* (docket_of s) (docket_of s')"
  shows "docket_le s s'"
  using assms moves_docket_ok by (auto simp: docket_le_def answers_private_def)

lemma docket_same: "store_ok s' \<Longrightarrow> docket_of s' = docket_of s \<Longrightarrow> docket_le s s'"
  by (rule docket_move) simp_all

lemma docket_audits [simp]: "docket_of (t\<lparr>audits := x\<rparr>) = docket_of t"
  by (rule docket_cong) simp_all

lemma docket_query: "query m \<Longrightarrow> advances docket_le m"
  by (auto simp: query_def advances_def)

lemma docket_audit: "advances docket_le (repo_audit ev a)"
proof (rule docket.advI)
  fix s r s'
  assume run: "repo_audit ev a s = (r, s')"
  show "docket_le s s'"
  proof (cases r)
    case (Inl e)
    with run have "s' = s" by (auto simp: repo_audit_def dest: execute_Inl)
    then show ?thesis by simp
  next
    case (Inr u)
    from run [unfolded Inr] have ok: "store_ok s'" and s': "s' = s\<lparr>audits := audits s @ [audit_row_of ev a]\<rparr>"
      unfolding repo_audit_Inr by blast+
    show ?thesis by (rule docket_same [OF ok]) (simp add: s')
  qed
qed

lemma create_decision_plays: "advances docket_le (create_decision a aid input now)"
  unfolding create_decision_def
proof (rule docket.adv_success)
  fix s v s'
  assume run: "bind_op (authorize a RuntimeReportSelf now) (\<lambda>_.
     if actor_principal_id a \<noteq> aid then fail_op (failure_new Missing ''Agent not found'')
     else
       bind_op (live_run aid (header_run_id (request_header input)) now) (\<lambda>_.
       if expired_at (header_expires_at (request_header input)) now
       then fail_op (failure_new Conflict ''The native decision has already expired'')
       else if \<not> questions_valid {} (request_questions input)
       then fail_op (failure_new Invalid
         ''Native questions need unique identities and an answer mechanism'')
       else
         bind_op (repo_decision (header_id (request_header input))) (\<lambda>previous.
         case previous of
           Some p \<Rightarrow>
             if summary_agent_id (decision_summary p) \<noteq> aid \<or>
                summary_header (decision_summary p) \<noteq> request_header input \<or>
                decision_review p \<noteq> request_review input \<or>
                decision.decision_questions p \<noteq> request_questions input
             then fail_op (failure_new Conflict
               ''Decision identity is already bound to another native request'')
             else bind_op (current_decision (decision_summary p) now) (\<lambda>summary.
               return_op (p\<lparr>decision_summary := summary\<rparr>))
         | None \<Rightarrow>
             let v = new_decision aid input now in
             bind_op (repo_insert_decision v) (\<lambda>_. return_op v)))) s = (Inr v, s')"
  show "docket_le s s'"
  proof (cases "s' = s")
    case True
    then show ?thesis by simp
  next
    case False
    from run False have ins: "repo_insert_decision (new_decision aid input now) s = (Inr (), s')"
      unfolding bind_op_eq_Inr choice_Inr query_fst [OF query_authorize] query_fst [OF query_live_run]
        query_fst [OF query_decision_repo(1)]
      by (auto simp: op_iff Let_def split: option.splits dest: queryD [OF query_current_decision])
    show ?thesis
    proof (cases "store_ok s")
      case True
      from repo_insert_decision_docket [OF True ins] show ?thesis
        by (intro docket_move) (auto simp: new_decision_def intro!: r_into_rtranclp opened)
    next
      case False
      then show ?thesis by (simp add: docket_le_def)
    qed
  qed
qed


text \<open>Answering.\<close>

lemma answer_decision_Inr:
  assumes "answer_decision a aid did answers rq ev now s = (Inr u, s')"
  shows "\<exists>v t. repo_decision did s = (Inr (Some v), s) \<and> summary_agent_id (decision_summary v) = aid \<and>
    summary_status (decision_summary v) = Pending \<and>
    read_decision a aid did now s = (Inr v, s) \<and>
    length answers = length (decision.decision_questions v) \<and>
    distinct (map answer_question_id answers) \<and>
    list_all (\<lambda>q. answer_valid q answers) (decision.decision_questions v) \<and>
    repo_answer did answers s = (Inr (), t) \<and>
    s' = t\<lparr>audits := audits s'\<rparr> \<and> store_ok s'"
proof -
  let ?event = "(audit_new a rq ''runtime-decision'' did ''runtime-decision.answer''
    (Some (actor_principal_id a)) now)\<lparr>audit_message :=
      ''Owner submitted a native answer; answer content is private.''\<rparr>"
  from assms obtain s1 s2 v s3 t where
    auth: "\<exists>p. authorize a RuntimeDecisionAnswerOwned now s = (Inr p, s1)" and
    ow: "(if actor_kind a \<noteq> Human then return_op True
              else bind_op (repo_agent aid) (\<lambda>g. return_op
                (case g of None \<Rightarrow> True | Some v \<Rightarrow> agent_owner_id v \<noteq> actor_principal_id a))) s1 = (Inr False, s2)" and
    read: "read_decision a aid did now s2 = (Inr v, s3)" and
    pend: "summary_status (decision_summary v) = Pending" and
    len: "length answers = length (decision.decision_questions v)"
      "card (set (map answer_question_id answers)) = length (decision.decision_questions v)" and
    valid: "list_all (\<lambda>q. answer_valid q answers) (decision.decision_questions v)" and
    ans: "repo_answer did answers s3 = (Inr (), t)" and au: "repo_audit ev ?event t = (Inr u, s')"
    unfolding answer_decision_def transaction_eq_Inr bind_op_eq_Inr [of "authorize a p now" for a p now]
      bind_op_eq_Inr [of "read_decision a aid did now"] bind_op_eq_Inr [of "repo_answer did answers"]
      bind_op_eq_Inr [of "if c then _ else _" for c] choice_Inr
    by (auto split: if_splits)
  have "query (bind_op (repo_agent aid) (\<lambda>g. return_op
      (case g of None \<Rightarrow> True | Some v \<Rightarrow> agent_owner_id v \<noteq> actor_principal_id a)))"
    by (auto intro!: query_bind)
  with auth ow read have st: "s1 = s" "s2 = s" "s3 = s"
    by (auto dest: queryD [OF query_authorize] queryD [OF query_read_decision] queryD split: if_splits)
  from read [unfolded st] obtain v0 summary where v0: "repo_decision did s = (Inr (Some v0), s)"
    "summary_agent_id (decision_summary v0) = aid" "current_decision (decision_summary v0) now s = (Inr summary, s)"
    "v = v0\<lparr>decision_summary := summary\<rparr>"
    unfolding read_decision_def bind_op_eq_Inr require_op_Inr transaction_eq_Inr
      query_fst [OF query_authorize_agent] query_fst [OF query_decision_repo(1)]
      query_fst [OF query_current_decision]
    by auto
  from current_decision_Inr [OF v0(3)] pend v0(4) have "v = v0" by auto
  moreover from len have "distinct (map answer_question_id answers)"
    by (metis card_distinct length_map)
  moreover from au have "s' = t\<lparr>audits := audits s'\<rparr> \<and> store_ok s'" by (auto simp: repo_audit_Inr)
  ultimately show ?thesis using v0 pend read len valid ans st by auto
qed

lemma answer_decision_plays: "advances docket_le (answer_decision a aid did answers rq ev now)"
proof (rule docket.advI)
  fix s r s'
  assume run: "answer_decision a aid did answers rq ev now s = (r, s')"
  show "docket_le s s'"
  proof (cases r)
    case (Inl e)
    with run have "s' = s" by (auto simp: answer_decision_def transaction_eq_Inl)
    then show ?thesis by simp
  next
    case (Inr u)
    from answer_decision_Inr [OF run [unfolded Inr]] obtain v t where
      v: "repo_decision did s = (Inr (Some v), s)" "summary_status (decision_summary v) = Pending" and
      ans: "repo_answer did answers s = (Inr (), t)" and s': "s' = t\<lparr>audits := audits s'\<rparr>" "store_ok s'" by blast
    show ?thesis
    proof (cases "answers_private s")
      case True
      with repo_decision_Inr [OF v(1)] v(2) have "docket_of s did = Some (Pending, [])"
        by (auto simp: answers_private_def docket_ok_def)
      note pending = this
      from s'(1) have "docket_of s' = docket_of t" by (metis docket_audits)
      with repo_answer_docket [OF ans pending] have "docket_of s' = (docket_of s)(did \<mapsto> (Answered, answers))" by simp
      with answered [of "docket_of s" did answers, OF pending] have "decision_move (docket_of s) (docket_of s')" by simp
      with s'(2) show ?thesis by (intro docket_move) auto
    next
      case False
      then show ?thesis by (simp add: docket_le_def)
    qed
  qed
qed


text \<open>Acknowledging.\<close>

lemma receipt_decision_Inr:
  assumes "receipt_decision a aid did st now s = (Inr b, s')"
  shows "s' = s \<and> \<not> b \<or> (\<exists>v. b \<and> repo_decision did s = (Inr (Some v), s) \<and>
    (st = Responded \<and> summary_status (decision_summary v) \<in> {Answered, Responded} \<or>
     st = Cancelled \<and> summary_status (decision_summary v) \<in> {Pending, Answered, Cancelled}) \<and>
    repo_decision_status did st s = (Inr (), s'))"
proof -
  from assms obtain p s1 found s2 where valid: "st \<in> {Responded, Cancelled}" and
    auth: "authorize a RuntimeReportSelf now s = (Inr p, s1)" and
    found: "repo_decision did s1 = (Inr found, s2)" and
    rest: "(case found of None \<Rightarrow> return_op False
      | Some v \<Rightarrow>
          if summary_agent_id (decision_summary v) \<noteq> aid then fail_op decision_missing
          else if st = Responded \<and> summary_status (decision_summary v) \<notin> {Answered, Responded}
          then fail_op (failure_new Conflict ''No answer was submitted to this native request'')
          else if st = Cancelled \<and> summary_status (decision_summary v) \<notin> {Pending, Answered, Cancelled}
          then fail_op (failure_new Conflict ''The native request is already settled'')
          else bind_op (repo_decision_status did st) (\<lambda>_. return_op True)) s2 = (Inr b, s')"
    unfolding receipt_decision_def transaction_eq_Inr bind_op_eq_Inr [of "authorize a p now" for a p now]
      bind_op_eq_Inr [of "repo_decision did"] choice_Inr by (auto split: if_splits)
  from queryD [OF query_authorize auth] queryD [OF query_decision_repo(1) found] have "s1 = s" "s2 = s" by auto
  with found rest valid show ?thesis
    by (cases found) (auto simp: op_iff choice_Inr)
qed

text \<open>What a receipt or an expiry does to the docket, given the status it finds.\<close>

lemma docket_settles:
  assumes run: "repo_decision_status did st' s = (Inr u, s')" and "docket_of s did = Some (st, answers)"
    and "(st', st) \<in> {(Responded, Answered), (Responded, Responded), (Cancelled, Pending), (Cancelled, Answered),
      (Cancelled, Cancelled), (Expired, Pending), (Expired, Answered), (Expired, Expired)}"
  shows "docket_le s s'"
proof -
  from assms(3) have "st' \<noteq> Answered" by auto
  from repo_decision_status_docket [OF run this] assms(2) have ok: "store_ok s'" and
    d: "docket_of s' = (docket_of s)(did \<mapsto> (st', []))" by auto
  show ?thesis
  proof (cases "st = st'")
    case True
    with assms(2,3) d have "docket_of s' = docket_of s" if "answers_private s"
      using that by (auto simp: answers_private_def docket_ok_def fun_upd_idem)
    with ok show ?thesis by (auto simp: docket_le_def answers_private_def)
  next
    case False
    with assms(2,3) have "decision_move (docket_of s) (docket_of s')"
      unfolding d by (auto intro: responded withdrawn)
    with ok show ?thesis by (intro docket_move) auto
  qed
qed

lemma receipt_decision_plays: "advances docket_le (receipt_decision a aid did st now)"
proof (rule docket.advI)
  fix s r s'
  assume run: "receipt_decision a aid did st now s = (r, s')"
  show "docket_le s s'"
  proof (cases r)
    case (Inl e)
    with run have "s' = s" by (auto simp: receipt_decision_def transaction_eq_Inl split: if_splits)
    then show ?thesis by simp
  next
    case (Inr b)
    from receipt_decision_Inr [OF run [unfolded Inr]] consider "s' = s" | v where
      "repo_decision did s = (Inr (Some v), s)"
      "st = Responded \<and> summary_status (decision_summary v) \<in> {Answered, Responded} \<or>
       st = Cancelled \<and> summary_status (decision_summary v) \<in> {Pending, Answered, Cancelled}"
      "repo_decision_status did st s = (Inr (), s')" by blast
    then show ?thesis
    proof cases
      case 1
      then show ?thesis by simp
    next
      case (2 v)
      from repo_decision_Inr [OF 2(1)] docket_settles [OF 2(3), of "summary_status (decision_summary v)"] 2(2)
      show ?thesis by auto
    qed
  qed
qed

text \<open>Expiring: every decision the loop settles was open when the loop began.\<close>

lemma expire_step:
  assumes run: "bind_op (current_decision v now) (\<lambda>c.
       if summary_status c = Expired then repo_decision_status (header_id (summary_header c)) Expired
       else return_op ()) s = (Inr u, s')"
    and found: "docket_of s (header_id (summary_header v)) = Some (st, answers)" "st \<in> {Pending, Answered, Expired}"
  shows "docket_le s s' \<and> (\<forall>did. did \<noteq> header_id (summary_header v) \<longrightarrow> docket_of s' did = docket_of s did)"
proof -
  from run obtain c s1 where c: "current_decision v now s = (Inr c, s1)" and
    rest: "(if summary_status c = Expired then repo_decision_status (header_id (summary_header c)) Expired
       else return_op ()) s1 = (Inr u, s')" unfolding bind_op_eq_Inr by blast
  from current_decision_Inr [OF c] have same: "s1 = s" "header_id (summary_header c) = header_id (summary_header v)"
    by auto
  show ?thesis
  proof (cases "summary_status c = Expired")
    case True
    with rest same have set: "repo_decision_status (header_id (summary_header v)) Expired s = (Inr u, s')" by simp
    from docket_settles [OF set found(1)] found(2) repo_decision_status_docket [OF set]
    show ?thesis by auto
  next
    case False
    with rest same show ?thesis by simp
  qed
qed

lemma expire_loop:
  assumes "for_each_op (\<lambda>v. bind_op (current_decision v now) (\<lambda>c.
       if summary_status c = Expired then repo_decision_status (header_id (summary_header c)) Expired
       else return_op ())) vs s = (Inr u, s')"
    and "distinct (map (\<lambda>v. header_id (summary_header v)) vs)"
    and "\<forall>v \<in> set vs. \<exists>st answers. docket_of s (header_id (summary_header v)) = Some (st, answers) \<and>
      st \<in> {Pending, Answered, Expired}"
  shows "docket_le s s'"
  using assms
proof (induction vs arbitrary: s)
  case Nil
  then show ?case by simp
next
  case (Cons v vs)
  from Cons.prems(1) obtain t where step: "bind_op (current_decision v now) (\<lambda>c.
       if summary_status c = Expired then repo_decision_status (header_id (summary_header c)) Expired
       else return_op ()) s = (Inr (), t)" and
    rest: "for_each_op (\<lambda>v. bind_op (current_decision v now) (\<lambda>c.
       if summary_status c = Expired then repo_decision_status (header_id (summary_header c)) Expired
       else return_op ())) vs t = (Inr u, s')"
    unfolding for_each_op.simps bind_op_eq_Inr [of "bind_op m f" for m f] by auto
  from Cons.prems(3) obtain st answers where
    "docket_of s (header_id (summary_header v)) = Some (st, answers)" "st \<in> {Pending, Answered, Expired}" by auto
  from expire_step [OF step this] have le: "docket_le s t" and
    frame: "\<And>did. did \<noteq> header_id (summary_header v) \<Longrightarrow> docket_of t did = docket_of s did" by auto
  have "docket_le t s'"
  proof (rule Cons.IH [OF rest])
    show "distinct (map (\<lambda>v. header_id (summary_header v)) vs)" using Cons.prems(2) by simp
    show "\<forall>w \<in> set vs. \<exists>st answers. docket_of t (header_id (summary_header w)) = Some (st, answers) \<and>
        st \<in> {Pending, Answered, Expired}"
    proof
      fix w assume w: "w \<in> set vs"
      from Cons.prems(2) have "header_id (summary_header v) \<notin> (\<lambda>v. header_id (summary_header v)) ` set vs" by simp
      with w have "header_id (summary_header w) \<noteq> header_id (summary_header v)" by (metis imageI)
      with frame Cons.prems(3) w show "\<exists>st answers. docket_of t (header_id (summary_header w)) = Some (st, answers) \<and>
        st \<in> {Pending, Answered, Expired}" by simp
    qed
  qed
  with le show ?case by (rule docket.trans)
qed

lemma collected_rows:
  assumes "map summary_of_row rows = map Inr vs"
  shows "map (\<lambda>v. header_id (summary_header v)) vs = map srow_id rows \<and>
    (\<forall>v \<in> set vs. \<exists>r \<in> set rows. summary_of_row r = Inr v)"
  using assms
proof (induction rows arbitrary: vs)
  case Nil
  then show ?case by simp
next
  case (Cons r rows)
  then obtain w ws where "vs = w # ws" "summary_of_row r = Inr w" "map summary_of_row rows = map Inr ws"
    by (cases vs) auto
  with Cons.IH [of ws] summary_of_row_fields [of r w] show ?case by auto
qed

lemma repo_pending_decisions_Inr:
  assumes ok: "store_ok s" and run: "repo_pending_decisions s = (Inr vs, s')"
  shows "s' = s \<and> distinct (map (\<lambda>v. header_id (summary_header v)) vs) \<and>
    (\<forall>v \<in> set vs. \<exists>answers. docket_of s (header_id (summary_header v)) = Some (summary_status v, answers) \<and>
      summary_status v \<in> {Pending, Answered})"
proof -
  define rows where "rows = filter (\<lambda>r. srow_status r \<in> {''pending'', ''answered''}) (decisions s)"
  from queryD [OF query_decision_repo(3) run] have s': "s' = s" .
  from run have "fst (repo_pending_decisions s) = Inr vs" by simp
  then have "map summary_of_row rows = map Inr vs"
    unfolding repo_pending_decisions_def op_simps fst_conv collect_results_eq_Inr rows_def .
  note col = collected_rows [OF this]
  have "distinct (map srow_id rows)"
    using store_ok_decisions(1) [OF ok] by (simp add: unique_on_def distinct_map_filter rows_def)
  moreover have "\<exists>answers. docket_of s (header_id (summary_header v)) = Some (summary_status v, answers) \<and>
      summary_status v \<in> {Pending, Answered}" if "v \<in> set vs" for v
  proof -
    from col that obtain r where row: "r \<in> set rows" "summary_of_row r = Inr v" by blast
    then have r: "r \<in> set (decisions s)" "srow_status r = ''pending'' \<or> srow_status r = ''answered''"
      by (auto simp: rows_def)
    from summary_of_row_fields [OF row(2)] have f: "header_id (summary_header v) = srow_id r"
      "srow_status r = decision_status_code (summary_status v)" by auto
    from unique_on_find [OF store_ok_decisions(1) [OF ok] r(1)] f r(2) show ?thesis
      by (cases "summary_status v") (simp_all add: docket_of_def)
  qed
  ultimately show ?thesis using s' col by simp
qed

lemma expire_decisions_plays: "advances docket_le (expire_decisions now)"
  unfolding expire_decisions_def
proof (rule docket.adv_success)
  fix s v s'
  assume "bind_op repo_pending_decisions
      (for_each_op (\<lambda>v. bind_op (current_decision v now) (\<lambda>c.
       if summary_status c = Expired then repo_decision_status (header_id (summary_header c)) Expired
       else return_op ()))) s = (Inr v, s')"
  then obtain vs s1 where vs: "repo_pending_decisions s = (Inr vs, s1)" and
    loop: "for_each_op (\<lambda>v. bind_op (current_decision v now) (\<lambda>c.
       if summary_status c = Expired then repo_decision_status (header_id (summary_header c)) Expired
       else return_op ())) vs s1 = (Inr v, s')"
    unfolding bind_op_eq_Inr [of repo_pending_decisions] by auto
  show "docket_le s s'"
  proof (cases "store_ok s")
    case True
    from repo_pending_decisions_Inr [OF True vs] loop show ?thesis
      by (intro expire_loop [where vs = vs and u = v]) auto
  next
    case False
    then show ?thesis by (simp add: docket_le_def)
  qed
qed

lemma list_decisions_plays: "advances docket_le (list_decisions a aid n l st now)"
proof -
  have "query (map_op (\<lambda>v. current_decision v now) vs)" for vs
    by (induction vs) (simp_all add: query_bind query_def [of "Pair r" for r])
  then have "advances docket_le (transaction (map_op (\<lambda>v. current_decision v now) vs))" for vs
    by (auto intro: docket_query)
  then show ?thesis
    unfolding list_decisions_def
    by (intro docket.adv_bind expire_decisions_plays docket.adv_pure) (auto intro!: docket_query)
qed

section \<open>What callers can rely on\<close>

datatype decision_call =
    CreateCall actor string decision_request int
  | ReadCall actor string string int
  | ListCall actor string int int "decision_status option" int
  | AnswerCall actor string string "answer list" string string int
  | PollCall actor string string int
  | ReceiptCall actor string string decision_status int
  | ExpireCall int

fun after_call :: "decision_call \<Rightarrow> store \<Rightarrow> store" where
  "after_call (CreateCall a aid input now) s = snd (create_decision a aid input now s)"
| "after_call (ReadCall a aid did now) s = snd (read_decision a aid did now s)"
| "after_call (ListCall a aid n l st now) s = snd (list_decisions a aid n l st now s)"
| "after_call (AnswerCall a aid did answers rq ev now) s = snd (answer_decision a aid did answers rq ev now s)"
| "after_call (PollCall a aid did now) s = snd (poll_decision a aid did now s)"
| "after_call (ReceiptCall a aid did st now) s = snd (receipt_decision a aid did st now s)"
| "after_call (ExpireCall now) s = snd (expire_decisions now s)"

lemma after_call_plays: "docket_le s (after_call c s)"
  using create_decision_plays answer_decision_plays receipt_decision_plays expire_decisions_plays
    list_decisions_plays docket_query [OF query_read_decision] docket_query [OF query_poll_decision]
  by (cases c) (simp_all add: advances_def)

lemma fold_calls_play: "docket_le s (fold after_call cs s)"
  by (induction cs arbitrary: s) (auto intro: docket.trans after_call_plays)

text \<open>
  C26: The decision component refines its abstract machine: whatever calls of the component arrive in
  whatever order, successful or not, the stored docket makes only the machine's moves (open, answer once, acknowledge,
  withdraw), the constraints hold, and answers stay on file only while their decision is answered.
\<close>
theorem decisions_refine_moves:
  assumes "store_ok s" "answers_private s"
  shows "store_ok (fold after_call cs s) \<and> answers_private (fold after_call cs s) \<and>
    decision_move\<^sup>*\<^sup>* (docket_of s) (docket_of (fold after_call cs s))"
  using fold_calls_play [of s cs] assms by (simp add: docket_le_def)

lemma sample_private: "answers_private sample_store"
  by (simp add: answers_private_def docket_ok_def docket_of_def sample_store_def)

theorem decisions_refine_moves_witness:
  "answers_private (fold after_call [ExpireCall 5, ReadCall ada ''bot'' ''d'' 10] sample_store)"
  using decisions_refine_moves [OF sample_store_ok sample_private] by blast

lemma moves_leave_pending:
  "decision_move\<^sup>*\<^sup>* m m' \<Longrightarrow> m did = Some (st, answers) \<Longrightarrow> st \<noteq> Pending \<Longrightarrow>
     \<exists>st' given. m' did = Some (st', given) \<and> st' \<noteq> Pending"
proof (induction rule: rtranclp_induct)
  case base
  then show ?case by simp
next
  case (step y z)
  then obtain st' given where "y did = Some (st', given)" "st' \<noteq> Pending" by auto
  with step.hyps(2) show ?case by (cases rule: decision_move.cases) auto
qed

lemma answered_docket:
  assumes "answers_private s" and ans: "answer_decision a aid did answers rq ev now s = (Inr u, s')"
  shows "docket_of s' did = Some (Answered, answers)"
proof -
  from answer_decision_Inr [OF ans] obtain v t where v: "repo_decision did s = (Inr (Some v), s)"
    "summary_status (decision_summary v) = Pending" and
    stored: "repo_answer did answers s = (Inr (), t)" and s': "s' = t\<lparr>audits := audits s'\<rparr>" by blast
  from repo_decision_Inr [OF v(1)] v(2) assms(1) have "docket_of s did = Some (Pending, [])"
    by (auto simp: answers_private_def docket_ok_def)
  from repo_answer_docket [OF stored this] have "docket_of t did = Some (Answered, answers)" by simp
  moreover from s' have "docket_of s' = docket_of t" by (metis docket_audits)
  ultimately show ?thesis by simp
qed

lemma repo_answers_on_file:
  "repo_answers did s = (Inr (sort_key answer_question_id (answers_on_file did s)), s)"
proof -
  have "map answer_of_row (sort_key answrow_question_id rows) = sort_key answer_question_id (map answer_of_row rows)"
    for rows
  proof -
    have "map answer_of_row (insort_key answrow_question_id r rs) =
        insort_key answer_question_id (answer_of_row r) (map answer_of_row rs)" for r rs
      by (induction rs) (simp_all add: answer_of_row_def)
    then show ?thesis by (induction rows) simp_all
  qed
  then show ?thesis by (simp add: repo_answers_def answers_on_file_def)
qed

text \<open>
  C28: The agent polls exactly the answers its owner submitted, ordered by question identity whatever
  order they were submitted in: after a successful answer the next poll reports either those answers or,
  once the listener or the deadline is gone, that the decision expired, and polling changes nothing.
\<close>
theorem answers_reach_agent:
  assumes "store_ok s" "answers_private s"
    and ans: "answer_decision a aid did answers rq ev now s = (Inr (), s')"
    and poll: "poll_decision b aid' did later s' = (Inr (st, given), s'')"
  shows "s'' = s' \<and>
    ((st, given) = (Answered, sort_key answer_question_id answers) \<or> (st, given) = (Expired, []))"
proof -
  note docket = answered_docket [OF assms(2) ans]
  have same: "s'' = s'" using queryD [OF query_poll_decision poll] .
  from poll obtain w where w: "read_decision b aid' did later s' = (Inr w, s')" "st = summary_status (decision_summary w)" and
    given: "(if st = Answered then repo_answers did else return_op []) s' = (Inr given, s'')"
    unfolding poll_decision_def bind_op_eq_Inr choice_Inr query_fst [OF query_read_decision]
      query_fst [OF query_authorize]
    by (auto simp: op_iff split: if_splits)
  from w(1) obtain w0 summary where w0: "repo_decision did s' = (Inr (Some w0), s')"
    "current_decision (decision_summary w0) later s' = (Inr summary, s')" "w = w0\<lparr>decision_summary := summary\<rparr>"
    unfolding read_decision_def bind_op_eq_Inr require_op_Inr transaction_eq_Inr
      query_fst [OF query_authorize_agent] query_fst [OF query_decision_repo(1)]
      query_fst [OF query_current_decision]
    by auto
  from repo_decision_Inr [OF w0(1)] docket have kept: "answers_on_file did s' = answers"
    "summary_status (decision_summary w0) = Answered" by auto
  from current_decision_Inr [OF w0(2)] kept(2) w(2) w0(3) have "st = Answered \<or> st = Expired" by auto
  with given kept(1) same show ?thesis
    by (auto simp: repo_answers_on_file split: if_splits)
qed

definition sample_header :: decision_header where
  "sample_header = \<lparr>header_id = ''d1'', header_run_id = sample_uuid, header_runtime = Codex,
     header_session_id = ''s'', header_request_id = ''r'', header_turn_id = ''t'', header_item_id = ''i'',
     header_kind = QuestionKind, header_action = ''ask'', header_blocking = True, header_expires_at = None\<rparr>"

definition sample_request :: decision_request where
  "sample_request = \<lparr>request_header = sample_header, request_review = ''review'',
     request_questions = [\<lparr>question_id = ''q1'', question_title = ''T'', question_prompt = ''P'',
        question_secret = False, question_allow_text = False,
        question_options = [\<lparr>choice_id = ''yes'', choice_label = ''Y'', choice_description = ''d''\<rparr>,
          \<lparr>choice_id = ''no'', choice_label = ''N'', choice_description = ''d''\<rparr>]\<rparr>,
       \<lparr>question_id = ''q2'', question_title = ''T'', question_prompt = ''P'',
        question_secret = False, question_allow_text = True, question_options = []\<rparr>]\<rparr>"

definition sample_answers :: "answer list" where
  "sample_answers = [\<lparr>answer_question_id = ''q2'', answer_option_id = None, answer_text = Some ''x''\<rparr>,
     \<lparr>answer_question_id = ''q1'', answer_option_id = Some ''no'', answer_text = None\<rparr>]"

text \<open>The sample database with a pending decision of \<open>bot\<close>, and after \<open>ada\<close> answered it.\<close>

definition asked_store :: store where
  "asked_store = sample_store\<lparr>decisions := [summary_row_of (new_decision ''bot'' sample_request 1000)],
     decision_questions := map (question_row_of ''d1'') (enumerate 0 (request_questions sample_request)),
     decision_options := concat (map (option_rows_of ''d1'') (request_questions sample_request))\<rparr>"

definition answered_store :: store where
  "answered_store = (set_decision_status ''d1'' ''answered''
     (asked_store\<lparr>decision_answers := map (answer_row_of ''d1'') sample_answers\<rparr>))\<lparr>audits :=
       [audit_row_of ''ev'' ((audit_new ada ''rq'' ''runtime-decision'' ''d1'' ''runtime-decision.answer''
          (Some ''ada'') 2000)\<lparr>audit_message :=
             ''Owner submitted a native answer; answer content is private.''\<rparr>)]\<rparr>"

lemma asked_store_ok: "store_ok asked_store"
  by code_simp

lemma asked_docket: "docket_of asked_store ''d1'' = Some (Pending, [])"
  by code_simp

lemma asked_store_private: "answers_private asked_store"
proof -
  have "docket_of asked_store did = (if did = ''d1'' then Some (Pending, []) else None)" for did
    by (simp add: docket_of_def asked_store_def sample_store_def answers_on_file_def)
      (simp add: summary_row_of_def new_decision_def sample_request_def sample_header_def)
  then show ?thesis by (simp add: answers_private_def docket_ok_def)
qed

lemma sample_answered:
  "answer_decision ada ''bot'' ''d1'' sample_answers ''rq'' ''ev'' 2000 asked_store = (Inr (), answered_store)"
  by code_simp

theorem answers_reach_agent_witness:
  "poll_decision bot ''bot'' ''d1'' 3000 answered_store = (Inr (Answered, rev sample_answers), answered_store)"
proof -
  have "fst (poll_decision bot ''bot'' ''d1'' 3000 answered_store) = Inr (Answered, rev sample_answers)"
    by code_simp
  then obtain s'' where run: "poll_decision bot ''bot'' ''d1'' 3000 answered_store =
      (Inr (Answered, rev sample_answers), s'')"
    by (metis prod.collapse)
  from answers_reach_agent [OF asked_store_ok asked_store_private sample_answered run] run show ?thesis by simp
qed

text \<open>
  C29: A question is answered at most once: after a successful answer, and whatever calls of the
  component follow, every further answer to the same decision fails, whoever sends it, and leaves the
  database as it is.
\<close>
theorem answered_at_most_once:
  assumes "store_ok s" "answers_private s"
    and "answer_decision a aid did answers rq ev now s = (Inr (), s')"
  shows "is_err (fst (answer_decision b aid' did other rq' ev' later (fold after_call cs s'))) \<and>
    snd (answer_decision b aid' did other rq' ev' later (fold after_call cs s')) = fold after_call cs s'"
proof -
  let ?t = "fold after_call cs s'"
  have left: "\<exists>st given. docket_of ?t did = Some (st, given) \<and> st \<noteq> Pending"
  proof -
    from answer_decision_plays [of a aid did answers rq ev now] assms(1,2)
    have ok: "store_ok s'" "answers_private s'"
      unfolding advances_def docket_le_def assms(3) by (metis assms(3) snd_conv)+
    from answered_docket [OF assms(2,3)] have "docket_of s' did = Some (Answered, answers)" .
    with fold_calls_play [of s' cs] ok show ?thesis
      using moves_leave_pending [of "docket_of s'" "docket_of ?t" did Answered answers]
      by (auto simp: docket_le_def)
  qed
  show ?thesis
  proof (cases "answer_decision b aid' did other rq' ev' later ?t")
    case (Pair r t')
    show ?thesis
    proof (cases r)
      case (Inl e)
      with Pair have "t' = ?t" by (auto simp: answer_decision_def transaction_eq_Inl)
      with Pair Inl show ?thesis by simp
    next
      case (Inr u)
      from answer_decision_Inr [OF Pair [unfolded Inr]] obtain v where
        "repo_decision did ?t = (Inr (Some v), ?t)" "summary_status (decision_summary v) = Pending" by blast
      with repo_decision_Inr left show ?thesis by fastforce
    qed
  qed
qed

theorem answered_at_most_once_witness:
  "is_err (fst (answer_decision ada ''bot'' ''d1'' sample_answers ''rq2'' ''ev2'' 4000
     (fold after_call [PollCall bot ''bot'' ''d1'' 3000] answered_store)))"
  using answered_at_most_once [OF asked_store_ok asked_store_private sample_answered] by blast

text \<open>
  C30: A decision is read back exactly as it was inserted, with its questions and their options in order.
\<close>
theorem decision_roundtrip:
  assumes "store_ok s" "repo_insert_decision v s = (Inr u, s')"
  shows "repo_decision (header_id (summary_header (decision_summary v))) s' = (Inr (Some v), s')"
  using assms by (rule insert_then_read)

theorem decision_roundtrip_witness:
  "repo_decision ''d1'' asked_store = (Inr (Some (new_decision ''bot'' sample_request 1000)), asked_store)"
proof -
  have "repo_insert_decision (new_decision ''bot'' sample_request 1000) sample_store = (Inr (), asked_store)"
    by code_simp
  from decision_roundtrip [OF sample_store_ok this] show ?thesis
    by (simp add: new_decision_def sample_request_def sample_header_def)
qed

end
