(* ===== verification/Outcomes.thy ===== *)
theory Outcomes
  imports Authorization
begin

text \<open>
  Triples over fallible operations. \<open>yields P m Q\<close>: run from a state with \<open>P\<close>, whenever \<open>m\<close> returns a
  value, value and state satisfy \<open>Q\<close>. Nothing is said of a failure, because a failing transaction
  restores the database. The rules follow the combinators, so that the proof of an operation is the
  list of what its statements do.
\<close>

definition yields :: "('s \<Rightarrow> bool) \<Rightarrow> ('s, 'e, 'a) op \<Rightarrow> ('a \<Rightarrow> 's \<Rightarrow> bool) \<Rightarrow> bool" where
  "yields P m Q \<longleftrightarrow> (\<forall>s v s'. P s \<longrightarrow> m s = (Inr v, s') \<longrightarrow> Q v s')"

lemma yieldsI: "(\<And>s v s'. P s \<Longrightarrow> m s = (Inr v, s') \<Longrightarrow> Q v s') \<Longrightarrow> yields P m Q"
  by (simp add: yields_def)

lemma yieldsD: "yields P m Q \<Longrightarrow> P s \<Longrightarrow> m s = (Inr v, s') \<Longrightarrow> Q v s'"
  by (simp add: yields_def)

lemma yields_return: "(\<And>s. P s \<Longrightarrow> Q v s) \<Longrightarrow> yields P (return_op v) Q"
  by (simp add: yields_def)

lemma yields_fail: "yields P (fail_op e) Q"
  by (simp add: yields_def)

lemma yields_bind: "yields P m R \<Longrightarrow> (\<And>v. yields (R v) (f v) Q) \<Longrightarrow> yields P (bind_op m f) Q"
  by (auto simp: yields_def bind_op_eq_Inr)

lemma yields_if:
  "(b \<Longrightarrow> yields P m Q) \<Longrightarrow> (\<not> b \<Longrightarrow> yields P n Q) \<Longrightarrow> yields P (if b then m else n) Q"
  by simp

lemma yields_weaken: "yields P m Q \<Longrightarrow> (\<And>s. P' s \<Longrightarrow> P s) \<Longrightarrow> (\<And>v s. Q v s \<Longrightarrow> Q' v s) \<Longrightarrow> yields P' m Q'"
  unfolding yields_def by blast

lemma yields_query: "query m \<Longrightarrow> yields P m (\<lambda>_. P)"
  by (auto simp: yields_def dest: queryD)

lemma yields_query_bind: "query m \<Longrightarrow> (\<And>v. yields P (f v) Q) \<Longrightarrow> yields P (bind_op m f) Q"
  by (rule yields_bind [OF yields_query])

text \<open>A read: what it answered holds of the state it left as it was.\<close>

lemma yields_read: "query m \<Longrightarrow> yields P m (\<lambda>v s. P s \<and> m s = (Inr v, s))"
  by (auto simp: yields_def dest: queryD)

lemma yields_keeps: "keeps P m \<Longrightarrow> yields P m (\<lambda>_. P)"
  by (auto simp: yields_def dest: keepsD)

lemma yields_for_each:
  "(\<And>x. x \<in> set xs \<Longrightarrow> yields P (f x) (\<lambda>_. P)) \<Longrightarrow> yields P (for_each_op f xs) (\<lambda>_. P)"
proof (induction xs)
  case Nil
  then show ?case by (simp add: yields_def)
next
  case (Cons x xs)
  have "yields P (bind_op (f x) (\<lambda>_. for_each_op f xs)) (\<lambda>_. P)"
    by (rule yields_bind [where R = "\<lambda>_. P"]) (use Cons in auto)
  then show ?case by simp
qed

text \<open>A transaction that keeps \<open>P\<close> when it succeeds keeps it in any case.\<close>

lemma keeps_by_yields: "yields P m (\<lambda>_. P) \<Longrightarrow> keeps P (transaction m)"
  by (rule keepsI) (auto simp: yields_def transaction_def split: prod.splits sum.splits)

section \<open>Inverting pipelines of reads\<close>

lemma query_bind_Inr:
  "query m \<Longrightarrow> bind_op m f s = (Inr w, s') \<longleftrightarrow> (\<exists>v. m s = (Inr v, s) \<and> f v s = (Inr w, s'))"
  by (auto simp: bind_op_eq_Inr dest: queryD)

lemma query_require_Inr:
  "query m \<Longrightarrow> require_op m p e s = (Inr v, s') \<longleftrightarrow> m s = (Inr (Some v), s) \<and> s' = s \<and> p v"
  by (auto simp: require_op_Inr dest: queryD)

lemma query_require_some_Inr:
  "query m \<Longrightarrow> require_some m e s = (Inr v, s') \<longleftrightarrow> m s = (Inr (Some v), s) \<and> s' = s"
  by (auto simp: require_some_Inr dest: queryD)

lemma query_require_query: "query m \<Longrightarrow> query (require_op m p e)" "query m \<Longrightarrow> query (require_some m e)"
  by (simp_all add: query_require query_require_some)

lemmas read_iff = query_bind_Inr query_require_Inr query_require_some_Inr check_op_Inr return_op_Inr
  fail_op_Inr lift_op_Inr query_require_query

section \<open>What an operation does not touch\<close>

text \<open>\<open>fixed sel m\<close>: no run of \<open>m\<close> changes the part of the state that \<open>sel\<close> selects.\<close>

definition fixed :: "('s \<Rightarrow> 'c) \<Rightarrow> ('s, 'e, 'a) op \<Rightarrow> bool" where
  "fixed sel m \<longleftrightarrow> (\<forall>s. sel (snd (m s)) = sel s)"

lemma fixedD: "fixed sel m \<Longrightarrow> m s = (r, s') \<Longrightarrow> sel s' = sel s"
  unfolding fixed_def by (metis snd_conv)

lemma fixedI: "(\<And>s r s'. m s = (r, s') \<Longrightarrow> sel s' = sel s) \<Longrightarrow> fixed sel m"
  unfolding fixed_def by (metis prod.collapse)

lemma fixed_query: "query m \<Longrightarrow> fixed sel m"
  by (simp add: fixed_def query_def)

lemma fixed_bind: "fixed sel m \<Longrightarrow> (\<And>v. fixed sel (f v)) \<Longrightarrow> fixed sel (bind_op m f)"
  unfolding fixed_def bind_op_def by (auto split: prod.splits sum.splits) (metis snd_conv)+

lemma fixed_if: "fixed sel m \<Longrightarrow> fixed sel n \<Longrightarrow> fixed sel (if b then m else n)"
  by simp

lemma fixed_return: "fixed sel (return_op v)" and fixed_fail: "fixed sel (fail_op e)"
  by (simp_all add: fixed_def)

lemma fixed_transaction: "fixed sel m \<Longrightarrow> fixed sel (transaction m)"
  by (rule fixedI) (auto simp: transaction_def split: prod.splits sum.splits dest: fixedD)

lemma fixed_for_each: "(\<And>x. fixed sel (f x)) \<Longrightarrow> fixed sel (for_each_op f xs)"
  by (induction xs) (auto intro!: fixed_bind fixed_return)

lemma fixed_execute: "(\<And>s. sel (f s) = sel s) \<Longrightarrow> fixed sel (execute f)"
  by (simp add: fixed_def execute_def)

lemma fixed_counted: "(\<And>s. sel (f s) = sel s) \<Longrightarrow> fixed sel (execute_counted n f)"
  by (rule fixedI) (auto simp: execute_counted_def execute_def split: if_splits)

lemmas fixed_intros = fixed_bind fixed_if fixed_return fixed_fail fixed_transaction fixed_for_each
  fixed_execute fixed_counted

end
