(* ===== verification/Retention.thy ===== *)
theory Retention
  imports Decision_Docket Outcomes
begin

text \<open>
  Retention: \<open>domain/src/logging.rs\<close> and, of what it deletes, the decisions
  (\<open>prune\<close> of \<open>adapter-sqlite/src/logging/runtime.rs\<close>). Decisions that were settled and created before the
  cutoff are deleted with their questions, options and answers, at most \<open>limit\<close> at a time. The other
  deletions of \<open>prune_logging\<close> (\<open>adapter-sqlite/src/logging/mod.rs\<close>) concern tables the decisions do not
  depend on; they are among the other steps below.
\<close>

section \<open>When to delete\<close>

record cursor =
  cursor_at :: int
  cursor_id :: string

record prune_input =
  prune_cutoff :: int
  prune_limit :: int
  prune_runs_cursor :: "cursor option"
  prune_operations_cursor :: "cursor option"

record prune_result =
  pruned_removed :: int
  pruned_more :: bool
  pruned_runs :: "cursor option"
  pruned_operations :: "cursor option"

record retention =
  ret_days :: int
  ret_previous_cutoff :: "int option"
  ret_runs :: "cursor option"
  ret_operations :: "cursor option"

definition day_ms :: int where
  "day_ms = 86400000"

definition retention_safe_integer :: int where
  "retention_safe_integer = 9007199254740991"

definition retention_new :: "int option \<Rightarrow> retention result" where
  "retention_new wanted = (let days = (case wanted of None \<Rightarrow> 7 | Some n \<Rightarrow> n) in
     if days \<le> 0 \<or> (case checked_i64 (days * day_ms) of None \<Rightarrow> True | Some n \<Rightarrow> n > retention_safe_integer)
     then Inl (failure_new Invalid ''loggingRetentionDays must be a positive exact integer number of days'')
     else Inr \<lparr>ret_days = days, ret_previous_cutoff = None, ret_runs = None, ret_operations = None\<rparr>)"

text \<open>\<open>maintain\<close> over the trait \<open>LoggingRepository\<close>, whose one method is the argument \<open>prune\<close>.\<close>

definition maintain ::
  "(prune_input \<Rightarrow> ('w, failure, prune_result) op) \<Rightarrow> retention \<Rightarrow> int \<Rightarrow> int \<Rightarrow>
   ('w, failure, (int \<times> bool) \<times> retention) op" where
  "maintain prune ret now limit =
     (case opt_filter (\<lambda>n. - retention_safe_integer \<le> n \<and> n \<le> retention_safe_integer) (checked_i64 (now - ret_days ret * day_ms)) of
        Some cutoff \<Rightarrow>
          if 1 \<le> limit \<and> limit \<le> 1000 then
            let reset = (case ret_previous_cutoff ret of None \<Rightarrow> False | Some before \<Rightarrow> cutoff < before) in
            bind_op (prune \<lparr>prune_cutoff = cutoff, prune_limit = limit,
                prune_runs_cursor = (if reset then None else ret_runs ret),
                prune_operations_cursor = (if reset then None else ret_operations ret)\<rparr>) (\<lambda>outcome.
            return_op ((pruned_removed outcome, pruned_more outcome),
              ret\<lparr>ret_previous_cutoff := Some cutoff, ret_runs := pruned_runs outcome,
                ret_operations := pruned_operations outcome\<rparr>))
          else fail_op (failure_new Invalid
            ''Logging cleanup requires an exact cutoff and a 1..1000 record batch'')
      | None \<Rightarrow> fail_op (failure_new Invalid
            ''Logging cleanup requires an exact cutoff and a 1..1000 record batch''))"

section \<open>Which decisions are deleted\<close>

definition prunable :: "int \<Rightarrow> int \<Rightarrow> store \<Rightarrow> string list" where
  "prunable cutoff limit s = map srow_id (take (nat limit)
     (sort_key (\<lambda>r. (srow_created_at r, srow_id r))
       (filter (\<lambda>r. srow_status r \<notin> {''pending'', ''answered''} \<and> srow_created_at r < cutoff) (decisions s))))"

definition prune_decisions :: "int \<Rightarrow> int \<Rightarrow> int db" where
  "prune_decisions cutoff limit =
     bind_op (read_op (\<lambda>s. Inr (prunable cutoff limit s))) (\<lambda>ids.
     bind_op (execute (\<lambda>s. s\<lparr>decision_answers :=
       filter (\<lambda>r. answrow_decision_id r \<notin> set ids) (decision_answers s)\<rparr>)) (\<lambda>_.
     bind_op (execute (\<lambda>s. s\<lparr>decision_options :=
       filter (\<lambda>r. orow_decision_id r \<notin> set ids) (decision_options s)\<rparr>)) (\<lambda>_.
     bind_op (execute (\<lambda>s. s\<lparr>decision_questions :=
       filter (\<lambda>r. qrow_decision_id r \<notin> set ids) (decision_questions s)\<rparr>)) (\<lambda>_.
     bind_op (execute (\<lambda>s. s\<lparr>decisions := filter (\<lambda>r. srow_id r \<notin> set ids) (decisions s)\<rparr>)) (\<lambda>_.
     return_op (int (length ids)))))))"

lemma prunable_settled:
  assumes "did \<in> set (prunable cutoff limit s)"
  shows "\<exists>r \<in> set (decisions s). srow_id r = did \<and> srow_status r \<notin> {''pending'', ''answered''} \<and>
    srow_created_at r < cutoff"
  using assms by (auto simp: prunable_def dest!: in_set_takeD)

lemma find_row_filter:
  "(\<And>r. p r \<Longrightarrow> q r) \<Longrightarrow> find_row p (filter q rows) = find_row p rows"
  "(\<And>r. p r \<Longrightarrow> \<not> q r) \<Longrightarrow> find_row p (filter q rows) = None"
  by (induction rows) (auto simp: find_row_def)

lemma prune_decisions_Inr:
  assumes "prune_decisions cutoff limit s = (Inr n, s')"
  shows "store_ok s'" "n = int (length (prunable cutoff limit s))"
    "docket_of s' did = (if did \<in> set (prunable cutoff limit s) then None else docket_of s did)"
proof -
  let ?ids = "set (prunable cutoff limit s)"
  from assms have ok: "store_ok s'" and n: "n = int (length (prunable cutoff limit s))" and
    s': "decisions s' = filter (\<lambda>r. srow_id r \<notin> ?ids) (decisions s)"
      "decision_answers s' = filter (\<lambda>r. answrow_decision_id r \<notin> ?ids) (decision_answers s)"
    unfolding prune_decisions_def by (auto simp: op_iff)
  show "store_ok s'" "n = int (length (prunable cutoff limit s))" by fact+
  show "docket_of s' did = (if did \<in> ?ids then None else docket_of s did)"
  proof (cases "did \<in> ?ids")
    case True
    then have "find_row (\<lambda>r. srow_id r = did) (decisions s') = None"
      unfolding s' by (intro find_row_filter(2)) simp
    with True show ?thesis by (simp add: docket_of_def)
  next
    case False
    then have "find_row (\<lambda>r. srow_id r = did) (decisions s') = find_row (\<lambda>r. srow_id r = did) (decisions s)"
      unfolding s' by (intro find_row_filter(1)) auto
    moreover from False have "answers_on_file did s' = answers_on_file did s"
      unfolding answers_on_file_def s' filter_filter by (metis (mono_tags, lifting) filter_cong)
    ultimately show ?thesis using False by (simp add: docket_of_def)
  qed
qed

section \<open>Everything that happens to decisions\<close>

text \<open>
  The calls of the component, the deletion by retention inside its transaction, and any statement of the
  rest of the program, which leaves the decisions and their answers alone.
\<close>

inductive decision_step :: "store \<Rightarrow> store \<Rightarrow> bool" where
  step_call: "decision_step s (after_call c s)"
| step_prune: "transaction (prune_decisions cutoff limit) s = (r, s') \<Longrightarrow> decision_step s s'"
| step_other: "keeps store_ok m \<Longrightarrow> fixed decisions m \<Longrightarrow> fixed decision_answers m \<Longrightarrow>
    (m :: unit db) s = (r, s') \<Longrightarrow> decision_step s s'"

definition docket_kept :: "store \<Rightarrow> bool" where
  "docket_kept s \<longleftrightarrow> store_ok s \<and> answers_private s"

text \<open>What one step does to a decision.\<close>

lemma step_docket:
  assumes "decision_step s s'" "docket_kept s"
  shows "docket_kept s' \<and> (docket_of s did = Some (st, answers) \<longrightarrow> settled st \<longrightarrow>
    docket_of s' did = Some (st, []) \<or>
    (\<exists>cutoff limit n. prune_decisions cutoff limit s = (Inr n, s') \<and> did \<in> set (prunable cutoff limit s)))"
  using assms
proof (cases rule: decision_step.cases)
  case (step_call c)
  from after_call_plays [of s c] assms(2) have "docket_kept s'"
    "decision_move\<^sup>*\<^sup>* (docket_of s) (docket_of s')" "docket_ok (docket_of s)"
    by (auto simp: step_call docket_le_def docket_kept_def answers_private_def)
  then show ?thesis using moves_settled by blast
next
  case (step_prune cutoff limit r)
  show ?thesis
  proof (cases r)
    case (Inl e)
    with step_prune have "s' = s" by (auto simp: transaction_eq_Inl)
    then show ?thesis using assms(2) by (auto simp: docket_kept_def answers_private_def docket_ok_def settled_def)
  next
    case (Inr n)
    with step_prune have run: "prune_decisions cutoff limit s = (Inr n, s')" by (simp add: transaction_eq_Inr)
    from prune_decisions_Inr [OF run] assms(2) have "docket_kept s'"
      by (auto simp: docket_kept_def answers_private_def docket_ok_def split: if_splits)
    moreover from assms(2) have "answers = []" if "docket_of s did = Some (st, answers)" "settled st"
      using that by (auto simp: docket_kept_def answers_private_def docket_ok_def settled_def)
    ultimately show ?thesis using prune_decisions_Inr(3) [OF run] run by (metis option.sel)
  qed
next
  case (step_other m r)
  from step_other assms(2) have "store_ok s'" "docket_of s' = docket_of s"
    by (auto simp: docket_kept_def dest: keepsD fixedD intro!: docket_cong)
  with assms(2) show ?thesis by (auto simp: docket_kept_def answers_private_def docket_ok_def settled_def)
qed

lemma steps_kept: "decision_step\<^sup>*\<^sup>* s t \<Longrightarrow> docket_kept s \<Longrightarrow> docket_kept t"
  by (induction rule: rtranclp_induct) (auto dest: step_docket)

text \<open>
  C27: A settled decision is never reopened, answered or changed: whatever calls, deletions by retention
  and other statements of the program follow, it stays as it was with no answers on file, until retention
  deletes it, which it does only to a settled decision created before the cutoff.
\<close>
theorem settled_decision_final:
  assumes "store_ok s" "answers_private s" "decision_step\<^sup>*\<^sup>* s t"
    and "docket_of s did = Some (st, answers)" "settled st"
  shows "docket_of t did = Some (st, []) \<or>
    (\<exists>u v cutoff limit n. decision_step\<^sup>*\<^sup>* s u \<and> docket_of u did = Some (st, []) \<and>
       prune_decisions cutoff limit u = (Inr n, v) \<and> did \<in> set (prunable cutoff limit u) \<and>
       decision_step\<^sup>*\<^sup>* v t)"
  using assms(3)
proof (induction rule: rtranclp_induct)
  case base
  from assms(2,4,5) show ?case by (auto simp: answers_private_def docket_ok_def settled_def)
next
  case (step t w)
  from steps_kept [OF step.hyps(1)] assms(1,2) have "docket_kept t" by (simp add: docket_kept_def)
  from step.IH show ?case
  proof
    assume here: "docket_of t did = Some (st, [])"
    from step_docket [OF step.hyps(2) \<open>docket_kept t\<close>] here assms(5) consider
      "docket_of w did = Some (st, [])" |
      cutoff limit n where "prune_decisions cutoff limit t = (Inr n, w)" "did \<in> set (prunable cutoff limit t)"
      by blast
    then show ?thesis
    proof cases
      case 2
      with here step.hyps(1) show ?thesis by blast
    qed simp
  next
    assume "\<exists>u v cutoff limit n. decision_step\<^sup>*\<^sup>* s u \<and> docket_of u did = Some (st, []) \<and>
       prune_decisions cutoff limit u = (Inr n, v) \<and> did \<in> set (prunable cutoff limit u) \<and> decision_step\<^sup>*\<^sup>* v t"
    with step.hyps(2) show ?thesis by (meson rtranclp.rtrancl_into_rtrancl)
  qed
qed

text \<open>An expired decision of time 1000, deleted by retention with the cutoff 2000.\<close>

definition expired_store :: store where
  "expired_store = set_decision_status ''d1'' (decision_status_code Expired) asked_store"

lemma expired_store_kept: "store_ok expired_store" "answers_private expired_store"
  "docket_of expired_store ''d1'' = Some (Expired, [])"
proof -
  show "store_ok expired_store" by code_simp
  have "docket_of expired_store = (docket_of asked_store)(''d1'' \<mapsto> (Expired, []))"
    by (simp only: expired_store_def docket_set_status asked_docket) simp
  with asked_store_private show "answers_private expired_store" "docket_of expired_store ''d1'' = Some (Expired, [])"
    by (auto simp: answers_private_def docket_ok_def)
qed

lemma expired_store_pruned:
  "fst (prune_decisions 2000 10 expired_store) = Inr 1 \<and> prunable 2000 10 expired_store = [''d1'']"
  by code_simp

theorem settled_decision_final_witness:
  "\<exists>u cutoff limit. decision_step\<^sup>*\<^sup>* expired_store u \<and> docket_of u ''d1'' = Some (Expired, []) \<and>
     ''d1'' \<in> set (prunable cutoff limit u)"
proof -
  obtain t where run: "prune_decisions 2000 10 expired_store = (Inr 1, t)"
    using expired_store_pruned by (metis prod.collapse)
  then have "decision_step expired_store t"
    using step_prune [of 2000 10 expired_store "Inr 1" t] by (simp add: transaction_Inr)
  then have "decision_step\<^sup>*\<^sup>* expired_store t" by simp
  moreover from prune_decisions_Inr(3) [OF run] expired_store_pruned have "docket_of t ''d1'' = None" by simp
  ultimately show ?thesis
    using settled_decision_final [OF expired_store_kept(1,2) _ expired_store_kept(3), of t]
    by (auto simp: settled_def)
qed

end
