(* ===== verification/Schedule_Fields.thy ===== *)
theory Schedule_Fields
  imports Kernel_Time "HOL-Library.Code_Target_Nat"
begin

unbundle bit_operations_syntax

text \<open>
  Calendar expressions: \<open>adapter-schedule/src/fields.rs\<close>. A field is a 64-bit mask of the values it
  selects with the extra markers of days and weekdays. The calendar itself (\<open>chrono::NaiveDate\<close>) is a
  record of functions, an argument of everything that asks it: a date built from year, month and day
  if there is one, its parts, the day after, the local times of a date and the range of the types. A
  local time is its number of milliseconds, a \<open>u32\<close> a natural number with its bound written out.
\<close>

section \<open>Dates\<close>

record 'd dates =
  from_ymd :: "int \<Rightarrow> nat \<Rightarrow> nat \<Rightarrow> 'd option"
  date_year :: "'d \<Rightarrow> int"
  date_month :: "'d \<Rightarrow> nat"
  date_day :: "'d \<Rightarrow> nat"
  date_weekday :: "'d \<Rightarrow> nat"
  date_succ :: "'d \<Rightarrow> 'd option"
  local_date :: "int \<Rightarrow> 'd"
  local_at :: "'d \<Rightarrow> nat \<Rightarrow> nat \<Rightarrow> int option"
  local_in_range :: "int \<Rightarrow> bool"
  instant_in_range :: "int \<Rightarrow> bool"

section \<open>Fields\<close>

record field =
  field_mask :: "64 word"
  field_wildcard :: bool
  field_last :: bool
  field_last_weekday :: "64 word"
  field_nth :: nat

record calendar =
  cal_minute :: field
  cal_hour :: field
  cal_day :: field
  cal_month :: field
  cal_weekday :: field

definition calendar_invalid :: "string \<Rightarrow> failure" where
  "calendar_invalid message = failure_new Invalid message"

definition contains :: "64 word \<Rightarrow> nat \<Rightarrow> bool" where
  "contains bits v \<longleftrightarrow> (bits AND push_bit v 1) \<noteq> 0"

definition out_of_range :: failure where
  "out_of_range = calendar_invalid ''Calendar value is out of range''"

definition duplicate_value :: failure where
  "duplicate_value = calendar_invalid ''Duplicate calendar value''"

definition number :: "string \<Rightarrow> nat result" where
  "number source =
     (if source = [] \<or> \<not> list_all ascii_digit source then Inl (calendar_invalid ''Invalid calendar value'')
      else if digits_value source < 2 ^ 32 then Inr (digits_value source) else Inl out_of_range)"

definition saturate_u32 :: "nat \<Rightarrow> nat" where
  "saturate_u32 n = min n (2 ^ 32 - 1)"

definition stride :: "string \<Rightarrow> nat \<Rightarrow> nat result" where
  "stride source maximum =
     (if source = [] \<or> \<not> list_all ascii_digit source then Inl (calendar_invalid ''Invalid calendar step'')
      else
        let v = foldl (\<lambda>total c. min (saturate_u32 (saturate_u32 (total * 10) + (byte c - 48))) (maximum + 1))
                  0 source
        in if v = 0 then Inl (calendar_invalid ''Invalid calendar step'') else Inr v)"

definition ascii_alphabetic :: "char \<Rightarrow> bool" where
  "ascii_alphabetic c \<longleftrightarrow> (65 \<le> byte c \<and> byte c \<le> 90) \<or> (97 \<le> byte c \<and> byte c \<le> 122)"

definition ascii_lower :: "char \<Rightarrow> char" where
  "ascii_lower c = (if 65 \<le> byte c \<and> byte c \<le> 90 then char_of (byte c + 32) else c)"

definition eq_ignore_case :: "string \<Rightarrow> string \<Rightarrow> bool" where
  "eq_ignore_case a b \<longleftrightarrow> map ascii_lower a = map ascii_lower b"

definition month_names :: "string list" where
  "month_names = [''JAN'', ''FEB'', ''MAR'', ''APR'', ''MAY'', ''JUN'', ''JUL'', ''AUG'', ''SEP'',
     ''OCT'', ''NOV'', ''DEC'']"

definition weekday_names :: "string list" where
  "weekday_names = [''SUN'', ''MON'', ''TUE'', ''WED'', ''THU'', ''FRI'', ''SAT'']"

fun position_of :: "('a \<Rightarrow> bool) \<Rightarrow> 'a list \<Rightarrow> nat option" where
  "position_of p [] = None"
| "position_of p (x # xs) = (if p x then Some 0 else map_option Suc (position_of p xs))"

function aliases_loop :: "string list \<Rightarrow> nat \<Rightarrow> string \<Rightarrow> string result" where
  "aliases_loop names base [] = Inr []"
| "aliases_loop names base (c # cs) =
     (if length (c # cs) \<ge> 3 \<and> list_all ascii_alphabetic (take 3 (c # cs))
      then case position_of (\<lambda>name. eq_ignore_case name (take 3 (c # cs))) names of
          None \<Rightarrow> Inl (calendar_invalid ''Unknown calendar month or weekday'')
        | Some offset \<Rightarrow> rbind (aliases_loop names base (drop 3 (c # cs))) (\<lambda>rest.
            Inr (dec (offset + base) @ rest))
      else rbind (aliases_loop names base cs) (\<lambda>rest. Inr (c # rest)))"
  by pat_completeness auto
termination by (relation "measure (\<lambda>(_, _, s). length s)") auto

definition aliases :: "string \<Rightarrow> nat \<Rightarrow> string result" where
  "aliases source index =
     (if \<not> list_all (\<lambda>c. byte c < 128) source then Inl (calendar_invalid ''Invalid calendar field'')
      else aliases_loop (if index = 3 then month_names else weekday_names) (if index = 3 then 1 else 0) source)"

text \<open>\<open>(start..=end).step_by(step)\<close>, and the bits the values set.\<close>

definition step_range :: "nat \<Rightarrow> nat \<Rightarrow> nat \<Rightarrow> nat list" where
  "step_range start end step = map (\<lambda>k. start + k * step) [0..<Suc ((end - start) div step)]"

definition value_bit :: "nat \<Rightarrow> nat \<Rightarrow> 64 word" where
  "value_bit index v = push_bit (if index = 4 then v mod 7 else v) 1"

definition bits_of :: "nat \<Rightarrow> nat list \<Rightarrow> 64 word" where
  "bits_of index vs = foldl (\<lambda>bits v. bits OR value_bit index v) 0 vs"

definition strip_last :: "char \<Rightarrow> string \<Rightarrow> string option" where
  "strip_last c s = (if s \<noteq> [] \<and> last s = c then Some (butlast s) else None)"

definition selection_range :: "string \<Rightarrow> nat \<Rightarrow> nat \<Rightarrow> (nat \<times> nat \<times> nat) result" where
  "selection_range selection minimum maximum =
     rbind (case split_once CHR ''/'' selection of
         Some (span, step) \<Rightarrow> rbind (stride step maximum) (\<lambda>s. Inr (span, s))
       | None \<Rightarrow> Inr (selection, 1)) (\<lambda>(span, step).
     rbind (if span \<in> {''*'', ''?''} then Inr (minimum, maximum)
       else case split_once CHR ''-'' span of
           Some (start, end) \<Rightarrow> rbind (number start) (\<lambda>a. rbind (number end) (\<lambda>b. Inr (a, b)))
         | None \<Rightarrow> rbind (number span) (\<lambda>selected.
             Inr (selected, if CHR ''/'' \<in> set selection then maximum else selected))) (\<lambda>(start, end).
     Inr (start, end, step)))"

definition select :: "nat \<Rightarrow> nat \<Rightarrow> nat \<Rightarrow> field \<Rightarrow> string \<Rightarrow> field result" where
  "select minimum maximum index v selection =
     (if selection = ''L'' \<and> index = 2
      then if field_last v then Inl duplicate_value else Inr (v\<lparr>field_last := True\<rparr>)
      else case opt_filter (\<lambda>_. index = 4) (strip_last CHR ''L'' selection) of
          Some digits \<Rightarrow> rbind (number digits) (\<lambda>selected.
            if selected > 7 then Inl out_of_range
            else
              let bit = push_bit (selected mod 7) 1 in
              if (field_last_weekday v AND bit) \<noteq> 0 then Inl duplicate_value
              else Inr (v\<lparr>field_last_weekday := field_last_weekday v OR bit\<rparr>))
        | None \<Rightarrow> rbind (selection_range selection minimum maximum) (\<lambda>(start, end, step).
            if start < minimum \<or> end > maximum \<or> start > end then Inl out_of_range
            else
              let selected = bits_of index (step_range start end step) in
              if (field_mask v AND selected) \<noteq> 0 then Inl duplicate_value
              else Inr (v\<lparr>field_mask := field_mask v OR selected\<rparr>)))"

fun select_all :: "nat \<Rightarrow> nat \<Rightarrow> nat \<Rightarrow> field \<Rightarrow> string list \<Rightarrow> field result" where
  "select_all minimum maximum index v [] = Inr v"
| "select_all minimum maximum index v (s # ss) =
     rbind (select minimum maximum index v s) (\<lambda>w. select_all minimum maximum index w ss)"

definition field_text :: "string \<Rightarrow> nat \<Rightarrow> string result" where
  "field_text source index = (if index \<in> {3, 4} then aliases source index else Inr source)"

definition bad_occurrence :: failure where
  "bad_occurrence = calendar_invalid ''Invalid calendar weekday occurrence''"

definition field_occurrence :: "string \<Rightarrow> nat \<Rightarrow> (string \<times> nat) result" where
  "field_occurrence source index =
     (case split_once CHR ''#'' source of
        None \<Rightarrow> Inr (source, 0)
      | Some (selected, which) \<Rightarrow>
          if index \<noteq> 4 \<or> set selected \<inter> {CHR '','', CHR ''-'', CHR ''/''} \<noteq> {} \<or> CHR ''#'' \<in> set which
          then Inl bad_occurrence
          else rbind (number which) (\<lambda>n. if \<not> (1 \<le> n \<and> n \<le> 5) then Inl bad_occurrence else Inr (selected, n)))"

definition parse_field :: "string \<Rightarrow> nat \<Rightarrow> nat \<Rightarrow> nat \<Rightarrow> field result" where
  "parse_field source minimum maximum index =
     rbind (field_text source index) (\<lambda>text.
     rbind (field_occurrence text index) (\<lambda>(body, which).
     rbind (select_all minimum maximum index
       \<lparr>field_mask = 0, field_wildcard = source \<in> {''*'', ''?''}, field_last = False,
        field_last_weekday = 0, field_nth = which\<rparr> (split_on CHR '','' body)) (\<lambda>v.
     if field_mask v = 0 \<and> \<not> field_last v \<and> field_last_weekday v = 0
     then Inl (calendar_invalid ''Empty calendar field'') else Inr v)))"

section \<open>Calendars\<close>

definition month_end :: "'d dates \<Rightarrow> 'd \<Rightarrow> nat result" where
  "month_end D date =
     ok_or (find_row (\<lambda>day. from_ymd D (date_year D date) (date_month D date) day \<noteq> None) [31, 30, 29, 28])
       (calendar_invalid ''Invalid calendar date'')"

definition matches_day :: "'d dates \<Rightarrow> calendar \<Rightarrow> 'd \<Rightarrow> bool result" where
  "matches_day D c date =
     rbind (month_end D date) (\<lambda>month_end.
     let day = contains (field_mask (cal_day c)) (date_day D date) \<or>
           (field_last (cal_day c) \<and> date_day D date = month_end);
         week = (contains (field_mask (cal_weekday c)) (date_weekday D date) \<and>
             (field_nth (cal_weekday c) = 0 \<or>
              (date_day D date - 1) div 7 + 1 = field_nth (cal_weekday c))) \<or>
           (contains (field_last_weekday (cal_weekday c)) (date_weekday D date) \<and>
             date_day D date + 7 > month_end)
     in Inr (if field_wildcard (cal_day c) then week
             else if field_wildcard (cal_weekday c) then day
             else day \<or> week))"

fun first_ok :: "('a \<Rightarrow> bool result) \<Rightarrow> 'a list \<Rightarrow> bool result" where
  "first_ok f [] = Inr False"
| "first_ok f (x # xs) = rbind (f x) (\<lambda>b. if b then Inr True else first_ok f xs)"

definition calendar_possible :: "'d dates \<Rightarrow> calendar \<Rightarrow> bool result" where
  "calendar_possible D c =
     first_ok (\<lambda>year. first_ok (\<lambda>month.
       if \<not> contains (field_mask (cal_month c)) month then Inr False
       else first_ok (\<lambda>day. case from_ymd D (int year) month day of
           None \<Rightarrow> Inr False
         | Some date \<Rightarrow> matches_day D c date) [1..<32]) [1..<13]) [2000..<2400]"

text \<open>\<open>str::split(whitespace)\<close> without its empty parts.\<close>

fun split_words :: "nat list \<Rightarrow> nat list list" where
  "split_words [] = [[]]"
| "split_words (c # cs) =
     (if whitespace c then [] # split_words cs
      else case split_words cs of [] \<Rightarrow> [[c]] | w # ws \<Rightarrow> (c # w) # ws)"

definition expression_parts :: "string \<Rightarrow> string list" where
  "expression_parts expression =
     map encode_str (filter (\<lambda>part. part \<noteq> []) (split_words (chars expression)))"

definition parse_calendar :: "'d dates \<Rightarrow> string \<Rightarrow> calendar result" where
  "parse_calendar D expression =
     (case expression_parts expression of
        [minute, hour, day, month, weekday] \<Rightarrow>
          rbind (parse_field minute 0 59 0) (\<lambda>minute.
          rbind (parse_field hour 0 23 1) (\<lambda>hour.
          rbind (parse_field day 1 31 2) (\<lambda>day.
          rbind (parse_field month 1 12 3) (\<lambda>month.
          rbind (parse_field weekday 0 7 4) (\<lambda>weekday.
          let c = \<lparr>cal_minute = minute, cal_hour = hour, cal_day = day, cal_month = month, cal_weekday = weekday\<rparr> in
          rbind (calendar_possible D c) (\<lambda>possible.
          if possible then Inr c else Inl (calendar_invalid ''The calendar schedule is impossible'')))))))
      | _ \<Rightarrow> Inl (calendar_invalid ''Use five cron fields; randomized fields and seconds are not supported''))"

section \<open>Lists of values\<close>

lemma contains_bit: "contains m v \<longleftrightarrow> bit m v"
  by (simp add: contains_def bit_iff_and_push_bit_not_eq_0)

lemma contains_code [code]: "contains m v \<longleftrightarrow> odd (uint m div 2 ^ v)"
  unfolding contains_bit bit_iff_odd [of "uint m", symmetric] bit_uint_iff by (auto dest: bit_imp_le_length)

lemma split_on_join: "ps \<noteq> [] \<Longrightarrow> (\<And>p. p \<in> set ps \<Longrightarrow> d \<notin> set p) \<Longrightarrow> split_on d (join_on d ps) = ps"
proof (induction d ps rule: join_on.induct)
  case (3 d p q ps)
  then show ?case by (simp add: split_on_append)
qed (simp_all add: split_on_no)

lemma split_once_none: "d \<notin> set s \<Longrightarrow> split_once d s = None"
  by (simp add: split_once_def)

lemma opt_filter_False [simp]: "opt_filter (\<lambda>_. False) x = None"
  by (cases x) simp_all

lemma dec_set: "c \<in> set (dec n) \<Longrightarrow> ascii_digit c"
  using dec_digits [of n] by (simp add: list_all_iff)

lemma dec_no: "byte c < 48 \<or> 57 < byte c \<Longrightarrow> c \<notin> set (dec n)"
  using dec_set by (fastforce simp: ascii_digit_def)

lemma dec_not_one: "byte c < 48 \<or> 57 < byte c \<Longrightarrow> dec n \<noteq> [c]"
  using dec_no [of c n] by auto

lemma number_dec: "n < 2 ^ 32 \<Longrightarrow> number (dec n) = Inr n"
  using dec_digits [of n] by (simp add: number_def)

lemma byte_marks [simp]: "byte CHR ''L'' = 76" "byte CHR '','' = 44" "byte CHR ''-'' = 45" "byte CHR ''/'' = 47"
  "byte CHR ''*'' = 42" "byte CHR ''?'' = 63" "byte CHR ''#'' = 35"
  by (simp_all add: byte_def)

lemma selection_dec: "n < 2 ^ 32 \<Longrightarrow> selection_range (dec n) minimum maximum = Inr (n, n, 1)"
  using dec_no [of "CHR ''/''" n] dec_no [of "CHR ''-''" n] dec_not_one [of "CHR ''*''" n]
    dec_not_one [of "CHR ''?''" n]
  by (simp add: selection_range_def split_once_none number_dec)

lemma select_dec:
  assumes "index \<notin> {3, 4}" "minimum \<le> n" "n \<le> maximum" "maximum < 64"
  shows "select minimum maximum index v (dec n) =
    (if bit (field_mask v) n then Inl duplicate_value
     else Inr (v\<lparr>field_mask := field_mask v OR push_bit n 1\<rparr>))"
proof -
  have "bits_of index (step_range n n 1) = push_bit n 1"
    using assms(1) by (simp add: step_range_def bits_of_def value_bit_def)
  moreover have "(field_mask v AND push_bit n 1) \<noteq> 0 \<longleftrightarrow> bit (field_mask v) n"
    by (simp add: bit_iff_and_push_bit_not_eq_0)
  moreover have "dec n \<noteq> ''L''" by (rule dec_not_one) simp
  moreover have "selection_range (dec n) minimum maximum = Inr (n, n, 1)"
    using assms by (intro selection_dec) simp
  ultimately show ?thesis using assms by (auto simp: select_def Let_def)
qed

lemma select_all_dec:
  assumes "index \<notin> {3, 4}" "maximum < 64" "\<forall>n \<in> set ns. minimum \<le> n \<and> n \<le> maximum" "distinct ns"
    and "\<forall>n \<in> set ns. \<not> bit (field_mask v) n"
  shows "\<exists>bits. select_all minimum maximum index v (map dec ns) = Inr (v\<lparr>field_mask := bits\<rparr>) \<and>
    (\<forall>b < 64. bit bits b \<longleftrightarrow> bit (field_mask v) b \<or> b \<in> set ns)"
  using assms(3-5)
proof (induction ns arbitrary: v)
  case Nil
  then show ?case by (intro exI [of _ "field_mask v"]) simp
next
  case (Cons n ns)
  let ?w = "v\<lparr>field_mask := field_mask v OR push_bit n 1\<rparr>"
  have step: "select minimum maximum index v (dec n) = Inr ?w"
    using Cons.prems assms by (simp add: select_dec)
  have n: "n < 64" using Cons.prems(1) assms(2) by auto
  have bits: "bit (field_mask ?w) b \<longleftrightarrow> bit (field_mask v) b \<or> b = n" if "b < 64" for b
    using that n by (auto simp: bit_or_iff bit_exp_iff)
  have "\<forall>m \<in> set ns. \<not> bit (field_mask ?w) m"
  proof
    fix m assume m: "m \<in> set ns"
    then have "m < 64" "m \<noteq> n" using Cons.prems assms(2) by auto
    with bits [of m] Cons.prems(3) m show "\<not> bit (field_mask ?w) m" by simp
  qed
  with Cons.IH [of ?w] Cons.prems obtain bs where
    "select_all minimum maximum index ?w (map dec ns) = Inr (?w\<lparr>field_mask := bs\<rparr>)"
    "\<forall>b < 64. bit bs b \<longleftrightarrow> bit (field_mask ?w) b \<or> b \<in> set ns" by auto
  with step bits show ?case by (intro exI [of _ bs]) auto
qed

lemma join_set: "c \<in> set (join_on d ps) \<Longrightarrow> c = d \<or> (\<exists>p \<in> set ps. c \<in> set p)"
  by (induction d ps rule: join_on.induct) auto

text \<open>
  A non-empty list of distinct minutes, hours or days of the month in range, written in decimal and
  joined by commas, is read as the field that selects exactly them. Months also have names, and of the
  weekdays 0 and 7 are one day, so that their lists are another matter.
\<close>
theorem field_list_roundtrip:
  assumes "index \<notin> {3, 4}" "maximum < 64" "ns \<noteq> []" "distinct ns" "\<forall>n \<in> set ns. minimum \<le> n \<and> n \<le> maximum"
  shows "\<exists>v. parse_field (join_on CHR '','' (map dec ns)) minimum maximum index = Inr v \<and>
    (\<forall>b < 64. contains (field_mask v) b \<longleftrightarrow> b \<in> set ns) \<and> \<not> field_wildcard v \<and> \<not> field_last v \<and>
    field_last_weekday v = 0 \<and> field_nth v = 0"
proof -
  let ?text = "join_on CHR '','' (map dec ns)"
  have chars: "ascii_digit c \<or> c = CHR '',''" if "c \<in> set ?text" for c
    using join_set [OF that] dec_set by auto
  have plain: "c \<notin> set ?text" if "\<not> ascii_digit c" "c \<noteq> CHR '',''" for c
    using chars that by blast
  have no_hash: "CHR ''#'' \<notin> set ?text" "CHR ''*'' \<notin> set ?text" "CHR ''?'' \<notin> set ?text"
    by (rule plain; simp add: ascii_digit_def)+
  then have "?text \<noteq> ''*''" "?text \<noteq> ''?''" by fastforce+
  moreover have parts: "split_on CHR '','' ?text = map dec ns"
    using assms(3) by (intro split_on_join) (auto dest: dec_set simp: ascii_digit_def)
  moreover obtain bs where bs: "select_all minimum maximum index
      \<lparr>field_mask = 0, field_wildcard = False, field_last = False, field_last_weekday = 0, field_nth = 0\<rparr> (map dec ns) =
      Inr \<lparr>field_mask = bs, field_wildcard = False, field_last = False, field_last_weekday = 0, field_nth = 0\<rparr>"
    "\<forall>b < 64. bit bs b \<longleftrightarrow> b \<in> set ns"
    using select_all_dec [OF assms(1,2,5,4), of "\<lparr>field_mask = 0, field_wildcard = False, field_last = False,
      field_last_weekday = 0, field_nth = 0\<rparr>"] by auto
  moreover have "bs \<noteq> 0"
  proof
    assume "bs = 0"
    obtain n where n: "n \<in> set ns" using assms(3) by (cases ns) auto
    with assms(2,5) have "n < 64" by force
    with bs(2) n \<open>bs = 0\<close> show False by auto
  qed
  ultimately show ?thesis
    using assms(1) no_hash(1)
    by (simp add: parse_field_def field_text_def field_occurrence_def split_once_none contains_bit)
qed

theorem field_list_roundtrip_witness:
  "\<exists>v. parse_field ''5,17'' 0 59 0 = Inr v \<and> (\<forall>b < 64. contains (field_mask v) b \<longleftrightarrow> b \<in> {5, 17}) \<and>
     \<not> field_wildcard v \<and> \<not> field_last v \<and> field_last_weekday v = 0 \<and> field_nth v = 0"
proof -
  have "join_on CHR '','' (map dec [5, 17]) = ''5,17''" by code_simp
  with field_list_roundtrip [of 0 59 "[5, 17]" 0] show ?thesis by simp
qed


end
