(* ===== verification/Schedule.thy ===== *)
theory Schedule
  imports Schedule_Fields
begin

text \<open>
  Schedules: \<open>adapter-schedule/src/{time_zone,calendar,lib}.rs\<close>. A zone is what the native time zone
  database answers (\<open>tz\<close>): the offset in force at an instant and the instants at which a local time is
  shown. An instant of \<open>chrono\<close> is its milliseconds; a zoned time is an instant with its offset.
\<close>

section \<open>Time zones\<close>

record tz =
  tz_offset :: "int \<Rightarrow> int option"
  tz_find :: "int \<Rightarrow> (bool \<times> int list) option"

type_synonym zoned = "int \<times> int"

datatype local_result = NoTime | SingleTime zoned | AmbiguousTime zoned zoned

definition zone_failed :: failure where
  "zone_failed = failure_new Unavailable
     ''The selected native IANA timezone database is unavailable or invalid''"

definition zone_at :: "'d dates \<Rightarrow> tz \<Rightarrow> int \<Rightarrow> zoned result" where
  "zone_at D z instant =
     rbind (ok_or (tz_offset z (instant div 1000)) zone_failed) (\<lambda>seconds.
     if - 86400 < seconds \<and> seconds < 86400 then Inr (instant, seconds) else Inl zone_failed)"

definition earlier_of :: "zoned \<Rightarrow> zoned \<Rightarrow> zoned" where
  "earlier_of a b = (if fst b < fst a then b else a)"

definition later_of :: "zoned \<Rightarrow> zoned \<Rightarrow> zoned" where
  "later_of a b = (if fst a \<le> fst b then b else a)"

fun found_times :: "'d dates \<Rightarrow> tz \<Rightarrow> int \<Rightarrow> (zoned \<times> zoned) option \<Rightarrow> int list \<Rightarrow> (zoned \<times> zoned) option result" where
  "found_times D z millis acc [] = Inr acc"
| "found_times D z millis acc (unix # rest) =
     (let instant = unix * 1000 + millis in
      rbind (guard_r (instant_in_range D instant) zone_failed) (\<lambda>_.
      rbind (zone_at D z instant) (\<lambda>candidate.
      found_times D z millis
        (case acc of None \<Rightarrow> Some (candidate, candidate)
         | Some (early, late) \<Rightarrow> Some (earlier_of early candidate, later_of late candidate)) rest)))"

definition zone_local :: "'d dates \<Rightarrow> tz \<Rightarrow> int \<Rightarrow> local_result result" where
  "zone_local D z local =
     rbind (ok_or (tz_find z local) zone_failed) (\<lambda>(exhaustive, found).
     if \<not> exhaustive
     then Inl (calendar_invalid ''Timezone local-time multiplicity exceeds the accepted native database contract'')
     else rbind (found_times D z (local mod 1000) None found) (\<lambda>acc.
       case acc of
         None \<Rightarrow> Inr NoTime
       | Some (early, late) \<Rightarrow>
           Inr (if fst early = fst late then SingleTime early else AmbiguousTime early late)))"

text \<open>
  Zone names: a binary search of the sorted table without regard to case. The tables loaded so far
  are kept by canonical name; reading one from the database directory is an argument.
\<close>

fun binary_search :: "('a \<Rightarrow> int) \<Rightarrow> 'a list \<Rightarrow> nat \<Rightarrow> nat \<Rightarrow> nat \<Rightarrow> nat option" where
  "binary_search f xs lo hi 0 = None"
| "binary_search f xs lo hi (Suc fuel) =
     (if hi \<le> lo then None
      else
        let mid = lo + (hi - lo) div 2; c = f (xs ! mid) in
        if c = 0 then Some mid
        else if c < 0 then binary_search f xs (mid + 1) hi fuel
        else binary_search f xs lo mid fuel)"

fun compare_bytes :: "nat list \<Rightarrow> nat list \<Rightarrow> int" where
  "compare_bytes [] [] = 0"
| "compare_bytes [] (b # bs) = - 1"
| "compare_bytes (a # as) [] = 1"
| "compare_bytes (a # as) (b # bs) = (if a < b then - 1 else if b < a then 1 else compare_bytes as bs)"

definition lower_bytes :: "string \<Rightarrow> nat list" where
  "lower_bytes s = map (\<lambda>c. byte (ascii_lower c)) s"

definition zone_index :: "(string \<times> string) list \<Rightarrow> string \<Rightarrow> nat option" where
  "zone_index zones source =
     binary_search (\<lambda>(name, _). compare_bytes (lower_bytes name) (lower_bytes source)) zones 0 (length zones)
       (length zones)"

definition find_zone ::
  "(string \<times> string) list \<Rightarrow> (string \<Rightarrow> tz result) \<Rightarrow> string \<Rightarrow> ((string \<times> tz) list, failure, tz) op" where
  "find_zone zones read_zone source =
     (if source = [] \<or> length source > 100 \<or> \<not> list_all (\<lambda>c. byte c < 128) source
      then fail_op (calendar_invalid ''Choose an IANA time zone'')
      else case zone_index zones source of
          None \<Rightarrow> fail_op (calendar_invalid ''Unknown IANA time zone'')
        | Some i \<Rightarrow>
            let canonical = snd (zones ! i) in
            (\<lambda>loaded. case map_of loaded canonical of
               Some z \<Rightarrow> (Inr z, loaded)
             | None \<Rightarrow> (case read_zone canonical of
                 Inl e \<Rightarrow> (Inl e, loaded)
               | Inr z \<Rightarrow> (Inr z, (canonical, z) # loaded))))"

section \<open>Local times\<close>

fun earliest :: "local_result \<Rightarrow> zoned option" where
  "earliest NoTime = None"
| "earliest (SingleTime v) = Some v"
| "earliest (AmbiguousTime first second) = Some (earlier_of first second)"

definition shifted :: "'d dates \<Rightarrow> tz \<Rightarrow> int \<Rightarrow> zoned option result" where
  "shifted D z local =
     (if local_in_range D local then rbind (zone_local D z local) (\<lambda>r. Inr (earliest r)) else Inr None)"

definition unresolved_gap :: failure where
  "unresolved_gap = calendar_invalid ''Calendar time-zone gap cannot be resolved''"

fun gap_sides :: "'d dates \<Rightarrow> tz \<Rightarrow> int \<Rightarrow> zoned option \<Rightarrow> zoned option \<Rightarrow> nat list \<Rightarrow>
  (zoned option \<times> zoned option) result" where
  "gap_sides D z local before after [] = Inr (before, after)"
| "gap_sides D z local before after (hours # rest) =
     rbind (if before = None then shifted D z (local - int hours * 3600000) else Inr before) (\<lambda>before.
     rbind (if after = None then shifted D z (local + int hours * 3600000) else Inr after) (\<lambda>after.
     if before \<noteq> None \<and> after \<noteq> None then Inr (before, after)
     else gap_sides D z local before after rest))"

definition resolve :: "'d dates \<Rightarrow> tz \<Rightarrow> int \<Rightarrow> zoned result" where
  "resolve D z local =
     rbind (zone_local D z local) (\<lambda>r.
     case earliest r of
       Some v \<Rightarrow> Inr v
     | None \<Rightarrow> rbind (gap_sides D z local None None [1..<50]) (\<lambda>sides.
         case sides of
           (Some before, Some after) \<Rightarrow>
             rbind (shifted D z (local + 1000 * (snd after - snd before))) (\<lambda>v. ok_or v unresolved_gap)
         | _ \<Rightarrow> Inl unresolved_gap))"

section \<open>The next occurrence\<close>

definition every_hour :: "calendar \<Rightarrow> bool" where
  "every_hour c \<longleftrightarrow> field_mask (cal_hour c) = 0xFFFFFF"

definition is_ambiguous :: "local_result \<Rightarrow> bool" where
  "is_ambiguous r = (case r of AmbiguousTime _ _ \<Rightarrow> True | _ \<Rightarrow> False)"

definition repeated_local :: "'d dates \<Rightarrow> tz \<Rightarrow> int \<Rightarrow> zoned \<Rightarrow> bool result" where
  "repeated_local D z local zoned =
     rbind (zone_local D z local) (\<lambda>r. Inr (case r of
       AmbiguousTime first second \<Rightarrow> fst zoned = fst (later_of first second)
     | _ \<Rightarrow> False))"

definition candidate_time ::
  "'d dates \<Rightarrow> tz \<Rightarrow> calendar \<Rightarrow> int \<Rightarrow> zoned \<Rightarrow> int \<Rightarrow> 'd \<Rightarrow> nat \<Rightarrow> nat \<Rightarrow> int option result" where
  "candidate_time D z c after zoned local day hour minute =
     rbind (ok_or (local_at D day hour minute) (calendar_invalid ''Invalid calendar date'')) (\<lambda>candidate.
     rbind (zone_local D z candidate) (\<lambda>mapped.
     if candidate < local \<and> \<not> (is_ambiguous mapped \<and> every_hour c) then Inr None
     else
       rbind (resolve D z candidate) (\<lambda>value.
       rbind (repeated_local D z local zoned) (\<lambda>repeated.
       let value = (case mapped of
             AmbiguousTime first second \<Rightarrow>
               if (every_hour c \<or> day = local_date D local \<and> repeated) \<and> fst value \<le> after
               then later_of first second else value
           | _ \<Rightarrow> value)
       in
         if fst value \<le> after then Inr None
         else
           let resolved = local_date D (fst value + 1000 * snd value) in
           if resolved \<noteq> local_date D candidate
           then if \<not> contains (field_mask (cal_month c)) (date_month D resolved) then Inr None
                else rbind (matches_day D c resolved) (\<lambda>b. Inr (if b then Some (fst value) else None))
           else Inr (Some (fst value))))))"

definition least_time :: "int option \<Rightarrow> int option \<Rightarrow> int option" where
  "least_time a b = (case a of None \<Rightarrow> b
     | Some x \<Rightarrow> (case b of None \<Rightarrow> Some x | Some y \<Rightarrow> Some (min x y)))"

fun least_of :: "('a \<Rightarrow> int option result) \<Rightarrow> 'a list \<Rightarrow> int option \<Rightarrow> int option result" where
  "least_of f [] acc = Inr acc"
| "least_of f (x # xs) acc = rbind (f x) (\<lambda>t. least_of f xs (least_time acc t))"

definition day_time ::
  "'d dates \<Rightarrow> tz \<Rightarrow> calendar \<Rightarrow> int \<Rightarrow> zoned \<Rightarrow> int \<Rightarrow> 'd \<Rightarrow> int option result" where
  "day_time D z c after zoned local day =
     least_of (\<lambda>(hour, minute). candidate_time D z c after zoned local day hour minute)
       [(hour, minute). hour <- [0..<24], contains (field_mask (cal_hour c)) hour,
          minute <- [0..<60], contains (field_mask (cal_minute c)) minute] None"

definition no_next :: failure where
  "no_next = calendar_invalid ''The schedule has no next occurrence''"

definition time_on_day ::
  "'d dates \<Rightarrow> tz \<Rightarrow> calendar \<Rightarrow> int \<Rightarrow> zoned \<Rightarrow> int \<Rightarrow> 'd \<Rightarrow> int option result" where
  "time_on_day D z c after zoned local day =
     (if \<not> contains (field_mask (cal_month c)) (date_month D day) then Inr None
      else rbind (matches_day D c day) (\<lambda>b.
        if b then day_time D z c after zoned local day else Inr None))"

partial_function (option) search_days ::
  "'d dates \<Rightarrow> tz \<Rightarrow> calendar \<Rightarrow> int \<Rightarrow> zoned \<Rightarrow> int \<Rightarrow> int \<Rightarrow> 'd \<Rightarrow> int result option" where
  "search_days D z c after zoned local end_year day =
     (if date_year D day > end_year then Some (Inl no_next)
      else case time_on_day D z c after zoned local day of
          Inl e \<Rightarrow> Some (Inl e)
        | Inr (Some t) \<Rightarrow> Some (Inr t)
        | Inr None \<Rightarrow> (case date_succ D day of
            None \<Rightarrow> Some (Inl no_next)
          | Some day' \<Rightarrow> search_days D z c after zoned local end_year day'))"

definition time_range_exceeded :: failure where
  "time_range_exceeded = calendar_invalid ''Scheduling time exceeds the supported range''"

definition next_occurrence :: "'d dates \<Rightarrow> tz \<Rightarrow> calendar \<Rightarrow> int \<Rightarrow> int result option" where
  "next_occurrence D z c after =
     (if \<not> instant_in_range D after then Some (Inl (calendar_invalid ''Invalid scheduling time''))
      else case zone_at D z after of
          Inl e \<Rightarrow> Some (Inl e)
        | Inr zoned \<Rightarrow>
            let local = fst zoned + 1000 * snd zoned; day = local_date D local;
                end_year = date_year D day + 400
            in if \<not> (- (2 ^ 31) \<le> end_year \<and> end_year < 2 ^ 31) then Some (Inl time_range_exceeded)
               else search_days D z c after zoned local end_year day)"

definition next_calendar ::
  "'d dates \<Rightarrow> (string \<Rightarrow> tz result) \<Rightarrow> string \<Rightarrow> string \<Rightarrow> int \<Rightarrow> int result option" where
  "next_calendar D zone expression time_zone after =
     (let trimmed = encode_str (trim_whitespace (chars expression)) in
      if length trimmed > 200 then Some (Inl (calendar_invalid ''Calendar expression exceeds its size limit''))
      else case rbind (parse_calendar D trimmed) (\<lambda>c. rbind (zone time_zone) (\<lambda>z. Inr (c, z))) of
          Inl e \<Rightarrow> Some (Inl e)
        | Inr (c, z) \<Rightarrow> next_occurrence D z c after)"

section \<open>Schedules\<close>

datatype schedule = Interval int | Cron string string

definition maximum_time :: int where
  "maximum_time = 9007199254740991"

definition next_time ::
  "'d dates \<Rightarrow> (string \<Rightarrow> tz result) \<Rightarrow> schedule \<Rightarrow> int \<Rightarrow> int result option" where
  "next_time D zone schedule after =
     (if \<not> (0 \<le> after \<and> after \<le> maximum_time) then Some (Inl (calendar_invalid ''Invalid scheduling time''))
      else case schedule of
          Interval seconds \<Rightarrow>
            Some (if \<not> (1 \<le> seconds \<and> seconds \<le> 31536000)
              then Inl (calendar_invalid ''Interval must be between 1 second and 365 days'')
              else ok_or (opt_filter (\<lambda>t. t \<le> maximum_time) (checked_i64 (after + seconds * 1000)))
                time_range_exceeded)
        | Cron expression time_zone \<Rightarrow> next_calendar D zone expression time_zone after)"

end
