(* ===== verification/Schedule_Times.thy ===== *)
theory Schedule_Times
  imports Schedule
begin

text \<open>
  What the schedules promise: a time they name is later than the one asked about, it is the earliest
  minute that the five fields and the zone allow, and the search for it ends.
\<close>

section \<open>Every time found is later\<close>

lemma least_of_later:
  assumes "\<And>x t. x \<in> set xs \<Longrightarrow> f x = Inr (Some t) \<Longrightarrow> p t" and "case acc of None \<Rightarrow> True | Some a \<Rightarrow> p a"
    and "least_of f xs acc = Inr (Some t)"
  shows "p t"
  using assms
proof (induction xs arbitrary: acc)
  case Nil
  then show ?case by simp
next
  case (Cons x xs)
  from Cons.prems(3) obtain u where u: "f x = Inr u" "least_of f xs (least_time acc u) = Inr (Some t)"
    by (auto simp: op_iff)
  show ?case
  proof (rule Cons.IH [OF _ _ u(2)])
    show "\<And>x t. x \<in> set xs \<Longrightarrow> f x = Inr (Some t) \<Longrightarrow> p t" using Cons.prems(1) by auto
    show "case least_time acc u of None \<Rightarrow> True | Some a \<Rightarrow> p a"
      using Cons.prems(1) [of x] u(1) Cons.prems(2) by (auto simp: least_time_def min_def split: option.splits)
  qed
qed

lemma candidate_time_later:
  "candidate_time D z c after zoned local day hour minute = Inr (Some t) \<Longrightarrow> after < t"
  unfolding candidate_time_def Let_def by (auto simp: op_iff split: if_splits)

lemma time_on_day_later: "time_on_day D z c after zoned local day = Inr (Some t) \<Longrightarrow> after < t"
  unfolding time_on_day_def day_time_def
  by (auto simp: op_iff split: if_splits intro: candidate_time_later
      elim!: least_of_later [where p = "\<lambda>t. after < t", rotated 2])

text \<open>The days a successful search walks over.\<close>

inductive day_search :: "'d dates \<Rightarrow> ('d \<Rightarrow> int option result) \<Rightarrow> int \<Rightarrow> 'd \<Rightarrow> int \<Rightarrow> bool"
  for D f end_year where
  found: "date_year D day \<le> end_year \<Longrightarrow> f day = Inr (Some t) \<Longrightarrow> day_search D f end_year day t"
| skipped: "date_year D day \<le> end_year \<Longrightarrow> f day = Inr None \<Longrightarrow> date_succ D day = Some day' \<Longrightarrow>
    day_search D f end_year day' t \<Longrightarrow> day_search D f end_year day t"

lemma search_days_walk:
  assumes "search_days D z c after zoned local end_year day = Some (Inr t)"
  shows "day_search D (time_on_day D z c after zoned local) end_year day t"
proof -
  have "\<forall>t. r = Inr t \<longrightarrow> day_search D (time_on_day D z c after zoned local) end_year day t"
    if "search_days D z c after zoned local end_year day = Some r" for r
  proof (rule search_days.raw_induct [where P = "\<lambda>D z c after zoned local end_year day r.
      \<forall>t. r = Inr t \<longrightarrow> day_search D (time_on_day D z c after zoned local) end_year day t", OF _ that])
    fix search D z c after zoned local end_year day y
    assume 1: "\<And>D z c after zoned local end_year day y. search D z c after zoned local end_year day = Some y \<Longrightarrow>
        \<forall>t. y = Inr t \<longrightarrow> day_search D (time_on_day D z c after zoned local) end_year day t"
      "(if end_year < date_year D day then Some (Inl no_next)
        else case time_on_day D z c after zoned local day of
            Inl e \<Rightarrow> Some (Inl e)
          | Inr None \<Rightarrow> (case date_succ D day of None \<Rightarrow> Some (Inl no_next)
              | Some day' \<Rightarrow> search D z c after zoned local end_year day')
          | Inr (Some t) \<Rightarrow> Some (Inr t)) = Some y"
    show "\<forall>t. y = Inr t \<longrightarrow> day_search D (time_on_day D z c after zoned local) end_year day t"
    proof (intro allI impI)
      fix t assume y: "y = Inr t"
      with 1(2) have year: "date_year D day \<le> end_year" by (auto split: if_splits)
      show "day_search D (time_on_day D z c after zoned local) end_year day t"
      proof (cases "time_on_day D z c after zoned local day")
        case (Inl e)
        with 1(2) y year show ?thesis by simp
      next
        case (Inr u)
        show ?thesis
        proof (cases u)
          case (Some v)
          with 1(2) y year Inr show ?thesis by (auto intro: found)
        next
          case None
          with 1(2) year Inr y obtain day' where succ: "date_succ D day = Some day'"
            and rest: "search D z c after zoned local end_year day' = Some y"
            by (cases "date_succ D day") auto
          from 1(1) [OF rest] y have "day_search D (time_on_day D z c after zoned local) end_year day' t" by blast
          with year Inr None succ show ?thesis by (auto intro: skipped)
        qed
      qed
    qed
  qed
  with assms show ?thesis by blast
qed

lemma day_search_later:
  "day_search D (time_on_day D z c after zoned local) end_year day t \<Longrightarrow> after < t"
  by (induction rule: day_search.induct) (auto dest: time_on_day_later)

text \<open>
  C33: A scheduled time is always in the future: whatever the schedule, the zone and the calendar, a time
  that is computed lies strictly after the given one, and an interval's lies exactly the interval later.
\<close>
theorem next_time_later:
  assumes "next_time D zone schedule after = Some (Inr t)"
  shows "after < t \<and> (\<forall>seconds. schedule = Interval seconds \<longrightarrow> t = after + seconds * 1000 \<and> t \<le> maximum_time)"
proof (cases schedule)
  case (Interval seconds)
  with assms show ?thesis
    by (auto simp: next_time_def op_iff checked_i64_def split: if_splits)
next
  case (Cron expression time_zone)
  with assms have "next_calendar D zone expression time_zone after = Some (Inr t)"
    by (auto simp: next_time_def split: if_splits)
  then have "after < t"
    by (auto simp: next_calendar_def next_occurrence_def Let_def dest!: search_days_walk day_search_later
        split: if_splits sum.splits)
  with Cron show ?thesis by simp
qed

section \<open>Zones of one offset\<close>

text \<open>What the date type answers: days are numbered, a day has 24 hours and a year at most 366 days.\<close>

locale civil_dates =
  fixes D :: "'d dates" and idx :: "'d \<Rightarrow> int"
  assumes idx_succ: "date_succ D d = Some d' \<Longrightarrow> idx d' = idx d + 1"
    and idx_inj: "idx d = idx d' \<Longrightarrow> d = d'"
    and idx_local: "idx (local_date D l) = l div 86400000"
    and local_at_time: "h < 24 \<Longrightarrow> m < 60 \<Longrightarrow> local_at D d h m = Some l \<Longrightarrow>
      l = idx d * 86400000 + int h * 3600000 + int m * 60000"
    and year_days: "idx d + 366 * int k \<le> idx d' \<Longrightarrow> date_year D d + int k \<le> date_year D d'"

definition fixed_zone :: "tz \<Rightarrow> int \<Rightarrow> bool" where
  "fixed_zone z off \<longleftrightarrow> - 86400 < off \<and> off < 86400 \<and> (\<forall>s. tz_offset z s = Some off) \<and>
     (\<forall>l. tz_find z l = Some (True, [l div 1000 - off]))"

definition occurs :: "'d dates \<Rightarrow> calendar \<Rightarrow> int \<Rightarrow> int \<Rightarrow> bool" where
  "occurs D c off u \<longleftrightarrow> (let l = u + 1000 * off; d = local_date D l in
     l mod 60000 = 0 \<and> contains (field_mask (cal_month c)) (date_month D d) \<and>
     matches_day D c d = Inr True \<and>
     contains (field_mask (cal_hour c)) (nat (l mod 86400000 div 3600000)) \<and>
     contains (field_mask (cal_minute c)) (nat (l div 60000 mod 60)))"

lemma fixed_zone_local:
  "fixed_zone z off \<Longrightarrow> zone_local D z l =
     (if instant_in_range D (l - 1000 * off) then Inr (SingleTime (l - 1000 * off, off)) else Inl zone_failed)"
proof -
  assume z: "fixed_zone z off"
  have "(l div 1000 - off) * 1000 + l mod 1000 = l - 1000 * off"
    using div_mult_mod_eq [of l 1000] by (simp add: algebra_simps)
  with z show ?thesis
    by (simp add: zone_local_def zone_at_def fixed_zone_def Let_def guard_r_def
        del: left_diff_distrib_numeral)
qed

lemma fixed_candidate:
  assumes z: "fixed_zone z off" and at: "local_at D day h m = Some cand"
    and run: "candidate_time D z c after (after, off) (after + 1000 * off) day h m = Inr r"
  shows "r = (if cand \<le> after + 1000 * off then None else Some (cand - 1000 * off))"
  using run unfolding candidate_time_def at resolve_def repeated_local_def fixed_zone_local [OF z]
  by (auto simp: is_ambiguous_def op_iff Let_def split: if_splits)

lemma least_of_ok: "least_of f xs acc = Inr r \<Longrightarrow> x \<in> set xs \<Longrightarrow> \<exists>u. f x = Inr u"
  by (induction xs arbitrary: acc) (auto simp: op_iff)

lemma least_of_least:
  assumes "least_of f xs acc = Inr r"
  shows "(\<forall>x \<in> set xs. \<forall>u. f x = Inr (Some u) \<longrightarrow> (\<exists>t \<le> u. r = Some t)) \<and>
    (\<forall>u. acc = Some u \<longrightarrow> (\<exists>t \<le> u. r = Some t)) \<and>
    (\<forall>t. r = Some t \<longrightarrow> acc = Some t \<or> (\<exists>x \<in> set xs. f x = Inr (Some t)))"
  using assms
proof (induction xs arbitrary: acc)
  case Nil
  then show ?case by auto
next
  case (Cons x xs)
  from Cons.prems obtain u where u: "f x = Inr u" "least_of f xs (least_time acc u) = Inr r"
    by (auto simp: op_iff)
  have le: "(\<forall>a. acc = Some a \<longrightarrow> (\<exists>b \<le> a. least_time acc u = Some b)) \<and>
      (\<forall>a. u = Some a \<longrightarrow> (\<exists>b \<le> a. least_time acc u = Some b)) \<and>
      (\<forall>b. least_time acc u = Some b \<longrightarrow> acc = Some b \<or> u = Some b)"
    by (auto simp: least_time_def min_def split: option.splits)
  from Cons.IH [OF u(2)] le u(1) show ?case by (fastforce intro: order_trans)
qed

context civil_dates
begin

lemma local_parts:
  assumes "h < 24" "m < 60" and l_def: "l = idx d * 86400000 + int h * 3600000 + int m * 60000"
  shows "local_date D l = d" "l mod 60000 = 0" "nat (l mod 86400000 div 3600000) = h" "nat (l div 60000 mod 60) = m"
proof -
  have "l div 86400000 = idx d" using assms by (simp add: l_def)
  then show "local_date D l = d" using idx_inj idx_local by metis
  show "l mod 60000 = 0" by (simp add: l_def)
  have "l mod 86400000 = (int h * 3600000 + int m * 60000) mod 86400000"
    unfolding l_def add.assoc by (rule mod_mult_self3)
  also have "\<dots> = int h * 3600000 + int m * 60000"
    using assms by (intro mod_pos_pos_trivial) auto
  finally have "l mod 86400000 = int h * 3600000 + int m * 60000" .
  then show "nat (l mod 86400000 div 3600000) = h" using assms by simp
  have "l div 60000 = (idx d * 24 + int h) * 60 + int m" by (simp add: l_def)
  then have "l div 60000 mod 60 = int m mod 60" by (simp only: mod_mult_self3)
  then show "nat (l div 60000 mod 60) = m" using assms by simp
qed

lemma local_from_parts:
  assumes "l mod 60000 = (0::int)"
  shows "l = l div 86400000 * 86400000 + l mod 86400000 div 3600000 * 3600000 + l div 60000 mod 60 * 60000"
    "0 \<le> l mod 86400000 div 3600000" "l mod 86400000 div 3600000 < 24"
    "0 \<le> l div 60000 mod 60" "l div 60000 mod 60 < 60"
proof -
  obtain k where k: "l = k * 60000" using assms by (metis mod_0_imp_dvd dvdE mult.commute)
  have parts: "l div 86400000 = k div 1440" "l mod 86400000 div 3600000 = k mod 1440 div 60" "l div 60000 = k"
    using div_mult_mult2 [of 60000 k 1440] mod_mult_mult2 [of k 60000 1440]
      div_mult_mult2 [of 60000 "k mod 1440" 60] by (simp_all add: k)
  have "k mod 1440 mod 60 = k mod 60" by (rule mod_mod_cancel) simp
  then have "k = k div 1440 * 1440 + k mod 1440 div 60 * 60 + k mod 60"
    using div_mult_mod_eq [of k 1440] div_mult_mod_eq [of "k mod 1440" 60] by linarith
  then show "l = l div 86400000 * 86400000 + l mod 86400000 div 3600000 * 3600000 + l div 60000 mod 60 * 60000"
    unfolding parts by (simp add: k)
qed (simp_all)

text \<open>The times found on one day are the occurrences of that day.\<close>

lemma times_of_day:
  assumes z: "fixed_zone z off"
    and run: "time_on_day D z c after (after, off) (after + 1000 * off) day = Inr r"
  shows "(\<forall>t. r = Some t \<longrightarrow> after < t \<and> occurs D c off t \<and> idx (local_date D (t + 1000 * off)) = idx day) \<and>
    (\<forall>u. after < u \<longrightarrow> occurs D c off u \<longrightarrow> idx (local_date D (u + 1000 * off)) = idx day \<longrightarrow> (\<exists>t \<le> u. r = Some t))"
proof (cases "contains (field_mask (cal_month c)) (date_month D day) \<and> matches_day D c day = Inr True")
  case False
  with run have "r = None" by (auto simp: time_on_day_def op_iff split: if_splits)
  moreover have "\<not> occurs D c off u" if "idx (local_date D (u + 1000 * off)) = idx day" for u
    using False idx_inj [OF that] by (auto simp: occurs_def Let_def)
  ultimately show ?thesis by auto
next
  case True
  define f where "f = (\<lambda>(hour, minute). candidate_time D z c after (after, off) (after + 1000 * off) day hour minute)"
  define xs where "xs = [(hour, minute). hour <- [0..<24], contains (field_mask (cal_hour c)) hour,
    minute <- [0..<60], contains (field_mask (cal_minute c)) minute]"
  from True run have least: "least_of f xs None = Inr r"
    by (simp add: time_on_day_def day_time_def f_def xs_def)
  have xs: "(h, m) \<in> set xs \<longleftrightarrow> h < 24 \<and> m < 60 \<and> contains (field_mask (cal_hour c)) h \<and>
      contains (field_mask (cal_minute c)) m" for h m
    by (auto simp: xs_def)
  have at: "\<exists>l. local_at D day h m = Some l" if "(h, m) \<in> set xs" for h m
    using least_of_ok [OF least that] by (cases "local_at D day h m") (auto simp: f_def candidate_time_def)
  have time: "f (h, m) = Inr (if idx day * 86400000 + int h * 3600000 + int m * 60000 \<le> after + 1000 * off then None
      else Some (idx day * 86400000 + int h * 3600000 + int m * 60000 - 1000 * off))" if hm: "(h, m) \<in> set xs" for h m
  proof -
    from at [OF hm] obtain l where l: "local_at D day h m = Some l" by blast
    with local_at_time hm xs have "l = idx day * 86400000 + int h * 3600000 + int m * 60000" by blast
    moreover obtain u where u: "f (h, m) = Inr u" using least_of_ok [OF least hm] by blast
    ultimately show ?thesis using fixed_candidate [OF z l u [unfolded f_def prod.case]] by simp
  qed
  note found = least_of_least [OF least]
  have "after < t \<and> occurs D c off t \<and> idx (local_date D (t + 1000 * off)) = idx day" if "r = Some t" for t
  proof -
    from found that obtain h m where hm: "(h, m) \<in> set xs" "f (h, m) = Inr (Some t)" by auto
    with time [OF hm(1)] have t: "after < t" "t + 1000 * off = idx day * 86400000 + int h * 3600000 + int m * 60000"
      by (auto split: if_splits)
    define l where "l = t + 1000 * off"
    from hm(1) have h: "h < 24" "m < 60" "contains (field_mask (cal_hour c)) h" "contains (field_mask (cal_minute c)) m"
      unfolding xs by blast+
    note parts = local_parts [OF h(1,2) t(2) [folded l_def]]
    have "occurs D c off t"
      unfolding occurs_def Let_def l_def [symmetric] parts using True h(3,4) by blast
    with t(1) show ?thesis unfolding l_def [symmetric] parts(1) by blast
  qed
  moreover have "\<exists>t \<le> u. r = Some t" if u: "after < u" "occurs D c off u" "idx (local_date D (u + 1000 * off)) = idx day" for u
  proof -
    define l where "l = u + 1000 * off"
    from u(2) have l: "l mod 60000 = 0" "contains (field_mask (cal_hour c)) (nat (l mod 86400000 div 3600000))"
      "contains (field_mask (cal_minute c)) (nat (l div 60000 mod 60))"
      unfolding occurs_def Let_def l_def by blast+
    note p = local_from_parts [OF l(1)]
    let ?h = "nat (l mod 86400000 div 3600000)" and ?m = "nat (l div 60000 mod 60)"
    have "?h < 24" "?m < 60" using p(3,5) by linarith+
    with l(2,3) have hm: "(?h, ?m) \<in> set xs" unfolding xs by blast
    have "int ?h = l mod 86400000 div 3600000" "int ?m = l div 60000 mod 60" using p(2,4) by simp_all
    moreover have "l div 86400000 = idx day" using u(3) unfolding idx_local l_def [symmetric] .
    ultimately have sum: "idx day * 86400000 + int ?h * 3600000 + int ?m * 60000 = l" using p(1) by linarith
    have "\<not> l \<le> after + 1000 * off" "l - 1000 * off = u" using u(1) by (simp_all add: l_def)
    with time [OF hm, unfolded sum] have "f (?h, ?m) = Inr (Some u)" by presburger
    with found hm show ?thesis by blast
  qed
  ultimately show ?thesis by blast
qed

lemma search_exact:
  assumes z: "fixed_zone z off"
    and "day_search D (time_on_day D z c after (after, off) (after + 1000 * off)) end_year day t"
  shows "after < t \<and> occurs D c off t \<and>
    (\<forall>u. after < u \<longrightarrow> u < t \<longrightarrow> idx day \<le> idx (local_date D (u + 1000 * off)) \<longrightarrow> \<not> occurs D c off u)"
  using assms(2)
proof (induction rule: day_search.induct)
  case (found day t)
  from times_of_day [OF z found(2)] have t: "after < t" "occurs D c off t"
    "idx (local_date D (t + 1000 * off)) = idx day" and
    least: "\<And>u. after < u \<Longrightarrow> occurs D c off u \<Longrightarrow> idx (local_date D (u + 1000 * off)) = idx day \<Longrightarrow> t \<le> u" by auto
  have "\<not> occurs D c off u" if "after < u" "u < t" "idx day \<le> idx (local_date D (u + 1000 * off))" for u
  proof -
    have "idx (local_date D (u + 1000 * off)) \<le> idx (local_date D (t + 1000 * off))"
      using that(2) by (simp add: idx_local zdiv_mono1)
    with that t(3) least [of u] show ?thesis by force
  qed
  with t show ?case by blast
next
  case (skipped day day' t)
  from times_of_day [OF z skipped(2)] have
    none: "\<And>u. after < u \<Longrightarrow> occurs D c off u \<Longrightarrow> idx (local_date D (u + 1000 * off)) \<noteq> idx day" by auto
  from idx_succ [OF skipped(3)] skipped.IH none show ?case by force
qed

end

text \<open>
  C31: In a zone of one offset the next occurrence is exact: it is an occurrence of the expression, it lies
  after the given time, and no occurrence in between is missed.
\<close>
theorem next_occurrence_exact:
  assumes "civil_dates D idx" "fixed_zone z off"
    and "next_occurrence D z c after = Some (Inr t)"
  shows "after < t \<and> occurs D c off t \<and> (\<forall>u. after < u \<longrightarrow> u < t \<longrightarrow> \<not> occurs D c off u)"
proof -
  from assms(2,3) have run: "search_days D z c after (after, off) (after + 1000 * off)
      (date_year D (local_date D (after + 1000 * off)) + 400) (local_date D (after + 1000 * off)) = Some (Inr t)"
    by (auto simp: next_occurrence_def zone_at_def fixed_zone_def Let_def split: if_splits)
  from civil_dates.search_exact [OF assms(1,2) search_days_walk [OF run]] have
    t: "after < t" "occurs D c off t" and
    none: "\<And>u. after < u \<Longrightarrow> u < t \<Longrightarrow> idx (local_date D (after + 1000 * off)) \<le> idx (local_date D (u + 1000 * off)) \<Longrightarrow>
      \<not> occurs D c off u" by blast+
  have "idx (local_date D (after + 1000 * off)) \<le> idx (local_date D (u + 1000 * off))" if "after < u" for u
    using that by (simp add: civil_dates.idx_local [OF assms(1)] zdiv_mono1)
  with t none show ?thesis by blast
qed

section \<open>The search ends\<close>

declare search_days.simps [code]

context civil_dates
begin

lemma search_returns:
  assumes "end_year < date_year D d0 + int k"
  shows "\<exists>r. search_days D z c after zoned local end_year day = Some r"
proof (induction "nat (idx d0 + 366 * int k - idx day)" arbitrary: day rule: less_induct)
  case less
  show ?case
  proof (cases "date_year D day > end_year")
    case True
    then show ?thesis by (subst search_days.simps) simp
  next
    case False
    with assms year_days [of d0 k day] have room: "idx day < idx d0 + 366 * int k" by force
    have "\<exists>r. search_days D z c after zoned local end_year day' = Some r" if "date_succ D day = Some day'" for day'
      using less [of day'] idx_succ [OF that] room by simp
    then show ?thesis
      by (subst search_days.simps) (auto split: sum.splits option.splits)
  qed
qed

end

text \<open>
  C32: Computing the next time always returns, with a time or with an error: the search over the days ends,
  for every expression, zone and calendar whose years have at most 366 days.
\<close>
theorem next_time_returns:
  assumes "civil_dates D idx"
  shows "\<exists>r. next_time D zone schedule after = Some r"
proof -
  have "\<exists>r. search_days D z c after' zoned local end_year day = Some r" for z c after' zoned local end_year day
    by (rule civil_dates.search_returns [OF assms, of end_year day "nat (end_year - date_year D day + 1)"]) auto
  then have "\<exists>r. next_occurrence D z c after' = Some r" for z c after'
    by (auto simp: next_occurrence_def Let_def split: sum.splits)
  then show ?thesis
    by (auto simp: next_time_def next_calendar_def Let_def split: schedule.splits sum.splits)
qed

section \<open>The calendar of the kernel\<close>

text \<open>
  The civil calendar of \<open>kernel/src/time.rs\<close>, by day numbers from 1970, answers as the date type does.
\<close>

definition gregorian :: "int dates" where
  "gregorian = \<lparr>
     from_ymd = (\<lambda>y m d. let n = civil_millis y (int m) (int d) 0 0 0 0 div 86400000 in
       if year_of (n + 719468) = y \<and> month_of (n + 719468) = int m \<and> day_of (n + 719468) = int d
       then Some n else None),
     date_year = (\<lambda>n. year_of (n + 719468)),
     date_month = (\<lambda>n. nat (month_of (n + 719468))),
     date_day = (\<lambda>n. nat (day_of (n + 719468))),
     date_weekday = (\<lambda>n. nat ((n + 4) mod 7)),
     date_succ = (\<lambda>n. Some (n + 1)),
     local_date = (\<lambda>l. l div 86400000),
     local_at = (\<lambda>n h m. if h < 24 \<and> m < 60 then Some (n * 86400000 + int h * 3600000 + int m * 60000) else None),
     local_in_range = (\<lambda>_. True),
     instant_in_range = (\<lambda>_. True)\<rparr>"

text \<open>\<open>march y\<close> is the day on which the year of \<open>y\<close> that begins in March starts.\<close>

definition march :: "int \<Rightarrow> int" where
  "march y = 365 * y + y div 4 - y div 100 + y div 400"

lemma div_step:
  assumes "0 < (n::int)"
  shows "(x + 1) div n = x div n + (if n dvd x + 1 then 1 else 0)"
proof (cases "x mod n + 1 = n")
  case True
  moreover have "n * (x div n + 1) = n * (x div n) + n" by (simp add: distrib_left)
  ultimately have e: "x + 1 = n * (x div n + 1)" using mult_div_mod_eq [of n x] by linarith
  then show ?thesis using assms by (simp add: e)
next
  case False
  have r: "0 \<le> x mod n + 1" "x mod n + 1 < n"
    using False pos_mod_bound [OF assms, of x] pos_mod_sign [OF assms, of x] by auto
  have e: "x + 1 = n * (x div n) + (x mod n + 1)" by simp
  have d: "(x + 1) div n = x div n" by (rule int_div_pos_eq [OF e r])
  have "(x + 1) mod n = x mod n + 1" by (rule int_mod_pos_eq [OF e r])
  with d show ?thesis using pos_mod_sign [OF assms, of x] by (auto simp: dvd_eq_mod_eq_0)
qed

lemma march_step: "march y + 365 \<le> march (y + 1) \<and> march (y + 1) \<le> march y + 366"
proof -
  have "(100::int) dvd y + 1 \<Longrightarrow> 4 dvd y + 1" "(400::int) dvd y + 1 \<Longrightarrow> 100 dvd y + 1"
    by (erule dvd_trans [rotated], simp)+
  then show ?thesis by (auto simp: march_def div_step)
qed

lemma march_steps: "march y + 365 * int k \<le> march (y + int k) \<and> march (y + int k) \<le> march y + 366 * int k"
proof (induction k)
  case 0
  show ?case by simp
next
  case (Suc k)
  have "y + int (Suc k) = y + int k + 1" by simp
  moreover have "int (Suc k) = int k + 1" by simp
  ultimately show ?case using Suc march_step [of "y + int k"] by (simp only: distrib_left) linarith
qed

lemma march_mono: "y < y' \<Longrightarrow> march y < march y'"
  using march_steps [of y "nat (y' - y)"] by simp

lemma march_era:
  assumes "0 \<le> y" "y \<le> 399"
  shows "march (y + e * 400) = year_start y + e * 146097"
proof -
  have split: "y + e * 400 = y + (e * 100) * 4" "y + e * 400 = y + (e * 4) * 100" by linarith+
  have d4: "(y + e * 400) div 4 = e * 100 + y div 4"
    unfolding split(1) by (rule div_mult_self1) simp
  have d100: "(y + e * 400) div 100 = e * 4 + y div 100"
    unfolding split(2) by (rule div_mult_self1) simp
  have d400: "(y + e * 400) div 400 = e + y div 400"
    by (rule div_mult_self1) simp
  have zero: "y div 400 = 0" using assms by (intro div_pos_pos_trivial) auto
  show ?thesis unfolding march_def year_start_def d4 d100 d400 zero by (simp add: distrib_left)
qed

lemma march_year:
  "march (era_year_of n + era_of n * 400) \<le> n \<and> n \<le> march (era_year_of n + era_of n * 400) + 365 \<and>
   n = march (era_year_of n + era_of n * 400) + year_day_of n"
proof -
  have "march (era_year_of n + era_of n * 400) = year_start (era_year_of n) + era_of n * 146097"
    using era_year_of_range [of n] by (intro march_era) auto
  moreover have "n = era_of n * 146097 + n mod 146097"
    unfolding era_of_def by (rule div_mult_mod_eq [symmetric])
  moreover have "n mod 146097 = year_start (era_year_of n) + year_day_of n" by (simp add: year_day_of_def)
  ultimately have "n = march (era_year_of n + era_of n * 400) + year_day_of n" by linarith
  with year_day_of_range [of n] show ?thesis by linarith
qed

lemma year_of_march:
  "march (year_of n - 1) + 306 \<le> n \<and> n < march (year_of n) + 306"
proof -
  let ?Y = "era_year_of n + era_of n * 400"
  have "(5 * d + 2) div 153 < 10 \<longleftrightarrow> d < 306" for d :: int
    using div_bounds [of 153 "5 * d + 2"] by linarith
  then have month: "month_of n \<le> 2 \<longleftrightarrow> \<not> year_day_of n < 306"
    using phase_of_range [of n] by (auto simp: month_of_def phase_of_def)
  note m = march_year [of n]
  show ?thesis
  proof (cases "year_day_of n < 306")
    case True
    with month have "year_of n = ?Y" by (simp add: year_of_def)
    with True m march_step [of "?Y - 1"] show ?thesis by simp
  next
    case False
    with month have "year_of n = ?Y + 1" by (simp add: year_of_def)
    with False m march_step [of ?Y] show ?thesis by simp
  qed
qed

interpretation kernel: civil_dates gregorian "\<lambda>n. n"
proof
  fix d d' :: int and k
  assume far: "d + 366 * int k \<le> d'"
  let ?n = "d + 719468" and ?n' = "d' + 719468"
  show "date_year gregorian d + int k \<le> date_year gregorian d'"
  proof (rule ccontr)
    assume "\<not> date_year gregorian d + int k \<le> date_year gregorian d'"
    then have "year_of ?n' \<le> year_of ?n - 1 + int k" by (simp add: gregorian_def)
    then have "march (year_of ?n') \<le> march (year_of ?n - 1 + int k)"
      using march_mono by (metis order_le_less)
    with march_steps [of "year_of ?n - 1" k] year_of_march [of ?n] year_of_march [of ?n'] far
    show False by linarith
  qed
qed (auto simp: gregorian_def split: if_splits)

definition utc :: tz where
  "utc = \<lparr>tz_offset = (\<lambda>_. Some 0), tz_find = (\<lambda>l. Some (True, [l div 1000]))\<rparr>"

definition paris :: tz where
  "paris = \<lparr>tz_offset = (\<lambda>_. Some 3600), tz_find = (\<lambda>l. Some (True, [l div 1000 - 3600]))\<rparr>"

lemma paris_fixed: "fixed_zone paris 3600"
  by (simp add: fixed_zone_def paris_def)

definition any_value :: "64 word \<Rightarrow> field" where
  "any_value values = \<lparr>field_mask = values, field_wildcard = True,
     field_last = False, field_last_weekday = 0, field_nth = 0\<rparr>"

definition one_value :: "64 word \<Rightarrow> field" where
  "one_value v = \<lparr>field_mask = v, field_wildcard = False, field_last = False,
     field_last_weekday = 0, field_nth = 0\<rparr>"

text \<open>Midnight of every first of January.\<close>

definition new_year :: calendar where
  "new_year = \<lparr>cal_minute = one_value 1, cal_hour = one_value 1, cal_day = one_value 2,
     cal_month = one_value 2, cal_weekday = any_value 0x7F\<rparr>"

theorem next_occurrence_exact_witness:
  "(- 3600001::int) < - 3600000 \<and> occurs gregorian new_year 3600 (- 3600000) \<and>
   \<not> (\<exists>u. - 3600001 < u \<and> u < - 3600000 \<and> occurs gregorian new_year 3600 u)"
proof -
  have "next_occurrence gregorian paris new_year (- 3600001) = Some (Inr (- 3600000))"
    by code_simp
  from next_occurrence_exact [OF kernel.civil_dates_axioms paris_fixed this] show ?thesis by auto
qed

theorem next_time_returns_witness:
  "\<exists>r. next_time gregorian (\<lambda>_. Inr utc) (Cron ''0 0 30 2 *'' ''UTC'') 0 = Some r"
  by (rule next_time_returns [OF kernel.civil_dates_axioms])

theorem next_time_later_witness:
  "(5::int) < 60005 \<and> (60005::int) = 5 + 60 * 1000 \<and> (60005::int) \<le> maximum_time"
proof -
  have "next_time gregorian (\<lambda>_. Inr utc) (Interval 60) 5 = Some (Inr 60005)" by code_simp
  from next_time_later [OF this] show ?thesis by simp
qed

end
