(* ===== verification/Schedule_Zones.thy ===== *)
theory Schedule_Zones
  imports Schedule
begin

text \<open>
  The table of time zones: \<open>adapter-schedule/src/zones.rs\<close>, every name with the canonical zone whose data
  is read for it, and the search of it by \<open>time_zone.rs\<close>.
\<close>

section \<open>The table\<close>

definition zones_1 :: "(string \<times> string) list" where
  "zones_1 = [
     (''Africa/Abidjan'', ''Africa/Abidjan''),
     (''Africa/Accra'', ''Africa/Abidjan''),
     (''Africa/Addis_Ababa'', ''Africa/Nairobi''),
     (''Africa/Algiers'', ''Africa/Algiers''),
     (''Africa/Asmara'', ''Africa/Nairobi''),
     (''Africa/Asmera'', ''Africa/Nairobi''),
     (''Africa/Bamako'', ''Africa/Abidjan''),
     (''Africa/Bangui'', ''Africa/Lagos''),
     (''Africa/Banjul'', ''Africa/Abidjan''),
     (''Africa/Bissau'', ''Africa/Bissau''),
     (''Africa/Blantyre'', ''Africa/Maputo''),
     (''Africa/Brazzaville'', ''Africa/Lagos''),
     (''Africa/Bujumbura'', ''Africa/Maputo''),
     (''Africa/Cairo'', ''Africa/Cairo''),
     (''Africa/Casablanca'', ''Africa/Casablanca''),
     (''Africa/Ceuta'', ''Africa/Ceuta''),
     (''Africa/Conakry'', ''Africa/Abidjan''),
     (''Africa/Dakar'', ''Africa/Abidjan''),
     (''Africa/Dar_es_Salaam'', ''Africa/Nairobi''),
     (''Africa/Djibouti'', ''Africa/Nairobi''),
     (''Africa/Douala'', ''Africa/Lagos''),
     (''Africa/El_Aaiun'', ''Africa/El_Aaiun''),
     (''Africa/Freetown'', ''Africa/Abidjan''),
     (''Africa/Gaborone'', ''Africa/Maputo''),
     (''Africa/Harare'', ''Africa/Maputo''),
     (''Africa/Johannesburg'', ''Africa/Johannesburg''),
     (''Africa/Juba'', ''Africa/Juba''),
     (''Africa/Kampala'', ''Africa/Nairobi''),
     (''Africa/Khartoum'', ''Africa/Khartoum''),
     (''Africa/Kigali'', ''Africa/Maputo'')]"

definition zones_2 :: "(string \<times> string) list" where
  "zones_2 = [
     (''Africa/Kinshasa'', ''Africa/Lagos''),
     (''Africa/Lagos'', ''Africa/Lagos''),
     (''Africa/Libreville'', ''Africa/Lagos''),
     (''Africa/Lome'', ''Africa/Abidjan''),
     (''Africa/Luanda'', ''Africa/Lagos''),
     (''Africa/Lubumbashi'', ''Africa/Maputo''),
     (''Africa/Lusaka'', ''Africa/Maputo''),
     (''Africa/Malabo'', ''Africa/Lagos''),
     (''Africa/Maputo'', ''Africa/Maputo''),
     (''Africa/Maseru'', ''Africa/Johannesburg''),
     (''Africa/Mbabane'', ''Africa/Johannesburg''),
     (''Africa/Mogadishu'', ''Africa/Nairobi''),
     (''Africa/Monrovia'', ''Africa/Monrovia''),
     (''Africa/Nairobi'', ''Africa/Nairobi''),
     (''Africa/Ndjamena'', ''Africa/Ndjamena''),
     (''Africa/Niamey'', ''Africa/Lagos''),
     (''Africa/Nouakchott'', ''Africa/Abidjan''),
     (''Africa/Ouagadougou'', ''Africa/Abidjan''),
     (''Africa/Porto-Novo'', ''Africa/Lagos''),
     (''Africa/Sao_Tome'', ''Africa/Sao_Tome''),
     (''Africa/Timbuktu'', ''Africa/Abidjan''),
     (''Africa/Tripoli'', ''Africa/Tripoli''),
     (''Africa/Tunis'', ''Africa/Tunis''),
     (''Africa/Windhoek'', ''Africa/Windhoek''),
     (''America/Adak'', ''America/Adak''),
     (''America/Anchorage'', ''America/Anchorage''),
     (''America/Anguilla'', ''America/Puerto_Rico''),
     (''America/Antigua'', ''America/Puerto_Rico''),
     (''America/Araguaina'', ''America/Araguaina''),
     (''America/Argentina/Buenos_Aires'', ''America/Argentina/Buenos_Aires'')]"

definition zones_3 :: "(string \<times> string) list" where
  "zones_3 = [
     (''America/Argentina/Catamarca'', ''America/Argentina/Catamarca''),
     (''America/Argentina/ComodRivadavia'', ''America/Argentina/Catamarca''),
     (''America/Argentina/Cordoba'', ''America/Argentina/Cordoba''),
     (''America/Argentina/Jujuy'', ''America/Argentina/Jujuy''),
     (''America/Argentina/La_Rioja'', ''America/Argentina/La_Rioja''),
     (''America/Argentina/Mendoza'', ''America/Argentina/Mendoza''),
     (''America/Argentina/Rio_Gallegos'', ''America/Argentina/Rio_Gallegos''),
     (''America/Argentina/Salta'', ''America/Argentina/Salta''),
     (''America/Argentina/San_Juan'', ''America/Argentina/San_Juan''),
     (''America/Argentina/San_Luis'', ''America/Argentina/San_Luis''),
     (''America/Argentina/Tucuman'', ''America/Argentina/Tucuman''),
     (''America/Argentina/Ushuaia'', ''America/Argentina/Ushuaia''),
     (''America/Aruba'', ''America/Puerto_Rico''),
     (''America/Asuncion'', ''America/Asuncion''),
     (''America/Atikokan'', ''America/Panama''),
     (''America/Atka'', ''America/Adak''),
     (''America/Bahia'', ''America/Bahia''),
     (''America/Bahia_Banderas'', ''America/Bahia_Banderas''),
     (''America/Barbados'', ''America/Barbados''),
     (''America/Belem'', ''America/Belem''),
     (''America/Belize'', ''America/Belize''),
     (''America/Blanc-Sablon'', ''America/Puerto_Rico''),
     (''America/Boa_Vista'', ''America/Boa_Vista''),
     (''America/Bogota'', ''America/Bogota''),
     (''America/Boise'', ''America/Boise''),
     (''America/Buenos_Aires'', ''America/Argentina/Buenos_Aires''),
     (''America/Cambridge_Bay'', ''America/Cambridge_Bay''),
     (''America/Campo_Grande'', ''America/Campo_Grande''),
     (''America/Cancun'', ''America/Cancun''),
     (''America/Caracas'', ''America/Caracas'')]"

definition zones_4 :: "(string \<times> string) list" where
  "zones_4 = [
     (''America/Catamarca'', ''America/Argentina/Catamarca''),
     (''America/Cayenne'', ''America/Cayenne''),
     (''America/Cayman'', ''America/Panama''),
     (''America/Chicago'', ''America/Chicago''),
     (''America/Chihuahua'', ''America/Chihuahua''),
     (''America/Ciudad_Juarez'', ''America/Ciudad_Juarez''),
     (''America/Coral_Harbour'', ''America/Panama''),
     (''America/Cordoba'', ''America/Argentina/Cordoba''),
     (''America/Costa_Rica'', ''America/Costa_Rica''),
     (''America/Coyhaique'', ''America/Coyhaique''),
     (''America/Creston'', ''America/Phoenix''),
     (''America/Cuiaba'', ''America/Cuiaba''),
     (''America/Curacao'', ''America/Puerto_Rico''),
     (''America/Danmarkshavn'', ''America/Danmarkshavn''),
     (''America/Dawson'', ''America/Dawson''),
     (''America/Dawson_Creek'', ''America/Dawson_Creek''),
     (''America/Denver'', ''America/Denver''),
     (''America/Detroit'', ''America/Detroit''),
     (''America/Dominica'', ''America/Puerto_Rico''),
     (''America/Edmonton'', ''America/Edmonton''),
     (''America/Eirunepe'', ''America/Eirunepe''),
     (''America/El_Salvador'', ''America/El_Salvador''),
     (''America/Ensenada'', ''America/Tijuana''),
     (''America/Fort_Nelson'', ''America/Fort_Nelson''),
     (''America/Fort_Wayne'', ''America/Indiana/Indianapolis''),
     (''America/Fortaleza'', ''America/Fortaleza''),
     (''America/Glace_Bay'', ''America/Glace_Bay''),
     (''America/Godthab'', ''America/Nuuk''),
     (''America/Goose_Bay'', ''America/Goose_Bay''),
     (''America/Grand_Turk'', ''America/Grand_Turk'')]"

definition zones_5 :: "(string \<times> string) list" where
  "zones_5 = [
     (''America/Grenada'', ''America/Puerto_Rico''),
     (''America/Guadeloupe'', ''America/Puerto_Rico''),
     (''America/Guatemala'', ''America/Guatemala''),
     (''America/Guayaquil'', ''America/Guayaquil''),
     (''America/Guyana'', ''America/Guyana''),
     (''America/Halifax'', ''America/Halifax''),
     (''America/Havana'', ''America/Havana''),
     (''America/Hermosillo'', ''America/Hermosillo''),
     (''America/Indiana/Indianapolis'', ''America/Indiana/Indianapolis''),
     (''America/Indiana/Knox'', ''America/Indiana/Knox''),
     (''America/Indiana/Marengo'', ''America/Indiana/Marengo''),
     (''America/Indiana/Petersburg'', ''America/Indiana/Petersburg''),
     (''America/Indiana/Tell_City'', ''America/Indiana/Tell_City''),
     (''America/Indiana/Vevay'', ''America/Indiana/Vevay''),
     (''America/Indiana/Vincennes'', ''America/Indiana/Vincennes''),
     (''America/Indiana/Winamac'', ''America/Indiana/Winamac''),
     (''America/Indianapolis'', ''America/Indiana/Indianapolis''),
     (''America/Inuvik'', ''America/Inuvik''),
     (''America/Iqaluit'', ''America/Iqaluit''),
     (''America/Jamaica'', ''America/Jamaica''),
     (''America/Jujuy'', ''America/Argentina/Jujuy''),
     (''America/Juneau'', ''America/Juneau''),
     (''America/Kentucky/Louisville'', ''America/Kentucky/Louisville''),
     (''America/Kentucky/Monticello'', ''America/Kentucky/Monticello''),
     (''America/Knox_IN'', ''America/Indiana/Knox''),
     (''America/Kralendijk'', ''America/Puerto_Rico''),
     (''America/La_Paz'', ''America/La_Paz''),
     (''America/Lima'', ''America/Lima''),
     (''America/Los_Angeles'', ''America/Los_Angeles''),
     (''America/Louisville'', ''America/Kentucky/Louisville'')]"

definition zones_6 :: "(string \<times> string) list" where
  "zones_6 = [
     (''America/Lower_Princes'', ''America/Puerto_Rico''),
     (''America/Maceio'', ''America/Maceio''),
     (''America/Managua'', ''America/Managua''),
     (''America/Manaus'', ''America/Manaus''),
     (''America/Marigot'', ''America/Puerto_Rico''),
     (''America/Martinique'', ''America/Martinique''),
     (''America/Matamoros'', ''America/Matamoros''),
     (''America/Mazatlan'', ''America/Mazatlan''),
     (''America/Mendoza'', ''America/Argentina/Mendoza''),
     (''America/Menominee'', ''America/Menominee''),
     (''America/Merida'', ''America/Merida''),
     (''America/Metlakatla'', ''America/Metlakatla''),
     (''America/Mexico_City'', ''America/Mexico_City''),
     (''America/Miquelon'', ''America/Miquelon''),
     (''America/Moncton'', ''America/Moncton''),
     (''America/Monterrey'', ''America/Monterrey''),
     (''America/Montevideo'', ''America/Montevideo''),
     (''America/Montreal'', ''America/Toronto''),
     (''America/Montserrat'', ''America/Puerto_Rico''),
     (''America/Nassau'', ''America/Toronto''),
     (''America/New_York'', ''America/New_York''),
     (''America/Nipigon'', ''America/Toronto''),
     (''America/Nome'', ''America/Nome''),
     (''America/Noronha'', ''America/Noronha''),
     (''America/North_Dakota/Beulah'', ''America/North_Dakota/Beulah''),
     (''America/North_Dakota/Center'', ''America/North_Dakota/Center''),
     (''America/North_Dakota/New_Salem'', ''America/North_Dakota/New_Salem''),
     (''America/Nuuk'', ''America/Nuuk''),
     (''America/Ojinaga'', ''America/Ojinaga''),
     (''America/Panama'', ''America/Panama'')]"

definition zones_7 :: "(string \<times> string) list" where
  "zones_7 = [
     (''America/Pangnirtung'', ''America/Iqaluit''),
     (''America/Paramaribo'', ''America/Paramaribo''),
     (''America/Phoenix'', ''America/Phoenix''),
     (''America/Port-au-Prince'', ''America/Port-au-Prince''),
     (''America/Port_of_Spain'', ''America/Puerto_Rico''),
     (''America/Porto_Acre'', ''America/Rio_Branco''),
     (''America/Porto_Velho'', ''America/Porto_Velho''),
     (''America/Puerto_Rico'', ''America/Puerto_Rico''),
     (''America/Punta_Arenas'', ''America/Punta_Arenas''),
     (''America/Rainy_River'', ''America/Winnipeg''),
     (''America/Rankin_Inlet'', ''America/Rankin_Inlet''),
     (''America/Recife'', ''America/Recife''),
     (''America/Regina'', ''America/Regina''),
     (''America/Resolute'', ''America/Resolute''),
     (''America/Rio_Branco'', ''America/Rio_Branco''),
     (''America/Rosario'', ''America/Argentina/Cordoba''),
     (''America/Santa_Isabel'', ''America/Tijuana''),
     (''America/Santarem'', ''America/Santarem''),
     (''America/Santiago'', ''America/Santiago''),
     (''America/Santo_Domingo'', ''America/Santo_Domingo''),
     (''America/Sao_Paulo'', ''America/Sao_Paulo''),
     (''America/Scoresbysund'', ''America/Scoresbysund''),
     (''America/Shiprock'', ''America/Denver''),
     (''America/Sitka'', ''America/Sitka''),
     (''America/St_Barthelemy'', ''America/Puerto_Rico''),
     (''America/St_Johns'', ''America/St_Johns''),
     (''America/St_Kitts'', ''America/Puerto_Rico''),
     (''America/St_Lucia'', ''America/Puerto_Rico''),
     (''America/St_Thomas'', ''America/Puerto_Rico''),
     (''America/St_Vincent'', ''America/Puerto_Rico'')]"

definition zones_8 :: "(string \<times> string) list" where
  "zones_8 = [
     (''America/Swift_Current'', ''America/Swift_Current''),
     (''America/Tegucigalpa'', ''America/Tegucigalpa''),
     (''America/Thule'', ''America/Thule''),
     (''America/Thunder_Bay'', ''America/Toronto''),
     (''America/Tijuana'', ''America/Tijuana''),
     (''America/Toronto'', ''America/Toronto''),
     (''America/Tortola'', ''America/Puerto_Rico''),
     (''America/Vancouver'', ''America/Vancouver''),
     (''America/Virgin'', ''America/Puerto_Rico''),
     (''America/Whitehorse'', ''America/Whitehorse''),
     (''America/Winnipeg'', ''America/Winnipeg''),
     (''America/Yakutat'', ''America/Yakutat''),
     (''America/Yellowknife'', ''America/Edmonton''),
     (''Antarctica/Casey'', ''Antarctica/Casey''),
     (''Antarctica/Davis'', ''Antarctica/Davis''),
     (''Antarctica/DumontDUrville'', ''Pacific/Port_Moresby''),
     (''Antarctica/Macquarie'', ''Antarctica/Macquarie''),
     (''Antarctica/Mawson'', ''Antarctica/Mawson''),
     (''Antarctica/McMurdo'', ''Pacific/Auckland''),
     (''Antarctica/Palmer'', ''Antarctica/Palmer''),
     (''Antarctica/Rothera'', ''Antarctica/Rothera''),
     (''Antarctica/South_Pole'', ''Pacific/Auckland''),
     (''Antarctica/Syowa'', ''Asia/Riyadh''),
     (''Antarctica/Troll'', ''Antarctica/Troll''),
     (''Antarctica/Vostok'', ''Antarctica/Vostok''),
     (''Arctic/Longyearbyen'', ''Europe/Berlin''),
     (''Asia/Aden'', ''Asia/Riyadh''),
     (''Asia/Almaty'', ''Asia/Almaty''),
     (''Asia/Amman'', ''Asia/Amman''),
     (''Asia/Anadyr'', ''Asia/Anadyr'')]"

definition zones_9 :: "(string \<times> string) list" where
  "zones_9 = [
     (''Asia/Aqtau'', ''Asia/Aqtau''),
     (''Asia/Aqtobe'', ''Asia/Aqtobe''),
     (''Asia/Ashgabat'', ''Asia/Ashgabat''),
     (''Asia/Ashkhabad'', ''Asia/Ashgabat''),
     (''Asia/Atyrau'', ''Asia/Atyrau''),
     (''Asia/Baghdad'', ''Asia/Baghdad''),
     (''Asia/Bahrain'', ''Asia/Qatar''),
     (''Asia/Baku'', ''Asia/Baku''),
     (''Asia/Bangkok'', ''Asia/Bangkok''),
     (''Asia/Barnaul'', ''Asia/Barnaul''),
     (''Asia/Beirut'', ''Asia/Beirut''),
     (''Asia/Bishkek'', ''Asia/Bishkek''),
     (''Asia/Brunei'', ''Asia/Kuching''),
     (''Asia/Calcutta'', ''Asia/Kolkata''),
     (''Asia/Chita'', ''Asia/Chita''),
     (''Asia/Choibalsan'', ''Asia/Ulaanbaatar''),
     (''Asia/Chongqing'', ''Asia/Shanghai''),
     (''Asia/Chungking'', ''Asia/Shanghai''),
     (''Asia/Colombo'', ''Asia/Colombo''),
     (''Asia/Dacca'', ''Asia/Dhaka''),
     (''Asia/Damascus'', ''Asia/Damascus''),
     (''Asia/Dhaka'', ''Asia/Dhaka''),
     (''Asia/Dili'', ''Asia/Dili''),
     (''Asia/Dubai'', ''Asia/Dubai''),
     (''Asia/Dushanbe'', ''Asia/Dushanbe''),
     (''Asia/Famagusta'', ''Asia/Famagusta''),
     (''Asia/Gaza'', ''Asia/Gaza''),
     (''Asia/Harbin'', ''Asia/Shanghai''),
     (''Asia/Hebron'', ''Asia/Hebron''),
     (''Asia/Ho_Chi_Minh'', ''Asia/Ho_Chi_Minh'')]"

definition zones_10 :: "(string \<times> string) list" where
  "zones_10 = [
     (''Asia/Hong_Kong'', ''Asia/Hong_Kong''),
     (''Asia/Hovd'', ''Asia/Hovd''),
     (''Asia/Irkutsk'', ''Asia/Irkutsk''),
     (''Asia/Istanbul'', ''Europe/Istanbul''),
     (''Asia/Jakarta'', ''Asia/Jakarta''),
     (''Asia/Jayapura'', ''Asia/Jayapura''),
     (''Asia/Jerusalem'', ''Asia/Jerusalem''),
     (''Asia/Kabul'', ''Asia/Kabul''),
     (''Asia/Kamchatka'', ''Asia/Kamchatka''),
     (''Asia/Karachi'', ''Asia/Karachi''),
     (''Asia/Kashgar'', ''Asia/Urumqi''),
     (''Asia/Kathmandu'', ''Asia/Kathmandu''),
     (''Asia/Katmandu'', ''Asia/Kathmandu''),
     (''Asia/Khandyga'', ''Asia/Khandyga''),
     (''Asia/Kolkata'', ''Asia/Kolkata''),
     (''Asia/Krasnoyarsk'', ''Asia/Krasnoyarsk''),
     (''Asia/Kuala_Lumpur'', ''Asia/Singapore''),
     (''Asia/Kuching'', ''Asia/Kuching''),
     (''Asia/Kuwait'', ''Asia/Riyadh''),
     (''Asia/Macao'', ''Asia/Macau''),
     (''Asia/Macau'', ''Asia/Macau''),
     (''Asia/Magadan'', ''Asia/Magadan''),
     (''Asia/Makassar'', ''Asia/Makassar''),
     (''Asia/Manila'', ''Asia/Manila''),
     (''Asia/Muscat'', ''Asia/Dubai''),
     (''Asia/Nicosia'', ''Asia/Nicosia''),
     (''Asia/Novokuznetsk'', ''Asia/Novokuznetsk''),
     (''Asia/Novosibirsk'', ''Asia/Novosibirsk''),
     (''Asia/Omsk'', ''Asia/Omsk''),
     (''Asia/Oral'', ''Asia/Oral'')]"

definition zones_11 :: "(string \<times> string) list" where
  "zones_11 = [
     (''Asia/Phnom_Penh'', ''Asia/Bangkok''),
     (''Asia/Pontianak'', ''Asia/Pontianak''),
     (''Asia/Pyongyang'', ''Asia/Pyongyang''),
     (''Asia/Qatar'', ''Asia/Qatar''),
     (''Asia/Qostanay'', ''Asia/Qostanay''),
     (''Asia/Qyzylorda'', ''Asia/Qyzylorda''),
     (''Asia/Rangoon'', ''Asia/Yangon''),
     (''Asia/Riyadh'', ''Asia/Riyadh''),
     (''Asia/Saigon'', ''Asia/Ho_Chi_Minh''),
     (''Asia/Sakhalin'', ''Asia/Sakhalin''),
     (''Asia/Samarkand'', ''Asia/Samarkand''),
     (''Asia/Seoul'', ''Asia/Seoul''),
     (''Asia/Shanghai'', ''Asia/Shanghai''),
     (''Asia/Singapore'', ''Asia/Singapore''),
     (''Asia/Srednekolymsk'', ''Asia/Srednekolymsk''),
     (''Asia/Taipei'', ''Asia/Taipei''),
     (''Asia/Tashkent'', ''Asia/Tashkent''),
     (''Asia/Tbilisi'', ''Asia/Tbilisi''),
     (''Asia/Tehran'', ''Asia/Tehran''),
     (''Asia/Tel_Aviv'', ''Asia/Jerusalem''),
     (''Asia/Thimbu'', ''Asia/Thimphu''),
     (''Asia/Thimphu'', ''Asia/Thimphu''),
     (''Asia/Tokyo'', ''Asia/Tokyo''),
     (''Asia/Tomsk'', ''Asia/Tomsk''),
     (''Asia/Ujung_Pandang'', ''Asia/Makassar''),
     (''Asia/Ulaanbaatar'', ''Asia/Ulaanbaatar''),
     (''Asia/Ulan_Bator'', ''Asia/Ulaanbaatar''),
     (''Asia/Urumqi'', ''Asia/Urumqi''),
     (''Asia/Ust-Nera'', ''Asia/Ust-Nera''),
     (''Asia/Vientiane'', ''Asia/Bangkok'')]"

definition zones_12 :: "(string \<times> string) list" where
  "zones_12 = [
     (''Asia/Vladivostok'', ''Asia/Vladivostok''),
     (''Asia/Yakutsk'', ''Asia/Yakutsk''),
     (''Asia/Yangon'', ''Asia/Yangon''),
     (''Asia/Yekaterinburg'', ''Asia/Yekaterinburg''),
     (''Asia/Yerevan'', ''Asia/Yerevan''),
     (''Atlantic/Azores'', ''Atlantic/Azores''),
     (''Atlantic/Bermuda'', ''Atlantic/Bermuda''),
     (''Atlantic/Canary'', ''Atlantic/Canary''),
     (''Atlantic/Cape_Verde'', ''Atlantic/Cape_Verde''),
     (''Atlantic/Faeroe'', ''Atlantic/Faroe''),
     (''Atlantic/Faroe'', ''Atlantic/Faroe''),
     (''Atlantic/Jan_Mayen'', ''Europe/Berlin''),
     (''Atlantic/Madeira'', ''Atlantic/Madeira''),
     (''Atlantic/Reykjavik'', ''Africa/Abidjan''),
     (''Atlantic/South_Georgia'', ''Atlantic/South_Georgia''),
     (''Atlantic/St_Helena'', ''Africa/Abidjan''),
     (''Atlantic/Stanley'', ''Atlantic/Stanley''),
     (''Australia/ACT'', ''Australia/Sydney''),
     (''Australia/Adelaide'', ''Australia/Adelaide''),
     (''Australia/Brisbane'', ''Australia/Brisbane''),
     (''Australia/Broken_Hill'', ''Australia/Broken_Hill''),
     (''Australia/Canberra'', ''Australia/Sydney''),
     (''Australia/Currie'', ''Australia/Hobart''),
     (''Australia/Darwin'', ''Australia/Darwin''),
     (''Australia/Eucla'', ''Australia/Eucla''),
     (''Australia/Hobart'', ''Australia/Hobart''),
     (''Australia/LHI'', ''Australia/Lord_Howe''),
     (''Australia/Lindeman'', ''Australia/Lindeman''),
     (''Australia/Lord_Howe'', ''Australia/Lord_Howe''),
     (''Australia/Melbourne'', ''Australia/Melbourne'')]"

definition zones_13 :: "(string \<times> string) list" where
  "zones_13 = [
     (''Australia/North'', ''Australia/Darwin''),
     (''Australia/NSW'', ''Australia/Sydney''),
     (''Australia/Perth'', ''Australia/Perth''),
     (''Australia/Queensland'', ''Australia/Brisbane''),
     (''Australia/South'', ''Australia/Adelaide''),
     (''Australia/Sydney'', ''Australia/Sydney''),
     (''Australia/Tasmania'', ''Australia/Hobart''),
     (''Australia/Victoria'', ''Australia/Melbourne''),
     (''Australia/West'', ''Australia/Perth''),
     (''Australia/Yancowinna'', ''Australia/Broken_Hill''),
     (''Brazil/Acre'', ''America/Rio_Branco''),
     (''Brazil/DeNoronha'', ''America/Noronha''),
     (''Brazil/East'', ''America/Sao_Paulo''),
     (''Brazil/West'', ''America/Manaus''),
     (''Canada/Atlantic'', ''America/Halifax''),
     (''Canada/Central'', ''America/Winnipeg''),
     (''Canada/Eastern'', ''America/Toronto''),
     (''Canada/Mountain'', ''America/Edmonton''),
     (''Canada/Newfoundland'', ''America/St_Johns''),
     (''Canada/Pacific'', ''America/Vancouver''),
     (''Canada/Saskatchewan'', ''America/Regina''),
     (''Canada/Yukon'', ''America/Whitehorse''),
     (''CET'', ''Europe/Brussels''),
     (''Chile/Continental'', ''America/Santiago''),
     (''Chile/EasterIsland'', ''Pacific/Easter''),
     (''CST6CDT'', ''America/Chicago''),
     (''Cuba'', ''America/Havana''),
     (''EET'', ''Europe/Athens''),
     (''Egypt'', ''Africa/Cairo''),
     (''Eire'', ''Europe/Dublin'')]"

definition zones_14 :: "(string \<times> string) list" where
  "zones_14 = [
     (''EST'', ''America/Panama''),
     (''EST5EDT'', ''America/New_York''),
     (''Etc/GMT'', ''Etc/GMT''),
     (''Etc/GMT+0'', ''Etc/GMT''),
     (''Etc/GMT+1'', ''Etc/GMT+1''),
     (''Etc/GMT+10'', ''Etc/GMT+10''),
     (''Etc/GMT+11'', ''Etc/GMT+11''),
     (''Etc/GMT+12'', ''Etc/GMT+12''),
     (''Etc/GMT+2'', ''Etc/GMT+2''),
     (''Etc/GMT+3'', ''Etc/GMT+3''),
     (''Etc/GMT+4'', ''Etc/GMT+4''),
     (''Etc/GMT+5'', ''Etc/GMT+5''),
     (''Etc/GMT+6'', ''Etc/GMT+6''),
     (''Etc/GMT+7'', ''Etc/GMT+7''),
     (''Etc/GMT+8'', ''Etc/GMT+8''),
     (''Etc/GMT+9'', ''Etc/GMT+9''),
     (''Etc/GMT-0'', ''Etc/GMT''),
     (''Etc/GMT-1'', ''Etc/GMT-1''),
     (''Etc/GMT-10'', ''Etc/GMT-10''),
     (''Etc/GMT-11'', ''Etc/GMT-11''),
     (''Etc/GMT-12'', ''Etc/GMT-12''),
     (''Etc/GMT-13'', ''Etc/GMT-13''),
     (''Etc/GMT-14'', ''Etc/GMT-14''),
     (''Etc/GMT-2'', ''Etc/GMT-2''),
     (''Etc/GMT-3'', ''Etc/GMT-3''),
     (''Etc/GMT-4'', ''Etc/GMT-4''),
     (''Etc/GMT-5'', ''Etc/GMT-5''),
     (''Etc/GMT-6'', ''Etc/GMT-6''),
     (''Etc/GMT-7'', ''Etc/GMT-7''),
     (''Etc/GMT-8'', ''Etc/GMT-8'')]"

definition zones_15 :: "(string \<times> string) list" where
  "zones_15 = [
     (''Etc/GMT-9'', ''Etc/GMT-9''),
     (''Etc/GMT0'', ''Etc/GMT''),
     (''Etc/Greenwich'', ''Etc/GMT''),
     (''Etc/UCT'', ''Etc/UTC''),
     (''Etc/Universal'', ''Etc/UTC''),
     (''Etc/UTC'', ''Etc/UTC''),
     (''Etc/Zulu'', ''Etc/UTC''),
     (''Europe/Amsterdam'', ''Europe/Brussels''),
     (''Europe/Andorra'', ''Europe/Andorra''),
     (''Europe/Astrakhan'', ''Europe/Astrakhan''),
     (''Europe/Athens'', ''Europe/Athens''),
     (''Europe/Belfast'', ''Europe/London''),
     (''Europe/Belgrade'', ''Europe/Belgrade''),
     (''Europe/Berlin'', ''Europe/Berlin''),
     (''Europe/Bratislava'', ''Europe/Prague''),
     (''Europe/Brussels'', ''Europe/Brussels''),
     (''Europe/Bucharest'', ''Europe/Bucharest''),
     (''Europe/Budapest'', ''Europe/Budapest''),
     (''Europe/Busingen'', ''Europe/Zurich''),
     (''Europe/Chisinau'', ''Europe/Chisinau''),
     (''Europe/Copenhagen'', ''Europe/Berlin''),
     (''Europe/Dublin'', ''Europe/Dublin''),
     (''Europe/Gibraltar'', ''Europe/Gibraltar''),
     (''Europe/Guernsey'', ''Europe/London''),
     (''Europe/Helsinki'', ''Europe/Helsinki''),
     (''Europe/Isle_of_Man'', ''Europe/London''),
     (''Europe/Istanbul'', ''Europe/Istanbul''),
     (''Europe/Jersey'', ''Europe/London''),
     (''Europe/Kaliningrad'', ''Europe/Kaliningrad''),
     (''Europe/Kiev'', ''Europe/Kyiv'')]"

definition zones_16 :: "(string \<times> string) list" where
  "zones_16 = [
     (''Europe/Kirov'', ''Europe/Kirov''),
     (''Europe/Kyiv'', ''Europe/Kyiv''),
     (''Europe/Lisbon'', ''Europe/Lisbon''),
     (''Europe/Ljubljana'', ''Europe/Belgrade''),
     (''Europe/London'', ''Europe/London''),
     (''Europe/Luxembourg'', ''Europe/Brussels''),
     (''Europe/Madrid'', ''Europe/Madrid''),
     (''Europe/Malta'', ''Europe/Malta''),
     (''Europe/Mariehamn'', ''Europe/Helsinki''),
     (''Europe/Minsk'', ''Europe/Minsk''),
     (''Europe/Monaco'', ''Europe/Paris''),
     (''Europe/Moscow'', ''Europe/Moscow''),
     (''Europe/Nicosia'', ''Asia/Nicosia''),
     (''Europe/Oslo'', ''Europe/Berlin''),
     (''Europe/Paris'', ''Europe/Paris''),
     (''Europe/Podgorica'', ''Europe/Belgrade''),
     (''Europe/Prague'', ''Europe/Prague''),
     (''Europe/Riga'', ''Europe/Riga''),
     (''Europe/Rome'', ''Europe/Rome''),
     (''Europe/Samara'', ''Europe/Samara''),
     (''Europe/San_Marino'', ''Europe/Rome''),
     (''Europe/Sarajevo'', ''Europe/Belgrade''),
     (''Europe/Saratov'', ''Europe/Saratov''),
     (''Europe/Simferopol'', ''Europe/Simferopol''),
     (''Europe/Skopje'', ''Europe/Belgrade''),
     (''Europe/Sofia'', ''Europe/Sofia''),
     (''Europe/Stockholm'', ''Europe/Berlin''),
     (''Europe/Tallinn'', ''Europe/Tallinn''),
     (''Europe/Tirane'', ''Europe/Tirane''),
     (''Europe/Tiraspol'', ''Europe/Chisinau'')]"

definition zones_17 :: "(string \<times> string) list" where
  "zones_17 = [
     (''Europe/Ulyanovsk'', ''Europe/Ulyanovsk''),
     (''Europe/Uzhgorod'', ''Europe/Kyiv''),
     (''Europe/Vaduz'', ''Europe/Zurich''),
     (''Europe/Vatican'', ''Europe/Rome''),
     (''Europe/Vienna'', ''Europe/Vienna''),
     (''Europe/Vilnius'', ''Europe/Vilnius''),
     (''Europe/Volgograd'', ''Europe/Volgograd''),
     (''Europe/Warsaw'', ''Europe/Warsaw''),
     (''Europe/Zagreb'', ''Europe/Belgrade''),
     (''Europe/Zaporozhye'', ''Europe/Kyiv''),
     (''Europe/Zurich'', ''Europe/Zurich''),
     (''Factory'', ''Factory''),
     (''GB'', ''Europe/London''),
     (''GB-Eire'', ''Europe/London''),
     (''GMT'', ''Etc/GMT''),
     (''GMT+0'', ''Etc/GMT''),
     (''GMT-0'', ''Etc/GMT''),
     (''GMT0'', ''Etc/GMT''),
     (''Greenwich'', ''Etc/GMT''),
     (''Hongkong'', ''Asia/Hong_Kong''),
     (''HST'', ''Pacific/Honolulu''),
     (''Iceland'', ''Africa/Abidjan''),
     (''Indian/Antananarivo'', ''Africa/Nairobi''),
     (''Indian/Chagos'', ''Indian/Chagos''),
     (''Indian/Christmas'', ''Asia/Bangkok''),
     (''Indian/Cocos'', ''Asia/Yangon''),
     (''Indian/Comoro'', ''Africa/Nairobi''),
     (''Indian/Kerguelen'', ''Indian/Maldives''),
     (''Indian/Mahe'', ''Asia/Dubai''),
     (''Indian/Maldives'', ''Indian/Maldives'')]"

definition zones_18 :: "(string \<times> string) list" where
  "zones_18 = [
     (''Indian/Mauritius'', ''Indian/Mauritius''),
     (''Indian/Mayotte'', ''Africa/Nairobi''),
     (''Indian/Reunion'', ''Asia/Dubai''),
     (''Iran'', ''Asia/Tehran''),
     (''Israel'', ''Asia/Jerusalem''),
     (''Jamaica'', ''America/Jamaica''),
     (''Japan'', ''Asia/Tokyo''),
     (''Kwajalein'', ''Pacific/Kwajalein''),
     (''Libya'', ''Africa/Tripoli''),
     (''MET'', ''Europe/Brussels''),
     (''Mexico/BajaNorte'', ''America/Tijuana''),
     (''Mexico/BajaSur'', ''America/Mazatlan''),
     (''Mexico/General'', ''America/Mexico_City''),
     (''MST'', ''America/Phoenix''),
     (''MST7MDT'', ''America/Denver''),
     (''Navajo'', ''America/Denver''),
     (''NZ'', ''Pacific/Auckland''),
     (''NZ-CHAT'', ''Pacific/Chatham''),
     (''Pacific/Apia'', ''Pacific/Apia''),
     (''Pacific/Auckland'', ''Pacific/Auckland''),
     (''Pacific/Bougainville'', ''Pacific/Bougainville''),
     (''Pacific/Chatham'', ''Pacific/Chatham''),
     (''Pacific/Chuuk'', ''Pacific/Port_Moresby''),
     (''Pacific/Easter'', ''Pacific/Easter''),
     (''Pacific/Efate'', ''Pacific/Efate''),
     (''Pacific/Enderbury'', ''Pacific/Kanton''),
     (''Pacific/Fakaofo'', ''Pacific/Fakaofo''),
     (''Pacific/Fiji'', ''Pacific/Fiji''),
     (''Pacific/Funafuti'', ''Pacific/Tarawa''),
     (''Pacific/Galapagos'', ''Pacific/Galapagos'')]"

definition zones_19 :: "(string \<times> string) list" where
  "zones_19 = [
     (''Pacific/Gambier'', ''Pacific/Gambier''),
     (''Pacific/Guadalcanal'', ''Pacific/Guadalcanal''),
     (''Pacific/Guam'', ''Pacific/Guam''),
     (''Pacific/Honolulu'', ''Pacific/Honolulu''),
     (''Pacific/Johnston'', ''Pacific/Honolulu''),
     (''Pacific/Kanton'', ''Pacific/Kanton''),
     (''Pacific/Kiritimati'', ''Pacific/Kiritimati''),
     (''Pacific/Kosrae'', ''Pacific/Kosrae''),
     (''Pacific/Kwajalein'', ''Pacific/Kwajalein''),
     (''Pacific/Majuro'', ''Pacific/Tarawa''),
     (''Pacific/Marquesas'', ''Pacific/Marquesas''),
     (''Pacific/Midway'', ''Pacific/Pago_Pago''),
     (''Pacific/Nauru'', ''Pacific/Nauru''),
     (''Pacific/Niue'', ''Pacific/Niue''),
     (''Pacific/Norfolk'', ''Pacific/Norfolk''),
     (''Pacific/Noumea'', ''Pacific/Noumea''),
     (''Pacific/Pago_Pago'', ''Pacific/Pago_Pago''),
     (''Pacific/Palau'', ''Pacific/Palau''),
     (''Pacific/Pitcairn'', ''Pacific/Pitcairn''),
     (''Pacific/Pohnpei'', ''Pacific/Guadalcanal''),
     (''Pacific/Ponape'', ''Pacific/Guadalcanal''),
     (''Pacific/Port_Moresby'', ''Pacific/Port_Moresby''),
     (''Pacific/Rarotonga'', ''Pacific/Rarotonga''),
     (''Pacific/Saipan'', ''Pacific/Guam''),
     (''Pacific/Samoa'', ''Pacific/Pago_Pago''),
     (''Pacific/Tahiti'', ''Pacific/Tahiti''),
     (''Pacific/Tarawa'', ''Pacific/Tarawa''),
     (''Pacific/Tongatapu'', ''Pacific/Tongatapu''),
     (''Pacific/Truk'', ''Pacific/Port_Moresby''),
     (''Pacific/Wake'', ''Pacific/Tarawa'')]"

definition zones_20 :: "(string \<times> string) list" where
  "zones_20 = [
     (''Pacific/Wallis'', ''Pacific/Tarawa''),
     (''Pacific/Yap'', ''Pacific/Port_Moresby''),
     (''Poland'', ''Europe/Warsaw''),
     (''Portugal'', ''Europe/Lisbon''),
     (''PRC'', ''Asia/Shanghai''),
     (''PST8PDT'', ''America/Los_Angeles''),
     (''ROC'', ''Asia/Taipei''),
     (''ROK'', ''Asia/Seoul''),
     (''Singapore'', ''Asia/Singapore''),
     (''Turkey'', ''Europe/Istanbul''),
     (''UCT'', ''Etc/UTC''),
     (''Universal'', ''Etc/UTC''),
     (''US/Alaska'', ''America/Anchorage''),
     (''US/Aleutian'', ''America/Adak''),
     (''US/Arizona'', ''America/Phoenix''),
     (''US/Central'', ''America/Chicago''),
     (''US/East-Indiana'', ''America/Indiana/Indianapolis''),
     (''US/Eastern'', ''America/New_York''),
     (''US/Hawaii'', ''Pacific/Honolulu''),
     (''US/Indiana-Starke'', ''America/Indiana/Knox''),
     (''US/Michigan'', ''America/Detroit''),
     (''US/Mountain'', ''America/Denver''),
     (''US/Pacific'', ''America/Los_Angeles''),
     (''US/Samoa'', ''Pacific/Pago_Pago''),
     (''UTC'', ''Etc/UTC''),
     (''W-SU'', ''Europe/Moscow''),
     (''WET'', ''Europe/Lisbon''),
     (''Zulu'', ''Etc/UTC'')]"

definition zones :: "(string \<times> string) list" where
  "zones = concat [
     zones_1, zones_2, zones_3, zones_4, zones_5, zones_6, zones_7, zones_8,
     zones_9, zones_10, zones_11, zones_12, zones_13, zones_14, zones_15, zones_16,
     zones_17, zones_18, zones_19, zones_20]"

section \<open>The search\<close>

text \<open>Comparing names by the bits of their characters, as evaluation does it.\<close>
fun char_below :: "char \<Rightarrow> char \<Rightarrow> bool" where
  "char_below (Char a0 a1 a2 a3 a4 a5 a6 a7) (Char b0 b1 b2 b3 b4 b5 b6 b7) \<longleftrightarrow>
   (if a7 \<noteq> b7 then b7 else if a6 \<noteq> b6 then b6 else if a5 \<noteq> b5 then b5 else if a4 \<noteq> b4 then b4
    else if a3 \<noteq> b3 then b3 else if a2 \<noteq> b2 then b2 else if a1 \<noteq> b1 then b1 else \<not> a0 \<and> b0)"

lemma bit_less: "of_bool a + 2 * (x :: nat) < of_bool b + 2 * y \<longleftrightarrow> x < y \<or> x = y \<and> \<not> a \<and> b"
  by (auto simp: of_bool_def)

lemma bit_eq: "of_bool a + 2 * (x :: nat) = of_bool b + 2 * y \<longleftrightarrow> x = y \<and> a = b"
  by (auto simp: of_bool_def split: if_splits) presburger+

lemma bit_lt1: "of_bool a < (of_bool b :: nat) \<longleftrightarrow> \<not> a \<and> b" by simp

lemma byte_Char: "byte (Char b0 b1 b2 b3 b4 b5 b6 b7) = 
  of_bool b0 + 2 * (of_bool b1 + 2 * (of_bool b2 + 2 * (of_bool b3 + 2 * (of_bool b4 + 2 * (of_bool b5 + 2 * (of_bool b6 + 2 * of_bool b7))))))"
  unfolding byte_def of_char_Char by (simp only: horner_sum_simps mult_0_right add_0_right)

lemma char_below: "char_below a b \<longleftrightarrow> byte a < byte b"
  by (cases a; cases b) (simp only: byte_Char char_below.simps bit_less bit_eq bit_lt1 of_bool_eq_iff, argo)

definition is_upper :: "char \<Rightarrow> bool" where
  "is_upper c \<longleftrightarrow> 65 \<le> byte c \<and> byte c \<le> 90"

lemma is_upper_code: "is_upper (Char a0 a1 a2 a3 a4 a5 a6 a7) \<longleftrightarrow> 
  \<not> a7 \<and> a6 \<and> \<not> a5 \<and> (a0 \<or> a1 \<or> a2 \<or> a3 \<or> a4) \<and> \<not> (a4 \<and> a3 \<and> (a2 \<or> (a1 \<and> a0)))"
  by (cases a0; cases a1; cases a2; cases a3; cases a4; cases a5; cases a6; cases a7) (simp_all add: is_upper_def byte_Char)

lemma ascii_lower_code: "ascii_lower (Char a0 a1 a2 a3 a4 a5 a6 a7) =
  Char a0 a1 a2 a3 a4 (a5 \<or> is_upper (Char a0 a1 a2 a3 a4 a5 a6 a7)) a6 a7"
proof (cases "is_upper (Char a0 a1 a2 a3 a4 a5 a6 a7)")
  case True
  then have "\<not> a5" by (simp add: is_upper_code)
  then have "byte (Char a0 a1 a2 a3 a4 a5 a6 a7) + 32 = byte (Char a0 a1 a2 a3 a4 True a6 a7)"
    by (simp add: byte_Char)
  moreover have "byte (char_of n) = n" if "n < 256" for n :: nat using that by (simp add: byte_def)
  moreover have "char_of (byte c) = c" for c by (simp add: byte_def)
  ultimately have "char_of (byte (Char a0 a1 a2 a3 a4 a5 a6 a7) + 32) = Char a0 a1 a2 a3 a4 True a6 a7"
    by metis
  with True show ?thesis unfolding ascii_lower_def is_upper_def by (simp only: if_True simp_thms)
next
  case False
  then show ?thesis by (auto simp: ascii_lower_def is_upper_def)
qed

fun name_less :: "string \<Rightarrow> string \<Rightarrow> bool" where
  "name_less [] t \<longleftrightarrow> t \<noteq> []"
| "name_less (a # s) [] \<longleftrightarrow> False"
| "name_less (a # s) (b # t) \<longleftrightarrow>
     (let x = ascii_lower a; y = ascii_lower b in if x = y then name_less s t else char_below x y)"

lemma name_less: "compare_bytes (lower_bytes s) (lower_bytes t) < 0 \<longleftrightarrow> name_less s t"
proof (induction s t rule: name_less.induct)
  case (1 t)
  then show ?case by (cases t) (simp_all add: lower_bytes_def)
next
  case (3 a s b t)
  have "x = y" if "byte x = byte y" for x y :: char using that by (simp add: byte_def)
  with 3 show ?case by (auto simp: lower_bytes_def char_below Let_def)
qed (simp add: lower_bytes_def)

definition zone_key :: "string \<times> string \<Rightarrow> nat list" where
  "zone_key z = lower_bytes (fst z)"

text \<open>Names of the table are in strictly ascending order of their lower-case bytes.\<close>

fun ascending :: "nat list list \<Rightarrow> bool" where
  "ascending (a # b # rest) \<longleftrightarrow> compare_bytes a b < 0 \<and> ascending (b # rest)"
| "ascending _ \<longleftrightarrow> True"

lemma compare_bytes_refl [simp]: "compare_bytes a a = 0"
  by (induction a) simp_all

lemma compare_bytes_eq: "compare_bytes a b = 0 \<longleftrightarrow> a = b"
  by (induction a b rule: compare_bytes.induct) auto

lemma compare_bytes_flip: "compare_bytes b a = - compare_bytes a b"
  by (induction a b rule: compare_bytes.induct) auto

lemma compare_bytes_below_Cons [simp]:
  "compare_bytes as (b # bs) < 0 \<longleftrightarrow> as = [] \<or> hd as < b \<or> hd as = b \<and> compare_bytes (tl as) bs < 0"
  by (cases as) auto

lemma compare_bytes_below_Nil [simp]: "\<not> compare_bytes as [] < 0"
  by (cases as) auto

lemma compare_bytes_trans: "compare_bytes a b < 0 \<Longrightarrow> compare_bytes b c < 0 \<Longrightarrow> compare_bytes a c < 0"
proof (induction c arbitrary: a b)
  case Nil
  then show ?case by simp
next
  case (Cons d ds)
  from Cons.prems consider "b = []" | "a = []" "b \<noteq> []" | "a \<noteq> []" "b \<noteq> []" by blast
  then show ?case
  proof cases
    case 3
    then obtain x xs y ys where ab: "a = x # xs" "b = y # ys" by (cases a; cases b) auto
    have "x < y \<or> x = y \<and> compare_bytes xs ys < 0" "y < d \<or> y = d \<and> compare_bytes ys ds < 0"
      using Cons.prems ab by (simp_all split: if_splits)
    then have "x < d \<or> x = d \<and> compare_bytes xs ds < 0" using Cons.IH [of xs ys] by (elim disjE conjE) simp_all
    then show ?thesis using ab by auto
  qed (use Cons.prems in simp_all)
qed


lemma ascending_head: "ascending (a # as) \<Longrightarrow> b \<in> set as \<Longrightarrow> compare_bytes a b < 0"
proof (induction as arbitrary: a)
  case Nil
  then show ?case by simp
next
  case (Cons c as)
  then show ?case using compare_bytes_trans by fastforce
qed

lemma ascending_less: "ascending xs \<Longrightarrow> i < j \<Longrightarrow> j < length xs \<Longrightarrow> compare_bytes (xs ! i) (xs ! j) < 0"
proof (induction xs arbitrary: i j)
  case Nil
  then show ?case by simp
next
  case (Cons x xs)
  then obtain k where k: "j = Suc k" "k < length xs" by (cases j) auto
  have "ascending xs" using Cons.prems(1) by (cases xs) auto
  then show ?case using Cons k ascending_head [OF Cons.prems(1), of "xs ! k"] by (cases i) auto
qed

lemma binary_search_finds:
  assumes order: "\<And>i. lo \<le> i \<Longrightarrow> i < hi \<Longrightarrow> (i < k \<longrightarrow> f (xs ! i) < 0) \<and> (k < i \<longrightarrow> 0 < f (xs ! i))"
    and "f (xs ! k) = 0" "lo \<le> k" "k < hi" "hi - lo \<le> fuel"
  shows "binary_search f xs lo hi fuel = Some k"
  using assms
proof (induction f xs lo hi fuel rule: binary_search.induct)
  case (1 f xs lo hi)
  then show ?case by simp
next
  case (2 f xs lo hi fuel)
  define mid where "mid = lo + (hi - lo) div 2"
  have m: "lo \<le> mid" "mid < hi" using 2(5,6) by (simp_all add: mid_def)
  consider "mid < k" | "mid = k" | "k < mid" by linarith
  then show ?case
  proof cases
    case 1
    then have c: "f (xs ! mid) < 0" using 2(3) m by blast
    have "binary_search f xs (mid + 1) hi fuel = Some k"
      using 2(1) [OF _ mid_def refl] c 2(3-7) m 1 by auto
    with c m show ?thesis by (simp add: mid_def [symmetric] Let_def)
  next
    case 2
    then show ?thesis using m \<open>f (xs ! k) = 0\<close> by (simp add: mid_def [symmetric] Let_def)
  next
    case 3
    then have c: "0 < f (xs ! mid)" using 2(3) m by blast
    have "binary_search f xs lo mid fuel = Some k"
      using 2(2) [OF _ mid_def refl] c 2(3-7) m 3 by auto
    with c m show ?thesis by (simp add: mid_def [symmetric] Let_def)
  qed
qed

lemma binary_search_sound: "binary_search f xs lo hi fuel = Some k \<Longrightarrow> hi \<le> length xs \<Longrightarrow> f (xs ! k) = 0 \<and> k < length xs"
proof (induction f xs lo hi fuel rule: binary_search.induct)
  case (2 f xs lo hi fuel)
  have "hi \<le> lo \<or> lo + (hi - lo) div 2 < hi" by linarith
  with 2 show ?case by (auto simp: Let_def split: if_splits)
qed simp

fun names_sorted :: "(string \<times> string) list \<Rightarrow> bool" where
  "names_sorted (a # b # rest) \<longleftrightarrow> name_less (fst a) (fst b) \<and> names_sorted (b # rest)"
| "names_sorted _ \<longleftrightarrow> True"

lemma names_sorted: "ascending (map zone_key zs) \<longleftrightarrow> names_sorted zs"
  by (induction zs rule: names_sorted.induct) (simp_all add: zone_key_def name_less)

lemmas letter_code [code] = is_upper_code ascii_lower_code

lemma names_sorted_append:
  "names_sorted (xs @ ys) \<longleftrightarrow> names_sorted xs \<and> names_sorted ys \<and>
     (xs = [] \<or> ys = [] \<or> name_less (fst (last xs)) (fst (hd ys)))"
proof (induction xs)
  case (Cons x xs)
  then show ?case by (cases xs; cases ys) auto
qed simp

definition meets :: "(string \<times> string) list \<Rightarrow> (string \<times> string) list \<Rightarrow> bool" where
  "meets xs ys \<longleftrightarrow> xs \<noteq> [] \<and> names_sorted xs \<and> ys \<noteq> [] \<and> name_less (fst (last xs)) (fst (hd ys))"

lemma meets_sorted: "meets xs ys \<Longrightarrow> names_sorted (ys @ zs) \<Longrightarrow> names_sorted (xs @ ys @ zs)"
  by (simp add: meets_def names_sorted_append [of xs])

lemma meets_last: "meets xs ys \<Longrightarrow> names_sorted ys \<Longrightarrow> names_sorted (xs @ ys)"
  using meets_sorted [of xs ys "[]"] by simp

lemma zones_meet:
  "meets zones_1 zones_2"
  "meets zones_2 zones_3"
  "meets zones_3 zones_4"
  "meets zones_4 zones_5"
  "meets zones_5 zones_6"
  "meets zones_6 zones_7"
  "meets zones_7 zones_8"
  "meets zones_8 zones_9"
  "meets zones_9 zones_10"
  "meets zones_10 zones_11"
  "meets zones_11 zones_12"
  "meets zones_12 zones_13"
  "meets zones_13 zones_14"
  "meets zones_14 zones_15"
  "meets zones_15 zones_16"
  "meets zones_16 zones_17"
  "meets zones_17 zones_18"
  "meets zones_18 zones_19"
  "meets zones_19 zones_20"
  "names_sorted zones_20"
  by code_simp+

lemma zones_sorted: "names_sorted zones"
  unfolding zones_def concat.simps append_Nil2 
  by ((rule meets_sorted, rule zones_meet)+, rule meets_last) (rule zones_meet)+

lemma zones_ascending: "ascending (map zone_key zones)"
  by (simp only: names_sorted zones_sorted)

lemma zone_index_listed:
  assumes "k < length zones" "lower_bytes source = zone_key (zones ! k)"
  shows "zone_index zones source = Some k"
  unfolding zone_index_def
proof (rule binary_search_finds [where k = k])
  fix i
  assume "0 \<le> i" "i < length zones"
  with assms ascending_less [OF zones_ascending, of i k] ascending_less [OF zones_ascending, of k i]
    compare_bytes_flip [of "zone_key (zones ! i)" "zone_key (zones ! k)"]
  show "(i < k \<longrightarrow> (case zones ! i of (name, _) \<Rightarrow> compare_bytes (lower_bytes name) (lower_bytes source)) < 0) \<and>
    (k < i \<longrightarrow> 0 < (case zones ! i of (name, _) \<Rightarrow> compare_bytes (lower_bytes name) (lower_bytes source)))"
    by (auto simp: zone_key_def split: prod.split)
qed (use assms in \<open>auto simp: zone_key_def split: prod.split\<close>)

lemma zone_index_unlisted:
  assumes "lower_bytes source \<notin> set (map zone_key zones)"
  shows "zone_index zones source = None"
proof (cases "zone_index zones source")
  case (Some k)
  then have "k < length zones" "zone_key (zones ! k) = lower_bytes source"
    using binary_search_sound [OF Some [unfolded zone_index_def]]
    by (auto simp: zone_key_def compare_bytes_eq split: prod.splits)
  with assms show ?thesis by (metis length_map nth_map nth_mem)
qed simp

text \<open>
  A zone name is accepted, in any letter case, exactly if the table lists it, and it resolves to the canonical
  zone of its row.
\<close>
theorem zone_search_exact:
  "map_option (\<lambda>k. snd (zones ! k)) (zone_index zones source) =
   map_of (map (\<lambda>(name, canonical). (lower_bytes name, canonical)) zones) (lower_bytes source)"
proof -
  have keys: "map fst (map (\<lambda>(name, canonical). (lower_bytes name, canonical)) zones) = map zone_key zones"
    by (simp add: zone_key_def case_prod_unfold)
  show ?thesis
  proof (cases "lower_bytes source \<in> set (map zone_key zones)")
    case True
    then obtain k where k: "k < length zones" "lower_bytes source = zone_key (zones ! k)"
      by (auto simp: in_set_conv_nth)
    have distinct: "distinct (map zone_key zones)"
      unfolding distinct_conv_nth using ascending_less [OF zones_ascending]
      by (metis compare_bytes_refl less_irrefl linorder_neqE_nat)
    from k have "(lower_bytes source, snd (zones ! k)) \<in> set (map (\<lambda>(name, canonical). (lower_bytes name, canonical)) zones)"
      by (auto simp: zone_key_def case_prod_unfold image_def intro!: bexI [of _ "zones ! k"])
    with distinct k zone_index_listed [OF k] show ?thesis
      using keys by (simp only: map_of_eq_Some_iff [symmetric]) simp
  next
    case False
    moreover from False have "map_of (map (\<lambda>(name, canonical). (lower_bytes name, canonical)) zones) (lower_bytes source) = None"
      using keys by (metis image_set map_of_eq_None_iff)
    ultimately show ?thesis by (simp add: zone_index_unlisted)
  qed
qed

end
