(* ===== verification/Transition.thy ===== *)
theory Transition
  imports Prelude
begin

text \<open>
  State machines that several tasks share. A machine is its initial states and its moves, one move for
  every critical section of the code (the moves of all tasks interleave freely). \<open>kept\<close> is the contract
  of an invariant, \<open>finite_moves\<close> the one of a measure that the moves of a clean-up decrease.
\<close>

inductive reachable :: "('w \<Rightarrow> bool) \<Rightarrow> ('w \<Rightarrow> 'w \<Rightarrow> bool) \<Rightarrow> 'w \<Rightarrow> bool" for start move where
  reachable_start: "start w \<Longrightarrow> reachable start move w"
| reachable_move: "reachable start move w \<Longrightarrow> move w w' \<Longrightarrow> reachable start move w'"

lemma reachable_run: "move\<^sup>*\<^sup>* w w' \<Longrightarrow> reachable start move w \<Longrightarrow> reachable start move w'"
  by (induction rule: rtranclp_induct) (auto intro: reachable_move)

locale kept =
  fixes start :: "'w \<Rightarrow> bool" and move :: "'w \<Rightarrow> 'w \<Rightarrow> bool" and inv :: "'w \<Rightarrow> bool"
  assumes starts: "start w \<Longrightarrow> inv w"
    and moves: "inv w \<Longrightarrow> move w w' \<Longrightarrow> inv w'"
begin

lemma holds: "reachable start move w \<Longrightarrow> inv w"
  by (induction rule: reachable.induct) (auto intro: starts moves)

lemma run: "move\<^sup>*\<^sup>* w w' \<Longrightarrow> inv w \<Longrightarrow> inv w'"
  by (induction rule: rtranclp_induct) (auto intro: moves)

end

locale finite_moves =
  fixes move :: "'w \<Rightarrow> 'w \<Rightarrow> bool" and size_of :: "'w \<Rightarrow> nat" and busy :: "'w \<Rightarrow> bool"
  assumes progress: "busy w \<Longrightarrow> \<exists>w'. move w w' \<and> size_of w' < size_of w"
begin

lemma ends: "\<exists>w'. move\<^sup>*\<^sup>* w w' \<and> \<not> busy w'"
proof (induction w rule: measure_induct_rule [of size_of])
  case (less w)
  show ?case
  proof (cases "busy w")
    case True
    from progress [OF this] obtain w' where w': "move w w'" "size_of w' < size_of w" by blast
    from less [OF w'(2)] w'(1) show ?thesis by (meson converse_rtranclp_into_rtranclp)
  qed blast
qed

end

end
