(* ===== verification/Receiver_Gate.thy ===== *)
theory Receiver_Gate
  imports Kernel_Failure Transition
begin

text \<open>
  The gate between native publications and unread queries of one agent
  (\<open>agent-core/src/receiver_gate.rs\<close>). \<open>gate\<close> is the state behind the mutex and every operation one
  critical section of it. A cancellation token is its name; which tokens are cancelled is kept beside
  the gate, and anybody who holds a parent of a token may cancel it at any time. The handles \<open>Query\<close>
  and \<open>Publication\<close> the operations return are kept in \<open>world\<close> until they are dropped.
\<close>

section \<open>The gate\<close>

record gate =
  gate_publication :: bool
  gate_pending :: bool
  gate_query :: "(nat \<times> bool) option"

type_synonym 'a gate_op = "(gate, failure, 'a) op"

definition new_gate :: gate where
  "new_gate = \<lparr>gate_publication = False, gate_pending = False, gate_query = None\<rparr>"

definition gate_conflict :: failure where
  "gate_conflict = failure_new Conflict
     ''Settle the current native publication or unread query before changing delivery positions''"

text \<open>\<open>with_query_state\<close> runs an operation while it holds the mutex, unless a query is at work.\<close>

definition with_query_state :: "bool \<Rightarrow> bool result \<Rightarrow> bool option gate_op" where
  "with_query_state exclusive outcome g =
     (if gate_query g \<noteq> None \<or> exclusive \<and> gate_publication g then (Inr None, g)
      else (rbind outcome (\<lambda>v. Inr (Some v)), g))"

definition begin_query :: "nat \<Rightarrow> bool \<Rightarrow> bool \<Rightarrow> nat gate_op" where
  "begin_query child exclusive acknowledging g =
     (if exclusive \<and> (gate_publication g \<or> gate_pending g \<and> \<not> acknowledging) \<or> gate_query g \<noteq> None
      then (Inl gate_conflict, g)
      else (Inr child, g\<lparr>gate_query := Some (child, exclusive)\<rparr>))"

definition gate_read :: "nat \<Rightarrow> bool \<Rightarrow> nat gate_op" where
  "gate_read child exclusive = begin_query child exclusive False"

definition acknowledgment :: "nat \<Rightarrow> nat gate_op" where
  "acknowledgment child = begin_query child True True"

definition publication :: "unit gate_op" where
  "publication g =
     (if gate_publication g \<or> (case gate_query g of None \<Rightarrow> False | Some (_, exclusive) \<Rightarrow> exclusive)
      then (Inl gate_conflict, g)
      else (Inr (), g\<lparr>gate_publication := True\<rparr>))"

definition interrupt_query :: "gate \<Rightarrow> nat set \<Rightarrow> nat set" where
  "interrupt_query g cancelled =
     (case gate_query g of None \<Rightarrow> cancelled | Some (stop, _) \<Rightarrow> insert stop cancelled)"

definition set_pending :: "nat set \<Rightarrow> bool \<Rightarrow> unit gate_op" where
  "set_pending cancelled pending g =
     (if pending \<and> (case gate_query g of None \<Rightarrow> False | Some (stop, exclusive) \<Rightarrow> exclusive \<and> stop \<notin> cancelled)
      then (Inl gate_conflict, g)
      else (Inr (), g\<lparr>gate_pending := pending\<rparr>))"

definition publishing :: "gate \<Rightarrow> bool" where
  "publishing g \<longleftrightarrow> gate_publication g \<or> gate_pending g"

definition query_check :: "nat set \<Rightarrow> nat \<Rightarrow> unit result" where
  "query_check cancelled stop =
     (if stop \<in> cancelled
      then Inl (failure_new Unavailable ''Unread query cancelled; delivery positions are unchanged'')
      else Inr ())"

definition drop_query :: "gate \<Rightarrow> gate" where
  "drop_query g = g\<lparr>gate_query := None\<rparr>"

definition drop_publication :: "gate \<Rightarrow> gate" where
  "drop_publication g = g\<lparr>gate_publication := False\<rparr>"

section \<open>Tasks that share the gate\<close>

record lease =
  lease_stop :: nat
  lease_exclusive :: bool
  lease_acknowledging :: bool

record world =
  world_gate :: gate
  world_cancelled :: "nat set"
  world_queries :: "lease list"
  world_publications :: nat

inductive gate_start :: "world \<Rightarrow> bool" where
  "gate_start \<lparr>world_gate = new_gate, world_cancelled = cs, world_queries = [], world_publications = 0\<rparr>"

inductive gate_drop :: "world \<Rightarrow> world \<Rightarrow> bool" where
  drop_query_handle: "q \<in> set (world_queries w) \<Longrightarrow>
    gate_drop w (w\<lparr>world_gate := drop_query (world_gate w),
      world_cancelled := insert (lease_stop q) (world_cancelled w),
      world_queries := remove1 q (world_queries w)\<rparr>)"
| drop_publication_handle: "0 < world_publications w \<Longrightarrow>
    gate_drop w (w\<lparr>world_gate := drop_publication (world_gate w),
      world_publications := world_publications w - 1\<rparr>)"

inductive gate_move :: "world \<Rightarrow> world \<Rightarrow> bool" where
  move_query: "gate_read child exclusive (world_gate w) = (Inr stop, g) \<Longrightarrow>
    gate_move w (w\<lparr>world_gate := g, world_queries :=
      \<lparr>lease_stop = stop, lease_exclusive = exclusive, lease_acknowledging = False\<rparr> # world_queries w\<rparr>)"
| move_acknowledgment: "acknowledgment child (world_gate w) = (Inr stop, g) \<Longrightarrow>
    gate_move w (w\<lparr>world_gate := g, world_queries :=
      \<lparr>lease_stop = stop, lease_exclusive = True, lease_acknowledging = True\<rparr> # world_queries w\<rparr>)"
| move_publication: "publication (world_gate w) = (Inr (), g) \<Longrightarrow>
    gate_move w (w\<lparr>world_gate := g, world_publications := Suc (world_publications w)\<rparr>)"
| move_interrupt: "gate_move w (w\<lparr>world_cancelled := interrupt_query (world_gate w) (world_cancelled w)\<rparr>)"
| move_cancel: "gate_move w (w\<lparr>world_cancelled := insert stop (world_cancelled w)\<rparr>)"
| move_pending: "set_pending (world_cancelled w) pending (world_gate w) = (Inr (), g) \<Longrightarrow>
    gate_move w (w\<lparr>world_gate := g\<rparr>)"
| move_drop: "gate_drop w w' \<Longrightarrow> gate_move w w'"

inductive_cases gate_dropE: "gate_drop w w'"

section \<open>What the gate keeps apart\<close>

text \<open>
  The flags mirror the live handles; one query at most, one publication at most, never a publication
  beside an exclusive query; and what is exclusive while input is pending, and not yet told to stop,
  is an acknowledgment.
\<close>

definition gate_ok :: "world \<Rightarrow> bool" where
  "gate_ok w \<longleftrightarrow>
     (case world_queries w of
        [] \<Rightarrow> gate_query (world_gate w) = None
      | [q] \<Rightarrow> gate_query (world_gate w) = Some (lease_stop q, lease_exclusive q) \<and>
          (lease_exclusive q \<longrightarrow> \<not> gate_publication (world_gate w)) \<and>
          (lease_exclusive q \<and> gate_pending (world_gate w) \<and> lease_stop q \<notin> world_cancelled w \<longrightarrow>
            lease_acknowledging q)
      | _ \<Rightarrow> False) \<and>
     world_publications w = (if gate_publication (world_gate w) then 1 else 0)"

lemma gate_drop_ok: "gate_ok w \<Longrightarrow> gate_drop w w' \<Longrightarrow> gate_ok w'"
  by (erule gate_dropE)
    (auto simp: gate_ok_def drop_query_def drop_publication_def split: list.splits if_splits)

lemma gate_move_ok:
  assumes "gate_ok w" "gate_move w w'"
  shows "gate_ok w'"
  using assms(2)
proof cases
  case move_drop
  with assms(1) show ?thesis by (rule gate_drop_ok)
qed (use assms(1) in \<open>auto simp: gate_ok_def gate_read_def acknowledgment_def begin_query_def
      publication_def interrupt_query_def set_pending_def split: list.splits if_splits option.splits\<close>)

interpretation receiver: kept gate_start gate_move gate_ok
proof
  show "gate_start w \<Longrightarrow> gate_ok w" for w
    by (auto simp: gate_start.simps gate_ok_def new_gate_def)
qed (rule gate_move_ok)

definition live_handles :: "world \<Rightarrow> nat" where
  "live_handles w = length (world_queries w) + world_publications w"

interpretation dropping: finite_moves gate_drop live_handles "\<lambda>w. 0 < live_handles w"
proof
  fix w :: world
  assume "0 < live_handles w"
  then consider q qs where "world_queries w = q # qs" | "0 < world_publications w"
    by (cases "world_queries w") (auto simp: live_handles_def)
  then show "\<exists>w'. gate_drop w w' \<and> live_handles w' < live_handles w"
  proof cases
    case 1
    then have "q \<in> set (world_queries w)" by simp
    from drop_query_handle [OF this] 1 show ?thesis by (intro exI conjI) (assumption, simp add: live_handles_def)
  next
    case 2
    from drop_publication_handle [OF this] this show ?thesis
      by (intro exI conjI) (assumption, simp add: live_handles_def)
  qed
qed

text \<open>
  C34: Whatever the tasks do, at most one query and one publication are at work at a time, never a
  publication beside an exclusive query, the gate's flags say exactly which handles are live, and an
  exclusive query that is at work while input is pending, and was not told to stop, is an
  acknowledgment.
\<close>
theorem gate_exclusive:
  assumes "reachable gate_start gate_move w"
  shows "length (world_queries w) \<le> 1 \<and> world_publications w \<le> 1 \<and>
    (0 < world_publications w \<longleftrightarrow> gate_publication (world_gate w)) \<and>
    (world_queries w = [] \<longleftrightarrow> gate_query (world_gate w) = None) \<and>
    (\<forall>q \<in> set (world_queries w). lease_exclusive q \<longrightarrow> world_publications w = 0 \<and>
      (gate_pending (world_gate w) \<and> lease_stop q \<notin> world_cancelled w \<longrightarrow> lease_acknowledging q))"
  using receiver.holds [OF assms] by (auto simp: gate_ok_def split: list.splits if_splits)

text \<open>
  C35: The gate never stays shut: from every reachable state the live handles can be dropped, and then
  acknowledgments, publications and shared queries are let in, while an exclusive query is refused exactly
  as long as input is pending. Clearing the pending mark then succeeds, and after that every query,
  acknowledgment, publication and maintenance operation is let in.
\<close>
theorem gate_reopens:
  assumes "reachable gate_start gate_move w"
  shows "\<exists>w'. gate_drop\<^sup>*\<^sup>* w w' \<and> live_handles w' = 0 \<and>
    fst (gate_read child exclusive (world_gate w')) =
      (if exclusive \<and> gate_pending (world_gate w') then Inl gate_conflict else Inr child) \<and>
    fst (acknowledgment child (world_gate w')) = Inr child \<and> fst (publication (world_gate w')) = Inr () \<and>
    (\<exists>g. set_pending (world_cancelled w') False (world_gate w') = (Inr (), g) \<and>
      fst (gate_read child exclusive g) = Inr child \<and> fst (acknowledgment child g) = Inr child \<and>
      fst (publication g) = Inr () \<and> fst (with_query_state exclusive (Inr b) g) = Inr (Some b) \<and>
      \<not> publishing g)"
proof -
  obtain w' where w': "gate_drop\<^sup>*\<^sup>* w w'" "live_handles w' = 0" using dropping.ends [of w] by auto
  from w'(1) receiver.holds [OF assms] have "gate_ok w'"
    by (induction rule: rtranclp_induct) (auto intro: gate_drop_ok)
  then have "gate_query (world_gate w') = None" "\<not> gate_publication (world_gate w')"
    using w'(2) by (auto simp: gate_ok_def live_handles_def split: if_splits)
  with w' show ?thesis
    by (intro exI [of _ w'] conjI exI [of _ "(world_gate w')\<lparr>gate_pending := False\<rparr>"])
      (simp_all add: set_pending_def gate_read_def acknowledgment_def begin_query_def publication_def
        with_query_state_def publishing_def)
qed

section \<open>Witnesses\<close>

definition sample_world :: world where
  "sample_world = \<lparr>world_gate = \<lparr>gate_publication = False, gate_pending = True, gate_query = Some (7, True)\<rparr>,
     world_cancelled = {},
     world_queries = [\<lparr>lease_stop = 7, lease_exclusive = True, lease_acknowledging = True\<rparr>],
     world_publications = 0\<rparr>"

lemma sample_world_reachable: "reachable gate_start gate_move sample_world"
proof -
  let ?w0 = "\<lparr>world_gate = new_gate, world_cancelled = {}, world_queries = [], world_publications = 0\<rparr>"
  let ?w1 = "?w0\<lparr>world_gate := new_gate\<lparr>gate_pending := True\<rparr>\<rparr>"
  have "reachable gate_start gate_move ?w0" by (intro reachable_start gate_start.intros)
  moreover have "gate_move ?w0 ?w1" by (rule move_pending) (simp add: set_pending_def new_gate_def)
  moreover have "gate_move ?w1 (?w1\<lparr>world_gate := world_gate sample_world, world_queries :=
      \<lparr>lease_stop = 7, lease_exclusive = True, lease_acknowledging = True\<rparr> # world_queries ?w1\<rparr>)"
    by (rule move_acknowledgment) (simp add: acknowledgment_def begin_query_def new_gate_def sample_world_def)
  ultimately show ?thesis by (auto simp: sample_world_def intro: reachable_move)
qed

theorem gate_exclusive_witness:
  "length (world_queries sample_world) \<le> 1 \<and> world_publications sample_world = 0 \<and>
   gate_query (world_gate sample_world) \<noteq> None"
  using gate_exclusive [OF sample_world_reachable] by (simp add: sample_world_def)

theorem gate_reopens_witness:
  "\<exists>w'. gate_drop\<^sup>*\<^sup>* sample_world w' \<and> live_handles w' = 0 \<and>
    (\<exists>g. set_pending (world_cancelled w') False (world_gate w') = (Inr (), g) \<and> fst (publication g) = Inr ())"
  using gate_reopens [OF sample_world_reachable] by blast

end
