(* ===== verification/Listener_Budget.thy ===== *)
theory Listener_Budget
  imports Kernel_Failure Transition
begin

text \<open>
  The admission of listener work on one host (\<open>agent-core/src/listener_budget.rs\<close>): a semaphore and a
  bounded queue for each kind of work. A semaphore is the number of its free permits; a permit returns
  when its holder drops it. \<open>acquire\<close> suspends while it waits for a permit, so it is its two critical
  sections, \<open>acquire_start\<close> and \<open>acquire_wait\<close>.
\<close>

section \<open>Slots\<close>

datatype work = Acquisition | Publication | NativeStart

record slots =
  slots_active :: nat
  slots_queued :: nat

record budget =
  budget_acquisition :: slots
  budget_publication :: slots
  budget_native_start :: slots

definition new_slots :: "nat \<Rightarrow> slots" where
  "new_slots count = \<lparr>slots_active = count, slots_queued = 0\<rparr>"

definition default_budget :: budget where
  "default_budget = \<lparr>budget_acquisition = new_slots 16, budget_publication = new_slots 8,
     budget_native_start = new_slots 4\<rparr>"

fun slots_of :: "work \<Rightarrow> budget \<Rightarrow> slots" where
  "slots_of Acquisition b = budget_acquisition b"
| "slots_of Publication b = budget_publication b"
| "slots_of NativeStart b = budget_native_start b"

fun set_slots :: "work \<Rightarrow> slots \<Rightarrow> budget \<Rightarrow> budget" where
  "set_slots Acquisition v b = b\<lparr>budget_acquisition := v\<rparr>"
| "set_slots Publication v b = b\<lparr>budget_publication := v\<rparr>"
| "set_slots NativeStart v b = b\<lparr>budget_native_start := v\<rparr>"

definition work_unavailable :: failure where
  "work_unavailable = failure_new Unavailable
     ''Listener host work admission is unavailable; input has not been accepted''"

section \<open>Acquiring a permit\<close>

datatype admission_step = Granted | Queued

definition try_acquire :: "slots \<Rightarrow> slots option" where
  "try_acquire v = (if 0 < slots_active v then Some (v\<lparr>slots_active := slots_active v - 1\<rparr>) else None)"

definition acquire_start :: "work \<Rightarrow> bool \<Rightarrow> bool \<Rightarrow> (budget, failure, admission_step) op" where
  "acquire_start kind cancelled immediate b =
     (let v = slots_of kind b in
      if cancelled then (Inl work_unavailable, b)
      else if immediate then (case try_acquire v of
          None \<Rightarrow> (Inl work_unavailable, b)
        | Some v' \<Rightarrow> (Inr Granted, set_slots kind v' b))
      else if slots_queued v < 10000
      then (Inr Queued, set_slots kind (v\<lparr>slots_queued := slots_queued v + 1\<rparr>) b)
      else (Inl work_unavailable, b))"

text \<open>A waiting task resumes when it is cancelled, which counts first, or a permit is free; it leaves the queue either way.\<close>

definition leave_queue :: "slots \<Rightarrow> slots" where
  "leave_queue v = v\<lparr>slots_queued := slots_queued v - 1\<rparr>"

definition acquire_wait :: "work \<Rightarrow> bool \<Rightarrow> budget \<Rightarrow> ((failure + unit) \<times> budget) option" where
  "acquire_wait kind cancelled b =
     (let v = slots_of kind b in
      if cancelled then Some (Inl work_unavailable, set_slots kind (leave_queue v) b)
      else case try_acquire v of
          None \<Rightarrow> None
        | Some v' \<Rightarrow> Some (Inr (), set_slots kind (leave_queue v') b))"

definition release_permit :: "work \<Rightarrow> budget \<Rightarrow> budget" where
  "release_permit kind b = (let v = slots_of kind b in set_slots kind (v\<lparr>slots_active := slots_active v + 1\<rparr>) b)"

section \<open>Tasks that share the budget\<close>

record host =
  host_budget :: budget
  host_waiting :: "work \<Rightarrow> nat"
  host_holding :: "work \<Rightarrow> nat"

definition idle_host :: host where
  "idle_host = \<lparr>host_budget = default_budget, host_waiting = (\<lambda>_. 0), host_holding = (\<lambda>_. 0)\<rparr>"

definition bump :: "work \<Rightarrow> (nat \<Rightarrow> nat) \<Rightarrow> (work \<Rightarrow> nat) \<Rightarrow> work \<Rightarrow> nat" where
  "bump kind f counts = counts(kind := f (counts kind))"

inductive host_move :: "host \<Rightarrow> host \<Rightarrow> bool" where
  host_granted: "acquire_start kind cancelled immediate (host_budget h) = (Inr Granted, b) \<Longrightarrow>
    host_move h (h\<lparr>host_budget := b, host_holding := bump kind Suc (host_holding h)\<rparr>)"
| host_queued: "acquire_start kind cancelled immediate (host_budget h) = (Inr Queued, b) \<Longrightarrow>
    host_move h (h\<lparr>host_budget := b, host_waiting := bump kind Suc (host_waiting h)\<rparr>)"
| host_admitted: "0 < host_waiting h kind \<Longrightarrow> acquire_wait kind cancelled (host_budget h) = Some (Inr (), b) \<Longrightarrow>
    host_move h (h\<lparr>host_budget := b, host_waiting := bump kind (\<lambda>n. n - 1) (host_waiting h),
      host_holding := bump kind Suc (host_holding h)\<rparr>)"
| host_cancelled: "0 < host_waiting h kind \<Longrightarrow> acquire_wait kind cancelled (host_budget h) = Some (Inl e, b) \<Longrightarrow>
    host_move h (h\<lparr>host_budget := b, host_waiting := bump kind (\<lambda>n. n - 1) (host_waiting h)\<rparr>)"
| host_released: "0 < host_holding h kind \<Longrightarrow>
    host_move h (h\<lparr>host_budget := release_permit kind (host_budget h),
      host_holding := bump kind (\<lambda>n. n - 1) (host_holding h)\<rparr>)"

fun capacity :: "work \<Rightarrow> nat" where
  "capacity Acquisition = 16"
| "capacity Publication = 8"
| "capacity NativeStart = 4"

definition host_ok :: "host \<Rightarrow> bool" where
  "host_ok h \<longleftrightarrow> (\<forall>kind. host_holding h kind + slots_active (slots_of kind (host_budget h)) = capacity kind \<and>
     host_waiting h kind = slots_queued (slots_of kind (host_budget h)) \<and> slots_queued (slots_of kind (host_budget h)) \<le> 10000)"

lemma slots_of_set_slots [simp]: "slots_of kind (set_slots other v b) = (if kind = other then v else slots_of kind b)"
  by (cases kind; cases other) simp_all

lemma try_acquire_Some [op_iff]:
  "try_acquire v = Some v' \<longleftrightarrow> 0 < slots_active v \<and> v' = v\<lparr>slots_active := slots_active v - 1\<rparr>"
  by (auto simp: try_acquire_def)

lemma host_move_ok:
  assumes "host_ok h" "host_move h h'"
  shows "host_ok h'"
  unfolding host_ok_def
proof
  fix kind
  have "host_holding h kind + slots_active (slots_of kind (host_budget h)) = capacity kind"
    "host_waiting h kind = slots_queued (slots_of kind (host_budget h))"
    "slots_queued (slots_of kind (host_budget h)) \<le> 10000"
    using assms(1) by (simp_all add: host_ok_def)
  with assms(2) show "host_holding h' kind + slots_active (slots_of kind (host_budget h')) = capacity kind \<and>
    host_waiting h' kind = slots_queued (slots_of kind (host_budget h')) \<and>
    slots_queued (slots_of kind (host_budget h')) \<le> 10000"
    by cases (auto simp: acquire_start_def acquire_wait_def release_permit_def leave_queue_def bump_def
      Let_def op_iff split: if_splits option.splits)
qed

interpretation hosts: kept "\<lambda>h. h = idle_host" host_move host_ok
proof
  have "slots_of kind default_budget = new_slots (capacity kind)" for kind
    by (cases kind) (simp_all add: default_budget_def)
  then show "h = idle_host \<Longrightarrow> host_ok h" for h
    by (simp add: host_ok_def idle_host_def new_slots_def)
qed (rule host_move_ok)

text \<open>
  C36: At any time at most 16 acquisitions, 8 publications and 4 native starts hold a permit and at most
  10,000 of each wait; no permit is lost: what is not held is free, and a task that asks while a permit is
  free gets it at once.
\<close>
theorem host_work_bounded:
  assumes "reachable (\<lambda>h. h = idle_host) host_move h"
  shows "host_holding h kind \<le> capacity kind \<and> host_waiting h kind \<le> 10000 \<and>
    (host_holding h kind < capacity kind \<longrightarrow>
      fst (acquire_start kind False True (host_budget h)) = Inr Granted \<and>
      (\<exists>b. acquire_wait kind False (host_budget h) = Some (Inr (), b)))"
proof -
  have "host_holding h kind + slots_active (slots_of kind (host_budget h)) = capacity kind" "host_waiting h kind \<le> 10000"
    using hosts.holds [OF assms] by (simp_all add: host_ok_def)
  then show ?thesis by (auto simp: acquire_start_def acquire_wait_def try_acquire_def Let_def)
qed

lemma idle_host_reachable: "reachable (\<lambda>h. h = idle_host) host_move idle_host"
  by (rule reachable_start) simp

theorem host_work_bounded_witness:
  "host_holding idle_host NativeStart \<le> 4 \<and> fst (acquire_start NativeStart False True default_budget) = Inr Granted"
  using host_work_bounded [OF idle_host_reachable, of NativeStart] by (simp add: idle_host_def)

end
