(* ===== verification/Lifecycle_Observer.thy ===== *)
theory Lifecycle_Observer
  imports Decision_Values
begin

text \<open>
  What a native runtime reports to its owner (fleetd \<open>domain/src/lifecycle_observer.rs\<close>). A tracker
  keeps the last observation of every saved history, the time of the last activity and the generation
  of the native execution whose reports count. The map of observations is the list of its entries, each
  session once; the clock's answer is an argument.
\<close>

section \<open>The tracker\<close>

record context_observation =
  ctx_state :: native_state
  ctx_settings :: "setting list"
  ctx_observed_at :: int

record tracker =
  tracker_activity :: int
  tracker_generation :: nat
  tracker_contexts :: "(string \<times> context_observation) list"
  tracker_error :: "failure option"
  tracker_stop :: bool

datatype native_event =
    OutputEvent string string "string option" string
  | StateEvent runtime string "string option" native_state int "setting list" "string option"

type_synonym 'a tracker_op = "(tracker, failure, 'a) op"

definition new_tracker :: "int \<Rightarrow> bool \<Rightarrow> tracker" where
  "new_tracker now stop = \<lparr>tracker_activity = now, tracker_generation = 0, tracker_contexts = [],
     tracker_error = None, tracker_stop = stop\<rparr>"

definition tracker_check :: "tracker \<Rightarrow> unit result" where
  "tracker_check t = (case tracker_error t of None \<Rightarrow> Inr () | Some e \<Rightarrow> Inl e)"

definition tracker_settings :: "string \<Rightarrow> setting list \<Rightarrow> tracker \<Rightarrow> setting list" where
  "tracker_settings session configured t =
     (case map_of (tracker_contexts t) session of None \<Rightarrow> configured | Some v \<Rightarrow> ctx_settings v)"

text \<open>The most urgent state any history is in, with the latest time it was seen.\<close>

definition state_priority :: "native_state list" where
  "state_priority = [FailedState, UnavailableState, WaitingApproval, WaitingAnswer, Working, Idle]"

fun latest :: "int list \<Rightarrow> int option" where
  "latest [] = None"
| "latest (x # xs) = (case latest xs of None \<Rightarrow> Some x | Some y \<Rightarrow> Some (max x y))"

definition diagnostic_state :: "tracker \<Rightarrow> string \<times> int option" where
  "diagnostic_state t =
     (let seen = map snd (tracker_contexts t);
          state = find_row (\<lambda>st. st \<in> set (map ctx_state seen)) state_priority
      in ((case state of None \<Rightarrow> ''unknown'' | Some st \<Rightarrow> native_state_code st),
          latest (map ctx_observed_at (filter (\<lambda>v. Some (ctx_state v) = state) seen))))"

definition tracker_touch :: "int result \<Rightarrow> unit tracker_op" where
  "tracker_touch clock t = (case clock of
       Inl e \<Rightarrow> (Inl e, t)
     | Inr now \<Rightarrow> let t' = t\<lparr>tracker_activity := now\<rparr> in (tracker_check t', t'))"

definition working_state :: "native_state \<Rightarrow> bool" where
  "working_state st \<longleftrightarrow> st \<in> {Working, WaitingAnswer, WaitingApproval}"

definition too_many_contexts :: failure where
  "too_many_contexts = failure_new Limit
     ''Native context observations exceed their bounded saved history count''"

fun tracker_observe :: "int result \<Rightarrow> native_event \<Rightarrow> unit tracker_op" where
  "tracker_observe clock (OutputEvent _ _ _ _) t = tracker_touch clock t"
| "tracker_observe clock (StateEvent _ session _ state observed_at settings _) t =
     (let previous = map_option ctx_state (map_of (tracker_contexts t) session) in
      if previous = None \<and> length (tracker_contexts t) \<ge> 2002 then (Inl too_many_contexts, t)
      else
        let v = \<lparr>ctx_state = state, ctx_settings = settings, ctx_observed_at = observed_at\<rparr>;
            t' = t\<lparr>tracker_contexts := (session, v) # filter (\<lambda>(k, _). k \<noteq> session) (tracker_contexts t)\<rparr>
        in if working_state state \<or> state = Idle \<and> (case previous of None \<Rightarrow> False | Some st \<Rightarrow> working_state st)
           then tracker_touch clock t' else (Inr (), t'))"

text \<open>The hook of one generation: what it forwards to the listener and what becomes of the tracker.\<close>

definition hook_observe :: "nat \<Rightarrow> int result \<Rightarrow> native_event \<Rightarrow> tracker \<Rightarrow> native_event list \<times> tracker" where
  "hook_observe generation clock event t =
     (if generation \<noteq> tracker_generation t \<or> tracker_stop t then ([], t)
      else case tracker_observe clock event t of
          (Inl e, t') \<Rightarrow> ([], t'\<lparr>tracker_error := Some (case tracker_error t' of None \<Rightarrow> e | Some first \<Rightarrow> first),
                              tracker_stop := True\<rparr>)
        | (Inr _, t') \<Rightarrow> ([event], t'))"

text \<open>The generation is a \<open>u64\<close> that wraps.\<close>

definition next_generation :: "nat \<Rightarrow> nat" where
  "next_generation g = (g + 1) mod 2 ^ 64"

definition new_generation :: "tracker \<Rightarrow> tracker" where
  "new_generation t = t\<lparr>tracker_generation := next_generation (tracker_generation t)\<rparr>"

section \<open>Lemmas\<close>

definition tracker_ok :: "tracker \<Rightarrow> bool" where
  "tracker_ok t \<longleftrightarrow> distinct (map fst (tracker_contexts t)) \<and> length (tracker_contexts t) \<le> 2002 \<and>
     (tracker_error t \<noteq> None \<longrightarrow> tracker_stop t)"

lemma tracker_touch_keeps:
  "tracker_touch clock t = (r, t') \<Longrightarrow> tracker_contexts t' = tracker_contexts t \<and>
     tracker_error t' = tracker_error t \<and> tracker_stop t' = tracker_stop t"
  by (auto simp: tracker_touch_def Let_def split: sum.splits)

lemma filter_key_shorter: "k \<in> fst ` set xs \<Longrightarrow> length (filter (\<lambda>(j, _). j \<noteq> k) xs) < length xs"
  by (induction xs) (auto simp: le_imp_less_Suc)

lemma observe_state_cases:
  assumes "tracker_observe clock (StateEvent rt session room state at settings error) t = (r, t')"
  shows "t' = t \<or> (map_of (tracker_contexts t) session \<noteq> None \<or> length (tracker_contexts t) < 2002) \<and>
    (tracker_touch clock (t\<lparr>tracker_contexts := (session, \<lparr>ctx_state = state, ctx_settings = settings, ctx_observed_at = at\<rparr>) #
       filter (\<lambda>(k, _). k \<noteq> session) (tracker_contexts t)\<rparr>) = (r, t') \<or>
     t' = t\<lparr>tracker_contexts := (session, \<lparr>ctx_state = state, ctx_settings = settings, ctx_observed_at = at\<rparr>) #
       filter (\<lambda>(k, _). k \<noteq> session) (tracker_contexts t)\<rparr>)"
proof (cases "map_of (tracker_contexts t) session = None \<and> length (tracker_contexts t) \<ge> 2002")
  case True
  with assms show ?thesis by simp
next
  case False
  then have "map_of (tracker_contexts t) session \<noteq> None \<or> length (tracker_contexts t) < 2002" by linarith
  with assms False show ?thesis unfolding tracker_observe.simps Let_def map_option_is_None
    by (simp only: if_False) (metis (no_types, lifting) prod.inject)
qed

lemma tracker_observe_bound:
  assumes "tracker_ok t" "tracker_observe clock event t = (r, t')"
  shows "distinct (map fst (tracker_contexts t')) \<and> length (tracker_contexts t') \<le> 2002 \<and>
    tracker_error t' = tracker_error t \<and> tracker_stop t' = tracker_stop t"
proof (cases event)
  case (OutputEvent a b c d)
  with assms tracker_touch_keeps [of clock t r t'] show ?thesis by (simp add: tracker_ok_def)
next
  case (StateEvent rt session room state at settings error)
  define c where "c = (session, \<lparr>ctx_state = state, ctx_settings = settings, ctx_observed_at = at\<rparr>) #
    filter (\<lambda>(k, _). k \<noteq> session) (tracker_contexts t)"
  have ok: "distinct (map fst (tracker_contexts t))" "length (tracker_contexts t) \<le> 2002"
    using assms(1) by (simp_all add: tracker_ok_def)
  have unique: "distinct (map fst c)" using ok(1) by (auto simp: c_def distinct_map_filter)
  have bound: "length c \<le> 2002" if "map_of (tracker_contexts t) session \<noteq> None \<or> length (tracker_contexts t) < 2002"
    using that
  proof
    assume "map_of (tracker_contexts t) session \<noteq> None"
    then have "session \<in> fst ` set (tracker_contexts t)" by (simp add: map_of_eq_None_iff)
    from filter_key_shorter [OF this] ok(2) show ?thesis by (simp add: c_def)
  next
    assume "length (tracker_contexts t) < 2002"
    from le_less_trans [OF length_filter_le this, of "\<lambda>(k, _). k \<noteq> session"] show ?thesis by (simp add: c_def)
  qed
  from observe_state_cases [OF assms(2) [unfolded StateEvent]] consider "t' = t"
    | "map_of (tracker_contexts t) session \<noteq> None \<or> length (tracker_contexts t) < 2002"
      "tracker_touch clock (t\<lparr>tracker_contexts := c\<rparr>) = (r, t') \<or> t' = t\<lparr>tracker_contexts := c\<rparr>"
    unfolding c_def by blast
  then show ?thesis
  proof cases
    case 1
    with ok show ?thesis by simp
  next
    case 2
    from 2(2) have "tracker_contexts t' = c \<and> tracker_error t' = tracker_error t \<and> tracker_stop t' = tracker_stop t"
      using tracker_touch_keeps by fastforce
    with unique bound [OF 2(1)] show ?thesis by simp
  qed
qed

lemma hook_observe_ok:
  assumes "tracker_ok t"
  shows "tracker_ok (snd (hook_observe generation clock event t))"
proof (cases "tracker_observe clock event t")
  case (Pair r t')
  with tracker_observe_bound [OF assms this] assms show ?thesis
    by (auto simp: hook_observe_def tracker_ok_def split: sum.splits)
qed

lemma stale_events_ignored:
  "generation \<noteq> tracker_generation t \<Longrightarrow> hook_observe generation clock event t = ([], t)"
  by (simp add: hook_observe_def)

lemma stopped_tracker_silent: "tracker_stop t \<Longrightarrow> hook_observe generation clock event t = ([], t)"
  by (simp add: hook_observe_def)

end
