(* ===== verification/Native_Lifecycle.thy ===== *)
theory Native_Lifecycle
  imports Lifecycle_Observer Transition Kernel_Text
begin

text \<open>
  The owner of one agent's native execution (fleetd \<open>domain/src/native_lifecycle.rs\<close> and
  \<open>native_lifecycle/logical.rs\<close>): it wakes the runtime when input arrives, keeps it while it works and
  closes it when it has been idle. \<open>owner\<close> is the state behind the mutex, the counter of calls and the
  tracker; the definitions of the first sections are the critical sections of the code. Several tasks
  run them at once; \<open>lifecycle_move\<close> interleaves them, with the asynchronous lock \<open>transition\<close> held by
  at most one task, whose place in the code is its \<open>stage\<close>. The task may be dropped wherever it awaits
  (a caller that gives up at its deadline drops its future), which releases the lock and leaves the state
  as it is. What the runtime adapter answers (a start that succeeds or fails, a close that cannot be
  proved, the saved contexts) is chosen by the environment. A native connection is a number that is never
  used twice; \<open>lc_live\<close> holds those that were started and not yet proved closed. A start that is dropped
  before it returned leaves none: its process is killed with it (\<open>adapter-process/src/lib.rs\<close>).
\<close>

section \<open>State\<close>

datatype phase = NativeRunning | NativeSleeping | NativeWaking | NativeFailed

record saved_context =
  saved_context :: string
  saved_runtime :: string
  saved_session_id :: string
  saved_workspace :: string

record owner =
  own_native :: "nat option"
  own_phase :: phase
  own_idle_seconds :: int
  own_session :: string
  own_contexts :: "saved_context list"
  own_unsettled :: "(string \<times> string) list"
  own_calls :: nat
  own_tracker :: tracker

record session_state =
  state_phase :: phase
  state_last_activity_at :: "int option"
  state_history_available :: bool

type_synonym 'a owner_op = "(owner, failure, 'a) op"

fun primary :: "history_mode \<Rightarrow> string" where
  "primary Shared = ''shared''"
| "primary PerRoom = ''control''"

text \<open>What \<open>Owner::open\<close> starts from.\<close>

definition saved_session :: "history_mode \<Rightarrow> saved_context list \<Rightarrow> string" where
  "saved_session mode contexts =
     (case find_row (\<lambda>c. saved_context c = primary mode) contexts of
        None \<Rightarrow> [] | Some c \<Rightarrow> saved_session_id c)"

definition history_missing :: failure where
  "history_missing = failure_new Missing
     ''Exact saved history is missing; a sleeping resume never creates a replacement''"

definition open_owner :: "history_mode \<Rightarrow> bool \<Rightarrow> saved_context list \<Rightarrow> int result \<Rightarrow> bool \<Rightarrow> owner result" where
  "open_owner mode allow_new_history contexts clock stopped =
     (let session = saved_session mode contexts in
      if \<not> allow_new_history \<and> session = [] then Inl history_missing
      else rbind clock (\<lambda>activity. Inr \<lparr>own_native = None, own_phase = NativeSleeping,
        own_idle_seconds = 1800, own_session = session, own_contexts = contexts, own_unsettled = [],
        own_calls = 0, own_tracker = new_tracker activity stopped\<rparr>))"

section \<open>Waking\<close>

datatype check = Reuse nat | Replace nat | Launch

definition ensure_check :: "nat set \<Rightarrow> owner \<Rightarrow> check \<times> owner" where
  "ensure_check cancelled own =
     (case own_native own of
        None \<Rightarrow> (Launch, own)
      | Some n \<Rightarrow>
          if n \<notin> cancelled \<and> own_phase own = NativeRunning then (Reuse n, own)
          else (Replace n, own\<lparr>own_phase := NativeFailed\<rparr>))"

definition close_unproved :: failure where
  "close_unproved = failure_new Conflict
     ''Native close is not proved; replacement is blocked until cleanup succeeds''"

definition discard :: "nat \<Rightarrow> bool \<Rightarrow> unit owner_op" where
  "discard n closed own =
     (if \<not> closed then (Inl close_unproved, own\<lparr>own_phase := NativeFailed\<rparr>)
      else (Inr (), own\<lparr>own_tracker := new_generation (own_tracker own),
        own_native := (if own_native own = Some n then None else own_native own)\<rparr>))"

text \<open>The saved identity a start must resume and whether it may create a history instead.\<close>

definition launch_input :: "bool \<Rightarrow> owner \<Rightarrow> string \<times> bool" where
  "launch_input allow_new_history own = (own_session own, allow_new_history \<and> own_session own = [])"

definition ensure_wake :: "owner \<Rightarrow> owner" where
  "ensure_wake own = own\<lparr>own_phase := NativeWaking\<rparr>"

definition new_hooks :: "owner \<Rightarrow> nat \<times> owner" where
  "new_hooks own = (let own' = own\<lparr>own_tracker := new_generation (own_tracker own)\<rparr>
     in (tracker_generation (own_tracker own'), own'))"

definition set_phase :: "phase \<Rightarrow> owner \<Rightarrow> owner" where
  "set_phase p own = own\<lparr>own_phase := p\<rparr>"

definition wrong_history :: failure where
  "wrong_history = failure_new Conflict
     ''The resumed native history differs from its saved primary identity''"

definition unsaved_history :: failure where
  "unsaved_history = failure_new Conflict
     ''Native activation did not retain its exact saved primary history''"

definition verify_native ::
  "history_mode \<Rightarrow> string \<Rightarrow> string \<Rightarrow> unit result \<Rightarrow> saved_context list result \<Rightarrow> unit result \<Rightarrow> saved_context list result" where
  "verify_native mode original session transferred saved settled =
     rbind transferred (\<lambda>_.
     if original \<noteq> [] \<and> session \<noteq> original then Inl wrong_history
     else rbind saved (\<lambda>contexts.
       if \<not> (\<exists>c \<in> set contexts. saved_context c = primary mode \<and> saved_session_id c = session)
       then Inl unsaved_history
       else rbind settled (\<lambda>_. Inr contexts)))"

definition ensure_commit :: "nat \<Rightarrow> string \<Rightarrow> saved_context list \<Rightarrow> int result \<Rightarrow> nat owner_op" where
  "ensure_commit n session contexts clock own =
     (let own' = own\<lparr>own_session := session, own_contexts := contexts, own_native := Some n,
        own_phase := NativeRunning\<rparr>
      in case tracker_touch clock (own_tracker own') of
          (Inl e, t) \<Rightarrow> (Inl e, own'\<lparr>own_tracker := t\<rparr>)
        | (Inr _, t) \<Rightarrow> (Inr n, own'\<lparr>own_tracker := t\<rparr>))"

text \<open>
  The reports of the owner itself, one for every saved context: the ones sent before the first error,
  and the error.
\<close>

definition owner_report ::
  "setting list \<Rightarrow> native_state \<Rightarrow> failure option \<Rightarrow> int result \<Rightarrow> tracker \<Rightarrow> saved_context \<Rightarrow> native_event result" where
  "owner_report configured st error clock t c =
     rbind (runtime_parse (saved_runtime c)) (\<lambda>rt. rbind clock (\<lambda>now.
     Inr (StateEvent rt (saved_session_id c) (context_room (saved_context c)) st now
       (tracker_settings (saved_session_id c) configured t)
       (map_option (\<lambda>e. truncate_utf8 (failure_message e) 4000) error))))"

fun owner_reports :: "(saved_context \<Rightarrow> native_event result) \<Rightarrow> saved_context list \<Rightarrow> native_event list \<times> unit result" where
  "owner_reports report [] = ([], Inr ())"
| "owner_reports report (c # cs) = (case report c of
       Inl e \<Rightarrow> ([], Inl e)
     | Inr v \<Rightarrow> let (sent, r) = owner_reports report cs in (v # sent, r))"

definition owner_observe ::
  "setting list result \<Rightarrow> native_state \<Rightarrow> failure option \<Rightarrow> int result \<Rightarrow> owner \<Rightarrow> native_event list \<times> unit result" where
  "owner_observe configured st error clock own = (case configured of
       Inl e \<Rightarrow> ([], Inl e)
     | Inr values \<Rightarrow> owner_reports (owner_report values st error clock (own_tracker own)) (own_contexts own))"

section \<open>Sleeping\<close>

datatype maintenance = Disconnected nat | IdleNative nat

definition idle_due :: "int \<Rightarrow> owner \<Rightarrow> bool" where
  "idle_due now own \<longleftrightarrow> 0 < own_idle_seconds own \<and>
     saturate_i64 (now - tracker_activity (own_tracker own)) \<ge> own_idle_seconds own * 1000 \<and>
     own_unsettled own = [] \<and> own_calls own = 0"

definition maintain_read ::
  "nat set \<Rightarrow> int result \<Rightarrow> bool \<Rightarrow> bool \<Rightarrow> bool result \<Rightarrow> owner \<Rightarrow> maintenance option result" where
  "maintain_read cancelled clock pending_decisions pending_input busy own =
     rbind (tracker_check (own_tracker own)) (\<lambda>_.
     if tracker_stop (own_tracker own) then Inr None
     else case own_native own of
         None \<Rightarrow> Inr None
       | Some n \<Rightarrow>
           if n \<in> cancelled then Inr (Some (Disconnected n))
           else rbind (if 0 < own_idle_seconds own then rbind clock (\<lambda>now. Inr (idle_due now own)) else Inr False)
             (\<lambda>due. if \<not> due \<or> pending_decisions \<or> pending_input then Inr None
               else rbind busy (\<lambda>b. Inr (if b then None else Some (IdleNative n)))))"

definition idle_recheck :: "nat \<Rightarrow> owner \<Rightarrow> bool" where
  "idle_recheck n own \<longleftrightarrow> own_calls own = 0 \<and> own_unsettled own = [] \<and> own_native own = Some n"

definition owner_current :: "nat set \<Rightarrow> owner \<Rightarrow> session_state result" where
  "owner_current cancelled own =
     rbind (tracker_check (own_tracker own)) (\<lambda>_. Inr \<lparr>
       state_phase = (if own_phase own = NativeRunning \<and>
           (case own_native own of None \<Rightarrow> False | Some n \<Rightarrow> n \<in> cancelled)
         then NativeFailed else own_phase own),
       state_last_activity_at = Some (tracker_activity (own_tracker own)),
       state_history_available = (own_session own \<noteq> [])\<rparr>)"

definition configure_idle :: "int \<Rightarrow> unit owner_op" where
  "configure_idle seconds own =
     (if \<not> (0 \<le> seconds \<and> seconds \<le> 604800) then (Inl (failure_new Invalid ''Invalid native idle timeout''), own)
      else (Inr (), own\<lparr>own_idle_seconds := seconds\<rparr>))"

section \<open>Calls of one logical connection\<close>

definition put_message :: "string \<Rightarrow> string \<Rightarrow> (string \<times> string) list \<Rightarrow> (string \<times> string) list" where
  "put_message m context ms = (m, context) # filter (\<lambda>(k, _). k \<noteq> m) ms"

definition remove_messages :: "string list \<Rightarrow> (string \<times> string) list \<Rightarrow> (string \<times> string) list" where
  "remove_messages done ms = filter (\<lambda>(k, _). k \<notin> set done) ms"

definition owner_touch :: "string \<Rightarrow> string \<Rightarrow> int result \<Rightarrow> unit owner_op" where
  "owner_touch message context clock own = (case tracker_touch clock (own_tracker own) of
       (Inl e, t) \<Rightarrow> (Inl e, own\<lparr>own_tracker := t\<rparr>)
     | (Inr _, t) \<Rightarrow> (Inr (), own\<lparr>own_tracker := t,
         own_unsettled := put_message message context (own_unsettled own)\<rparr>))"

definition call_entered :: "owner \<Rightarrow> owner" where
  "call_entered own = own\<lparr>own_calls := own_calls own + 1\<rparr>"

definition call_left :: "owner \<Rightarrow> owner" where
  "call_left own = own\<lparr>own_calls := own_calls own - 1\<rparr>"

definition logical_context :: "history_mode \<Rightarrow> string option \<Rightarrow> string" where
  "logical_context mode room = (case room of None \<Rightarrow> primary mode | Some r \<Rightarrow> for_room r)"

definition select_native :: "string \<Rightarrow> string \<Rightarrow> string result option \<Rightarrow> string option result" where
  "select_native session native_session conversation =
     rbind (case conversation of None \<Rightarrow> Inr None | Some r \<Rightarrow> rbind r (\<lambda>v. Inr (Some v))) (\<lambda>selected.
     if (case selected of None \<Rightarrow> native_session | Some v \<Rightarrow> v) \<noteq> session
     then Inl (failure_new Conflict ''Selected room history is not the exact saved native history'')
     else Inr selected)"

definition logical_inspect :: "nat set \<Rightarrow> bool result \<Rightarrow> owner \<Rightarrow> bool result" where
  "logical_inspect cancelled busy own = (case own_native own of
       Some n \<Rightarrow> if n \<notin> cancelled
         then rbind busy (\<lambda>b. Inr (b \<or> own_unsettled own \<noteq> [] \<or> own_calls own \<noteq> 0))
         else Inr (own_phase own = NativeWaking \<or> own_calls own \<noteq> 0)
     | None \<Rightarrow> Inr (own_phase own = NativeWaking \<or> own_calls own \<noteq> 0))"

definition receipt_unavailable :: failure where
  "receipt_unavailable = failure_new Unavailable
     ''Exact receipt acknowledgment is awaiting native recovery''"

definition owner_acknowledge :: "nat set \<Rightarrow> string list \<Rightarrow> unit result \<Rightarrow> unit owner_op" where
  "owner_acknowledge cancelled messages acknowledged own =
     (if messages = [] then (Inr (), own)
      else case opt_filter (\<lambda>n. own_phase own = NativeRunning \<and> n \<notin> cancelled) (own_native own) of
          None \<Rightarrow> (Inl receipt_unavailable, own)
        | Some n \<Rightarrow> (case acknowledged of
            Inl e \<Rightarrow> (Inl e, own)
          | Inr _ \<Rightarrow> (Inr (), own\<lparr>own_unsettled := remove_messages messages (own_unsettled own)\<rparr>)))"

definition owner_recovered :: "string \<Rightarrow> bool \<Rightarrow> owner \<Rightarrow> owner" where
  "owner_recovered message received own =
     (if received then own else own\<lparr>own_unsettled := remove_messages [message] (own_unsettled own)\<rparr>)"

definition owner_conversation_saved :: "saved_context list \<Rightarrow> string \<Rightarrow> (owner, failure, string option) op" where
  "owner_conversation_saved contexts session own =
     (case find_row (\<lambda>c. saved_session_id c = session) contexts of
        None \<Rightarrow> (Inl (failure_new Conflict ''The selected room has no saved native history''), own)
      | Some c \<Rightarrow> (Inr (context_room (saved_context c)), own\<lparr>own_contexts := contexts\<rparr>))"

section \<open>Tasks that share the owner\<close>

text \<open>Where the task that holds \<open>transition\<close> is; \<open>Settling\<close> is the last section of a close.\<close>

datatype stage =
    EnsureChecking
  | EnsureReplacing nat
  | EnsureLaunching
  | EnsureStarting string bool nat
  | EnsureVerifying string nat
  | EnsureAbandoning nat
  | DisconnectedClosing nat
  | IdleClosing nat
  | StopClosing nat
  | Settling phase

record lifecycle =
  lc_owner :: owner
  lc_live :: "nat set"
  lc_cancelled :: "nat set"
  lc_next :: nat
  lc_stage :: "stage option"
  lc_waiting :: nat
  lc_maintaining :: "maintenance list"

text \<open>A close that the adapter proves ends the connection; one that it cannot prove may leave it running.\<close>

definition closes :: "nat \<Rightarrow> bool \<Rightarrow> lifecycle \<Rightarrow> stage option \<Rightarrow> lifecycle" where
  "closes n closed w next =
     w\<lparr>lc_owner := snd (discard n closed (lc_owner w)),
       lc_live := (if closed then lc_live w - {n} else lc_live w),
       lc_stage := (if closed then next else None)\<rparr>"

inductive lifecycle_start :: "history_mode \<Rightarrow> bool \<Rightarrow> lifecycle \<Rightarrow> bool" for mode allow where
  "open_owner mode allow contexts clock stopped = Inr own \<Longrightarrow>
   lifecycle_start mode allow \<lparr>lc_owner = own, lc_live = {}, lc_cancelled = {}, lc_next = 0,
     lc_stage = None, lc_waiting = 0, lc_maintaining = []\<rparr>"

text \<open>The stages at which the task that holds the lock awaits, and can be dropped.\<close>

fun awaits :: "stage \<Rightarrow> bool" where
  "awaits EnsureChecking = False"
| "awaits (Settling p) = False"
| "awaits _ = True"

inductive lifecycle_move :: "history_mode \<Rightarrow> bool \<Rightarrow> (nat \<Rightarrow> string) \<Rightarrow> lifecycle \<Rightarrow> lifecycle \<Rightarrow> bool"
  for mode allow session_of where
  ensure_enters: "\<not> tracker_stop (own_tracker (lc_owner w)) \<Longrightarrow>
    lifecycle_move mode allow session_of w (w\<lparr>lc_waiting := Suc (lc_waiting w)\<rparr>)"
| ensure_leaves: "lc_waiting w = Suc k \<Longrightarrow>
    lifecycle_move mode allow session_of w (w\<lparr>lc_waiting := k\<rparr>)"
| lock_ensure: "lc_waiting w = Suc k \<Longrightarrow> lc_stage w = None \<Longrightarrow>
    lifecycle_move mode allow session_of w (w\<lparr>lc_waiting := k, lc_stage := Some EnsureChecking\<rparr>)"
| task_dropped: "lc_stage w = Some st \<Longrightarrow> awaits st \<Longrightarrow>
    lifecycle_move mode allow session_of w (w\<lparr>lc_stage := None\<rparr>)"
| ensure_reuse: "lc_stage w = Some EnsureChecking \<Longrightarrow> ensure_check (lc_cancelled w) (lc_owner w) = (Reuse n, own) \<Longrightarrow>
    lifecycle_move mode allow session_of w (w\<lparr>lc_owner := own, lc_stage := None\<rparr>)"
| ensure_replace: "lc_stage w = Some EnsureChecking \<Longrightarrow> ensure_check (lc_cancelled w) (lc_owner w) = (Replace n, own) \<Longrightarrow>
    lifecycle_move mode allow session_of w (w\<lparr>lc_owner := own, lc_stage := Some (EnsureReplacing n)\<rparr>)"
| ensure_launch: "lc_stage w = Some EnsureChecking \<Longrightarrow> ensure_check (lc_cancelled w) (lc_owner w) = (Launch, own) \<Longrightarrow>
    lifecycle_move mode allow session_of w (w\<lparr>lc_owner := own, lc_stage := Some EnsureLaunching\<rparr>)"
| ensure_replaced: "lc_stage w = Some (EnsureReplacing n) \<Longrightarrow>
    lifecycle_move mode allow session_of w (closes n closed w (Some EnsureLaunching))"
| ensure_refused: "lc_stage w = Some EnsureLaunching \<Longrightarrow>
    lifecycle_move mode allow session_of w (w\<lparr>lc_stage := None\<rparr>)"
| ensure_unreported: "lc_stage w = Some EnsureLaunching \<Longrightarrow>
    lifecycle_move mode allow session_of w (w\<lparr>lc_owner := ensure_wake (lc_owner w), lc_stage := None\<rparr>)"
| ensure_waking: "lc_stage w = Some EnsureLaunching \<Longrightarrow>
    launch_input allow (lc_owner w) = (original, fresh) \<Longrightarrow>
    new_hooks (ensure_wake (lc_owner w)) = (generation, own) \<Longrightarrow>
    lifecycle_move mode allow session_of w (w\<lparr>lc_owner := own, lc_stage := Some (EnsureStarting original fresh generation)\<rparr>)"
| ensure_start_failed: "lc_stage w = Some (EnsureStarting original fresh generation) \<Longrightarrow>
    lifecycle_move mode allow session_of w (w\<lparr>lc_owner := set_phase NativeFailed (lc_owner w), lc_stage := None\<rparr>)"
| ensure_started: "lc_stage w = Some (EnsureStarting original fresh generation) \<Longrightarrow>
    lifecycle_move mode allow session_of w (w\<lparr>lc_owner := (lc_owner w)\<lparr>own_native := Some (lc_next w)\<rparr>,
      lc_live := insert (lc_next w) (lc_live w), lc_next := Suc (lc_next w),
      lc_stage := Some (EnsureVerifying original (lc_next w))\<rparr>)"
| ensure_verified: "lc_stage w = Some (EnsureVerifying original n) \<Longrightarrow>
    verify_native mode original (session_of n) transferred saved settled = Inr contexts \<Longrightarrow>
    ensure_commit n (session_of n) contexts clock (lc_owner w) = (r, own) \<Longrightarrow>
    lifecycle_move mode allow session_of w (w\<lparr>lc_owner := own, lc_stage := None\<rparr>)"
| ensure_rejected: "lc_stage w = Some (EnsureVerifying original n) \<Longrightarrow>
    verify_native mode original (session_of n) transferred saved settled = Inl e \<Longrightarrow>
    lifecycle_move mode allow session_of w (w\<lparr>lc_owner := set_phase NativeFailed (lc_owner w),
      lc_stage := Some (EnsureAbandoning n)\<rparr>)"
| ensure_abandoned: "lc_stage w = Some (EnsureAbandoning n) \<Longrightarrow>
    lifecycle_move mode allow session_of w (closes n closed w None)"
| maintain_chosen: "maintain_read (lc_cancelled w) clock decisions input busy (lc_owner w) = Inr (Some m) \<Longrightarrow>
    lifecycle_move mode allow session_of w (w\<lparr>lc_maintaining := m # lc_maintaining w\<rparr>)"
| maintain_given_up: "m \<in> set (lc_maintaining w) \<Longrightarrow>
    lifecycle_move mode allow session_of w (w\<lparr>lc_maintaining := remove1 m (lc_maintaining w)\<rparr>)"
| lock_disconnected: "Disconnected n \<in> set (lc_maintaining w) \<Longrightarrow> lc_stage w = None \<Longrightarrow>
    lifecycle_move mode allow session_of w (w\<lparr>lc_maintaining := remove1 (Disconnected n) (lc_maintaining w),
      lc_stage := Some (DisconnectedClosing n)\<rparr>)"
| lock_idle: "IdleNative n \<in> set (lc_maintaining w) \<Longrightarrow> lc_stage w = None \<Longrightarrow> idle_recheck n (lc_owner w) \<Longrightarrow>
    lifecycle_move mode allow session_of w (w\<lparr>lc_maintaining := remove1 (IdleNative n) (lc_maintaining w),
      lc_stage := Some (IdleClosing n)\<rparr>)"
| lock_stop: "lc_stage w = None \<Longrightarrow> own_native (lc_owner w) = Some n \<Longrightarrow>
    lifecycle_move mode allow session_of w (w\<lparr>lc_stage := Some (StopClosing n)\<rparr>)"
| disconnected_closed: "lc_stage w = Some (DisconnectedClosing n) \<Longrightarrow>
    lifecycle_move mode allow session_of w (closes n closed w (Some (Settling NativeFailed)))"
| idle_closed: "lc_stage w = Some (IdleClosing n) \<Longrightarrow>
    lifecycle_move mode allow session_of w (closes n closed w (Some (Settling NativeSleeping)))"
| stop_closed: "lc_stage w = Some (StopClosing n) \<Longrightarrow>
    lifecycle_move mode allow session_of w (closes n closed w (Some (Settling NativeSleeping)))"
| settled: "lc_stage w = Some (Settling p) \<Longrightarrow>
    lifecycle_move mode allow session_of w (w\<lparr>lc_owner := set_phase p (lc_owner w), lc_stage := None\<rparr>)"
| lifetime_ended: "n < lc_next w \<Longrightarrow>
    lifecycle_move mode allow session_of w (w\<lparr>lc_cancelled := insert n (lc_cancelled w)\<rparr>)"
| owner_stopped: "lifecycle_move mode allow session_of w
    (w\<lparr>lc_owner := (lc_owner w)\<lparr>own_tracker := (own_tracker (lc_owner w))\<lparr>tracker_stop := True\<rparr>\<rparr>\<rparr>)"
| hook_called: "hook_observe generation clock event (own_tracker (lc_owner w)) = (sent, t) \<Longrightarrow>
    lifecycle_move mode allow session_of w (w\<lparr>lc_owner := (lc_owner w)\<lparr>own_tracker := t\<rparr>\<rparr>)"
| call_enters: "lifecycle_move mode allow session_of w (w\<lparr>lc_owner := call_entered (lc_owner w)\<rparr>)"
| call_leaves: "0 < own_calls (lc_owner w) \<Longrightarrow>
    lifecycle_move mode allow session_of w (w\<lparr>lc_owner := call_left (lc_owner w)\<rparr>)"
| message_touched: "0 < own_calls (lc_owner w) \<Longrightarrow> owner_touch message context clock (lc_owner w) = (r, own) \<Longrightarrow>
    lifecycle_move mode allow session_of w (w\<lparr>lc_owner := own\<rparr>)"
| message_acknowledged: "owner_acknowledge (lc_cancelled w) messages acknowledged (lc_owner w) = (r, own) \<Longrightarrow>
    lifecycle_move mode allow session_of w (w\<lparr>lc_owner := own\<rparr>)"
| message_recovered: "0 < own_calls (lc_owner w) \<Longrightarrow>
    lifecycle_move mode allow session_of w (w\<lparr>lc_owner := owner_recovered message received (lc_owner w)\<rparr>)"
| conversation_saved: "owner_conversation_saved contexts session (lc_owner w) = (r, own) \<Longrightarrow>
    lifecycle_move mode allow session_of w (w\<lparr>lc_owner := own\<rparr>)"
| idle_configured: "configure_idle seconds (lc_owner w) = (r, own) \<Longrightarrow>
    lifecycle_move mode allow session_of w (w\<lparr>lc_owner := own\<rparr>)"

section \<open>What the owner guarantees\<close>

text \<open>What the stage of the task that holds the lock knows of the state.\<close>

definition quiet_ok :: "(nat \<Rightarrow> string) \<Rightarrow> owner \<Rightarrow> bool" where
  "quiet_ok session_of own \<longleftrightarrow>
     (own_phase own = NativeRunning \<longrightarrow>
       (\<exists>n. own_native own = Some n \<and> session_of n = own_session own)) \<and>
     (own_phase own = NativeSleeping \<longrightarrow> own_native own = None)"

fun stage_ok :: "(nat \<Rightarrow> string) \<Rightarrow> owner \<Rightarrow> stage option \<Rightarrow> bool" where
  "stage_ok session_of own None \<longleftrightarrow> quiet_ok session_of own"
| "stage_ok session_of own (Some EnsureChecking) \<longleftrightarrow> quiet_ok session_of own"
| "stage_ok session_of own (Some (EnsureReplacing n)) \<longleftrightarrow> own_native own = Some n \<and> own_phase own = NativeFailed"
| "stage_ok session_of own (Some EnsureLaunching) \<longleftrightarrow> own_native own = None \<and> own_phase own \<noteq> NativeRunning"
| "stage_ok session_of own (Some (EnsureStarting original fresh generation)) \<longleftrightarrow>
     own_native own = None \<and> own_phase own = NativeWaking \<and> original = own_session own \<and> (fresh \<longrightarrow> original = [])"
| "stage_ok session_of own (Some (EnsureVerifying original n)) \<longleftrightarrow>
     own_native own = Some n \<and> own_phase own = NativeWaking \<and> original = own_session own"
| "stage_ok session_of own (Some (EnsureAbandoning n)) \<longleftrightarrow> own_native own = Some n \<and> own_phase own = NativeFailed"
| "stage_ok session_of own (Some (DisconnectedClosing n)) \<longleftrightarrow> quiet_ok session_of own"
| "stage_ok session_of own (Some (IdleClosing n)) \<longleftrightarrow> quiet_ok session_of own \<and> own_native own = Some n"
| "stage_ok session_of own (Some (StopClosing n)) \<longleftrightarrow> quiet_ok session_of own \<and> own_native own = Some n"
| "stage_ok session_of own (Some (Settling p)) \<longleftrightarrow>
     p = NativeFailed \<or> p = NativeSleeping \<and> own_native own = None"

lemma dropped_quiet: "awaits st \<Longrightarrow> stage_ok session_of own (Some st) \<Longrightarrow> quiet_ok session_of own"
  by (cases st) (auto simp: quiet_ok_def)

definition lifecycle_ok :: "(nat \<Rightarrow> string) \<Rightarrow> lifecycle \<Rightarrow> bool" where
  "lifecycle_ok session_of w \<longleftrightarrow>
     lc_live w \<subseteq> set_option (own_native (lc_owner w)) \<and>
     (\<forall>n. own_native (lc_owner w) = Some n \<longrightarrow> n < lc_next w) \<and>
     stage_ok session_of (lc_owner w) (lc_stage w)"

definition same_core :: "owner \<Rightarrow> owner \<Rightarrow> bool" where
  "same_core own own' \<longleftrightarrow> own_native own' = own_native own \<and> own_phase own' = own_phase own \<and>
     own_session own' = own_session own"

lemma same_core_stage: "same_core own own' \<Longrightarrow> stage_ok session_of own' st = stage_ok session_of own st"
  by (induction session_of own st rule: stage_ok.induct) (simp_all add: same_core_def quiet_ok_def)

lemma call_same_core:
  "owner_touch message context clock own = (r, own') \<Longrightarrow> same_core own own'"
  "owner_acknowledge cancelled messages acknowledged own = (r, own') \<Longrightarrow> same_core own own'"
  "owner_conversation_saved contexts session own = (s, own') \<Longrightarrow> same_core own own'"
  "configure_idle seconds own = (r, own') \<Longrightarrow> same_core own own'"
  "same_core own (call_entered own)" "same_core own (call_left own)"
  "same_core own (owner_recovered message received own)"
  "same_core own (own\<lparr>own_tracker := t\<rparr>)"
  by (auto simp: same_core_def owner_touch_def owner_acknowledge_def owner_conversation_saved_def
      configure_idle_def call_entered_def call_left_def owner_recovered_def
      split: prod.splits sum.splits if_splits option.splits)

lemma same_core_ok:
  "lifecycle_ok session_of w \<Longrightarrow> same_core (lc_owner w) own \<Longrightarrow> lifecycle_ok session_of (w\<lparr>lc_owner := own\<rparr>)"
  using same_core_stage [of "lc_owner w" own session_of "lc_stage w"]
  by (simp add: lifecycle_ok_def same_core_def)

lemma verify_native_Inr:
  "verify_native mode original session transferred saved settled = Inr contexts \<Longrightarrow>
   original = [] \<or> session = original"
  by (auto simp: verify_native_def op_iff split: if_splits)

lemma ensure_commit_fields:
  "ensure_commit n session contexts clock own = (r, own') \<Longrightarrow> own_native own' = Some n \<and>
     own_phase own' = NativeRunning \<and> own_session own' = session"
  by (auto simp: ensure_commit_def Let_def split: prod.splits sum.splits)

lemma lifecycle_move_ok:
  assumes "lifecycle_ok session_of w" "lifecycle_move mode allow session_of w w'"
  shows "lifecycle_ok session_of w'"
proof -
  have keeps: "lifecycle_ok session_of w'" if "w' = w\<lparr>lc_owner := own\<rparr>" "same_core (lc_owner w) own" for own
    using that assms(1) by (simp add: same_core_ok)
  note calls = keeps [OF _ call_same_core(1)] keeps [OF _ call_same_core(2)] keeps [OF _ call_same_core(3)]
    keeps [OF _ call_same_core(4)] keeps [OF _ call_same_core(5)] keeps [OF _ call_same_core(6)]
    keeps [OF _ call_same_core(7)] keeps [OF _ call_same_core(8)]
  from assms(2) show ?thesis
  proof cases
    case message_touched
    from message_touched(1,3) show ?thesis by (rule calls)
  next
    case message_acknowledged
    then show ?thesis by (rule calls)
  next
    case conversation_saved
    then show ?thesis by (rule calls)
  next
    case idle_configured
    then show ?thesis by (rule calls)
  next
    case call_enters
    then show ?thesis by (rule calls)
  next
    case call_leaves
    from call_leaves(1) show ?thesis by (rule calls)
  next
    case message_recovered
    from message_recovered(1) show ?thesis by (rule calls)
  next
    case owner_stopped
    then show ?thesis by (rule calls)
  next
    case hook_called
    from hook_called(1) show ?thesis by (rule calls)
  next
    case (ensure_verified original n transferred saved settled contexts clock r own)
    with assms(1) ensure_commit_fields [OF ensure_verified(4)] show ?thesis
      by (auto simp: lifecycle_ok_def quiet_ok_def)
  next
    case (task_dropped st)
    with assms(1) dropped_quiet show ?thesis by (auto simp: lifecycle_ok_def)
  qed (use assms(1) in \<open>auto simp: lifecycle_ok_def quiet_ok_def ensure_check_def closes_def discard_def
        ensure_wake_def new_hooks_def launch_input_def set_phase_def idle_recheck_def Let_def
        split: option.splits if_splits\<close>)
qed

interpretation native: kept "lifecycle_start mode allow" "lifecycle_move mode allow session_of" "lifecycle_ok session_of"
  for mode allow session_of
proof
  show "lifecycle_start mode allow w \<Longrightarrow> lifecycle_ok session_of w" for w
    by (auto simp: lifecycle_start.simps lifecycle_ok_def quiet_ok_def open_owner_def Let_def op_iff split: if_splits)
qed (rule lifecycle_move_ok)

text \<open>
  C37: Whatever the tasks and the runtime do, at most one native execution runs at a time; none runs unless
  the owner knows it, and none runs while the agent sleeps. In particular no replacement is started
  before the previous execution is proved closed.
\<close>
theorem one_native_runs:
  assumes "reachable (lifecycle_start mode allow) (lifecycle_move mode allow session_of) w"
  shows "(\<exists>n. lc_live w \<subseteq> {n}) \<and> (own_native (lc_owner w) = None \<longrightarrow> lc_live w = {}) \<and>
    (lc_stage w = None \<and> own_phase (lc_owner w) = NativeSleeping \<longrightarrow> lc_live w = {})"
  using native.holds [OF assms] by (cases "own_native (lc_owner w)") (auto simp: lifecycle_ok_def quiet_ok_def)

lemma session_kept:
  assumes "lifecycle_ok session_of w" "lifecycle_move mode allow session_of w w'" "own_session (lc_owner w) \<noteq> []"
  shows "own_session (lc_owner w') = own_session (lc_owner w)"
proof -
  from assms(2) show ?thesis
  proof cases
    case (ensure_verified original n transferred saved settled contexts clock r own)
    with assms(1,3) ensure_commit_fields [OF ensure_verified(4)] verify_native_Inr [OF ensure_verified(3)]
    show ?thesis by (auto simp: lifecycle_ok_def)
  qed (auto simp: ensure_check_def closes_def discard_def ensure_wake_def new_hooks_def set_phase_def Let_def
      owner_touch_def owner_acknowledge_def owner_conversation_saved_def configure_idle_def call_entered_def
      call_left_def owner_recovered_def split: option.splits if_splits prod.splits sum.splits)
qed

text \<open>
  C38: Once an agent has its saved history it keeps it: no wake, sleep, failure or replacement ever moves it
  to another session, and what runs is that session.
\<close>
theorem session_permanent:
  assumes "reachable (lifecycle_start mode allow) (lifecycle_move mode allow session_of) w"
    and "(lifecycle_move mode allow session_of)\<^sup>*\<^sup>* w w'" and "own_session (lc_owner w) \<noteq> []"
  shows "own_session (lc_owner w') = own_session (lc_owner w) \<and>
    (lc_stage w' = None \<and> own_phase (lc_owner w') = NativeRunning \<longrightarrow>
      (\<exists>n. own_native (lc_owner w') = Some n \<and> session_of n = own_session (lc_owner w)))"
proof -
  have ok: "lifecycle_ok session_of w" by (rule native.holds [OF assms(1)])
  have "own_session (lc_owner w') = own_session (lc_owner w)"
    using assms(2,3)
  proof (induction rule: rtranclp_induct)
    case (step v v')
    with session_kept [OF native.run [OF step(1) ok] step(2)] show ?case by simp
  qed simp
  with native.run [OF assms(2) ok] show ?thesis by (auto simp: lifecycle_ok_def quiet_ok_def)
qed

lemma unsettled_kept:
  "owner_touch k v clock own = (r, own') \<Longrightarrow> (m, b) \<in> set (own_unsettled own) \<Longrightarrow>
   \<exists>c. (m, c) \<in> set (own_unsettled own')"
  by (cases "m = k") (auto simp: owner_touch_def put_message_def split: prod.splits sum.splits)

lemma remove_messages_eq: "remove_messages done ms = [k \<leftarrow> ms. fst k \<notin> set done]"
  by (auto simp: remove_messages_def intro: filter_cong)

lemma owner_acknowledge_removes:
  assumes "owner_acknowledge cancelled messages acknowledged own = (r, own')"
  shows "own' = own \<or> (\<exists>n. own_native own = Some n \<and> n \<notin> cancelled \<and> own_phase own = NativeRunning \<and>
    acknowledged = Inr () \<and> r = Inr () \<and>
    own_unsettled own' = [k \<leftarrow> own_unsettled own. fst k \<notin> set messages])"
  using assms
  by (cases "own_native own"; cases acknowledged)
    (auto simp: owner_acknowledge_def remove_messages_eq split: if_splits)

text \<open>
  C40: An accepted message stays unsettled through every failure, replacement, stop and dropped task. It
  goes only when it is itself named in an acknowledgment that the running native execution accepted, which
  removes the named messages and no others, or when the runtime says it never received it, which removes
  that message alone. An idle close starts only while no message is unsettled and no call is at work.
\<close>
theorem accepted_message_kept:
  assumes "lifecycle_move mode allow session_of w w'"
  shows "(m \<in> fst ` set (own_unsettled (lc_owner w)) \<and> m \<notin> fst ` set (own_unsettled (lc_owner w')) \<longrightarrow>
      (\<exists>messages n. m \<in> set messages \<and> own_native (lc_owner w) = Some n \<and> n \<notin> lc_cancelled w \<and>
         own_phase (lc_owner w) = NativeRunning \<and>
         owner_acknowledge (lc_cancelled w) messages (Inr ()) (lc_owner w) = (Inr (), lc_owner w') \<and>
         own_unsettled (lc_owner w') = [k \<leftarrow> own_unsettled (lc_owner w). fst k \<notin> set messages]) \<or>
      lc_owner w' = owner_recovered m False (lc_owner w) \<and>
      own_unsettled (lc_owner w') = [k \<leftarrow> own_unsettled (lc_owner w). fst k \<noteq> m]) \<and>
    (\<forall>n. lc_stage w' = Some (IdleClosing n) \<and> lc_stage w \<noteq> lc_stage w' \<longrightarrow>
      own_unsettled (lc_owner w) = [] \<and> own_calls (lc_owner w) = 0 \<and> own_native (lc_owner w) = Some n)"
  using assms
proof cases
  case (message_touched k ctx clock r own)
  with unsettled_kept [OF message_touched(3), of m] show ?thesis by (simp add: image_iff) fastforce
next
  case (message_acknowledged messages acknowledged r own)
  from owner_acknowledge_removes [OF message_acknowledged(2)] show ?thesis
  proof (elim disjE exE conjE)
    assume "own = lc_owner w"
    with message_acknowledged(1) show ?thesis by simp
  next
    fix n
    assume native: "own_native (lc_owner w) = Some n" "n \<notin> lc_cancelled w" "own_phase (lc_owner w) = NativeRunning"
      and yes: "acknowledged = Inr ()" "r = Inr ()"
      and left: "own_unsettled own = [k \<leftarrow> own_unsettled (lc_owner w). fst k \<notin> set messages]"
    have "m \<in> set messages" if "m \<in> fst ` set (own_unsettled (lc_owner w))" "m \<notin> fst ` set (own_unsettled own)"
      using that left by auto
    with native yes left message_acknowledged show ?thesis by auto
  qed
next
  case (message_recovered k received)
  then show ?thesis by (auto simp: owner_recovered_def remove_messages_eq image_iff)
next
  case (ensure_verified original n transferred saved settled contexts clock r own)
  then show ?thesis by (auto simp: ensure_commit_def Let_def split: prod.splits sum.splits)
next
  case (conversation_saved contexts session r own)
  then show ?thesis by (auto simp: owner_conversation_saved_def split: option.splits)
next
  case (idle_configured seconds r own)
  then show ?thesis by (auto simp: configure_idle_def split: if_splits)
qed (auto simp: ensure_check_def closes_def discard_def ensure_wake_def new_hooks_def set_phase_def Let_def
    idle_recheck_def call_entered_def call_left_def split: option.splits if_splits prod.splits)

section \<open>Witnesses\<close>

definition main_history :: saved_context where
  "main_history = \<lparr>saved_context = ''shared'', saved_runtime = ''codex'', saved_session_id = ''s1'',
     saved_workspace = ''/work''\<rparr>"

definition sleeping_owner :: owner where
  "sleeping_owner = \<lparr>own_native = None, own_phase = NativeSleeping, own_idle_seconds = 1800,
     own_session = ''s1'', own_contexts = [main_history], own_unsettled = [], own_calls = 0,
     own_tracker = new_tracker 5 False\<rparr>"

definition sleeping :: lifecycle where
  "sleeping = \<lparr>lc_owner = sleeping_owner, lc_live = {}, lc_cancelled = {}, lc_next = 0, lc_stage = None,
     lc_waiting = 0, lc_maintaining = []\<rparr>"

definition awake :: lifecycle where
  "awake = \<lparr>lc_owner = sleeping_owner\<lparr>own_native := Some 0, own_phase := NativeRunning,
       own_tracker := (new_tracker 9 False)\<lparr>tracker_generation := 1\<rparr>\<rparr>,
     lc_live = {0}, lc_cancelled = {}, lc_next = 1, lc_stage = None, lc_waiting = 0, lc_maintaining = []\<rparr>"

lemma sleeping_start: "lifecycle_start Shared False sleeping"
proof -
  have "open_owner Shared False [main_history] (Inr 5) False = Inr sleeping_owner"
    by (simp add: open_owner_def saved_session_def main_history_def sleeping_owner_def Let_def)
  from lifecycle_start.intros [OF this] show ?thesis by (simp add: sleeping_def)
qed

lemma sleeping_wakes: "(lifecycle_move Shared False (\<lambda>_. ''s1''))\<^sup>*\<^sup>* sleeping awake"
proof -
  let ?m = "lifecycle_move Shared False (\<lambda>_. ''s1'')"
  let ?a = "sleeping\<lparr>lc_stage := Some EnsureChecking\<rparr>"
  let ?b = "sleeping\<lparr>lc_stage := Some EnsureLaunching\<rparr>"
  let ?own = "sleeping_owner\<lparr>own_phase := NativeWaking, own_tracker := (new_tracker 5 False)\<lparr>tracker_generation := 1\<rparr>\<rparr>"
  let ?c = "sleeping\<lparr>lc_owner := ?own, lc_stage := Some (EnsureStarting ''s1'' False 1)\<rparr>"
  let ?d = "sleeping\<lparr>lc_owner := ?own\<lparr>own_native := Some 0\<rparr>, lc_live := {0}, lc_next := 1,
    lc_stage := Some (EnsureVerifying ''s1'' 0)\<rparr>"
  have "?m sleeping (sleeping\<lparr>lc_waiting := Suc 0\<rparr>)"
    using ensure_enters [of sleeping] by (simp add: sleeping_def sleeping_owner_def new_tracker_def)
  moreover have "?m (sleeping\<lparr>lc_waiting := Suc 0\<rparr>) ?a"
    using lock_ensure [of "sleeping\<lparr>lc_waiting := Suc 0\<rparr>" 0] by (simp add: sleeping_def)
  moreover have "?m ?a ?b"
    using ensure_launch [of ?a sleeping_owner Shared False "\<lambda>_. ''s1''"]
    by (simp add: sleeping_def ensure_check_def sleeping_owner_def)
  moreover have "?m ?b ?c"
    using ensure_waking [of ?b False "''s1''" False 1 ?own Shared "\<lambda>_. ''s1''"]
    by (simp add: sleeping_def sleeping_owner_def launch_input_def new_hooks_def ensure_wake_def Let_def
      new_generation_def next_generation_def new_tracker_def)
  moreover have "?m ?c ?d"
    using ensure_started [of ?c "''s1''" False 1 Shared False "\<lambda>_. ''s1''"] by (simp add: sleeping_def)
  moreover have "?m ?d awake"
  proof -
    have "verify_native Shared ''s1'' ''s1'' (Inr ()) (Inr [main_history]) (Inr ()) = Inr [main_history]"
      by (simp add: verify_native_def main_history_def)
    moreover have "ensure_commit 0 ''s1'' [main_history] (Inr 9) (lc_owner ?d) = (Inr 0, lc_owner awake)"
      by (simp add: ensure_commit_def awake_def tracker_touch_def tracker_check_def new_tracker_def
        sleeping_owner_def Let_def)
    ultimately show ?thesis
      using ensure_verified [of ?d "''s1''" 0 Shared "\<lambda>_. ''s1''" "Inr ()" "Inr [main_history]" "Inr ()"
        "[main_history]" "Inr 9" "Inr 0" "lc_owner awake" False]
      by (simp add: sleeping_def awake_def)
  qed
  ultimately show ?thesis by (meson rtranclp.rtrancl_into_rtrancl rtranclp.rtrancl_refl)
qed

lemma sleeping_reachable: "reachable (lifecycle_start Shared False) (lifecycle_move Shared False (\<lambda>_. ''s1'')) sleeping"
  by (intro reachable_start sleeping_start)

theorem one_native_runs_witness:
  "(\<exists>n. lc_live awake \<subseteq> {n}) \<and> lc_live awake = {0}"
  using one_native_runs [OF reachable_run [OF sleeping_wakes sleeping_reachable]] by (simp add: awake_def)

theorem session_permanent_witness: "own_session (lc_owner awake) = ''s1'' \<and> own_phase (lc_owner awake) = NativeRunning"
  using session_permanent [OF sleeping_reachable sleeping_wakes]
  by (simp add: awake_def sleeping_def sleeping_owner_def)

text \<open>Two accepted messages, the first of which the running execution acknowledges.\<close>

definition accepting :: lifecycle where
  "accepting = awake\<lparr>lc_owner := (lc_owner awake)\<lparr>own_unsettled := [(''m1'', ''shared''), (''m2'', ''shared'')]\<rparr>\<rparr>"

definition acknowledged_first :: lifecycle where
  "acknowledged_first = awake\<lparr>lc_owner := (lc_owner awake)\<lparr>own_unsettled := [(''m2'', ''shared'')]\<rparr>\<rparr>"

theorem accepted_message_kept_witness:
  "(own_unsettled (lc_owner awake) = [] \<and> own_calls (lc_owner awake) = 0 \<and> own_native (lc_owner awake) = Some 0) \<and>
   (\<exists>messages. ''m1'' \<in> set messages \<and> owner_acknowledge {} messages (Inr ()) (lc_owner accepting) =
      (Inr (), lc_owner acknowledged_first) \<or>
    lc_owner acknowledged_first = owner_recovered ''m1'' False (lc_owner accepting))"
proof
  let ?w = "awake\<lparr>lc_maintaining := [IdleNative 0]\<rparr>"
  have "lifecycle_move Shared False (\<lambda>_. ''s1'') ?w (?w\<lparr>lc_maintaining := [], lc_stage := Some (IdleClosing 0)\<rparr>)"
    using lock_idle [of 0 ?w Shared False "\<lambda>_. ''s1''"]
    by (simp add: awake_def idle_recheck_def sleeping_owner_def)
  from accepted_message_kept [OF this] have "lc_stage ?w \<noteq> Some (IdleClosing 0) \<longrightarrow>
    own_unsettled (lc_owner ?w) = [] \<and> own_calls (lc_owner ?w) = 0 \<and> own_native (lc_owner ?w) = Some 0" by auto
  then show "own_unsettled (lc_owner awake) = [] \<and> own_calls (lc_owner awake) = 0 \<and>
    own_native (lc_owner awake) = Some 0" by (simp add: awake_def)
next
  have "owner_acknowledge (lc_cancelled accepting) [''m1''] (Inr ()) (lc_owner accepting) =
      (Inr (), lc_owner acknowledged_first)"
    by (simp add: owner_acknowledge_def accepting_def acknowledged_first_def awake_def remove_messages_def)
  from message_acknowledged [OF this, of Shared False "\<lambda>_. ''s1''"]
  have "lifecycle_move Shared False (\<lambda>_. ''s1'') accepting acknowledged_first"
    by (simp add: accepting_def acknowledged_first_def awake_def)
  from accepted_message_kept [OF this, of "''m1''"] have "(\<exists>messages. ''m1'' \<in> set messages \<and>
      owner_acknowledge (lc_cancelled accepting) messages (Inr ()) (lc_owner accepting) =
        (Inr (), lc_owner acknowledged_first)) \<or>
      lc_owner acknowledged_first = owner_recovered ''m1'' False (lc_owner accepting)"
    by (auto simp: accepting_def acknowledged_first_def)
  then show "\<exists>messages. ''m1'' \<in> set messages \<and> owner_acknowledge {} messages (Inr ()) (lc_owner accepting) =
      (Inr (), lc_owner acknowledged_first) \<or>
    lc_owner acknowledged_first = owner_recovered ''m1'' False (lc_owner accepting)"
    by (auto simp: accepting_def awake_def)
qed

end
