(* ===== verification/Ordered_Map.thy ===== *)
theory Ordered_Map
  imports Prelude "HOL-Library.List_Lexorder" "HOL-Library.Char_ord" "HOL-Library.Product_Lexorder"
begin

text \<open>
  \<open>BTreeMap\<close> and \<open>BTreeSet\<close>: the list of the entries in the order of their keys, as the iterators give
  them. Strings are ordered by their bytes, pairs by their first component first.
\<close>

section \<open>Maps\<close>

definition om_get :: "'k \<Rightarrow> ('k \<times> 'v) list \<Rightarrow> 'v option" where
  "om_get k m = map_of m k"

fun om_put :: "'k::linorder \<Rightarrow> 'v \<Rightarrow> ('k \<times> 'v) list \<Rightarrow> ('k \<times> 'v) list" where
  "om_put k v [] = [(k, v)]"
| "om_put k v ((k', w) # m) =
     (if k < k' then (k, v) # (k', w) # m else if k = k' then (k, v) # m
      else (k', w) # om_put k v m)"

definition om_remove :: "'k \<Rightarrow> ('k \<times> 'v) list \<Rightarrow> ('k \<times> 'v) list" where
  "om_remove k m = filter (\<lambda>e. fst e \<noteq> k) m"

definition om_has :: "'k \<Rightarrow> ('k \<times> 'v) list \<Rightarrow> bool" where
  "om_has k m \<longleftrightarrow> om_get k m \<noteq> None"

definition om_of :: "('k::linorder \<times> 'v) list \<Rightarrow> ('k \<times> 'v) list" where
  "om_of es = foldl (\<lambda>m (k, v). om_put k v m) [] es"

definition om_ok :: "('k::linorder \<times> 'v) list \<Rightarrow> bool" where
  "om_ok m \<longleftrightarrow> sorted_wrt (<) (map fst m)"

lemma om_get_Nil [simp]: "om_get k [] = None"
  by (simp add: om_get_def)

lemma om_get_Cons: "om_get k (e # m) = (if fst e = k then Some (snd e) else om_get k m)"
  by (cases e) (simp add: om_get_def)

lemma om_get_put [simp]: "om_get k (om_put k' v m) = (if k = k' then Some v else om_get k m)"
  by (induction k' v m rule: om_put.induct) (auto simp: om_get_def)

lemma om_get_remove [simp]: "om_get k (om_remove k' m) = (if k = k' then None else om_get k m)"
  by (induction m) (auto simp: om_get_def om_remove_def)

lemma om_has_put [simp]: "om_has k (om_put k' v m) \<longleftrightarrow> k = k' \<or> om_has k m"
  by (simp add: om_has_def)

lemma om_has_remove [simp]: "om_has k (om_remove k' m) \<longleftrightarrow> k \<noteq> k' \<and> om_has k m"
  by (simp add: om_has_def)

lemma om_has_Nil [simp]: "\<not> om_has k []"
  by (simp add: om_has_def)

lemma om_has_keys: "om_has k m \<longleftrightarrow> k \<in> fst ` set m"
  by (simp add: om_has_def om_get_def map_of_eq_None_iff)

lemma om_get_None: "om_get k m = None \<longleftrightarrow> k \<notin> fst ` set m"
  by (simp add: om_get_def map_of_eq_None_iff)

lemma om_get_SomeD: "om_get k m = Some v \<Longrightarrow> (k, v) \<in> set m"
  by (simp add: om_get_def map_of_SomeD)

lemma keys_om_put [simp]: "fst ` set (om_put k v m) = insert k (fst ` set m)"
  by (induction k v m rule: om_put.induct) auto

lemma om_ok_put [simp]: "om_ok m \<Longrightarrow> om_ok (om_put k v m)"
proof (induction k v m rule: om_put.induct)
  case (2 k v k' w m)
  then have "om_ok m" by (simp add: om_ok_def)
  moreover have "x \<in> set (om_put k v m) \<Longrightarrow> fst x \<in> insert k (fst ` set m)" for x
    using keys_om_put [of k v m] by (metis imageI)
  ultimately show ?case
    using 2 by (fastforce simp: om_ok_def intro: order.strict_trans)
qed (simp add: om_ok_def)

lemma om_ok_filter: "om_ok m \<Longrightarrow> om_ok (filter p m)"
  by (induction m) (auto simp: om_ok_def)

lemma om_ok_remove [simp]: "om_ok m \<Longrightarrow> om_ok (om_remove k m)"
  by (simp add: om_remove_def om_ok_filter)

lemma om_ok_Nil [simp]: "om_ok []"
  by (simp add: om_ok_def)

lemma om_ok_distinct: "om_ok m \<Longrightarrow> distinct (map fst m)"
  by (simp add: om_ok_def strict_sorted_iff)

lemma om_get_foldl:
  "om_get k (foldl (\<lambda>m (k, v). om_put k v m) m0 es) =
     (case map_of (rev es) k of Some v \<Rightarrow> Some v | None \<Rightarrow> om_get k m0)"
  by (induction es arbitrary: m0) (auto simp: map_add_def split: option.splits prod.splits)

lemma om_get_of: "om_get k (om_of es) = map_of (rev es) k"
  by (simp add: om_of_def om_get_foldl split: option.splits)

lemma keys_om_foldl:
  "fst ` set (foldl (\<lambda>m (k, v). om_put k v m) m0 es) = fst ` set m0 \<union> fst ` set es"
  by (induction es arbitrary: m0) (simp_all add: case_prod_unfold)

lemma keys_om_of [simp]: "fst ` set (om_of es) = fst ` set es"
  by (simp add: om_of_def keys_om_foldl)

lemma om_ok_of [simp]: "om_ok (om_of es)"
proof -
  have "om_ok m0 \<Longrightarrow> om_ok (foldl (\<lambda>m (k, v). om_put k v m) m0 es)" for m0 :: "('a \<times> 'b) list"
    by (induction es arbitrary: m0) auto
  then show ?thesis by (simp add: om_of_def)
qed

section \<open>Sets\<close>

definition os_of :: "'a::linorder list \<Rightarrow> 'a list" where
  "os_of xs = sort (remdups xs)"

definition os_insert :: "'a::linorder \<Rightarrow> 'a list \<Rightarrow> 'a list" where
  "os_insert x xs = (if x \<in> set xs then xs else insort x xs)"

definition os_remove :: "'a \<Rightarrow> 'a list \<Rightarrow> 'a list" where
  "os_remove x xs = filter (\<lambda>y. y \<noteq> x) xs"

definition os_ok :: "'a::linorder list \<Rightarrow> bool" where
  "os_ok xs \<longleftrightarrow> sorted xs \<and> distinct xs"

lemma set_os [simp]:
  "set (os_of xs) = set xs" "set (os_insert x xs) = insert x (set xs)" "set (os_remove x xs) = set xs - {x}"
  by (auto simp: os_of_def os_insert_def os_remove_def set_insort_key)

lemma os_ok_simps [simp]:
  "os_ok []" "os_ok (os_of xs)" "os_ok xs \<Longrightarrow> os_ok (os_insert x xs)" "os_ok xs \<Longrightarrow> os_ok (os_remove x xs)"
  by (simp_all add: os_ok_def os_of_def os_insert_def os_remove_def sorted_insort distinct_insort
      sorted_filter [where f = "\<lambda>x. x", simplified])

lemma os_ok_filter: "os_ok xs \<Longrightarrow> os_ok (filter p xs)"
  by (simp add: os_ok_def sorted_filter [where f = "\<lambda>x. x", simplified])

lemma os_of_id: "os_ok xs \<Longrightarrow> os_of xs = xs"
  by (simp add: os_ok_def os_of_def distinct_remdups_id sorted_sort_id)

lemma os_eqI: "os_ok xs \<Longrightarrow> os_ok ys \<Longrightarrow> set xs = set ys \<Longrightarrow> xs = ys"
  by (simp add: os_ok_def sorted_distinct_set_unique)

end
