(* ===== verification/Json.thy ===== *)
theory Json
  imports Kernel_Failure Ordered_Map
begin

text \<open>
  JSON values as \<open>serde_json\<close> represents them, and the bound on the data that belongs to a messaging
  backend (\<open>domain/src/backend_data.rs\<close>, \<open>contracts/src/messaging.rs\<close>). A number is an integer or
  the finite \<open>f64\<close> \<open>m * 2 ^ e\<close>; a \<open>Map<String, Value>\<close> is the list of its entries in the order of
  their keys, as its iterator gives them. The printer and the parser are the library's: a \<open>codec\<close> holds
  the two functions, and every operation that stores or reads JSON text takes it as an argument.
\<close>

datatype json =
    JNull
  | JBool bool
  | JInt int
  | JFloat int int
  | JString string
  | JArray "json list"
  | JObject "(string \<times> json) list"

type_synonym json_map = "(string \<times> json) list"

text \<open>\<open>Map::get\<close>, \<open>Map::insert\<close>, and the map that \<open>json!\<close> builds from its fields.\<close>

abbreviation json_get :: "string \<Rightarrow> json_map \<Rightarrow> json option" where
  "json_get \<equiv> om_get"

abbreviation json_put :: "string \<Rightarrow> json \<Rightarrow> json_map \<Rightarrow> json_map" where
  "json_put \<equiv> om_put"

abbreviation json_object :: "json_map \<Rightarrow> json_map" where
  "json_object \<equiv> om_of"

section \<open>Text\<close>

record codec =
  codec_print :: "json \<Rightarrow> string"
  codec_parse :: "string \<Rightarrow> json option"

text \<open>
  What the program relies on: a printed value is read back. The values are those the library can hold,
  but for floating-point numbers, whose last digit may change.
\<close>

fun canonical :: "json \<Rightarrow> bool" where
  "canonical (JInt n) \<longleftrightarrow> - (2 ^ 63) \<le> n \<and> n < 2 ^ 64"
| "canonical (JFloat m e) \<longleftrightarrow> False"
| "canonical (JArray vs) \<longleftrightarrow> list_all canonical vs"
| "canonical (JObject m) \<longleftrightarrow> om_ok m \<and> list_all (\<lambda>f. canonical (snd f)) m"
| "canonical _ \<longleftrightarrow> True"

definition codec_ok :: "codec \<Rightarrow> bool" where
  "codec_ok J \<longleftrightarrow> (\<forall>v. canonical v \<longrightarrow> codec_parse J (codec_print J v) = Some v)"

lemma codec_okD: "codec_ok J \<Longrightarrow> canonical v \<Longrightarrow> codec_parse J (codec_print J v) = Some v"
  by (simp add: codec_ok_def)

section \<open>Backend data\<close>

fun valid_value :: "json \<Rightarrow> nat \<Rightarrow> bool" where
  "valid_value (JArray vs) depth \<longleftrightarrow> depth \<le> 64 \<and> list_all (\<lambda>v. valid_value v (depth + 1)) vs"
| "valid_value (JObject entries) depth \<longleftrightarrow>
     depth \<le> 64 \<and> list_all (\<lambda>f. valid_value (snd f) (depth + 1)) entries"
| "valid_value _ depth \<longleftrightarrow> depth \<le> 64"

definition valid_data :: "codec \<Rightarrow> json_map \<Rightarrow> bool" where
  "valid_data J entries \<longleftrightarrow>
     length entries \<le> 64 \<and> list_all (\<lambda>f. valid_value (snd f) 1) entries \<and>
     length (codec_print J (JObject entries)) \<le> 8192"

definition backend_data :: "codec \<Rightarrow> json \<Rightarrow> json_map result" where
  "backend_data J v =
     ok_or (opt_filter (valid_data J) (case v of JObject entries \<Rightarrow> Some entries | _ \<Rightarrow> None))
       (failure_new Invalid ''Expected a bounded backend object'')"

text \<open>The nesting of a value: an array or an object is one deeper than what it holds.\<close>

fun json_depth :: "json \<Rightarrow> nat" where
  "json_depth (JArray vs) = Suc (foldr (\<lambda>v. max (json_depth v)) vs 0)"
| "json_depth (JObject entries) = Suc (foldr (\<lambda>f. max (json_depth (snd f))) entries 0)"
| "json_depth _ = 1"

lemma foldr_max_le: "foldr (\<lambda>x. max (f x)) xs 0 \<le> (n :: nat) \<longleftrightarrow> (\<forall>x \<in> set xs. f x \<le> n)"
  by (induction xs) auto

lemma json_depth_pos [simp]: "0 < json_depth v"
  by (cases v) simp_all

lemma too_deep [simp]: "\<not> depth \<le> 63 \<Longrightarrow> \<not> (max (json_depth v) n + depth \<le> 64)"
  using json_depth_pos [of v] by linarith

lemma valid_value_depth: "valid_value v depth \<longleftrightarrow> json_depth v + depth \<le> 65 \<and> depth \<le> 64"
proof (induction v depth rule: valid_value.induct)
  case (1 vs depth)
  show ?case
  proof (cases "depth \<le> 63")
    case True
    have "foldr (\<lambda>v. max (json_depth v)) vs 0 + depth \<le> 64 \<longleftrightarrow>
        foldr (\<lambda>v. max (json_depth v)) vs 0 \<le> 64 - depth"
      using True by linarith
    also have "\<dots> \<longleftrightarrow> (\<forall>v \<in> set vs. json_depth v \<le> 64 - depth)"
      by (rule foldr_max_le)
    also have "\<dots> \<longleftrightarrow> (\<forall>v \<in> set vs. json_depth v + depth \<le> 64)"
      using True by auto
    finally show ?thesis using 1 True by (auto simp: list_all_iff)
  next
    case False
    then show ?thesis using 1 by (cases vs) simp_all
  qed
next
  case (2 entries depth)
  show ?case
  proof (cases "depth \<le> 63")
    case True
    have "foldr (\<lambda>f. max (json_depth (snd f))) entries 0 + depth \<le> 64 \<longleftrightarrow>
        foldr (\<lambda>f. max (json_depth (snd f))) entries 0 \<le> 64 - depth"
      using True by linarith
    also have "\<dots> \<longleftrightarrow> (\<forall>f \<in> set entries. json_depth (snd f) \<le> 64 - depth)"
      by (rule foldr_max_le)
    also have "\<dots> \<longleftrightarrow> (\<forall>f \<in> set entries. json_depth (snd f) + depth \<le> 64)"
      using True by auto
    finally show ?thesis using 2 True by (auto simp: list_all_iff)
  next
    case False
    then show ?thesis using 2 by (cases entries) simp_all
  qed
qed (auto)

end
