(* ===== verification/Room_Values.thy ===== *)
theory Room_Values
  imports Json Store_Core
begin

text \<open>
  The values of room access (\<open>domain/src/room_access/values.rs\<close> and the room part of
  \<open>domain/src/messaging.rs\<close>) and their stored rows (\<open>adapter-sqlite/src/room_access/rows.rs\<close>). A grant
  says what access an agent shall have in a room; its generation changes whenever the membership
  starts anew, its revision with every change and its access revision with every change of access.
\<close>

section \<open>Messaging\<close>

datatype membership = MemberJoin | MemberInvite | MemberLeave | MemberBan

datatype access = AccessNone | AccessRead | AccessReply | AccessCustom

fun access_code :: "access \<Rightarrow> string" where
  "access_code AccessNone = ''none''"
| "access_code AccessRead = ''read''"
| "access_code AccessReply = ''reply''"
| "access_code AccessCustom = ''custom''"

record room_membership =
  mship_backend_user_id :: string
  mship_display_name :: string
  mship_membership :: membership
  mship_native_access :: "json_map option"

record backend_permission =
  bperm_action :: string
  bperm_label :: string
  bperm_allowed :: bool

record access_field =
  afield_key :: string
  afield_label :: string
  afield_minimum :: int
  afield_maximum :: int
  afield_default_value :: int

record room_facts =
  facts_room_id :: string
  facts_name :: string
  facts_topic :: string
  facts_alias :: "string option"
  facts_backend_user_id :: string
  facts_can_invite :: bool
  facts_authority_revision :: string
  facts_access_modes :: "access list"
  facts_access_fields :: "access_field list"
  facts_permissions :: "backend_permission list"

record room_invitation =
  inv_room_id :: string
  inv_event_id :: string
  inv_sender :: string
  inv_direct :: bool

datatype room_admission = RoomManaged | RoomInvited string string

section \<open>Grants\<close>

datatype admission = Managed | Invited

record intent =
  intent_access :: access
  intent_native_access :: "json_map option"
  intent_muted :: bool

record grant =
  grant_agent_id :: string
  grant_room_id :: string
  grant_generation :: string
  grant_authorizer_id :: string
  grant_added_by_id :: string
  grant_invitation_event_id :: "string option"
  grant_admission :: admission
  grant_intent :: intent
  grant_revision :: int
  grant_access_revision :: int
  grant_updated_at :: int

record room_permission =
  rperm_agent_id :: string
  rperm_room_id :: string
  rperm_generation :: string
  rperm_granted_by_member_id :: string
  rperm_granted_at :: int

record room_application =
  rapp_agent_id :: string
  rapp_room_id :: string
  rapp_observed_generation :: "string option"
  rapp_applied_revision :: "int option"
  rapp_applied_access_revision :: "int option"
  rapp_membership :: "membership option"
  rapp_native_access :: "json_map option"
  rapp_last_attempt_at :: "int option"
  rapp_last_success_at :: "int option"
  rapp_next_check_at :: int
  rapp_error_code :: "string option"
  rapp_error_message :: "string option"

definition room_application_pending :: "string \<Rightarrow> string \<Rightarrow> int \<Rightarrow> room_application" where
  "room_application_pending agent room now = \<lparr>
     rapp_agent_id = agent, rapp_room_id = room, rapp_observed_generation = None,
     rapp_applied_revision = None, rapp_applied_access_revision = None, rapp_membership = None,
     rapp_native_access = None, rapp_last_attempt_at = None, rapp_last_success_at = None,
     rapp_next_check_at = now, rapp_error_code = None, rapp_error_message = None\<rparr>"

record approved_policy =
  approved_agent_id :: string
  approved_by_member_id :: string
  approved_at :: int
  approved_invite_agents :: bool

record room_change =
  change_agent_id :: string
  change_room_id :: string
  change_expected_revision :: int
  change_expected_generation :: "string option"
  change_intent :: intent

record permission_change =
  pchange_agent_id :: string
  pchange_room_id :: string
  pchange_expected_revision :: int
  pchange_expected_generation :: string
  pchange_invite_agents :: bool

record authorization =
  proof_input :: room_change
  proof_previous :: "grant option"
  proof_actor_revision :: int
  proof_target_revision :: int
  proof_owner_revision :: int
  proof_inviter_generation :: "string option"
  proof_inviter_revision :: "int option"
  proof_authorizer_id :: string
  proof_native :: "room_facts option"
  proof_changed :: bool
  proof_invitation_event_id :: "string option"
  proof_admission :: admission

section \<open>Stored rows\<close>

definition room_corrupt :: failure where
  "room_corrupt = failure_new Unavailable ''Invalid stored room authorization state''"

definition json_text :: "codec \<Rightarrow> json_map option \<Rightarrow> string option" where
  "json_text J v = map_option (\<lambda>entries. codec_print J (JObject entries)) v"

definition native_access_of_text :: "codec \<Rightarrow> string option \<Rightarrow> json_map option result" where
  "native_access_of_text J v = transpose_option (map_option (\<lambda>t.
     case codec_parse J t of None \<Rightarrow> Inl room_corrupt
     | Some p \<Rightarrow> (case backend_data J p of Inl _ \<Rightarrow> Inl room_corrupt | Inr m \<Rightarrow> Inr m)) v)"

definition boolean_of_int :: "int \<Rightarrow> bool result" where
  "boolean_of_int n = (if n = 0 then Inr False else if n = 1 then Inr True else Inl room_corrupt)"

definition int_of_bool :: "bool \<Rightarrow> int" where
  "int_of_bool b = (if b then 1 else 0)"

fun admission_text :: "admission \<Rightarrow> string" where
  "admission_text Managed = ''managed''"
| "admission_text Invited = ''invitation''"

definition admission_of_text :: "string \<Rightarrow> admission result" where
  "admission_of_text v = (if v = ''managed'' then Inr Managed
     else if v = ''invitation'' then Inr Invited else Inl room_corrupt)"

definition access_of_text :: "string \<Rightarrow> access result" where
  "access_of_text v = (if v = ''none'' then Inr AccessNone else if v = ''read'' then Inr AccessRead
     else if v = ''reply'' then Inr AccessReply else if v = ''custom'' then Inr AccessCustom
     else Inl room_corrupt)"

definition grant_row_of :: "codec \<Rightarrow> grant \<Rightarrow> room_grant_row" where
  "grant_row_of J v = \<lparr>grrow_agent_id = grant_agent_id v, grrow_room_id = grant_room_id v,
     grrow_generation = grant_generation v, grrow_authorizer_id = grant_authorizer_id v,
     grrow_added_by_id = grant_added_by_id v,
     grrow_invitation_event_id = grant_invitation_event_id v,
     grrow_admission_kind = admission_text (grant_admission v),
     grrow_access_mode = access_code (intent_access (grant_intent v)),
     grrow_native_access = json_text J (intent_native_access (grant_intent v)),
     grrow_muted = int_of_bool (intent_muted (grant_intent v)), grrow_revision = grant_revision v,
     grrow_access_revision = grant_access_revision v, grrow_updated_at = grant_updated_at v\<rparr>"

definition grant_of_row :: "codec \<Rightarrow> room_grant_row \<Rightarrow> grant result" where
  "grant_of_row J r =
     rbind (access_of_text (grrow_access_mode r)) (\<lambda>mode.
     rbind (admission_of_text (grrow_admission_kind r)) (\<lambda>kind.
     rbind (native_access_of_text J (grrow_native_access r)) (\<lambda>native.
     rbind (boolean_of_int (grrow_muted r)) (\<lambda>muted.
     Inr \<lparr>grant_agent_id = grrow_agent_id r, grant_room_id = grrow_room_id r,
       grant_generation = grrow_generation r, grant_authorizer_id = grrow_authorizer_id r,
       grant_added_by_id = grrow_added_by_id r,
       grant_invitation_event_id = grrow_invitation_event_id r, grant_admission = kind,
       grant_intent = \<lparr>intent_access = mode, intent_native_access = native, intent_muted = muted\<rparr>,
       grant_revision = grrow_revision r, grant_access_revision = grrow_access_revision r,
       grant_updated_at = grrow_updated_at r\<rparr>))))"

definition room_permission_row_of :: "room_permission \<Rightarrow> room_permission_row" where
  "room_permission_row_of v = \<lparr>rprow_agent_id = rperm_agent_id v, rprow_room_id = rperm_room_id v,
     rprow_generation = rperm_generation v, rprow_permission_code = ''room.agent.invite'',
     rprow_grant_scope = ''agent_room'', rprow_granted_by_member_id = rperm_granted_by_member_id v,
     rprow_granted_at = rperm_granted_at v\<rparr>"

definition room_permission_of_row :: "room_permission_row \<Rightarrow> room_permission result" where
  "room_permission_of_row r =
     (if rprow_permission_code r \<noteq> ''room.agent.invite'' \<or> rprow_grant_scope r \<noteq> ''agent_room''
      then Inl room_corrupt
      else Inr \<lparr>rperm_agent_id = rprow_agent_id r, rperm_room_id = rprow_room_id r,
        rperm_generation = rprow_generation r,
        rperm_granted_by_member_id = rprow_granted_by_member_id r,
        rperm_granted_at = rprow_granted_at r\<rparr>)"

fun membership_text :: "membership \<Rightarrow> string" where
  "membership_text MemberJoin = ''join''"
| "membership_text MemberInvite = ''invite''"
| "membership_text MemberLeave = ''leave''"
| "membership_text MemberBan = ''ban''"

definition membership_of_text :: "string \<Rightarrow> membership result" where
  "membership_of_text v = (if v = ''join'' then Inr MemberJoin
     else if v = ''invite'' then Inr MemberInvite else if v = ''leave'' then Inr MemberLeave
     else if v = ''ban'' then Inr MemberBan else Inl room_corrupt)"

definition room_application_row_of :: "codec \<Rightarrow> room_application \<Rightarrow> room_application_row" where
  "room_application_row_of J v = \<lparr>raprow_agent_id = rapp_agent_id v, raprow_room_id = rapp_room_id v,
     raprow_observed_generation = rapp_observed_generation v,
     raprow_applied_revision = rapp_applied_revision v,
     raprow_applied_access_revision = rapp_applied_access_revision v,
     raprow_membership = map_option membership_text (rapp_membership v),
     raprow_native_access = json_text J (rapp_native_access v),
     raprow_last_attempt_at = rapp_last_attempt_at v,
     raprow_last_success_at = rapp_last_success_at v, raprow_next_check_at = rapp_next_check_at v,
     raprow_error_code = rapp_error_code v, raprow_error_message = rapp_error_message v\<rparr>"

definition room_application_of_row :: "codec \<Rightarrow> room_application_row \<Rightarrow> room_application result" where
  "room_application_of_row J r =
     rbind (transpose_option (map_option membership_of_text (raprow_membership r))) (\<lambda>mship.
     rbind (native_access_of_text J (raprow_native_access r)) (\<lambda>native.
     Inr \<lparr>rapp_agent_id = raprow_agent_id r, rapp_room_id = raprow_room_id r,
       rapp_observed_generation = raprow_observed_generation r,
       rapp_applied_revision = raprow_applied_revision r,
       rapp_applied_access_revision = raprow_applied_access_revision r, rapp_membership = mship,
       rapp_native_access = native, rapp_last_attempt_at = raprow_last_attempt_at r,
       rapp_last_success_at = raprow_last_success_at r,
       rapp_next_check_at = raprow_next_check_at r, rapp_error_code = raprow_error_code r,
       rapp_error_message = raprow_error_message r\<rparr>))"

section \<open>Round trips\<close>

lemma access_roundtrip [simp]: "access_of_text (access_code a) = Inr a"
  by (cases a) (simp_all add: access_of_text_def)

lemma admission_roundtrip [simp]: "admission_of_text (admission_text a) = Inr a"
  by (cases a) (simp_all add: admission_of_text_def)

lemma membership_roundtrip [simp]: "membership_of_text (membership_text m) = Inr m"
  by (cases m) (simp_all add: membership_of_text_def)

lemma boolean_roundtrip [simp]: "boolean_of_int (int_of_bool b) = Inr b"
  by (simp add: boolean_of_int_def int_of_bool_def)

lemma access_code_eq [simp]: "access_code a = access_code b \<longleftrightarrow> a = b"
  by (metis access_roundtrip sum.inject(2))

text \<open>A stored object comes back if it keeps the bounds on backend data.\<close>

lemma native_access_roundtrip:
  "codec_ok J \<Longrightarrow> (\<And>m. v = Some m \<Longrightarrow> canonical (JObject m) \<and> valid_data J m) \<Longrightarrow>
   native_access_of_text J (json_text J v) = Inr v"
  by (cases v) (simp_all add: native_access_of_text_def json_text_def codec_okD backend_data_def
      transpose_option_def)

lemma grant_row_roundtrip:
  assumes "codec_ok J" and "\<And>m. intent_native_access (grant_intent v) = Some m \<Longrightarrow> canonical (JObject m) \<and> valid_data J m"
  shows "grant_of_row J (grant_row_of J v) = Inr v"
  using native_access_roundtrip [OF assms] by (simp add: grant_of_row_def grant_row_of_def)

lemma room_permission_row_roundtrip [simp]:
  "room_permission_of_row (room_permission_row_of v) = Inr v"
  by (simp add: room_permission_of_row_def room_permission_row_of_def)

lemma room_application_row_roundtrip:
  assumes "codec_ok J" and "\<And>m. rapp_native_access v = Some m \<Longrightarrow> canonical (JObject m) \<and> valid_data J m"
  shows "room_application_of_row J (room_application_row_of J v) = Inr v"
  using native_access_roundtrip [OF assms]
  by (cases "rapp_membership v") (simp_all add: room_application_of_row_def room_application_row_of_def)

text \<open>Reading a row keeps the columns that identify it.\<close>

lemma grant_of_row_key:
  "grant_of_row J r = Inr g \<Longrightarrow> grrow_agent_id r = grant_agent_id g \<and> grrow_room_id r = grant_room_id g \<and>
     grrow_generation r = grant_generation g \<and> grrow_authorizer_id r = grant_authorizer_id g \<and>
     grrow_added_by_id r = grant_added_by_id g \<and> grrow_revision r = grant_revision g \<and>
     grrow_access_mode r = access_code (intent_access (grant_intent g)) \<and>
     grrow_muted r = int_of_bool (intent_muted (grant_intent g)) \<and>
     (grrow_native_access r = None \<longleftrightarrow> intent_native_access (grant_intent g) = None)"
  by (auto simp: grant_of_row_def op_iff access_of_text_def boolean_of_int_def int_of_bool_def
      native_access_of_text_def transpose_option_def split: if_splits option.splits sum.splits)

end
