(* ===== verification/Store_Agents.thy ===== *)
theory Store_Agents
  imports Store_Fleet
begin

text \<open>
  The agent statements of the storage adapter: every method of \<open>AgentRepository\<close>
  (\<open>adapter-sqlite/src/agent.rs\<close>) and the active identities of \<open>DiscoveryRepository\<close>
  (\<open>adapter-sqlite/src/discovery.rs\<close>), with the pagination of \<open>domain/src/read/values.rs\<close>.
\<close>

section \<open>Pages\<close>

record pagination =
  pg_page :: int
  pg_size :: int

definition pagination_validate :: "pagination \<Rightarrow> pagination result" where
  "pagination_validate v =
     (if 1 \<le> pg_page v \<and> pg_page v \<le> 100000 \<and> 1 \<le> pg_size v \<and> pg_size v \<le> 100 then Inr v
      else Inl (failure_new Invalid page_message))"

definition pagination_offset :: "pagination \<Rightarrow> int" where
  "pagination_offset v = (pg_page v - 1) * pg_size v"

definition pagination_finish :: "pagination \<Rightarrow> 'a list \<Rightarrow> int \<Rightarrow> 'a page" where
  "pagination_finish v items counted = \<lparr>page_items = items, page_page = pg_page v,
     page_size = pg_size v, page_total_items = counted,
     page_total_pages = max ((counted + pg_size v - 1) sdiv pg_size v) 1\<rparr>"

section \<open>Agents\<close>

record sender =
  sender_principal_id :: string
  sender_include_agents :: bool

record agent_view =
  aview_principal :: principal
  aview_agent :: agent
  aview_owner :: principal
  aview_owner_member :: member
  aview_application :: application

definition agent_view_of_rows ::
  "principal_row \<times> agent_row \<times> principal_row \<times> member_row \<times> application_row \<Rightarrow> agent_view result" where
  "agent_view_of_rows rows = (case rows of (p, a, w, m, ap) \<Rightarrow>
     rbind (kind_of_text (agrow_principal_kind a)) (\<lambda>k.
     if k \<noteq> AgentKind then Inl (failure_new Unavailable ''Stored agent identity is invalid'') else
     rbind (principal_of_row p) (\<lambda>pv.
     rbind (wake_of_text (agrow_wake_mode a)) (\<lambda>mode.
     rbind (principal_of_row w) (\<lambda>wv.
     rbind (application_of_row ap) (\<lambda>av.
     Inr \<lparr>aview_principal = pv,
       aview_agent = \<lparr>agent_principal_id = agrow_principal_id a, agent_owner_id = agrow_owner_id a,
                      agent_wake_mode = mode\<rparr>,
       aview_owner = wv,
       aview_owner_member = \<lparr>member_principal_id = mrow_principal_id m,
                             member_display_name = mrow_display_name m\<rparr>,
       aview_application = av\<rparr>))))))"

definition agent_view_query ::
  "store \<Rightarrow> (principal_row \<times> agent_row \<times> principal_row \<times> member_row \<times> application_row) list" where
  "agent_view_query s =
     [(p, a, w, m, ap). p <- principals s, a <- agents s, agrow_principal_id a = prow_id p,
       w <- principals s, prow_id w = agrow_owner_id a,
       m <- members s, mrow_principal_id m = agrow_owner_id a,
       ap <- principal_applications s, arow_principal_id ap = prow_id p]"

definition repo_agent_view :: "string \<Rightarrow> agent_view option db" where
  "repo_agent_view aid = read_op (\<lambda>s. transpose_row agent_view_of_rows
     (find_row (\<lambda>(p, _). prow_id p = aid) (agent_view_query s)))"

definition repo_agent_name :: "string \<Rightarrow> string option db" where
  "repo_agent_name aid = read_op (\<lambda>s.
     Inr (map_option anrow_name (find_row (\<lambda>r. anrow_agent_id r = Some aid) (agent_names s))))"

definition agent_row_of :: "agent \<Rightarrow> agent_row" where
  "agent_row_of v = \<lparr>agrow_principal_id = agent_principal_id v, agrow_principal_kind = ''agent'',
     agrow_owner_id = agent_owner_id v, agrow_wake_mode = wake_text (agent_wake_mode v)\<rparr>"

definition repo_insert_agent :: "agent \<Rightarrow> unit db" where
  "repo_insert_agent v = execute (\<lambda>s. s\<lparr>agents := agents s @ [agent_row_of v]\<rparr>)"

definition repo_save_agent :: "agent \<Rightarrow> unit db" where
  "repo_save_agent v =
     bind_op (execute_counted
       (\<lambda>s. count_rows (\<lambda>r. agrow_principal_id r = agent_principal_id v) (agents s))
       (\<lambda>s. s\<lparr>agents := update_rows (\<lambda>r. agrow_principal_id r = agent_principal_id v)
              (\<lambda>r. r\<lparr>agrow_owner_id := agent_owner_id v,
                     agrow_wake_mode := wake_text (agent_wake_mode v)\<rparr>) (agents s)\<rparr>)) (\<lambda>n.
     if n = 1 then return_op () else fail_op (failure_new Missing ''Agent not found''))"

definition repo_application :: "string \<Rightarrow> application option db" where
  "repo_application pid = read_op (\<lambda>s. transpose_row application_of_row
     (find_row (\<lambda>r. arow_principal_id r = pid) (principal_applications s)))"

definition sender_of_row :: "wake_sender_row \<Rightarrow> sender result" where
  "sender_of_row r =
     (if wsrow_include_agents r = 0
      then Inr \<lparr>sender_principal_id = wsrow_sender_principal_id r, sender_include_agents = False\<rparr>
      else if wsrow_include_agents r = 1
      then Inr \<lparr>sender_principal_id = wsrow_sender_principal_id r, sender_include_agents = True\<rparr>
      else Inl (failure_new Unavailable ''Invalid stored wake sender''))"

definition repo_wake_senders :: "string \<Rightarrow> sender list db" where
  "repo_wake_senders aid = read_op (\<lambda>s. collect_results (map sender_of_row
     (sort_key wsrow_sender_principal_id
       (filter (\<lambda>r. wsrow_agent_id r = aid) (wake_sender_rows s)))))"

definition sender_row_of :: "string \<Rightarrow> sender \<Rightarrow> wake_sender_row" where
  "sender_row_of aid v = \<lparr>wsrow_agent_id = aid, wsrow_sender_principal_id = sender_principal_id v,
     wsrow_include_agents = (if sender_include_agents v then 1 else 0)\<rparr>"

definition repo_replace_wake_senders :: "string \<Rightarrow> sender list \<Rightarrow> unit db" where
  "repo_replace_wake_senders aid senders =
     bind_op (execute (\<lambda>s. s\<lparr>wake_sender_rows :=
       filter (\<lambda>r. wsrow_agent_id r \<noteq> aid) (wake_sender_rows s)\<rparr>)) (\<lambda>_.
     execute (\<lambda>s. s\<lparr>wake_sender_rows := wake_sender_rows s @ map (sender_row_of aid) senders\<rparr>))"

section \<open>Active identities\<close>

record active_identity =
  active_principal :: principal
  active_owner_id :: "string option"

definition active_human_query :: "store \<Rightarrow> principal_row list" where
  "active_human_query s =
     [p. p <- principals s, m <- members s, mrow_principal_id m = prow_id p,
       r <- principal_roles s, rrow_principal_id r = prow_id p,
       a <- principal_applications s, arow_principal_id a = prow_id p, prow_status p = ''active'']"

definition active_agent_query :: "store \<Rightarrow> (principal_row \<times> string) list" where
  "active_agent_query s =
     [(p, agrow_owner_id a). p <- principals s, a <- agents s, agrow_principal_id a = prow_id p,
       n <- agent_names s, anrow_agent_id n = Some (prow_id p),
       i <- fleet_instances s, inst_agent_id i = prow_id p,
       f <- fleets s, frow_owner_id f = inst_owner_id i \<and> frow_fleet_key f = inst_fleet_key i,
       ap <- principal_applications s, arow_principal_id ap = prow_id p,
       w <- principals s, prow_id w = agrow_owner_id a,
       m <- members s, mrow_principal_id m = agrow_owner_id a,
       prow_status p = ''active'' \<and> inst_retired_at i = None \<and> frow_archived_at f = None \<and>
       prow_status w = ''active'' \<and> agrow_owner_id a = frow_owner_id f]"

definition repo_active_principals :: "active_identity list db" where
  "repo_active_principals = read_op (\<lambda>s.
     rbind (collect_results (map (\<lambda>p. rbind (principal_of_row p) (\<lambda>v.
         Inr \<lparr>active_principal = v, active_owner_id = None\<rparr>)) (active_human_query s))) (\<lambda>humans.
     rbind (collect_results (map (\<lambda>(p, w). rbind (principal_of_row p) (\<lambda>v.
         Inr \<lparr>active_principal = v, active_owner_id = Some w\<rparr>)) (active_agent_query s))) (\<lambda>found.
     Inr (humans @ found))))"

record principal_summary =
  psum_principal_id :: string
  psum_backend_user_id :: string
  psum_kind :: principal_kind
  psum_display_name :: string
  psum_owner_id :: string
  psum_owner_backend_user_id :: string

definition principal_summary_of_row :: "principal_row \<Rightarrow> string \<Rightarrow> string \<Rightarrow> string \<Rightarrow> principal_summary result" where
  "principal_summary_of_row p name owner owner_user = rbind (kind_of_text (prow_kind p)) (\<lambda>k.
     Inr \<lparr>psum_principal_id = prow_id p, psum_backend_user_id = prow_backend_user_id p, psum_kind = k,
       psum_display_name = name, psum_owner_id = owner, psum_owner_backend_user_id = owner_user\<rparr>)"

definition repo_selected_principals :: "string list \<Rightarrow> principal_summary list db" where
  "repo_selected_principals ids = read_op (\<lambda>s.
     if ids = [] then Inr [] else
     rbind (collect_results
       [principal_summary_of_row p (mrow_display_name m) (prow_id p) (prow_backend_user_id p).
         m <- members s, p <- principals s, mrow_principal_id m = prow_id p, prow_id p \<in> set ids]) (\<lambda>humans.
     rbind (collect_results
       [principal_summary_of_row p (agent_display_name (anrow_name n) (mrow_display_name m)) (agrow_owner_id a)
          (prow_backend_user_id w).
         a <- agents s, p <- principals s, agrow_principal_id a = prow_id p,
         n <- agent_names s, anrow_agent_id n = Some (agrow_principal_id a),
         w <- principals s, prow_id w = agrow_owner_id a,
         m <- members s, mrow_principal_id m = agrow_owner_id a, prow_id p \<in> set ids]) (\<lambda>found.
     Inr (sort_key psum_principal_id (humans @ found)))))"

section \<open>What the statements answer\<close>

lemma query_agent_repo [simp]:
  "query (repo_agent_view aid)" "query (repo_agent_name aid)" "query (repo_application aid)"
  "query (repo_wake_senders aid)" "query repo_active_principals" "query (repo_selected_principals ids)"
  by (simp_all add: repo_agent_view_def repo_agent_name_def repo_application_def repo_wake_senders_def
      repo_active_principals_def repo_selected_principals_def)

text \<open>A view holds the stored identity of the agent and of its owner.\<close>

lemma repo_agent_view_Inr:
  assumes "repo_agent_view aid s = (Inr (Some v), s')"
  shows "s' = s" "stored_principal aid (aview_principal v) s"
    "principal_row_of (aview_owner v) \<in> set (principals s)"
    "\<exists>g \<in> set (agents s). agrow_principal_id g = aid \<and>
       agrow_owner_id g = principal_id (aview_owner v) \<and> agent_of_row g = Inr (aview_agent v)"
proof -
  from assms obtain r where r: "find_row (\<lambda>(p, _). prow_id p = aid) (agent_view_query s) = Some r"
    "agent_view_of_rows r = Inr v" and s': "s' = s"
    unfolding repo_agent_view_def read_op_Inr transpose_row_eq_Some by blast
  obtain p a w m ap where q: "r = (p, a, w, m, ap)" by (rule prod_cases5)
  from find_row_SomeD [OF r(1)] q have found: "(p, a, w, m, ap) \<in> set (agent_view_query s)" "prow_id p = aid"
    by simp_all
  from r(2) q have view: "agent_view_of_rows (p, a, w, m, ap) = Inr v" by simp
  from s' show "s' = s" .
  from found have q: "p \<in> set (principals s)" "a \<in> set (agents s)" "agrow_principal_id a = prow_id p"
    "w \<in> set (principals s)" "prow_id w = agrow_owner_id a"
    by (auto simp: agent_view_query_def split: if_splits)
  from view have v: "p = principal_row_of (aview_principal v)" "w = principal_row_of (aview_owner v)"
    "agent_of_row a = Inr (aview_agent v)"
    by (auto simp: agent_view_of_rows_def op_iff principal_of_row_Inr agent_of_row_def split: if_splits)
  from q found v show "stored_principal aid (aview_principal v) s"
    "principal_row_of (aview_owner v) \<in> set (principals s)"
    by (auto simp: stored_principal_def)
  from q found v show "\<exists>g \<in> set (agents s). agrow_principal_id g = aid \<and>
       agrow_owner_id g = principal_id (aview_owner v) \<and> agent_of_row g = Inr (aview_agent v)"
    by (intro bexI [of _ a]) auto
qed

end
