(* ===== verification/Store_Rooms.thy ===== *)
theory Store_Rooms
  imports Room_Values Store_Agents
begin

text \<open>
  The room statements of the storage adapter: every method of \<open>RoomRepository\<close>
  (\<open>adapter-sqlite/src/room_access/mod.rs\<close>) and of \<open>RoomReadRepository\<close>
  (\<open>adapter-sqlite/src/room_access/read.rs\<close>), and the management conversations
  (\<open>adapter-sqlite/src/runtime/incidents.rs\<close>). The triggers of the schema that keep a private
  conversation private are conditions of the statement they guard.
\<close>

definition on_rooms :: "(room_tables \<Rightarrow> room_tables) \<Rightarrow> store \<Rightarrow> store" where
  "on_rooms f s = s\<lparr>rooms := f (rooms s)\<rparr>"

section \<open>Grants\<close>

definition same_room :: "string \<Rightarrow> string \<Rightarrow> room_grant_row \<Rightarrow> bool" where
  "same_room agent room r \<longleftrightarrow> grrow_agent_id r = agent \<and> grrow_room_id r = room"

definition repo_room_grant :: "codec \<Rightarrow> string \<Rightarrow> string \<Rightarrow> grant option db" where
  "repo_room_grant J agent room = read_op (\<lambda>s.
     transpose_row (grant_of_row J) (find_row (same_room agent room) (room_grants (rooms s))))"

definition repo_room_grants :: "codec \<Rightarrow> string \<Rightarrow> grant list db" where
  "repo_room_grants J agent = read_op (\<lambda>s. collect_results (map (grant_of_row J)
     (sort_key grrow_room_id (filter (\<lambda>r. grrow_agent_id r = agent) (room_grants (rooms s))))))"

text \<open>What the triggers on \<open>agent_room_grant\<close> refuse.\<close>

definition owner_grant_broken :: "room_grant_row \<Rightarrow> room_tables \<Rightarrow> bool" where
  "owner_grant_broken r t \<longleftrightarrow> list_ex (\<lambda>c. own_agent_id c = grrow_agent_id r \<and>
     own_room_id c = grrow_room_id r \<and>
     (grrow_access_mode r \<noteq> ''reply'' \<or> grrow_native_access r \<noteq> None \<or> grrow_muted r \<noteq> 0 \<or>
      grrow_authorizer_id r \<noteq> own_owner_id c \<or> grrow_added_by_id r \<noteq> own_owner_id c))
     (owner_conversations t)"

definition private_intrusion :: "room_grant_row \<Rightarrow> room_tables \<Rightarrow> bool" where
  "private_intrusion r t \<longleftrightarrow> grrow_access_mode r \<noteq> ''none'' \<and>
     list_ex (\<lambda>c. own_room_id c = grrow_room_id r \<and> own_agent_id c \<noteq> grrow_agent_id r)
       (owner_conversations t)"

definition management_intrusion :: "room_grant_row \<Rightarrow> room_tables \<Rightarrow> bool" where
  "management_intrusion r t \<longleftrightarrow> grrow_access_mode r \<noteq> ''none'' \<and>
     list_ex (\<lambda>c. conv_room_id c = grrow_room_id r) (management_conversations t)"

definition repo_save_room_grant :: "codec \<Rightarrow> grant \<Rightarrow> bool \<Rightarrow> unit db" where
  "repo_save_room_grant J v insert_row s =
     (let r = grant_row_of J v; same = same_room (grant_agent_id v) (grant_room_id v);
          count = count_rows same (room_grants (rooms s))
      in
      if (insert_row \<or> 0 < count) \<and> private_intrusion r (rooms s)
      then (Inl (trigger_abort ''Another agent cannot join a private owner conversation''), s)
      else if (insert_row \<or> 0 < count) \<and> management_intrusion r (rooms s)
      then (Inl (trigger_abort ''Management conversations cannot admit agents''), s)
      else if \<not> insert_row \<and> 0 < count \<and> owner_grant_broken r (rooms s)
      then (Inl (trigger_abort ''Owner conversation access cannot be disabled or delegated''), s)
      else if insert_row
      then execute (on_rooms (\<lambda>t. t\<lparr>room_grants := room_grants t @ [r]\<rparr>)) s
      else bind_op (execute (on_rooms (\<lambda>t. t\<lparr>room_grants := update_rows same (\<lambda>_. r) (room_grants t)\<rparr>)))
        (\<lambda>_. if count = 1 then return_op () else fail_op (failure_new Missing ''Room grant not found'')) s)"

section \<open>Permissions in a room\<close>

definition same_permission :: "string \<Rightarrow> string \<Rightarrow> room_permission_row \<Rightarrow> bool" where
  "same_permission agent room r \<longleftrightarrow> rprow_agent_id r = agent \<and> rprow_room_id r = room"

definition repo_room_permission :: "string \<Rightarrow> string \<Rightarrow> room_permission option db" where
  "repo_room_permission agent room = read_op (\<lambda>s. transpose_row room_permission_of_row
     (find_row (same_permission agent room) (room_permissions (rooms s))))"

definition insert_room_permission :: "room_permission \<Rightarrow> unit db" where
  "insert_room_permission v s =
     (if list_ex (\<lambda>c. own_room_id c = rperm_room_id v) (owner_conversations (rooms s))
      then (Inl (trigger_abort ''Owner conversations cannot delegate invitations''), s)
      else if list_ex (\<lambda>c. conv_room_id c = rperm_room_id v) (management_conversations (rooms s))
      then (Inl (trigger_abort ''Management conversations cannot delegate invitations''), s)
      else execute (on_rooms (\<lambda>t. t\<lparr>room_permissions :=
        room_permissions t @ [room_permission_row_of v]\<rparr>)) s)"

definition repo_replace_room_permissions ::
  "string \<Rightarrow> string \<Rightarrow> room_permission option \<Rightarrow> unit db" where
  "repo_replace_room_permissions agent room v =
     bind_op (execute (on_rooms (\<lambda>t. t\<lparr>room_permissions :=
       filter (\<lambda>r. \<not> same_permission agent room r) (room_permissions t)\<rparr>))) (\<lambda>_.
     case v of None \<Rightarrow> return_op () | Some p \<Rightarrow> insert_room_permission p)"

section \<open>Applications\<close>

definition same_application :: "string \<Rightarrow> string \<Rightarrow> room_application_row \<Rightarrow> bool" where
  "same_application agent room r \<longleftrightarrow> raprow_agent_id r = agent \<and> raprow_room_id r = room"

definition repo_room_application :: "codec \<Rightarrow> string \<Rightarrow> string \<Rightarrow> room_application option db" where
  "repo_room_application J agent room = read_op (\<lambda>s. transpose_row (room_application_of_row J)
     (find_row (same_application agent room) (room_applications (rooms s))))"

definition repo_save_room_application :: "codec \<Rightarrow> room_application \<Rightarrow> bool \<Rightarrow> unit db" where
  "repo_save_room_application J v insert_row s =
     (let r = room_application_row_of J v; same = same_application (rapp_agent_id v) (rapp_room_id v);
          count = count_rows same (room_applications (rooms s))
      in
      if insert_row
      then execute (on_rooms (\<lambda>t. t\<lparr>room_applications := room_applications t @ [r]\<rparr>)) s
      else bind_op (execute (on_rooms (\<lambda>t. t\<lparr>room_applications :=
          update_rows same (\<lambda>_. r) (room_applications t)\<rparr>)))
        (\<lambda>_. if count = 1 then return_op ()
             else fail_op (failure_new Missing ''Room application not found'')) s)"

section \<open>Private conversations\<close>

definition repo_owner_conversation :: "string \<Rightarrow> owner_conversation option db" where
  "repo_owner_conversation agent = read_op (\<lambda>s.
     Inr (find_row (\<lambda>c. own_agent_id c = agent) (owner_conversations (rooms s))))"

definition repo_owner_conversation_by_room :: "string \<Rightarrow> owner_conversation option db" where
  "repo_owner_conversation_by_room room = read_op (\<lambda>s.
     Inr (find_row (\<lambda>c. own_room_id c = room) (owner_conversations (rooms s))))"

definition private_grant :: "owner_conversation \<Rightarrow> room_grant_row \<Rightarrow> bool" where
  "private_grant c r \<longleftrightarrow> grrow_agent_id r = own_agent_id c \<and> grrow_room_id r = own_room_id c \<and>
     grrow_access_mode r = ''reply'' \<and> grrow_native_access r = None \<and> grrow_muted r = 0 \<and>
     grrow_authorizer_id r = own_owner_id c \<and> grrow_added_by_id r = own_owner_id c"

definition repo_insert_owner_conversation :: "owner_conversation \<Rightarrow> unit db" where
  "repo_insert_owner_conversation v s =
     (if \<not> list_ex (private_grant v) (room_grants (rooms s)) \<or>
         list_ex (\<lambda>r. grrow_room_id r = own_room_id v \<and> grrow_agent_id r \<noteq> own_agent_id v \<and>
           grrow_access_mode r \<noteq> ''none'') (room_grants (rooms s)) \<or>
         list_ex (\<lambda>r. rprow_room_id r = own_room_id v) (room_permissions (rooms s))
      then (Inl (trigger_abort
        ''Owner conversations require exclusive permanent owner-authorized read and reply''), s)
      else if list_ex (\<lambda>c. conv_room_id c = own_room_id v) (management_conversations (rooms s))
      then (Inl (trigger_abort ''Management conversations cannot admit agents''), s)
      else execute (on_rooms (\<lambda>t. t\<lparr>owner_conversations := owner_conversations t @ [v]\<rparr>)) s)"

definition repo_management_conversation :: "string \<Rightarrow> management_conversation option db" where
  "repo_management_conversation owner = read_op (\<lambda>s.
     Inr (find_row (\<lambda>c. conv_owner_id c = owner) (management_conversations (rooms s))))"

definition repo_management_conversation_by_room :: "string \<Rightarrow> management_conversation option db" where
  "repo_management_conversation_by_room room = read_op (\<lambda>s.
     Inr (find_row (\<lambda>c. conv_room_id c = room) (management_conversations (rooms s))))"

definition repo_insert_management_conversation :: "management_conversation \<Rightarrow> unit db" where
  "repo_insert_management_conversation v s =
     (if list_ex (\<lambda>r. grrow_room_id r = conv_room_id v \<and> grrow_access_mode r \<noteq> ''none'')
           (room_grants (rooms s)) \<or>
         list_ex (\<lambda>c. own_room_id c = conv_room_id v) (owner_conversations (rooms s)) \<or>
         list_ex (\<lambda>r. rprow_room_id r = conv_room_id v) (room_permissions (rooms s))
      then (Inl (trigger_abort ''Management conversations cannot admit agents''), s)
      else execute (on_rooms (\<lambda>t. t\<lparr>management_conversations := management_conversations t @ [v]\<rparr>)) s)"

section \<open>The policy a fleet approved\<close>

definition repo_approved_fleet_policy :: "string \<Rightarrow> approved_policy option db" where
  "repo_approved_fleet_policy agent = read_op (\<lambda>s.
     case find_row (\<lambda>r. fprow_agent_id r = agent) (fleet_policies (rooms s)) of None \<Rightarrow> Inr None
     | Some p \<Rightarrow>
         let perms = filter (\<lambda>r. fpmrow_agent_id r = agent) (fleet_permissions (rooms s)) in
         if 1 < length perms \<or> list_ex (\<lambda>r. fpmrow_permission_code r \<noteq> ''room.agent.invite'' \<or>
              fpmrow_grant_scope r \<noteq> ''agent_room'') perms
         then Inl room_corrupt
         else Inr (Some \<lparr>approved_agent_id = fprow_agent_id p,
           approved_by_member_id = fprow_approved_by_member_id p,
           approved_at = fprow_approved_at p, approved_invite_agents = (perms \<noteq> [])\<rparr>))"

definition repo_approve_fleet_policy :: "approved_policy \<Rightarrow> unit db" where
  "repo_approve_fleet_policy v =
     bind_op (execute (on_rooms (\<lambda>t. t\<lparr>fleet_policies :=
       (let r = \<lparr>fprow_agent_id = approved_agent_id v,
              fprow_approved_by_member_id = approved_by_member_id v,
              fprow_approved_at = approved_at v\<rparr>
        in if list_ex (\<lambda>q. fprow_agent_id q = approved_agent_id v) (fleet_policies t)
           then update_rows (\<lambda>q. fprow_agent_id q = approved_agent_id v) (\<lambda>_. r) (fleet_policies t)
           else fleet_policies t @ [r])\<rparr>))) (\<lambda>_.
     bind_op (execute (on_rooms (\<lambda>t. t\<lparr>fleet_permissions :=
       filter (\<lambda>r. fpmrow_agent_id r \<noteq> approved_agent_id v) (fleet_permissions t)\<rparr>))) (\<lambda>_.
     if approved_invite_agents v
     then execute (on_rooms (\<lambda>t. t\<lparr>fleet_permissions := fleet_permissions t @
       [\<lparr>fpmrow_agent_id = approved_agent_id v, fpmrow_permission_code = ''room.agent.invite'',
         fpmrow_grant_scope = ''agent_room''\<rparr>]\<rparr>))
     else return_op ()))"

section \<open>Reads for the administration pages\<close>

definition repo_grants_page ::
  "codec \<Rightarrow> string \<Rightarrow> pagination \<Rightarrow> string list option \<Rightarrow> grant page db" where
  "repo_grants_page J agent pg selected = read_op (\<lambda>s.
     rbind (pagination_validate pg) (\<lambda>_.
     let rows = filter (\<lambda>r. grrow_agent_id r = agent \<and>
            (case selected of None \<Rightarrow> True | Some ids \<Rightarrow> grrow_room_id r \<in> set ids)) (room_grants (rooms s));
         counted = int (length rows)
     in rbind (collect_results (map (grant_of_row J)
            (page_rows (pg_page pg) (pg_size pg) (sort_key grrow_room_id rows)))) (\<lambda>items.
        Inr (pagination_finish pg items counted))))"

definition repo_applications_for_rooms :: "codec \<Rightarrow> string \<Rightarrow> string list \<Rightarrow> room_application list db" where
  "repo_applications_for_rooms J agent ids = read_op (\<lambda>s.
     collect_results (map (room_application_of_row J)
       (filter (\<lambda>r. raprow_agent_id r = agent \<and> raprow_room_id r \<in> set ids) (room_applications (rooms s)))))"

definition repo_permissions_for_rooms :: "string \<Rightarrow> string list \<Rightarrow> room_permission list db" where
  "repo_permissions_for_rooms agent ids = read_op (\<lambda>s.
     collect_results (map room_permission_of_row
       (filter (\<lambda>r. rprow_agent_id r = agent \<and> rprow_room_id r \<in> set ids) (room_permissions (rooms s)))))"

definition repo_relations_for_agents ::
  "codec \<Rightarrow> string list \<Rightarrow> (grant list \<times> room_application list) db" where
  "repo_relations_for_agents J ids = read_op (\<lambda>s.
     rbind (collect_results (map (grant_of_row J) (sort_key (\<lambda>r. (grrow_agent_id r, grrow_room_id r))
       (filter (\<lambda>r. grrow_agent_id r \<in> set ids) (room_grants (rooms s)))))) (\<lambda>gs.
     rbind (collect_results (map (room_application_of_row J)
       (sort_key (\<lambda>r. (raprow_agent_id r, raprow_room_id r))
       (filter (\<lambda>r. raprow_agent_id r \<in> set ids) (room_applications (rooms s)))))) (\<lambda>as.
     Inr (gs, as))))"

definition repo_due_room_grants :: "int \<Rightarrow> (string \<times> string) list db" where
  "repo_due_room_grants now = read_op (\<lambda>s. Inr (map (\<lambda>r. (raprow_agent_id r, raprow_room_id r))
     (sort_key (\<lambda>r. (raprow_next_check_at r, raprow_agent_id r, raprow_room_id r))
       (filter (\<lambda>r. raprow_next_check_at r \<le> now) (room_applications (rooms s))))))"

lemma query_room_repo [simp]:
  "query (repo_room_grant J agent room)" "query (repo_room_grants J agent)"
  "query (repo_room_permission agent room)" "query (repo_room_application J agent room)"
  "query (repo_owner_conversation agent)" "query (repo_owner_conversation_by_room room)"
  "query (repo_management_conversation owner)" "query (repo_management_conversation_by_room room)"
  "query (repo_approved_fleet_policy agent)" "query (repo_grants_page J agent pg selected)"
  "query (repo_applications_for_rooms J agent ids)" "query (repo_permissions_for_rooms agent ids)"
  "query (repo_relations_for_agents J ids)" "query (repo_due_room_grants now)"
  by (simp_all add: repo_room_grant_def repo_room_grants_def repo_room_permission_def
      repo_room_application_def repo_owner_conversation_def repo_owner_conversation_by_room_def
      repo_management_conversation_def repo_management_conversation_by_room_def
      repo_approved_fleet_policy_def repo_grants_page_def repo_applications_for_rooms_def
      repo_permissions_for_rooms_def repo_relations_for_agents_def repo_due_room_grants_def)

end
