(* ===== verification/Room_Authority.thy ===== *)
theory Room_Authority
  imports Store_Rooms
begin

text \<open>
  Who may change a room grant: \<open>domain/src/room_access/authority.rs\<close>. \<open>prepare\<close> checks a change and
  notes the revisions it rests on, \<open>recheck\<close> repeats the checks on the database the change is about
  to be committed to; between the two the program waits for the messaging backend.
\<close>

definition private_room :: "string \<Rightarrow> bool db" where
  "private_room room =
     bind_op (repo_owner_conversation_by_room room) (\<lambda>c.
     if c \<noteq> None then return_op True else
     bind_op (repo_management_conversation_by_room room) (\<lambda>m. return_op (m \<noteq> None)))"

definition protect :: "room_change \<Rightarrow> unit db" where
  "protect input =
     bind_op (repo_owner_conversation_by_room (change_room_id input)) (\<lambda>conversation.
     bind_op (repo_management_conversation_by_room (change_room_id input)) (\<lambda>management.
     if management \<noteq> None \<or>
        (case conversation of None \<Rightarrow> False | Some c \<Rightarrow> own_agent_id c \<noteq> change_agent_id input)
     then fail_op (failure_new Forbidden ''Another agent cannot join a private owner DM'')
     else if conversation \<noteq> None \<and>
        (intent_access (change_intent input) \<noteq> AccessReply \<or>
         intent_native_access (change_intent input) \<noteq> None \<or> intent_muted (change_intent input))
     then fail_op (failure_new Forbidden
       ''Owner DMs always have read-and-reply access and cannot be muted or removed'')
     else return_op ()))"

definition intent_valid :: "codec \<Rightarrow> intent \<Rightarrow> bool" where
  "intent_valid J i \<longleftrightarrow>
     (case intent_native_access i of None \<Rightarrow> True | Some m \<Rightarrow> valid_data J m) \<and>
     (intent_access i = AccessCustom \<longleftrightarrow> intent_native_access i \<noteq> None) \<and>
     \<not> (intent_access i = AccessNone \<and> intent_muted i)"

definition check_invitation ::
  "principal \<Rightarrow> room_change \<Rightarrow> grant option \<Rightarrow> room_invitation option \<Rightarrow> unit result" where
  "check_invitation acting input previous invitation = (case invitation of None \<Rightarrow> Inr ()
     | Some v \<Rightarrow>
         if inv_room_id v \<noteq> change_room_id input \<or> inv_sender v \<noteq> principal_backend_user_id acting \<or>
            intent_access (change_intent input) \<noteq> AccessReply \<or>
            intent_native_access (change_intent input) \<noteq> None \<or> intent_muted (change_intent input)
         then Inl (failure_new Invalid ''Native invitation does not match the grant intent'')
         else if (case previous of None \<Rightarrow> False
            | Some g \<Rightarrow> grant_invitation_event_id g = Some (inv_event_id v) \<and>
                intent_access (grant_intent g) = AccessNone)
         then Inl (failure_new Forbidden ''This invitation was already withdrawn'')
         else Inr ())"

text \<open>The grant and the delegation an agent acts under in a room.\<close>

definition delegation :: "codec \<Rightarrow> string \<Rightarrow> string \<Rightarrow> grant option db" where
  "delegation J agent room =
     bind_op (repo_room_grant J agent room) (\<lambda>inviter.
     bind_op (repo_room_permission agent room) (\<lambda>perm.
     return_op (opt_filter (\<lambda>g. intent_access (grant_intent g) \<noteq> AccessNone \<and>
       (case perm of None \<Rightarrow> False | Some p \<Rightarrow> rperm_generation p = grant_generation g)) inviter)))"

definition fresh_invitation :: "grant option \<Rightarrow> room_invitation option \<Rightarrow> bool" where
  "fresh_invitation previous invitation = (case invitation of None \<Rightarrow> False
     | Some v \<Rightarrow> (case previous of None \<Rightarrow> None | Some g \<Rightarrow> grant_invitation_event_id g) \<noteq> Some (inv_event_id v))"

definition prepare_native :: "bool \<Rightarrow> bool \<Rightarrow> grant option \<Rightarrow> intent \<Rightarrow> bool" where
  "prepare_native fresh changed previous wanted \<longleftrightarrow>
     intent_access wanted \<noteq> AccessNone \<and> changed \<and>
     (fresh \<or> (case previous of None \<Rightarrow> True
        | Some g \<Rightarrow> intent_access (grant_intent g) = AccessNone \<or>
            intent_access (grant_intent g) \<noteq> intent_access wanted \<or>
            intent_native_access (grant_intent g) \<noteq> intent_native_access wanted))"

definition foreign_grant :: "string \<Rightarrow> bool \<Rightarrow> grant option \<Rightarrow> intent \<Rightarrow> bool" where
  "foreign_grant agent fresh previous wanted = (case previous of None \<Rightarrow> False
     | Some g \<Rightarrow> intent_access (grant_intent g) \<noteq> AccessNone \<and> grant_added_by_id g \<noteq> agent \<and>
         (fresh \<or> intent_access wanted = AccessNone \<or> grant_intent g \<noteq> wanted))"

text \<open>A human needs the permission to manage room grants; an agent a delegation of its own.\<close>

definition prepare_authority ::
  "codec \<Rightarrow> actor \<Rightarrow> room_change \<Rightarrow> grant option \<Rightarrow> bool \<Rightarrow> int \<Rightarrow> (string option \<times> int option) db" where
  "prepare_authority J a input previous fresh now =
     (if actor_kind a = Human
      then bind_op (authorize_agent a (change_agent_id input) ManageRoomGrant now)
        (\<lambda>_. return_op (None, None))
      else if change_agent_id input = actor_principal_id a
      then fail_op (failure_new Forbidden ''An agent cannot grant itself room access'')
      else bind_op (delegation J (actor_principal_id a) (change_room_id input)) (\<lambda>inviter.
        case inviter of None \<Rightarrow> fail_op (failure_new Forbidden
            ''This room requires explicit agent invitation permission'')
        | Some g \<Rightarrow>
            if foreign_grant (actor_principal_id a) fresh previous (change_intent input)
            then fail_op (failure_new Forbidden
              ''An agent can change or remove only its own room additions'')
            else return_op (Some (grant_generation g), Some (grant_revision g))))"

definition prepared ::
  "actor \<Rightarrow> room_change \<Rightarrow> principal \<Rightarrow> agent_view \<Rightarrow> grant option \<Rightarrow> room_invitation option \<Rightarrow>
   bool \<Rightarrow> string option \<times> int option \<Rightarrow> authorization" where
  "prepared a input acting target previous invitation fresh inviter =
     (let changed = fresh \<or> (case previous of
            None \<Rightarrow> intent_access (change_intent input) \<noteq> AccessNone
          | Some g \<Rightarrow> grant_intent g \<noteq> change_intent input);
          native = prepare_native fresh changed previous (change_intent input)
      in \<lparr>proof_input = input, proof_previous = previous,
        proof_actor_revision = principal_revision acting,
        proof_target_revision = principal_revision (aview_principal target),
        proof_owner_revision = principal_revision (aview_owner target),
        proof_inviter_generation = fst inviter, proof_inviter_revision = snd inviter,
        proof_authorizer_id = (if native then actor_principal_id a
          else case previous of None \<Rightarrow> actor_principal_id a | Some g \<Rightarrow> grant_authorizer_id g),
        proof_native = None, proof_changed = changed,
        proof_invitation_event_id = (case invitation of Some v \<Rightarrow> Some (inv_event_id v)
          | None \<Rightarrow> (case previous of None \<Rightarrow> None | Some g \<Rightarrow> grant_invitation_event_id g)),
        proof_admission = (if invitation \<noteq> None then Invited else if native then Managed
          else case previous of None \<Rightarrow> Managed | Some g \<Rightarrow> grant_admission g)\<rparr>)"

definition prepare ::
  "codec \<Rightarrow> actor \<Rightarrow> room_change \<Rightarrow> room_invitation option \<Rightarrow> int \<Rightarrow>
   (authorization \<times> string \<times> string) db" where
  "prepare J a input invitation now =
     bind_op (active_actor a now) (\<lambda>acting.
     bind_op (protect input) (\<lambda>_.
     bind_op (require_some (repo_agent_view (change_agent_id input))
       (failure_new Missing ''Target agent not found'')) (\<lambda>target.
     bind_op (check_op (intent_access (change_intent input) = AccessNone \<or>
         principal_status (aview_principal target) = Active \<and>
         principal_status (aview_owner target) = Active)
       (failure_new Forbidden ''Target and its owner must be active'')) (\<lambda>_.
     bind_op (check_op (principal_revision (aview_principal target) = change_expected_revision input)
       (failure_new Conflict ''Agent revision changed'')) (\<lambda>_.
     bind_op (check_op (intent_valid J (change_intent input))
       (failure_new Invalid ''Invalid room access settings'')) (\<lambda>_.
     bind_op (repo_room_grant J (change_agent_id input) (change_room_id input)) (\<lambda>previous.
     bind_op (lift_op (check_invitation acting input previous invitation)) (\<lambda>_.
     bind_op (check_op (map_option grant_generation previous = change_expected_generation input)
       (failure_new Conflict ''Room membership generation changed'')) (\<lambda>_.
     bind_op (prepare_authority J a input previous (fresh_invitation previous invitation) now) (\<lambda>inviter.
     return_op (prepared a input acting target previous invitation
         (fresh_invitation previous invitation) inviter,
       principal_backend_user_id acting, principal_backend_user_id (aview_principal target))))))))))))"

definition needs_native :: "authorization \<Rightarrow> actor \<Rightarrow> bool" where
  "needs_native p a \<longleftrightarrow>
     intent_access (change_intent (proof_input p)) \<noteq> AccessNone \<and>
     (actor_kind a = AgentKind \<or>
      proof_changed p \<and> (case proof_previous p of None \<Rightarrow> True
        | Some g \<Rightarrow> intent_access (grant_intent g) = AccessNone \<or>
            intent_access (grant_intent g) \<noteq> intent_access (change_intent (proof_input p)) \<or>
            intent_native_access (grant_intent g) \<noteq> intent_native_access (change_intent (proof_input p)) \<or>
            grant_invitation_event_id g \<noteq> proof_invitation_event_id p))"

definition recheck_delegation :: "codec \<Rightarrow> actor \<Rightarrow> authorization \<Rightarrow> unit db" where
  "recheck_delegation J a p =
     bind_op (repo_room_grant J (actor_principal_id a) (change_room_id (proof_input p))) (\<lambda>inviter.
     bind_op (repo_room_permission (actor_principal_id a) (change_room_id (proof_input p))) (\<lambda>perm.
     check_op (\<not> ((case inviter of None \<Rightarrow> True
         | Some g \<Rightarrow> intent_access (grant_intent g) = AccessNone \<or>
             Some (grant_generation g) \<noteq> proof_inviter_generation p \<or>
             Some (grant_revision g) \<noteq> proof_inviter_revision p) \<or>
        (case perm of None \<Rightarrow> True | Some q \<Rightarrow> Some (rperm_generation q) \<noteq> proof_inviter_generation p)))
       (failure_new Conflict ''Room invitation authority changed'')))"

definition recheck :: "codec \<Rightarrow> actor \<Rightarrow> authorization \<Rightarrow> int \<Rightarrow> unit db" where
  "recheck J a p now =
     bind_op (protect (proof_input p)) (\<lambda>_.
     bind_op (active_actor a now) (\<lambda>acting.
     bind_op (check_op (principal_revision acting = proof_actor_revision p)
       (failure_new Conflict ''Acting authority changed'')) (\<lambda>_.
     bind_op (require_some (repo_agent_view (change_agent_id (proof_input p)))
       (failure_new Conflict ''Target authority changed'')) (\<lambda>target.
     bind_op (check_op (principal_revision (aview_principal target) = proof_target_revision p \<and>
         principal_revision (aview_owner target) = proof_owner_revision p)
       (failure_new Conflict ''Target authority changed'')) (\<lambda>_.
     bind_op (repo_room_grant J (change_agent_id (proof_input p)) (change_room_id (proof_input p))) (\<lambda>current.
     bind_op (check_op (map_option (\<lambda>g. (grant_generation g, grant_revision g)) current =
         map_option (\<lambda>g. (grant_generation g, grant_revision g)) (proof_previous p))
       (failure_new Conflict ''Room grant changed'')) (\<lambda>_.
     if actor_kind a = Human
     then bind_op (authorize_agent a (change_agent_id (proof_input p)) ManageRoomGrant now)
       (\<lambda>_. return_op ())
     else recheck_delegation J a p)))))))"

section \<open>The checks only read\<close>

lemma query_private_room [simp]: "query (private_room room)"
  unfolding private_room_def by (auto intro!: query_bind)

lemma query_protect [simp]: "query (protect input)"
  unfolding protect_def by (auto intro!: query_bind)

lemma query_delegation [simp]: "query (delegation J agent room)"
  unfolding delegation_def by (auto intro!: query_bind)

lemma query_prepare_authority [simp]: "query (prepare_authority J a input previous fresh now)"
  unfolding prepare_authority_def by (auto intro!: query_bind split: option.splits)

lemma query_prepare [simp]: "query (prepare J a input invitation now)"
  unfolding prepare_def by (intro query_bind query_require_some) simp_all

lemma query_recheck [simp]: "query (recheck J a p now)"
  unfolding recheck_def recheck_delegation_def
  by (auto intro!: query_bind query_require_some)

end
