(* ===== verification/Room_Service.thy ===== *)
theory Room_Service
  imports Room_Authority
begin

text \<open>
  Changing room access: \<open>domain/src/room_access/service.rs\<close>. The program asks the messaging backend
  outside the transaction. A call of the backend (\<open>domain/src/messaging.rs\<close>, the trait
  \<open>MessagingAuthority\<close>) is an operation on the world, which is the database and a state \<open>'b\<close> of
  everything else, because other tasks go on while the program waits. The operations are defined for any
  change they may make; what holds when the change is made of the program's own moves is in
  \<open>Room_Moves\<close> and \<open>Room_Agents\<close>. The fresh identifiers of \<open>kernel/src/identity.rs\<close> and the times of the clock are arguments.
\<close>

section \<open>The world\<close>

type_synonym 'b room_world = "store \<times> 'b"

record 'b messaging =
  msg_authorize_room_access ::
    "string \<Rightarrow> string \<Rightarrow> string \<Rightarrow> intent \<Rightarrow> ('b room_world, failure, room_facts) op"
  msg_room :: "string \<Rightarrow> string \<Rightarrow> string option \<Rightarrow> ('b room_world, failure, room_facts) op"
  msg_membership :: "string \<Rightarrow> string \<Rightarrow> string \<Rightarrow> ('b room_world, failure, room_membership) op"
  msg_set_room_access ::
    "string \<Rightarrow> string \<Rightarrow> string \<Rightarrow> intent \<Rightarrow> room_admission option \<Rightarrow>
     ('b room_world, failure, room_membership) op"
  msg_joined :: "string \<Rightarrow> ('b room_world, failure, string list) op"
  msg_leave :: "string \<Rightarrow> string \<Rightarrow> ('b room_world, failure, unit) op"
  msg_invitation :: "string \<Rightarrow> string \<Rightarrow> ('b room_world, failure, room_invitation option) op"
  msg_owner_conversation ::
    "string \<Rightarrow> string \<Rightarrow> string option \<Rightarrow> string option \<Rightarrow> ('b room_world, failure, string) op"
  msg_verify_owner_conversation ::
    "string \<Rightarrow> string \<Rightarrow> string \<Rightarrow> ('b room_world, failure, unit) op"
  msg_mark_direct :: "string \<Rightarrow> string \<Rightarrow> string \<Rightarrow> ('b room_world, failure, unit) op"

text \<open>\<open>self.repository.with\<close>: one use of the database under its lock.\<close>

definition on_store :: "'a db \<Rightarrow> ('b room_world, failure, 'a) op" where
  "on_store m w = (case m (fst w) of (r, s) \<Rightarrow> (r, (s, snd w)))"

lemma on_store_Inr [op_iff]:
  "on_store m w = (Inr v, w') \<longleftrightarrow> m (fst w) = (Inr v, fst w') \<and> snd w' = snd w"
  by (cases w') (auto simp: on_store_def split: prod.splits)

lemma on_store_Inl [op_iff]:
  "on_store m w = (Inl e, w') \<longleftrightarrow> m (fst w) = (Inl e, fst w') \<and> snd w' = snd w"
  by (cases w') (auto simp: on_store_def split: prod.splits)

lemma keeps_on_store: "keeps P m \<Longrightarrow> keeps (\<lambda>w. P (fst w)) (on_store m)"
  by (auto simp: keeps_def on_store_def split: prod.splits)

section \<open>Committing a change\<close>

definition room_revision :: "int \<Rightarrow> int result" where
  "room_revision n = ok_or (checked_i64 (n + 1))
     (failure_new Conflict ''Room authority revision exceeds native range'')"

definition apply_fleet_permissions :: "grant \<Rightarrow> int \<Rightarrow> unit db" where
  "apply_fleet_permissions g now =
     bind_op (repo_approved_fleet_policy (grant_agent_id g)) (\<lambda>approved.
     case approved of None \<Rightarrow> return_op ()
     | Some pol \<Rightarrow>
         if intent_access (grant_intent g) = AccessNone then return_op () else
         bind_op (private_room (grant_room_id g)) (\<lambda>private.
         if private then return_op () else
         bind_op (require_op (repo_principal (approved_by_member_id pol))
           (\<lambda>w. principal_status w = Active)
           (failure_new Forbidden ''The fleet policy owner must be active'')) (\<lambda>_.
         repo_replace_room_permissions (grant_agent_id g) (grant_room_id g)
           (if approved_invite_agents pol
            then Some \<lparr>rperm_agent_id = grant_agent_id g, rperm_room_id = grant_room_id g,
              rperm_generation = grant_generation g,
              rperm_granted_by_member_id = approved_by_member_id pol, rperm_granted_at = now\<rparr>
            else None))))"

definition fresh_membership :: "authorization \<Rightarrow> bool" where
  "fresh_membership p \<longleftrightarrow> (case proof_previous p of None \<Rightarrow> True
     | Some g \<Rightarrow> intent_access (grant_intent g) = AccessNone \<and>
           intent_access (change_intent (proof_input p)) \<noteq> AccessNone \<or>
         proof_invitation_event_id p \<noteq> None \<and>
           proof_invitation_event_id p \<noteq> grant_invitation_event_id g)"

definition access_changed :: "authorization \<Rightarrow> bool" where
  "access_changed p \<longleftrightarrow> (case proof_previous p of None \<Rightarrow> True
     | Some g \<Rightarrow> intent_access (grant_intent g) \<noteq> intent_access (change_intent (proof_input p)) \<or>
         intent_native_access (grant_intent g) \<noteq> intent_native_access (change_intent (proof_input p)))"

definition committed_grant :: "actor \<Rightarrow> authorization \<Rightarrow> string \<Rightarrow> int \<Rightarrow> grant result" where
  "committed_grant a p gid now =
     rbind (if fresh_membership p then Inr gid
       else rbind (ok_or (proof_previous p) (failure_new Conflict ''Missing membership generation''))
         (\<lambda>g. Inr (grant_generation g))) (\<lambda>generation.
     rbind (if fresh_membership p then Inr (actor_principal_id a)
       else rbind (ok_or (proof_previous p) (failure_new Conflict ''Missing prior grant''))
         (\<lambda>g. Inr (grant_added_by_id g))) (\<lambda>added_by.
     rbind (room_revision (case proof_previous p of None \<Rightarrow> -1 | Some g \<Rightarrow> grant_revision g)) (\<lambda>revision.
     rbind (ok_or (checked_i64 ((case proof_previous p of None \<Rightarrow> -1 | Some g \<Rightarrow> grant_access_revision g) +
         (if access_changed p then 1 else 0)))
       (failure_new Conflict ''Access revision exceeds native range'')) (\<lambda>access_revision.
     Inr \<lparr>grant_agent_id = change_agent_id (proof_input p),
       grant_room_id = change_room_id (proof_input p), grant_generation = generation,
       grant_authorizer_id = proof_authorizer_id p, grant_added_by_id = added_by,
       grant_invitation_event_id = proof_invitation_event_id p, grant_admission = proof_admission p,
       grant_intent = change_intent (proof_input p), grant_revision = revision,
       grant_access_revision = access_revision, grant_updated_at = now\<rparr>))))"

definition commit_application :: "codec \<Rightarrow> string \<Rightarrow> string \<Rightarrow> int \<Rightarrow> unit db" where
  "commit_application J agent room now =
     bind_op (repo_room_application J agent room) (\<lambda>found.
     repo_save_room_application J
       ((case found of Some v \<Rightarrow> v | None \<Rightarrow> room_application_pending agent room now)
         \<lparr>rapp_next_check_at := now\<rparr>) (found = None))"

definition commit_audit :: "actor \<Rightarrow> string \<Rightarrow> grant \<Rightarrow> string option \<Rightarrow> int \<Rightarrow> audit" where
  "commit_audit a request g owner now =
     (audit_new a request ''agent'' (grant_agent_id g)
       (if intent_access (grant_intent g) = AccessNone then ''room-grant.remove''
        else ''room-grant.set'') owner now)
       \<lparr>audit_room_id := Some (grant_room_id g),
        audit_membership_generation := Some (grant_generation g),
        audit_authorizer_id := Some (grant_authorizer_id g),
        audit_added_by_id := Some (grant_added_by_id g),
        audit_permission_code :=
          (if actor_kind a = AgentKind then Some ''room.agent.invite'' else None)\<rparr>"

definition commit_grant ::
  "codec \<Rightarrow> actor \<Rightarrow> authorization \<Rightarrow> string \<Rightarrow> bool \<Rightarrow> grant \<Rightarrow> string \<Rightarrow> int \<Rightarrow> grant option db" where
  "commit_grant J a p request private g ev now =
     bind_op (repo_save_room_grant J g (proof_previous p = None)) (\<lambda>_.
     bind_op (if \<not> private \<and> fresh_membership p \<and> intent_access (grant_intent g) \<noteq> AccessNone
       then apply_fleet_permissions g now else return_op ()) (\<lambda>_.
     bind_op (commit_application J (grant_agent_id g) (grant_room_id g) now) (\<lambda>_.
     bind_op (repo_agent (grant_agent_id g)) (\<lambda>found.
     bind_op (repo_audit ev (commit_audit a request g (map_option agent_owner_id found) now)) (\<lambda>_.
     return_op (Some g))))))"

definition commit :: "codec \<Rightarrow> actor \<Rightarrow> authorization \<Rightarrow> string \<Rightarrow> bool \<Rightarrow> string \<Rightarrow> string \<Rightarrow> int \<Rightarrow>
    grant option db" where
  "commit J a p request private gid ev now =
     (if \<not> proof_changed p then return_op (proof_previous p) else
      bind_op (if fresh_membership p \<or> intent_access (change_intent (proof_input p)) = AccessNone
        then repo_replace_room_permissions (change_agent_id (proof_input p)) (change_room_id (proof_input p)) None
        else return_op ()) (\<lambda>_.
      bind_op (lift_op (committed_grant a p gid now)) (\<lambda>g.
      commit_grant J a p request private g ev now)))"

section \<open>The operations\<close>

definition authorize_room ::
  "codec \<Rightarrow> 'b messaging \<Rightarrow> actor \<Rightarrow> room_change \<Rightarrow> room_invitation option \<Rightarrow> int \<Rightarrow>
   ('b room_world, failure, authorization) op" where
  "authorize_room J M a input invitation now =
     bind_op (on_store (prepare J a input invitation now)) (\<lambda>(p, acting, target).
     if needs_native p a
     then bind_op (msg_authorize_room_access M acting target (change_room_id input) (change_intent input))
       (\<lambda>facts.
       if actor_kind a = AgentKind \<and> \<not> facts_can_invite facts
       then fail_op (failure_new Forbidden ''The inviter lacks backend invitation authority'')
       else return_op (p\<lparr>proof_native := Some facts\<rparr>))
     else return_op p)"

definition active_room :: "grant option \<Rightarrow> bool" where
  "active_room v \<longleftrightarrow> (case v of None \<Rightarrow> False | Some g \<Rightarrow> intent_access (grant_intent g) \<noteq> AccessNone)"

definition counted_grants :: "grant list \<Rightarrow> owner_conversation option \<Rightarrow> nat" where
  "counted_grants gs conversation = length (filter (\<lambda>g. intent_access (grant_intent g) \<noteq> AccessNone \<and>
     (case conversation of None \<Rightarrow> True | Some c \<Rightarrow> own_room_id c \<noteq> grant_room_id g)) gs)"

text \<open>The transaction of \<open>Service::change\<close>.\<close>

definition commit_change ::
  "codec \<Rightarrow> actor \<Rightarrow> room_change \<Rightarrow> authorization \<Rightarrow> string \<Rightarrow> string \<Rightarrow> string \<Rightarrow> int \<Rightarrow>
   (grant option \<times> int) db" where
  "commit_change J a input p request gid ev now = transaction (
     bind_op (recheck J a p now) (\<lambda>_.
     bind_op (repo_room_grants J (change_agent_id input)) (\<lambda>gs.
     bind_op (repo_owner_conversation (change_agent_id input)) (\<lambda>conversation.
     bind_op (check_op (\<not> (intent_access (change_intent input) \<noteq> AccessNone \<and>
         \<not> active_room (proof_previous p) \<and> 100 \<le> counted_grants gs conversation))
       (failure_new Limit ''An agent can have at most 100 room grants in addition to its owner DM'')) (\<lambda>_.
     bind_op (commit J a p request False gid ev now) (\<lambda>g.
     if \<not> proof_changed p then return_op (g, change_expected_revision input) else
     bind_op (require_some (repo_principal (change_agent_id input))
       (failure_new Missing ''Agent not found'')) (\<lambda>pr.
     bind_op (lift_op (room_revision (principal_revision pr))) (\<lambda>revision.
     bind_op (repo_save_principal (pr\<lparr>principal_revision := revision\<rparr>)) (\<lambda>_.
     return_op (g, revision))))))))))"

definition change_room ::
  "codec \<Rightarrow> 'b messaging \<Rightarrow> actor \<Rightarrow> room_change \<Rightarrow> room_invitation option \<Rightarrow> string \<Rightarrow> string \<Rightarrow>
   string \<Rightarrow> int \<Rightarrow> int \<Rightarrow> ('b room_world, failure, grant option \<times> int) op" where
  "change_room J M a input invitation request gid ev now later =
     bind_op (authorize_room J M a input invitation now) (\<lambda>p.
     on_store (commit_change J a input p request gid ev later))"

definition set_permission_audit ::
  "actor \<Rightarrow> string \<Rightarrow> permission_change \<Rightarrow> string \<Rightarrow> string \<Rightarrow> int \<Rightarrow> audit" where
  "set_permission_audit a request input owner generation now =
     (audit_new a request ''agent'' (pchange_agent_id input) ''room-permission.set'' (Some owner) now)
       \<lparr>audit_room_id := Some (pchange_room_id input), audit_membership_generation := Some generation,
        audit_permission_code := Some ''room.agent.invite''\<rparr>"

definition set_permission ::
  "codec \<Rightarrow> actor \<Rightarrow> permission_change \<Rightarrow> string \<Rightarrow> string \<Rightarrow> int \<Rightarrow> int db" where
  "set_permission J a input request ev now = transaction (
     bind_op (check_op (actor_kind a = Human)
       (failure_new Forbidden ''Agents cannot delegate invitation permission onward'')) (\<lambda>_.
     bind_op (authorize_agent a (pchange_agent_id input) ManageRoomGrant now) (\<lambda>_.
     bind_op (private_room (pchange_room_id input)) (\<lambda>private.
     bind_op (check_op (\<not> private)
       (failure_new Forbidden ''Owner DMs are private channels and cannot delegate invitations'')) (\<lambda>_.
     bind_op (require_some (repo_agent_view (pchange_agent_id input))
       (failure_new Missing ''Agent not found'')) (\<lambda>target.
     bind_op (check_op (principal_revision (aview_principal target) = pchange_expected_revision input)
       (failure_new Conflict ''Agent revision changed'')) (\<lambda>_.
     bind_op (check_op (principal_status (aview_principal target) = Active \<and>
         principal_status (aview_owner target) = Active)
       (failure_new Forbidden ''Agent and owner must be active'')) (\<lambda>_.
     bind_op (require_op (repo_room_grant J (pchange_agent_id input) (pchange_room_id input))
       (\<lambda>g. intent_access (grant_intent g) \<noteq> AccessNone \<and>
            grant_generation g = pchange_expected_generation input)
       (failure_new Conflict ''An active matching room grant is required'')) (\<lambda>g.
     bind_op (repo_replace_room_permissions (pchange_agent_id input) (pchange_room_id input)
       (if pchange_invite_agents input
        then Some \<lparr>rperm_agent_id = pchange_agent_id input, rperm_room_id = pchange_room_id input,
          rperm_generation = grant_generation g, rperm_granted_by_member_id = actor_principal_id a,
          rperm_granted_at = now\<rparr>
        else None)) (\<lambda>_.
     bind_op (lift_op (room_revision (principal_revision (aview_principal target)))) (\<lambda>revision.
     bind_op (repo_save_principal ((aview_principal target)\<lparr>principal_revision := revision\<rparr>)) (\<lambda>_.
     bind_op (lift_op (room_revision (grant_revision g))) (\<lambda>grant_rev.
     bind_op (repo_save_room_grant J (g\<lparr>grant_revision := grant_rev, grant_updated_at := now\<rparr>) False) (\<lambda>_.
     bind_op (repo_audit ev (set_permission_audit a request input
         (principal_id (aview_owner target)) (grant_generation g) now)) (\<lambda>_.
     return_op revision)))))))))))))))"

end
