(* ===== verification/Room_Reconcile.thy ===== *)
theory Room_Reconcile
  imports Room_Service
begin

text \<open>
  Applying a grant to the messaging backend: \<open>domain/src/room_access/reconcile.rs\<close>. A reconciliation
  reads a snapshot, makes the backend agree with it, and records what it saw, unless the grant, the
  agent, its owner or the authorizer changed while it waited. The locks of \<open>RoomOperations\<close> are
  operations on the world.
\<close>

section \<open>Locks\<close>

record 'b operations =
  ops_acquire :: "string \<Rightarrow> ('b room_world, failure, unit) op"
  ops_release :: "string \<Rightarrow> 'b \<Rightarrow> 'b"

definition with_guard ::
  "'b operations \<Rightarrow> string \<Rightarrow> ('b room_world, failure, 'a) op \<Rightarrow> ('b room_world, failure, 'a) op" where
  "with_guard K key m w = (case ops_acquire K key w of
     (Inl e, v) \<Rightarrow> (Inl e, v)
   | (Inr _, v) \<Rightarrow> (case m v of (r, (s, b)) \<Rightarrow> (r, (s, ops_release K key b))))"

section \<open>Snapshots\<close>

record room_snapshot =
  rsnap_agent :: agent_view
  rsnap_grant :: grant
  rsnap_application :: room_application
  rsnap_authorizer :: "principal option"
  rsnap_reconcile_seconds :: int
  rsnap_repair_owner :: bool

definition missing_room_state :: failure where
  "missing_room_state = failure_new Missing ''Room grant reconciliation state is missing''"

definition repairs_owner :: "owner_conversation option \<Rightarrow> string \<Rightarrow> grant \<Rightarrow> room_application \<Rightarrow> bool" where
  "repairs_owner conversation room g app \<longleftrightarrow>
     (case conversation of None \<Rightarrow> False | Some c \<Rightarrow> own_room_id c = room) \<and>
     rapp_observed_generation app = Some (grant_generation g) \<and>
     rapp_applied_access_revision app = Some (grant_access_revision g) \<and>
     rapp_last_success_at app \<noteq> None"

definition take_room_snapshot :: "codec \<Rightarrow> string \<Rightarrow> string \<Rightarrow> room_snapshot db" where
  "take_room_snapshot J agent room =
     bind_op (require_some (repo_agent_view agent) missing_room_state) (\<lambda>v.
     bind_op (require_some (repo_room_grant J (principal_id (aview_principal v)) room) missing_room_state) (\<lambda>g.
     bind_op (require_some (repo_room_application J (principal_id (aview_principal v)) room)
       missing_room_state) (\<lambda>app.
     bind_op (require_some repo_policy missing_room_state) (\<lambda>pol.
     bind_op (repo_owner_conversation (principal_id (aview_principal v))) (\<lambda>conversation.
     bind_op (repo_principal (grant_authorizer_id g)) (\<lambda>authorizer.
     return_op \<lparr>rsnap_agent = v, rsnap_grant = g, rsnap_application = app,
       rsnap_authorizer = authorizer, rsnap_reconcile_seconds = policy_reconcile_seconds pol,
       rsnap_repair_owner = repairs_owner conversation room g app\<rparr>))))))"

section \<open>Making the backend agree\<close>

text \<open>The local variable \<open>observed\<close> is the second component of the state.\<close>

type_synonym 'b watch = "'b room_world \<times> room_membership option"

definition awaiting :: "('b room_world, failure, 'a) op \<Rightarrow> ('b watch, failure, 'a) op" where
  "awaiting m v = (case m (fst v) of (r, w) \<Rightarrow> (r, (w, snd v)))"

definition observe :: "room_membership \<Rightarrow> ('b watch, failure, unit) op" where
  "observe m v = (Inr (), (fst v, Some m))"

definition departed :: "room_snapshot \<Rightarrow> room_membership option \<Rightarrow> room_membership" where
  "departed snap observed = \<lparr>
     mship_backend_user_id = principal_backend_user_id (aview_principal (rsnap_agent snap)),
     mship_display_name = [], mship_membership = MemberLeave,
     mship_native_access = (case observed of
         Some v \<Rightarrow> (case mship_native_access v of Some m \<Rightarrow> Some m
           | None \<Rightarrow> rapp_native_access (rsnap_application snap))
       | None \<Rightarrow> rapp_native_access (rsnap_application snap))\<rparr>"

definition depart :: "room_snapshot \<Rightarrow> ('b watch, failure, unit) op" where
  "depart snap v = observe (departed snap (snd v)) v"

definition remove_member :: "'b messaging \<Rightarrow> room_snapshot \<Rightarrow> ('b watch, failure, unit) op" where
  "remove_member M snap v =
     (let user = principal_backend_user_id (aview_principal (rsnap_agent snap));
          room = grant_room_id (rsnap_grant snap)
      in
      case awaiting (msg_joined M user) v of
        (Inl e, v') \<Rightarrow>
          if principal_status (aview_principal (rsnap_agent snap)) = Revoked \<or>
             principal_status (aview_owner (rsnap_agent snap)) = Revoked
          then bind_op (awaiting (on_store (repo_application (grant_agent_id (rsnap_grant snap)))))
            (\<lambda>app. if (case app of None \<Rightarrow> False | Some a \<Rightarrow> app_applied_status a = Some Revoked)
               then depart snap else fail_op e) v'
          else (Inl e, v')
      | (Inr joined, v') \<Rightarrow>
          bind_op (if room \<in> set joined then awaiting (msg_leave M user room)
            else case grant_invitation_event_id (rsnap_grant snap) of None \<Rightarrow> return_op ()
              | Some event \<Rightarrow>
                  bind_op (awaiting (msg_invitation M user room)) (\<lambda>inv.
                  if (case inv of None \<Rightarrow> False | Some i \<Rightarrow> inv_event_id i = event)
                  then awaiting (msg_leave M user room) else return_op ()))
            (\<lambda>_. depart snap) v')"

definition remove_and_fail ::
  "'b messaging \<Rightarrow> room_snapshot \<Rightarrow> failure \<Rightarrow> ('b watch, failure, 'a) op" where
  "remove_and_fail M snap e = bind_op (remove_member M snap) (\<lambda>_. fail_op e)"

text \<open>An agent that authorized a grant still needs its delegation.\<close>

definition delegation_current :: "codec \<Rightarrow> principal \<Rightarrow> string \<Rightarrow> bool db" where
  "delegation_current J authorizer room =
     bind_op (repo_agent_view (principal_id authorizer)) (\<lambda>inviter.
     bind_op (repo_room_grant J (principal_id authorizer) room) (\<lambda>delegated.
     bind_op (repo_room_permission (principal_id authorizer) room) (\<lambda>perm.
     return_op ((case inviter of None \<Rightarrow> False | Some v \<Rightarrow> principal_status (aview_owner v) = Active) \<and>
       (case delegated of None \<Rightarrow> False | Some d \<Rightarrow> intent_access (grant_intent d) \<noteq> AccessNone \<and>
          (case perm of None \<Rightarrow> False | Some q \<Rightarrow> rperm_generation q = grant_generation d))))))"

definition command_needed :: "room_snapshot \<Rightarrow> bool" where
  "command_needed snap \<longleftrightarrow> rsnap_repair_owner snap \<or>
     rapp_observed_generation (rsnap_application snap) \<noteq> Some (grant_generation (rsnap_grant snap)) \<or>
     rapp_applied_access_revision (rsnap_application snap) \<noteq>
       Some (grant_access_revision (rsnap_grant snap))"

definition admission_command :: "room_snapshot \<Rightarrow> principal \<Rightarrow> room_admission option result" where
  "admission_command snap authorizer =
     (if \<not> command_needed snap then Inr None
      else case grant_admission (rsnap_grant snap) of
        Managed \<Rightarrow> Inr (Some RoomManaged)
      | Invited \<Rightarrow> rbind (ok_or (grant_invitation_event_id (rsnap_grant snap))
          (failure_new Conflict ''An invitation grant requires its exact native event''))
          (\<lambda>event. Inr (Some (RoomInvited event (principal_backend_user_id authorizer)))))"

definition set_access ::
  "'b messaging \<Rightarrow> room_snapshot \<Rightarrow> principal \<Rightarrow> room_admission option \<Rightarrow> ('b watch, failure, unit) op" where
  "set_access M snap authorizer command v =
     (case awaiting (msg_set_room_access M (principal_backend_user_id authorizer)
         (principal_backend_user_id (aview_principal (rsnap_agent snap)))
         (grant_room_id (rsnap_grant snap)) (grant_intent (rsnap_grant snap)) command) v of
       (Inr changed, v') \<Rightarrow> observe changed v'
     | (Inl e, v') \<Rightarrow> remove_and_fail M snap e v')"

definition verify_owner_room :: "'b messaging \<Rightarrow> room_snapshot \<Rightarrow> ('b watch, failure, unit) op" where
  "verify_owner_room M snap =
     (if rsnap_repair_owner snap
      then bind_op (awaiting (msg_owner_conversation M
          (principal_backend_user_id (aview_owner (rsnap_agent snap)))
          (principal_backend_user_id (aview_principal (rsnap_agent snap)))
          (Some (grant_room_id (rsnap_grant snap))) None)) (\<lambda>verified.
        if verified \<noteq> grant_room_id (rsnap_grant snap)
        then fail_op (failure_new Conflict ''The owner DM changed during reconciliation'')
        else return_op ())
      else return_op ())"

definition apply_grant :: "codec \<Rightarrow> 'b messaging \<Rightarrow> room_snapshot \<Rightarrow> ('b watch, failure, unit) op" where
  "apply_grant J M snap =
     (if intent_access (grant_intent (rsnap_grant snap)) = AccessNone \<or>
         principal_status (aview_principal (rsnap_agent snap)) \<noteq> Active \<or>
         principal_status (aview_owner (rsnap_agent snap)) \<noteq> Active
      then remove_member M snap else
      bind_op (verify_owner_room M snap) (\<lambda>_.
      case opt_filter (\<lambda>p. principal_status p = Active) (rsnap_authorizer snap) of
        None \<Rightarrow> remove_and_fail M snap
          (failure_new Forbidden ''The grant authorizer is no longer active'')
      | Some authorizer \<Rightarrow>
          bind_op (if principal_kind authorizer = AgentKind
            then awaiting (on_store (delegation_current J authorizer (grant_room_id (rsnap_grant snap))))
            else return_op True) (\<lambda>permitted.
          if \<not> permitted then remove_and_fail M snap
            (failure_new Forbidden ''The inviting agent no longer has delegation for this room'') else
          bind_op (awaiting (msg_membership M (principal_backend_user_id authorizer)
            (principal_backend_user_id (aview_principal (rsnap_agent snap)))
            (grant_room_id (rsnap_grant snap)))) (\<lambda>native.
          bind_op (observe native) (\<lambda>_.
          if \<not> command_needed snap \<and> mship_membership native \<noteq> MemberJoin then return_op () else
          bind_op (lift_op (admission_command snap authorizer)) (\<lambda>command.
          set_access M snap authorizer command))))))"

section \<open>Recording the outcome\<close>

definition next_check_at :: "int \<Rightarrow> int \<Rightarrow> int result" where
  "next_check_at seconds now =
     rbind (ok_or (checked_i64 (seconds * 1000))
       (failure_new Limit ''Reconciliation interval exceeds native range'')) (\<lambda>ms.
     ok_or (checked_i64 (now + ms))
       (failure_new Limit ''Reconciliation timestamp exceeds native range''))"

definition observed_application ::
  "room_snapshot \<Rightarrow> failure + unit \<Rightarrow> room_membership option \<Rightarrow> int \<Rightarrow> int \<Rightarrow> room_application" where
  "observed_application snap outcome observed now next =
     (let v = (rsnap_application snap)\<lparr>rapp_last_attempt_at := Some now, rapp_next_check_at := next\<rparr>;
          w = (case observed of None \<Rightarrow> v
            | Some m \<Rightarrow> v\<lparr>rapp_membership := Some (mship_membership m),
                rapp_native_access := mship_native_access m\<rparr>)
      in case outcome of
        Inr _ \<Rightarrow> w\<lparr>rapp_observed_generation := Some (grant_generation (rsnap_grant snap)),
          rapp_applied_revision := Some (grant_revision (rsnap_grant snap)),
          rapp_applied_access_revision := Some (grant_access_revision (rsnap_grant snap)),
          rapp_last_success_at := Some now, rapp_error_code := None, rapp_error_message := None\<rparr>
      | Inl e \<Rightarrow> w\<lparr>rapp_error_code := Some (error_code_as_str (failure_code e)),
          rapp_error_message := Some (failure_message e)\<rparr>)"

definition snapshot_current :: "codec \<Rightarrow> string \<Rightarrow> string \<Rightarrow> room_snapshot \<Rightarrow> unit db" where
  "snapshot_current J agent room snap =
     bind_op (repo_room_grant J agent room) (\<lambda>current.
     bind_op (repo_agent_view agent) (\<lambda>identity.
     if (case current of None \<Rightarrow> True | Some g \<Rightarrow>
           grant_generation g \<noteq> grant_generation (rsnap_grant snap) \<or>
           grant_revision g \<noteq> grant_revision (rsnap_grant snap)) \<or>
        (case identity of None \<Rightarrow> True | Some v \<Rightarrow>
           principal_revision (aview_principal v) \<noteq> principal_revision (aview_principal (rsnap_agent snap)) \<or>
           principal_revision (aview_owner v) \<noteq> principal_revision (aview_owner (rsnap_agent snap)))
     then fail_op (failure_new Conflict ''Grant authority changed during native application'') else
     bind_op (repo_principal (grant_authorizer_id (rsnap_grant snap))) (\<lambda>authorizer.
     if map_option principal_revision authorizer \<noteq> map_option principal_revision (rsnap_authorizer snap)
     then fail_op (failure_new Conflict ''Grant authorizer changed during native application'')
     else return_op ())))"

definition record_outcome ::
  "codec \<Rightarrow> string \<Rightarrow> string \<Rightarrow> room_snapshot \<Rightarrow> failure + unit \<Rightarrow> room_membership option \<Rightarrow> int \<Rightarrow> unit db" where
  "record_outcome J agent room snap outcome observed now = transaction (
     bind_op (snapshot_current J agent room snap) (\<lambda>_.
     bind_op (lift_op (next_check_at (rsnap_reconcile_seconds snap) now)) (\<lambda>next.
     repo_save_room_application J (observed_application snap outcome observed now next) False)))"

definition reconcile_room ::
  "codec \<Rightarrow> 'b messaging \<Rightarrow> 'b operations \<Rightarrow> string \<Rightarrow> string \<Rightarrow> int \<Rightarrow> ('b room_world, failure, unit) op" where
  "reconcile_room J M K agent room now = with_guard K room (
     bind_op (on_store (take_room_snapshot J agent room)) (\<lambda>snap w.
     case apply_grant J M snap (w, None) of (outcome, (w', observed)) \<Rightarrow>
       on_store (record_outcome J agent room snap outcome observed now) w'))"

end
