(* ===== verification/Owner_Conversation.thy ===== *)
theory Owner_Conversation
  imports Room_Reconcile
begin

text \<open>
  The private conversation of an agent with its owner and the acceptance of native invitations:
  \<open>domain/src/room_access/owner_conversation.rs\<close> and \<open>domain/src/room_access/invitation.rs\<close>.
\<close>

section \<open>Ensuring the private conversation\<close>

definition verify_invitation ::
  "'b messaging \<Rightarrow> string \<Rightarrow> room_invitation \<Rightarrow> ('b room_world, failure, unit) op" where
  "verify_invitation M user invitation =
     bind_op (msg_invitation M user (inv_room_id invitation)) (\<lambda>current.
     if (case current of None \<Rightarrow> True | Some c \<Rightarrow> \<not> inv_direct c \<or>
         inv_event_id c \<noteq> inv_event_id invitation \<or> inv_sender c \<noteq> inv_sender invitation)
     then fail_op (failure_new Conflict ''The owner DM invitation was withdrawn or replaced'')
     else return_op ())"

definition owner_target :: "string \<Rightarrow> (agent_view \<times> owner_conversation option) db" where
  "owner_target agent =
     bind_op (require_some (repo_agent_view agent) (failure_new Missing ''Agent not found'')) (\<lambda>target.
     bind_op (check_op (principal_status (aview_principal target) = Active \<and>
         principal_status (aview_owner target) = Active)
       (failure_new Forbidden ''Agent and owner must be active'')) (\<lambda>_.
     bind_op (check_op (app_applied_status (aview_application target) = Some Active \<and>
         app_error_code (aview_application target) = None)
       (failure_new Unavailable ''The native agent account is not ready'')) (\<lambda>_.
     bind_op (repo_owner_conversation agent) (\<lambda>previous.
     return_op (target, previous)))))"

text \<open>The message is the UTF-8 text "The invitation does not identify this agent's private owner
  conversation" with a typographic apostrophe.\<close>

definition wrong_conversation_message :: string where
  "wrong_conversation_message = ''The invitation does not identify this agent'' @
     [CHR 0xE2, CHR 0x80, CHR 0x99] @ ''s private owner conversation''"

definition check_owner_invitation ::
  "'b messaging \<Rightarrow> agent_view \<Rightarrow> owner_conversation option \<Rightarrow> room_invitation option \<Rightarrow>
   ('b room_world, failure, unit) op" where
  "check_owner_invitation M target previous invitation = (case invitation of None \<Rightarrow> return_op ()
     | Some v \<Rightarrow>
         if \<not> inv_direct v \<or> inv_sender v \<noteq> principal_backend_user_id (aview_owner target) \<or>
            (case previous of None \<Rightarrow> False | Some c \<Rightarrow> own_room_id c \<noteq> inv_room_id v)
         then fail_op (failure_new Conflict wrong_conversation_message)
         else verify_invitation M (principal_backend_user_id (aview_principal target)) v)"

definition owner_room ::
  "'b messaging \<Rightarrow> agent_view \<Rightarrow> owner_conversation option \<Rightarrow> room_invitation option \<Rightarrow>
   ('b room_world, failure, string) op" where
  "owner_room M target previous invitation =
     (let owner = principal_backend_user_id (aview_owner target);
          agent = principal_backend_user_id (aview_principal target)
      in case invitation of
        Some v \<Rightarrow> bind_op (msg_verify_owner_conversation M owner agent (inv_room_id v))
          (\<lambda>_. return_op (inv_room_id v))
      | None \<Rightarrow> msg_owner_conversation M owner agent (map_option own_room_id previous) None)"

definition owner_actor :: "agent_view \<Rightarrow> actor" where
  "owner_actor target = \<lparr>actor_principal_id = principal_id (aview_owner target), actor_kind = Human,
     actor_authentication = Some (NativeAuth (principal_backend_user_id (aview_owner target)))\<rparr>"

definition reply_intent :: intent where
  "reply_intent = \<lparr>intent_access = AccessReply, intent_native_access = None, intent_muted = False\<rparr>"

definition owner_change :: "codec \<Rightarrow> string \<Rightarrow> string \<Rightarrow> agent_view \<Rightarrow> room_change db" where
  "owner_change J agent room target =
     bind_op (repo_room_grant J agent room) (\<lambda>g.
     return_op \<lparr>change_agent_id = agent, change_room_id = room,
       change_expected_revision = principal_revision (aview_principal target),
       change_expected_generation = map_option grant_generation g, change_intent = reply_intent\<rparr>)"

text \<open>A delegation left over in the room is withdrawn.\<close>

definition withdraw_delegation ::
  "codec \<Rightarrow> actor \<Rightarrow> agent_view \<Rightarrow> string \<Rightarrow> string \<Rightarrow> grant \<Rightarrow> string \<Rightarrow> string \<Rightarrow> int \<Rightarrow>
   (grant \<times> bool) db" where
  "withdraw_delegation J a target agent room g request ev now =
     bind_op (repo_room_permission agent room) (\<lambda>perm.
     bind_op (repo_replace_room_permissions agent room None) (\<lambda>_.
     if perm = None then return_op (g, False) else
     bind_op (lift_op (ok_or (checked_i64 (grant_revision g + 1))
       (failure_new Conflict ''Room revision exceeds native range''))) (\<lambda>revision.
     bind_op (repo_save_room_grant J (g\<lparr>grant_revision := revision, grant_updated_at := now\<rparr>) False) (\<lambda>_.
     bind_op (repo_audit ev ((audit_new a request ''agent'' agent ''owner-conversation.ensure''
         (Some (principal_id (aview_owner target))) now)\<lparr>audit_room_id := Some room\<rparr>)) (\<lambda>_.
     return_op (g\<lparr>grant_revision := revision, grant_updated_at := now\<rparr>, True))))))"

record ensure_ids =
  ids_request :: string
  ids_generation :: string
  ids_audit :: string
  ids_withdraw_request :: string
  ids_withdraw_audit :: string

definition bind_owner_conversation ::
  "codec \<Rightarrow> agent_view \<Rightarrow> string \<Rightarrow> owner_conversation option \<Rightarrow> string \<Rightarrow> authorization \<Rightarrow>
   ensure_ids \<Rightarrow> int \<Rightarrow> (grant \<times> int) db" where
  "bind_owner_conversation J target agent previous room p ids now = transaction (
     bind_op (recheck J (owner_actor target) p now) (\<lambda>_.
     bind_op (repo_owner_conversation agent) (\<lambda>bound.
     bind_op (check_op (map_option own_room_id bound = map_option own_room_id previous)
       (failure_new Conflict ''Owner conversation changed during native application'')) (\<lambda>_.
     bind_op (require_op (commit J (owner_actor target) p (ids_request ids) True (ids_generation ids)
         (ids_audit ids) now)
       (\<lambda>g. grant_authorizer_id g = principal_id (aview_owner target) \<and>
            grant_added_by_id g = principal_id (aview_owner target))
       (failure_new Forbidden ''Owner conversation provenance does not match'')) (\<lambda>g.
     bind_op (withdraw_delegation J (owner_actor target) target agent room g
       (ids_withdraw_request ids) (ids_withdraw_audit ids) now) (\<lambda>(saved, removed).
     bind_op (if bound = None then repo_insert_owner_conversation \<lparr>own_agent_id = agent,
         own_owner_id = principal_id (aview_owner target), own_room_id = room, own_created_at = now\<rparr>
       else return_op ()) (\<lambda>_.
     if proof_changed p \<or> removed then
       bind_op (lift_op (ok_or (checked_i64 (principal_revision (aview_principal target) + 1))
         (failure_new Conflict ''Agent revision exceeds native range''))) (\<lambda>revision.
       bind_op (repo_save_principal ((aview_principal target)\<lparr>principal_revision := revision\<rparr>)) (\<lambda>_.
       return_op (saved, revision)))
     else return_op (saved, principal_revision (aview_principal target)))))))))"

definition conversation_ready :: "codec \<Rightarrow> string \<Rightarrow> string \<Rightarrow> unit db" where
  "conversation_ready J agent room =
     bind_op (repo_room_application J agent room) (\<lambda>observation.
     case observation of
       None \<Rightarrow> fail_op (failure_new Unavailable ''Owner conversation read and reply is not ready'')
     | Some v \<Rightarrow>
         if rapp_membership v \<noteq> Some MemberJoin \<or> rapp_error_code v \<noteq> None
         then fail_op (failure_new Unavailable (case rapp_error_message v of Some m \<Rightarrow> m
           | None \<Rightarrow> ''Owner conversation read and reply is not ready''))
         else return_op ())"

definition conversation_unchanged ::
  "codec \<Rightarrow> agent_view \<Rightarrow> string \<Rightarrow> string \<Rightarrow> grant \<Rightarrow> int \<Rightarrow> string db" where
  "conversation_unchanged J target agent room saved revision = transaction (
     bind_op (repo_agent_view agent) (\<lambda>current.
     bind_op (repo_owner_conversation agent) (\<lambda>existing.
     bind_op (repo_room_grant J agent room) (\<lambda>g.
     if (case current of None \<Rightarrow> True | Some v \<Rightarrow> principal_revision (aview_principal v) \<noteq> revision \<or>
           principal_revision (aview_owner v) \<noteq> principal_revision (aview_owner target)) \<or>
        (case existing of None \<Rightarrow> True | Some c \<Rightarrow> own_room_id c \<noteq> room \<or>
           own_owner_id c \<noteq> principal_id (aview_owner target)) \<or>
        (case g of None \<Rightarrow> True | Some v \<Rightarrow> grant_generation v \<noteq> grant_generation saved \<or>
           grant_revision v \<noteq> grant_revision saved)
     then fail_op (failure_new Conflict
       ''Owner conversation authority changed during native application'')
     else return_op room))))"

definition ensure_body ::
  "codec \<Rightarrow> 'b messaging \<Rightarrow> 'b operations \<Rightarrow> string \<Rightarrow> room_invitation option \<Rightarrow> ensure_ids \<Rightarrow> int \<Rightarrow>
   ('b room_world, failure, string) op" where
  "ensure_body J M K agent invitation ids now =
     bind_op (on_store (owner_target agent)) (\<lambda>(target, previous).
     bind_op (check_owner_invitation M target previous invitation) (\<lambda>_.
     bind_op (owner_room M target previous invitation) (\<lambda>room.
     if (case previous of None \<Rightarrow> False | Some c \<Rightarrow>
          own_owner_id c \<noteq> principal_id (aview_owner target) \<or> own_room_id c \<noteq> room)
     then fail_op (failure_new Conflict ''The native owner conversation changed'') else
     bind_op (on_store (owner_change J agent room target)) (\<lambda>input.
     bind_op (on_store (prepare J (owner_actor target) input invitation now)) (\<lambda>(p, owner, _).
     bind_op (if needs_native p (owner_actor target)
       then bind_op (msg_authorize_room_access M owner
           (principal_backend_user_id (aview_principal target)) room (change_intent input))
         (\<lambda>facts. return_op (p\<lparr>proof_native := Some facts\<rparr>))
       else return_op p) (\<lambda>proof.
     bind_op (case invitation of None \<Rightarrow> return_op ()
       | Some v \<Rightarrow> verify_invitation M (principal_backend_user_id (aview_principal target)) v) (\<lambda>_.
     bind_op (on_store (bind_owner_conversation J target agent previous room proof ids now))
       (\<lambda>(saved, revision).
     bind_op (reconcile_room J M K agent room now) (\<lambda>_.
     bind_op (on_store (conversation_ready J agent room)) (\<lambda>_.
     bind_op (msg_owner_conversation M (principal_backend_user_id (aview_owner target))
       (principal_backend_user_id (aview_principal target)) (Some room) None) (\<lambda>verified.
     if verified \<noteq> room then fail_op (failure_new Conflict ''The native owner conversation changed'')
     else on_store (conversation_unchanged J target agent room saved revision))))))))))))"

definition ensure_conversation ::
  "codec \<Rightarrow> 'b messaging \<Rightarrow> 'b operations \<Rightarrow> string \<Rightarrow> room_invitation option \<Rightarrow> ensure_ids \<Rightarrow> int \<Rightarrow>
   ('b room_world, failure, string) op" where
  "ensure_conversation J M K agent invitation ids now =
     with_guard K (''agent:'' @ agent) (ensure_body J M K agent invitation ids now)"

section \<open>Accepting an invitation\<close>

definition invited_agent :: "actor \<Rightarrow> string \<Rightarrow> int \<Rightarrow> agent_view db" where
  "invited_agent receiver agent now =
     bind_op (authorize receiver RoomInvitationAcceptSelf now) (\<lambda>_.
     if actor_kind receiver \<noteq> AgentKind \<or> actor_principal_id receiver \<noteq> agent
     then fail_op (failure_new Forbidden ''Only the invited agent may accept its invitation'')
     else require_some (repo_agent_view agent) (failure_new Missing ''Invited agent not found''))"

definition inviter_and_grant ::
  "codec \<Rightarrow> room_invitation \<Rightarrow> string \<Rightarrow> string \<Rightarrow> (actor \<times> grant option) db" where
  "inviter_and_grant J invitation agent room =
     bind_op (require_some (repo_principal_by_backend_user_id (inv_sender invitation))
       (failure_new Forbidden ''The inviter is not a registered Crossfire identity'')) (\<lambda>sender.
     bind_op (repo_room_grant J agent room) (\<lambda>g.
     return_op (\<lparr>actor_principal_id = principal_id sender, actor_kind = principal_kind sender,
       actor_authentication = Some (NativeAuth (inv_sender invitation))\<rparr>, g)))"

definition pending_error :: "string \<Rightarrow> string option \<Rightarrow> failure" where
  "pending_error code message = failure_new
     (if code = ''conflict'' then Conflict else if code = ''forbidden'' then Forbidden else NativeError)
     (case message of Some m \<Rightarrow> m | None \<Rightarrow> ''Native invitation remains pending'')"

definition accepted_membership :: "codec \<Rightarrow> string \<Rightarrow> string \<Rightarrow> bool db" where
  "accepted_membership J agent room =
     bind_op (repo_room_application J agent room) (\<lambda>observation.
     case observation of None \<Rightarrow> return_op False
     | Some v \<Rightarrow> (case rapp_error_code v of
           Some code \<Rightarrow> fail_op (pending_error code (rapp_error_message v))
         | None \<Rightarrow> return_op (rapp_membership v = Some MemberJoin)))"

record accept_ids =
  acc_request :: string
  acc_generation :: string
  acc_audit :: string

definition accept_shared ::
  "codec \<Rightarrow> 'b messaging \<Rightarrow> 'b operations \<Rightarrow> agent_view \<Rightarrow> string \<Rightarrow> string \<Rightarrow> room_invitation \<Rightarrow>
   accept_ids \<Rightarrow> int \<Rightarrow> ('b room_world, failure, bool) op" where
  "accept_shared J M K target agent room invitation ids now =
     bind_op (on_store (inviter_and_grant J invitation agent room)) (\<lambda>(inviter, g).
     bind_op (case opt_filter (\<lambda>v. grant_invitation_event_id v = Some (inv_event_id invitation)) g of
         Some v \<Rightarrow> if intent_access (grant_intent v) = AccessNone
           then fail_op (failure_new Forbidden ''This invitation was already withdrawn'')
           else return_op ()
       | None \<Rightarrow> bind_op (change_room J M inviter \<lparr>change_agent_id = agent, change_room_id = room,
             change_expected_revision = principal_revision (aview_principal target),
             change_expected_generation = map_option grant_generation g, change_intent = reply_intent\<rparr>
           (Some invitation) (acc_request ids) (acc_generation ids) (acc_audit ids) now now)
           (\<lambda>_. return_op ())) (\<lambda>_.
     bind_op (reconcile_room J M K agent room now) (\<lambda>_.
     bind_op (on_store (accepted_membership J agent room)) (\<lambda>accepted.
     bind_op (if accepted \<and> inv_direct invitation
       then msg_mark_direct M (principal_backend_user_id (aview_principal target))
         (inv_sender invitation) room
       else return_op ()) (\<lambda>_. return_op accepted)))))"

definition accept_invitation ::
  "codec \<Rightarrow> 'b messaging \<Rightarrow> 'b operations \<Rightarrow> actor \<Rightarrow> string \<Rightarrow> string \<Rightarrow> ensure_ids \<Rightarrow> accept_ids \<Rightarrow>
   int \<Rightarrow> ('b room_world, failure, bool) op" where
  "accept_invitation J M K receiver agent room ids aids now =
     bind_op (on_store (invited_agent receiver agent now)) (\<lambda>target.
     bind_op (msg_invitation M (principal_backend_user_id (aview_principal target)) room) (\<lambda>found.
     case found of None \<Rightarrow> return_op False
     | Some invitation \<Rightarrow>
         bind_op (on_store (repo_owner_conversation agent)) (\<lambda>bound.
         if inv_direct invitation \<and> inv_sender invitation = principal_backend_user_id (aview_owner target) \<and>
            (case bound of None \<Rightarrow> True | Some c \<Rightarrow> own_room_id c = room)
         then bind_op (ensure_conversation J M K agent (Some invitation) ids now) (\<lambda>_. return_op True)
         else accept_shared J M K target agent room invitation aids now)))"

end
