(* ===== verification/Agents.thy ===== *)
theory Agents
  imports Store_Agents
begin

text \<open>
  Agents and whom they wake up for: \<open>domain/src/agent.rs\<close> and \<open>domain/src/wake.rs\<close>. An agent listens
  to humans, to everyone or only to selected senders; a selected person may include its own agents.
\<close>

section \<open>Wake policies\<close>

definition wake_accepts ::
  "string \<Rightarrow> wake_mode \<Rightarrow> sender list \<Rightarrow> string \<Rightarrow> principal_kind \<Rightarrow> string option \<Rightarrow> bool" where
  "wake_accepts receiver mode selections sender kind owner \<longleftrightarrow>
     sender \<noteq> receiver \<and>
     (mode = WakeEveryone \<or> mode = WakeHumans \<and> kind = Human \<or>
      list_ex (\<lambda>v. sender_principal_id v = sender \<or>
        kind = AgentKind \<and> sender_include_agents v \<and> owner = Some (sender_principal_id v)) selections)"

definition wake_resolve :: "agent \<Rightarrow> string list db" where
  "wake_resolve v =
     bind_op (repo_wake_senders (agent_principal_id v)) (\<lambda>selections.
     bind_op repo_active_principals (\<lambda>active.
     return_op (sort (map (\<lambda>i. principal_backend_user_id (active_principal i))
       (filter (\<lambda>i. wake_accepts (agent_principal_id v) (agent_wake_mode v) selections
          (principal_id (active_principal i)) (principal_kind (active_principal i)) (active_owner_id i))
        active)))))"

definition validate_sender :: "sender \<Rightarrow> unit db" where
  "validate_sender selected =
     bind_op (require_op (repo_principal (sender_principal_id selected)) (\<lambda>p. principal_status p = Active)
       (failure_new Invalid ''Select active registered identities'')) (\<lambda>sender.
     if principal_kind sender = AgentKind then
       (if sender_include_agents selected
        then fail_op (failure_new Invalid ''Only people can include their agents'') else
        bind_op (repo_agent_view (sender_principal_id selected)) (\<lambda>agent.
        bind_op (repo_agent_binding (sender_principal_id selected)) (\<lambda>binding.
        if (case agent of None \<Rightarrow> True | Some v \<Rightarrow> principal_status (aview_owner v) \<noteq> Active) \<or>
           (case binding of None \<Rightarrow> True
            | Some b \<Rightarrow> binding_retired_at b \<noteq> None \<or> binding_fleet_archived_at b \<noteq> None)
        then fail_op (failure_new Invalid ''Selected agent owner is not active'')
        else return_op ())))
     else return_op ())"

definition validate_wake_senders :: "string option \<Rightarrow> wake_mode \<Rightarrow> sender list \<Rightarrow> unit db" where
  "validate_wake_senders agent mode senders =
     (if 2000 < length senders \<or> mode = WakeEveryone \<and> senders \<noteq> [] \<or>
         list_ex (\<lambda>v. Some (sender_principal_id v) = agent) senders \<or>
         \<not> distinct (map sender_principal_id senders)
      then fail_op (failure_new Invalid ''Invalid selected sender list'')
      else for_each_op validate_sender senders)"

definition replace_wake_policy :: "agent \<Rightarrow> wake_mode \<Rightarrow> sender list \<Rightarrow> unit db" where
  "replace_wake_policy agent mode senders =
     bind_op (validate_wake_senders (Some (agent_principal_id agent)) mode senders) (\<lambda>_.
     bind_op (repo_replace_wake_senders (agent_principal_id agent) senders) (\<lambda>_.
     repo_save_agent (agent\<lparr>agent_wake_mode := mode\<rparr>)))"

record wake_policy =
  wpol_revision :: int
  wpol_mode :: wake_mode
  wpol_senders :: "sender list"

record wake_policy_change =
  wchange_expected_revision :: int
  wchange_mode :: wake_mode
  wchange_senders :: "sender list"

definition change_wake_policy ::
  "actor \<Rightarrow> string \<Rightarrow> wake_policy_change \<Rightarrow> string \<Rightarrow> string \<Rightarrow> int \<Rightarrow> wake_policy db" where
  "change_wake_policy a aid input request ev now = transaction (
     bind_op (authorize_agent a aid ConfigureAgent now) (\<lambda>agent.
     bind_op (require_some (repo_principal aid) (failure_new Missing ''Agent not found'')) (\<lambda>p.
     bind_op (check_op (principal_revision p = wchange_expected_revision input)
       (failure_new Conflict ''Agent revision changed'')) (\<lambda>_.
     bind_op (check_op (principal_status p \<noteq> Revoked)
       (failure_new Conflict ''Account revocation is permanent'')) (\<lambda>_.
     bind_op (replace_wake_policy agent (wchange_mode input) (wchange_senders input)) (\<lambda>_.
     bind_op (lift_op (ok_or (checked_i64 (wchange_expected_revision input + 1))
       (failure_new Conflict ''Agent revision exhausted''))) (\<lambda>revision.
     bind_op (repo_save_principal (p\<lparr>principal_revision := revision\<rparr>)) (\<lambda>_.
     bind_op (repo_audit ev (audit_new a request ''agent'' aid ''agent.wake-policy.configure''
       (Some (agent_owner_id agent)) now)) (\<lambda>_.
     return_op \<lparr>wpol_revision = revision, wpol_mode = wchange_mode input,
       wpol_senders = sort_key sender_principal_id (wchange_senders input)\<rparr>)))))))))"

section \<open>Changing an agent\<close>

definition change_agent ::
  "actor \<Rightarrow> string \<Rightarrow> int \<Rightarrow> status option \<Rightarrow> string \<Rightarrow> string \<Rightarrow> int \<Rightarrow> agent_view db" where
  "change_agent a aid expected status request ev now = transaction (
     bind_op (authorize_agent a aid ConfigureAgent now) (\<lambda>agent.
     bind_op (require_some (repo_agent_view aid) (failure_new Missing ''Agent not found'')) (\<lambda>view.
     bind_op (check_op (principal_revision (aview_principal view) = expected)
       (failure_new Conflict ''Agent revision changed'')) (\<lambda>_.
     bind_op (check_op (principal_status (aview_principal view) \<noteq> Revoked)
       (failure_new Conflict ''Account revocation is permanent'')) (\<lambda>_.
     bind_op (lift_op (ok_or (checked_i64 (expected + 1))
       (failure_new Conflict ''Agent revision exhausted''))) (\<lambda>revision.
     let p = (aview_principal view)\<lparr>
           principal_status := (case status of None \<Rightarrow> principal_status (aview_principal view) | Some st \<Rightarrow> st),
           principal_revision := revision\<rparr>;
         ap = (aview_application view)\<lparr>app_next_check_at := now\<rparr>
     in
     bind_op (repo_save_principal p) (\<lambda>_.
     bind_op (repo_save_application ap) (\<lambda>_.
     bind_op (repo_audit ev (audit_new a request ''agent'' aid ''agent.configure''
       (Some (agent_owner_id agent)) now)) (\<lambda>_.
     return_op (view\<lparr>aview_principal := p, aview_application := ap\<rparr>))))))))))"

section \<open>What a wake policy admits\<close>

lemma wake_accepts_not_self [simp]: "\<not> wake_accepts r mode sel r kind w"
  by (simp add: wake_accepts_def)

lemma query_wake_resolve [simp]: "query (wake_resolve v)"
  unfolding wake_resolve_def by (auto intro!: query_bind)

lemma query_validate_sender [simp]: "query (validate_sender v)"
  unfolding validate_sender_def by (intro query_bind query_require) (auto intro!: query_bind)

lemma query_for_each: "(\<And>x. query (f x)) \<Longrightarrow> query (for_each_op f xs)"
  by (induction xs) (auto intro!: query_bind)

lemma query_validate_wake_senders [simp]: "query (validate_wake_senders agent mode senders)"
  unfolding validate_wake_senders_def by (auto intro!: query_for_each)

text \<open>
  Senders that passed the validation: everybody a selection names is active, a selected agent has an
  active owner and a current fleet binding, only people include their agents, and nobody is named twice.
\<close>

definition sender_valid :: "store \<Rightarrow> sender \<Rightarrow> bool" where
  "sender_valid s v \<longleftrightarrow> (\<exists>p. stored_principal (sender_principal_id v) p s \<and> principal_status p = Active \<and>
     (principal_kind p = AgentKind \<longrightarrow> \<not> sender_include_agents v \<and> agent_admitted (sender_principal_id v) s))"

end
