(* ===== verification/Room_Read.thy ===== *)
theory Room_Read
  imports Owner_Conversation Agents
begin

text \<open>
  Reading room access: the delivery policy an agent receives (\<open>domain/src/room_access/delivery.rs\<close>)
  and the views of grants and rooms (\<open>domain/src/room_access/read.rs\<close>). The comparison and the letter
  case of names are arguments.
\<close>

section \<open>The delivery policy\<close>

record delivery_policy =
  dpol_agent :: agent_view
  dpol_grants :: "grant list"
  dpol_wake_senders :: "string list"
  dpol_max_message_bytes :: int
  dpol_idle_timeout_seconds :: int
  dpol_owner_conversation :: "string option"

definition applied :: "grant \<Rightarrow> room_application \<Rightarrow> bool" where
  "applied g v \<longleftrightarrow> rapp_membership v = Some MemberJoin \<and> rapp_error_code v = None \<and>
     rapp_observed_generation v = Some (grant_generation g)"

fun eligible_grants :: "codec \<Rightarrow> string \<Rightarrow> grant list \<Rightarrow> grant list db" where
  "eligible_grants J agent [] = return_op []"
| "eligible_grants J agent (g # gs) =
     (if intent_access (grant_intent g) = AccessNone then eligible_grants J agent gs else
      bind_op (repo_room_application J agent (grant_room_id g)) (\<lambda>app.
      bind_op (eligible_grants J agent gs) (\<lambda>rest.
      return_op (if (case app of None \<Rightarrow> False | Some v \<Rightarrow> applied g v) then g # rest else rest))))"

definition conversation_served :: "agent_view \<Rightarrow> grant list \<Rightarrow> owner_conversation option \<Rightarrow> bool" where
  "conversation_served v eligible conversation \<longleftrightarrow> (case conversation of None \<Rightarrow> True
     | Some c \<Rightarrow> \<not> (principal_status (aview_principal v) = Active \<and> principal_status (aview_owner v) = Active \<and>
         \<not> list_ex (\<lambda>g. grant_room_id g = own_room_id c \<and>
           intent_access (grant_intent g) = AccessReply \<and> \<not> intent_muted (grant_intent g)) eligible))"

definition read_delivery_policy :: "codec \<Rightarrow> actor \<Rightarrow> string \<Rightarrow> int \<Rightarrow> delivery_policy db" where
  "read_delivery_policy J a aid now =
     bind_op (authorize_agent a aid ReadAgent now) (\<lambda>_.
     bind_op (require_some (repo_agent_view aid) (failure_new Missing ''Agent not found'')) (\<lambda>v.
     bind_op (require_some repo_policy
       (failure_new Unavailable ''Instance delivery policy is not initialized'')) (\<lambda>pol.
     bind_op (repo_room_grants J (principal_id (aview_principal v))) (\<lambda>gs.
     bind_op (eligible_grants J (principal_id (aview_principal v)) gs) (\<lambda>eligible.
     bind_op (repo_owner_conversation (principal_id (aview_principal v))) (\<lambda>conversation.
     bind_op (check_op (conversation_served v eligible conversation)
       (failure_new Unavailable ''The established private owner conversation is not ready'')) (\<lambda>_.
     bind_op (wake_resolve (aview_agent v)) (\<lambda>senders.
     return_op \<lparr>dpol_agent = v, dpol_grants = eligible, dpol_wake_senders = senders,
       dpol_max_message_bytes = policy_max_message_bytes pol,
       dpol_idle_timeout_seconds = policy_fleet_idle_timeout_seconds pol,
       dpol_owner_conversation = map_option own_room_id
         (opt_filter (\<lambda>c. list_ex (\<lambda>g. grant_room_id g = own_room_id c) eligible) conversation)\<rparr>))))))))"

section \<open>Views of grants\<close>

record grant_view =
  gview_agent_id :: string
  gview_revision :: int
  gview_owner_conversation :: bool
  gview_grant :: "grant option"
  gview_application :: "room_application option"
  gview_permissions :: "string list"
  gview_allowed_actions :: "string list"

record room_details =
  room_id :: string
  room_name :: string
  room_topic :: string
  room_alias :: "string option"
  room_authority :: "room_facts option"

text \<open>\<open>.is_ok()\<close> of a check.\<close>

definition succeeds :: "'a db \<Rightarrow> bool db" where
  "succeeds m s = (Inr (\<not> is_err (fst (m s))), snd (m s))"

definition manage_actions :: "string list" where
  "manage_actions = [''set'', ''remove'', ''permissions.set'']"

definition list_grant_view ::
  "string \<Rightarrow> int \<Rightarrow> bool \<Rightarrow> owner_conversation option \<Rightarrow> room_application list \<Rightarrow> room_permission list \<Rightarrow>
   grant \<Rightarrow> grant_view" where
  "list_grant_view agent revision manageable private applications permissions g =
     (let own = (case private of None \<Rightarrow> False | Some c \<Rightarrow> own_room_id c = grant_room_id g)
      in \<lparr>gview_agent_id = agent, gview_revision = revision, gview_owner_conversation = own,
        gview_grant = Some g,
        gview_application = find_row (\<lambda>v. rapp_room_id v = grant_room_id g) applications,
        gview_permissions =
          (if list_ex (\<lambda>q. rperm_room_id q = grant_room_id g \<and> rperm_generation q = grant_generation g)
                permissions then [''room.agent.invite''] else []),
        gview_allowed_actions = (if manageable \<and> \<not> own then manage_actions else [])\<rparr>)"

definition list_grants ::
  "codec \<Rightarrow> actor \<Rightarrow> string \<Rightarrow> pagination \<Rightarrow> string list option \<Rightarrow> int \<Rightarrow> grant_view page db" where
  "list_grants J a agent pg selected now =
     bind_op (authorize_agent a agent ReadAgent now) (\<lambda>_.
     bind_op (require_some (repo_principal agent) (failure_new Missing ''Agent not found'')) (\<lambda>target.
     bind_op (lift_op (pagination_validate pg)) (\<lambda>_.
     bind_op (repo_grants_page J agent pg selected) (\<lambda>pag.
     let ids = map grant_room_id (page_items pag) in
     bind_op (repo_applications_for_rooms J agent ids) (\<lambda>applications.
     bind_op (repo_permissions_for_rooms agent ids) (\<lambda>permissions.
     bind_op (succeeds (authorize_agent a agent ManageRoomGrant now)) (\<lambda>manageable.
     bind_op (repo_owner_conversation agent) (\<lambda>private.
     return_op \<lparr>page_items = map (list_grant_view agent (principal_revision target) manageable private
         applications permissions) (page_items pag),
       page_page = page_page pag, page_size = page_size pag, page_total_items = page_total_items pag,
       page_total_pages = page_total_pages pag\<rparr>))))))))"

definition grant_reader ::
  "codec \<Rightarrow> actor \<Rightarrow> string \<Rightarrow> string \<Rightarrow> int \<Rightarrow> (principal \<times> agent_view \<times> bool \<times> grant option) db" where
  "grant_reader J a agent room now =
     bind_op (active_actor a now) (\<lambda>acting.
     bind_op (require_some (repo_agent_view agent) (failure_new Missing ''Agent not found'')) (\<lambda>target.
     bind_op (succeeds (authorize_agent a agent ReadAgent now)) (\<lambda>can_read.
     bind_op (if \<not> can_read \<and> actor_kind a = AgentKind then delegation J (actor_principal_id a) room
       else return_op None) (\<lambda>delegated.
     return_op (acting, target, can_read, delegated)))))"

definition delegation_unchanged :: "codec \<Rightarrow> string \<Rightarrow> string \<Rightarrow> grant option \<Rightarrow> unit db" where
  "delegation_unchanged J agent room prior = (case prior of None \<Rightarrow> return_op ()
     | Some g \<Rightarrow>
         bind_op (repo_room_grant J agent room) (\<lambda>current.
         bind_op (repo_room_permission agent room) (\<lambda>perm.
         check_op (\<not> ((case current of None \<Rightarrow> True
             | Some c \<Rightarrow> grant_generation c \<noteq> grant_generation g \<or>
                 grant_revision c \<noteq> grant_revision g \<or> intent_access (grant_intent c) = AccessNone) \<or>
            (case perm of None \<Rightarrow> True | Some q \<Rightarrow> rperm_generation q \<noteq> grant_generation g)))
           (failure_new Conflict ''Room invitation authority changed''))))"

definition allowed_actions :: "bool \<Rightarrow> bool \<Rightarrow> bool \<Rightarrow> string \<Rightarrow> grant option \<Rightarrow> string list" where
  "allowed_actions private manage delegated actor g =
     (if private then []
      else if manage then manage_actions
      else if delegated \<and> \<not> active_room g then [''set'']
      else if delegated \<and> (case g of None \<Rightarrow> False | Some v \<Rightarrow> grant_added_by_id v = actor)
      then [''set'', ''remove''] else [])"

definition view_grant_now ::
  "codec \<Rightarrow> actor \<Rightarrow> string \<Rightarrow> string \<Rightarrow> agent_view \<Rightarrow> grant option \<Rightarrow> bool \<Rightarrow> int \<Rightarrow> grant_view db" where
  "view_grant_now J a agent room target prior delegated now =
     bind_op (active_actor a now) (\<lambda>_.
     bind_op (delegation_unchanged J (actor_principal_id a) room prior) (\<lambda>_.
     bind_op (repo_room_grant J agent room) (\<lambda>g.
     bind_op (repo_owner_conversation agent) (\<lambda>conversation.
     let private = (case conversation of None \<Rightarrow> False | Some c \<Rightarrow> own_room_id c = room) in
     bind_op (repo_room_permission agent room) (\<lambda>perm.
     bind_op (succeeds (authorize_agent a agent ManageRoomGrant now)) (\<lambda>manage.
     bind_op (repo_room_application J agent room) (\<lambda>app.
     return_op \<lparr>gview_agent_id = agent, gview_revision = principal_revision (aview_principal target),
       gview_owner_conversation = private, gview_grant = g, gview_application = app,
       gview_permissions = (if (case perm of None \<Rightarrow> False
           | Some q \<Rightarrow> (case g of None \<Rightarrow> False | Some v \<Rightarrow> rperm_generation q = grant_generation v))
         then [''room.agent.invite''] else []),
       gview_allowed_actions = allowed_actions private manage delegated (actor_principal_id a) g\<rparr>)))))))"

definition view_grant ::
  "codec \<Rightarrow> 'b messaging \<Rightarrow> actor \<Rightarrow> string \<Rightarrow> string \<Rightarrow> int \<Rightarrow> ('b room_world, failure, grant_view) op" where
  "view_grant J M a agent room now =
     bind_op (on_store (grant_reader J a agent room now)) (\<lambda>(acting, target, can_read, prior).
     bind_op (if prior \<noteq> None
       then bind_op (msg_room M (principal_backend_user_id acting) room None)
         (\<lambda>facts. return_op (facts_can_invite facts))
       else return_op False) (\<lambda>delegated.
     if \<not> can_read \<and> \<not> delegated then fail_op (failure_new Missing ''Room grant not found'')
     else on_store (view_grant_now J a agent room target prior delegated now)))"

section \<open>Rooms\<close>

definition private_for :: "string \<Rightarrow> string \<Rightarrow> bool db" where
  "private_for room agent =
     bind_op (repo_management_conversation_by_room room) (\<lambda>m.
     if m \<noteq> None then return_op True else
     bind_op (repo_owner_conversation_by_room room) (\<lambda>c.
     return_op (case c of None \<Rightarrow> False | Some v \<Rightarrow> own_agent_id v \<noteq> agent)))"

definition room_reader :: "actor \<Rightarrow> string \<Rightarrow> string option \<Rightarrow> int \<Rightarrow> principal db" where
  "room_reader a room agent now =
     bind_op (active_actor a now) (\<lambda>acting.
     case agent of None \<Rightarrow> return_op acting
     | Some aid \<Rightarrow>
         bind_op (authorize_agent a aid ReadAgent now) (\<lambda>_.
         bind_op (private_for room aid) (\<lambda>private.
         if private then fail_op (failure_new Forbidden
           ''This private owner DM is not an agent assignment'')
         else return_op acting)))"

definition room_subject :: "string option \<Rightarrow> string option db" where
  "room_subject agent = (case agent of None \<Rightarrow> return_op None
     | Some aid \<Rightarrow> bind_op (repo_principal aid) (\<lambda>p. return_op (map_option principal_backend_user_id p)))"

definition assigned_room_target :: "codec \<Rightarrow> actor \<Rightarrow> string \<Rightarrow> string \<Rightarrow> int \<Rightarrow> principal db" where
  "assigned_room_target J a agent room now =
     bind_op (authorize_agent a agent ReadAgent now) (\<lambda>_.
     bind_op (repo_room_grant J agent room) (\<lambda>g.
     if g = None then fail_op (failure_new Missing ''Assigned room not found'')
     else require_some (repo_principal agent) (failure_new Missing ''Agent not found'')))"

definition room_of_facts :: "string \<Rightarrow> room_facts \<Rightarrow> room_details" where
  "room_of_facts room facts = \<lparr>room_id = room, room_name = facts_name facts, room_topic = facts_topic facts,
     room_alias = facts_alias facts, room_authority = Some facts\<rparr>"

definition room_seen_by_agent :: "string \<Rightarrow> room_facts option \<Rightarrow> room_details" where
  "room_seen_by_agent room observed = (case observed of
     None \<Rightarrow> \<lparr>room_id = room, room_name = room, room_topic = [], room_alias = None, room_authority = None\<rparr>
   | Some facts \<Rightarrow> \<lparr>room_id = room, room_name = facts_name facts, room_topic = facts_topic facts,
       room_alias = facts_alias facts, room_authority = None\<rparr>)"

definition view_room ::
  "codec \<Rightarrow> 'b messaging \<Rightarrow> actor \<Rightarrow> string \<Rightarrow> string option \<Rightarrow> int \<Rightarrow>
   ('b room_world, failure, room_details) op" where
  "view_room J M a room agent now =
     bind_op (on_store (room_reader a room agent now)) (\<lambda>acting.
     bind_op (on_store (room_subject agent)) (\<lambda>subject w.
     case msg_room M (principal_backend_user_id acting) room subject w of
       (Inr facts, v) \<Rightarrow> (Inr (room_of_facts room facts), v)
     | (Inl e, v) \<Rightarrow> (case agent of None \<Rightarrow> (Inl e, v)
         | Some aid \<Rightarrow>
             bind_op (on_store (assigned_room_target J a aid room now)) (\<lambda>target u.
             case msg_room M (principal_backend_user_id target) room None u of
               (Inr facts, t) \<Rightarrow> (Inr (room_seen_by_agent room (Some facts)), t)
             | (Inl _, t) \<Rightarrow> (Inr (room_seen_by_agent room None), t)) v)))"

definition all_room_ids ::
  "codec \<Rightarrow> actor \<Rightarrow> string option \<Rightarrow> string list \<Rightarrow> int \<Rightarrow> string list db" where
  "all_room_ids J a agent joined now = (case agent of None \<Rightarrow> return_op (sort (remdups joined))
     | Some aid \<Rightarrow>
         bind_op (authorize_agent a aid ReadAgent now) (\<lambda>_.
         bind_op (repo_room_grants J aid) (\<lambda>gs.
         return_op (sort (remdups (joined @ map grant_room_id gs))))))"

fun view_rooms ::
  "codec \<Rightarrow> 'b messaging \<Rightarrow> actor \<Rightarrow> string option \<Rightarrow> (string \<Rightarrow> bool) \<Rightarrow> int \<Rightarrow> string list \<Rightarrow>
   ('b room_world, failure, room_details list) op" where
  "view_rooms J M a agent wanted now [] = return_op []"
| "view_rooms J M a agent wanted now (r # rs) =
     bind_op (case agent of None \<Rightarrow> return_op False | Some aid \<Rightarrow> on_store (private_for r aid)) (\<lambda>skip.
     if skip then view_rooms J M a agent wanted now rs else
     bind_op (view_room J M a r agent now) (\<lambda>v.
     bind_op (view_rooms J M a agent wanted now rs) (\<lambda>rest.
     return_op (if wanted (room_name v) \<or> wanted (case room_alias v of None \<Rightarrow> [] | Some n \<Rightarrow> n) \<or> wanted r
       then v # rest else rest))))"

definition list_rooms ::
  "codec \<Rightarrow> 'b messaging \<Rightarrow> actor \<Rightarrow> string option \<Rightarrow> (string \<Rightarrow> bool) \<Rightarrow>
   (room_details list \<Rightarrow> room_details list) \<Rightarrow> pagination \<Rightarrow> int \<Rightarrow>
   ('b room_world, failure, room_details page) op" where
  "list_rooms J M a agent wanted arrange pg now =
     bind_op (lift_op (pagination_validate pg)) (\<lambda>_.
     bind_op (on_store (active_actor a now)) (\<lambda>acting.
     bind_op (msg_joined M (principal_backend_user_id acting)) (\<lambda>joined.
     bind_op (on_store (all_room_ids J a agent joined now)) (\<lambda>ids.
     bind_op (view_rooms J M a agent wanted now ids) (\<lambda>found.
     return_op (pagination_finish pg (page_rows (pg_page pg) (pg_size pg) (arrange found))
       (int (length found))))))))"

end
