(* ===== verification/Contract_Values.thy ===== *)
theory Contract_Values
  imports Json Kernel_Time
begin

text \<open>
  The checks every contract reads its JSON values with: \<open>contracts/src/validation.rs\<close>. Each takes a
  value and gives the checked value or a failure; \<open>check_object\<close> admits exactly the declared fields.
\<close>

definition safe_integer :: int where
  "safe_integer = 9007199254740991"

definition en_dash :: string where
  "en_dash = [CHR 0xE2, CHR 0x80, CHR 0x93]"

section \<open>The accessors of a value\<close>

fun json_str :: "json \<Rightarrow> string option" where
  "json_str (JString v) = Some v"
| "json_str _ = None"

fun json_array :: "json \<Rightarrow> json list option" where
  "json_array (JArray vs) = Some vs"
| "json_array _ = None"

fun json_map :: "json \<Rightarrow> json_map option" where
  "json_map (JObject m) = Some m"
| "json_map _ = None"

text \<open>\<open>as_i64\<close>, and else the integer an \<open>as_f64\<close> within the safe range is.\<close>

fun json_number :: "json \<Rightarrow> int option" where
  "json_number (JInt n) = checked_i64 n"
| "json_number (JFloat m e) =
     opt_filter (\<lambda>n. abs n \<le> safe_integer)
       (if 0 \<le> e then Some (m * 2 ^ nat e)
        else if 2 ^ nat (- e) dvd m then Some (m div 2 ^ nat (- e)) else None)"
| "json_number _ = None"

section \<open>Checks\<close>

definition control_char :: "nat \<Rightarrow> bool" where
  "control_char c \<longleftrightarrow> c \<le> 0x1f \<or> c = 0x7f"

definition text_ok :: "nat \<Rightarrow> nat \<Rightarrow> string \<Rightarrow> bool" where
  "text_ok minimum maximum v \<longleftrightarrow>
     minimum \<le> utf16_count (chars v) \<and> utf16_count (chars v) \<le> maximum \<and>
     \<not> list_ex control_char (chars v)"

definition check_text :: "json \<Rightarrow> nat \<Rightarrow> nat \<Rightarrow> string result" where
  "check_text v minimum maximum = ok_or (opt_filter (text_ok minimum maximum) (json_str v))
     (failure_new Invalid (''Expected text of '' @ dec minimum @ en_dash @ dec maximum @ '' characters''))"

definition plain_control :: "nat \<Rightarrow> bool" where
  "plain_control c \<longleftrightarrow> c \<le> 8 \<or> c = 0xb \<or> c = 0xc \<or> 0xe \<le> c \<and> c \<le> 0x1f \<or> c = 0x7f"

definition check_plain_text :: "json \<Rightarrow> nat \<Rightarrow> string result" where
  "check_plain_text v maximum =
     ok_or (opt_filter (\<lambda>t. length t \<le> maximum \<and> \<not> list_ex plain_control (chars t)) (json_str v))
       (failure_new Invalid (''Expected plain text up to '' @ dec maximum @ '' UTF-8 bytes''))"

definition integer_ok :: "int \<Rightarrow> int \<Rightarrow> int \<Rightarrow> bool" where
  "integer_ok minimum maximum n \<longleftrightarrow>
     - safe_integer \<le> n \<and> n \<le> safe_integer \<and> minimum \<le> n \<and> n \<le> maximum"

definition check_integer :: "json \<Rightarrow> int \<Rightarrow> int \<Rightarrow> int result" where
  "check_integer v minimum maximum = ok_or (opt_filter (integer_ok minimum maximum) (json_number v))
     (failure_new Invalid ''Expected a bounded integer'')"

definition check_boolean :: "json \<Rightarrow> bool result" where
  "check_boolean v = (case v of JBool b \<Rightarrow> Inr b | _ \<Rightarrow> Inl (failure_new Invalid ''Expected a boolean''))"

fun join_comma :: "string list \<Rightarrow> string" where
  "join_comma [] = []"
| "join_comma [v] = v"
| "join_comma (v # w # vs) = v @ '', '' @ join_comma (w # vs)"

definition check_choice :: "json \<Rightarrow> string list \<Rightarrow> string result" where
  "check_choice v choices = ok_or (opt_filter (\<lambda>t. t \<in> set choices) (json_str v))
     (failure_new Invalid (''Choose one of: '' @ join_comma choices))"

definition lower_hex :: "char \<Rightarrow> bool" where
  "lower_hex c \<longleftrightarrow> ascii_digit c \<or> byte (CHR ''a'') \<le> byte c \<and> byte c \<le> byte (CHR ''f'')"

definition identifier_ok :: "string \<Rightarrow> bool" where
  "identifier_ok v \<longleftrightarrow> length v = 36 \<and>
     list_all (\<lambda>(i, c). if i \<in> {8, 13, 18, 23} then c = CHR ''-'' else lower_hex c) (enumerate 0 v)"

definition check_identifier :: "json \<Rightarrow> string result" where
  "check_identifier v = ok_or (opt_filter identifier_ok (json_str v))
     (failure_new Invalid ''Expected an opaque UUID'')"

definition ascii_lowercase :: "char \<Rightarrow> bool" where
  "ascii_lowercase c \<longleftrightarrow> byte (CHR ''a'') \<le> byte c \<and> byte c \<le> byte (CHR ''z'')"

definition name_ok :: "string \<Rightarrow> bool" where
  "name_ok v \<longleftrightarrow> (case v of [] \<Rightarrow> False | c # _ \<Rightarrow> length v \<le> 40 \<and> ascii_lowercase c \<and>
     list_all (\<lambda>c. ascii_lowercase c \<or> ascii_digit c \<or> c = CHR ''-'') v)"

definition check_name :: "json \<Rightarrow> string result" where
  "check_name v = ok_or (opt_filter name_ok (json_str v))
     (failure_new Invalid (''Expected a lowercase name of 1'' @ en_dash @ ''40 characters''))"

definition check_backend_user_id :: "json \<Rightarrow> string result" where
  "check_backend_user_id v = check_text v 1 255"

definition check_room_id :: "json \<Rightarrow> string result" where
  "check_room_id v = check_text v 1 255"

definition check_event_id :: "json \<Rightarrow> string result" where
  "check_event_id v = check_text v 1 255"

definition ascii_alphanumeric :: "char \<Rightarrow> bool" where
  "ascii_alphanumeric c \<longleftrightarrow> ascii_digit c \<or> ascii_lowercase c \<or>
     byte (CHR ''A'') \<le> byte c \<and> byte c \<le> byte (CHR ''Z'')"

definition secret_ok :: "string \<Rightarrow> bool" where
  "secret_ok v \<longleftrightarrow> length v = 43 \<and>
     list_all (\<lambda>c. ascii_alphanumeric c \<or> c = CHR ''_'' \<or> c = CHR ''-'') v"

definition check_secret :: "json \<Rightarrow> string result" where
  "check_secret v = ok_or (opt_filter secret_ok (json_str v))
     (failure_new Invalid ''Expected a private 32-byte claim'')"

definition check_object :: "json \<Rightarrow> string list \<Rightarrow> string list \<Rightarrow> json_map result" where
  "check_object v required optional =
     rbind (ok_or (json_map v) (failure_new Invalid ''Expected an object'')) (\<lambda>m.
     if list_ex (\<lambda>f. fst f \<notin> set required \<and> fst f \<notin> set optional) m
     then Inl (failure_new Invalid ''Unknown request fields'')
     else case find (\<lambda>k. json_get k m = None) required of
       Some missing \<Rightarrow> Inl (failure_field (failure_new Invalid ''Required field is missing'') missing)
     | None \<Rightarrow> Inr m)"

definition check_list :: "json \<Rightarrow> nat \<Rightarrow> nat \<Rightarrow> json list result" where
  "check_list v minimum maximum =
     ok_or (opt_filter (\<lambda>vs. minimum \<le> length vs \<and> length vs \<le> maximum) (json_array v))
       (failure_new Invalid ''Expected a bounded list'')"

text \<open>\<open>value["key"]\<close>, which the code only uses for a field that \<open>check_object\<close> required.\<close>

definition json_at :: "string \<Rightarrow> json_map \<Rightarrow> json" where
  "json_at k m = (case json_get k m of Some v \<Rightarrow> v | None \<Rightarrow> JNull)"

section \<open>What the checks admit\<close>

named_theorems check_simps "the checks on the values that the printers build"

lemma check_simps_basic [check_simps]:
  "text_ok minimum maximum t \<Longrightarrow> check_text (JString t) minimum maximum = Inr t"
  "integer_ok lo hi n \<Longrightarrow> check_integer (JInt n) lo hi = Inr n"
  "check_boolean (JBool b) = Inr b"
  "t \<in> set choices \<Longrightarrow> check_choice (JString t) choices = Inr t"
  "identifier_ok t \<Longrightarrow> check_identifier (JString t) = Inr t"
  "name_ok t \<Longrightarrow> check_name (JString t) = Inr t"
  "secret_ok t \<Longrightarrow> check_secret (JString t) = Inr t"
  "m \<le> length vs \<Longrightarrow> length vs \<le> k \<Longrightarrow> check_list (JArray vs) m k = Inr vs"
  by (simp_all add: check_text_def check_integer_def check_boolean_def check_choice_def
      check_identifier_def check_name_def check_secret_def check_list_def integer_ok_def
      checked_i64_def i64_ok_def safe_integer_def)

lemma opt_filter_Some: "opt_filter p x = Some v \<longleftrightarrow> x = Some v \<and> p v"
  by (cases x) (auto simp: opt_filter_def)

lemma json_str_Some: "json_str v = Some t \<longleftrightarrow> v = JString t"
  by (cases v) auto

lemma json_map_Some: "json_map v = Some m \<longleftrightarrow> v = JObject m"
  by (cases v) auto

lemma json_array_Some: "json_array v = Some m \<longleftrightarrow> v = JArray m"
  by (cases v) auto

named_theorems check_iff "what a value is that passed a check"

lemma check_iff_basic [check_iff]:
  "check_text v minimum maximum = Inr t \<longleftrightarrow> v = JString t \<and> text_ok minimum maximum t"
  "check_choice v choices = Inr t \<longleftrightarrow> v = JString t \<and> t \<in> set choices"
  "check_identifier v = Inr t \<longleftrightarrow> v = JString t \<and> identifier_ok t"
  "check_name v = Inr t \<longleftrightarrow> v = JString t \<and> name_ok t"
  "check_secret v = Inr t \<longleftrightarrow> v = JString t \<and> secret_ok t"
  "check_list v lo hi = Inr vs \<longleftrightarrow> v = JArray vs \<and> lo \<le> length vs \<and> length vs \<le> hi"
  "check_integer v l u = Inr n \<longleftrightarrow> json_number v = Some n \<and> integer_ok l u n"
  by (auto simp: check_text_def check_choice_def check_identifier_def check_name_def check_secret_def
      check_list_def check_integer_def op_iff opt_filter_Some json_str_Some json_array_Some)

lemma check_object_Inr:
  "check_object v required optional = Inr m \<longleftrightarrow>
     v = JObject m \<and> fst ` set m \<subseteq> set required \<union> set optional \<and> set required \<subseteq> fst ` set m"
proof -
  have "find (\<lambda>k. json_get k m = None) required = None \<longleftrightarrow> set required \<subseteq> fst ` set m"
    by (auto simp: find_None_iff om_get_None)
  then show ?thesis
    by (cases v) (auto simp: check_object_def list_ex_iff op_iff split: option.splits)
qed

lemma check_object_json [check_simps]:
  "fst ` set es \<subseteq> set required \<union> set optional \<Longrightarrow> set required \<subseteq> fst ` set es \<Longrightarrow>
   check_object (JObject (json_object es)) required optional = Inr (json_object es)"
  by (simp only: check_object_Inr keys_om_of simp_thms)

lemma json_at_object [check_simps]:
  "json_at k (json_object es) = (case map_of (rev es) k of Some v \<Rightarrow> v | None \<Rightarrow> JNull)"
  by (simp add: json_at_def om_get_of)

end
