(* ===== verification/Room_Plan.thy ===== *)
theory Room_Plan
  imports Room_Read Fleet_Authority Contract_Values
begin

text \<open>
  Reviewed room plans of a fleet: \<open>domain/src/room_access/plan.rs\<close>. A preview lists the changes a plan
  makes with a digest of everything they rest on; applying it makes the preview again and commits all
  changes in one transaction, if the digest and the revisions are the reviewed ones. The order of keys
  and the digest of a preview (\<open>PlanEncoding\<close>) are arguments.
\<close>

record proposed_grant =
  pgrant_room_id :: string
  pgrant_intent :: intent

record proposed_agent =
  pagent_instance_key :: string
  pagent_grants :: "proposed_grant list"

record room_plan =
  plan_fleet_id :: string
  plan_agents :: "proposed_agent list"

record grant_snapshot =
  gsnap_room_id :: string
  gsnap_generation :: string
  gsnap_revision :: int

record plan_snapshot =
  psnap_agent_id :: string
  psnap_revision :: int
  psnap_grants :: "grant_snapshot list"

record named_change =
  nchange_authorization :: authorization
  nchange_agent_name :: string
  nchange_instance_key :: string
  nchange_room_name :: string
  nchange_room_alias :: "string option"

record plan_preview =
  preview_digest :: string
  preview_fleet_id :: string
  preview_fleet_revision :: int
  preview_snapshots :: "plan_snapshot list"
  preview_changes :: "named_change list"

record plan_encoding =
  enc_before :: "string \<Rightarrow> string \<Rightarrow> bool"
  enc_digest :: "plan_preview \<Rightarrow> string result"

text \<open>\<open>sort_by\<close>: the stable sort by the encoding's order of keys.\<close>

fun insert_by :: "(string \<Rightarrow> string \<Rightarrow> bool) \<Rightarrow> ('a \<Rightarrow> string) \<Rightarrow> 'a \<Rightarrow> 'a list \<Rightarrow> 'a list" where
  "insert_by before key x [] = [x]"
| "insert_by before key x (y # ys) =
     (if before (key x) (key y) then x # y # ys else y # insert_by before key x ys)"

definition sort_by :: "(string \<Rightarrow> string \<Rightarrow> bool) \<Rightarrow> ('a \<Rightarrow> string) \<Rightarrow> 'a list \<Rightarrow> 'a list" where
  "sort_by before key xs = foldr (insert_by before key) xs []"

fun utf16_units :: "nat \<Rightarrow> nat list" where
  "utf16_units c = (if c < 0x10000 then [c]
     else [0xD800 + (c - 0x10000) div 0x400, 0xDC00 + (c - 0x10000) mod 0x400])"

definition encode_utf16 :: "string \<Rightarrow> nat list" where
  "encode_utf16 v = concat (map utf16_units (chars v))"

section \<open>The preview\<close>

definition plan_agents_valid :: "room_plan \<Rightarrow> unit result" where
  "plan_agents_valid p = guard_r (plan_agents p \<noteq> [] \<and> length (plan_agents p) \<le> 100 \<and>
       distinct (map pagent_instance_key (plan_agents p)))
     (failure_new Invalid (''Choose 1'' @ en_dash @ ''100 unique fleet instances''))"

definition plan_grants_valid :: "proposed_agent \<Rightarrow> unit result" where
  "plan_grants_valid v = guard_r (length (pagent_grants v) \<le> 100 \<and>
       distinct (map pgrant_room_id (pagent_grants v)) \<and>
       list_all (\<lambda>g. intent_access (pgrant_intent g) \<noteq> AccessNone) (pagent_grants v))
     (failure_new Invalid ''A room plan lists up to 100 unique active grants per agent'')"

definition plan_fleet :: "actor \<Rightarrow> string \<Rightarrow> int \<Rightarrow> fleet db" where
  "plan_fleet a fid now =
     bind_op (require_some (repo_fleet fid) (failure_new Missing ''Fleet not found'')) (\<lambda>f.
     bind_op (authorize_fleet (FleetPrincipal a) f True now) (\<lambda>_. return_op f))"

definition plan_target ::
  "codec \<Rightarrow> actor \<Rightarrow> fleet \<Rightarrow> string \<Rightarrow> int \<Rightarrow>
   (principal \<times> string \<times> grant list \<times> owner_conversation option) db" where
  "plan_target J a f instance_key now =
     bind_op (require_op (repo_fleet_instance (fleet_owner_id f) (fleet_key f) instance_key)
       (\<lambda>b. inst_retired_at b = None)
       (failure_new Missing (''Fleet instance is not registered: '' @ instance_key))) (\<lambda>b.
     bind_op (authorize_agent a (inst_agent_id b) ManageRoomGrant now) (\<lambda>_.
     bind_op (require_some (repo_principal (inst_agent_id b))
       (failure_new Missing ''Target agent not found'')) (\<lambda>target.
     bind_op (require_some (repo_agent_name (inst_agent_id b))
       (failure_new Unavailable ''Agent name is missing'')) (\<lambda>name.
     bind_op (repo_room_grants J (inst_agent_id b)) (\<lambda>current.
     bind_op (repo_owner_conversation (inst_agent_id b)) (\<lambda>conversation.
     return_op (target, name, current, conversation)))))))"

definition in_conversation :: "owner_conversation option \<Rightarrow> string \<Rightarrow> bool" where
  "in_conversation conversation room \<longleftrightarrow>
     (case conversation of None \<Rightarrow> False | Some c \<Rightarrow> own_room_id c = room)"

definition take_plan_snapshot :: "plan_encoding \<Rightarrow> principal \<Rightarrow> grant list \<Rightarrow> plan_snapshot" where
  "take_plan_snapshot E target current = \<lparr>psnap_agent_id = principal_id target,
     psnap_revision = principal_revision target,
     psnap_grants = sort_by (enc_before E) gsnap_room_id (map (\<lambda>g. \<lparr>gsnap_room_id = grant_room_id g,
       gsnap_generation = grant_generation g, gsnap_revision = grant_revision g\<rparr>) current)\<rparr>"

definition plan_room_ids ::
  "grant list \<Rightarrow> owner_conversation option \<Rightarrow> proposed_grant list \<Rightarrow> string list" where
  "plan_room_ids current conversation wanted = sort_key encode_utf16 (sort (remdups
     (map grant_room_id (filter (\<lambda>g. \<not> in_conversation conversation (grant_room_id g)) current) @
      map pgrant_room_id wanted)))"

definition no_access :: intent where
  "no_access = \<lparr>intent_access = AccessNone, intent_native_access = None, intent_muted = False\<rparr>"

definition planned_change :: "principal \<Rightarrow> grant list \<Rightarrow> proposed_grant list \<Rightarrow> string \<Rightarrow> room_change" where
  "planned_change target current wanted room = \<lparr>change_agent_id = principal_id target,
     change_room_id = room, change_expected_revision = principal_revision target,
     change_expected_generation =
       map_option grant_generation (find_row (\<lambda>g. grant_room_id g = room) current),
     change_intent = (case find_row (\<lambda>g. pgrant_room_id g = room) wanted of None \<Rightarrow> no_access
       | Some g \<Rightarrow> pgrant_intent g)\<rparr>"

text \<open>The name a review shows: what the backend says of the room, or the room's identifier.\<close>

definition plan_room_label ::
  "codec \<Rightarrow> 'b messaging \<Rightarrow> actor \<Rightarrow> string \<Rightarrow> string \<Rightarrow> authorization \<Rightarrow> int \<Rightarrow>
   ('b room_world, failure, string \<times> string option) op" where
  "plan_room_label J M a agent room p now = (case proof_native p of
     Some facts \<Rightarrow> return_op (facts_name facts, facts_alias facts)
   | None \<Rightarrow> (\<lambda>w. case view_room J M a room (Some agent) now w of
       (Inl _, v) \<Rightarrow> (Inr (room, None), v)
     | (Inr d, v) \<Rightarrow> (Inr (room_name d, room_alias d), v)))"

fun plan_changes ::
  "codec \<Rightarrow> 'b messaging \<Rightarrow> actor \<Rightarrow> principal \<Rightarrow> string \<Rightarrow> string \<Rightarrow> grant list \<Rightarrow> proposed_grant list \<Rightarrow>
   int \<Rightarrow> string list \<Rightarrow> ('b room_world, failure, named_change list) op" where
  "plan_changes J M a target name key current wanted now [] = return_op []"
| "plan_changes J M a target name key current wanted now (r # rs) =
     bind_op (authorize_room J M a (planned_change target current wanted r) None now) (\<lambda>p.
     bind_op (plan_room_label J M a (principal_id target) r p now) (\<lambda>(label, alias).
     bind_op (plan_changes J M a target name key current wanted now rs) (\<lambda>rest.
     return_op (\<lparr>nchange_authorization = p, nchange_agent_name = name, nchange_instance_key = key,
       nchange_room_name = label, nchange_room_alias = alias\<rparr> # rest))))"

fun plan_selected ::
  "codec \<Rightarrow> 'b messaging \<Rightarrow> plan_encoding \<Rightarrow> actor \<Rightarrow> fleet \<Rightarrow> int \<Rightarrow> proposed_agent list \<Rightarrow>
   ('b room_world, failure, plan_snapshot list \<times> named_change list) op" where
  "plan_selected J M E a f now [] = return_op ([], [])"
| "plan_selected J M E a f now (v # vs) =
     bind_op (lift_op (plan_grants_valid v)) (\<lambda>_.
     bind_op (on_store (plan_target J a f (pagent_instance_key v) now))
       (\<lambda>(target, name, current, conversation).
     if list_ex (\<lambda>g. in_conversation conversation (pgrant_room_id g)) (pagent_grants v)
     then fail_op (failure_new Invalid ''Owner DMs are built in and must not appear in a room plan'') else
     bind_op (plan_changes J M a target name (pagent_instance_key v) current (pagent_grants v) now
       (plan_room_ids current conversation (pagent_grants v))) (\<lambda>changes.
     bind_op (plan_selected J M E a f now vs) (\<lambda>(snaps, rest).
     return_op (take_plan_snapshot E target current # snaps, changes @ rest)))))"

definition fleet_unchanged :: "string \<Rightarrow> int \<Rightarrow> unit db" where
  "fleet_unchanged fid revision =
     bind_op (repo_fleet fid) (\<lambda>current.
     if (case current of None \<Rightarrow> True | Some f \<Rightarrow> fleet_revision f \<noteq> revision)
     then fail_op (failure_new Conflict ''Fleet changed during review'') else return_op ())"

definition preview_plan ::
  "codec \<Rightarrow> 'b messaging \<Rightarrow> plan_encoding \<Rightarrow> actor \<Rightarrow> room_plan \<Rightarrow> int \<Rightarrow>
   ('b room_world, failure, plan_preview) op" where
  "preview_plan J M E a p now =
     bind_op (lift_op (guard_r (actor_kind a = Human)
       (failure_new Forbidden ''Only a human can review a fleet room plan''))) (\<lambda>_.
     bind_op (lift_op (plan_agents_valid p)) (\<lambda>_.
     bind_op (on_store (plan_fleet a (plan_fleet_id p) now)) (\<lambda>f.
     bind_op (plan_selected J M E a f now (sort_by (enc_before E) pagent_instance_key (plan_agents p)))
       (\<lambda>(snaps, changes).
     bind_op (on_store (fleet_unchanged (plan_fleet_id p) (fleet_revision f))) (\<lambda>_.
     let result = \<lparr>preview_digest = [], preview_fleet_id = fleet_id f,
           preview_fleet_revision = fleet_revision f, preview_snapshots = snaps,
           preview_changes = changes\<rparr>
     in bind_op (lift_op (enc_digest E result)) (\<lambda>digest.
        return_op (result\<lparr>preview_digest := digest\<rparr>)))))))"

section \<open>Applying a reviewed plan\<close>

definition plan_agent_revision :: "named_change list \<Rightarrow> plan_snapshot \<Rightarrow> unit db" where
  "plan_agent_revision changes v =
     (if \<not> list_ex (\<lambda>c. change_agent_id (proof_input (nchange_authorization c)) = psnap_agent_id v \<and>
          proof_changed (nchange_authorization c)) changes
      then return_op () else
      bind_op (require_op (repo_principal (psnap_agent_id v)) (\<lambda>p. principal_revision p = psnap_revision v)
        (failure_new Conflict ''Agent revision changed'')) (\<lambda>p.
      bind_op (lift_op (ok_or (checked_i64 (principal_revision p + 1))
        (failure_new Conflict ''Agent revision exhausted''))) (\<lambda>revision.
      repo_save_principal (p\<lparr>principal_revision := revision\<rparr>))))"

text \<open>The change at position \<open>i\<close> takes the fresh generation and audit identifier \<open>ids i\<close>.\<close>

definition commit_plan ::
  "codec \<Rightarrow> actor \<Rightarrow> plan_preview \<Rightarrow> string \<Rightarrow> (nat \<Rightarrow> string \<times> string) \<Rightarrow> int \<Rightarrow> string list db" where
  "commit_plan J a v request ids now = transaction (
     bind_op (require_op (repo_fleet (preview_fleet_id v))
       (\<lambda>f. fleet_revision f = preview_fleet_revision v)
       (failure_new Conflict ''Fleet changed; review a new preview'')) (\<lambda>f.
     bind_op (authorize_fleet (FleetPrincipal a) f True now) (\<lambda>_.
     bind_op (for_each_op (\<lambda>c. recheck J a (nchange_authorization c) now) (preview_changes v)) (\<lambda>_.
     bind_op (for_each_op (\<lambda>(c, gid, ev). bind_op (commit J a (nchange_authorization c) request False gid ev now)
         (\<lambda>_. return_op ())) (zip (preview_changes v)
         (map ids [0..<length (preview_changes v)]))) (\<lambda>_.
     bind_op (for_each_op (plan_agent_revision (preview_changes v)) (preview_snapshots v)) (\<lambda>_.
     return_op (map psnap_agent_id (preview_snapshots v))))))))"

definition apply_plan ::
  "codec \<Rightarrow> 'b messaging \<Rightarrow> plan_encoding \<Rightarrow> actor \<Rightarrow> room_plan \<Rightarrow> string \<Rightarrow> plan_snapshot list \<Rightarrow> string \<Rightarrow>
   (nat \<Rightarrow> string \<times> string) \<Rightarrow> int \<Rightarrow> int \<Rightarrow> ('b room_world, failure, string list) op" where
  "apply_plan J M E a p digest snaps request ids now later =
     bind_op (preview_plan J M E a p now) (\<lambda>v.
     if preview_digest v \<noteq> digest \<or> preview_snapshots v \<noteq> snaps
     then fail_op (failure_new Conflict
       ''Room plan, native authority or revisions changed; review a new preview'')
     else on_store (commit_plan J a v request ids later))"

end
