(* ===== verification/Room_Invariants.thy ===== *)
theory Room_Invariants
  imports Room_Plan Outcomes Transition
begin

text \<open>
  What the operations on rooms keep. The private conversation of an agent with its owner stays private
  and answerable, no agent enters a management conversation, and a delegation lives only while the
  membership it belongs to is active. The first two rest on the triggers of the schema, the last on
  the order of the statements in \<open>commit\<close>.
\<close>

section \<open>The invariant\<close>

definition private_ok :: "room_tables \<Rightarrow> bool" where
  "private_ok t \<longleftrightarrow> (\<forall>c \<in> set (owner_conversations t).
     (\<exists>r \<in> set (room_grants t). private_grant c r) \<and>
     (\<forall>r \<in> set (room_grants t). grrow_room_id r = own_room_id c \<and> grrow_agent_id r \<noteq> own_agent_id c \<longrightarrow>
        grrow_access_mode r = ''none'') \<and>
     (\<forall>q \<in> set (room_permissions t). rprow_room_id q \<noteq> own_room_id c) \<and>
     (\<forall>m \<in> set (management_conversations t). conv_room_id m \<noteq> own_room_id c))"

definition management_ok :: "room_tables \<Rightarrow> bool" where
  "management_ok t \<longleftrightarrow> (\<forall>m \<in> set (management_conversations t).
     (\<forall>r \<in> set (room_grants t). grrow_room_id r = conv_room_id m \<longrightarrow> grrow_access_mode r = ''none'') \<and>
     (\<forall>q \<in> set (room_permissions t). rprow_room_id q \<noteq> conv_room_id m))"

definition delegated_ok :: "room_tables \<Rightarrow> bool" where
  "delegated_ok t \<longleftrightarrow> (\<forall>q \<in> set (room_permissions t). \<forall>r \<in> set (room_grants t).
     same_room (rprow_agent_id q) (rprow_room_id q) r \<longrightarrow> grrow_access_mode r \<noteq> ''none'')"

definition rooms_ok :: "store \<Rightarrow> bool" where
  "rooms_ok s \<longleftrightarrow> store_ok s \<and> private_ok (rooms s) \<and> management_ok (rooms s) \<and> delegated_ok (rooms s)"

lemma rooms_okD:
  "rooms_ok s \<Longrightarrow> store_ok s" "rooms_ok s \<Longrightarrow> private_ok (rooms s)"
  "rooms_ok s \<Longrightarrow> management_ok (rooms s)" "rooms_ok s \<Longrightarrow> delegated_ok (rooms s)"
  by (simp_all add: rooms_ok_def)

lemma rooms_unique:
  assumes "store_ok s"
  shows "unique_on (\<lambda>r. (grrow_agent_id r, grrow_room_id r)) (room_grants (rooms s))"
    "unique_on own_agent_id (owner_conversations (rooms s))"
    "unique_on own_room_id (owner_conversations (rooms s))"
  using assms by (simp_all add: store_ok_def uniques_ok_def room_uniques_ok_def)

lemma same_grant:
  "store_ok s \<Longrightarrow> q \<in> set (room_grants (rooms s)) \<Longrightarrow> r \<in> set (room_grants (rooms s)) \<Longrightarrow>
   same_room (grrow_agent_id r) (grrow_room_id r) q \<Longrightarrow> q = r"
  using unique_on_eq [OF rooms_unique(1)] by (fastforce simp: same_room_def)

section \<open>Statements\<close>

lemma rooms_simps [simp]:
  "rooms (on_rooms f s) = f (rooms s)" "principals (on_rooms f s) = principals s"
  by (simp_all add: on_rooms_def)

text \<open>A statement on another table leaves the rooms as they are.\<close>

definition off_rooms :: "'a db \<Rightarrow> bool" where
  "off_rooms m \<longleftrightarrow> (\<forall>s. rooms (snd (m s)) = rooms s) \<and> keeps store_ok m"

lemma off_rooms_keeps: "off_rooms m \<Longrightarrow> keeps rooms_ok m"
  by (auto simp: off_rooms_def keeps_def rooms_ok_def)

lemma off_rooms_execute: "(\<And>s. rooms (f s) = rooms s) \<Longrightarrow> off_rooms (execute f)"
  unfolding off_rooms_def execute_def by (auto simp: keeps_def store_ok_def)

lemma off_rooms_counted: "(\<And>s. rooms (f s) = rooms s) \<Longrightarrow> off_rooms (execute_counted n f)"
  using off_rooms_execute [of f]
  unfolding off_rooms_def execute_counted_def keeps_def
  by (auto split: prod.splits sum.splits) (metis snd_conv)+

lemma off_rooms_bind: "off_rooms m \<Longrightarrow> (\<And>v. off_rooms (f v)) \<Longrightarrow> off_rooms (bind_op m f)"
  unfolding off_rooms_def by (auto intro: keeps_bind simp: bind_op_def split: prod.splits sum.splits)
    (metis snd_conv)+

lemma off_rooms_query: "query m \<Longrightarrow> off_rooms m"
  by (simp add: off_rooms_def query_def keeps_def)

lemma off_rooms_save_principal: "off_rooms (repo_save_principal v)"
  unfolding repo_save_principal_def by (intro off_rooms_bind off_rooms_counted off_rooms_query) simp_all

lemma off_rooms_audit: "off_rooms (repo_audit ev v)"
  unfolding repo_audit_def by (rule off_rooms_execute) simp

text \<open>A statement that only touches applications, policies or nothing the invariant reads.\<close>

lemma keeps_room_execute:
  assumes "\<And>t. private_ok t \<Longrightarrow> private_ok (f t)" "\<And>t. management_ok t \<Longrightarrow> management_ok (f t)"
    "\<And>t. delegated_ok t \<Longrightarrow> delegated_ok (f t)"
  shows "keeps rooms_ok (execute (on_rooms f))"
  by (rule keepsI) (use assms in \<open>auto simp: execute_def rooms_ok_def store_ok_def split: if_splits\<close>)

lemma keeps_other_table:
  assumes "\<And>t. room_grants (f t) = room_grants t" "\<And>t. room_permissions (f t) = room_permissions t"
    "\<And>t. owner_conversations (f t) = owner_conversations t"
    "\<And>t. management_conversations (f t) = management_conversations t"
  shows "keeps rooms_ok (execute (on_rooms f))"
  by (rule keeps_room_execute) (simp_all add: private_ok_def management_ok_def delegated_ok_def assms)

lemma keeps_save_application: "keeps rooms_ok (repo_save_room_application J v new)"
proof (rule keepsI)
  fix s r s'
  assume ok: "rooms_ok s" and run: "repo_save_room_application J v new s = (r, s')"
  have "keeps rooms_ok (bind_op (execute (on_rooms (\<lambda>t. t\<lparr>room_applications := f t\<rparr>)))
      (\<lambda>_. if b then return_op () else fail_op e))" for f b and e :: failure
    by (intro keeps_bind keeps_other_table keeps_if keeps_return keeps_fail) simp_all
  note updated = keepsD [OF this ok]
  have "keeps rooms_ok (execute (on_rooms (\<lambda>t. t\<lparr>room_applications := f t\<rparr>)))" for f
    by (rule keeps_other_table) simp_all
  note inserted = keepsD [OF this ok]
  show "rooms_ok s'"
    using run unfolding repo_save_room_application_def Let_def
    by (cases new) (simp_all only: if_True if_False updated inserted)
qed

lemma keeps_approve_policy: "keeps rooms_ok (repo_approve_fleet_policy v)"
  unfolding repo_approve_fleet_policy_def
  by (intro keeps_bind keeps_other_table keeps_if keeps_return) (simp_all add: Let_def)

section \<open>Grants\<close>

definition no_delegation :: "string \<Rightarrow> string \<Rightarrow> store \<Rightarrow> bool" where
  "no_delegation agent room s \<longleftrightarrow> (\<forall>q \<in> set (room_permissions (rooms s)). \<not> same_permission agent room q)"

definition grant_active :: "string \<Rightarrow> string \<Rightarrow> store \<Rightarrow> bool" where
  "grant_active agent room s \<longleftrightarrow> (\<forall>r \<in> set (room_grants (rooms s)). same_room agent room r \<longrightarrow>
     grrow_access_mode r \<noteq> ''none'')"

definition grants_after :: "codec \<Rightarrow> grant \<Rightarrow> bool \<Rightarrow> room_tables \<Rightarrow> room_grant_row list" where
  "grants_after J v new t = (if new then room_grants t @ [grant_row_of J v]
     else update_rows (same_room (grant_agent_id v) (grant_room_id v)) (\<lambda>_. grant_row_of J v) (room_grants t))"

lemma save_room_grant_Inr:
  assumes "repo_save_room_grant J v new s = (Inr u, s')"
  shows "s' = on_rooms (\<lambda>t. t\<lparr>room_grants := grants_after J v new t\<rparr>) s" "store_ok s'"
    "\<not> private_intrusion (grant_row_of J v) (rooms s)" "\<not> management_intrusion (grant_row_of J v) (rooms s)"
    "new \<or> \<not> owner_grant_broken (grant_row_of J v) (rooms s)"
    "new \<or> (\<exists>r \<in> set (room_grants (rooms s)). same_room (grant_agent_id v) (grant_room_id v) r)"
proof -
  have "s' = on_rooms (\<lambda>t. t\<lparr>room_grants := grants_after J v new t\<rparr>) s \<and> store_ok s' \<and>
    \<not> private_intrusion (grant_row_of J v) (rooms s) \<and> \<not> management_intrusion (grant_row_of J v) (rooms s) \<and>
    (new \<or> \<not> owner_grant_broken (grant_row_of J v) (rooms s)) \<and>
    (new \<or> count_rows (same_room (grant_agent_id v) (grant_room_id v)) (room_grants (rooms s)) = 1)"
    using assms unfolding repo_save_room_grant_def Let_def grants_after_def
    by (auto simp: op_iff split: if_splits)
  moreover have "\<exists>r \<in> set xs. p r" if "count_rows p xs = 1" for p and xs :: "room_grant_row list"
    using that by (metis (no_types, lifting) One_nat_def count_rows_def filter_False length_0_conv
        nat.simps(3))
  ultimately show "s' = on_rooms (\<lambda>t. t\<lparr>room_grants := grants_after J v new t\<rparr>) s" "store_ok s'"
    "\<not> private_intrusion (grant_row_of J v) (rooms s)" "\<not> management_intrusion (grant_row_of J v) (rooms s)"
    "new \<or> \<not> owner_grant_broken (grant_row_of J v) (rooms s)"
    "new \<or> (\<exists>r \<in> set (room_grants (rooms s)). same_room (grant_agent_id v) (grant_room_id v) r)"
    by blast+
qed

lemma grants_after_cases:
  assumes "r \<in> set (grants_after J v new t)"
  obtains "r = grant_row_of J v" | "r \<in> set (room_grants t)"
    "new \<or> \<not> same_room (grant_agent_id v) (grant_room_id v) r"
  using assms by (auto simp: grants_after_def update_rows_set split: if_splits)

lemma grants_after_keep:
  "r \<in> set (room_grants t) \<Longrightarrow> new \<or> \<not> same_room (grant_agent_id v) (grant_room_id v) r \<Longrightarrow>
   r \<in> set (grants_after J v new t)"
  by (auto simp: grants_after_def intro: update_rows_miss)

lemma grants_after_hit:
  "r \<in> set (room_grants t) \<Longrightarrow> same_room (grant_agent_id v) (grant_room_id v) r \<Longrightarrow>
   grant_row_of J v \<in> set (grants_after J v False t)"
  unfolding grants_after_def using update_rows_hit by fastforce

lemma grant_row_of_simps [simp]:
  "grrow_agent_id (grant_row_of J v) = grant_agent_id v" "grrow_room_id (grant_row_of J v) = grant_room_id v"
  "grrow_generation (grant_row_of J v) = grant_generation v"
  "grrow_authorizer_id (grant_row_of J v) = grant_authorizer_id v"
  "grrow_added_by_id (grant_row_of J v) = grant_added_by_id v"
  "grrow_access_mode (grant_row_of J v) = access_code (intent_access (grant_intent v))"
  "grrow_revision (grant_row_of J v) = grant_revision v"
  by (simp_all add: grant_row_of_def)

lemma access_code_none [simp]:
  "access_code a = ''none'' \<longleftrightarrow> a = AccessNone" "access_code a = ''reply'' \<longleftrightarrow> a = AccessReply"
  by (cases a; simp)+

lemma yields_save_grant:
  "yields (\<lambda>s. rooms_ok s \<and> (intent_access (grant_intent v) = AccessNone \<longrightarrow>
       no_delegation (grant_agent_id v) (grant_room_id v) s))
     (repo_save_room_grant J v new) (\<lambda>_. rooms_ok)"
proof (rule yieldsI, elim conjE)
  fix s u s'
  assume ok: "rooms_ok s" and none: "intent_access (grant_intent v) = AccessNone \<longrightarrow>
      no_delegation (grant_agent_id v) (grant_room_id v) s"
    and run: "repo_save_room_grant J v new s = (Inr u, s')"
  let ?t = "rooms s" and ?r = "grant_row_of J v"
  note saved = save_room_grant_Inr [OF run]
  let ?t' = "?t\<lparr>room_grants := grants_after J v new ?t\<rparr>"
  have rooms: "rooms s' = ?t'" by (simp add: saved(1))
  have "private_ok ?t'"
    unfolding private_ok_def
  proof (intro ballI conjI impI)
    fix c assume c: "c \<in> set (owner_conversations ?t')"
    with rooms_okD(2) [OF ok] have old: "\<exists>r \<in> set (room_grants ?t). private_grant c r"
      "\<forall>r \<in> set (room_grants ?t). grrow_room_id r = own_room_id c \<and> grrow_agent_id r \<noteq> own_agent_id c \<longrightarrow>
        grrow_access_mode r = ''none''"
      "\<forall>q \<in> set (room_permissions ?t). rprow_room_id q \<noteq> own_room_id c"
      "\<forall>m \<in> set (management_conversations ?t). conv_room_id m \<noteq> own_room_id c"
      by (auto simp: private_ok_def)
    from old(1) obtain g where g: "g \<in> set (room_grants ?t)" "private_grant c g" by blast
    show "\<exists>r \<in> set (room_grants ?t'). private_grant c r"
    proof (cases "\<not> new \<and> same_room (grant_agent_id v) (grant_room_id v) g")
      case True
      with g c saved(5) have "private_grant c ?r"
        by (auto simp: owner_grant_broken_def private_grant_def same_room_def list_ex_iff)
      with grants_after_hit [OF g(1), of v] True show ?thesis by auto
    next
      case False
      with g grants_after_keep [OF g(1), of new v] show ?thesis by auto
    qed
    show "grrow_access_mode r = ''none''" if r: "r \<in> set (room_grants ?t')"
      "grrow_room_id r = own_room_id c \<and> grrow_agent_id r \<noteq> own_agent_id c" for r
      using r(1) saved(3) old(2) r(2) c
      by (auto elim!: grants_after_cases simp: private_intrusion_def list_ex_iff)
    show "rprow_room_id q \<noteq> own_room_id c" if "q \<in> set (room_permissions ?t')" for q
      using that old(3) by simp
    show "conv_room_id m \<noteq> own_room_id c" if "m \<in> set (management_conversations ?t')" for m
      using that old(4) by simp
  qed
  moreover have "management_ok ?t'"
    using rooms_okD(3) [OF ok] saved(4)
    by (auto simp: management_ok_def management_intrusion_def list_ex_iff elim!: grants_after_cases)
  moreover have "delegated_ok ?t'"
    using rooms_okD(4) [OF ok] none
    by (auto simp: delegated_ok_def no_delegation_def same_room_def same_permission_def
        elim!: grants_after_cases)
  ultimately show "rooms_ok s'" using saved(2) rooms by (simp add: rooms_ok_def)
qed

section \<open>Delegations\<close>

lemma yields_withdraw:
  "yields rooms_ok (repo_replace_room_permissions agent room None)
     (\<lambda>_ s. rooms_ok s \<and> no_delegation agent room s)"
proof (rule yieldsI)
  fix s u s'
  assume ok: "rooms_ok s" and run: "repo_replace_room_permissions agent room None s = (Inr u, s')"
  let ?f = "\<lambda>t. t\<lparr>room_permissions := filter (\<lambda>r. \<not> same_permission agent room r) (room_permissions t)\<rparr>"
  from run have s': "execute (on_rooms ?f) s = (Inr (), s')"
    unfolding repo_replace_room_permissions_def by (auto simp: op_iff)
  have "keeps rooms_ok (execute (on_rooms ?f))"
    by (rule keeps_room_execute) (auto simp: private_ok_def management_ok_def delegated_ok_def)
  from keepsD [OF this ok s'] s' show "rooms_ok s' \<and> no_delegation agent room s'"
    by (auto simp: op_iff no_delegation_def)
qed

lemma yields_insert_permission:
  "yields (\<lambda>s. rooms_ok s \<and> grant_active (rperm_agent_id v) (rperm_room_id v) s)
     (insert_room_permission v) (\<lambda>_. rooms_ok)"
proof (rule yieldsI, elim conjE)
  fix s u s'
  assume ok: "rooms_ok s" and active: "grant_active (rperm_agent_id v) (rperm_room_id v) s"
    and run: "insert_room_permission v s = (Inr u, s')"
  let ?t' = "(rooms s)\<lparr>room_permissions := room_permissions (rooms s) @ [room_permission_row_of v]\<rparr>"
  from run have s': "store_ok s'" "rooms s' = ?t'"
    and free: "\<forall>c \<in> set (owner_conversations (rooms s)). own_room_id c \<noteq> rperm_room_id v"
      "\<forall>m \<in> set (management_conversations (rooms s)). conv_room_id m \<noteq> rperm_room_id v"
    by (auto simp: insert_room_permission_def op_iff list_ex_iff split: if_splits)
  have row: "rprow_agent_id (room_permission_row_of v) = rperm_agent_id v"
    "rprow_room_id (room_permission_row_of v) = rperm_room_id v"
    by (simp_all add: room_permission_row_of_def)
  have "private_ok ?t'" "management_ok ?t'"
    using rooms_okD(2,3) [OF ok] free by (auto simp: private_ok_def management_ok_def row)
  moreover have "delegated_ok ?t'"
    using rooms_okD(4) [OF ok] active by (auto simp: delegated_ok_def grant_active_def row)
  ultimately show "rooms_ok s'" using s' by (simp add: rooms_ok_def)
qed

lemma yields_replace_permission:
  "yields (\<lambda>s. rooms_ok s \<and> (case v of None \<Rightarrow> True
       | Some q \<Rightarrow> grant_active (rperm_agent_id q) (rperm_room_id q) s))
     (repo_replace_room_permissions agent room v) (\<lambda>_. rooms_ok)"
proof (rule yieldsI, elim conjE)
  fix s u s'
  assume ok: "rooms_ok s" and active: "case v of None \<Rightarrow> True
       | Some q \<Rightarrow> grant_active (rperm_agent_id q) (rperm_room_id q) s"
    and run: "repo_replace_room_permissions agent room v s = (Inr u, s')"
  let ?f = "\<lambda>t. t\<lparr>room_permissions := filter (\<lambda>r. \<not> same_permission agent room r) (room_permissions t)\<rparr>"
  from run have mid: "repo_replace_room_permissions agent room None s = (Inr (), on_rooms ?f s)"
    and rest: "(case v of None \<Rightarrow> return_op () | Some p \<Rightarrow> insert_room_permission p) (on_rooms ?f s) = (Inr u, s')"
    unfolding repo_replace_room_permissions_def by (auto simp: op_iff)
  from yieldsD [OF yields_withdraw ok mid] have ok': "rooms_ok (on_rooms ?f s)" by blast
  show "rooms_ok s'"
  proof (cases v)
    case None
    with rest ok' show ?thesis by simp
  next
    case (Some q)
    with active have "grant_active (rperm_agent_id q) (rperm_room_id q) (on_rooms ?f s)"
      by (simp add: grant_active_def)
    from yieldsD [OF yields_insert_permission conjI [OF ok' this]] rest Some show ?thesis by simp
  qed
qed

section \<open>Private and management conversations\<close>

lemma keeps_insert_owner_conversation: "keeps rooms_ok (repo_insert_owner_conversation v)"
proof (rule keepsI)
  fix s r s'
  assume ok: "rooms_ok s" and run: "repo_insert_owner_conversation v s = (r, s')"
  let ?t' = "(rooms s)\<lparr>owner_conversations := owner_conversations (rooms s) @ [v]\<rparr>"
  show "rooms_ok s'"
  proof (cases r)
    case (Inl e)
    with run ok show ?thesis
      by (auto simp: repo_insert_owner_conversation_def dest: execute_Inl split: if_splits)
  next
    case (Inr u)
    with run have s': "store_ok s'" "rooms s' = ?t'"
      and new: "\<exists>g \<in> set (room_grants (rooms s)). private_grant v g"
        "\<forall>g \<in> set (room_grants (rooms s)). grrow_room_id g = own_room_id v \<longrightarrow>
           grrow_agent_id g \<noteq> own_agent_id v \<longrightarrow> grrow_access_mode g = ''none''"
        "\<forall>q \<in> set (room_permissions (rooms s)). rprow_room_id q \<noteq> own_room_id v"
        "\<forall>m \<in> set (management_conversations (rooms s)). conv_room_id m \<noteq> own_room_id v"
      by (auto simp: repo_insert_owner_conversation_def op_iff list_ex_iff split: if_splits)
    from rooms_okD(2) [OF ok] new have "private_ok ?t'" by (auto simp: private_ok_def)
    with s' rooms_okD(3,4) [OF ok] show ?thesis
      by (simp add: rooms_ok_def management_ok_def delegated_ok_def)
  qed
qed

lemma keeps_insert_management_conversation: "keeps rooms_ok (repo_insert_management_conversation v)"
proof (rule keepsI)
  fix s r s'
  assume ok: "rooms_ok s" and run: "repo_insert_management_conversation v s = (r, s')"
  let ?t' = "(rooms s)\<lparr>management_conversations := management_conversations (rooms s) @ [v]\<rparr>"
  show "rooms_ok s'"
  proof (cases r)
    case (Inl e)
    with run ok show ?thesis
      by (auto simp: repo_insert_management_conversation_def dest: execute_Inl split: if_splits)
  next
    case (Inr u)
    with run have s': "store_ok s'" "rooms s' = ?t'"
      and new: "\<forall>g \<in> set (room_grants (rooms s)). grrow_room_id g = conv_room_id v \<longrightarrow>
           grrow_access_mode g = ''none''"
        "\<forall>c \<in> set (owner_conversations (rooms s)). own_room_id c \<noteq> conv_room_id v"
        "\<forall>q \<in> set (room_permissions (rooms s)). rprow_room_id q \<noteq> conv_room_id v"
      by (auto simp: repo_insert_management_conversation_def op_iff list_ex_iff split: if_splits)
    from rooms_okD(2,3) [OF ok] new have "private_ok ?t'" "management_ok ?t'"
      by (auto simp: private_ok_def management_ok_def)
    with s' rooms_okD(4) [OF ok] show ?thesis by (simp add: rooms_ok_def delegated_ok_def)
  qed
qed

section \<open>Operations\<close>

lemma repo_room_grant_Some:
  assumes "store_ok s" "repo_room_grant J agent room s = (Inr (Some g), s')"
  shows "\<exists>r \<in> set (room_grants (rooms s)). same_room agent room r \<and> grant_of_row J r = Inr g"
  using assms(2) by (auto simp: repo_room_grant_def op_iff dest!: find_row_SomeD)

lemma grant_row_active:
  assumes "store_ok s" "repo_room_grant J agent room s = (Inr (Some g), s')"
    "intent_access (grant_intent g) \<noteq> AccessNone"
  shows "grant_active agent room s"
proof -
  from repo_room_grant_Some [OF assms(1,2)] obtain r where r: "r \<in> set (room_grants (rooms s))"
    "same_room agent room r" "grant_of_row J r = Inr g" by blast
  have "q = r" if "q \<in> set (room_grants (rooms s))" "same_room agent room q" for q
    using same_grant [OF assms(1) that(1) r(1)] that(2) r(2) by (simp add: same_room_def)
  moreover have "grrow_access_mode r \<noteq> ''none''"
    using grant_of_row_key [OF r(3)] assms(3) by simp
  ultimately show ?thesis by (auto simp: grant_active_def)
qed

lemma yields_apply_fleet_permissions:
  "yields (\<lambda>s. rooms_ok s \<and> grant_active (grant_agent_id g) (grant_room_id g) s)
     (apply_fleet_permissions g now) (\<lambda>_. rooms_ok)"
  unfolding apply_fleet_permissions_def
proof (rule yields_bind [OF yields_query], simp)
  fix approved
  show "yields (\<lambda>s. rooms_ok s \<and> grant_active (grant_agent_id g) (grant_room_id g) s)
    (case approved of None \<Rightarrow> return_op ()
     | Some pol \<Rightarrow> if intent_access (grant_intent g) = AccessNone then return_op () else
         bind_op (private_room (grant_room_id g)) (\<lambda>private. if private then return_op () else
         bind_op (require_op (repo_principal (approved_by_member_id pol))
           (\<lambda>w. principal_status w = Active)
           (failure_new Forbidden ''The fleet policy owner must be active'')) (\<lambda>_.
         repo_replace_room_permissions (grant_agent_id g) (grant_room_id g)
           (if approved_invite_agents pol
            then Some \<lparr>rperm_agent_id = grant_agent_id g, rperm_room_id = grant_room_id g,
              rperm_generation = grant_generation g,
              rperm_granted_by_member_id = approved_by_member_id pol, rperm_granted_at = now\<rparr>
            else None)))) (\<lambda>_. rooms_ok)"
  proof (cases approved)
    case None
    show ?thesis unfolding None option.case by (rule yields_return) simp
  next
    case (Some pol)
    show ?thesis unfolding Some option.case
      by (intro yields_if yields_return yields_bind [OF yields_query] query_require
          yields_weaken [OF yields_replace_permission]) auto
  qed
qed

lemma yields_lift: "(\<And>v s. P s \<Longrightarrow> r = Inr v \<Longrightarrow> Q v s) \<Longrightarrow> yields P (lift_op r) Q"
  by (simp add: yields_def)

lemma committed_grant_keys:
  "committed_grant a p gid now = Inr g \<Longrightarrow> grant_agent_id g = change_agent_id (proof_input p) \<and>
     grant_room_id g = change_room_id (proof_input p) \<and> grant_intent g = change_intent (proof_input p)"
  by (auto simp: committed_grant_def op_iff)

lemma yields_save_grant_active:
  "yields (\<lambda>s. rooms_ok s \<and> (intent_access (grant_intent v) = AccessNone \<longrightarrow>
       no_delegation (grant_agent_id v) (grant_room_id v) s))
     (repo_save_room_grant J v new)
     (\<lambda>_ s. rooms_ok s \<and> (intent_access (grant_intent v) \<noteq> AccessNone \<longrightarrow>
        grant_active (grant_agent_id v) (grant_room_id v) s))"
proof (rule yieldsI, rule conjI)
  fix s u s'
  assume pre: "rooms_ok s \<and> (intent_access (grant_intent v) = AccessNone \<longrightarrow>
       no_delegation (grant_agent_id v) (grant_room_id v) s)"
    and run: "repo_save_room_grant J v new s = (Inr u, s')"
  show "rooms_ok s'" by (rule yieldsD [OF yields_save_grant pre run])
  note saved = save_room_grant_Inr [OF run]
  have here: "grant_row_of J v \<in> set (room_grants (rooms s'))"
  proof (cases new)
    case True
    then show ?thesis by (simp add: saved(1) grants_after_def)
  next
    case False
    with saved(6) grants_after_hit show ?thesis by (auto simp: saved(1))
  qed
  show "intent_access (grant_intent v) \<noteq> AccessNone \<longrightarrow> grant_active (grant_agent_id v) (grant_room_id v) s'"
    using same_grant [OF saved(2) _ here] by (fastforce simp: grant_active_def)
qed

lemma keeps_commit_application: "keeps rooms_ok (commit_application J agent room now)"
  unfolding commit_application_def by (intro keeps_bind query_keeps keeps_save_application) simp

lemma keeps_audit: "keeps rooms_ok (repo_audit ev v)"
  by (rule off_rooms_keeps [OF off_rooms_audit])

lemma keeps_save_principal: "keeps rooms_ok (repo_save_principal v)"
  by (rule off_rooms_keeps [OF off_rooms_save_principal])

text \<open>The end of a pipeline that keeps the invariant statement by statement.\<close>

lemmas keeps_rooms = keeps_bind keeps_if keeps_return keeps_fail keeps_commit_application keeps_audit
  keeps_save_principal keeps_save_application keeps_insert_owner_conversation

lemma yields_commit_grant:
  "yields (\<lambda>s. rooms_ok s \<and> (intent_access (grant_intent g) = AccessNone \<longrightarrow>
       no_delegation (grant_agent_id g) (grant_room_id g) s))
     (commit_grant J a p request private g ev now) (\<lambda>_. rooms_ok)"
  unfolding commit_grant_def
proof (rule yields_bind [OF yields_save_grant_active], rule yields_bind [where R = "\<lambda>_. rooms_ok"])
  show "yields (\<lambda>s. rooms_ok s \<and> (intent_access (grant_intent g) \<noteq> AccessNone \<longrightarrow>
        grant_active (grant_agent_id g) (grant_room_id g) s))
      (if \<not> private \<and> fresh_membership p \<and> intent_access (grant_intent g) \<noteq> AccessNone
       then apply_fleet_permissions g now else return_op ()) (\<lambda>_. rooms_ok)"
    by (intro yields_if yields_weaken [OF yields_apply_fleet_permissions] yields_return) auto
qed (intro yields_keeps keeps_rooms query_keeps query_repo)

lemma yields_commit: "yields rooms_ok (commit J a p request private gid ev now) (\<lambda>_. rooms_ok)"
proof -
  let ?agent = "change_agent_id (proof_input p)" and ?room = "change_room_id (proof_input p)"
  let ?R = "\<lambda>s. rooms_ok s \<and>
    (intent_access (change_intent (proof_input p)) = AccessNone \<longrightarrow> no_delegation ?agent ?room s)"
  let ?G = "\<lambda>g s. rooms_ok s \<and> (intent_access (grant_intent g) = AccessNone \<longrightarrow>
    no_delegation (grant_agent_id g) (grant_room_id g) s)"
  have cleared: "yields rooms_ok (if fresh_membership p \<or> intent_access (change_intent (proof_input p)) = AccessNone
      then repo_replace_room_permissions ?agent ?room None else return_op ()) (\<lambda>_. ?R)"
    by (intro yields_if yields_weaken [OF yields_withdraw] yields_return) auto
  have made: "yields ?R (lift_op (committed_grant a p gid now)) ?G"
    by (rule yields_lift) (auto dest: committed_grant_keys)
  show ?thesis
    unfolding commit_def
    by (rule yields_if [OF yields_return yields_bind [OF cleared yields_bind [OF made yields_commit_grant]]])
qed

lemma keeps_commit_change: "keeps rooms_ok (commit_change J a input p request gid ev now)"
  unfolding commit_change_def
  by (intro keeps_by_yields yields_bind [OF yields_query] yields_bind [OF yields_commit] yields_if
      yields_return yields_keeps [OF keeps_bind] keeps_rooms query_keeps)
    (simp_all add: query_require_some)

text \<open>Finding an active grant makes the membership active.\<close>

lemma yields_active_grant:
  "yields rooms_ok (require_op (repo_room_grant J agent room)
       (\<lambda>g. intent_access (grant_intent g) \<noteq> AccessNone \<and> b g) e)
     (\<lambda>g s. (rooms_ok s \<and> grant_active agent room s) \<and> intent_access (grant_intent g) \<noteq> AccessNone)"
proof (rule yieldsI)
  fix s g s'
  assume ok: "rooms_ok s" and "require_op (repo_room_grant J agent room)
      (\<lambda>g. intent_access (grant_intent g) \<noteq> AccessNone \<and> b g) e s = (Inr g, s')"
  then have run: "repo_room_grant J agent room s = (Inr (Some g), s')"
    and active: "intent_access (grant_intent g) \<noteq> AccessNone"
    by (auto simp: op_iff)
  moreover from run have "s' = s" by (rule queryD [OF query_room_repo(1)])
  ultimately show "(rooms_ok s' \<and> grant_active agent room s') \<and> intent_access (grant_intent g) \<noteq> AccessNone"
    using ok grant_row_active [OF rooms_okD(1) [OF ok] run active] by simp
qed

lemma yields_fact: "(b \<Longrightarrow> yields P m Q) \<Longrightarrow> yields (\<lambda>s. P s \<and> b) m Q"
  by (auto simp: yields_def)

lemma yields_touch_grant:
  "yields rooms_ok (repo_save_room_grant J (g\<lparr>grant_revision := n, grant_updated_at := now\<rparr>) new) (\<lambda>_. rooms_ok)"
  if "intent_access (grant_intent g) \<noteq> AccessNone"
  by (rule yields_weaken [OF yields_save_grant]) (simp_all add: that)

lemma keeps_set_permission: "keeps rooms_ok (set_permission J a input request ev now)"
proof -
  let ?agent = "pchange_agent_id input" and ?room = "pchange_room_id input"
  have tail: "yields rooms_ok (bind_op (lift_op (room_revision n)) (\<lambda>revision.
      bind_op (repo_save_principal (pr\<lparr>principal_revision := revision\<rparr>)) (\<lambda>_.
      bind_op (lift_op (room_revision (grant_revision g))) (\<lambda>grant_rev.
      bind_op (repo_save_room_grant J (g\<lparr>grant_revision := grant_rev, grant_updated_at := now\<rparr>) False) (\<lambda>_.
      bind_op (repo_audit ev au) (\<lambda>_. return_op revision)))))) (\<lambda>_. rooms_ok)"
    if "intent_access (grant_intent g) \<noteq> AccessNone" for n g au and pr :: principal
    by (rule yields_bind [OF yields_query], simp,
        rule yields_bind [OF yields_keeps [OF keeps_save_principal]],
        rule yields_bind [OF yields_query], simp,
        rule yields_bind [OF yields_touch_grant [OF that]],
        intro yields_keeps keeps_rooms)
  show ?thesis
    unfolding set_permission_def
    apply (rule keeps_by_yields)
    apply (rule yields_query_bind, (simp add: query_require_some; fail))+
    apply (rule yields_bind [OF yields_active_grant])
    apply (rule yields_fact)
    apply (rule yields_bind [where R = "\<lambda>_. rooms_ok"])
     apply (rule yields_weaken [OF yields_replace_permission], simp split: if_splits, assumption)
    apply (erule tail)
    done
qed

lemma yields_withdraw_delegation:
  "yields rooms_ok (withdraw_delegation J a target agent room g request ev now) (\<lambda>_. rooms_ok)"
  if "intent_access (grant_intent g) \<noteq> AccessNone"
  unfolding withdraw_delegation_def
  apply (rule yields_query_bind, simp)
  apply (rule yields_bind [OF yields_weaken [OF yields_withdraw]], assumption, rule conjunct1, assumption)
  apply (rule yields_if, rule yields_return, assumption)
  apply (rule yields_query_bind, simp)
  apply (rule yields_bind [OF yields_touch_grant [OF that]])
  apply (intro yields_keeps keeps_rooms)
  done

text \<open>The authorization of a private conversation asks for reply access.\<close>

definition reply_proof :: "authorization \<Rightarrow> bool" where
  "reply_proof p \<longleftrightarrow> change_intent (proof_input p) = reply_intent \<and>
     (\<not> proof_changed p \<longrightarrow> (\<forall>g. proof_previous p = Some g \<longrightarrow> grant_intent g = reply_intent))"

lemma prepared_Inr:
  assumes "prepare J a input invitation now s = (Inr (p, acting, target), s')"
  obtains actor v previous fresh inviter where
    "p = prepared a input actor v previous invitation fresh inviter"
    "active_actor a now s = (Inr actor, s)" "repo_agent_view (change_agent_id input) s = (Inr (Some v), s)"
    "repo_room_grant J (change_agent_id input) (change_room_id input) s = (Inr previous, s)"
    "fresh = fresh_invitation previous invitation"
    "prepare_authority J a input previous fresh now s = (Inr inviter, s)"
    "protect input s = (Inr (), s)" "intent_valid J (change_intent input)" "s' = s"
    "map_option grant_generation previous = change_expected_generation input"
    "principal_revision (aview_principal v) = change_expected_revision input"
  using assms unfolding prepare_def
  by (auto simp: read_iff intro!: that dest: queryD [OF query_prepare_authority])

lemma prepare_reply:
  assumes "prepare J a input invitation now s = (Inr (p, acting, target), s')"
    and "change_intent input = reply_intent"
  shows "reply_proof p"
  using assms(1)
proof (rule prepared_Inr)
  fix actor v previous fresh inviter
  assume "p = prepared a input actor v previous invitation fresh inviter"
  then show "reply_proof p"
    using assms(2) by (auto simp: reply_proof_def prepared_def Let_def)
qed

lemma yields_commit_reply:
  assumes "reply_proof p"
  shows "yields rooms_ok (commit J a p request private gid ev now)
    (\<lambda>v s. rooms_ok s \<and> (\<forall>g. v = Some g \<longrightarrow> intent_access (grant_intent g) \<noteq> AccessNone))"
proof (rule yieldsI, rule conjI)
  fix s v s'
  assume ok: "rooms_ok s" and run: "commit J a p request private gid ev now s = (Inr v, s')"
  from yieldsD [OF yields_commit ok run] show "rooms_ok s'" .
  show "\<forall>g. v = Some g \<longrightarrow> intent_access (grant_intent g) \<noteq> AccessNone"
  proof (cases "proof_changed p")
    case True
    with run obtain g t where "committed_grant a p gid now = Inr g"
      "commit_grant J a p request private g ev now t = (Inr v, s')"
      by (auto simp: commit_def op_iff split: if_splits)
    then have "grant_intent g = change_intent (proof_input p)" "v = Some g"
      by (auto dest: committed_grant_keys simp: commit_grant_def op_iff)
    with assms show ?thesis by (simp add: reply_proof_def reply_intent_def)
  next
    case False
    with run assms show ?thesis by (auto simp: commit_def reply_proof_def reply_intent_def)
  qed
qed

lemma yields_require:
  "yields P m (\<lambda>v s. R s \<and> (\<forall>g. v = Some g \<longrightarrow> b g)) \<Longrightarrow>
   yields P (require_op m q e) (\<lambda>g s. R s \<and> b g)"
  by (auto simp: yields_def require_op_Inr)

lemma keeps_bind_owner_conversation:
  assumes "reply_proof p"
  shows "keeps rooms_ok (bind_owner_conversation J target agent previous room p ids now)"
  unfolding bind_owner_conversation_def
  apply (rule keeps_by_yields)
  apply (rule yields_query_bind, (simp; fail))+
  apply (rule yields_bind [OF yields_require [OF yields_commit_reply [OF assms]]])
  apply (rule yields_fact)
  apply (rule yields_bind, erule yields_withdraw_delegation)
  apply (simp only: case_prod_unfold)
  apply (intro yields_keeps keeps_rooms query_keeps query_lift)
  done

lemma keeps_record_outcome: "keeps rooms_ok (record_outcome J agent room snap outcome observed now)"
proof -
  have "query (snapshot_current J agent room snap)"
    unfolding snapshot_current_def by (auto intro!: query_bind)
  then show ?thesis
    unfolding record_outcome_def by (intro keeps_transaction keeps_rooms query_keeps query_lift)
qed

lemma query_plan_agent_revision: "keeps rooms_ok (plan_agent_revision changes v)"
  unfolding plan_agent_revision_def by (intro keeps_rooms query_keeps query_require query_repo query_lift)

lemma keeps_commit_plan: "keeps rooms_ok (commit_plan J a v request ids now)"
  unfolding commit_plan_def
  apply (rule keeps_by_yields)
  apply (rule yields_query_bind, (simp add: query_for_each query_require_query; fail))+
  apply (rule yields_bind [where R = "\<lambda>_. rooms_ok"])
   apply (rule yields_for_each)
   apply (simp only: case_prod_unfold)
   apply (rule yields_bind [OF yields_commit], rule yields_return, assumption)
  apply (rule yields_bind [where R = "\<lambda>_. rooms_ok"])
   apply (rule yields_for_each, rule yields_keeps, rule query_plan_agent_revision)
  apply (rule yields_return, assumption)
  done

end
