(* ===== verification/Sample_Rooms.thy ===== *)
theory Sample_Rooms
  imports Room_Invariants
begin

text \<open>
  A database with rooms to evaluate the operations on: beside \<open>bot\<close> the agent \<open>bud\<close>, both of \<open>ada\<close>.
  \<open>bot\<close> is a member of room \<open>r1\<close> where it may invite agents.
\<close>

definition plain_codec :: codec where
  "plain_codec = \<lparr>codec_print = (\<lambda>_. ''{}''), codec_parse = (\<lambda>_. Some (JObject []))\<rparr>"

definition sample_grant :: "string \<Rightarrow> string \<Rightarrow> room_grant_row" where
  "sample_grant agent room = \<lparr>grrow_agent_id = agent, grrow_room_id = room, grrow_generation = ''g1'',
     grrow_authorizer_id = ''ada'', grrow_added_by_id = ''ada'', grrow_invitation_event_id = None,
     grrow_admission_kind = ''managed'', grrow_access_mode = ''reply'', grrow_native_access = None,
     grrow_muted = 0, grrow_revision = 0, grrow_access_revision = 0, grrow_updated_at = 50\<rparr>"

definition sample_rooms :: room_tables where
  "sample_rooms = no_rooms\<lparr>room_grants := [sample_grant ''bot'' ''r1'', sample_grant ''bot'' ''dm''],
     room_permissions := [\<lparr>rprow_agent_id = ''bot'', rprow_room_id = ''r1'', rprow_generation = ''g1'',
       rprow_permission_code = ''room.agent.invite'', rprow_grant_scope = ''agent_room'',
       rprow_granted_by_member_id = ''ada'', rprow_granted_at = 60\<rparr>],
     owner_conversations := [\<lparr>own_agent_id = ''bot'', own_owner_id = ''ada'', own_room_id = ''dm'',
       own_created_at = 50\<rparr>]\<rparr>"

definition room_store :: store where
  "room_store = sample_store\<lparr>
     principals := principals sample_store @ [\<lparr>prow_id = ''bud'', prow_backend_user_id = ''@bud'',
       prow_kind = ''agent'', prow_status = ''active'', prow_revision = 4, prow_created_at = 35\<rparr>],
     agents := agents sample_store @ [\<lparr>agrow_principal_id = ''bud'', agrow_principal_kind = ''agent'',
       agrow_owner_id = ''ada'', agrow_wake_mode = ''humans''\<rparr>],
     principal_applications := principal_applications sample_store @ [sample_application ''bud''],
     fleet_instances := fleet_instances sample_store @ [\<lparr>inst_owner_id = ''ada'', inst_fleet_key = ''k1'',
       inst_instance_key = ''i2'', inst_agent_id = ''bud'', inst_retired_at = None\<rparr>],
     rooms := sample_rooms\<rparr>"

lemma room_store_ok: "store_ok room_store"
  by code_simp

lemma room_store_rooms_ok: "rooms_ok room_store"
proof -
  have "private_ok (rooms room_store) \<and> management_ok (rooms room_store) \<and> delegated_ok (rooms room_store)"
    by code_simp
  with room_store_ok show ?thesis by (simp add: rooms_ok_def)
qed

definition add_bud :: room_change where
  "add_bud = \<lparr>change_agent_id = ''bud'', change_room_id = ''r1'', change_expected_revision = 4,
     change_expected_generation = None, change_intent = reply_intent\<rparr>"

definition bud_proof :: authorization where
  "bud_proof = \<lparr>proof_input = add_bud, proof_previous = None, proof_actor_revision = 1,
     proof_target_revision = 4, proof_owner_revision = 3, proof_inviter_generation = Some ''g1'',
     proof_inviter_revision = Some 0, proof_authorizer_id = ''bot'', proof_native = None,
     proof_changed = True, proof_invitation_event_id = None, proof_admission = Managed\<rparr>"

lemma add_bud_prepared:
  "prepare plain_codec bot add_bud None 1000 room_store = (Inr (bud_proof, ''@bot'', ''@bud''), room_store)"
proof -
  have "fst (prepare plain_codec bot add_bud None 1000 room_store) = Inr (bud_proof, ''@bot'', ''@bud'')"
    by code_simp
  with queryD [OF query_prepare] show ?thesis by (metis prod.collapse)
qed

definition bud_grant :: grant where
  "bud_grant = \<lparr>grant_agent_id = ''bud'', grant_room_id = ''r1'', grant_generation = ''g2'',
     grant_authorizer_id = ''bot'', grant_added_by_id = ''bot'', grant_invitation_event_id = None,
     grant_admission = Managed, grant_intent = reply_intent, grant_revision = 0,
     grant_access_revision = 0, grant_updated_at = 1100\<rparr>"

lemma add_bud_committed:
  "fst (commit_change plain_codec bot add_bud bud_proof ''q'' ''g2'' ''e'' 1100 room_store) =
     Inr (Some bud_grant, 5)"
  by code_simp

text \<open>The same database before any room, and the private conversation of \<open>bot\<close> being bound.\<close>

definition bare_store :: store where
  "bare_store = room_store\<lparr>rooms := no_rooms\<rparr>"

lemma bare_store_ok: "store_ok bare_store"
  by code_simp

definition bot_view :: agent_view where
  "bot_view = \<lparr>
     aview_principal = \<lparr>principal_id = ''bot'', principal_backend_user_id = ''@bot'',
       principal_kind = AgentKind, principal_status = Active, principal_revision = 1,
       principal_created_at = 30\<rparr>,
     aview_agent = \<lparr>agent_principal_id = ''bot'', agent_owner_id = ''ada'', agent_wake_mode = WakeHumans\<rparr>,
     aview_owner = \<lparr>principal_id = ''ada'', principal_backend_user_id = ''@ada'',
       principal_kind = Human, principal_status = Active, principal_revision = 3,
       principal_created_at = 10\<rparr>,
     aview_owner_member = \<lparr>member_principal_id = ''ada'', member_display_name = ''Ada''\<rparr>,
     aview_application = pending_application ''bot'' 0\<rparr>"

definition bot_change :: room_change where
  "bot_change = \<lparr>change_agent_id = ''bot'', change_room_id = ''dm'', change_expected_revision = 1,
     change_expected_generation = None, change_intent = reply_intent\<rparr>"

definition bot_proof :: authorization where
  "bot_proof = \<lparr>proof_input = bot_change, proof_previous = None, proof_actor_revision = 3,
     proof_target_revision = 1, proof_owner_revision = 3, proof_inviter_generation = None,
     proof_inviter_revision = None, proof_authorizer_id = ''ada'', proof_native = None,
     proof_changed = True, proof_invitation_event_id = None, proof_admission = Managed\<rparr>"

definition bot_ids :: ensure_ids where
  "bot_ids = \<lparr>ids_request = ''q1'', ids_generation = ''g1'', ids_audit = ''e1'',
     ids_withdraw_request = ''q2'', ids_withdraw_audit = ''e2''\<rparr>"

lemma bot_prepared:
  "fst (prepare plain_codec (owner_actor bot_view) bot_change None 1000 bare_store) =
     Inr (bot_proof, ''@ada'', ''@bot'')"
  by code_simp

definition bound_store :: store where
  "bound_store = snd (bind_owner_conversation plain_codec bot_view ''bot'' None ''dm'' bot_proof bot_ids 1000
     bare_store)"

definition bot_conversation :: owner_conversation where
  "bot_conversation = \<lparr>own_agent_id = ''bot'', own_owner_id = ''ada'', own_room_id = ''dm'',
     own_created_at = 1000\<rparr>"

lemma bound_store_conversation: "bot_conversation \<in> set (owner_conversations (rooms bound_store))"
  by code_simp

end
