(* ===== verification/Fleetd_Model.thy ===== *)
theory Fleetd_Model
  imports Json Decision_Values Identity
begin

text \<open>
  The values of the fleet controller: \<open>domain/src/model.rs\<close> and \<open>domain/src/controller_model.rs\<close> of
  fleetd. A path is its text. A running agent (\<open>Arc<dyn RunningAgent>\<close>) is a number: two of them are
  the same allocation exactly if the numbers are equal.
\<close>

section \<open>Fleets on disk\<close>

record agent_instance =
  ai_key :: string
  ai_name :: string
  ai_definition :: string
  ai_workarea :: string
  ai_workspace :: "string option"
  ai_history_mode :: "history_mode option"
  ai_mirror_output :: "bool option"
  ai_runtime_options :: "json_map option"

record coordination =
  coord_server :: string
  coord_owner :: string

record roster =
  roster_fleet :: string
  roster_coordination :: coordination
  roster_instances :: "agent_instance list"

text \<open>The coordination policy of \<open>domain/src/coordination.rs\<close>.\<close>

record backend_sender =
  bsend_user_id :: string
  bsend_include_agents :: bool

record coordination_policy =
  cpol_mode :: wake_mode
  cpol_senders :: "backend_sender list"
  cpol_invite_agents :: bool

definition owner_default :: "string \<Rightarrow> coordination_policy" where
  "owner_default owner = \<lparr>cpol_mode = WakeSelected,
     cpol_senders = [\<lparr>bsend_user_id = owner, bsend_include_agents = False\<rparr>],
     cpol_invite_agents = False\<rparr>"

record agent_definition =
  def_name :: string
  def_runtime :: runtime
  def_options :: json_map
  def_instructions :: string
  def_coordination_policy :: coordination_policy

record configuration =
  conf_directory :: string
  conf_roster :: roster
  conf_definitions :: "(string \<times> agent_definition) list"
  conf_digest :: string

definition native_options :: "configuration \<Rightarrow> agent_instance \<Rightarrow> json_map result" where
  "native_options conf inst =
     rbind (ok_or (om_get (ai_definition inst) (conf_definitions conf))
       (failure_new Invalid ''Instance references an unavailable role definition'')) (\<lambda>d.
     Inr (case ai_runtime_options inst of None \<Rightarrow> def_options d
       | Some overrides \<Rightarrow> foldl (\<lambda>m (k, v). json_put k v m) (def_options d) overrides))"

record registration =
  reg_fleet_id :: string
  reg_fleet_key :: string
  reg_directory :: string
  reg_label :: string
  reg_revision :: int
  reg_digest :: string

record desired_intent =
  des_fleet_id :: string
  des_instance_key :: string

record resume_selection =
  sel_fleet_id :: string
  sel_instance_keys :: "string list"

section \<open>Operations\<close>

record controller_identity =
  ident_name :: string
  ident_metadata :: "(string \<times> string) list option"

datatype target = DaemonTarget | FleetTarget string | AgentTarget string string

fun target_fleet :: "target \<Rightarrow> string option" where
  "target_fleet DaemonTarget = None"
| "target_fleet (FleetTarget fleet) = Some fleet"
| "target_fleet (AgentTarget fleet instance_key) = Some fleet"

fun target_instance :: "target \<Rightarrow> string option" where
  "target_instance (AgentTarget fleet instance_key) = Some instance_key"
| "target_instance _ = None"

datatype action = Enroll | Start | Stop | Reset | Update

fun action_code :: "action \<Rightarrow> string" where
  "action_code Enroll = ''enroll''"
| "action_code Start = ''start''"
| "action_code Stop = ''stop''"
| "action_code Reset = ''reset''"
| "action_code Update = ''update''"

record operation_request =
  req_id :: string
  req_target :: target
  req_action :: action
  req_expected_revision :: int
  req_release_directory :: "string option"

record approval_link =
  link_url :: string
  link_code :: string

record operation_error =
  oerr_instance :: "string option"
  oerr_code :: string
  oerr_message :: string

datatype operation_status = OpAccepted | OpRunning | OpAwaitingApproval | OpSucceeded | OpFailed

fun operation_status_code :: "operation_status \<Rightarrow> string" where
  "operation_status_code OpAccepted = ''accepted''"
| "operation_status_code OpRunning = ''running''"
| "operation_status_code OpAwaitingApproval = ''awaiting-approval''"
| "operation_status_code OpSucceeded = ''succeeded''"
| "operation_status_code OpFailed = ''failed''"

record operation =
  op_request :: operation_request
  op_status :: operation_status
  op_created_at :: int
  op_completed_at :: "int option"
  op_approval :: "approval_link option"
  op_errors :: "operation_error list"
  op_receipt_pending :: bool

section \<open>Views\<close>

record connection_state =
  conn_connected :: bool
  conn_delivery_enabled :: bool
  conn_revision :: "int option"
  conn_error :: "string option"

datatype instance_phase =
    InstStopped | InstStopping | InstAwaitingApproval | InstStarting | InstFailed | InstWaking
  | InstRunning | InstSleeping

fun instance_phase_code :: "instance_phase \<Rightarrow> string" where
  "instance_phase_code InstStopped = ''stopped''"
| "instance_phase_code InstStopping = ''stopping''"
| "instance_phase_code InstAwaitingApproval = ''awaiting-approval''"
| "instance_phase_code InstStarting = ''starting''"
| "instance_phase_code InstFailed = ''failed''"
| "instance_phase_code InstWaking = ''waking''"
| "instance_phase_code InstRunning = ''running''"
| "instance_phase_code InstSleeping = ''sleeping''"

record instance_state =
  ist_instance :: agent_instance
  ist_phase :: instance_phase
  ist_session_id :: "string option"
  ist_error :: "string option"
  ist_started_at :: "int option"
  ist_listener_active :: bool
  ist_desired_active :: bool
  ist_last_activity_at :: "int option"
  ist_history_available :: "bool option"

definition stopped_instance :: "agent_instance \<Rightarrow> instance_state" where
  "stopped_instance inst = \<lparr>ist_instance = inst, ist_phase = InstStopped, ist_session_id = None,
     ist_error = None, ist_started_at = None, ist_listener_active = False,
     ist_desired_active = False, ist_last_activity_at = None, ist_history_available = None\<rparr>"

record fleet_state =
  fst_registration :: registration
  fst_controller :: controller_identity
  fst_phase :: instance_phase
  fst_resume_instance_keys :: "string list option"
  fst_connection :: connection_state
  fst_instances :: "instance_state list"
  fst_error :: "string option"

record setup_descriptor =
  sdesc_server :: string
  sdesc_owner :: string
  sdesc_package_version :: string
  sdesc_instructions :: string

record setup_request =
  sreq_descriptor :: setup_descriptor
  sreq_workspace :: string
  sreq_configuration :: "string option"

record setup_configuration =
  sconf_configuration :: configuration
  sconf_operation_id :: string
  sconf_completed :: bool

record setup_outcome =
  sout_fleet :: fleet_state
  sout_operation :: "operation option"
  sout_status :: string

section \<open>What these functions do\<close>

lemma native_options_get:
  assumes "native_options conf inst = Inr m" "om_get (ai_definition inst) (conf_definitions conf) = Some d"
  shows "json_get k m = (case ai_runtime_options inst of None \<Rightarrow> json_get k (def_options d)
    | Some overrides \<Rightarrow> (case map_of (rev overrides) k of Some v \<Rightarrow> Some v | None \<Rightarrow> json_get k (def_options d)))"
  using assms by (auto simp: native_options_def op_iff om_get_foldl split: option.splits)

lemma target_instance_fleet: "target_instance v = Some k \<Longrightarrow> \<exists>f. v = AgentTarget f k"
  by (cases v) auto

lemma action_code_inj [simp]: "action_code a = action_code b \<longleftrightarrow> a = b"
  by (cases a; cases b) simp_all

lemma operation_status_code_inj [simp]: "operation_status_code a = operation_status_code b \<longleftrightarrow> a = b"
  by (cases a; cases b) simp_all

end
