(* ===== verification/Fleet_Coordination.thy ===== *)
theory Fleet_Coordination
  imports Room_Read Fleetd_Model
begin

text \<open>
  The coordination policy a fleet asks for: \<open>domain/src/fleet/coordination.rs\<close>. \<open>resolve_policy\<close> is
  \<open>resolve\<close>, which turns the messaging identities of a declared policy into registered principals.
  \<open>apply_policy\<close> is \<open>apply\<close>, which enrollment calls when the owner approves a roster
  (\<open>domain/src/enrollment/decide.rs\<close>): it replaces the wake policy of the agent, notes the approved
  policy and rewrites the delegation and the revision of every active grant of the agent outside the
  private conversations.
\<close>

record requested_policy =
  req_mode :: wake_mode
  req_senders :: "sender list"
  req_invite_agents :: bool
  req_expected_agent_revision :: "int option"

fun resolve_senders :: "backend_sender list \<Rightarrow> sender list db" where
  "resolve_senders [] = return_op []"
| "resolve_senders (v # vs) =
     bind_op (require_some (repo_principal_by_backend_user_id (bsend_user_id v))
       (failure_new Invalid (''Selected identity is not registered: '' @ bsend_user_id v))) (\<lambda>p.
     bind_op (resolve_senders vs) (\<lambda>rest.
     return_op (\<lparr>sender_principal_id = principal_id p,
       sender_include_agents = bsend_include_agents v\<rparr> # rest)))"

text \<open>The senders that passed the validation are distinct, so the unstable sort has one outcome.\<close>

definition resolve_policy ::
  "coordination_policy \<Rightarrow> string option \<Rightarrow> int option \<Rightarrow> requested_policy db" where
  "resolve_policy policy agent revision =
     bind_op (resolve_senders (cpol_senders policy)) (\<lambda>senders.
     bind_op (validate_wake_senders agent (cpol_mode policy) senders) (\<lambda>_.
     return_op \<lparr>req_mode = cpol_mode policy, req_senders = sort_key sender_principal_id senders,
       req_invite_agents = cpol_invite_agents policy, req_expected_agent_revision = revision\<rparr>))"

definition policy_matches :: "string \<Rightarrow> requested_policy \<Rightarrow> bool db" where
  "policy_matches agent requested =
     bind_op (repo_agent agent) (\<lambda>current.
     bind_op (repo_approved_fleet_policy agent) (\<lambda>policy.
     bind_op (repo_wake_senders agent) (\<lambda>senders.
     return_op (case current of None \<Rightarrow> False
       | Some v \<Rightarrow> agent_wake_mode v = req_mode requested \<and>
           (case policy of None \<Rightarrow> False
            | Some pol \<Rightarrow> approved_by_member_id pol = agent_owner_id v \<and>
                approved_invite_agents pol = req_invite_agents requested) \<and>
           length senders = length (req_senders requested) \<and>
           list_all (\<lambda>w. w \<in> set (req_senders requested)) senders))))"

definition coordinate_grant :: "codec \<Rightarrow> int \<Rightarrow> grant \<Rightarrow> unit db" where
  "coordinate_grant J now g =
     (if intent_access (grant_intent g) = AccessNone then return_op () else
      bind_op (private_room (grant_room_id g)) (\<lambda>private.
      if private then return_op () else
      bind_op (apply_fleet_permissions g now) (\<lambda>_.
      bind_op (lift_op (ok_or (checked_i64 (grant_revision g + 1))
        (failure_new Conflict ''Room revision exceeds native range''))) (\<lambda>revision.
      repo_save_room_grant J (g\<lparr>grant_revision := revision, grant_updated_at := now\<rparr>) False))))"

definition coordination_target :: "actor \<Rightarrow> string \<Rightarrow> requested_policy \<Rightarrow> agent_view db" where
  "coordination_target a agent requested =
     bind_op (require_op (repo_agent_view agent)
       (\<lambda>v. actor_kind a = Human \<and> agent_owner_id (aview_agent v) = actor_principal_id a \<and>
            principal_status (aview_principal v) = Active \<and> principal_status (aview_owner v) = Active)
       (failure_new Forbidden ''Only the active owner may approve fleet coordination'')) (\<lambda>current.
     bind_op (check_op (case req_expected_agent_revision requested of None \<Rightarrow> True
         | Some revision \<Rightarrow> revision = principal_revision (aview_principal current))
       (failure_new Conflict ''Agent configuration changed; submit a new fleet request'')) (\<lambda>_.
     return_op current))"

definition replace_policy ::
  "codec \<Rightarrow> actor \<Rightarrow> string \<Rightarrow> agent_view \<Rightarrow> requested_policy \<Rightarrow> string \<Rightarrow> string \<Rightarrow> int \<Rightarrow> unit db" where
  "replace_policy J a agent current requested request ev now =
     bind_op (replace_wake_policy (aview_agent current) (req_mode requested) (req_senders requested)) (\<lambda>_.
     bind_op (repo_approve_fleet_policy \<lparr>approved_agent_id = agent,
       approved_by_member_id = actor_principal_id a, approved_at = now,
       approved_invite_agents = req_invite_agents requested\<rparr>) (\<lambda>_.
     bind_op (repo_room_grants J agent) (\<lambda>gs.
     bind_op (for_each_op (coordinate_grant J now) gs) (\<lambda>_.
     bind_op (lift_op (ok_or (checked_i64 (principal_revision (aview_principal current) + 1))
       (failure_new Conflict ''Agent revision exceeds native range''))) (\<lambda>revision.
     bind_op (repo_save_principal ((aview_principal current)\<lparr>principal_revision := revision\<rparr>)) (\<lambda>_.
     repo_audit ev (audit_new a request ''agent'' agent ''fleet.coordination-policy.approve''
       (Some (actor_principal_id a)) now)))))))"

definition apply_policy ::
  "codec \<Rightarrow> actor \<Rightarrow> string \<Rightarrow> requested_policy \<Rightarrow> string \<Rightarrow> string \<Rightarrow> int \<Rightarrow> unit db" where
  "apply_policy J a agent requested request ev now =
     bind_op (coordination_target a agent requested) (\<lambda>current.
     bind_op (policy_matches agent requested) (\<lambda>same.
     if same then return_op () else replace_policy J a agent current requested request ev now))"

lemma query_policy [simp]:
  "query (policy_matches agent requested)" "query (coordination_target a agent requested)"
  unfolding policy_matches_def coordination_target_def
  by (auto intro!: query_bind query_require split: option.splits)

lemma query_resolve_policy [simp]: "query (resolve_policy policy agent revision)"
proof -
  have "query (resolve_senders vs)" for vs
    by (induction vs)
      (simp_all only: resolve_senders.simps query_return query_bind query_require_some query_repo)
  then show ?thesis unfolding resolve_policy_def by (auto intro!: query_bind)
qed

end
