(* ===== verification/Room_Moves.thy ===== *)
theory Room_Moves
  imports Room_Invariants Fleet_Coordination
begin

text \<open>
  Everything that happens to the rooms, as one transition relation: every transaction of the code that
  writes a grant, a delegation or a conversation is a move, and so is any statement that leaves the rooms
  alone. Every move keeps the invariant of the rooms, lets grants only move forward and forgets no
  private conversation.
\<close>

section \<open>Grants only move forward\<close>

text \<open>Between two states every grant is still there, unchanged or with a greater revision.\<close>

definition grants_forward :: "store \<Rightarrow> store \<Rightarrow> bool" where
  "grants_forward s s' \<longleftrightarrow> (\<forall>r \<in> set (room_grants (rooms s)). \<exists>q \<in> set (room_grants (rooms s')).
     same_room (grrow_agent_id r) (grrow_room_id r) q \<and> (q = r \<or> grrow_revision r < grrow_revision q))"

lemma grants_forward_refl [simp]: "grants_forward s s"
  by (auto simp: grants_forward_def same_room_def)

lemma grants_forward_trans: "grants_forward s t \<Longrightarrow> grants_forward t u \<Longrightarrow> grants_forward s u"
  unfolding grants_forward_def same_room_def by (metis order.strict_trans)

abbreviation grants_of :: "store \<Rightarrow> room_grant_row list" where
  "grants_of s \<equiv> room_grants (rooms s)"

lemma fixed_grants_insert [simp]: "fixed grants_of (insert_room_permission v)"
  by (rule fixedI) (auto simp: insert_room_permission_def execute_def on_rooms_def split: if_splits)

lemma fixed_grants_replace [simp]: "fixed grants_of (repo_replace_room_permissions agent room v)"
  unfolding repo_replace_room_permissions_def
  by (cases v) (auto intro!: fixed_bind fixed_execute fixed_return)

lemma fixed_grants_principal [simp]: "fixed grants_of (repo_save_principal pr)"
  unfolding repo_save_principal_def by (intro fixed_bind fixed_counted) (simp_all add: fixed_query)

lemma fixed_grants_audit [simp]: "fixed grants_of (repo_audit ev au)"
  unfolding repo_audit_def by (intro fixed_execute) simp

lemma fixed_grants_application [simp]: "fixed grants_of (repo_save_room_application J v new)"
  by (rule fixedI) (auto simp: repo_save_room_application_def Let_def bind_op_def execute_def on_rooms_def
      split: if_splits prod.splits sum.splits)

lemma fixed_grants_pending [simp]: "fixed grants_of (commit_application J agent room now)"
  unfolding commit_application_def by (intro fixed_bind) (simp_all add: fixed_query)

lemma fixed_grants_policy [simp]: "fixed grants_of (apply_fleet_permissions g now)"
  unfolding apply_fleet_permissions_def
  by (rule fixed_bind [OF fixed_query])
    (auto intro!: fixed_bind [OF fixed_query] fixed_return query_require split: option.splits)

section \<open>What a commit does to the grants\<close>

lemma commit_grants:
  assumes run: "commit J a p request private gid ev now s = (Inr v, s')" and "proof_changed p"
  obtains g where "committed_grant a p gid now = Inr g"
    "grants_of s' = grants_after J g (proof_previous p = None) (rooms s)"
proof -
  from assms obtain g t where g: "committed_grant a p gid now = Inr g"
    and clear: "\<exists>r. (if fresh_membership p \<or> intent_access (change_intent (proof_input p)) = AccessNone
        then repo_replace_room_permissions (change_agent_id (proof_input p)) (change_room_id (proof_input p)) None
        else return_op ()) s = (r, t)"
    and tail: "commit_grant J a p request private g ev now t = (Inr v, s')"
    unfolding commit_def by (auto simp: bind_op_eq_Inr lift_op_Inr)
  from clear have t: "grants_of t = grants_of s"
    by (auto dest: fixedD [OF fixed_grants_replace] split: if_splits)
  from tail obtain u where u: "repo_save_room_grant J g (proof_previous p = None) t = (Inr (), u)"
    and rest: "(bind_op (if \<not> private \<and> fresh_membership p \<and> intent_access (grant_intent g) \<noteq> AccessNone
       then apply_fleet_permissions g now else return_op ()) (\<lambda>_.
     bind_op (commit_application J (grant_agent_id g) (grant_room_id g) now) (\<lambda>_.
     bind_op (repo_agent (grant_agent_id g)) (\<lambda>found.
     bind_op (repo_audit ev (commit_audit a request g (map_option agent_owner_id found) now)) (\<lambda>_.
     return_op (Some g)))))) u = (Inr v, s')"
    unfolding commit_grant_def by (auto simp: bind_op_eq_Inr)
  have "fixed grants_of (bind_op (if \<not> private \<and> fresh_membership p \<and> intent_access (grant_intent g) \<noteq> AccessNone
       then apply_fleet_permissions g now else return_op ()) (\<lambda>_.
     bind_op (commit_application J (grant_agent_id g) (grant_room_id g) now) (\<lambda>_.
     bind_op (repo_agent (grant_agent_id g)) (\<lambda>found.
     bind_op (repo_audit ev (commit_audit a request g (map_option agent_owner_id found) now)) (\<lambda>_.
     return_op (Some g))))))"
    by (intro fixed_bind fixed_if fixed_return) (simp_all add: fixed_query)
  from fixedD [OF this rest] have "grants_of s' = grants_of u" .
  with save_room_grant_Inr(1) [OF u] t have "grants_of s' = grants_after J g (proof_previous p = None) (rooms s)"
    by (simp add: grants_after_def)
  with g that show thesis by blast
qed

lemma committed_revision:
  "committed_grant a p gid now = Inr g \<Longrightarrow>
   grant_revision g = (case proof_previous p of None \<Rightarrow> 0 | Some v \<Rightarrow> grant_revision v + 1)"
  by (auto simp: committed_grant_def op_iff room_revision_def split: option.splits)

lemma recheck_Inr:
  assumes "recheck J a p now s = (Inr u, s')"
  shows "s' = s" "\<exists>current. repo_room_grant J (change_agent_id (proof_input p)) (change_room_id (proof_input p)) s
       = (Inr current, s) \<and> map_option (\<lambda>g. (grant_generation g, grant_revision g)) current =
         map_option (\<lambda>g. (grant_generation g, grant_revision g)) (proof_previous p)"
    "actor_kind a \<noteq> Human \<Longrightarrow> recheck_delegation J a p s = (Inr (), s)"
proof -
  have "query (recheck_delegation J a p)"
    unfolding recheck_delegation_def by (intro query_bind) simp_all
  note delegation_read = queryD [OF this]
  show "s' = s" using assms by (rule queryD [OF query_recheck])
  with assms have "\<exists>current. repo_room_grant J (change_agent_id (proof_input p)) (change_room_id (proof_input p)) s
       = (Inr current, s) \<and> map_option (\<lambda>g. (grant_generation g, grant_revision g)) current =
         map_option (\<lambda>g. (grant_generation g, grant_revision g)) (proof_previous p) \<and>
       (actor_kind a \<noteq> Human \<longrightarrow> recheck_delegation J a p s = (Inr (), s))"
    unfolding recheck_def by (auto simp: read_iff split: if_splits)
  then show "\<exists>current. repo_room_grant J (change_agent_id (proof_input p)) (change_room_id (proof_input p)) s
       = (Inr current, s) \<and> map_option (\<lambda>g. (grant_generation g, grant_revision g)) current =
         map_option (\<lambda>g. (grant_generation g, grant_revision g)) (proof_previous p)"
    "actor_kind a \<noteq> Human \<Longrightarrow> recheck_delegation J a p s = (Inr (), s)" by blast+
qed

text \<open>The row an agent holds in a room, if it is there.\<close>

lemma repo_room_grant_row:
  assumes "store_ok s" "repo_room_grant J agent room s = (Inr found, s')" "r \<in> set (grants_of s)"
    "same_room agent room r"
  obtains g where "found = Some g" "grant_of_row J r = Inr g"
proof -
  have "find_row (same_room agent room) (grants_of s) = Some r"
  proof (rule find_row_only)
    show "q = r" if "q \<in> set (grants_of s)" "same_room agent room q" for q
      using same_grant [OF assms(1) that(1) assms(3)] that(2) assms(4) by (simp add: same_room_def)
  qed (use assms(3,4) in auto)
  with assms(2) that show thesis
    by (auto simp: repo_room_grant_def op_iff transpose_row_def transpose_option_def split: sum.splits)
qed

text \<open>What \<open>Service::change\<close> wrote when it returned.\<close>

lemma commit_change_Inr:
  assumes "commit_change J a input p request gid ev now s = (Inr (v, n), s')"
  shows "recheck J a p now s = (Inr (), s)"
    "\<not> proof_changed p \<Longrightarrow> s' = s"
    "proof_changed p \<Longrightarrow> \<exists>g. committed_grant a p gid now = Inr g \<and>
       grants_of s' = grants_after J g (proof_previous p = None) (rooms s)"
proof -
  from assms obtain g t where chk: "recheck J a p now s = (Inr (), s)"
    and run: "commit J a p request False gid ev now s = (Inr g, t)"
    and rest: "(if \<not> proof_changed p then return_op (g, change_expected_revision input) else
     bind_op (require_some (repo_principal (change_agent_id input))
       (failure_new Missing ''Agent not found'')) (\<lambda>pr.
     bind_op (lift_op (room_revision (principal_revision pr))) (\<lambda>revision.
     bind_op (repo_save_principal (pr\<lparr>principal_revision := revision\<rparr>)) (\<lambda>_.
     return_op (g, revision))))) t = (Inr (v, n), s')"
    unfolding commit_change_def
    by (auto simp: transaction_eq_Inr query_bind_Inr check_op_Inr
        bind_op_eq_Inr [where m = "commit J a p request False gid ev now"])
  from chk show "recheck J a p now s = (Inr (), s)" .
  show "s' = s" if "\<not> proof_changed p"
    using that run rest by (simp add: commit_def)
  show "\<exists>g. committed_grant a p gid now = Inr g \<and>
       grants_of s' = grants_after J g (proof_previous p = None) (rooms s)" if "proof_changed p"
  proof -
    have "fixed grants_of (bind_op (require_some (repo_principal (change_agent_id input))
       (failure_new Missing ''Agent not found'')) (\<lambda>pr.
     bind_op (lift_op (room_revision (principal_revision pr))) (\<lambda>revision.
     bind_op (repo_save_principal (pr\<lparr>principal_revision := revision\<rparr>)) (\<lambda>_.
     return_op (g, revision)))))"
      by (intro fixed_bind fixed_return) (simp_all add: fixed_query query_require_query)
    from fixedD [OF this] rest that have "grants_of s' = grants_of t" by simp
    with commit_grants [OF run that] show ?thesis by metis
  qed
qed

section \<open>Every change moves the grants forward\<close>

lemma grants_after_forward:
  assumes "grants_of s' = grants_after J g new (rooms s)"
    and "\<And>r. \<not> new \<Longrightarrow> r \<in> set (grants_of s) \<Longrightarrow> same_room (grant_agent_id g) (grant_room_id g) r \<Longrightarrow>
      grrow_revision r < grant_revision g"
  shows "grants_forward s s'"
  unfolding grants_forward_def
proof
  fix r assume r: "r \<in> set (grants_of s)"
  show "\<exists>q \<in> set (grants_of s'). same_room (grrow_agent_id r) (grrow_room_id r) q \<and>
      (q = r \<or> grrow_revision r < grrow_revision q)"
  proof (cases "new \<or> \<not> same_room (grant_agent_id g) (grant_room_id g) r")
    case True
    from grants_after_keep [OF r this] have "r \<in> set (grants_of s')" by (simp add: assms(1))
    then show ?thesis by (intro bexI [of _ r]) (simp_all add: same_room_def)
  next
    case False
    with grants_after_hit [OF r] have "grant_row_of J g \<in> set (grants_of s')" by (simp add: assms(1))
    moreover have "same_room (grrow_agent_id r) (grrow_room_id r) (grant_row_of J g)"
      using False by (simp add: same_room_def)
    moreover have "grrow_revision r < grrow_revision (grant_row_of J g)"
      using assms(2) [OF _ r] False by simp
    ultimately show ?thesis by blast
  qed
qed

lemma recheck_previous:
  assumes "store_ok s" "recheck J a p now s = (Inr u, s')" "r \<in> set (grants_of s)"
    "same_room (change_agent_id (proof_input p)) (change_room_id (proof_input p)) r"
  obtains g where "proof_previous p = Some g" "grrow_revision r = grant_revision g"
    "grrow_generation r = grant_generation g"
proof -
  from recheck_Inr(2) [OF assms(2)] obtain current where c:
    "repo_room_grant J (change_agent_id (proof_input p)) (change_room_id (proof_input p)) s = (Inr current, s)"
    "map_option (\<lambda>g. (grant_generation g, grant_revision g)) current =
     map_option (\<lambda>g. (grant_generation g, grant_revision g)) (proof_previous p)" by blast
  from repo_room_grant_row [OF assms(1) c(1) assms(3,4)] obtain v where
    v: "current = Some v" "grant_of_row J r = Inr v" .
  with c(2) obtain g where g: "proof_previous p = Some g" "grant_generation v = grant_generation g"
    "grant_revision v = grant_revision g" by (cases "proof_previous p") auto
  with grant_of_row_key [OF v(2)] that show thesis by simp
qed

lemma commit_change_forward:
  assumes ok: "store_ok s" and run: "commit_change J a input p request gid ev now s = (Inr v, s')"
  shows "grants_forward s s'"
proof (cases "proof_changed p")
  case False
  with commit_change_Inr(2) run show ?thesis by (metis grants_forward_refl surj_pair)
next
  case True
  obtain x n where v: "v = (x, n)" by (cases v)
  note done' = commit_change_Inr [OF run [unfolded v]]
  from done'(3) [OF True] obtain g where g: "committed_grant a p gid now = Inr g"
    "grants_of s' = grants_after J g (proof_previous p = None) (rooms s)" by blast
  show ?thesis
  proof (rule grants_after_forward [OF g(2)])
    fix r assume r: "r \<in> set (grants_of s)" "same_room (grant_agent_id g) (grant_room_id g) r"
    with committed_grant_keys [OF g(1)]
    have "same_room (change_agent_id (proof_input p)) (change_room_id (proof_input p)) r" by simp
    from recheck_previous [OF ok done'(1) r(1) this] committed_revision [OF g(1)]
    show "grrow_revision r < grant_revision g" by (metis less_add_one option.simps(5))
  qed
qed

section \<open>Revisions at or above those of an earlier state\<close>

definition at_least :: "store \<Rightarrow> grant \<Rightarrow> bool" where
  "at_least s g \<longleftrightarrow> (\<forall>r \<in> set (grants_of s). same_room (grant_agent_id g) (grant_room_id g) r \<longrightarrow>
     grrow_revision r \<le> grant_revision g)"

definition beyond :: "store \<Rightarrow> grant \<Rightarrow> bool" where
  "beyond s g \<longleftrightarrow> (\<forall>r \<in> set (grants_of s). same_room (grant_agent_id g) (grant_room_id g) r \<longrightarrow>
     grrow_revision r < grant_revision g)"

lemma beyond_at_least: "beyond s g \<Longrightarrow> at_least s g"
  by (auto simp: beyond_def at_least_def)

lemma beyond_touch: "at_least s g \<Longrightarrow> beyond s (g\<lparr>grant_revision := grant_revision g + 1, grant_updated_at := now\<rparr>)"
  by (fastforce simp: beyond_def at_least_def)

lemma yields_forward_fixed: "fixed grants_of m \<Longrightarrow> yields (grants_forward s) m (\<lambda>_. grants_forward s)"
  by (auto simp: yields_def grants_forward_def dest: fixedD)

lemma yields_forward_save:
  assumes "beyond s g"
  shows "yields (grants_forward s) (repo_save_room_grant J g new) (\<lambda>_. grants_forward s)"
proof (rule yieldsI)
  fix t u t'
  assume fwd: "grants_forward s t" and run: "repo_save_room_grant J g new t = (Inr u, t')"
  from save_room_grant_Inr(1) [OF run] have t': "grants_of t' = grants_after J g new (rooms t)" by simp
  show "grants_forward s t'"
    unfolding grants_forward_def
  proof
    fix r assume r: "r \<in> set (grants_of s)"
    with fwd obtain q where q: "q \<in> set (grants_of t)" "same_room (grrow_agent_id r) (grrow_room_id r) q"
      "q = r \<or> grrow_revision r < grrow_revision q" unfolding grants_forward_def by blast
    show "\<exists>q \<in> set (grants_of t'). same_room (grrow_agent_id r) (grrow_room_id r) q \<and>
        (q = r \<or> grrow_revision r < grrow_revision q)"
    proof (cases "new \<or> \<not> same_room (grant_agent_id g) (grant_room_id g) q")
      case True
      from grants_after_keep [OF q(1) this] q show ?thesis by (metis t')
    next
      case False
      with grants_after_hit [OF q(1)] have "grant_row_of J g \<in> set (grants_of t')" by (simp add: t')
      moreover from False q(2) have here: "same_room (grant_agent_id g) (grant_room_id g) r"
        "same_room (grrow_agent_id r) (grrow_room_id r) (grant_row_of J g)" by (auto simp: same_room_def)
      moreover from assms r here(1) have "grrow_revision r < grrow_revision (grant_row_of J g)"
        by (simp add: beyond_def)
      ultimately show ?thesis by blast
    qed
  qed
qed

lemma forward_transaction:
  "yields (\<lambda>t. t = s) m (\<lambda>_. grants_forward s) \<Longrightarrow> transaction m s = (r, s') \<Longrightarrow> grants_forward s s'"
  by (auto simp: yields_def transaction_def split: prod.splits sum.splits)

lemma forward_now: "yields (grants_forward s) m Q \<Longrightarrow> yields (\<lambda>t. t = s) m Q"
  by (erule yields_weaken) auto

text \<open>What a read of grants answers is not behind the state it read.\<close>

lemma row_at_least:
  assumes "store_ok s" "q \<in> set (grants_of s)" "grant_of_row J q = Inr g"
  shows "at_least s g"
  unfolding at_least_def
proof (intro ballI impI)
  fix r assume r: "r \<in> set (grants_of s)" "same_room (grant_agent_id g) (grant_room_id g) r"
  with grant_of_row_key [OF assms(3)] have "same_room (grrow_agent_id r) (grrow_room_id r) q"
    by (simp add: same_room_def)
  from same_grant [OF assms(1,2) r(1) this] grant_of_row_key [OF assms(3)]
  show "grrow_revision r \<le> grant_revision g" by simp
qed

lemma yields_read_grant:
  assumes "store_ok s"
  shows "yields (\<lambda>t. t = s) (require_op (repo_room_grant J agent room) b e) (\<lambda>g t. t = s \<and> at_least s g)"
proof (rule yieldsI)
  fix t g t'
  assume "t = s" "require_op (repo_room_grant J agent room) b e t = (Inr g, t')"
  then have run: "repo_room_grant J agent room s = (Inr (Some g), s)" and t': "t' = s"
    by (auto simp: query_require_Inr)
  with repo_room_grant_Some [OF assms run] row_at_least [OF assms] show "t' = s \<and> at_least s g" by blast
qed

lemma repo_room_grants_row:
  assumes "repo_room_grants J agent t = (Inr gs, t')" "g \<in> set gs"
  obtains r where "r \<in> set (grants_of t)" "grant_of_row J r = Inr g"
proof -
  from assms(1) have "map (grant_of_row J) (sort_key grrow_room_id
      (filter (\<lambda>r. grrow_agent_id r = agent) (grants_of t))) = map Inr gs"
    by (auto simp: repo_room_grants_def op_iff collect_results_eq_Inr)
  then have "grant_of_row J ` set (sort_key grrow_room_id
      (filter (\<lambda>r. grrow_agent_id r = agent) (grants_of t))) = Inr ` set gs"
    by (metis list.set_map)
  with assms(2) have "Inr g \<in> grant_of_row J ` set (sort_key grrow_room_id
      (filter (\<lambda>r. grrow_agent_id r = agent) (grants_of t)))" by blast
  with that show thesis by auto
qed

text \<open>The grants of an agent, read when the rooms are as they were in \<open>s\<close>.\<close>

lemma yields_read_grants:
  assumes "store_ok s"
  shows "yields (\<lambda>t. grants_of t = grants_of s) (repo_room_grants J agent)
     (\<lambda>gs t. grants_of t = grants_of s \<and> (\<forall>g \<in> set gs. at_least s g))"
proof (rule yieldsI)
  fix t gs t'
  assume same: "grants_of t = grants_of s" and run: "repo_room_grants J agent t = (Inr gs, t')"
  have "at_least s g" if "g \<in> set gs" for g
    using repo_room_grants_row [OF run that] row_at_least [OF assms] same by metis
  moreover from run have "t' = t" by (rule queryD [OF query_room_repo(2)])
  ultimately show "grants_of t' = grants_of s \<and> (\<forall>g \<in> set gs. at_least s g)" using same by simp
qed

section \<open>Commits move the grants forward\<close>

text \<open>The authorization names the current revision of the grant it changes.\<close>

definition current_in :: "store \<Rightarrow> authorization \<Rightarrow> bool" where
  "current_in s p \<longleftrightarrow> (\<forall>r \<in> set (grants_of s).
     same_room (change_agent_id (proof_input p)) (change_room_id (proof_input p)) r \<longrightarrow>
     (\<exists>g. proof_previous p = Some g \<and> grrow_revision r = grant_revision g))"

lemma yields_recheck:
  assumes "store_ok s"
  shows "yields (\<lambda>t. t = s) (recheck J a p now) (\<lambda>_ t. t = s \<and> current_in s p)"
proof (rule yieldsI)
  fix t u t'
  assume "t = s" "recheck J a p now t = (Inr u, t')"
  then have run: "recheck J a p now s = (Inr u, t')" by simp
  from recheck_previous [OF assms run] have "current_in s p"
    unfolding current_in_def by metis
  with recheck_Inr(1) [OF run] show "t' = s \<and> current_in s p" by simp
qed

lemma committed_beyond:
  assumes "current_in s p" "committed_grant a p gid now = Inr g"
  shows "beyond s g"
  unfolding beyond_def
proof (intro ballI impI)
  fix r assume "r \<in> set (grants_of s)" "same_room (grant_agent_id g) (grant_room_id g) r"
  with assms(1) committed_grant_keys [OF assms(2)] obtain v where "proof_previous p = Some v"
    "grrow_revision r = grant_revision v" unfolding current_in_def by metis
  with committed_revision [OF assms(2)] show "grrow_revision r < grant_revision g" by simp
qed

text \<open>The statements that leave the grants alone.\<close>

lemmas forward_rest = yields_forward_fixed [OF fixed_bind] yields_forward_fixed fixed_bind fixed_if fixed_return
  fixed_fail fixed_grants_policy fixed_grants_pending fixed_grants_audit fixed_grants_principal
  fixed_grants_replace fixed_query

definition commit_answer :: "store \<Rightarrow> authorization \<Rightarrow> grant option \<Rightarrow> bool" where
  "commit_answer s p v \<longleftrightarrow>
     (if proof_changed p then \<forall>g. v = Some g \<longrightarrow> beyond s g else v = proof_previous p)"

lemma yields_forward_commit:
  assumes "current_in s p"
  shows "yields (grants_forward s) (commit J a p request private gid ev now)
    (\<lambda>v t. grants_forward s t \<and> commit_answer s p v)"
proof (cases "proof_changed p")
  case False
  then show ?thesis by (auto simp: commit_def commit_answer_def intro: yields_return)
next
  case True
  have tail: "yields (\<lambda>t. grants_forward s t \<and> beyond s g) (commit_grant J a p request private g ev now)
      (\<lambda>v t. grants_forward s t \<and> (\<forall>g. v = Some g \<longrightarrow> beyond s g))" for g
  proof (rule yieldsI, elim conjE)
    fix t v t'
    assume fwd: "grants_forward s t" and new: "beyond s g"
      and run: "commit_grant J a p request private g ev now t = (Inr v, t')"
    have "yields (grants_forward s) (commit_grant J a p request private g ev now) (\<lambda>_. grants_forward s)"
      unfolding commit_grant_def
      by (rule yields_bind [OF yields_forward_save [OF new]], rule yields_forward_fixed)
        (intro fixed_bind fixed_if fixed_return, simp_all add: fixed_query)
    from yieldsD [OF this fwd run] run new show "grants_forward s t' \<and> (\<forall>g. v = Some g \<longrightarrow> beyond s g)"
      by (auto simp: commit_grant_def op_iff)
  qed
  have cleared: "yields (grants_forward s) (if fresh_membership p \<or> intent_access (change_intent (proof_input p)) = AccessNone
      then repo_replace_room_permissions (change_agent_id (proof_input p)) (change_room_id (proof_input p)) None
      else return_op ()) (\<lambda>_. grants_forward s)"
    by (intro yields_forward_fixed fixed_if fixed_return) simp
  have made: "yields (grants_forward s) (lift_op (committed_grant a p gid now))
      (\<lambda>g t. grants_forward s t \<and> beyond s g)"
    by (rule yields_lift) (auto dest: committed_beyond [OF assms])
  from True have "commit J a p request private gid ev now = bind_op
      (if fresh_membership p \<or> intent_access (change_intent (proof_input p)) = AccessNone
       then repo_replace_room_permissions (change_agent_id (proof_input p)) (change_room_id (proof_input p)) None
       else return_op ()) (\<lambda>_. bind_op (lift_op (committed_grant a p gid now)) (\<lambda>g.
       commit_grant J a p request private g ev now))"
    by (simp add: commit_def)
  with True yields_bind [OF cleared yields_bind [OF made tail]] show ?thesis
    by (auto simp: commit_answer_def elim!: yields_weaken)
qed

text \<open>Rewriting a grant that is not behind.\<close>

lemma yields_touch:
  "at_least s g \<Longrightarrow> yields (grants_forward s)
     (lift_op (ok_or (checked_i64 (grant_revision g + 1)) e))
     (\<lambda>n t. grants_forward s t \<and> beyond s (g\<lparr>grant_revision := n, grant_updated_at := now\<rparr>))"
  by (rule yields_lift) (simp add: op_iff beyond_touch)

lemma yields_for_each_facts:
  assumes "\<And>x. x \<in> set xs \<Longrightarrow> yields P (f x) (\<lambda>_ s. P s \<and> b x)"
  shows "yields P (for_each_op f xs) (\<lambda>_ s. P s \<and> (\<forall>x \<in> set xs. b x))"
  using assms
proof (induction xs)
  case Nil
  then show ?case by (simp add: yields_def)
next
  case (Cons x xs)
  have "yields (\<lambda>s. P s \<and> b x) (for_each_op f xs) (\<lambda>_ s. P s \<and> (\<forall>y \<in> set (x # xs). b y))"
    by (rule yields_fact, rule yields_weaken, rule Cons.IH) (use Cons.prems in auto)
  with Cons.prems [of x] show ?case by (auto intro: yields_bind)
qed

section \<open>Every operation moves the grants forward\<close>

lemma forward_plan:
  assumes "store_ok s" "commit_plan J a v request ids now s = (r, s')"
  shows "grants_forward s s'"
proof -
  have current: "yields (\<lambda>t. t = s) (for_each_op (\<lambda>c. recheck J a (nchange_authorization c) now) (preview_changes v))
      (\<lambda>_ t. t = s \<and> (\<forall>c \<in> set (preview_changes v). current_in s (nchange_authorization c)))"
    by (rule yields_for_each_facts) (rule yields_recheck [OF assms(1)])
  have commits: "yields (grants_forward s) (for_each_op (\<lambda>(c, gid, ev).
      bind_op (commit J a (nchange_authorization c) request False gid ev now) (\<lambda>_. return_op ()))
      (zip (preview_changes v) gids)) (\<lambda>_. grants_forward s)"
    if "\<forall>c \<in> set (preview_changes v). current_in s (nchange_authorization c)" for gids
  proof (rule yields_for_each)
    fix x assume "x \<in> set (zip (preview_changes v) gids)"
    moreover obtain c gid ev where x: "x = (c, gid, ev)" by (cases x)
    ultimately have "c \<in> set (preview_changes v)" by (auto dest: set_zip_leftD)
    with that have "current_in s (nchange_authorization c)" by blast
    show "yields (grants_forward s) (case x of (c, gid, ev) \<Rightarrow>
         bind_op (commit J a (nchange_authorization c) request False gid ev now) (\<lambda>_. return_op ()))
       (\<lambda>_. grants_forward s)"
      unfolding x prod.case
      by (rule yields_bind [OF yields_forward_commit [OF \<open>current_in s (nchange_authorization c)\<close>]])
        (rule yields_return, rule conjunct1)
  qed
  have rest: "yields (grants_forward s) (bind_op (for_each_op (plan_agent_revision (preview_changes v))
      (preview_snapshots v)) (\<lambda>_. return_op w)) (\<lambda>_. grants_forward s)" for w :: "string list"
    unfolding plan_agent_revision_def
    by (intro yields_forward_fixed fixed_bind fixed_for_each fixed_if fixed_return)
      (simp_all add: fixed_query query_require_query)
  show ?thesis
    by (rule forward_transaction [OF _ assms(2) [unfolded commit_plan_def]],
        (rule yields_query_bind, (simp add: query_require_query; fail))+,
        rule yields_bind [OF current], rule yields_fact, rule forward_now,
        rule yields_bind [OF commits], assumption, rule rest)
qed

lemma forward_permission:
  assumes "store_ok s" "set_permission J a input request ev now s = (r, s')"
  shows "grants_forward s s'"
proof -
  have tail: "yields (grants_forward s) (bind_op (repo_replace_room_permissions agent room q) (\<lambda>_.
     bind_op (lift_op (room_revision n)) (\<lambda>revision.
     bind_op (repo_save_principal (pr\<lparr>principal_revision := revision\<rparr>)) (\<lambda>_.
     bind_op (lift_op (room_revision (grant_revision g))) (\<lambda>grant_rev.
     bind_op (repo_save_room_grant J (g\<lparr>grant_revision := grant_rev, grant_updated_at := now\<rparr>) False) (\<lambda>_.
     bind_op (repo_audit ev au) (\<lambda>_. return_op revision))))))) (\<lambda>_. grants_forward s)"
    if "at_least s g" for agent room q n g au and pr :: principal
    unfolding room_revision_def
    by (rule yields_bind [OF yields_forward_fixed [OF fixed_grants_replace]],
        rule yields_query_bind, simp,
        rule yields_bind [OF yields_forward_fixed [OF fixed_grants_principal]],
        rule yields_bind [OF yields_touch [OF that]], rule yields_fact,
        rule yields_bind [OF yields_forward_save], assumption,
        intro yields_forward_fixed fixed_bind fixed_return fixed_grants_audit)
  show ?thesis
    by (rule forward_transaction [OF _ assms(2) [unfolded set_permission_def]],
        (rule yields_query_bind, (simp add: query_require_some; fail))+,
        rule yields_bind [OF yields_read_grant [OF assms(1)]], rule yields_fact, rule forward_now,
        rule tail, assumption)
qed

lemma yields_forward_withdraw:
  assumes "at_least s g"
  shows "yields (grants_forward s) (withdraw_delegation J a target agent room g request ev now)
    (\<lambda>_. grants_forward s)"
  unfolding withdraw_delegation_def
  by (rule yields_query_bind, simp,
      rule yields_bind [OF yields_forward_fixed [OF fixed_grants_replace]],
      rule yields_if, rule yields_return, assumption,
      rule yields_bind [OF yields_touch [OF assms]], rule yields_fact,
      rule yields_bind [OF yields_forward_save], assumption,
      intro yields_forward_fixed fixed_bind fixed_return fixed_grants_audit)

lemma fixed_grants_conversation [simp]:
  "fixed grants_of (repo_insert_owner_conversation c)" "fixed grants_of (repo_insert_management_conversation d)"
  by (rule fixedI; auto simp: repo_insert_owner_conversation_def repo_insert_management_conversation_def
      execute_def on_rooms_def split: if_splits)+

text \<open>The authorization of a private conversation names the grant it was prepared on.\<close>

definition previous_named :: "authorization \<Rightarrow> bool" where
  "previous_named p \<longleftrightarrow> (\<forall>g. proof_previous p = Some g \<longrightarrow>
     grant_agent_id g = change_agent_id (proof_input p) \<and> grant_room_id g = change_room_id (proof_input p))"

lemma prepare_named:
  assumes "prepare J a input invitation now s = (Inr (p, acting, target), s')"
  shows "previous_named (p\<lparr>proof_native := facts\<rparr>)"
  using assms
proof (rule prepared_Inr)
  fix actor v previous fresh inviter
  assume p: "p = prepared a input actor v previous invitation fresh inviter"
    and found: "repo_room_grant J (change_agent_id input) (change_room_id input) s = (Inr previous, s)"
  from found have "grant_agent_id g = change_agent_id input \<and> grant_room_id g = change_room_id input"
    if "previous = Some g" for g
    using that by (auto simp: repo_room_grant_def op_iff same_room_def dest!: find_row_SomeD grant_of_row_key)
  then show ?thesis by (simp add: p previous_named_def prepared_def Let_def)
qed

lemma forward_conversation:
  assumes "store_ok s" "previous_named p"
    "bind_owner_conversation J target agent previous room p ids now s = (r, s')"
  shows "grants_forward s s'"
proof -
  have not_behind: "at_least s g" if "current_in s p" "commit_answer s p (Some g)" for g
  proof (cases "proof_changed p")
    case True
    with that show ?thesis by (simp add: commit_answer_def beyond_at_least)
  next
    case False
    with that(2) have g: "proof_previous p = Some g" by (simp add: commit_answer_def)
    with assms(2) that(1) show ?thesis
      by (auto simp: at_least_def previous_named_def current_in_def)
  qed
  have committed: "yields (grants_forward s) (require_op (commit J (owner_actor target) p (ids_request ids) True
      (ids_generation ids) (ids_audit ids) now) b e) (\<lambda>g t. grants_forward s t \<and> at_least s g)"
    if "current_in s p" for b e
    by (rule yields_require [OF yields_weaken [OF yields_forward_commit [OF that]]])
      (use not_behind [OF that] in auto)
  show ?thesis
    apply (rule forward_transaction [OF _ assms(3) [unfolded bind_owner_conversation_def]])
    apply (rule yields_bind [OF yields_recheck [OF assms(1)]], rule yields_fact, rule forward_now)
    apply (rule yields_query_bind, simp, rule yields_query_bind, simp)
    apply (rule yields_bind [OF committed], assumption, rule yields_fact)
    apply (rule yields_bind [OF yields_forward_withdraw], assumption)
    apply (simp only: case_prod_unfold)
    apply (intro yields_forward_fixed fixed_bind fixed_if fixed_return, simp_all add: fixed_query)
    done
qed

lemma forward_change:
  assumes "store_ok s" "commit_change J a input p request gid ev now s = (r, s')"
  shows "grants_forward s s'"
proof (cases r)
  case (Inl e)
  with assms(2) show ?thesis unfolding commit_change_def by (auto simp: transaction_eq_Inl)
next
  case (Inr v)
  with commit_change_forward [OF assms(1)] assms(2) show ?thesis by blast
qed

section \<open>Coordination\<close>

lemma off_rooms_replace_wake_policy: "off_rooms (replace_wake_policy agent mode senders)"
  unfolding replace_wake_policy_def repo_replace_wake_senders_def repo_save_agent_def
  by (intro off_rooms_bind off_rooms_query off_rooms_execute off_rooms_counted query_validate_wake_senders)
    (auto intro: off_rooms_query)

lemma fixed_off_rooms: "off_rooms m \<Longrightarrow> fixed grants_of m"
  by (simp add: off_rooms_def fixed_def)

lemma fixed_grants_approve [simp]: "fixed grants_of (repo_approve_fleet_policy pol)"
  unfolding repo_approve_fleet_policy_def
  by (intro fixed_bind fixed_execute fixed_if fixed_return) (simp_all add: Let_def)

lemma yields_coordinate_forward:
  assumes "at_least s g"
  shows "yields (grants_forward s) (coordinate_grant J now g) (\<lambda>_. grants_forward s)"
  unfolding coordinate_grant_def
  by (rule yields_if, rule yields_return, assumption, rule yields_query_bind, simp,
      rule yields_if, rule yields_return, assumption,
      rule yields_bind [OF yields_forward_fixed [OF fixed_grants_policy]],
      rule yields_bind [OF yields_touch [OF assms]], rule yields_fact, rule yields_forward_save, assumption)

lemma forward_coordination:
  assumes "store_ok s" "transaction (apply_policy J a agent requested request ev now) s = (r, s')"
  shows "grants_forward s s'"
proof -
  have same: "yields (\<lambda>t. grants_of t = grants_of s) m (\<lambda>_ t. grants_of t = grants_of s)"
    if "fixed grants_of m" for m :: "'x db"
    using that by (auto simp: yields_def dest: fixedD)
  have forward: "yields (grants_forward s) m Q \<Longrightarrow> yields (\<lambda>t. grants_of t = grants_of s) m Q" for m :: "'x db" and Q
    by (erule yields_weaken) (auto simp: grants_forward_def same_room_def)
  have loop: "yields (grants_forward s) (for_each_op (coordinate_grant J now) gs) (\<lambda>_. grants_forward s)"
    if "\<forall>g \<in> set gs. at_least s g" for gs
    by (rule yields_for_each) (use that yields_coordinate_forward in blast)
  have replaced: "yields (\<lambda>t. grants_of t = grants_of s)
      (replace_policy J a agent current requested request ev now) (\<lambda>_. grants_forward s)" for current
    unfolding replace_policy_def
    apply (rule yields_bind [OF same [OF fixed_off_rooms [OF off_rooms_replace_wake_policy]]])
    apply (rule yields_bind [OF same [OF fixed_grants_approve]])
    apply (rule yields_bind [OF yields_read_grants [OF assms(1)]], rule yields_fact)
    apply (rule yields_bind [OF forward [OF loop]], assumption)
    apply (intro yields_forward_fixed fixed_bind, simp_all add: fixed_query)
    done
  have "yields (\<lambda>t. t = s) (apply_policy J a agent requested request ev now) (\<lambda>_. grants_forward s)"
    unfolding apply_policy_def
    by (intro yields_query_bind yields_if yields_return yields_weaken [OF replaced]) simp_all
  from forward_transaction [OF this assms(2)] show ?thesis .
qed

text \<open>While the grants of an agent are rewritten, those still to come stay active.\<close>

definition still_active :: "grant list \<Rightarrow> store \<Rightarrow> bool" where
  "still_active gs s \<longleftrightarrow> rooms_ok s \<and> (\<forall>g \<in> set gs. intent_access (grant_intent g) \<noteq> AccessNone \<longrightarrow>
     grant_active (grant_agent_id g) (grant_room_id g) s)"

lemma yields_policy_active:
  assumes "intent_access (grant_intent g) \<noteq> AccessNone" "g \<in> set gs"
  shows "yields (still_active gs) (apply_fleet_permissions g now) (\<lambda>_. still_active gs)"
proof (rule yieldsI)
  fix s u s'
  assume pre: "still_active gs s" and run: "apply_fleet_permissions g now s = (Inr u, s')"
  from pre assms have "rooms_ok s \<and> grant_active (grant_agent_id g) (grant_room_id g) s"
    by (simp add: still_active_def)
  from yieldsD [OF yields_apply_fleet_permissions this run] fixedD [OF fixed_grants_policy run] pre
  show "still_active gs s'" by (simp add: still_active_def grant_active_def)
qed

lemma yields_save_active:
  assumes "intent_access (grant_intent g) \<noteq> AccessNone"
  shows "yields (still_active gs) (repo_save_room_grant J g new) (\<lambda>_. still_active gs)"
proof (rule yieldsI)
  fix s u s'
  assume pre: "still_active gs s" and run: "repo_save_room_grant J g new s = (Inr u, s')"
  from pre assms have "rooms_ok s \<and> (intent_access (grant_intent g) = AccessNone \<longrightarrow>
      no_delegation (grant_agent_id g) (grant_room_id g) s)" by (simp add: still_active_def)
  from yieldsD [OF yields_save_grant this run] have "rooms_ok s'" .
  moreover have "grant_active agent room s'" if "grant_active agent room s" for agent room
    using that assms save_room_grant_Inr(1) [OF run]
    by (auto simp: grant_active_def elim!: grants_after_cases)
  ultimately show "still_active gs s'" using pre by (simp add: still_active_def)
qed

lemma yields_coordinate_active:
  assumes "g \<in> set gs"
  shows "yields (still_active gs) (coordinate_grant J now g) (\<lambda>_. still_active gs)"
  unfolding coordinate_grant_def
  by (rule yields_if, rule yields_return, assumption, rule yields_query_bind, simp,
      rule yields_if, rule yields_return, assumption,
      rule yields_bind [OF yields_policy_active [OF _ assms]], assumption,
      rule yields_query_bind, simp, rule yields_save_active, simp)

lemma keeps_coordination: "keeps rooms_ok (transaction (apply_policy J a agent requested request ev now))"
proof -
  have active: "yields rooms_ok (repo_room_grants J agent) (\<lambda>gs. still_active gs)"
  proof (rule yieldsI)
    fix s gs s'
    assume ok: "rooms_ok s" and run: "repo_room_grants J agent s = (Inr gs, s')"
    then have s': "s' = s" by (auto dest: queryD [OF query_room_repo(2)])
    have "grant_active (grant_agent_id g) (grant_room_id g) s"
      if "g \<in> set gs" "intent_access (grant_intent g) \<noteq> AccessNone" for g
    proof -
      from repo_room_grants_row [OF run that(1)] obtain r where r: "r \<in> set (grants_of s)"
        "grant_of_row J r = Inr g" .
      have "q = r" if q: "q \<in> set (grants_of s)" "same_room (grant_agent_id g) (grant_room_id g) q" for q
      proof (rule same_grant [OF rooms_okD(1) [OF ok] q(1) r(1)])
        show "same_room (grrow_agent_id r) (grrow_room_id r) q"
          using q(2) grant_of_row_key [OF r(2)] by (simp add: same_room_def)
      qed
      moreover from grant_of_row_key [OF r(2)] that(2) have "grrow_access_mode r \<noteq> ''none''" by simp
      ultimately show ?thesis unfolding grant_active_def by blast
    qed
    with ok s' show "still_active gs s'" by (simp add: still_active_def)
  qed
  have loop: "yields (still_active gs) (for_each_op (coordinate_grant J now) gs) (\<lambda>_. rooms_ok)" for gs
    by (rule yields_weaken [OF yields_for_each [where P = "still_active gs"]])
      (auto intro: yields_coordinate_active simp: still_active_def)
  show ?thesis
    unfolding apply_policy_def replace_policy_def
    apply (rule keeps_by_yields, rule yields_query_bind, simp, rule yields_query_bind, simp)
    apply (rule yields_if, rule yields_return, assumption)
    apply (rule yields_bind [OF yields_keeps [OF off_rooms_keeps [OF off_rooms_replace_wake_policy]]])
    apply (rule yields_bind [OF yields_keeps [OF keeps_approve_policy]])
    apply (rule yields_bind [OF active], rule yields_bind [OF loop], rule yields_query_bind, simp)
    apply (rule yields_bind [OF yields_keeps [OF keeps_save_principal]], rule yields_keeps [OF keeps_audit])
    done
qed

section \<open>Private conversations are never forgotten\<close>

definition conversation_kept :: "owner_conversation \<Rightarrow> store \<Rightarrow> bool" where
  "conversation_kept c s \<longleftrightarrow> c \<in> set (owner_conversations (rooms s))"

lemma keeps_kept_fixed: "fixed (\<lambda>s. owner_conversations (rooms s)) m \<Longrightarrow> keeps (conversation_kept c) m"
  by (rule keepsI) (auto simp: conversation_kept_def dest: fixedD)

lemma keeps_kept_query: "query m \<Longrightarrow> keeps (conversation_kept c) m"
  by (rule keeps_kept_fixed [OF fixed_query])

lemma keeps_kept_off_rooms: "off_rooms m \<Longrightarrow> keeps (conversation_kept c) m"
  by (rule keeps_kept_fixed) (simp add: off_rooms_def fixed_def)

lemma keeps_kept_execute:
  "(\<And>t. owner_conversations (f t) = owner_conversations t) \<Longrightarrow> keeps (conversation_kept c) (execute (on_rooms f))"
  by (rule keeps_kept_fixed, rule fixed_execute) simp

lemma keeps_kept_rows [simp]:
  "keeps (conversation_kept c) (repo_save_room_grant J g new)"
  "keeps (conversation_kept c) (insert_room_permission v)"
  "keeps (conversation_kept c) (repo_save_room_application J ap new)"
  "keeps (conversation_kept c) (repo_insert_owner_conversation d)"
  "keeps (conversation_kept c) (repo_insert_management_conversation m)"
  by (rule keepsI, auto simp: conversation_kept_def repo_save_room_grant_def insert_room_permission_def
      repo_save_room_application_def repo_insert_owner_conversation_def repo_insert_management_conversation_def
      Let_def bind_op_def execute_def execute_counted_def on_rooms_def split: if_splits prod.splits sum.splits; fail)+

lemma keeps_kept_statements [simp]:
  "keeps (conversation_kept c) (repo_replace_room_permissions agent room v)"
  "keeps (conversation_kept c) (repo_approve_fleet_policy pol)"
  unfolding repo_replace_room_permissions_def repo_approve_fleet_policy_def
  by (intro keeps_bind keeps_kept_execute keeps_if keeps_return keeps_kept_rows | simp split: option.splits
      | intro conjI allI impI)+

lemma keeps_kept_others [simp]:
  "keeps (conversation_kept c) (repo_save_principal pr)" "keeps (conversation_kept c) (repo_audit ev au)"
  "keeps (conversation_kept c) (replace_wake_policy ag mode senders)"
  by (simp_all add: keeps_kept_off_rooms off_rooms_save_principal off_rooms_audit off_rooms_replace_wake_policy)

lemmas kept_statements = keeps_bind keeps_if keeps_return keeps_fail keeps_transaction keeps_for_each
  keeps_kept_rows keeps_kept_statements keeps_kept_others keeps_kept_query

lemma keeps_kept_policy [simp]: "keeps (conversation_kept c) (apply_fleet_permissions g now)"
  unfolding apply_fleet_permissions_def
proof (rule keeps_bind [OF keeps_kept_query])
  fix approved :: "approved_policy option"
  show "keeps (conversation_kept c) (case approved of None \<Rightarrow> return_op ()
     | Some pol \<Rightarrow>
         if intent_access (grant_intent g) = AccessNone then return_op () else
         bind_op (private_room (grant_room_id g)) (\<lambda>private.
         if private then return_op () else
         bind_op (require_op (repo_principal (approved_by_member_id pol))
           (\<lambda>w. principal_status w = Active)
           (failure_new Forbidden ''The fleet policy owner must be active'')) (\<lambda>_.
         repo_replace_room_permissions (grant_agent_id g) (grant_room_id g)
           (if approved_invite_agents pol
            then Some \<lparr>rperm_agent_id = grant_agent_id g, rperm_room_id = grant_room_id g,
              rperm_generation = grant_generation g,
              rperm_granted_by_member_id = approved_by_member_id pol, rperm_granted_at = now\<rparr>
            else None))))"
    by (cases approved; simp only: option.case)
      (intro keeps_bind [OF keeps_kept_query] keeps_if keeps_return keeps_kept_statements
        query_private_room query_require query_repo)+
qed simp

lemma keeps_kept_commit [simp]: "keeps (conversation_kept c) (commit J a p request private gid ev now)"
  unfolding commit_def commit_grant_def commit_application_def
  by (intro kept_statements keeps_kept_policy query_lift query_repo query_room_repo)

lemma keeps_kept_change: "keeps (conversation_kept c) (commit_change J a input p request gid ev now)"
  unfolding commit_change_def
  by (intro kept_statements keeps_kept_commit query_lift query_repo query_room_repo query_recheck query_check
      query_require_some)

lemma keeps_kept_permission: "keeps (conversation_kept c) (set_permission J a input request ev now)"
  unfolding set_permission_def
  by (intro kept_statements query_require query_require_some)
    (simp_all add: keeps_kept_query query_require_query)

lemma keeps_kept_bind:
  "keeps (conversation_kept c) (bind_owner_conversation J target agent previous room p ids now)"
proof -
  have required: "keeps P (require_op m b e)" if "keeps P m" for P b and e :: failure and m :: "'x option db"
    using that by (auto simp: keeps_def require_op_def bind_op_def split: prod.splits sum.splits option.splits)
  have withdrawn: "keeps (conversation_kept c) (withdraw_delegation J a target agent room g request ev now)"
    for a g request ev
    unfolding withdraw_delegation_def
    by (intro kept_statements query_lift query_room_repo)
  show ?thesis
    unfolding bind_owner_conversation_def case_prod_unfold
    by (intro kept_statements withdrawn required keeps_kept_commit)
      (simp_all add: keeps_kept_query)
qed

lemma keeps_kept_plan: "keeps (conversation_kept c) (commit_plan J a v request ids now)"
  unfolding commit_plan_def plan_agent_revision_def case_prod_unfold
  by (intro kept_statements keeps_kept_commit query_require query_for_each)
    (simp_all add: keeps_kept_query query_require_query)

lemma keeps_kept_outcome: "keeps (conversation_kept c) (record_outcome J agent room snap outcome observed now)"
proof -
  have "query (snapshot_current J agent room snap)"
    unfolding snapshot_current_def by (auto intro!: query_bind)
  then show ?thesis
    unfolding record_outcome_def
    by (intro keeps_transaction keeps_bind keeps_if keeps_return keeps_kept_rows keeps_kept_query)
      simp_all
qed

lemma keeps_kept_coordination:
  "keeps (conversation_kept c) (transaction (apply_policy J a agent requested request ev now))"
  unfolding apply_policy_def replace_policy_def coordinate_grant_def
  by (intro kept_statements keeps_kept_policy query_private_room query_policy query_lift query_room_repo)

section \<open>The moves\<close>

text \<open>
  The transactions of the code that write the tables of the rooms, with any arguments and whether they
  succeed or not, and any statement that leaves the rooms alone (\<open>move_other\<close>). The authorization of
  a private conversation was prepared on some earlier state of the database. The approval of a policy is
  one step of the transaction of \<open>decide_request\<close> in \<open>domain/src/enrollment/decide.rs\<close>; the other steps
  of that transaction leave the rooms alone.
\<close>

inductive room_move :: "codec \<Rightarrow> store \<Rightarrow> store \<Rightarrow> bool" for J where
  move_change: "commit_change J a input p request gid ev now s = (r, s') \<Longrightarrow> room_move J s s'"
| move_permission: "set_permission J a pinput request ev now s = (r, s') \<Longrightarrow> room_move J s s'"
| move_conversation:
    "prepare J (owner_actor target) input invitation before s0 = (Inr (p, acting, user), s1) \<Longrightarrow>
     change_intent input = reply_intent \<Longrightarrow>
     bind_owner_conversation J target agent previous room (p\<lparr>proof_native := facts\<rparr>) ids now s = (r, s') \<Longrightarrow>
     room_move J s s'"
| move_plan: "commit_plan J a v request gids now s = (r, s') \<Longrightarrow> room_move J s s'"
| move_outcome: "record_outcome J agent room snap outcome observed now s = (r, s') \<Longrightarrow> room_move J s s'"
| move_coordination:
    "transaction (apply_policy J a agent requested request ev now) s = (r, s') \<Longrightarrow> room_move J s s'"
| move_management: "repo_insert_management_conversation c s = (r, s') \<Longrightarrow> room_move J s s'"
| move_other: "off_rooms (m :: unit db) \<Longrightarrow> m s = (r, s') \<Longrightarrow> room_move J s s'"

definition no_rooms_yet :: "store \<Rightarrow> bool" where
  "no_rooms_yet s \<longleftrightarrow> store_ok s \<and> rooms s = no_rooms"

lemma reply_proof_native [simp]: "reply_proof (p\<lparr>proof_native := facts\<rparr>) = reply_proof p"
  by (simp add: reply_proof_def)

lemma room_move_keeps: "room_move J s s' \<Longrightarrow> rooms_ok s \<Longrightarrow> rooms_ok s'"
proof (induction rule: room_move.induct)
  case (move_conversation target input invitation before s0 p acting user s1 agent previous room facts ids now s r s')
  then have "reply_proof (p\<lparr>proof_native := facts\<rparr>)" by (simp add: prepare_reply)
  from keepsD [OF keeps_bind_owner_conversation [OF this]] move_conversation show ?case by blast
qed (blast intro: keepsD [OF keeps_commit_change] keepsD [OF keeps_set_permission] keepsD [OF keeps_commit_plan]
    keepsD [OF keeps_record_outcome] keepsD [OF keeps_coordination]
    keepsD [OF keeps_insert_management_conversation] keepsD [OF off_rooms_keeps])+

interpretation room_life: kept no_rooms_yet "room_move J" rooms_ok for J
proof
  show "rooms_ok w" if "no_rooms_yet w" for w
    using that by (simp add: no_rooms_yet_def rooms_ok_def private_ok_def management_ok_def delegated_ok_def
        no_rooms_def)
qed (rule room_move_keeps)

lemma room_move_forward: "room_move J s s' \<Longrightarrow> store_ok s \<Longrightarrow> grants_forward s s'"
proof (induction rule: room_move.induct)
  case (move_outcome agent room snap outcome observed now s r s')
  have "query (snapshot_current J agent room snap)"
    unfolding snapshot_current_def by (auto intro!: query_bind)
  then have "fixed grants_of (record_outcome J agent room snap outcome observed now)"
    unfolding record_outcome_def
    by (intro fixed_transaction fixed_bind fixed_if fixed_return fixed_grants_application) (simp_all add: fixed_query)
  from fixedD [OF this move_outcome(1)] show ?case by (simp add: grants_forward_def same_room_def) blast
next
  case (move_management c s r s')
  from fixedD [OF fixed_grants_conversation(2) this(1)] show ?case
    by (simp add: grants_forward_def same_room_def) blast
next
  case (move_other m s r s')
  from fixedD [OF fixed_off_rooms [OF this(1)] this(2)] show ?case
    by (simp add: grants_forward_def same_room_def) blast
next
  case (move_conversation target input invitation before s0 p acting user s1 agent previous room facts ids now s r s')
  from forward_conversation [OF move_conversation(4) prepare_named [OF move_conversation(1)] move_conversation(3)]
  show ?case .
qed (erule (1) forward_change [rotated] forward_permission [rotated] forward_plan [rotated]
    forward_coordination [rotated])+

lemma room_moves_forward:
  "(room_move J)\<^sup>*\<^sup>* s t \<Longrightarrow> rooms_ok s \<Longrightarrow> grants_forward s t \<and> rooms_ok t"
  by (induction rule: rtranclp_induct)
    (auto intro: room_move_keeps grants_forward_trans dest: room_move_forward rooms_okD(1))

lemma room_moves_conversation:
  "(room_move J)\<^sup>*\<^sup>* s t \<Longrightarrow> c \<in> set (owner_conversations (rooms s)) \<Longrightarrow> c \<in> set (owner_conversations (rooms t))"
proof (induction rule: rtranclp_induct)
  case (step t u)
  have "conversation_kept c u" if "room_move J t u" "conversation_kept c t"
    using that
    by (induction rule: room_move.induct)
      (blast intro: keepsD [OF keeps_kept_change] keepsD [OF keeps_kept_permission] keepsD [OF keeps_kept_bind]
        keepsD [OF keeps_kept_plan] keepsD [OF keeps_kept_outcome] keepsD [OF keeps_kept_coordination]
        keepsD [OF keeps_kept_rows(5)] keepsD [OF keeps_kept_off_rooms])+
  with step show ?case by (simp add: conversation_kept_def)
qed

end
