(* ===== verification/Room_Agents.thy ===== *)
theory Room_Agents
  imports Sample_Rooms Room_Moves
begin

text \<open>
  Agents that add agents: what a change by an agent can touch, however long the program waited for
  the messaging backend between the check and the commit.
\<close>

lemma fst_eq_E:
  assumes "fst x = r" obtains t where "x = (r, t)"
  using assms by (cases x) simp

section \<open>What an agent may change\<close>

definition delegated_in :: "string \<Rightarrow> string \<Rightarrow> store \<Rightarrow> bool" where
  "delegated_in agent room s \<longleftrightarrow> (\<exists>r \<in> set (grants_of s). same_room agent room r \<and>
     grrow_access_mode r \<noteq> ''none'' \<and> (\<exists>q \<in> set (room_permissions (rooms s)).
       same_permission agent room q \<and> rprow_generation q = grrow_generation r))"

lemma recheck_delegated:
  assumes "recheck_delegation J a p s = (Inr (), s)"
  shows "delegated_in (actor_principal_id a) (change_room_id (proof_input p)) s"
proof -
  from assms obtain g q where g: "repo_room_grant J (actor_principal_id a) (change_room_id (proof_input p)) s = (Inr (Some g), s)"
    and q: "repo_room_permission (actor_principal_id a) (change_room_id (proof_input p)) s = (Inr (Some q), s)"
    and same: "intent_access (grant_intent g) \<noteq> AccessNone" "rperm_generation q = grant_generation g"
    unfolding recheck_delegation_def by (auto simp: read_iff split: option.splits) (metis option.inject)
  from g obtain r where r: "r \<in> set (grants_of s)"
    "same_room (actor_principal_id a) (change_room_id (proof_input p)) r" "grant_of_row J r = Inr g"
    by (auto simp: repo_room_grant_def op_iff dest!: find_row_SomeD)
  from q obtain w where w: "w \<in> set (room_permissions (rooms s))"
    "same_permission (actor_principal_id a) (change_room_id (proof_input p)) w"
    "room_permission_of_row w = Inr q"
    by (auto simp: repo_room_permission_def op_iff dest!: find_row_SomeD)
  from w(3) have "rprow_generation w = rperm_generation q"
    by (auto simp: room_permission_of_row_def split: if_splits)
  with r w grant_of_row_key [OF r(3)] same show ?thesis
    unfolding delegated_in_def by (intro bexI [of _ r] conjI bexI [of _ w]) auto
qed

lemma prepare_agent:
  assumes "prepare_authority J a input previous fresh now s = (Inr inviter, s)" "actor_kind a = AgentKind"
  shows "change_agent_id input \<noteq> actor_principal_id a"
    "\<not> foreign_grant (actor_principal_id a) fresh previous (change_intent input)"
  using assms unfolding prepare_authority_def
  by (auto simp: read_iff split: if_splits option.splits)

text \<open>
  C4: An agent that changes room access never changes its own grant, holds an active membership with a
  current delegation in the room at the moment of the commit, and leaves every grant alone except the one
  it names, which it added itself or which gave no access. Between the check on \<open>s\<close> and the commit on
  \<open>t\<close> the program waits for the messaging backend, and any operations of the rest of the program may
  change the database, the approval of fleet policies by enrollment included.
\<close>
theorem agent_additions_only:
  assumes "rooms_ok s" "(room_move J)\<^sup>*\<^sup>* s t" "actor_kind a = AgentKind"
    and prep: "prepare J a input invitation now s = (Inr (p, acting, target), s')"
    and run: "commit_change J a input (p\<lparr>proof_native := facts\<rparr>) request gid ev later t = (Inr v, t')"
  shows "change_agent_id input \<noteq> actor_principal_id a \<and>
    delegated_in (actor_principal_id a) (change_room_id input) t \<and>
    (\<forall>r \<in> set (grants_of t). r \<in> set (grants_of t') \<or>
      same_room (change_agent_id input) (change_room_id input) r \<and>
      (grrow_access_mode r = ''none'' \<or> grrow_added_by_id r = actor_principal_id a))"
proof -
  from room_moves_forward [OF assms(2,1)] rooms_okD(1) assms(1)
  have ok: "store_ok s" "store_ok t" and forward: "grants_forward s t" by blast+
  let ?p = "p\<lparr>proof_native := facts\<rparr>"
  from prep obtain actor w previous fresh inviter where
    p: "p = prepared a input actor w previous invitation fresh inviter"
    and previous: "repo_room_grant J (change_agent_id input) (change_room_id input) s = (Inr previous, s)"
    and auth: "prepare_authority J a input previous fresh now s = (Inr inviter, s)"
    by (rule prepared_Inr)
  from p have fields: "proof_input ?p = input" "proof_previous ?p = previous"
    "proof_changed ?p \<longleftrightarrow> fresh \<or> (case previous of None \<Rightarrow> intent_access (change_intent input) \<noteq> AccessNone
       | Some g \<Rightarrow> grant_intent g \<noteq> change_intent input)"
    by (simp_all add: prepared_def Let_def)
  obtain x n where v: "v = (x, n)" by (cases v)
  note written = commit_change_Inr [OF run [unfolded v]]
  have "r \<in> set (grants_of t') \<or> same_room (change_agent_id input) (change_room_id input) r \<and>
      (grrow_access_mode r = ''none'' \<or> grrow_added_by_id r = actor_principal_id a)"
    if r: "r \<in> set (grants_of t)" for r
  proof (cases "proof_changed ?p \<and> same_room (change_agent_id input) (change_room_id input) r")
    case False
    show ?thesis
    proof (cases "proof_changed ?p")
      case True
      with False written(3) committed_grant_keys fields(1) grants_after_keep [OF r] show ?thesis by metis
    qed (use written(2) r in simp)
  next
    case True
    from recheck_previous [OF ok(2) written(1) r] True fields(1,2) obtain g where
      g: "previous = Some g" "grrow_revision r = grant_revision g" by auto
    from repo_room_grant_Some [OF ok(1)] previous g(1) obtain q where q: "q \<in> set (grants_of s)"
      "same_room (change_agent_id input) (change_room_id input) q" "grant_of_row J q = Inr g" by blast
    from forward q(1) obtain u where u: "u \<in> set (grants_of t)"
      "same_room (grrow_agent_id q) (grrow_room_id q) u" "u = q \<or> grrow_revision q < grrow_revision u"
      unfolding grants_forward_def by blast
    from u(2) q(2) True have "same_room (grrow_agent_id r) (grrow_room_id r) u" by (simp add: same_room_def)
    from same_grant [OF ok(2) u(1) r this] u(3) g(2) grant_of_row_key [OF q(3)] have "r = q" by simp
    moreover from prepare_agent(2) [OF auth assms(3)] g(1) True fields(3)
    have "intent_access (grant_intent g) = AccessNone \<or> grant_added_by_id g = actor_principal_id a"
      by (auto simp: foreign_grant_def)
    ultimately show ?thesis using True grant_of_row_key [OF q(3)] by auto
  qed
  moreover have "delegated_in (actor_principal_id a) (change_room_id input) t"
    using recheck_delegated [OF recheck_Inr(3) [OF written(1)]] assms(3) fields(1) by simp
  ultimately show ?thesis using prepare_agent(1) [OF auth assms(3)] by blast
qed

lemma agent_additions_only_witness:
  "change_agent_id add_bud \<noteq> actor_principal_id bot \<and>
   delegated_in (actor_principal_id bot) (change_room_id add_bud) room_store"
proof -
  obtain t' where "commit_change plain_codec bot add_bud bud_proof ''q'' ''g2'' ''e'' 1100 room_store =
      (Inr (Some bud_grant, 5), t')"
    using add_bud_committed by (rule fst_eq_E)
  then have "commit_change plain_codec bot add_bud (bud_proof\<lparr>proof_native := None\<rparr>)
      ''q'' ''g2'' ''e'' 1100 room_store = (Inr (Some bud_grant, 5), t')" by (simp add: bud_proof_def)
  from agent_additions_only [OF room_store_rooms_ok rtranclp.rtrancl_refl _ add_bud_prepared this]
  show ?thesis by (simp add: bot_def)
qed

section \<open>Private conversations\<close>

text \<open>
  C3: Once an agent has its private conversation with its owner, whatever operations follow in whatever
  order and with whatever outcome, the conversation is still there and stays private and answerable: the
  agent keeps an unmuted reply grant that the owner authorized and added, no other agent has access to the
  room, and nobody may invite anybody there.
\<close>
theorem private_conversation_kept:
  assumes "reachable no_rooms_yet (room_move J) s" "c \<in> set (owner_conversations (rooms s))"
    "(room_move J)\<^sup>*\<^sup>* s t"
  shows "c \<in> set (owner_conversations (rooms t)) \<and>
    (\<exists>r \<in> set (room_grants (rooms t)). private_grant c r) \<and>
    (\<forall>r \<in> set (room_grants (rooms t)). grrow_room_id r \<noteq> own_room_id c \<or>
       grrow_agent_id r = own_agent_id c \<or> grrow_access_mode r = ''none'') \<and>
    (\<forall>q \<in> set (room_permissions (rooms t)). rprow_room_id q \<noteq> own_room_id c)"
proof -
  from room_moves_forward [OF assms(3) room_life.holds [OF assms(1)]] have "private_ok (rooms t)"
    by (simp add: rooms_ok_def)
  moreover from room_moves_conversation [OF assms(3,2)] have "c \<in> set (owner_conversations (rooms t))" .
  ultimately show ?thesis by (fastforce simp: private_ok_def)
qed

lemma bound_store_reachable: "reachable no_rooms_yet (room_move plain_codec) bound_store"
proof (rule reachable_move)
  show "reachable no_rooms_yet (room_move plain_codec) bare_store"
    by (rule reachable_start) (simp add: no_rooms_yet_def bare_store_ok, simp add: bare_store_def)
  obtain s1 where prep: "prepare plain_codec (owner_actor bot_view) bot_change None 1000 bare_store =
      (Inr (bot_proof, ''@ada'', ''@bot''), s1)"
    using bot_prepared by (rule fst_eq_E)
  obtain r where run: "bind_owner_conversation plain_codec bot_view ''bot'' None ''dm''
      (bot_proof\<lparr>proof_native := None\<rparr>) bot_ids 1000 bare_store = (r, bound_store)"
    by (cases "bind_owner_conversation plain_codec bot_view ''bot'' None ''dm'' bot_proof bot_ids 1000 bare_store")
      (simp add: bound_store_def bot_proof_def)
  have "change_intent bot_change = reply_intent" by (simp add: bot_change_def)
  from move_conversation [OF prep this run] show "room_move plain_codec bare_store bound_store" .
qed

lemma private_conversation_kept_witness:
  "\<exists>r \<in> set (room_grants (rooms bound_store)). private_grant bot_conversation r"
  using private_conversation_kept [OF bound_store_reachable bound_store_conversation rtranclp.rtrancl_refl] by blast

end
