(* ===== verification/Resume_Selection.thy ===== *)
theory Resume_Selection
  imports Fleetd_Model
begin

text \<open>
  Which agents of a fleet a later start resumes: fleetd \<open>domain/src/resume_selection.rs\<close>. Stopping a fleet
  saves the agents that were enabled; starting the whole fleet again selects them. \<open>Selections\<close> is the map
  it has loaded; its methods that save return the map they leave.
\<close>

section \<open>The store and the map\<close>

record 'd selection_store =
  store_resume_selections :: "('d, failure, resume_selection list) op"
  store_save_resume_selections :: "resume_selection list \<Rightarrow> ('d, failure, unit) op"

type_synonym selections = "(string \<times> string list) list"

definition load_selections :: "('d, 'z) selection_store_scheme \<Rightarrow> registration list \<Rightarrow> ('d, failure, selections) op" where
  "load_selections store records = bind_op (store_resume_selections store) (\<lambda>values.
     if \<exists>v\<in>set values. \<not> (\<exists>r\<in>set records. reg_fleet_id r = sel_fleet_id v)
     then fail_op (failure_new Invalid ''Saved resume selection references an unregistered fleet'')
     else return_op (om_of (map (\<lambda>v. (sel_fleet_id v, sel_instance_keys v)) values)))"

definition view_selection :: "string \<Rightarrow> selections \<Rightarrow> string list option" where
  "view_selection fleet saved = om_get fleet saved"

definition selection_values :: "selections \<Rightarrow> resume_selection list" where
  "selection_values saved = map (\<lambda>(fleet, keys). \<lparr>sel_fleet_id = fleet, sel_instance_keys = keys\<rparr>) saved"

definition persist_selections :: "('d, 'z) selection_store_scheme \<Rightarrow> selections \<Rightarrow> ('d, failure, selections) op" where
  "persist_selections store saved =
     bind_op (store_save_resume_selections store (selection_values saved)) (\<lambda>_. return_op saved)"

definition missing_target :: failure where
  "missing_target = failure_new Conflict
     ''A saved resume target is missing from the current roster; review the fleet''"

definition select_instances ::
  "selections \<Rightarrow> string \<Rightarrow> agent_instance list \<Rightarrow> string list \<Rightarrow> agent_instance list result" where
  "select_instances saved fleet catalog enabled =
     (let paused = om_get fleet saved in
      if paused = None \<and> enabled = [] then Inr catalog else
      let keys = os_of ((case paused of None \<Rightarrow> [] | Some ks \<Rightarrow> ks) @ enabled) in
      if \<exists>k\<in>set keys. \<not> (\<exists>i\<in>set catalog. ai_key i = k) then Inl missing_target
      else Inr (filter (\<lambda>i. ai_key i \<in> set keys) catalog))"

definition stopped_keys :: "string list option \<Rightarrow> string list \<Rightarrow> string option \<Rightarrow> string list" where
  "stopped_keys previous enabled instance_key = (case instance_key of
       None \<Rightarrow> sort enabled
     | Some key \<Rightarrow> os_of (filter (\<lambda>v. v \<noteq> key)
         ((case previous of None \<Rightarrow> [] | Some ks \<Rightarrow> ks) @ enabled)))"

definition stop_selection :: "('d, 'z) selection_store_scheme \<Rightarrow> selections \<Rightarrow> string \<Rightarrow> string list \<Rightarrow>
    string option \<Rightarrow> ('d, failure, selections) op" where
  "stop_selection store saved fleet enabled instance_key =
     (let previous = om_get fleet saved in
      if instance_key = None \<and> enabled = [] \<and> previous \<noteq> None then return_op saved
      else persist_selections store (om_put fleet (stopped_keys previous enabled instance_key) saved))"

definition forget_selections :: "('d, 'z) selection_store_scheme \<Rightarrow> selections \<Rightarrow> string \<Rightarrow>
    string option \<Rightarrow> ('d, failure, selections) op" where
  "forget_selections store saved fleet instance_key =
     (case om_get fleet saved of None \<Rightarrow> return_op saved
      | Some keys \<Rightarrow> persist_selections store (case instance_key of
            Some key \<Rightarrow> om_put fleet (filter (\<lambda>v. v \<noteq> key) keys) saved
          | None \<Rightarrow> om_remove fleet saved))"

section \<open>What a start resumes\<close>

lemma select_instances_Inr:
  "select_instances saved fleet catalog enabled = Inr xs \<longleftrightarrow>
     (if om_get fleet saved = None \<and> enabled = [] then xs = catalog
      else set (case om_get fleet saved of None \<Rightarrow> [] | Some ks \<Rightarrow> ks) \<union> set enabled \<subseteq> ai_key ` set catalog \<and>
        xs = filter (\<lambda>i. ai_key i \<in> set (case om_get fleet saved of None \<Rightarrow> [] | Some ks \<Rightarrow> ks) \<union> set enabled) catalog)"
proof -
  define keys where "keys = (case om_get fleet saved of None \<Rightarrow> [] | Some ks \<Rightarrow> ks) @ enabled"
  have "(\<exists>k\<in>set (os_of keys). \<not> (\<exists>i\<in>set catalog. ai_key i = k)) \<longleftrightarrow> \<not> set keys \<subseteq> ai_key ` set catalog"
    by (fastforce simp: subset_iff image_iff)
  then show ?thesis
    unfolding select_instances_def Let_def by (fold keys_def, fold set_append, fold keys_def) auto
qed

lemma stop_selection_Inr:
  "stop_selection store saved fleet enabled instance_key s = (Inr saved', s') \<Longrightarrow>
     saved' = saved \<and> s' = s \<and> instance_key = None \<and> enabled = [] \<and> om_get fleet saved \<noteq> None \<or>
     saved' = om_put fleet (stopped_keys (om_get fleet saved) enabled instance_key) saved \<and>
       store_save_resume_selections store (selection_values saved') s = (Inr (), s')"
  by (auto simp: stop_selection_def Let_def persist_selections_def op_iff split: if_splits)

end
