(* ===== verification/Tasks.thy ===== *)
theory Tasks
  imports Kernel_Failure
begin

text \<open>
  Asynchronous code. A task is what is left to run of it: it has finished with a value, or it is pending
  on a condition and goes on, once it holds, with one atomic step on the shared state and what is left
  after it. A step is a critical section, a single call of a port, or the end of a wait; between two steps
  of a task any other task may run. \<open>machine_move\<close> interleaves the tasks of a program in every way.
\<close>

datatype ('w, 'a) task = Finished 'a | Pending "'w \<Rightarrow> bool" "'w \<Rightarrow> ('w, 'a) task \<times> 'w"

type_synonym ('w, 'a) fallible = "('w, failure + 'a) task"

section \<open>Composition\<close>

primrec task_bind :: "('w, 'a) task \<Rightarrow> ('a \<Rightarrow> ('w, 'b) task) \<Rightarrow> ('w, 'b) task" where
  "task_bind (Finished v) f = f v"
| "task_bind (Pending g k) f = Pending g (\<lambda>w. map_prod (\<lambda>t. task_bind t f) id (k w))"

text \<open>\<open>t.await?\<close>: a failure ends the caller.\<close>

definition try_task :: "('w, 'a) fallible \<Rightarrow> ('a \<Rightarrow> ('w, 'b) fallible) \<Rightarrow> ('w, 'b) fallible" where
  "try_task t f = task_bind t (\<lambda>r. case r of Inl e \<Rightarrow> Finished (Inl e) | Inr v \<Rightarrow> f v)"

text \<open>One atomic step, at once or when a condition holds.\<close>

definition step_when :: "('w \<Rightarrow> bool) \<Rightarrow> ('w \<Rightarrow> 'a \<times> 'w) \<Rightarrow> ('w, 'a) task" where
  "step_when g m = Pending g (\<lambda>w. case m w of (v, w') \<Rightarrow> (Finished v, w'))"

definition step_now :: "('w \<Rightarrow> 'a \<times> 'w) \<Rightarrow> ('w, 'a) task" where
  "step_now m = step_when (\<lambda>_. True) m"

fun for_each_task :: "('a \<Rightarrow> ('w, unit) fallible) \<Rightarrow> 'a list \<Rightarrow> ('w, unit) fallible" where
  "for_each_task f [] = Finished (Inr ())"
| "for_each_task f (x # xs) = try_task (f x) (\<lambda>_. for_each_task f xs)"

fun fold_task :: "('a \<Rightarrow> 's \<Rightarrow> ('w, 's) task) \<Rightarrow> 'a list \<Rightarrow> 's \<Rightarrow> ('w, 's) task" where
  "fold_task f [] s = Finished s"
| "fold_task f (x # xs) s = task_bind (f x s) (fold_task f xs)"

section \<open>All interleavings\<close>

text \<open>
  A machine is a pool of tasks and the state they share. A task may arrive from outside, the state may ask
  for one to be spawned, a task that is not waiting may take its next step, and the world may move.
\<close>

inductive machine_move :: "(('w, unit) task \<Rightarrow> bool) \<Rightarrow> ('w \<Rightarrow> (('w, unit) task \<times> 'w) option) \<Rightarrow> ('w \<Rightarrow> 'w \<Rightarrow> bool) \<Rightarrow>
    ('w, unit) task list \<times> 'w \<Rightarrow> ('w, unit) task list \<times> 'w \<Rightarrow> bool" for arrives spawns world where
  arrive: "arrives t \<Longrightarrow> machine_move arrives spawns world (ts, w) (ts @ [t], w)"
| spawn: "spawns w = Some (t, w') \<Longrightarrow> machine_move arrives spawns world (ts, w) (ts @ [t], w')"
| run: "i < length ts \<Longrightarrow> ts ! i = Pending g k \<Longrightarrow> g w \<Longrightarrow> k w = (t, w') \<Longrightarrow>
    machine_move arrives spawns world (ts, w) (ts[i := t], w')"
| outside: "world w w' \<Longrightarrow> machine_move arrives spawns world (ts, w) (ts, w')"

section \<open>Rely and guarantee\<close>

text \<open>
  \<open>good rely step t Q w\<close>: run from \<open>w\<close> while the others move the state along \<open>rely\<close>, every step of the
  task is one that \<open>step\<close> allows, and when it finishes, its value and the state satisfy \<open>Q\<close>.
\<close>

primrec good :: "('w \<Rightarrow> 'w \<Rightarrow> bool) \<Rightarrow> ('w \<Rightarrow> 'w \<Rightarrow> bool) \<Rightarrow> ('w, 'a) task \<Rightarrow> ('a \<Rightarrow> 'w \<Rightarrow> bool) \<Rightarrow> 'w \<Rightarrow> bool" where
  "good rely step (Finished v) = (\<lambda>Q w. Q v w)"
| "good rely step (Pending g k) = (\<lambda>Q w. \<forall>w1. rely w w1 \<and> g w1 \<longrightarrow>
     (case map_prod (good rely step) id (k w1) of (p, w2) \<Rightarrow> step w1 w2 \<and> p Q w2))"

lemma good_Pending [simp]:
  "good rely step (Pending g k) Q w \<longleftrightarrow> (\<forall>w1. rely w w1 \<and> g w1 \<longrightarrow>
     step w1 (snd (k w1)) \<and> good rely step (fst (k w1)) Q (snd (k w1)))"
  by (simp add: case_prod_unfold)

declare good.simps(2) [simp del]

definition careful :: "('w \<Rightarrow> 'w \<Rightarrow> bool) \<Rightarrow> ('w \<Rightarrow> 'w \<Rightarrow> bool) \<Rightarrow> ('w, 'a) task \<Rightarrow> bool" where
  "careful rely step t \<longleftrightarrow> (\<forall>w. good rely step t (\<lambda>_ _. True) w)"

named_theorems careful_intros "rules that walk a task to its steps"

lemma task_induct [case_names Finished Pending]:
  "(\<And>v. P (Finished v)) \<Longrightarrow> (\<And>g k. (\<And>w. P (fst (k w))) \<Longrightarrow> P (Pending g k)) \<Longrightarrow> P t"
proof (induction t)
  case (Pending g k)
  then show ?case by (metis fsts.intros rangeI)
qed

lemma good_weaken: "good rely step t Q w \<Longrightarrow> (\<And>v w. Q v w \<Longrightarrow> Q' v w) \<Longrightarrow> good rely step t Q' w"
  by (induction t arbitrary: w rule: task_induct) auto

lemma good_bind:
  "good rely step t (\<lambda>v. good rely step (f v) Q) w \<Longrightarrow> good rely step (task_bind t f) Q w"
  by (induction t arbitrary: w rule: task_induct) auto

lemma good_try:
  assumes "good rely step t (\<lambda>r w. case r of Inl e \<Rightarrow> Q (Inl e) w | Inr v \<Rightarrow> good rely step (f v) Q w) w"
  shows "good rely step (try_task t f) Q w"
  unfolding try_task_def
  by (rule good_bind, rule good_weaken [OF assms]) (simp split: sum.splits)

lemma good_step_when:
  "(\<And>w1. rely w w1 \<Longrightarrow> g w1 \<Longrightarrow> step w1 (snd (m w1)) \<and> Q (fst (m w1)) (snd (m w1))) \<Longrightarrow>
     good rely step (step_when g m) Q w"
  by (auto simp: step_when_def case_prod_unfold)

lemma good_step_now:
  "(\<And>w1. rely w w1 \<Longrightarrow> step w1 (snd (m w1)) \<and> Q (fst (m w1)) (snd (m w1))) \<Longrightarrow>
     good rely step (step_now m) Q w"
  unfolding step_now_def by (rule good_step_when) simp

lemma careful_good: "careful rely step t \<Longrightarrow> good rely step t (\<lambda>_ _. True) w"
  by (simp add: careful_def)

lemma careful_Finished [careful_intros, simp]: "careful rely step (Finished v)"
  by (simp add: careful_def)

lemma careful_bind [careful_intros]:
  "careful rely step t \<Longrightarrow> (\<And>v. careful rely step (f v)) \<Longrightarrow> careful rely step (task_bind t f)"
  unfolding careful_def by (blast intro: good_bind good_weaken)

lemma careful_try [careful_intros]:
  "careful rely step t \<Longrightarrow> (\<And>v. careful rely step (f v)) \<Longrightarrow> careful rely step (try_task t f)"
  unfolding try_task_def by (rule careful_bind) (auto split: sum.splits)

lemma careful_step_when [careful_intros]:
  "(\<And>w. g w \<Longrightarrow> step w (snd (m w))) \<Longrightarrow> careful rely step (step_when g m)"
  unfolding careful_def by (auto intro: good_step_when)

lemma careful_step_now [careful_intros]:
  "(\<And>w. step w (snd (m w))) \<Longrightarrow> careful rely step (step_now m)"
  unfolding step_now_def by (rule careful_step_when)

lemma careful_if [careful_intros]:
  "(b \<Longrightarrow> careful rely step t) \<Longrightarrow> (\<not> b \<Longrightarrow> careful rely step u) \<Longrightarrow> careful rely step (if b then t else u)"
  by simp

lemma careful_case_option [careful_intros]:
  "careful rely step t \<Longrightarrow> (\<And>v. careful rely step (f v)) \<Longrightarrow>
     careful rely step (case x of None \<Rightarrow> t | Some v \<Rightarrow> f v)"
  by (cases x) simp_all

lemma careful_case_sum [careful_intros]:
  "(\<And>e. careful rely step (f e)) \<Longrightarrow> (\<And>v. careful rely step (g v)) \<Longrightarrow>
     careful rely step (case x of Inl e \<Rightarrow> f e | Inr v \<Rightarrow> g v)"
  by (cases x) simp_all

lemma careful_case_prod [careful_intros]:
  "(\<And>a b. careful rely step (f a b)) \<Longrightarrow> careful rely step (case p of (a, b) \<Rightarrow> f a b)"
  by (cases p) simp

lemma careful_case_bool [careful_intros]:
  "careful rely step t \<Longrightarrow> careful rely step u \<Longrightarrow> careful rely step (case b of True \<Rightarrow> t | False \<Rightarrow> u)"
  by (cases b) simp_all

lemma careful_for_each [careful_intros]:
  "(\<And>x. careful rely step (f x)) \<Longrightarrow> careful rely step (for_each_task f xs)"
  by (induction xs) (auto intro!: careful_try)

lemma careful_fold [careful_intros]:
  "(\<And>x s. careful rely step (f x s)) \<Longrightarrow> careful rely step (fold_task f xs s)"
  by (induction xs arbitrary: s) (auto intro!: careful_bind)

text \<open>
  A program that follows its discipline: every task that may enter the pool takes only the steps it is
  allowed, whatever the others do. Then every move of the machine is one, from any reachable state.
\<close>

locale discipline =
  fixes rely step :: "'w \<Rightarrow> 'w \<Rightarrow> bool"
    and arrives :: "('w, unit) task \<Rightarrow> bool"
    and spawns :: "'w \<Rightarrow> (('w, unit) task \<times> 'w) option"
    and world :: "'w \<Rightarrow> 'w \<Rightarrow> bool"
  assumes rely_refl: "rely w w"
    and rely_trans: "rely w w1 \<Longrightarrow> rely w1 w2 \<Longrightarrow> rely w w2"
    and step_rely: "step w w1 \<Longrightarrow> rely w w1"
    and world_step: "world w w1 \<Longrightarrow> step w w1"
    and arrives_careful: "arrives t \<Longrightarrow> careful rely step t"
    and spawns_careful: "spawns w = Some (t, w1) \<Longrightarrow> careful rely step t \<and> step w w1"
    and step_refl: "step w w"
begin

lemma good_later: "rely w w' \<Longrightarrow> good rely step t (\<lambda>_ _. True) w \<Longrightarrow> good rely step t (\<lambda>_ _. True) w'"
  by (cases t) (auto intro: rely_trans)

definition orderly :: "('w, unit) task list \<times> 'w \<Rightarrow> bool" where
  "orderly c \<longleftrightarrow> (\<forall>t\<in>set (fst c). good rely step t (\<lambda>_ _. True) (snd c))"

lemma move_orderly:
  assumes "machine_move arrives spawns world c c'" "orderly c"
  shows "orderly c' \<and> step (snd c) (snd c')"
  using assms
proof (induction rule: machine_move.induct)
  case (arrive t ts w)
  then show ?case
    using careful_good [OF arrives_careful] by (auto simp: orderly_def step_refl)
next
  case (spawn w t w' ts)
  then show ?case
    using spawns_careful [OF spawn(1)] by (auto simp: orderly_def careful_good intro: good_later step_rely)
next
  case (run i ts g k w t w')
  then have "good rely step (Pending g k) (\<lambda>_ _. True) w"
    by (metis orderly_def fst_conv snd_conv nth_mem)
  then have "step w (snd (k w)) \<and> good rely step (fst (k w)) (\<lambda>_ _. True) (snd (k w))"
    using run(3) rely_refl [of w] by simp
  then have st: "step w w'" "good rely step t (\<lambda>_ _. True) w'"
    using run(4) by simp_all
  have "good rely step u (\<lambda>_ _. True) w'" if "u \<in> set (ts[i := t])" for u
  proof -
    from that have "u = t \<or> u \<in> set ts" using set_update_subset_insert by fast
    then show ?thesis
      using st run.prems by (auto simp: orderly_def intro: good_later step_rely)
  qed
  with st show ?case by (simp add: orderly_def)
next
  case (outside w w' ts)
  then show ?case
    using world_step [OF outside(1)] by (auto simp: orderly_def intro: good_later step_rely)
qed

lemma runs_orderly:
  assumes "(machine_move arrives spawns world)\<^sup>*\<^sup>* c c'" "orderly c"
  shows "orderly c' \<and> rely (snd c) (snd c')"
  using assms
proof (induction rule: rtranclp_induct)
  case (step c1 c2)
  then show ?case using move_orderly step_rely rely_trans by blast
qed (simp add: rely_refl)

lemma orderly_start: "(\<And>t. t \<in> set ts \<Longrightarrow> careful rely step t) \<Longrightarrow> orderly (ts, w)"
  by (auto simp: orderly_def intro: careful_good)

end

end
