(* ===== verification/Controller_State.thy ===== *)
theory Controller_State
  imports Resume_Selection Native_Lifecycle Tasks
begin

text \<open>
  The state of the fleet controller (fleetd \<open>domain/src/controller.rs\<close>) and the interfaces it is built on
  (\<open>domain/src/controller_ports.rs\<close>): the registry, which keeps its records on the disk \<open>'d\<close>, and the
  execution of native runtimes in an environment \<open>'e\<close>. A call of a port is an operation on what it acts on;
  one that is awaited acts, and answers, at one moment, and is told whether its cancellation token is
  cancelled then. A cancellation token, a completion channel and a running agent are numbers; token 0 is
  the lifetime of the controller, whose cancellation cancels every token derived from it.
\<close>

section \<open>State\<close>

type_synonym agent_key = "string \<times> string"

record work_item =
  work_id :: string
  work_stop :: nat
  work_done :: nat

record controller_state =
  cs_records :: "registration list"
  cs_deployed :: "(string \<times> configuration) list"
  cs_instances :: "(agent_key \<times> instance_state) list"
  cs_running :: "(agent_key \<times> nat) list"
  cs_wanted :: "agent_key list"
  cs_selections :: selections
  cs_operations :: "(string \<times> work_item) list"
  cs_recovering :: "(agent_key \<times> work_item) list"
  cs_mutations :: "string list"
  cs_connection_errors :: "(string \<times> string) list"
  cs_stopping :: bool

record attachment =
  att_runtime :: string
  att_session_id :: string
  att_workspace :: string
  att_connection :: "(string \<times> string) list"

record recovery_target =
  rec_fleet :: string
  rec_configuration :: configuration
  rec_instance :: agent_instance

text \<open>The tasks the controller spawns, each with what it captures.\<close>

datatype job =
    OperationJob operation "configuration option" "agent_instance list" "work_item option" work_item string
  | RecoveryJob recovery_target work_item nat "nat option" failure bool
  | RecoveryLoop recovery_target work_item nat bool nat
  | WatchJob recovery_target nat
  | RestoreJob
  | RestoreInstanceJob recovery_target nat

text \<open>
  Everything the tasks share. \<open>d_done\<close> are the channels on which completion was sent, \<open>d_next\<close> the next
  unused number of a token or channel, \<open>d_starts\<close> the free permits of the semaphore \<open>recovery_starts\<close>.
\<close>

record ('d, 'e) daemon =
  d_state :: controller_state
  d_cancelled :: "nat list"
  d_done :: "nat list"
  d_next :: nat
  d_restored :: bool
  d_setup_owned :: bool
  d_close_owned :: bool
  d_close_result :: "unit result option"
  d_starts :: nat
  d_spawned :: "job list"
  d_disk :: 'd
  d_env :: 'e

section \<open>Ports\<close>

record 'd registry = "'d selection_store" +
  registry_registrations :: "('d, failure, registration list) op"
  registry_save_registrations :: "registration list \<Rightarrow> ('d, failure, unit) op"
  registry_desired :: "('d, failure, desired_intent list) op"
  registry_save_desired :: "desired_intent list \<Rightarrow> ('d, failure, unit) op"
  registry_pending_operations :: "('d, failure, operation list) op"
  registry_operation :: "string \<Rightarrow> ('d, failure, operation option) op"
  registry_save_operation :: "operation \<Rightarrow> ('d, failure, unit) op"
  registry_prune_operations :: "int \<Rightarrow> nat \<Rightarrow> ('d, failure, bool) op"
  registry_load :: "string \<Rightarrow> ('d, failure, configuration) op"
  registry_preview_roster :: "configuration \<Rightarrow> roster \<Rightarrow> ('d, failure, configuration) op"
  registry_write_roster :: "configuration \<Rightarrow> roster \<Rightarrow> ('d, failure, configuration) op"
  registry_setup :: "setup_request \<Rightarrow> ('d, failure, setup_configuration) op"
  registry_complete_setup :: "string \<Rightarrow> ('d, failure, unit) op"
  registry_retry_setup :: "string \<Rightarrow> string \<Rightarrow> ('d, failure, unit) op"

text \<open>
  \<open>Execution\<close> and \<open>RunningAgent\<close>. The argument after the values of a call says whether its token is
  cancelled. While it prepares, the execution hands out approval links: first it says which ones, then it
  is given what became of each.
\<close>

record 'e execution =
  exec_connect :: "configuration \<Rightarrow> ('e, failure, unit) op"
  exec_connection :: "configuration \<Rightarrow> ('e, failure, connection_state) op"
  exec_delivery :: "configuration \<Rightarrow> int \<Rightarrow> bool \<Rightarrow> bool \<Rightarrow> ('e, failure, json) op"
  exec_message :: "configuration \<Rightarrow> string \<Rightarrow> string \<Rightarrow> bool \<Rightarrow> ('e, failure, json) op"
  exec_disconnect :: "configuration \<Rightarrow> ('e, failure, unit) op"
  exec_validate :: "configuration \<Rightarrow> ('e, failure, unit) op"
  exec_inspect :: "configuration \<Rightarrow> agent_instance list \<Rightarrow> bool \<Rightarrow> ('e, failure, unit) op"
  exec_test :: "configuration \<Rightarrow> agent_instance \<Rightarrow> bool \<Rightarrow> ('e, failure, unit) op"
  exec_approvals :: "configuration \<Rightarrow> controller_identity \<Rightarrow> bool \<Rightarrow> 'e \<Rightarrow> approval_link list \<times> 'e"
  exec_prepare :: "configuration \<Rightarrow> controller_identity \<Rightarrow> bool \<Rightarrow> unit result list \<Rightarrow> bool \<Rightarrow> ('e, failure, unit) op"
  exec_start :: "configuration \<Rightarrow> agent_instance \<Rightarrow> bool \<Rightarrow> bool \<Rightarrow> ('e, failure, nat) op"
  exec_contexts :: "configuration \<Rightarrow> agent_instance \<Rightarrow> ('e, failure, saved_context list) op"
  exec_confirm_stopped :: "configuration \<Rightarrow> agent_instance \<Rightarrow> bool \<Rightarrow> ('e, failure, unit) op"
  exec_reset :: "configuration \<Rightarrow> agent_instance \<Rightarrow> string \<Rightarrow> bool \<Rightarrow> ('e, failure, unit) op"
  exec_remove :: "configuration \<Rightarrow> agent_instance \<Rightarrow> bool \<Rightarrow> ('e, failure, unit) op"
  exec_archive :: "configuration \<Rightarrow> bool \<Rightarrow> ('e, failure, unit) op"
  exec_update :: "configuration \<Rightarrow> agent_instance \<Rightarrow> string \<Rightarrow> bool \<Rightarrow> ('e, failure, unit) op"
  rt_session_id :: "nat \<Rightarrow> 'e \<Rightarrow> string"
  rt_cancelled :: "nat \<Rightarrow> 'e \<Rightarrow> bool"
  rt_deliberate :: "nat \<Rightarrow> 'e \<Rightarrow> bool"
  rt_listener_active :: "nat \<Rightarrow> ('e, failure, bool) op"
  rt_native_state :: "nat \<Rightarrow> ('e, failure, session_state) op"
  rt_attachment :: "nat \<Rightarrow> string option \<Rightarrow> ('e, failure, attachment) op"
  rt_contexts :: "nat \<Rightarrow> ('e, failure, saved_context list) op"
  rt_close :: "nat \<Rightarrow> ('e, failure, unit) op"

text \<open>
  The controller itself: its ports, the clock, the source of fresh identifiers and its identity. \<open>con_choice\<close>
  is what an unbiased \<open>select!\<close> does when both of its branches are ready.
\<close>

record ('d, 'e) fleet_controller =
  con_registry :: "'d registry"
  con_execution :: "'e execution"
  con_clock :: "('e, failure, int) op"
  con_fresh :: "'e \<Rightarrow> string \<times> 'e"
  con_choice :: "'e \<Rightarrow> bool"
  con_identity :: controller_identity

type_synonym ('d, 'e, 'a) daemon_op = "(('d, 'e) daemon, failure, 'a) op"
type_synonym ('d, 'e, 'a) daemon_task = "(('d, 'e) daemon, failure + 'a) task"

section \<open>Reaching the parts\<close>

definition on_disk :: "('d, failure, 'a) op \<Rightarrow> ('d, 'e, 'a) daemon_op" where
  "on_disk m w = (case m (d_disk w) of (r, d) \<Rightarrow> (r, w\<lparr>d_disk := d\<rparr>))"

definition on_env :: "('e, failure, 'a) op \<Rightarrow> ('d, 'e, 'a) daemon_op" where
  "on_env m w = (case m (d_env w) of (r, e) \<Rightarrow> (r, w\<lparr>d_env := e\<rparr>))"

text \<open>A call that is told whether its token is cancelled.\<close>

definition cancelled :: "('d, 'e) daemon \<Rightarrow> nat \<Rightarrow> bool" where
  "cancelled w token \<longleftrightarrow> token \<in> set (d_cancelled w) \<or> 0 \<in> set (d_cancelled w)"

definition on_env_until :: "nat \<Rightarrow> (bool \<Rightarrow> ('e, failure, 'a) op) \<Rightarrow> ('d, 'e, 'a) daemon_op" where
  "on_env_until token m w = on_env (m (cancelled w token)) w"

definition state_of :: "(controller_state \<Rightarrow> 'a) \<Rightarrow> ('d, 'e, 'a) daemon_op" where
  "state_of f w = (Inr (f (d_state w)), w)"

definition try_state :: "(controller_state \<Rightarrow> 'a result) \<Rightarrow> ('d, 'e, 'a) daemon_op" where
  "try_state f w = (f (d_state w), w)"

definition change :: "(controller_state \<Rightarrow> controller_state) \<Rightarrow> ('d, 'e, unit) daemon_op" where
  "change f w = (Inr (), w\<lparr>d_state := f (d_state w)\<rparr>)"

definition cancel_token :: "nat \<Rightarrow> ('d, 'e, unit) daemon_op" where
  "cancel_token token w = (Inr (), w\<lparr>d_cancelled := token # d_cancelled w\<rparr>)"

definition send_done :: "nat \<Rightarrow> ('d, 'e, unit) daemon_op" where
  "send_done channel w = (Inr (), w\<lparr>d_done := channel # d_done w\<rparr>)"

definition spawn_job :: "job \<Rightarrow> ('d, 'e, unit) daemon_op" where
  "spawn_job j w = (Inr (), w\<lparr>d_spawned := d_spawned w @ [j]\<rparr>)"

definition fresh_number :: "('d, 'e, nat) daemon_op" where
  "fresh_number w = (Inr (d_next w), w\<lparr>d_next := d_next w + 1\<rparr>)"

definition is_cancelled :: "nat \<Rightarrow> ('d, 'e, bool) daemon_op" where
  "is_cancelled token w = (Inr (cancelled w token), w)"

text \<open>\<open>collect\<close> over a list, with effects.\<close>

fun collect_op :: "('a \<Rightarrow> ('s, 'x, 'b) op) \<Rightarrow> 'a list \<Rightarrow> ('s, 'x, 'b list) op" where
  "collect_op f [] = return_op []"
| "collect_op f (x # xs) = bind_op (f x) (\<lambda>y. bind_op (collect_op f xs) (\<lambda>ys. return_op (y # ys)))"

text \<open>A new unit of work: a child token of the lifetime and a channel.\<close>

definition new_work :: "string \<Rightarrow> ('d, 'e, work_item) daemon_op" where
  "new_work name = bind_op fresh_number (\<lambda>token. bind_op fresh_number (\<lambda>channel.
     return_op \<lparr>work_id = name, work_stop = token, work_done = channel\<rparr>))"

text \<open>
  \<open>Work::wait\<close>. The channel is never dropped without a value, because the task that holds its sender always
  ends by sending; so the wait does not fail.
\<close>

definition work_wait :: "work_item \<Rightarrow> ('d, 'e, unit) daemon_task" where
  "work_wait v = step_when (\<lambda>w. work_done v \<in> set (d_done w)) (return_op ())"

text \<open>\<open>delay\<close>: the timer may fire at any moment; cancellation is looked at first.\<close>

definition delay :: "nat \<Rightarrow> nat \<Rightarrow> ('d, 'e, bool) daemon_task" where
  "delay milliseconds token = step_now (\<lambda>w. (Inr (\<not> cancelled w token), w))"

definition failed :: "string \<Rightarrow> failure" where
  "failed message = failure_new Unavailable message"

definition conflict :: "string \<Rightarrow> failure" where
  "conflict message = failure_new Conflict message"

definition missing :: "string \<Rightarrow> failure" where
  "missing message = failure_new Missing message"

end
