(* ===== verification/Controller_View.thy ===== *)
theory Controller_View
  imports Controller_State
begin

text \<open>
  What the controller does under its lock and what it answers from its state: fleetd
  \<open>domain/src/controller.rs\<close>, and the writing through to the registry of \<open>controller/registry.rs\<close>. An
  operation here is one critical section or a part of one. \<open>signal\<close> wakes whoever waits for a change of the
  state; a wait of the model is for its condition, so it is not a definition.
\<close>

section \<open>Reading the state\<close>

definition enabled_keys :: "string \<Rightarrow> string option \<Rightarrow> controller_state \<Rightarrow> string list" where
  "enabled_keys fleet instance_key st =
     map snd (filter (\<lambda>(f, k). f = fleet \<and> (case instance_key of None \<Rightarrow> True | Some i \<Rightarrow> i = k)) (cs_wanted st))"

definition executing :: "string \<Rightarrow> controller_state \<Rightarrow> bool" where
  "executing fleet st \<longleftrightarrow> om_has fleet (cs_operations st) \<or>
     (\<exists>((f, k), r)\<in>set (cs_running st). f = fleet) \<or> (\<exists>(f, k)\<in>set (cs_wanted st). f = fleet)"

definition find_record :: "string \<Rightarrow> controller_state \<Rightarrow> registration option" where
  "find_record fleet st = find_row (\<lambda>r. reg_fleet_id r = fleet) (cs_records st)"

definition inspect_fleet :: "('d, 'e) fleet_controller \<Rightarrow> string \<Rightarrow> ('d, 'e, registration \<times> configuration) daemon_op" where
  "inspect_fleet con fleet =
     bind_op (try_state (\<lambda>st. ok_or (find_record fleet st) (missing ''Fleet is not registered''))) (\<lambda>r.
     bind_op (state_of (\<lambda>st. opt_filter (\<lambda>_. executing fleet st) (om_get fleet (cs_deployed st)))) (\<lambda>deployed.
     bind_op (case deployed of Some c \<Rightarrow> return_op c
       | None \<Rightarrow> on_disk (registry_load (con_registry con) (reg_directory r))) (\<lambda>c.
     if roster_fleet (conf_roster c) \<noteq> reg_fleet_key r
     then fail_op (conflict ''A registered fleet key cannot change'') else return_op (r, c))))"

section \<open>Views\<close>

fun shown_phase :: "phase \<Rightarrow> instance_phase" where
  "shown_phase NativeRunning = InstRunning"
| "shown_phase NativeSleeping = InstSleeping"
| "shown_phase NativeWaking = InstWaking"
| "shown_phase NativeFailed = InstFailed"

definition live_runtime :: "('d, 'e) fleet_controller \<Rightarrow> agent_key \<Rightarrow> ('d, 'e) daemon \<Rightarrow> nat option" where
  "live_runtime con key w = opt_filter (\<lambda>r. \<not> rt_cancelled (con_execution con) r (d_env w))
     (om_get key (cs_running (d_state w)))"

definition view_native :: "('d, 'e) fleet_controller \<Rightarrow> nat \<Rightarrow> instance_state \<Rightarrow> ('d, 'e, instance_state) daemon_op" where
  "view_native con runtime v =
     bind_op (on_env (rt_native_state (con_execution con) runtime)) (\<lambda>native.
     return_op (v\<lparr>ist_phase := (if ist_phase v = InstRunning then shown_phase (state_phase native) else ist_phase v),
       ist_last_activity_at := state_last_activity_at native,
       ist_history_available := Some (state_history_available native)\<rparr>))"

definition view_instance :: "('d, 'e) fleet_controller \<Rightarrow> string \<Rightarrow> agent_instance \<Rightarrow> ('d, 'e, instance_state) daemon_op" where
  "view_instance con fleet inst =
     (let key = (fleet, ai_key inst) in
      bind_op (state_of (\<lambda>st. ((case om_get key (cs_instances st) of None \<Rightarrow> stopped_instance inst | Some v \<Rightarrow> v)
        \<lparr>ist_instance := inst, ist_desired_active := (key \<in> set (cs_wanted st))\<rparr>))) (\<lambda>v.
      bind_op (\<lambda>w. (Inr (live_runtime con key w), w)) (\<lambda>runtime.
      case runtime of
        None \<Rightarrow> return_op (v\<lparr>ist_listener_active := False\<rparr>)
      | Some r \<Rightarrow> bind_op (on_env (rt_listener_active (con_execution con) r)) (\<lambda>active.
          view_native con r (v\<lparr>ist_listener_active := active\<rparr>)))))"

definition fleet_phase :: "instance_state list \<Rightarrow> instance_phase" where
  "fleet_phase vs = (case find_row (\<lambda>p. \<exists>v\<in>set vs. ist_phase v = p)
       [InstStopping, InstAwaitingApproval, InstStarting, InstFailed, InstWaking, InstRunning, InstSleeping] of
     None \<Rightarrow> InstStopped | Some p \<Rightarrow> p)"

definition view_locked :: "('d, 'e) fleet_controller \<Rightarrow> string \<Rightarrow> ('d, 'e, fleet_state) daemon_op" where
  "view_locked con fleet =
     bind_op (inspect_fleet con fleet) (\<lambda>(r, c).
     bind_op (collect_op (view_instance con fleet) (roster_instances (conf_roster c))) (\<lambda>vs.
     bind_op (on_env (exec_connection (con_execution con) c)) (\<lambda>connection.
     state_of (\<lambda>st. \<lparr>fst_registration = r, fst_controller = con_identity con, fst_phase = fleet_phase vs,
       fst_resume_instance_keys = om_get fleet (cs_selections st), fst_connection = connection,
       fst_instances = vs, fst_error = om_get (reg_directory r) (cs_connection_errors st)\<rparr>))))"

definition view_fleet :: "('d, 'e) fleet_controller \<Rightarrow> string \<Rightarrow> ('d, 'e, fleet_state) daemon_task" where
  "view_fleet con fleet = step_now (view_locked con fleet)"

definition unreadable_fleet :: "('d, 'e) fleet_controller \<Rightarrow> registration \<Rightarrow> string \<Rightarrow> controller_state \<Rightarrow> fleet_state" where
  "unreadable_fleet con r message st = \<lparr>fst_registration = r, fst_controller = con_identity con,
     fst_phase = InstFailed, fst_resume_instance_keys = om_get (reg_fleet_id r) (cs_selections st),
     fst_connection = \<lparr>conn_connected = False, conn_delivery_enabled = False, conn_revision = None,
       conn_error = Some message\<rparr>, fst_instances = [], fst_error = Some message\<rparr>"

definition list_fleet :: "('d, 'e) fleet_controller \<Rightarrow> registration \<Rightarrow> ('d, 'e, fleet_state) daemon_op" where
  "list_fleet con r w = (case view_locked con (reg_fleet_id r) w of
       (Inr v, w') \<Rightarrow> (Inr v, w')
     | (Inl e, w') \<Rightarrow> (Inr (unreadable_fleet con r (failure_message e) (d_state w')), w'))"

definition list_fleets :: "('d, 'e) fleet_controller \<Rightarrow> ('d, 'e, fleet_state list) daemon_task" where
  "list_fleets con = step_now (bind_op (state_of (\<lambda>st. sort_key reg_fleet_key (cs_records st)))
     (collect_op (list_fleet con)))"

section \<open>Writing through to the registry\<close>

definition persist_records :: "('d, 'e) fleet_controller \<Rightarrow> registration list \<Rightarrow> ('d, 'e, unit) daemon_op" where
  "persist_records con records =
     bind_op (on_disk (registry_save_registrations (con_registry con) records)) (\<lambda>_.
     change (\<lambda>st. st\<lparr>cs_records := records\<rparr>))"

definition intended :: "string \<Rightarrow> string list \<Rightarrow> bool \<Rightarrow> agent_key list \<Rightarrow> agent_key list" where
  "intended fleet keys enabled wanted =
     foldl (\<lambda>m k. if enabled then os_insert (fleet, k) m else os_remove (fleet, k) m) wanted keys"

definition set_intent :: "('d, 'e) fleet_controller \<Rightarrow> string \<Rightarrow> string list \<Rightarrow> bool \<Rightarrow> ('d, 'e, unit) daemon_op" where
  "set_intent con fleet keys enabled =
     bind_op (state_of (\<lambda>st. intended fleet keys enabled (cs_wanted st))) (\<lambda>next_wanted.
     bind_op (on_disk (registry_save_desired (con_registry con)
       (map (\<lambda>(f, k). \<lparr>des_fleet_id = f, des_instance_key = k\<rparr>) next_wanted))) (\<lambda>_.
     change (\<lambda>st. st\<lparr>cs_wanted := next_wanted\<rparr>)))"

definition save_selection :: "('d, 'e) fleet_controller \<Rightarrow> string \<Rightarrow> string list \<Rightarrow> string option \<Rightarrow> ('d, 'e, unit) daemon_op" where
  "save_selection con fleet enabled instance_key =
     bind_op (state_of cs_records) (\<lambda>records.
     bind_op (on_disk (load_selections (con_registry con) records)) (\<lambda>saved.
     bind_op (on_disk (stop_selection (con_registry con) saved fleet enabled instance_key)) (\<lambda>saved'.
     case view_selection fleet saved' of
       Some keys \<Rightarrow> change (\<lambda>st. st\<lparr>cs_selections := om_put fleet keys (cs_selections st)\<rparr>)
     | None \<Rightarrow> return_op ())))"

definition forget_selection :: "('d, 'e) fleet_controller \<Rightarrow> string \<Rightarrow> string option \<Rightarrow> ('d, 'e, unit) daemon_op" where
  "forget_selection con fleet instance_key =
     bind_op (state_of cs_records) (\<lambda>records.
     bind_op (on_disk (load_selections (con_registry con) records)) (\<lambda>saved.
     bind_op (on_disk (forget_selections (con_registry con) saved fleet instance_key)) (\<lambda>saved'.
     change (\<lambda>st. st\<lparr>cs_selections := (case view_selection fleet saved' of
         Some keys \<Rightarrow> om_put fleet keys (cs_selections st)
       | None \<Rightarrow> om_remove fleet (cs_selections st))\<rparr>))))"

section \<open>Connections and instances\<close>

definition connected :: "configuration \<Rightarrow> unit result \<Rightarrow> controller_state \<Rightarrow> controller_state" where
  "connected conf r st = st\<lparr>cs_connection_errors := (case r of
       Inr _ \<Rightarrow> om_remove (conf_directory conf) (cs_connection_errors st)
     | Inl e \<Rightarrow> om_put (conf_directory conf) (failure_message e) (cs_connection_errors st))\<rparr>"

definition connect :: "('d, 'e) fleet_controller \<Rightarrow> configuration \<Rightarrow> ('d, 'e, unit) daemon_task" where
  "connect con conf = task_bind (step_now (on_env (exec_connect (con_execution con) conf))) (\<lambda>r.
     step_now (change (connected conf r)))"

definition set_instance :: "string \<Rightarrow> agent_instance \<Rightarrow> instance_phase \<Rightarrow> string option \<Rightarrow>
    controller_state \<Rightarrow> controller_state" where
  "set_instance fleet inst phase error st =
     (let key = (fleet, ai_key inst);
          v = (case om_get key (cs_instances st) of None \<Rightarrow> stopped_instance inst | Some v \<Rightarrow> v)
      in st\<lparr>cs_instances := om_put key (v\<lparr>ist_phase := phase, ist_error := error,
           ist_listener_active := False, ist_desired_active := (key \<in> set (cs_wanted st))\<rparr>)
         (cs_instances st)\<rparr>)"

section \<open>Stored operations\<close>

definition stored_operation :: "('d, 'e) fleet_controller \<Rightarrow> string \<Rightarrow> ('d, 'e, operation) daemon_op" where
  "stored_operation con oid = bind_op (on_disk (registry_operation (con_registry con) oid)) (\<lambda>found.
     lift_op (ok_or found (missing ''Operation not found'')))"

definition acknowledge_operation :: "('d, 'e) fleet_controller \<Rightarrow> string \<Rightarrow> ('d, 'e, unit) daemon_task" where
  "acknowledge_operation con oid = step_now (bind_op (stored_operation con oid) (\<lambda>v.
     if op_completed_at v = None
     then fail_op (conflict ''Only completed native operations can release their receipt pin'')
     else on_disk (registry_save_operation (con_registry con) (v\<lparr>op_receipt_pending := False\<rparr>))))"

definition maintain_history :: "('d, 'e) fleet_controller \<Rightarrow> int \<Rightarrow> ('d, 'e, bool) daemon_task" where
  "maintain_history con days =
     (case opt_filter (\<lambda>_. 0 < days) (checked_i64 (days * 86400000)) of
        None \<Rightarrow> Finished (Inl (failure_new Invalid ''Invalid logging retention''))
      | Some age \<Rightarrow> try_task (step_now (on_env (con_clock con))) (\<lambda>now.
          step_now (on_disk (registry_prune_operations (con_registry con) (saturate_i64 (now - age)) 500))))"

section \<open>Calls that reach a running agent or the execution\<close>

definition not_resumed :: failure where
  "not_resumed = conflict
     ''Resume this agent before attaching its terminal; reading a pointer never starts a session''"

definition attach :: "('d, 'e) fleet_controller \<Rightarrow> string \<Rightarrow> string \<Rightarrow> string option \<Rightarrow> ('d, 'e, attachment) daemon_task" where
  "attach con fleet instance_key context_name =
     try_task (step_now (\<lambda>w. (if cs_stopping (d_state w) then Inl (conflict ''Controller is stopping'')
       else ok_or (live_runtime con (fleet, instance_key) w) not_resumed, w))) (\<lambda>runtime.
     step_now (on_env (rt_attachment (con_execution con) runtime context_name)))"

definition fleet_contexts :: "('d, 'e) fleet_controller \<Rightarrow> string \<Rightarrow> string \<Rightarrow> ('d, 'e, saved_context list) daemon_task" where
  "fleet_contexts con fleet instance_key =
     try_task (step_now (bind_op (inspect_fleet con fleet) (\<lambda>(r, c).
       bind_op (lift_op (ok_or (find_row (\<lambda>i. ai_key i = instance_key) (roster_instances (conf_roster c)))
         (missing ''Instance not found''))) (\<lambda>inst.
       \<lambda>w. (Inr (c, inst, live_runtime con (fleet, instance_key) w), w))))) (\<lambda>(c, inst, runtime).
     case runtime of
       Some r \<Rightarrow> step_now (on_env (rt_contexts (con_execution con) r))
     | None \<Rightarrow> step_now (on_env (exec_contexts (con_execution con) c inst)))"

definition unready_binding :: "string \<Rightarrow> failure" where
  "unready_binding key = conflict (''Instance '' @ key @ '' has no ready listener/native binding'')"

definition ready_phase :: "instance_phase \<Rightarrow> bool" where
  "ready_phase p \<longleftrightarrow> p = InstRunning \<or> p = InstSleeping"

definition test_instance :: "('d, 'e) fleet_controller \<Rightarrow> configuration \<Rightarrow> nat \<Rightarrow> instance_state \<Rightarrow> ('d, 'e, unit) daemon_task" where
  "test_instance con conf stop v =
     (if \<not> ist_listener_active v \<or> ist_session_id v = None \<or> \<not> ready_phase (ist_phase v) \<or> ist_error v \<noteq> None
      then Finished (Inl (unready_binding (ai_key (ist_instance v))))
      else task_bind (step_now (on_env_until stop (exec_test (con_execution con) conf (ist_instance v)))) (\<lambda>r.
        Finished (case r of Inl e \<Rightarrow> Inl (failure_field e (ai_key (ist_instance v))) | Inr u \<Rightarrow> Inr u)))"

definition test_fleet :: "('d, 'e) fleet_controller \<Rightarrow> string \<Rightarrow> nat \<Rightarrow> ('d, 'e, unit) daemon_task" where
  "test_fleet con fleet stop =
     try_task (step_now (bind_op (view_locked con fleet) (\<lambda>view.
       bind_op (inspect_fleet con fleet) (\<lambda>(r, c). return_op (view, c))))) (\<lambda>(view, conf).
     try_task (step_now (state_of cs_stopping)) (\<lambda>stopping.
     if stopping \<or> \<not> conn_connected (fst_connection view) \<or> \<not> conn_delivery_enabled (fst_connection view) \<or>
       fst_error view \<noteq> None
     then Finished (Inl (conflict ''Controller delivery is not ready'')) else
     let vs = filter ist_desired_active (fst_instances view) in
     if vs = [] then Finished (Inl (conflict ''This fleet is stopped; reading readiness never starts sessions''))
     else for_each_task (test_instance con conf stop) vs))"

text \<open>\<open>delivery\<close> and \<open>message\<close> share their first section.\<close>

definition open_configuration :: "('d, 'e) fleet_controller \<Rightarrow> string \<Rightarrow> ('d, 'e, configuration) daemon_task" where
  "open_configuration con fleet = step_now (bind_op (state_of cs_stopping) (\<lambda>stopping.
     if stopping then fail_op (failed ''Controller is stopping'')
     else bind_op (inspect_fleet con fleet) (\<lambda>(r, c). return_op c)))"

definition set_delivery :: "('d, 'e) fleet_controller \<Rightarrow> string \<Rightarrow> int \<Rightarrow> bool \<Rightarrow> nat \<Rightarrow> ('d, 'e, json) daemon_task" where
  "set_delivery con fleet revision enabled stop = try_task (open_configuration con fleet) (\<lambda>c.
     step_now (on_env_until stop (exec_delivery (con_execution con) c revision enabled)))"

definition send_message :: "('d, 'e) fleet_controller \<Rightarrow> string \<Rightarrow> string \<Rightarrow> string \<Rightarrow> nat \<Rightarrow> ('d, 'e, json) daemon_task" where
  "send_message con fleet mid body stop = try_task (open_configuration con fleet) (\<lambda>c.
     step_now (on_env_until stop (exec_message (con_execution con) c mid body)))"

definition remote_target :: "string \<Rightarrow> string option \<Rightarrow> ('d, 'e, target) daemon_task" where
  "remote_target directory instance_key = step_now (try_state (\<lambda>st.
     rbind (ok_or (find_row (\<lambda>r. reg_directory r = directory) (cs_records st))
       (missing ''Remote operation has no registered fleet directory'')) (\<lambda>r.
     Inr (case instance_key of Some i \<Rightarrow> AgentTarget (reg_fleet_id r) i | None \<Rightarrow> FleetTarget (reg_fleet_id r)))))"

end
