(* ===== verification/Controller_Recovery.thy ===== *)
theory Controller_Recovery
  imports Controller_View
begin

text \<open>
  Launching, recovering and stopping the runtime of an agent, restoring the enabled agents after a start
  and closing the controller: fleetd \<open>domain/src/controller/recovery.rs\<close>. A spawned task is a job that is
  put on the list of the state; the recovery loop, which has no bound, spawns its next round instead of
  jumping back, so that what is left of a task is always finite.
\<close>

definition key_of :: "recovery_target \<Rightarrow> agent_key" where
  "key_of t = (rec_fleet t, ai_key (rec_instance t))"

definition set_target :: "recovery_target \<Rightarrow> instance_phase \<Rightarrow> string option \<Rightarrow> controller_state \<Rightarrow> controller_state" where
  "set_target t = set_instance (rec_fleet t) (rec_instance t)"

definition recoverable :: "failure \<Rightarrow> bool" where
  "recoverable e \<longleftrightarrow> failure_code e = NativeError \<or> failure_code e = Unavailable \<or> failure_code e = BodyTooLarge"

section \<open>A runtime that has started\<close>

text \<open>Whether a runtime that has just started is admitted, under the lock.\<close>

definition admits_launch :: "recovery_target \<Rightarrow> nat \<Rightarrow> string option \<Rightarrow> ('d, 'e) daemon \<Rightarrow> bool" where
  "admits_launch t stop recovery w =
     (let st = d_state w; key = key_of t in
      \<not> (cs_stopping st \<or> cancelled w stop \<or> key \<notin> set (cs_wanted st) \<or> om_has key (cs_running st) \<or>
        (case recovery of None \<Rightarrow> False | Some rid \<Rightarrow>
          (case om_get key (cs_recovering st) of None \<Rightarrow> True | Some v \<Rightarrow> work_id v \<noteq> rid))))"

definition enter_running :: "recovery_target \<Rightarrow> nat \<Rightarrow> bool \<Rightarrow> controller_state \<Rightarrow> controller_state" where
  "enter_running t runtime recovered st =
     (let key = key_of t;
          st1 = (if recovered then st\<lparr>cs_recovering := om_remove key (cs_recovering st)\<rparr> else st)
      in set_target t InstRunning None (st1\<lparr>cs_running := om_put key runtime (cs_running st1)\<rparr>))"

definition note_session :: "agent_key \<Rightarrow> string \<Rightarrow> int option \<Rightarrow> controller_state \<Rightarrow> controller_state" where
  "note_session key session at st = (case om_get key (cs_instances st) of None \<Rightarrow> st
     | Some v \<Rightarrow> st\<lparr>cs_instances := om_put key (v\<lparr>ist_session_id := Some session,
         ist_started_at := (case at of None \<Rightarrow> ist_started_at v | Some n \<Rightarrow> Some n)\<rparr>) (cs_instances st)\<rparr>)"

text \<open>The session is noted before the clock is read, whose failure ends the section.\<close>

definition launch_section :: "('d, 'e) fleet_controller \<Rightarrow> recovery_target \<Rightarrow> nat \<Rightarrow> nat \<Rightarrow> string option \<Rightarrow>
    ('d, 'e, bool) daemon_op" where
  "launch_section con t runtime stop recovery w =
     (if \<not> admits_launch t stop recovery w then (Inr False, w) else
      bind_op (change (enter_running t runtime (recovery \<noteq> None))) (\<lambda>_.
      bind_op (\<lambda>w. change (note_session (key_of t) (rt_session_id (con_execution con) runtime (d_env w)) None) w) (\<lambda>_.
      bind_op (on_env (con_clock con)) (\<lambda>now.
      bind_op (change (note_session (key_of t) (rt_session_id (con_execution con) runtime (d_env w)) (Some now))) (\<lambda>_.
      return_op True)))) w)"

definition launched :: "('d, 'e) fleet_controller \<Rightarrow> recovery_target \<Rightarrow> nat \<Rightarrow> nat \<Rightarrow> string option \<Rightarrow>
    ('d, 'e, bool) daemon_task" where
  "launched con t runtime stop recovery =
     try_task (step_now (launch_section con t runtime stop recovery)) (\<lambda>admitted.
     if admitted then try_task (step_now (spawn_job (WatchJob t runtime))) (\<lambda>_. Finished (Inr True))
     else Finished (Inr False))"

section \<open>Starting a recovery\<close>

definition recovery_waits :: "recovery_target \<Rightarrow> nat option \<Rightarrow> controller_state \<Rightarrow> bool" where
  "recovery_waits t previous st =
     (let key = key_of t in
      \<not> (cs_stopping st \<or> om_has key (cs_recovering st)) \<and>
      (case previous of None \<Rightarrow> True | Some r \<Rightarrow>
        key \<in> set (cs_wanted st) \<and> om_get key (cs_running st) = Some r \<and>
        (case om_get key (cs_instances st) of None \<Rightarrow> False | Some v \<Rightarrow> ist_phase v = InstRunning)))"

definition recovery_section :: "('d, 'e) fleet_controller \<Rightarrow> recovery_target \<Rightarrow> work_item \<Rightarrow> failure \<Rightarrow> nat option \<Rightarrow> bool \<Rightarrow>
    ('d, 'e, bool) daemon_op" where
  "recovery_section con t v cause previous immediate w =
     (if \<not> recovery_waits t previous (d_state w) then (Inr False, w) else
      let deliberate = (case previous of None \<Rightarrow> False | Some r \<Rightarrow> rt_deliberate (con_execution con) r (d_env w)) in
      bind_op (change (\<lambda>st. let st1 = set_target t (if deliberate then InstStopping
            else if immediate then InstStarting else InstFailed)
          (if immediate then None else Some (failure_message cause)) st
        in st1\<lparr>cs_recovering := om_put (key_of t) v (cs_recovering st1)\<rparr>)) (\<lambda>_. return_op True) w)"

definition fresh_work :: "('d, 'e) fleet_controller \<Rightarrow> ('d, 'e, work_item) daemon_op" where
  "fresh_work con = bind_op (on_env (\<lambda>e. case con_fresh con e of (v, e') \<Rightarrow> (Inr v, e'))) new_work"

definition recover :: "('d, 'e) fleet_controller \<Rightarrow> recovery_target \<Rightarrow> failure \<Rightarrow> nat option \<Rightarrow> bool \<Rightarrow> ('d, 'e, unit) daemon_task" where
  "recover con t cause previous immediate =
     try_task (step_now (fresh_work con)) (\<lambda>v.
     try_task (step_now (recovery_section con t v cause previous immediate)) (\<lambda>goes.
     if \<not> goes then Finished (Inr ()) else
     try_task (step_now fresh_number) (\<lambda>attempted.
     try_task (step_now (spawn_job (RecoveryJob t v attempted previous cause immediate))) (\<lambda>_.
     if \<not> immediate then Finished (Inr ())
     else work_wait \<lparr>work_id = [], work_stop = attempted, work_done = attempted\<rparr>))))"

section \<open>The recovery itself\<close>

definition blocked_cleanup :: "failure \<Rightarrow> failure" where
  "blocked_cleanup e =
     conflict (''Native recovery cleanup failed; replacement is blocked: '' @ failure_message e)"

definition drop_running :: "agent_key \<Rightarrow> controller_state \<Rightarrow> controller_state" where
  "drop_running key st = st\<lparr>cs_running := om_remove key (cs_running st)\<rparr>"

text \<open>What happens to the runtime that is being replaced; the answer is whether to go on.\<close>

definition recover_previous :: "('d, 'e) fleet_controller \<Rightarrow> recovery_target \<Rightarrow> nat option \<Rightarrow> failure \<Rightarrow> ('d, 'e, bool) daemon_task" where
  "recover_previous con t previous cause = (case previous of
       None \<Rightarrow> Finished (Inr (recoverable cause))
     | Some r \<Rightarrow>
         try_task (step_now (\<lambda>w. (Inr (rt_deliberate (con_execution con) r (d_env w)), w))) (\<lambda>deliberate.
         if deliberate then
           try_task (step_now (set_intent con (rec_fleet t) [ai_key (rec_instance t)] False)) (\<lambda>_.
           try_task (step_now (on_env (rt_close (con_execution con) r))) (\<lambda>_.
           try_task (step_now (change (\<lambda>st. set_target t InstStopped None (drop_running (key_of t) st)))) (\<lambda>_.
           Finished (Inr False))))
         else
           task_bind (step_now (on_env (rt_close (con_execution con) r))) (\<lambda>closed. case closed of
             Inl e \<Rightarrow> Finished (Inl (blocked_cleanup e))
           | Inr _ \<Rightarrow> try_task (step_now (change (drop_running (key_of t)))) (\<lambda>_.
               Finished (Inr (recoverable cause))))))"

definition recovery_delay :: "nat \<Rightarrow> nat" where
  "recovery_delay attempt = min (push_bit (min attempt 6) 1000) 60000"

text \<open>What the loop finds when it looks at the state: an end, another round, or nothing in the way.\<close>

datatype look = LookEnd | LookAgain | LookGo

definition recovery_look :: "recovery_target \<Rightarrow> work_item \<Rightarrow> ('d, 'e) daemon \<Rightarrow> look" where
  "recovery_look t v w =
     (let st = d_state w in
      if cs_stopping st \<or> cancelled w (work_stop v) \<or> key_of t \<notin> set (cs_wanted st) then LookEnd
      else if om_has (rec_fleet t) (cs_operations st) \<or> rec_fleet t \<in> set (cs_mutations st) then LookAgain
      else LookGo)"

text \<open>A permit of \<open>recovery_starts\<close>, unless the work is cancelled first.\<close>

definition acquire_permit :: "work_item \<Rightarrow> ('d, 'e, bool) daemon_task" where
  "acquire_permit v = step_when (\<lambda>w. cancelled w (work_stop v) \<or> 0 < d_starts w) (\<lambda>w.
     if cancelled w (work_stop v) then (Inr False, w) else (Inr True, w\<lparr>d_starts := d_starts w - 1\<rparr>))"

definition release_start :: "('d, 'e, unit) daemon_op" where
  "release_start w = (Inr (), w\<lparr>d_starts := d_starts w + 1\<rparr>)"

definition recovery_failed :: "recovery_target \<Rightarrow> work_item \<Rightarrow> nat \<Rightarrow> failure \<Rightarrow> ('d, 'e, bool) daemon_task" where
  "recovery_failed t v attempted e =
     try_task (step_now (is_cancelled (work_stop v))) (\<lambda>stopped.
     if stopped then Finished (Inr False) else
     try_task (step_now (change (set_target t InstFailed (Some (failure_message e))))) (\<lambda>_.
     try_task (step_now (send_done attempted)) (\<lambda>_. Finished (Inr (recoverable e)))))"

text \<open>One round of the loop; the answer is whether there is another.\<close>

definition recovery_round :: "('d, 'e) fleet_controller \<Rightarrow> recovery_target \<Rightarrow> work_item \<Rightarrow> nat \<Rightarrow> bool \<Rightarrow> nat \<Rightarrow> ('d, 'e, bool) daemon_task" where
  "recovery_round con t v attempted immediate attempt =
     try_task (if \<not> immediate \<or> 0 < attempt then delay (recovery_delay attempt) (work_stop v)
       else Finished (Inr True)) (\<lambda>elapsed.
     if \<not> elapsed then Finished (Inr False) else
     try_task (step_now (\<lambda>w. (Inr (recovery_look t v w), w))) (\<lambda>found.
     case found of LookEnd \<Rightarrow> Finished (Inr False) | LookAgain \<Rightarrow> Finished (Inr True) | LookGo \<Rightarrow>
     try_task (acquire_permit v) (\<lambda>lease.
     if \<not> lease then Finished (Inr False) else
     task_bind (step_now (on_env_until (work_stop v)
       (exec_start (con_execution con) (rec_configuration t) (rec_instance t) True))) (\<lambda>started.
     try_task (step_now release_start) (\<lambda>_.
     case started of
       Inl e \<Rightarrow> recovery_failed t v attempted e
     | Inr runtime \<Rightarrow> try_task (launched con t runtime (work_stop v) (Some (work_id v))) (\<lambda>kept.
         if kept then Finished (Inr False)
         else try_task (step_now (on_env (rt_close (con_execution con) runtime))) (\<lambda>_. Finished (Inr False))))))))"

definition finish_recovery :: "recovery_target \<Rightarrow> work_item \<Rightarrow> nat \<Rightarrow> failure option \<Rightarrow> ('d, 'e, unit) daemon_task" where
  "finish_recovery t v attempted error =
     try_task (step_now (change (\<lambda>st.
       let st1 = (case error of None \<Rightarrow> st | Some e \<Rightarrow> set_target t InstFailed (Some (failure_message e)) st) in
       case om_get (key_of t) (cs_recovering st1) of None \<Rightarrow> st1
       | Some current \<Rightarrow> if work_id current = work_id v
           then st1\<lparr>cs_recovering := om_remove (key_of t) (cs_recovering st1)\<rparr> else st1))) (\<lambda>_.
     try_task (step_now (send_done attempted)) (\<lambda>_. step_now (send_done (work_done v))))"

definition next_attempt :: "nat \<Rightarrow> nat" where
  "next_attempt attempt = min (attempt + 1) (2 ^ 32 - 1)"

definition recovery_goes_on :: "recovery_target \<Rightarrow> work_item \<Rightarrow> nat \<Rightarrow> bool \<Rightarrow> nat \<Rightarrow> bool result \<Rightarrow> ('d, 'e, unit) daemon_task" where
  "recovery_goes_on t v attempted immediate attempt r = (case r of
       Inl e \<Rightarrow> finish_recovery t v attempted (Some e)
     | Inr False \<Rightarrow> finish_recovery t v attempted None
     | Inr True \<Rightarrow> step_now (spawn_job (RecoveryLoop t v attempted immediate attempt)))"

definition run_recovery :: "('d, 'e) fleet_controller \<Rightarrow> recovery_target \<Rightarrow> work_item \<Rightarrow> nat \<Rightarrow> nat option \<Rightarrow> failure \<Rightarrow> bool \<Rightarrow>
    ('d, 'e, unit) daemon_task" where
  "run_recovery con t v attempted previous cause immediate =
     task_bind (recover_previous con t previous cause) (recovery_goes_on t v attempted immediate 0)"

definition run_recovery_loop :: "('d, 'e) fleet_controller \<Rightarrow> recovery_target \<Rightarrow> work_item \<Rightarrow> nat \<Rightarrow> bool \<Rightarrow> nat \<Rightarrow>
    ('d, 'e, unit) daemon_task" where
  "run_recovery_loop con t v attempted immediate attempt =
     task_bind (recovery_round con t v attempted immediate attempt)
       (recovery_goes_on t v attempted immediate (next_attempt attempt))"

section \<open>Watching a runtime\<close>

definition watch_eligible :: "recovery_target \<Rightarrow> nat \<Rightarrow> controller_state \<Rightarrow> bool" where
  "watch_eligible t runtime st =
     (let key = key_of t in
      \<not> cs_stopping st \<and> key \<in> set (cs_wanted st) \<and> om_get key (cs_running st) = Some runtime \<and>
      (case om_get key (cs_instances st) of None \<Rightarrow> False | Some v \<Rightarrow> ist_phase v = InstRunning))"

definition run_watch :: "('d, 'e) fleet_controller \<Rightarrow> recovery_target \<Rightarrow> nat \<Rightarrow> ('d, 'e, unit) daemon_task" where
  "run_watch con t runtime =
     try_task (step_when (\<lambda>w. cancelled w 0 \<or> rt_cancelled (con_execution con) runtime (d_env w))
       (\<lambda>w. (Inr (cancelled w 0), w))) (\<lambda>ended.
     if ended then Finished (Inr ()) else
     try_task (step_now (state_of (watch_eligible t runtime))) (\<lambda>eligible.
     if \<not> eligible then Finished (Inr ()) else
     task_bind (recover con t
       (failed ''Listener binding disconnected; recovering its exact saved identity and history'')
       (Some runtime) False) (\<lambda>r. case r of
         Inr _ \<Rightarrow> Finished (Inr ())
       | Inl e \<Rightarrow> step_now (change (set_target t InstFailed (Some (failure_message e)))))))"

section \<open>Stopping an instance\<close>

definition stop_instance :: "('d, 'e) fleet_controller \<Rightarrow> string \<Rightarrow> agent_instance \<Rightarrow> ('d, 'e, unit) daemon_task" where
  "stop_instance con fleet inst =
     (let key = (fleet, ai_key inst) in
      try_task (step_now (bind_op (state_of (\<lambda>st. om_get key (cs_recovering st))) (\<lambda>recovery.
        bind_op (change (\<lambda>st. if recovery \<noteq> None \<or> om_has key (cs_running st)
          then set_instance fleet inst InstStopping None st else st)) (\<lambda>_. return_op recovery)))) (\<lambda>recovery.
      try_task (case recovery of None \<Rightarrow> Finished (Inr ())
        | Some v \<Rightarrow> try_task (step_now (cancel_token (work_stop v))) (\<lambda>_. work_wait v)) (\<lambda>_.
      try_task (step_now (state_of (\<lambda>st. om_get key (cs_running st)))) (\<lambda>runtime.
      try_task (case runtime of None \<Rightarrow> Finished (Inr ())
        | Some r \<Rightarrow> try_task (step_now (on_env (rt_close (con_execution con) r))) (\<lambda>_.
            step_now (change (\<lambda>st. if om_get key (cs_running st) = Some r then drop_running key st else st)))) (\<lambda>_.
      step_now (change (set_instance fleet inst InstStopped None)))))))"

section \<open>Restoring the enabled agents\<close>

definition restore_error :: "agent_instance list \<Rightarrow> string list \<Rightarrow> configuration \<Rightarrow> registration \<Rightarrow> unit result \<Rightarrow> string option" where
  "restore_error instances enabled conf r valid =
     (if length instances \<noteq> length enabled
      then Some ''Desired binding is missing from the saved roster; stop this fleet and review its files''
      else if roster_fleet (conf_roster conf) \<noteq> reg_fleet_key r \<or> conf_digest conf \<noteq> reg_digest r
      then Some ''Fleet files changed after their last accepted revision; review them and run an explicit update''
      else (case valid of Inl e \<Rightarrow> Some (failure_message e) | Inr _ \<Rightarrow> None))"

definition set_instances :: "string \<Rightarrow> agent_instance list \<Rightarrow> instance_phase \<Rightarrow> string option \<Rightarrow>
    controller_state \<Rightarrow> controller_state" where
  "set_instances fleet instances phase error st = foldl (\<lambda>s i. set_instance fleet i phase error s) st instances"

definition attempt_op :: "('s, 'x, 'a) op \<Rightarrow> ('s, 'x, 'x + 'a) op" where
  "attempt_op m s = (case m s of (r, s') \<Rightarrow> (Inr r, s'))"

definition restore_loaded :: "('d, 'e) fleet_controller \<Rightarrow> registration \<Rightarrow> string list \<Rightarrow> configuration \<Rightarrow>
    ('d, 'e, recovery_target list) daemon_op" where
  "restore_loaded con r enabled conf =
     (let instances = filter (\<lambda>i. ai_key i \<in> set enabled) (roster_instances (conf_roster conf)) in
      bind_op (attempt_op (on_env (exec_validate (con_execution con) conf))) (\<lambda>valid.
      case restore_error instances enabled conf r valid of
        Some error \<Rightarrow> bind_op (change (\<lambda>st. set_instances (reg_fleet_id r) instances InstFailed (Some error)
            (st\<lparr>cs_connection_errors := om_put (reg_directory r) error (cs_connection_errors st)\<rparr>)))
          (\<lambda>_. return_op [])
      | None \<Rightarrow> bind_op (change (\<lambda>st. set_instances (reg_fleet_id r) instances InstStarting None
            (st\<lparr>cs_deployed := om_put (reg_fleet_id r) conf (cs_deployed st)\<rparr>)))
          (\<lambda>_. return_op (map (\<lambda>i. \<lparr>rec_fleet = reg_fleet_id r, rec_configuration = conf,
            rec_instance = i\<rparr>) instances))))"

definition restore_record :: "('d, 'e) fleet_controller \<Rightarrow> registration \<Rightarrow> ('d, 'e, recovery_target list) daemon_op" where
  "restore_record con r =
     bind_op (state_of (enabled_keys (reg_fleet_id r) None)) (\<lambda>enabled.
     if enabled = [] then return_op [] else
     bind_op (attempt_op (on_disk (registry_load (con_registry con) (reg_directory r)))) (\<lambda>found.
     case found of
       Inl e \<Rightarrow> bind_op (change (\<lambda>st. st\<lparr>cs_connection_errors :=
           om_put (reg_directory r) (failure_message e) (cs_connection_errors st)\<rparr>)) (\<lambda>_. return_op [])
     | Inr conf \<Rightarrow> restore_loaded con r enabled conf))"

definition restoring :: "failure" where
  "restoring = failed ''Restoring the saved native identity and history''"

definition run_restore_instance :: "('d, 'e) fleet_controller \<Rightarrow> recovery_target \<Rightarrow> nat \<Rightarrow> ('d, 'e, unit) daemon_task" where
  "run_restore_instance con t channel =
     task_bind (recover con t restoring None True) (\<lambda>_. step_now (send_done channel))"

text \<open>The join set: a channel for every task; \<open>recover\<close> of an immediate recovery never fails.\<close>

definition restore :: "('d, 'e) fleet_controller \<Rightarrow> ('d, 'e, unit) daemon_task" where
  "restore con =
     try_task (step_now (bind_op (state_of cs_records) (\<lambda>records.
       bind_op (collect_op (restore_record con) records) (\<lambda>ts. return_op (concat ts))))) (\<lambda>targets.
     task_bind (fold_task (\<lambda>t channels. task_bind (step_now (bind_op fresh_number (\<lambda>n.
         bind_op (spawn_job (RestoreInstanceJob t n)) (\<lambda>_. return_op n)))) (\<lambda>r.
       Finished (case r of Inr n \<Rightarrow> channels @ [n] | Inl _ \<Rightarrow> channels))) targets []) (\<lambda>channels.
     for_each_task (\<lambda>n. step_when (\<lambda>w. n \<in> set (d_done w)) (return_op ())) channels))"

definition mark_unrestored :: "string \<Rightarrow> controller_state \<Rightarrow> controller_state" where
  "mark_unrestored message st = st\<lparr>cs_instances := map (\<lambda>(k, v). (k,
     if ist_phase v = InstStarting then v\<lparr>ist_phase := InstFailed, ist_error := Some message\<rparr> else v))
     (cs_instances st)\<rparr>"

definition run_restore :: "('d, 'e) fleet_controller \<Rightarrow> ('d, 'e, unit) daemon_task" where
  "run_restore con =
     task_bind (restore con) (\<lambda>r.
     task_bind (case r of Inr _ \<Rightarrow> Finished (Inr ())
       | Inl e \<Rightarrow> step_now (change (mark_unrestored (failure_message e)))) (\<lambda>_.
     step_now (\<lambda>w. (Inr (), w\<lparr>d_restored := True\<rparr>))))"

section \<open>Closing\<close>

definition ready :: "('d, 'e) fleet_controller \<Rightarrow> ('d, 'e, unit) daemon_task" where
  "ready con = step_when d_restored (return_op ())"

text \<open>\<open>error.get_or_insert(failure)\<close>\<close>

definition first_error :: "failure option \<Rightarrow> 'a result \<Rightarrow> failure option" where
  "first_error error r = (case error of Some e \<Rightarrow> Some e
     | None \<Rightarrow> (case r of Inl e \<Rightarrow> Some e | Inr _ \<Rightarrow> None))"

definition close_runtime :: "('d, 'e) fleet_controller \<Rightarrow> agent_key \<times> nat \<Rightarrow> failure option \<Rightarrow>
    (('d, 'e) daemon, failure option) task" where
  "close_runtime con kr error =
     task_bind (step_now (on_env (rt_close (con_execution con) (snd kr)))) (\<lambda>r. case r of
       Inl e \<Rightarrow> Finished (first_error error (Inl e :: unit result))
     | Inr _ \<Rightarrow> task_bind (step_now (change (drop_running (fst kr)))) (\<lambda>_. Finished error))"

definition close_begin :: "('d, 'e, work_item list) daemon_op" where
  "close_begin = bind_op (change (\<lambda>st. st\<lparr>cs_stopping := True\<rparr>)) (\<lambda>_.
     state_of (\<lambda>st. map snd (cs_operations st) @ map snd (cs_recovering st)))"

definition close_all :: "('d, 'e) fleet_controller \<Rightarrow> ('d, 'e, unit) daemon_task" where
  "close_all con =
     try_task (step_now close_begin) (\<lambda>works.
     try_task (for_each_task (\<lambda>v. step_now (cancel_token (work_stop v))) works) (\<lambda>_.
     try_task (step_now (cancel_token 0)) (\<lambda>_.
     task_bind (ready con) (\<lambda>r.
     task_bind (fold_task (\<lambda>v error. task_bind (work_wait v) (\<lambda>r. Finished (first_error error r))) works
       (first_error None r)) (\<lambda>error.
     task_bind (step_when (\<lambda>w. cs_mutations (d_state w) = []) (return_op () :: ('d, 'e, unit) daemon_op)) (\<lambda>_.
     try_task (step_now (state_of cs_running)) (\<lambda>running.
     task_bind (fold_task (close_runtime con) running error) (\<lambda>error.
     case error of Some e \<Rightarrow> Finished (Inl e)
     | None \<Rightarrow> step_now (\<lambda>w. (Inr (), w\<lparr>d_close_result := Some (Inr ())\<rparr>))))))))))"

text \<open>\<open>close_owner\<close> is held from the first step to the last.\<close>

definition close_controller :: "('d, 'e) fleet_controller \<Rightarrow> ('d, 'e, unit) daemon_task" where
  "close_controller con =
     try_task (step_when (\<lambda>w. \<not> d_close_owned w) (\<lambda>w. (Inr (d_close_result w), w\<lparr>d_close_owned := True\<rparr>))) (\<lambda>closed.
     task_bind (case closed of Some r \<Rightarrow> Finished r | None \<Rightarrow> close_all con) (\<lambda>r.
     task_bind (step_now (\<lambda>w. (Inr (), w\<lparr>d_close_owned := False\<rparr>) :: unit result \<times> ('d, 'e) daemon)) (\<lambda>_.
     Finished r)))"

end
