(* ===== verification/Controller_Actions.thy ===== *)
theory Controller_Actions
  imports Controller_Recovery
begin

text \<open>
  What an accepted operation does to a fleet: fleetd \<open>domain/src/controller/actions.rs\<close>. Its steps share
  the operation as it is stored so far and the errors of single instances, which do not end it; an
  \<open>act\<close> is a task that is given both and hands them back with its result.
\<close>

section \<open>Actions\<close>

type_synonym progress = "operation \<times> operation_error list"

type_synonym ('d, 'e, 'a) act = "progress \<Rightarrow> (('d, 'e) daemon, progress \<times> (failure + 'a)) task"

definition act_return :: "'a \<Rightarrow> ('d, 'e, 'a) act" where
  "act_return v s = Finished (s, Inr v)"

definition act_fail :: "failure \<Rightarrow> ('d, 'e, 'a) act" where
  "act_fail e s = Finished (s, Inl e)"

definition act_bind :: "('d, 'e, 'a) act \<Rightarrow> ('a \<Rightarrow> ('d, 'e, 'b) act) \<Rightarrow> ('d, 'e, 'b) act" where
  "act_bind m f s = task_bind (m s) (\<lambda>(s', r). case r of Inl e \<Rightarrow> Finished (s', Inl e) | Inr v \<Rightarrow> f v s')"

definition act_task :: "('d, 'e, 'a) daemon_task \<Rightarrow> ('d, 'e, 'a) act" where
  "act_task t s = task_bind t (\<lambda>r. Finished (s, r))"

text \<open>The result as a value, for the code that looks at it.\<close>

definition act_attempt :: "('d, 'e, 'a) daemon_task \<Rightarrow> ('d, 'e, 'a result) act" where
  "act_attempt t s = task_bind t (\<lambda>r. Finished (s, Inr r))"

definition act_step :: "('d, 'e, 'a) daemon_op \<Rightarrow> ('d, 'e, 'a) act" where
  "act_step m = act_task (step_now m)"

definition act_errors :: "('d, 'e, operation_error list) act" where
  "act_errors s = Finished (s, Inr (snd s))"

definition act_operation :: "('d, 'e, operation) act" where
  "act_operation s = Finished (s, Inr (fst s))"

definition act_update :: "(progress \<Rightarrow> progress) \<Rightarrow> ('d, 'e, unit) act" where
  "act_update f s = Finished (f s, Inr ())"

fun act_each :: "('a \<Rightarrow> ('d, 'e, unit) act) \<Rightarrow> 'a list \<Rightarrow> ('d, 'e, unit) act" where
  "act_each f [] = act_return ()"
| "act_each f (x # xs) = act_bind (f x) (\<lambda>_. act_each f xs)"

text \<open>A rule of the discipline for actions: the one for tasks, whatever the progress.\<close>

definition careful_act :: "(('d, 'e) daemon \<Rightarrow> ('d, 'e) daemon \<Rightarrow> bool) \<Rightarrow>
    (('d, 'e) daemon \<Rightarrow> ('d, 'e) daemon \<Rightarrow> bool) \<Rightarrow> ('d, 'e, 'a) act \<Rightarrow> bool" where
  "careful_act rely step m \<longleftrightarrow> (\<forall>s. careful rely step (m s))"

lemma careful_act_return [careful_intros]: "careful_act rely step (act_return v)"
  by (simp add: careful_act_def act_return_def)

lemma careful_act_fail [careful_intros]: "careful_act rely step (act_fail e)"
  by (simp add: careful_act_def act_fail_def)

lemma careful_act_bind [careful_intros]:
  "careful_act rely step m \<Longrightarrow> (\<And>v. careful_act rely step (f v)) \<Longrightarrow> careful_act rely step (act_bind m f)"
  unfolding careful_act_def act_bind_def by (auto intro!: careful_bind split: sum.splits)

lemma careful_act_task [careful_intros]: "careful rely step t \<Longrightarrow> careful_act rely step (act_task t)"
  unfolding careful_act_def act_task_def by (auto intro!: careful_bind)

lemma careful_act_attempt [careful_intros]: "careful rely step t \<Longrightarrow> careful_act rely step (act_attempt t)"
  unfolding careful_act_def act_attempt_def by (auto intro!: careful_bind)

lemma careful_act_step [careful_intros]:
  "(\<And>w. step w (snd (m w))) \<Longrightarrow> careful_act rely step (act_step m)"
  unfolding act_step_def by (intro careful_act_task careful_step_now)

lemma careful_act_errors [careful_intros]: "careful_act rely step act_errors"
  by (simp add: careful_act_def act_errors_def)

lemma careful_act_operation [careful_intros]: "careful_act rely step act_operation"
  by (simp add: careful_act_def act_operation_def)

lemma careful_act_update [careful_intros]: "careful_act rely step (act_update f)"
  by (simp add: careful_act_def act_update_def)

lemma careful_act_if [careful_intros]:
  "(b \<Longrightarrow> careful_act rely step t) \<Longrightarrow> (\<not> b \<Longrightarrow> careful_act rely step u) \<Longrightarrow>
     careful_act rely step (if b then t else u)"
  by simp

lemma careful_act_case_option [careful_intros]:
  "careful_act rely step t \<Longrightarrow> (\<And>v. careful_act rely step (f v)) \<Longrightarrow>
     careful_act rely step (case x of None \<Rightarrow> t | Some v \<Rightarrow> f v)"
  by (cases x) simp_all

lemma careful_act_case_sum [careful_intros]:
  "(\<And>e. careful_act rely step (f e)) \<Longrightarrow> (\<And>v. careful_act rely step (g v)) \<Longrightarrow>
     careful_act rely step (case x of Inl e \<Rightarrow> f e | Inr v \<Rightarrow> g v)"
  by (cases x) simp_all

lemma careful_act_each [careful_intros]:
  "(\<And>x. careful_act rely step (f x)) \<Longrightarrow> careful_act rely step (act_each f xs)"
  by (induction xs) (auto intro!: careful_intros)

section \<open>Errors of single instances\<close>

definition error_of :: "agent_instance option \<Rightarrow> failure \<Rightarrow> operation_error" where
  "error_of inst e = \<lparr>oerr_instance = map_option ai_key inst, oerr_code = error_code_as_str (failure_code e),
     oerr_message = failure_message e\<rparr>"

definition has_error :: "operation_error list \<Rightarrow> agent_instance \<Rightarrow> bool" where
  "has_error errors inst \<longleftrightarrow> (\<exists>e\<in>set errors. oerr_instance e = Some (ai_key inst))"

definition record_error :: "string \<Rightarrow> agent_instance option \<Rightarrow> failure \<Rightarrow> ('d, 'e, unit) act" where
  "record_error fleet inst e =
     act_bind (act_update (\<lambda>(v, errors). (v, errors @ [error_of inst e]))) (\<lambda>_.
     case inst of None \<Rightarrow> act_return ()
     | Some i \<Rightarrow> act_step (change (set_instance fleet i InstFailed (Some (failure_message e)))))"

text \<open>\<open>if let Err(error) = call { record_error }\<close> for one instance.\<close>

definition noting_error :: "string \<Rightarrow> agent_instance \<Rightarrow> ('d, 'e, unit) daemon_task \<Rightarrow> ('d, 'e, unit) act" where
  "noting_error fleet inst t = act_bind (act_attempt t) (\<lambda>r. case r of
     Inl e \<Rightarrow> record_error fleet (Some inst) e | Inr _ \<Rightarrow> act_return ())"

definition stop_selected :: "('d, 'e) fleet_controller \<Rightarrow> string \<Rightarrow> agent_instance list \<Rightarrow> ('d, 'e, unit) act" where
  "stop_selected con fleet instances =
     act_each (\<lambda>i. noting_error fleet i (stop_instance con fleet i)) instances"

section \<open>The parts of an action\<close>

definition cancelled_message :: failure where
  "cancelled_message = failed
     ''Native operation was cancelled by controller shutdown or explicit stop''"

definition ensure_live :: "nat \<Rightarrow> ('d, 'e, unit) act" where
  "ensure_live stop = act_step (\<lambda>w. (if cancelled w stop then Inl cancelled_message else Inr (), w))"

definition start_selected :: "('d, 'e) fleet_controller \<Rightarrow> string \<Rightarrow> configuration \<Rightarrow> nat \<Rightarrow> agent_instance \<Rightarrow>
    ('d, 'e, unit) act" where
  "start_selected con fleet conf stop inst =
     (let t = \<lparr>rec_fleet = fleet, rec_configuration = conf, rec_instance = inst\<rparr> in
      act_bind (act_step (state_of (\<lambda>st. om_get (key_of t) (cs_running st)))) (\<lambda>runtime.
      if runtime \<noteq> None then act_return () else
      act_bind (act_attempt (step_now (on_env_until stop (exec_start (con_execution con) conf inst False)))) (\<lambda>started.
      case started of
        Inr r \<Rightarrow> act_bind (act_task (launched con t r stop None)) (\<lambda>kept.
          if kept then act_return () else act_step (on_env (rt_close (con_execution con) r)))
      | Inl e \<Rightarrow> act_bind (act_step (is_cancelled stop)) (\<lambda>stopped.
          act_bind (record_error fleet (Some inst) e) (\<lambda>_.
          if recoverable e \<and> \<not> stopped then act_task (recover con t e None False) else act_return ())))))"

definition stop_action :: "('d, 'e) fleet_controller \<Rightarrow> string \<Rightarrow> configuration option \<Rightarrow> agent_instance list \<Rightarrow> nat \<Rightarrow>
    ('d, 'e, unit) act" where
  "stop_action con fleet conf selected stop =
     act_bind (stop_selected con fleet selected) (\<lambda>_. case conf of
       None \<Rightarrow> act_return ()
     | Some c \<Rightarrow> act_bind act_errors (\<lambda>errors.
         act_each (\<lambda>i. noting_error fleet i
             (step_now (on_env_until stop (exec_confirm_stopped (con_execution con) c i))))
           (filter (\<lambda>i. \<not> has_error errors i) selected)))"

definition update_instance :: "('d, 'e) fleet_controller \<Rightarrow> string \<Rightarrow> configuration \<Rightarrow> string \<Rightarrow> nat \<Rightarrow> agent_instance \<Rightarrow>
    ('d, 'e, unit) act" where
  "update_instance con fleet conf directory stop i =
     act_bind (ensure_live stop) (\<lambda>_. act_bind act_errors (\<lambda>errors.
     if has_error errors i then act_return ()
     else noting_error fleet i
       (step_now (on_env_until stop (exec_update (con_execution con) conf i directory)))))"

definition restart_instance :: "('d, 'e) fleet_controller \<Rightarrow> string \<Rightarrow> configuration \<Rightarrow> nat \<Rightarrow> agent_instance \<Rightarrow>
    ('d, 'e, unit) act" where
  "restart_instance con fleet conf stop i =
     act_bind (act_step (state_of (\<lambda>st. (fleet, ai_key i) \<in> set (cs_wanted st)))) (\<lambda>wanted.
     act_bind act_errors (\<lambda>errors.
     if \<not> wanted \<or> has_error errors i then act_return () else start_selected con fleet conf stop i))"

definition update_action :: "('d, 'e) fleet_controller \<Rightarrow> string \<Rightarrow> configuration \<Rightarrow> agent_instance list \<Rightarrow> nat \<Rightarrow>
    ('d, 'e, unit) act" where
  "update_action con fleet conf selected stop =
     act_bind (act_step (state_of (\<lambda>st. filter (\<lambda>i. (fleet, ai_key i) \<in> set (cs_wanted st)) selected))) (\<lambda>enabled.
     act_bind (stop_selected con fleet selected) (\<lambda>_.
     act_bind act_operation (\<lambda>v.
     case req_release_directory (op_request v) of
       None \<Rightarrow> act_fail (failure_new Invalid ''Software update requires its reviewed release directory'')
     | Some directory \<Rightarrow>
         act_bind (act_each (update_instance con fleet conf directory stop) selected) (\<lambda>_.
         act_bind (act_task (connect con conf)) (\<lambda>_.
         act_each (restart_instance con fleet conf stop) enabled)))))"

definition reset_instance :: "('d, 'e) fleet_controller \<Rightarrow> string \<Rightarrow> configuration \<Rightarrow> nat \<Rightarrow> agent_instance \<Rightarrow>
    ('d, 'e, unit) act" where
  "reset_instance con fleet conf stop i =
     act_bind act_errors (\<lambda>errors.
     if has_error errors i then act_return () else
     act_bind act_operation (\<lambda>v. noting_error fleet i
       (step_now (on_env_until stop (exec_reset (con_execution con) conf i (req_id (op_request v)))))))"

definition reset_part :: "('d, 'e) fleet_controller \<Rightarrow> string \<Rightarrow> configuration \<Rightarrow> agent_instance list \<Rightarrow> nat \<Rightarrow>
    ('d, 'e, unit) act" where
  "reset_part con fleet conf selected stop =
     act_bind (act_step (on_env_until stop (exec_inspect (con_execution con) conf selected))) (\<lambda>_.
     act_bind act_errors (\<lambda>errors.
     let pending = filter (\<lambda>i. \<not> has_error errors i) selected in
     act_bind (stop_selected con fleet pending) (\<lambda>_.
     act_each (reset_instance con fleet conf stop) pending)))"

definition mark_starting :: "string \<Rightarrow> agent_instance list \<Rightarrow> operation_error list \<Rightarrow> controller_state \<Rightarrow> controller_state" where
  "mark_starting fleet selected errors st =
     foldl (\<lambda>s i. if \<not> om_has (fleet, ai_key i) (cs_running s) \<and> \<not> has_error errors i
       then set_instance fleet i InstStarting None s else s) st selected"

definition mark_awaiting :: "string \<Rightarrow> agent_instance list \<Rightarrow> controller_state \<Rightarrow> controller_state" where
  "mark_awaiting fleet selected st =
     foldl (\<lambda>s i. if \<not> om_has (fleet, ai_key i) (cs_running s) \<and>
         (case om_get (fleet, ai_key i) (cs_instances s) of None \<Rightarrow> True | Some v \<Rightarrow> ist_phase v \<noteq> InstFailed)
       then set_instance fleet i InstAwaitingApproval None s else s) st selected"

text \<open>The callback: it stores the link with the operation as it was before the preparation.\<close>

definition approve :: "('d, 'e) fleet_controller \<Rightarrow> string \<Rightarrow> agent_instance list \<Rightarrow> operation \<Rightarrow> approval_link \<Rightarrow>
    ('d, 'e, unit) daemon_task" where
  "approve con fleet selected v link =
     try_task (step_now (on_disk (registry_save_operation (con_registry con)
       (v\<lparr>op_status := OpAwaitingApproval, op_approval := Some link\<rparr>)))) (\<lambda>_.
     step_now (change (mark_awaiting fleet selected)))"

definition prepare_fleet :: "('d, 'e) fleet_controller \<Rightarrow> string \<Rightarrow> configuration \<Rightarrow> agent_instance list \<Rightarrow> nat \<Rightarrow> bool \<Rightarrow>
    operation \<Rightarrow> ('d, 'e, unit) daemon_task" where
  "prepare_fleet con fleet conf selected stop enroll v =
     try_task (step_now (on_env (\<lambda>e. case exec_approvals (con_execution con) conf (con_identity con) enroll e of
       (links, e') \<Rightarrow> (Inr links, e')))) (\<lambda>links.
     task_bind (fold_task (\<lambda>link answers. task_bind (approve con fleet selected v link)
       (\<lambda>r. Finished (answers @ [r]))) links []) (\<lambda>answers.
     step_now (on_env_until stop
       (exec_prepare (con_execution con) conf (con_identity con) enroll answers))))"

definition mark_enrolled :: "string \<Rightarrow> agent_instance list \<Rightarrow> operation_error list \<Rightarrow> controller_state \<Rightarrow> controller_state" where
  "mark_enrolled fleet selected errors st =
     foldl (\<lambda>s i. let error = map_option oerr_message
           (find_row (\<lambda>e. oerr_instance e = Some (ai_key i)) errors)
         in set_instance fleet i (if error \<noteq> None then InstFailed else InstStopped) error s) st selected"

definition start_instance :: "('d, 'e) fleet_controller \<Rightarrow> string \<Rightarrow> configuration \<Rightarrow> nat \<Rightarrow> agent_instance \<Rightarrow>
    ('d, 'e, unit) act" where
  "start_instance con fleet conf stop i =
     act_bind (ensure_live stop) (\<lambda>_. act_bind act_errors (\<lambda>errors.
     if has_error errors i then act_return () else start_selected con fleet conf stop i))"

text \<open>The instances whose errors do not keep them from being started become wanted, then they start.\<close>

definition start_part :: "('d, 'e) fleet_controller \<Rightarrow> string \<Rightarrow> configuration \<Rightarrow> agent_instance list \<Rightarrow> nat \<Rightarrow>
    ('d, 'e, unit) act" where
  "start_part con fleet conf selected stop =
     act_bind act_errors (\<lambda>errors.
     act_bind (act_step (set_intent con fleet
       (map ai_key (filter (\<lambda>i. \<not> has_error errors i) selected)) True)) (\<lambda>_.
     act_each (start_instance con fleet conf stop) selected))"

definition prepare_part :: "('d, 'e) fleet_controller \<Rightarrow> string \<Rightarrow> configuration \<Rightarrow> agent_instance list \<Rightarrow> nat \<Rightarrow> bool \<Rightarrow>
    ('d, 'e, unit) act" where
  "prepare_part con fleet conf selected stop enroll =
     act_bind act_errors (\<lambda>errors.
     act_bind (act_step (change (mark_starting fleet selected errors))) (\<lambda>_.
     act_bind act_operation (\<lambda>v.
     act_bind (act_task (prepare_fleet con fleet conf selected stop enroll v)) (\<lambda>_.
     act_bind (ensure_live stop) (\<lambda>_.
     act_bind (act_task (connect con conf)) (\<lambda>_.
     act_bind (act_step (state_of (\<lambda>st. om_get (conf_directory conf) (cs_connection_errors st)))) (\<lambda>error.
     case error of Some message \<Rightarrow> act_fail (failed message) | None \<Rightarrow>
     act_bind (act_update (\<lambda>(v, errors). (v\<lparr>op_status := OpRunning, op_approval := None\<rparr>, errors))) (\<lambda>_.
     act_bind act_operation (\<lambda>v. act_step (on_disk (registry_save_operation (con_registry con) v)))))))))))"

definition start_action :: "('d, 'e) fleet_controller \<Rightarrow> string \<Rightarrow> configuration \<Rightarrow> agent_instance list \<Rightarrow> nat \<Rightarrow> action \<Rightarrow>
    ('d, 'e, unit) act" where
  "start_action con fleet conf selected stop kind =
     (if kind = Start \<and> selected = [] then act_return () else
      act_bind (act_step (on_env (exec_validate (con_execution con) conf))) (\<lambda>_.
      act_bind (act_step (state_of (\<lambda>st. filter (\<lambda>i. om_has (fleet, ai_key i) (cs_recovering st)) selected))) (\<lambda>recovering.
      act_bind (stop_selected con fleet recovering) (\<lambda>_.
      act_bind (if kind = Reset then reset_part con fleet conf selected stop else act_return ()) (\<lambda>_.
      act_bind (prepare_part con fleet conf selected stop (kind = Enroll)) (\<lambda>_.
      if kind = Enroll
      then act_bind act_errors (\<lambda>errors. act_step (change (mark_enrolled fleet selected errors)))
      else start_part con fleet conf selected stop))))))"

section \<open>Running an action\<close>

definition lost_fleet :: failure where
  "lost_fleet = failed ''Native operation lost its fleet identity''"

definition unvalidated :: failure where
  "unvalidated = failure_new Invalid
     ''Starting or updating requires a validated fleet configuration''"

definition run_action :: "('d, 'e) fleet_controller \<Rightarrow> configuration option \<Rightarrow> agent_instance list \<Rightarrow> nat \<Rightarrow>
    ('d, 'e, unit) act" where
  "run_action con conf selected stop =
     act_bind act_operation (\<lambda>v.
     case target_fleet (req_target (op_request v)) of None \<Rightarrow> act_fail lost_fleet | Some fleet \<Rightarrow>
     let kind = req_action (op_request v) in
     if kind = Stop then stop_action con fleet conf selected stop else
     case conf of None \<Rightarrow> act_fail unvalidated | Some c \<Rightarrow>
     if kind = Update then update_action con fleet c selected stop
     else start_action con fleet c selected stop kind)"

end
