(* ===== verification/Controller_Operations.thy ===== *)
theory Controller_Operations
  imports Controller_Actions
begin

text \<open>
  Accepting a lifecycle operation, carrying it out in the background and closing its record: fleetd
  \<open>domain/src/controller/operations.rs\<close>.
\<close>

section \<open>Accepting\<close>

definition invalid_request :: failure where
  "invalid_request = failure_new Invalid
     ''Invalid lifecycle operation identity, revision or explicit software directory''"

definition used_id :: failure where
  "used_id = conflict ''Operation ID was used for a different request''"

definition malformed_request :: "operation_request \<Rightarrow> bool" where
  "malformed_request q \<longleftrightarrow> (req_action q = Update) \<noteq> (req_release_directory q \<noteq> None) \<or>
     (case req_release_directory q of None \<Rightarrow> False | Some path \<Rightarrow> path = [] \<or> hd path \<noteq> CHR ''/'') \<or>
     req_expected_revision q < 0"

text \<open>An operation on file under the identifier: the same request gets it, another one a conflict.\<close>

definition replay :: "operation_request \<Rightarrow> operation \<Rightarrow> operation result" where
  "replay q previous = (if op_request previous = q then Inr previous else Inl used_id)"

definition check_fleet :: "operation_request \<Rightarrow> string \<Rightarrow> controller_state \<Rightarrow> registration result" where
  "check_fleet q fleet st =
     (if cs_stopping st then Inl (failed ''Controller is stopping'')
      else if fleet \<in> set (cs_mutations st) then Inl (conflict ''A roster change is in progress'')
      else rbind (ok_or (find_record fleet st) (missing ''Fleet is not registered'')) (\<lambda>r.
        if reg_revision r \<noteq> req_expected_revision q
        then Inl (failure_new StaleRevision ''Refresh the fleet before starting this operation'')
        else if req_action q = Enroll \<and> (target_instance (req_target q) \<noteq> None \<or> executing fleet st)
        then Inl (conflict ''Enrollment without startup requires a stopped whole fleet'')
        else Inr r))"

definition operation_configuration :: "('d, 'e) fleet_controller \<Rightarrow> operation_request \<Rightarrow> string \<Rightarrow> registration \<Rightarrow>
    ('d, 'e, configuration option) daemon_op" where
  "operation_configuration con q fleet r =
     (if req_action q = Stop
      then bind_op (state_of (\<lambda>st. om_get fleet (cs_deployed st))) (\<lambda>deployed. case deployed of
          Some c \<Rightarrow> return_op (Some c)
        | None \<Rightarrow> bind_op (attempt_op (on_disk (registry_load (con_registry con) (reg_directory r)))) (\<lambda>found.
            return_op (case found of Inl e \<Rightarrow> None | Inr c \<Rightarrow> Some c)))
      else bind_op (inspect_fleet con fleet) (\<lambda>(r, c). return_op (Some c)))"

definition operation_catalog :: "operation_request \<Rightarrow> string \<Rightarrow> configuration option \<Rightarrow> controller_state \<Rightarrow>
    (string \<times> agent_instance) list" where
  "operation_catalog q fleet conf st =
     (let listed = (case conf of None \<Rightarrow> [] | Some c \<Rightarrow>
            om_of (map (\<lambda>i. (ai_key i, i)) (roster_instances (conf_roster c))))
      in if req_action q = Stop
         then foldl (\<lambda>m ((f, k), v). if f = fleet then om_put k (ist_instance v) m else m) listed (cs_instances st)
         else listed)"

definition operation_selected :: "('d, 'e) fleet_controller \<Rightarrow> operation_request \<Rightarrow> string \<Rightarrow> (string \<times> agent_instance) list \<Rightarrow>
    string list \<Rightarrow> ('d, 'e, agent_instance list) daemon_op" where
  "operation_selected con q fleet catalog enabled =
     (if target_instance (req_target q) = None \<and> req_action q = Start
      then bind_op (state_of cs_records) (\<lambda>records.
        bind_op (on_disk (load_selections (con_registry con) records)) (\<lambda>saved.
        lift_op (select_instances saved fleet (map snd catalog) enabled)))
      else return_op (filter (\<lambda>i. case target_instance (req_target q) of None \<Rightarrow> True | Some k \<Rightarrow> k = ai_key i)
        (map snd catalog)))"

text \<open>A runtime among the selected ones whose failure is still being cleaned up.\<close>

definition cleanup_pending :: "('d, 'e) fleet_controller \<Rightarrow> string \<Rightarrow> agent_instance list \<Rightarrow> ('d, 'e) daemon \<Rightarrow> bool" where
  "cleanup_pending con fleet selected w \<longleftrightarrow> (\<exists>i\<in>set selected.
     case om_get (fleet, ai_key i) (cs_running (d_state w)) of None \<Rightarrow> False | Some r \<Rightarrow>
       rt_cancelled (con_execution con) r (d_env w) \<or>
       (case om_get (fleet, ai_key i) (cs_instances (d_state w)) of None \<Rightarrow> False
        | Some v \<Rightarrow> ist_phase v = InstFailed))"

definition check_selected :: "('d, 'e) fleet_controller \<Rightarrow> operation_request \<Rightarrow> string \<Rightarrow> (string \<times> agent_instance) list \<Rightarrow>
    agent_instance list \<Rightarrow> ('d, 'e, work_item option) daemon_op" where
  "check_selected con q fleet catalog selected w =
     (if (case target_instance (req_target q) of None \<Rightarrow> False
         | Some k \<Rightarrow> (fleet, k) \<notin> set (cs_wanted (d_state w))) \<and> selected = []
      then Inl (missing ''Instance not found'')
      else if req_action q = Start \<and> catalog = []
      then Inl (failure_new Invalid ''Add an instance before starting this fleet'')
      else if req_action q \<noteq> Stop \<and> cleanup_pending con fleet selected w
      then Inl (conflict ''Runtime failure cleanup is still in progress; retry after it finishes'')
      else if om_has fleet (cs_operations (d_state w)) \<and> req_action q \<noteq> Stop
      then Inl (conflict ''Another operation is active for this fleet'')
      else Inr (om_get fleet (cs_operations (d_state w))), w)"

definition disabled_keys :: "operation_request \<Rightarrow> agent_instance list \<Rightarrow> string list \<Rightarrow> string list" where
  "disabled_keys q selected enabled = os_of (map ai_key selected @
     filter (\<lambda>k. case target_instance (req_target q) of None \<Rightarrow> True | Some i \<Rightarrow> i = k) enabled)"

definition with_digest :: "string \<Rightarrow> string \<Rightarrow> int \<Rightarrow> registration list \<Rightarrow> registration list" where
  "with_digest fleet digest revision records = map (\<lambda>r. if reg_fleet_id r = fleet
     then r\<lparr>reg_digest := digest, reg_revision := revision\<rparr> else r) records"

definition revision_overflow :: failure where
  "revision_overflow = conflict ''Fleet revision overflow''"

definition checkpoint :: "('d, 'e) fleet_controller \<Rightarrow> operation_request \<Rightarrow> string \<Rightarrow> registration \<Rightarrow> configuration option \<Rightarrow>
    agent_instance list \<Rightarrow> string list \<Rightarrow> ('d, 'e, unit) daemon_op" where
  "checkpoint con q fleet r conf selected enabled =
     bind_op (if req_action q = Stop \<or> req_action q = Reset
       then bind_op (if req_action q = Stop
           then save_selection con fleet enabled (target_instance (req_target q)) else return_op ()) (\<lambda>_.
         set_intent con fleet (disabled_keys q selected enabled) False)
       else return_op ()) (\<lambda>_.
     case conf of None \<Rightarrow> return_op ()
     | Some c \<Rightarrow>
         if req_action q \<noteq> Stop \<and> conf_digest c \<noteq> reg_digest r
         then bind_op (on_env (exec_validate (con_execution con) c)) (\<lambda>_.
           bind_op (lift_op (ok_or (checked_i64 (reg_revision r + 1)) revision_overflow)) (\<lambda>revision.
           bind_op (state_of (\<lambda>st. with_digest fleet (conf_digest c) revision (cs_records st))) (\<lambda>records.
           persist_records con records)))
         else return_op ())"

text \<open>A checkpoint that fails closes the record of the operation before it is reported.\<close>

definition guarded_checkpoint :: "('d, 'e) fleet_controller \<Rightarrow> operation \<Rightarrow> ('d, 'e, unit) daemon_op \<Rightarrow> ('d, 'e, unit) daemon_op" where
  "guarded_checkpoint con accepted m = bind_op (attempt_op m) (\<lambda>r. case r of
       Inr _ \<Rightarrow> return_op ()
     | Inl e \<Rightarrow> bind_op (on_env (con_clock con)) (\<lambda>now.
         bind_op (on_disk (registry_save_operation (con_registry con)
           (accepted\<lparr>op_status := OpFailed, op_completed_at := Some now,
             op_errors := op_errors accepted @ [error_of None e]\<rparr>))) (\<lambda>_. fail_op e)))"

definition enter_operation :: "string \<Rightarrow> work_item \<Rightarrow> configuration option \<Rightarrow> controller_state \<Rightarrow> controller_state" where
  "enter_operation fleet v conf st = st\<lparr>cs_operations := om_put fleet v (cs_operations st),
     cs_deployed := (case conf of None \<Rightarrow> cs_deployed st | Some c \<Rightarrow> om_put fleet c (cs_deployed st))\<rparr>"

definition accepted_operation :: "operation_request \<Rightarrow> bool \<Rightarrow> int \<Rightarrow> operation" where
  "accepted_operation q receipt now = \<lparr>op_request = q, op_status = OpAccepted, op_created_at = now,
     op_completed_at = None, op_approval = None, op_errors = [], op_receipt_pending = receipt\<rparr>"

definition accept_new :: "('d, 'e) fleet_controller \<Rightarrow> operation_request \<Rightarrow> bool \<Rightarrow> string \<Rightarrow>
    ('d, 'e, operation \<times> configuration option \<times> agent_instance list \<times> work_item option \<times> work_item) daemon_op" where
  "accept_new con q receipt fleet =
     bind_op (try_state (check_fleet q fleet)) (\<lambda>r.
     bind_op (operation_configuration con q fleet r) (\<lambda>conf.
     bind_op (state_of (operation_catalog q fleet conf)) (\<lambda>catalog.
     bind_op (state_of (enabled_keys fleet None)) (\<lambda>enabled.
     bind_op (operation_selected con q fleet catalog enabled) (\<lambda>selected.
     bind_op (check_selected con q fleet catalog selected) (\<lambda>predecessor.
     bind_op (on_env (con_clock con)) (\<lambda>now.
     let accepted = accepted_operation q receipt now in
     bind_op (on_disk (registry_save_operation (con_registry con) accepted)) (\<lambda>_.
     bind_op (guarded_checkpoint con accepted (checkpoint con q fleet r conf selected enabled)) (\<lambda>_.
     bind_op (new_work (req_id q)) (\<lambda>v.
     bind_op (change (enter_operation fleet v conf)) (\<lambda>_.
     return_op (accepted, conf, selected, predecessor, v))))))))))))"

text \<open>
  The section of an operation on a fleet: the operation on file, if there is one by now, or a new one with
  what its task needs.
\<close>

definition accept_section :: "('d, 'e) fleet_controller \<Rightarrow> operation_request \<Rightarrow> bool \<Rightarrow> string \<Rightarrow>
    ('d, 'e, operation + operation \<times> configuration option \<times> agent_instance list \<times> work_item option \<times> work_item) daemon_op" where
  "accept_section con q receipt fleet =
     bind_op (on_disk (registry_operation (con_registry con) (req_id q))) (\<lambda>found. case found of
       Some previous \<Rightarrow> bind_op (lift_op (replay q previous)) (\<lambda>v. return_op (Inl v))
     | None \<Rightarrow> bind_op (accept_new con q receipt fleet) (\<lambda>v. return_op (Inr v)))"

definition operate_fleet :: "('d, 'e) fleet_controller \<Rightarrow> operation_request \<Rightarrow> bool \<Rightarrow> string \<Rightarrow> ('d, 'e, operation) daemon_task" where
  "operate_fleet con q receipt fleet =
     try_task (step_now (accept_section con q receipt fleet)) (\<lambda>r. case r of
       Inl previous \<Rightarrow> Finished (Inr previous)
     | Inr (accepted, conf, selected, predecessor, v) \<Rightarrow>
         try_task (case predecessor of None \<Rightarrow> Finished (Inr ()) | Some p \<Rightarrow> step_now (cancel_token (work_stop p))) (\<lambda>_.
         try_task (step_now (spawn_job (OperationJob accepted conf selected predecessor v fleet))) (\<lambda>_.
         Finished (Inr accepted))))"

definition stop_daemon :: "('d, 'e) fleet_controller \<Rightarrow> operation_request \<Rightarrow> ('d, 'e, operation) daemon_task" where
  "stop_daemon con q =
     (if req_action q \<noteq> Stop \<or> req_expected_revision q \<noteq> 0
      then Finished (Inl (failure_new Invalid ''Daemon supports only an exact stop request'')) else
      try_task (step_now (on_env (con_clock con))) (\<lambda>now.
      let running = (accepted_operation q False now)\<lparr>op_status := OpRunning\<rparr> in
      try_task (step_now (on_disk (registry_save_operation (con_registry con) running))) (\<lambda>_.
      task_bind (close_controller con) (\<lambda>r.
      let closed = (case r of
          Inr _ \<Rightarrow> running\<lparr>op_status := OpSucceeded\<rparr>
        | Inl e \<Rightarrow> running\<lparr>op_status := OpFailed, op_errors := op_errors running @ [error_of None e]\<rparr>) in
      try_task (step_now (on_env (con_clock con))) (\<lambda>completed.
      let outcome = closed\<lparr>op_completed_at := Some completed\<rparr> in
      try_task (step_now (on_disk (registry_save_operation (con_registry con) outcome))) (\<lambda>_.
      Finished (Inr outcome)))))))"

definition operate :: "('d, 'e) fleet_controller \<Rightarrow> operation_request \<Rightarrow> bool \<Rightarrow> ('d, 'e, operation) daemon_task" where
  "operate con q receipt =
     (if malformed_request q then Finished (Inl invalid_request) else
      try_task (step_now (on_disk (registry_operation (con_registry con) (req_id q)))) (\<lambda>found.
      case found of Some previous \<Rightarrow> Finished (replay q previous)
      | None \<Rightarrow> if req_target q = DaemonTarget then stop_daemon con q else
        (case target_fleet (req_target q) of
           None \<Rightarrow> Finished (Inl (failure_new Invalid ''Missing fleet operation target''))
         | Some fleet \<Rightarrow> operate_fleet con q receipt fleet)))"

section \<open>Carrying out\<close>

definition mark_incomplete :: "string \<Rightarrow> agent_instance list \<Rightarrow> operation_error list \<Rightarrow> controller_state \<Rightarrow> controller_state" where
  "mark_incomplete fleet selected errors st =
     foldl (\<lambda>s i. case om_get (fleet, ai_key i) (cs_instances s) of None \<Rightarrow> s
       | Some v \<Rightarrow> if ist_phase v = InstStarting \<or> ist_phase v = InstAwaitingApproval
         then set_instance fleet i InstFailed (Some (case errors of [] \<Rightarrow> ''Operation did not complete''
           | e # _ \<Rightarrow> oerr_message e)) s
         else s) st selected"

definition act_outcome :: "('d, 'e, unit) act \<Rightarrow> ('d, 'e, unit result) act" where
  "act_outcome m s = task_bind (m s) (\<lambda>(s', r). Finished (s', Inr r))"

definition complete_part :: "('d, 'e) fleet_controller \<Rightarrow> string \<Rightarrow> ('d, 'e, unit) act" where
  "complete_part con fleet =
     act_bind act_operation (\<lambda>v. act_bind act_errors (\<lambda>errors.
     if errors = [] \<and> req_action (op_request v) = Start
     then act_bind (act_attempt (step_now (on_disk (registry_complete_setup (con_registry con) (req_id (op_request v)))))) (\<lambda>r.
       case r of Inl e \<Rightarrow> record_error fleet None e | Inr _ \<Rightarrow> act_return ())
     else act_return ()))"

definition finished_operation :: "int \<Rightarrow> progress \<Rightarrow> operation" where
  "finished_operation now s = (fst s)\<lparr>op_status := (if snd s = [] then OpSucceeded else OpFailed),
     op_completed_at := Some now, op_approval := None, op_errors := snd s\<rparr>"

definition operation_body :: "('d, 'e) fleet_controller \<Rightarrow> configuration option \<Rightarrow> agent_instance list \<Rightarrow> nat \<Rightarrow>
    ('d, 'e, operation) act" where
  "operation_body con conf selected stop =
     act_bind act_operation (\<lambda>v.
     act_bind (act_step (on_disk (registry_save_operation (con_registry con) v))) (\<lambda>_.
     case target_fleet (req_target (op_request v)) of None \<Rightarrow> act_fail lost_fleet | Some fleet \<Rightarrow>
     act_bind (act_outcome (run_action con conf selected stop)) (\<lambda>r.
     act_bind (case r of Inl e \<Rightarrow> record_error fleet None e | Inr _ \<Rightarrow> act_return ()) (\<lambda>_.
     act_bind (act_step (is_cancelled stop)) (\<lambda>stopped.
     act_bind (if stopped \<and> req_action (op_request v) \<noteq> Stop then stop_selected con fleet selected
       else act_return ()) (\<lambda>_.
     act_bind act_errors (\<lambda>errors.
     act_bind (act_step (change (mark_incomplete fleet selected errors))) (\<lambda>_.
     act_bind (complete_part con fleet) (\<lambda>_.
     act_bind (act_step (on_env (con_clock con))) (\<lambda>now s. Finished (s, Inr (finished_operation now s))))))))))))"

definition execute_operation :: "('d, 'e) fleet_controller \<Rightarrow> operation \<Rightarrow> configuration option \<Rightarrow> agent_instance list \<Rightarrow>
    nat \<Rightarrow> ('d, 'e, operation) daemon_task" where
  "execute_operation con v conf selected stop =
     task_bind (operation_body con conf selected stop (v\<lparr>op_status := OpRunning\<rparr>, [])) (\<lambda>(s, r). Finished r)"

definition stop_or_end :: "('d, 'e) fleet_controller \<Rightarrow> string \<Rightarrow> agent_instance \<Rightarrow> ('d, 'e, unit) daemon_task" where
  "stop_or_end con fleet i = task_bind (stop_instance con fleet i) (\<lambda>r. case r of
     Inl e \<Rightarrow> step_now (cancel_token 0) | Inr _ \<Rightarrow> Finished (Inr ()))"

definition failed_outcome :: "operation \<Rightarrow> failure \<Rightarrow> int result \<Rightarrow> operation" where
  "failed_outcome v e now = v\<lparr>op_status := OpFailed,
     op_completed_at := (case now of Inl _ \<Rightarrow> None | Inr n \<Rightarrow> Some n), op_approval := None,
     op_errors := op_errors v @ [error_of None e]\<rparr>"

definition close_operation :: "('d, 'e) fleet_controller \<Rightarrow> string \<Rightarrow> work_item \<Rightarrow> operation \<Rightarrow> ('d, 'e, unit) daemon_op" where
  "close_operation con fleet v outcome =
     bind_op (change (\<lambda>st. case om_get fleet (cs_operations st) of None \<Rightarrow> st
       | Some current \<Rightarrow> if work_id current = work_id v
           then st\<lparr>cs_operations := om_remove fleet (cs_operations st)\<rparr> else st)) (\<lambda>_.
     bind_op (attempt_op (on_disk (registry_save_operation (con_registry con) outcome))) (\<lambda>r. case r of
       Inr _ \<Rightarrow> return_op ()
     | Inl e \<Rightarrow> bind_op (change (\<lambda>st. st\<lparr>cs_stopping := True\<rparr>)) (\<lambda>_. cancel_token 0)))"

definition run_operation :: "('d, 'e) fleet_controller \<Rightarrow> operation \<Rightarrow> configuration option \<Rightarrow> agent_instance list \<Rightarrow>
    work_item option \<Rightarrow> work_item \<Rightarrow> string \<Rightarrow> ('d, 'e, unit) daemon_task" where
  "run_operation con accepted conf selected predecessor v fleet =
     task_bind (try_task (case predecessor of None \<Rightarrow> Finished (Inr ()) | Some p \<Rightarrow> work_wait p) (\<lambda>_.
       execute_operation con accepted conf selected (work_stop v))) (\<lambda>r.
     task_bind (case r of
         Inr completed \<Rightarrow> Finished completed
       | Inl e \<Rightarrow> task_bind (for_each_task (stop_or_end con fleet) selected) (\<lambda>_.
           task_bind (step_now (on_env (con_clock con))) (\<lambda>now. Finished (failed_outcome accepted e now)))) (\<lambda>outcome.
     try_task (step_now (close_operation con fleet v outcome)) (\<lambda>_. step_now (send_done (work_done v)))))"

section \<open>Operations asked for by the server\<close>

definition execute_remote :: "('d, 'e) fleet_controller \<Rightarrow> operation_request \<Rightarrow> ('d, 'e, operation) daemon_task" where
  "execute_remote con q = (case target_fleet (req_target q) of
       None \<Rightarrow> Finished (Inl (failure_new Invalid ''Remote native operations require their exact enrolled fleet''))
     | Some fleet \<Rightarrow>
         try_task (step_now (on_disk (registry_operation (con_registry con) (req_id q)))) (\<lambda>found.
         try_task (case found of
             Some previous \<Rightarrow> Finished (Inr (req_expected_revision (op_request previous)))
           | None \<Rightarrow> try_task (view_fleet con fleet) (\<lambda>v. Finished (Inr (reg_revision (fst_registration v))))) (\<lambda>revision.
         try_task (operate con (q\<lparr>req_expected_revision := revision\<rparr>) True) (\<lambda>accepted.
         if op_completed_at accepted \<noteq> None then Finished (Inr accepted) else
         try_task (step_now (state_of (\<lambda>st. om_get fleet (cs_operations st)))) (\<lambda>v.
         try_task (case v of None \<Rightarrow> Finished (Inr ()) | Some p \<Rightarrow> work_wait p) (\<lambda>_.
         try_task (step_now (stored_operation con (req_id (op_request accepted)))) (\<lambda>completed.
         if op_completed_at completed = None
         then Finished (Inl (failed ''The native session operation did not complete''))
         else Finished (Inr completed))))))))"

end
