(* ===== verification/Controller_Registry.thy ===== *)
theory Controller_Registry
  imports Controller_Operations
begin

text \<open>
  Registering, renaming, editing and removing fleets (fleetd \<open>domain/src/controller/registry.rs\<close>), setting one
  up (\<open>controller/setup.rs\<close>) and opening the controller (\<open>controller.rs\<close>).
\<close>

section \<open>Registration\<close>

definition no_instance :: failure where
  "no_instance = missing ''Instance does not exist''"

definition add_section :: "('d, 'e) fleet_controller \<Rightarrow> string \<Rightarrow> configuration \<Rightarrow> ('d, 'e, registration) daemon_op" where
  "add_section con directory conf =
     bind_op (try_state (\<lambda>st.
       let fleet_key = roster_fleet (conf_roster conf) in
       if cs_stopping st then Inl (failed ''Controller is stopping'')
       else if \<exists>r\<in>set (cs_records st). reg_directory r = directory \<or> reg_fleet_key r = fleet_key
       then Inl (conflict ''Fleet directory or key is already registered'')
       else if 100 \<le> length (cs_records st)
       then Inl (failure_new Capacity ''Controller supports at most 100 registered fleets'')
       else Inr ())) (\<lambda>_.
     bind_op (on_env (\<lambda>e. case con_fresh con e of (v, e') \<Rightarrow> (Inr v, e'))) (\<lambda>fleet_id.
     let r = \<lparr>reg_fleet_id = fleet_id, reg_fleet_key = roster_fleet (conf_roster conf),
       reg_directory = directory, reg_label = roster_fleet (conf_roster conf), reg_revision = 0,
       reg_digest = conf_digest conf\<rparr> in
     bind_op (state_of cs_records) (\<lambda>records.
     bind_op (persist_records con (records @ [r])) (\<lambda>_. return_op r))))"

definition add_fleet :: "('d, 'e) fleet_controller \<Rightarrow> string \<Rightarrow> ('d, 'e, fleet_state) daemon_task" where
  "add_fleet con directory =
     try_task (step_now (on_disk (registry_load (con_registry con) directory))) (\<lambda>conf.
     try_task (step_now (on_env (exec_validate (con_execution con) conf))) (\<lambda>_.
     try_task (step_now (add_section con directory conf)) (\<lambda>r.
     try_task (connect con conf) (\<lambda>_. view_fleet con (reg_fleet_id r)))))"

definition mutable_fleet :: "('d, 'e) fleet_controller \<Rightarrow> string \<Rightarrow> int \<Rightarrow> ('d, 'e, registration \<times> configuration) daemon_op" where
  "mutable_fleet con fleet revision =
     bind_op (try_state (\<lambda>st. guard_r (\<not> (cs_stopping st \<or> fleet \<in> set (cs_mutations st)))
       (conflict ''Controller is stopping or a roster change is in progress''))) (\<lambda>_.
     bind_op (inspect_fleet con fleet) (\<lambda>current.
     if reg_revision (fst current) \<noteq> revision
     then fail_op (failure_new StaleRevision ''Refresh the fleet before changing it'') else
     bind_op (state_of (executing fleet)) (\<lambda>busy.
     if busy then fail_op (conflict ''Stop this fleet before changing its registry or roster'')
     else return_op current)))"

definition invalid_label :: "string \<Rightarrow> bool" where
  "invalid_label label \<longleftrightarrow> label = [] \<or> 100 < utf16_count (chars label) \<or>
     (\<exists>c\<in>set (chars label). c \<le> 0x1F \<or> c = 0x7F)"

definition renamed :: "string \<Rightarrow> string \<Rightarrow> int \<Rightarrow> registration list \<Rightarrow> registration list" where
  "renamed fleet label revision records = map (\<lambda>r. if reg_fleet_id r = fleet
     then r\<lparr>reg_label := label, reg_revision := revision\<rparr> else r) records"

definition rename_fleet :: "('d, 'e) fleet_controller \<Rightarrow> string \<Rightarrow> int \<Rightarrow> string \<Rightarrow> ('d, 'e, fleet_state) daemon_task" where
  "rename_fleet con fleet revision label =
     (if invalid_label label then Finished (Inl (failure_new Invalid ''Invalid fleet label'')) else
      step_now (bind_op (mutable_fleet con fleet revision) (\<lambda>_.
        bind_op (lift_op (ok_or (checked_i64 (revision + 1)) revision_overflow)) (\<lambda>next_revision.
        bind_op (state_of (\<lambda>st. renamed fleet label next_revision (cs_records st))) (\<lambda>records.
        bind_op (persist_records con records) (\<lambda>_. view_locked con fleet))))))"

text \<open>The guard \<open>Mutation\<close>: the fleet is being changed until the guard is dropped, on every way out.\<close>

definition begin_mutation :: "('d, 'e) fleet_controller \<Rightarrow> string \<Rightarrow> int \<Rightarrow> ('d, 'e, configuration) daemon_task" where
  "begin_mutation con fleet revision = step_now (bind_op (mutable_fleet con fleet revision) (\<lambda>(r, c).
     bind_op (change (\<lambda>st. st\<lparr>cs_mutations := os_insert fleet (cs_mutations st)\<rparr>)) (\<lambda>_. return_op c)))"

definition during_mutation :: "string \<Rightarrow> ('d, 'e, 'a) daemon_task \<Rightarrow> ('d, 'e, 'a) daemon_task" where
  "during_mutation fleet t = task_bind t (\<lambda>r.
     task_bind (step_now (change (\<lambda>st. st\<lparr>cs_mutations := os_remove fleet (cs_mutations st)\<rparr>)
       :: ('d, 'e, unit) daemon_op)) (\<lambda>_. Finished r))"

definition remove_section :: "('d, 'e) fleet_controller \<Rightarrow> string \<Rightarrow> ('d, 'e, unit) daemon_op" where
  "remove_section con fleet =
     bind_op (forget_selection con fleet None) (\<lambda>_.
     bind_op (state_of (\<lambda>st. filter (\<lambda>r. reg_fleet_id r \<noteq> fleet) (cs_records st))) (\<lambda>records.
     bind_op (persist_records con records) (\<lambda>_.
     change (\<lambda>st. st\<lparr>cs_deployed := om_remove fleet (cs_deployed st),
       cs_instances := filter (\<lambda>((f, k), v). f \<noteq> fleet) (cs_instances st)\<rparr>))))"

definition remove_fleet :: "('d, 'e) fleet_controller \<Rightarrow> string \<Rightarrow> int \<Rightarrow> nat \<Rightarrow> ('d, 'e, unit) daemon_task" where
  "remove_fleet con fleet revision stop =
     try_task (begin_mutation con fleet revision) (\<lambda>c. during_mutation fleet (
     try_task (step_now (on_env_until stop (exec_archive (con_execution con) c))) (\<lambda>_.
     try_task (step_now (remove_section con fleet)) (\<lambda>_.
     step_now (on_env (exec_disconnect (con_execution con) c))))))"

section \<open>Editing\<close>

datatype edit = AddInstance agent_instance | RemoveInstance string | DefineInstance string string

fun edit_key :: "edit \<Rightarrow> string" where
  "edit_key (AddInstance i) = ai_key i"
| "edit_key (RemoveInstance k) = k"
| "edit_key (DefineInstance k d) = k"

text \<open>\<open>iter_mut().find\<close>: the first instance of the key is changed.\<close>

fun redefine :: "string \<Rightarrow> string \<Rightarrow> agent_instance list \<Rightarrow> agent_instance list option" where
  "redefine key d [] = None"
| "redefine key d (i # is) = (if ai_key i = key then Some (i\<lparr>ai_definition := d\<rparr> # is)
     else map_option ((#) i) (redefine key d is))"

definition with_instances :: "configuration \<Rightarrow> agent_instance list \<Rightarrow> configuration" where
  "with_instances c instances = c\<lparr>conf_roster := (conf_roster c)\<lparr>roster_instances := instances\<rparr>\<rparr>"

definition name_taken :: failure where
  "name_taken = failure_new NameCollision ''Instance key or agent name is already registered''"

definition apply_edit :: "('d, 'e) fleet_controller \<Rightarrow> string \<Rightarrow> configuration \<Rightarrow> edit \<Rightarrow> nat \<Rightarrow> ('d, 'e, configuration) daemon_task" where
  "apply_edit con fleet c e stop =
     (let instances = roster_instances (conf_roster c);
          existing = find_row (\<lambda>i. ai_key i = edit_key e) instances in
      case e of
        AddInstance i \<Rightarrow>
          if existing \<noteq> None \<or> (\<exists>j\<in>set instances. ai_name j = ai_name i) then Finished (Inl name_taken)
          else Finished (Inr (with_instances c (instances @ [i])))
      | RemoveInstance key \<Rightarrow> (case existing of None \<Rightarrow> Finished (Inl no_instance) | Some i \<Rightarrow>
          try_task (step_now (on_env_until stop (exec_remove (con_execution con) c i))) (\<lambda>_.
          try_task (step_now (forget_selection con fleet (Some key))) (\<lambda>_.
          Finished (Inr (with_instances c (filter (\<lambda>i. ai_key i \<noteq> key) instances))))))
      | DefineInstance key d \<Rightarrow> (case redefine key d instances of None \<Rightarrow> Finished (Inl no_instance)
          | Some instances' \<Rightarrow> Finished (Inr (with_instances c instances'))))"

definition edit_section :: "('d, 'e) fleet_controller \<Rightarrow> string \<Rightarrow> int \<Rightarrow> string \<Rightarrow> configuration \<Rightarrow> ('d, 'e, fleet_state) daemon_op" where
  "edit_section con fleet revision key changed =
     bind_op (lift_op (ok_or (checked_i64 (revision + 1)) revision_overflow)) (\<lambda>next_revision.
     bind_op (state_of (\<lambda>st. with_digest fleet (conf_digest changed) next_revision (cs_records st))) (\<lambda>records.
     bind_op (persist_records con records) (\<lambda>_.
     bind_op (change (\<lambda>st. st\<lparr>cs_instances := om_remove (fleet, key) (cs_instances st)\<rparr>)) (\<lambda>_.
     view_locked con fleet))))"

definition edit_fleet :: "('d, 'e) fleet_controller \<Rightarrow> string \<Rightarrow> int \<Rightarrow> edit \<Rightarrow> nat \<Rightarrow> ('d, 'e, fleet_state) daemon_task" where
  "edit_fleet con fleet revision e stop =
     try_task (begin_mutation con fleet revision) (\<lambda>c. during_mutation fleet (
     try_task (apply_edit con fleet c e stop) (\<lambda>c.
     try_task (step_now (on_disk (registry_preview_roster (con_registry con) c (conf_roster c)))) (\<lambda>preview.
     try_task (step_now (on_env (exec_validate (con_execution con) preview))) (\<lambda>_.
     try_task (step_now (on_disk (registry_write_roster (con_registry con) c (conf_roster c)))) (\<lambda>changed.
     try_task (step_now (on_env (exec_validate (con_execution con) changed))) (\<lambda>_.
     step_now (edit_section con fleet revision (edit_key e) changed))))))))"

section \<open>Set-up\<close>

definition settled_instance :: "instance_state \<Rightarrow> bool" where
  "settled_instance v \<longleftrightarrow> ist_session_id v \<noteq> None \<and> ready_phase (ist_phase v)"

definition existing_setup :: "('d, 'e) fleet_controller \<Rightarrow> fleet_state \<Rightarrow> nat \<Rightarrow> ('d, 'e, setup_outcome) daemon_task" where
  "existing_setup con current stop =
     (let active = (\<exists>v\<in>set (fst_instances current). ist_desired_active v);
          ready = conn_connected (fst_connection current) \<and>
            (\<forall>v\<in>set (fst_instances current). \<not> ist_desired_active v \<or> settled_instance v) in
      try_task (if active \<and> ready then test_fleet con (reg_fleet_id (fst_registration current)) stop
        else Finished (Inr ())) (\<lambda>_.
      Finished (Inr \<lparr>sout_fleet = current, sout_operation = None,
        sout_status = (if active then if ready then ''ready'' else ''starting'' else ''stopped'')\<rparr>)))"

definition setup_stopped :: "fleet_state \<Rightarrow> bool" where
  "setup_stopped current \<longleftrightarrow> fst_resume_instance_keys current \<noteq> None \<and>
     (\<forall>v\<in>set (fst_instances current). \<not> ist_desired_active v)"

definition setup_restored :: "fleet_state \<Rightarrow> operation option \<Rightarrow> bool" where
  "setup_restored current found \<longleftrightarrow> (case found of None \<Rightarrow> False | Some v \<Rightarrow> op_status v = OpFailed) \<and>
     fst_instances current \<noteq> [] \<and>
     (\<forall>v\<in>set (fst_instances current). ist_desired_active v \<and> settled_instance v)"

text \<open>The operation of a set-up: the one on file, unless it failed; then a new one under a fresh identifier.\<close>

definition setup_operation :: "('d, 'e) fleet_controller \<Rightarrow> fleet_state \<Rightarrow> string \<Rightarrow> operation option \<Rightarrow> ('d, 'e, operation) daemon_task" where
  "setup_operation con current oid found =
     (let begins = (\<lambda>k. operate con \<lparr>req_id = k, req_target = FleetTarget (reg_fleet_id (fst_registration current)),
        req_action = Start, req_expected_revision = reg_revision (fst_registration current),
        req_release_directory = None\<rparr> False) in
      case found of
        None \<Rightarrow> begins oid
      | Some v \<Rightarrow> if op_status v \<noteq> OpFailed then Finished (Inr v) else
          try_task (step_now (on_env (\<lambda>e. case con_fresh con e of (k, e') \<Rightarrow> (Inr k, e')))) (\<lambda>k.
          try_task (step_now (on_disk (registry_retry_setup (con_registry con) oid k))) (\<lambda>_. begins k)))"

definition setup_started :: "('d, 'e) fleet_controller \<Rightarrow> setup_configuration \<Rightarrow> bool \<Rightarrow> fleet_state \<Rightarrow> nat \<Rightarrow>
    ('d, 'e, setup_outcome) daemon_task" where
  "setup_started con prepared known current stop =
     try_task (step_now (on_disk (registry_operation (con_registry con) (sconf_operation_id prepared)))) (\<lambda>found.
     if known \<and> (setup_stopped current \<or> setup_restored current found) then
       try_task (existing_setup con current stop) (\<lambda>outcome.
       try_task (step_now (on_disk (registry_complete_setup (con_registry con) (sconf_operation_id prepared)))) (\<lambda>_.
       Finished (Inr outcome)))
     else
       try_task (setup_operation con current (sconf_operation_id prepared) found) (\<lambda>accepted.
       Finished (Inr \<lparr>sout_fleet = current, sout_operation = Some accepted,
         sout_status = (if op_status accepted = OpSucceeded then ''ready'' else ''starting'')\<rparr>)))"

definition completed_unregistered :: failure where
  "completed_unregistered = conflict
     ''Completed setup was unregistered; an archived identity cannot be recreated implicitly''"

definition setup_owned :: "('d, 'e) fleet_controller \<Rightarrow> setup_request \<Rightarrow> nat \<Rightarrow> ('d, 'e, setup_outcome) daemon_task" where
  "setup_owned con q stop =
     try_task (step_now (state_of cs_stopping)) (\<lambda>stopping.
     if stopping then Finished (Inl (failed ''Controller is stopping'')) else
     try_task (step_now (on_disk (registry_setup (con_registry con) q))) (\<lambda>prepared.
     let c = sconf_configuration prepared in
     try_task (step_now (on_env_until stop (exec_inspect (con_execution con) c (roster_instances (conf_roster c))))) (\<lambda>_.
     try_task (step_now (state_of (\<lambda>st. find_row (\<lambda>r. reg_directory r = conf_directory c) (cs_records st)))) (\<lambda>r.
     if sconf_completed prepared \<and> r = None then Finished (Inl completed_unregistered) else
     try_task (if r \<noteq> None then ready con else Finished (Inr ())) (\<lambda>_.
     try_task (case r of None \<Rightarrow> add_fleet con (conf_directory c)
       | Some v \<Rightarrow> view_fleet con (reg_fleet_id v)) (\<lambda>current.
     if sconf_completed prepared then existing_setup con current stop
     else setup_started con prepared (r \<noteq> None) current stop))))))"

text \<open>\<open>setup_owner\<close> is held meanwhile; the wait for it ends when the caller's token is cancelled.\<close>

definition setup_fleet :: "('d, 'e) fleet_controller \<Rightarrow> setup_request \<Rightarrow> nat \<Rightarrow> ('d, 'e, setup_outcome) daemon_task" where
  "setup_fleet con q stop =
     try_task (step_when (\<lambda>w. cancelled w stop \<or> \<not> d_setup_owned w) (\<lambda>w.
       if d_setup_owned w \<or> cancelled w stop \<and> con_choice con (d_env w)
       then (Inl (failed ''Setup cancelled''), w)
       else (Inr (), w\<lparr>d_setup_owned := True\<rparr>))) (\<lambda>_.
     task_bind (setup_owned con q stop) (\<lambda>r.
     task_bind (step_now (\<lambda>w. (Inr (), w\<lparr>d_setup_owned := False\<rparr>) :: unit result \<times> ('d, 'e) daemon)) (\<lambda>_.
     Finished r)))"

section \<open>Opening\<close>

definition interrupted_error :: operation_error where
  "interrupted_error = \<lparr>oerr_instance = None, oerr_code = ''unavailable'', oerr_message =
     ''Controller stopped before this operation completed; inspect and retry explicitly''\<rparr>"

definition empty_state :: controller_state where
  "empty_state = \<lparr>cs_records = [], cs_deployed = [], cs_instances = [], cs_running = [], cs_wanted = [],
     cs_selections = [], cs_operations = [], cs_recovering = [], cs_mutations = [],
     cs_connection_errors = [], cs_stopping = False\<rparr>"

definition new_daemon :: "'d \<Rightarrow> 'e \<Rightarrow> ('d, 'e) daemon" where
  "new_daemon d e = \<lparr>d_state = empty_state, d_cancelled = [], d_done = [], d_next = 1, d_restored = False,
     d_setup_owned = False, d_close_owned = False, d_close_result = None, d_starts = 4, d_spawned = [],
     d_disk = d, d_env = e\<rparr>"

definition unregistered_binding :: failure where
  "unregistered_binding = failure_new Invalid
     ''Saved desired bindings or resume selections reference an unregistered fleet''"

definition close_interrupted :: "('d, 'e) fleet_controller \<Rightarrow> operation \<Rightarrow> ('d, 'e, unit) daemon_op" where
  "close_interrupted con v =
     bind_op (case target_fleet (req_target (op_request v)) of None \<Rightarrow> return_op ()
       | Some fleet \<Rightarrow>
           if req_action (op_request v) = Stop \<or> req_action (op_request v) = Reset then
             bind_op (state_of (enabled_keys fleet (target_instance (req_target (op_request v))))) (\<lambda>enabled.
             bind_op (if req_action (op_request v) = Stop
               then save_selection con fleet enabled (target_instance (req_target (op_request v)))
               else return_op ()) (\<lambda>_.
             set_intent con fleet enabled False))
           else return_op ()) (\<lambda>_.
     bind_op (on_env (con_clock con)) (\<lambda>now.
     on_disk (registry_save_operation (con_registry con) (v\<lparr>op_status := OpFailed,
       op_completed_at := Some now, op_approval := None, op_errors := [interrupted_error]\<rparr>))))"

definition connect_record :: "('d, 'e) fleet_controller \<Rightarrow> registration \<Rightarrow> ('d, 'e, unit) daemon_op" where
  "connect_record con r =
     bind_op (attempt_op (on_disk (registry_load (con_registry con) (reg_directory r)))) (\<lambda>found. case found of
       Inr conf \<Rightarrow> bind_op (attempt_op (on_env (exec_connect (con_execution con) conf))) (\<lambda>r. change (connected conf r))
     | Inl e \<Rightarrow> change (\<lambda>st. st\<lparr>cs_connection_errors :=
         om_put (reg_directory r) (failure_message e) (cs_connection_errors st)\<rparr>))"

text \<open>The answer is \<open>started_at\<close>, which the controller keeps for those who ask.\<close>

definition open_controller :: "('d, 'e) fleet_controller \<Rightarrow> ('d, 'e, int) daemon_op" where
  "open_controller con =
     bind_op (on_disk (registry_registrations (con_registry con))) (\<lambda>records.
     bind_op (on_disk (registry_desired (con_registry con))) (\<lambda>wanted.
     bind_op (on_disk (store_resume_selections (con_registry con))) (\<lambda>saved.
     if (\<exists>v\<in>set wanted. \<not> (\<exists>r\<in>set records. reg_fleet_id r = des_fleet_id v)) \<or>
       (\<exists>v\<in>set saved. \<not> (\<exists>r\<in>set records. reg_fleet_id r = sel_fleet_id v))
     then fail_op unregistered_binding else
     bind_op (on_disk (registry_pending_operations (con_registry con))) (\<lambda>pending.
     bind_op (on_env (con_clock con)) (\<lambda>now.
     bind_op (change (\<lambda>st. st\<lparr>cs_records := records,
       cs_wanted := os_of (map (\<lambda>v. (des_fleet_id v, des_instance_key v)) wanted),
       cs_selections := om_of (map (\<lambda>v. (sel_fleet_id v, sel_instance_keys v)) saved)\<rparr>)) (\<lambda>_.
     bind_op (for_each_op (close_interrupted con) (filter (\<lambda>v. op_completed_at v = None) pending)) (\<lambda>_.
     bind_op (for_each_op (connect_record con) records) (\<lambda>_.
     bind_op (spawn_job RestoreJob) (\<lambda>_. return_op now)))))))))"

section \<open>The machine\<close>

text \<open>What the spawned tasks run, and what callers may ask for at any time.\<close>

fun run_job :: "('d, 'e) fleet_controller \<Rightarrow> job \<Rightarrow> ('d, 'e, unit) daemon_task" where
  "run_job con (OperationJob v conf selected predecessor w fleet) = run_operation con v conf selected predecessor w fleet"
| "run_job con (RecoveryJob t v attempted previous cause immediate) = run_recovery con t v attempted previous cause immediate"
| "run_job con (RecoveryLoop t v attempted immediate attempt) = run_recovery_loop con t v attempted immediate attempt"
| "run_job con (WatchJob t runtime) = run_watch con t runtime"
| "run_job con RestoreJob = run_restore con"
| "run_job con (RestoreInstanceJob t channel) = run_restore_instance con t channel"

datatype call =
    ViewCall string
  | ListCall
  | OperateCall operation_request bool
  | RemoteCall operation_request
  | RemoteTargetCall string "string option"
  | AcknowledgeCall string
  | MaintainCall int
  | AttachCall string string "string option"
  | ContextsCall string string
  | TestCall string nat
  | DeliveryCall string int bool nat
  | MessageCall string string string nat
  | AddCall string
  | RenameCall string int string
  | RemoveCall string int nat
  | EditCall string int edit nat
  | SetupCall setup_request nat
  | CloseCall

definition discard_result :: "('w, 'a) task \<Rightarrow> ('w, unit) task" where
  "discard_result t = task_bind t (\<lambda>_. Finished ())"

fun run_call :: "('d, 'e) fleet_controller \<Rightarrow> call \<Rightarrow> (('d, 'e) daemon, unit) task" where
  "run_call con (ViewCall fleet) = discard_result (view_fleet con fleet)"
| "run_call con ListCall = discard_result (list_fleets con)"
| "run_call con (OperateCall q receipt) = discard_result (operate con q receipt)"
| "run_call con (RemoteCall q) = discard_result (execute_remote con q)"
| "run_call con (RemoteTargetCall d i) = discard_result (remote_target d i :: ('d, 'e, target) daemon_task)"
| "run_call con (AcknowledgeCall oid) = discard_result (acknowledge_operation con oid)"
| "run_call con (MaintainCall days) = discard_result (maintain_history con days)"
| "run_call con (AttachCall fleet i c) = discard_result (attach con fleet i c)"
| "run_call con (ContextsCall fleet i) = discard_result (fleet_contexts con fleet i)"
| "run_call con (TestCall fleet stop) = discard_result (test_fleet con fleet stop)"
| "run_call con (DeliveryCall fleet revision enabled stop) = discard_result (set_delivery con fleet revision enabled stop)"
| "run_call con (MessageCall fleet mid body stop) = discard_result (send_message con fleet mid body stop)"
| "run_call con (AddCall directory) = discard_result (add_fleet con directory)"
| "run_call con (RenameCall fleet revision label) = discard_result (rename_fleet con fleet revision label)"
| "run_call con (RemoveCall fleet revision stop) = discard_result (remove_fleet con fleet revision stop)"
| "run_call con (EditCall fleet revision e stop) = discard_result (edit_fleet con fleet revision e stop)"
| "run_call con (SetupCall q stop) = discard_result (setup_fleet con q stop)"
| "run_call con CloseCall = discard_result (close_controller con)"

definition next_job :: "('d, 'e) fleet_controller \<Rightarrow> ('d, 'e) daemon \<Rightarrow> ((('d, 'e) daemon, unit) task \<times> ('d, 'e) daemon) option" where
  "next_job con w = (case d_spawned w of [] \<Rightarrow> None
     | j # js \<Rightarrow> Some (discard_result (run_job con j), w\<lparr>d_spawned := js\<rparr>))"

text \<open>The world: the environment goes its own way, and callers cancel their tokens.\<close>

definition world_moves :: "('d, 'e) daemon \<Rightarrow> ('d, 'e) daemon \<Rightarrow> bool" where
  "world_moves w w' \<longleftrightarrow> (\<exists>e tokens. 0 \<notin> set tokens \<and> w' = w\<lparr>d_env := e, d_cancelled := tokens @ d_cancelled w\<rparr>)"

text \<open>A controller that has been opened, and every way it may go on.\<close>

definition controller_move :: "('d, 'e) fleet_controller \<Rightarrow>
    (('d, 'e) daemon, unit) task list \<times> ('d, 'e) daemon \<Rightarrow> (('d, 'e) daemon, unit) task list \<times> ('d, 'e) daemon \<Rightarrow> bool" where
  "controller_move con = machine_move (\<lambda>t. \<exists>c. t = run_call con c) (next_job con) world_moves"

definition controller_reaches :: "('d, 'e) fleet_controller \<Rightarrow> (('d, 'e) daemon, unit) task list \<times> ('d, 'e) daemon \<Rightarrow> bool" where
  "controller_reaches con c \<longleftrightarrow> (\<exists>d e now w. open_controller con (new_daemon d e) = (Inr now, w) \<and>
     (controller_move con)\<^sup>*\<^sup>* ([], w) c)"

end
