(* ===== verification/Controller_Runs.thy ===== *)
theory Controller_Runs
  imports Controller_Registry
begin

text \<open>
  What holds of the running agents in every interleaving of the controller's tasks. Every task of
  \<open>Controller_Registry\<close> follows one discipline: a runtime enters the list of running agents only for an agent
  that is wanted and has none, while the controller is not stopping; once it is stopping, runtimes only
  leave the list; and a close that succeeded was recorded when the list was empty.
\<close>

section \<open>Operations that keep to a relation\<close>

locale op_steps =
  fixes calm :: "'w \<Rightarrow> 'w \<Rightarrow> bool"
  assumes calm_refl: "calm w w"
    and calm_trans: "calm w w1 \<Longrightarrow> calm w1 w2 \<Longrightarrow> calm w w2"
begin

definition steps :: "('w \<Rightarrow> 'x \<times> 'w) \<Rightarrow> bool" where
  "steps m \<longleftrightarrow> (\<forall>w. calm w (snd (m w)))"

lemma stepsI: "(\<And>w. calm w (snd (m w))) \<Longrightarrow> steps m"
  by (simp add: steps_def)

lemma stepsD: "steps m \<Longrightarrow> calm w (snd (m w))"
  by (simp add: steps_def)

lemma steps_return: "steps (return_op v)"
  by (simp add: steps_def calm_refl)

lemma steps_fail: "steps (fail_op e)"
  by (simp add: steps_def calm_refl)

lemma steps_lift: "steps (lift_op r)"
  by (simp add: steps_def calm_refl)

lemma steps_read: "steps (\<lambda>w. (f w, w))"
  by (simp add: steps_def calm_refl)

lemma steps_bind_result:
  assumes "steps m" "\<And>v w w'. m w = (Inr v, w') \<Longrightarrow> steps (f v)"
  shows "steps (bind_op m f)"
proof (rule stepsI)
  fix w
  show "calm w (snd (bind_op m f w))"
  proof (cases "m w")
    case (Pair r w1)
    then have "calm w w1" using stepsD [OF assms(1), of w] by simp
    then show ?thesis
      using Pair stepsD [OF assms(2)] calm_trans by (cases r) (auto simp: bind_op_def)
  qed
qed

lemma steps_bind: "steps m \<Longrightarrow> (\<And>v. steps (f v)) \<Longrightarrow> steps (bind_op m f)"
  by (rule steps_bind_result)

lemma steps_attempt: "steps m \<Longrightarrow> steps (attempt_op m)"
  by (auto simp: steps_def attempt_op_def case_prod_unfold)

lemma steps_map: "(\<And>x. steps (f x)) \<Longrightarrow> steps (collect_op f xs)"
  by (induction xs) (auto intro!: steps_bind steps_return)

lemma steps_for_each: "(\<And>x. steps (f x)) \<Longrightarrow> steps (for_each_op f xs)"
  by (induction xs) (auto intro!: steps_bind steps_return)

lemma steps_if: "(b \<Longrightarrow> steps m) \<Longrightarrow> (\<not> b \<Longrightarrow> steps n) \<Longrightarrow> steps (if b then m else n)"
  by simp

lemma steps_case_option: "steps m \<Longrightarrow> (\<And>v. steps (f v)) \<Longrightarrow> steps (case x of None \<Rightarrow> m | Some v \<Rightarrow> f v)"
  by (cases x) simp_all

lemma steps_case_sum: "(\<And>e. steps (f e)) \<Longrightarrow> (\<And>v. steps (g v)) \<Longrightarrow> steps (case x of Inl e \<Rightarrow> f e | Inr v \<Rightarrow> g v)"
  by (cases x) simp_all

lemma steps_case_prod: "(\<And>a b. steps (f a b)) \<Longrightarrow> steps (case p of (a, b) \<Rightarrow> f a b)"
  by (cases p) simp

lemma steps_let: "steps (f x) \<Longrightarrow> steps (let v = x in f v)"
  by simp

lemmas steps_rules = steps_return steps_fail steps_lift steps_read steps_bind steps_attempt steps_map
  steps_for_each steps_if steps_case_option steps_case_sum steps_case_prod steps_let

end

text \<open>A relation that looks at the state behind the mutex and the record of the close only.\<close>

definition calm_on :: "(controller_state \<Rightarrow> 'x) \<Rightarrow> ('d, 'e) daemon \<Rightarrow> ('d, 'e) daemon \<Rightarrow> bool" where
  "calm_on f w w' \<longleftrightarrow> f (d_state w') = f (d_state w) \<and> d_close_result w' = d_close_result w"

interpretation calm: op_steps "calm_on f"
  by unfold_locales (auto simp: calm_on_def)

lemma calm_parts:
  "op_steps.steps (calm_on f) (on_disk m)" "op_steps.steps (calm_on f) (on_env n)"
  "op_steps.steps (calm_on f) (on_env_until token k)" "op_steps.steps (calm_on f) (state_of g)"
  "op_steps.steps (calm_on f) (try_state h)" "op_steps.steps (calm_on f) (cancel_token token)"
  "op_steps.steps (calm_on f) (send_done token)" "op_steps.steps (calm_on f) (spawn_job j)"
  "op_steps.steps (calm_on f) fresh_number" "op_steps.steps (calm_on f) (is_cancelled token)"
  by (auto simp: calm.steps_def calm_on_def on_disk_def on_env_def on_env_until_def state_of_def
      try_state_def cancel_token_def send_done_def spawn_job_def fresh_number_def is_cancelled_def
      split: prod.splits)

abbreviation calm_op :: "(controller_state \<Rightarrow> 'x) \<Rightarrow> (('d, 'e) daemon \<Rightarrow> 'r \<times> ('d, 'e) daemon) \<Rightarrow> bool" where
  "calm_op f m \<equiv> op_steps.steps (calm_on f) m"

lemma calm_change: "(\<And>st. f (g st) = f st) \<Longrightarrow> calm_op f (change g)"
  by (simp add: calm.steps_def calm_on_def change_def)

lemma calm_now: "(\<And>w. calm_op f (m w)) \<Longrightarrow> calm_op f (\<lambda>w. m w w)"
  by (simp add: calm.steps_def)

lemma calm_flags:
  "calm_op f (\<lambda>w. (r w, w\<lparr>d_restored := b\<rparr>))" "calm_op f (\<lambda>w. (r w, w\<lparr>d_setup_owned := b\<rparr>))"
  "calm_op f (\<lambda>w. (r w, w\<lparr>d_close_owned := b\<rparr>))"
  "calm_op f (\<lambda>w. if c w then (x, w) else (y, w\<lparr>d_setup_owned := b\<rparr>))"
  by (simp_all add: calm.steps_def calm_on_def)

lemmas calm_rules = calm.steps_rules calm_parts

text \<open>The fields of the state that a property is about are left alone by most of the code.\<close>

definition run_view :: "controller_state \<Rightarrow> (agent_key \<times> nat) list \<times> bool \<times> registration list" where
  "run_view st = (cs_running st, cs_stopping st, cs_records st)"

lemma runs_simps [simp]:
  "run_view (st\<lparr>cs_deployed := b\<rparr>) = run_view st"
  "run_view (st\<lparr>cs_instances := c\<rparr>) = run_view st" "run_view (st\<lparr>cs_wanted := d\<rparr>) = run_view st"
  "run_view (st\<lparr>cs_selections := e\<rparr>) = run_view st" "run_view (st\<lparr>cs_operations := f\<rparr>) = run_view st"
  "run_view (st\<lparr>cs_recovering := g\<rparr>) = run_view st" "run_view (st\<lparr>cs_mutations := h\<rparr>) = run_view st"
  "run_view (st\<lparr>cs_connection_errors := i\<rparr>) = run_view st"
  by (simp_all add: run_view_def)

lemma runs_set_instance [simp]: "run_view (set_instance fleet inst p e st) = run_view st"
  by (simp add: set_instance_def Let_def)

lemma runs_set_target [simp]: "run_view (set_target t p e st) = run_view st"
  by (simp add: set_target_def)

lemma runs_foldl: "(\<And>s x. run_view (f s x) = run_view s) \<Longrightarrow> run_view (foldl f st xs) = run_view st"
  by (induction xs arbitrary: st) simp_all

lemma runs_marks [simp]:
  "run_view (set_instances fleet is p e st) = run_view st"
  "run_view (mark_starting fleet is errors st) = run_view st"
  "run_view (mark_awaiting fleet is st) = run_view st"
  "run_view (mark_enrolled fleet is errors st) = run_view st"
  "run_view (mark_incomplete fleet is errors st) = run_view st"
  "run_view (mark_unrestored message st) = run_view st"
  "run_view (connected conf r st) = run_view st"
  "run_view (note_session key session at st) = run_view st"
  "run_view (enter_operation fleet v c st) = run_view st"
  by (auto simp: set_instances_def mark_starting_def mark_awaiting_def mark_enrolled_def
      mark_incomplete_def mark_unrestored_def connected_def note_session_def enter_operation_def Let_def
      intro!: runs_foldl split: option.splits)

lemma calm_read_ops [intro]:
  "calm_op f (inspect_fleet con fleet)"
  "calm_op f (view_native con r v)"
  "calm_op f (stored_operation con oid)"
  "calm_op f (fresh_work con)"
  "calm_op f (new_work name)"
  unfolding inspect_fleet_def view_native_def stored_operation_def fresh_work_def new_work_def
  by (intro calm_rules)+

lemma calm_view [intro]:
  "calm_op f (view_instance con fleet i)" "calm_op f (view_locked con fleet)" "calm_op f (list_fleet con r)"
proof -
  have inst: "calm_op f (view_instance con fleet i)" for fleet i
    unfolding view_instance_def Let_def by (intro calm_rules calm_read_ops)
  then show "calm_op f (view_instance con fleet i)" .
  have view: "calm_op f (view_locked con fleet)" for fleet
    unfolding view_locked_def by (intro calm_rules calm_read_ops inst)
  then show "calm_op f (view_locked con fleet)" .
  have "calm_on f w (snd (view_locked con (reg_fleet_id r) w))" for w
    using view by (rule calm.stepsD)
  then show "calm_op f (list_fleet con r)"
    by (auto simp: calm.steps_def list_fleet_def split: prod.splits sum.splits) (metis snd_conv)+
qed

lemma calm_write_ops [intro]:
  "calm_op run_view (set_intent con fleet keys enabled)"
  "calm_op run_view (save_selection con fleet ks k)"
  "calm_op run_view (forget_selection con fleet k)"
  unfolding set_intent_def save_selection_def forget_selection_def
  by (intro calm_rules calm_change; simp)+

lemma calm_recovery_section [intro]: "calm_op run_view (recovery_section con t v cause previous immediate)"
  by (auto simp: calm.steps_def calm_on_def recovery_section_def Let_def change_def bind_op_def)

lemma calm_restore [intro]:
  "calm_op run_view (restore_record con r)"
  unfolding restore_record_def restore_loaded_def Let_def by (intro calm_rules calm_change; simp)+

section \<open>The discipline of running agents\<close>

definition run_settled :: "('d, 'e) daemon \<Rightarrow> bool" where
  "run_settled w \<longleftrightarrow> (d_close_result w \<noteq> None \<longrightarrow> cs_stopping (d_state w) \<and> cs_running (d_state w) = [])"

text \<open>The registered fleets: at most a hundred, no two with one directory or one key.\<close>

definition fleets_ok :: "registration list \<Rightarrow> bool" where
  "fleets_ok rs \<longleftrightarrow> length rs \<le> 100 \<and> distinct (map reg_directory rs) \<and> distinct (map reg_fleet_key rs)"

definition run_rely :: "('d, 'e) daemon \<Rightarrow> ('d, 'e) daemon \<Rightarrow> bool" where
  "run_rely w w' \<longleftrightarrow> (cs_stopping (d_state w) \<longrightarrow> cs_stopping (d_state w') \<and>
       set (cs_running (d_state w')) \<subseteq> set (cs_running (d_state w))) \<and>
     (run_settled w \<longrightarrow> run_settled w') \<and>
     (fleets_ok (cs_records (d_state w)) \<longrightarrow> fleets_ok (cs_records (d_state w')))"

definition launches_well :: "('d, 'e) daemon \<Rightarrow> ('d, 'e) daemon \<Rightarrow> bool" where
  "launches_well w w' \<longleftrightarrow> (\<forall>key r. om_get key (cs_running (d_state w')) = Some r \<and>
       om_get key (cs_running (d_state w)) \<noteq> Some r \<longrightarrow>
     om_get key (cs_running (d_state w)) = None \<and> key \<in> set (cs_wanted (d_state w)) \<and>
       \<not> cs_stopping (d_state w))"

definition run_step :: "('d, 'e) daemon \<Rightarrow> ('d, 'e) daemon \<Rightarrow> bool" where
  "run_step w w' \<longleftrightarrow> run_rely w w' \<and> launches_well w w'"

lemma run_rely_refl: "run_rely w w"
  by (simp add: run_rely_def)

lemma run_rely_trans: "run_rely w w1 \<Longrightarrow> run_rely w1 w2 \<Longrightarrow> run_rely w w2"
  by (auto simp: run_rely_def)

lemma calm_run_step: "calm_on run_view w w' \<Longrightarrow> run_step w w'"
  by (auto simp: calm_on_def run_view_def run_step_def run_rely_def run_settled_def launches_well_def)

text \<open>Runtimes that leave the list, and a controller that begins to stop.\<close>

lemma run_step_drop:
  "cs_running (d_state w') = om_remove key (cs_running (d_state w)) \<Longrightarrow>
   cs_stopping (d_state w') = cs_stopping (d_state w) \<Longrightarrow> cs_records (d_state w') = cs_records (d_state w) \<Longrightarrow>
   d_close_result w' = d_close_result w \<Longrightarrow> run_step w w'"
  by (auto simp: run_step_def run_rely_def run_settled_def launches_well_def om_remove_def split: if_splits)
    (metis om_get_remove om_remove_def option.distinct(1))+

lemma run_step_stop:
  "cs_running (d_state w') = cs_running (d_state w) \<Longrightarrow> cs_stopping (d_state w') \<Longrightarrow>
   cs_records (d_state w') = cs_records (d_state w) \<Longrightarrow> d_close_result w' = d_close_result w \<Longrightarrow> run_step w w'"
  by (auto simp: run_step_def run_rely_def run_settled_def launches_well_def)

text \<open>Sections that leave the running agents alone and keep the registered fleets in order.\<close>

definition tidy :: "('d, 'e) daemon \<Rightarrow> ('d, 'e) daemon \<Rightarrow> bool" where
  "tidy w w' \<longleftrightarrow> calm_on (\<lambda>st. (cs_running st, cs_stopping st)) w w' \<and>
     (fleets_ok (cs_records (d_state w)) \<longrightarrow> fleets_ok (cs_records (d_state w')))"

interpretation tidy: op_steps tidy
  by unfold_locales (auto simp: tidy_def calm_on_def)

abbreviation tidy_op :: "(('d, 'e) daemon \<Rightarrow> 'r \<times> ('d, 'e) daemon) \<Rightarrow> bool" where
  "tidy_op m \<equiv> op_steps.steps tidy m"

lemma tidy_run_step: "tidy w w' \<Longrightarrow> run_step w w'"
  by (auto simp: tidy_def calm_on_def run_step_def run_rely_def run_settled_def launches_well_def)

lemma tidy_calm: "calm_op run_view m \<Longrightarrow> tidy_op m"
  by (simp add: calm.steps_def tidy.steps_def calm_on_def tidy_def run_view_def)

lemma tidy_persist:
  assumes "\<And>rs. fleets_ok rs \<Longrightarrow> fleets_ok (g rs)" "tidy_op k"
  shows "tidy_op (bind_op (state_of (\<lambda>st. g (cs_records st))) (\<lambda>records. bind_op (persist_records con records) (\<lambda>_. k)))"
proof -
  have "tidy w (snd (persist_records con (g (cs_records (d_state w))) w))" for w
    using assms(1) by (auto simp: persist_records_def bind_op_def on_disk_def change_def tidy_def calm_on_def
        split: prod.splits sum.splits)
  then have "tidy_op (\<lambda>w. persist_records con (g (cs_records (d_state w))) w)" by (rule tidy.stepsI)
  then have "tidy_op (bind_op (\<lambda>w. persist_records con (g (cs_records (d_state w))) w) (\<lambda>_. k))"
    using assms(2) by (rule tidy.steps_bind)
  moreover have "bind_op (state_of (\<lambda>st. g (cs_records st))) (\<lambda>records. bind_op (persist_records con records) (\<lambda>_. k)) =
      bind_op (\<lambda>w. persist_records con (g (cs_records (d_state w))) w) (\<lambda>_. k)"
    by (rule ext) (simp add: bind_op_def state_of_def)
  ultimately show ?thesis by simp
qed

lemma bind_return [simp]: "bind_op m return_op = m"
  by (rule ext) (auto simp: bind_op_def return_op_def split: prod.splits sum.splits)

lemma fleets_ok_map:
  "(\<And>r. reg_directory (f r) = reg_directory r \<and> reg_fleet_key (f r) = reg_fleet_key r) \<Longrightarrow>
     fleets_ok (map f rs) = fleets_ok rs"
  by (simp add: fleets_ok_def comp_def)

lemma fleets_ok_edits:
  "fleets_ok (with_digest fleet digest revision rs) = fleets_ok rs"
  "fleets_ok (renamed fleet label revision rs) = fleets_ok rs"
  unfolding with_digest_def renamed_def by (rule fleets_ok_map; simp)+

lemma fleets_ok_filter: "fleets_ok rs \<Longrightarrow> fleets_ok (filter p rs)"
  by (auto simp: fleets_ok_def distinct_map_filter intro: le_trans [OF length_filter_le])

lemma tidy_add: "tidy_op (add_section con directory conf)"
proof (rule tidy.stepsI)
  fix w :: "('a, 'b) daemon"
  show "tidy w (snd (add_section con directory conf w))"
    unfolding add_section_def
    by (auto simp: bind_op_def try_state_def Let_def on_env_def state_of_def persist_records_def on_disk_def change_def
        tidy_def calm_on_def fleets_ok_def split: prod.splits sum.splits)
qed

lemma tidy_accept: "tidy_op (accept_section con q receipt fleet)"
proof -
  have sel: "calm_op run_view (operation_selected con q fleet catalog enabled)" for catalog enabled
    unfolding operation_selected_def by (intro calm_rules)
  have conf: "calm_op run_view (operation_configuration con q fleet r)" for r
    unfolding operation_configuration_def by (intro calm_rules calm_read_ops)
  have last: "tidy_op (bind_op (state_of (\<lambda>st. with_digest fleet d n (cs_records st))) (persist_records con))" for d n
    using tidy_persist [of "with_digest fleet d n" "return_op ()" con] by (simp add: fleets_ok_edits tidy.steps_return)
  have point: "tidy_op (checkpoint con q fleet r c selected enabled)" for r c selected enabled
    unfolding checkpoint_def
    by (intro last tidy.steps_rules; intro tidy_calm calm_rules calm_write_ops)
  have guarded: "tidy_op m \<Longrightarrow> tidy_op (guarded_checkpoint con v m)" for v m
    unfolding guarded_checkpoint_def by (intro tidy.steps_rules; (assumption | intro tidy_calm calm_rules))
  have checks: "calm_op run_view (check_selected con q fleet catalog selected)" for catalog selected
    by (simp add: calm.steps_def calm_on_def check_selected_def)
  have entered: "calm_op run_view (change (enter_operation fleet v c))" for v c
    by (intro calm_change) simp
  show ?thesis
    unfolding accept_section_def accept_new_def Let_def
    by (intro guarded point tidy.steps_rules;
        intro tidy_calm sel conf checks entered calm_rules calm_read_ops)
qed

lemma tidy_registry:
  "tidy_op (bind_op (mutable_fleet con fleet revision) (\<lambda>_.
     bind_op (lift_op (ok_or (checked_i64 (revision + 1)) revision_overflow)) (\<lambda>next_revision.
     bind_op (state_of (\<lambda>st. renamed fleet label next_revision (cs_records st))) (\<lambda>records.
     bind_op (persist_records con records) (\<lambda>_. view_locked con fleet)))))"
  "tidy_op (remove_section con fleet)"
  "tidy_op (edit_section con fleet revision key changed)"
proof -
  have mut: "calm_op run_view (mutable_fleet con fleet revision)"
    unfolding mutable_fleet_def by (intro calm_rules calm_read_ops)
  have view: "tidy_op (view_locked con fleet)"
    by (intro tidy_calm calm_view)
  show "tidy_op (bind_op (mutable_fleet con fleet revision) (\<lambda>_.
     bind_op (lift_op (ok_or (checked_i64 (revision + 1)) revision_overflow)) (\<lambda>next_revision.
     bind_op (state_of (\<lambda>st. renamed fleet label next_revision (cs_records st))) (\<lambda>records.
     bind_op (persist_records con records) (\<lambda>_. view_locked con fleet)))))"
    by (rule tidy.steps_bind [OF tidy_calm [OF mut]], rule tidy.steps_bind [OF tidy.steps_lift], rule tidy_persist)
      (simp_all add: fleets_ok_edits view)
  show "tidy_op (remove_section con fleet)"
    unfolding remove_section_def
    by (rule tidy.steps_bind, intro tidy_calm calm_write_ops, rule tidy_persist)
      (rule fleets_ok_filter, assumption, rule tidy_calm, rule calm_change, simp)
  have "tidy_op (bind_op (change (\<lambda>st. st\<lparr>cs_instances := om_remove (fleet, key) (cs_instances st)\<rparr>)) (\<lambda>_. view_locked con fleet))"
    by (intro tidy.steps_bind view tidy_calm calm_change) simp
  then show "tidy_op (edit_section con fleet revision key changed)"
    unfolding edit_section_def
    by (intro tidy.steps_bind [OF tidy.steps_lift] tidy_persist) (simp_all add: fleets_ok_edits)
qed

lemma calm_mutable [intro]: "calm_op run_view (mutable_fleet con fleet revision)"
  unfolding mutable_fleet_def by (intro calm_rules calm_read_ops)

abbreviation runs_careful :: "(('d, 'e) daemon, 'a) task \<Rightarrow> bool" where
  "runs_careful t \<equiv> careful run_rely run_step t"

lemma careful_calm [intro]:
  "calm_op run_view m \<Longrightarrow> runs_careful (step_now m)"
  "calm_op run_view m \<Longrightarrow> runs_careful (step_when g m)"
  "calm_op run_view m \<Longrightarrow> careful_act run_rely run_step (act_step m)"
  by (auto intro!: careful_step_now careful_step_when careful_act_step calm_run_step simp: calm.steps_def)

lemma careful_tidy: "tidy_op m \<Longrightarrow> runs_careful (step_now m)"
  by (auto intro!: careful_step_now tidy_run_step simp: tidy.steps_def)

lemmas walk = careful_Finished careful_bind careful_try careful_if careful_case_option careful_case_sum
  careful_case_prod careful_case_bool careful_for_each careful_fold careful_act_return careful_act_fail
  careful_act_bind careful_act_task careful_act_attempt careful_act_errors careful_act_operation
  careful_act_update careful_act_if careful_act_case_option careful_act_case_sum careful_act_each
  careful_calm calm_rules calm_change calm_read_ops calm_write_ops calm_view

lemma careful_actD: "careful_act rely step m \<Longrightarrow> careful rely step (m s)"
  unfolding careful_act_def by (rule spec)

lemma careful_drop:
  assumes "\<And>st. cs_running (g st) = om_remove key (cs_running st) \<or> cs_running (g st) = cs_running st"
    and "\<And>st. cs_stopping (g st) = cs_stopping st" "\<And>st. cs_records (g st) = cs_records st"
  shows "runs_careful (step_now (change g))"
proof (rule careful_step_now)
  show "run_step w (snd (change g w))" for w
    using assms(1) [of "d_state w"]
  proof
    assume "cs_running (g (d_state w)) = om_remove key (cs_running (d_state w))"
    then show ?thesis using assms(2,3) by (intro run_step_drop [where key = key]) (simp_all add: change_def)
  next
    assume "cs_running (g (d_state w)) = cs_running (d_state w)"
    then show ?thesis using assms(2,3) by (intro calm_run_step) (simp add: change_def calm_on_def run_view_def)
  qed
qed

lemma set_instance_runs [simp]:
  "cs_running (set_instance fleet i p e st) = cs_running st" "cs_stopping (set_instance fleet i p e st) = cs_stopping st"
  "cs_running (set_target t p e st) = cs_running st" "cs_stopping (set_target t p e st) = cs_stopping st"
  "cs_wanted (set_target t p e st) = cs_wanted st"
  "cs_records (set_instance fleet i p e st) = cs_records st" "cs_records (set_target t p e st) = cs_records st"
  by (simp_all add: set_target_def set_instance_def Let_def)

lemma note_session_runs [simp]:
  "cs_running (note_session key session at st) = cs_running st"
  "cs_stopping (note_session key session at st) = cs_stopping st"
  "cs_records (note_session key session at st) = cs_records st"
  by (auto simp: note_session_def split: option.splits)

lemma work_wait_careful [intro]: "runs_careful (work_wait v)"
  unfolding work_wait_def by (intro walk)

lemma launched_careful [intro]: "runs_careful (launched con t runtime stop recovery)"
proof -
  have "run_step w (snd (launch_section con t runtime stop recovery w))" for w
  proof (cases "admits_launch t stop recovery w")
    case True
    define w1 where "w1 = snd (launch_section con t runtime stop recovery w)"
    have "cs_running (d_state w1) = om_put (key_of t) runtime (cs_running (d_state w)) \<and>
        cs_stopping (d_state w1) = cs_stopping (d_state w) \<and> d_close_result w1 = d_close_result w \<and>
        cs_records (d_state w1) = cs_records (d_state w)"
      using True unfolding w1_def launch_section_def
      by (auto simp: bind_op_def change_def on_env_def enter_running_def Let_def split: prod.splits sum.splits)
    then show ?thesis
      using True unfolding w1_def [symmetric]
      by (auto simp: admits_launch_def Let_def run_step_def run_rely_def run_settled_def launches_well_def om_has_def
          split: if_splits)
  qed (simp add: launch_section_def run_step_def run_rely_refl launches_well_def)
  then have "runs_careful (step_now (launch_section con t runtime stop recovery))"
    by (rule careful_step_now)
  then show ?thesis unfolding launched_def by (rule careful_try) (intro walk)
qed

lemma recover_careful [intro]: "runs_careful (recover con t cause previous immediate)"
  unfolding recover_def by (intro walk calm_recovery_section work_wait_careful)

lemma drop_running_runs [simp]:
  "cs_running (drop_running key st) = om_remove key (cs_running st)"
  "cs_stopping (drop_running key st) = cs_stopping st" "cs_records (drop_running key st) = cs_records st"
  by (simp_all add: drop_running_def)

lemma stop_instance_careful [intro]: "runs_careful (stop_instance con fleet i)"
proof -
  have drop: "runs_careful (step_now (change (\<lambda>st. if om_get key (cs_running st) = Some r then drop_running key st else st)))"
    for key r by (rule careful_drop [where key = key]) simp_all
  show ?thesis
    unfolding stop_instance_def Let_def
    apply (rule careful_try, (intro walk; simp))
    apply (rule careful_try, (intro walk work_wait_careful))
    apply (rule careful_try, (intro walk))
    apply (rule careful_try)
     apply (rule careful_case_option, (intro walk), rule careful_try, (intro walk), rule drop)
    apply (intro walk; simp)
    done
qed

lemma recover_previous_careful [intro]: "runs_careful (recover_previous con t previous cause)"
proof -
  have drop: "runs_careful (step_now (change (drop_running (key_of t))))"
    "runs_careful (step_now (change (\<lambda>st. set_target t InstStopped None (drop_running (key_of t) st))))"
    by (rule careful_drop [where key = "key_of t"]; simp)+
  show ?thesis
    unfolding recover_previous_def by (intro drop walk)
qed

lemma recovery_careful [intro]:
  "runs_careful (run_recovery con t v attempted previous cause immediate)"
  "runs_careful (run_recovery_loop con t v attempted immediate attempt)"
proof -
  have finish: "runs_careful (finish_recovery t v attempted error)" for error
    unfolding finish_recovery_def Let_def by (intro walk; simp split: option.splits)
  have on: "runs_careful (recovery_goes_on t v attempted immediate attempt r)" for attempt r
    unfolding recovery_goes_on_def by (intro walk finish)
  have acquire: "runs_careful (acquire_permit v)"
    unfolding acquire_permit_def
    by (intro careful_step_when calm_run_step) (simp add: calm_on_def)
  have release: "runs_careful (step_now release_start)"
    by (intro careful_step_now calm_run_step) (simp add: calm_on_def release_start_def)
  have wait: "runs_careful (delay n k)" for n k
    unfolding delay_def by (intro walk)
  have look: "runs_careful (case x of LookEnd \<Rightarrow> a | LookAgain \<Rightarrow> b | LookGo \<Rightarrow> c)"
    if "runs_careful a" "runs_careful b" "runs_careful c" for x and a b c :: "(('a, 'b) daemon, 'c) task"
    using that by (cases x) simp_all
  have "runs_careful (recovery_failed t v attempted e)" for e
    unfolding recovery_failed_def by (intro walk; simp)
  then have "runs_careful (recovery_round con t v attempted immediate attempt)"
    unfolding recovery_round_def by (intro launched_careful acquire release wait look walk) simp_all
  with on show "runs_careful (run_recovery con t v attempted previous cause immediate)"
    "runs_careful (run_recovery_loop con t v attempted immediate attempt)"
    unfolding run_recovery_def run_recovery_loop_def by (auto intro: careful_bind)
qed

lemma watch_careful [intro]: "runs_careful (run_watch con t runtime)"
  unfolding run_watch_def by (intro recover_careful walk; simp)

lemma connect_careful [intro]: "runs_careful (connect con conf)"
  unfolding connect_def by (intro walk; simp)

lemma restore_careful [intro]:
  "runs_careful (run_restore con)" "runs_careful (run_restore_instance con t channel)"
proof -
  have "runs_careful (restore con)"
    unfolding restore_def by (intro calm_restore walk)
  then show "runs_careful (run_restore con)"
    unfolding run_restore_def by (intro calm_flags walk; simp)
  show "runs_careful (run_restore_instance con t channel)"
    unfolding run_restore_instance_def by (intro recover_careful walk)
qed

section \<open>Operations\<close>

lemma noting_error_careful [intro]:
  "runs_careful t \<Longrightarrow> careful_act run_rely run_step (noting_error fleet i t)"
  "careful_act run_rely run_step (record_error fleet x e)"
proof -
  have recorded: "careful_act run_rely run_step (record_error fleet x e)" for x e
    unfolding record_error_def by (intro walk; simp)
  show "runs_careful t \<Longrightarrow> careful_act run_rely run_step (noting_error fleet i t)"
    unfolding noting_error_def by (intro recorded walk)
  show "careful_act run_rely run_step (record_error fleet x e)" by (rule recorded)
qed

lemma stop_selected_careful [intro]: "careful_act run_rely run_step (stop_selected con fleet xs)"
  unfolding stop_selected_def by (intro noting_error_careful stop_instance_careful walk)

lemma ensure_live_careful [intro]: "careful_act run_rely run_step (ensure_live stop)"
  unfolding ensure_live_def by (intro walk)

lemma start_selected_careful [intro]: "careful_act run_rely run_step (start_selected con fleet conf stop i)"
  unfolding start_selected_def Let_def
  by (intro launched_careful recover_careful noting_error_careful walk)

lemmas act_parts = noting_error_careful stop_selected_careful ensure_live_careful start_selected_careful
  connect_careful

lemma run_action_careful [intro]: "careful_act run_rely run_step (run_action con conf selected stop)"
proof -
  have stop: "careful_act run_rely run_step (stop_action con fleet conf selected stop)" for fleet conf
    unfolding stop_action_def by (intro act_parts walk)
  have update: "careful_act run_rely run_step (update_action con fleet c selected stop)" for fleet c
    unfolding update_action_def update_instance_def restart_instance_def by (intro act_parts walk)
  have approve: "runs_careful (approve con fleet selected v link)" for fleet v link
    unfolding approve_def by (intro walk; simp)
  have "runs_careful (prepare_fleet con fleet c selected stop enroll v)" for fleet c enroll v
    unfolding prepare_fleet_def by (intro approve walk)
  then have prepare: "careful_act run_rely run_step (prepare_part con fleet c selected stop enroll)" for fleet c enroll
    unfolding prepare_part_def by (intro act_parts walk; simp)
  have reset: "careful_act run_rely run_step (reset_part con fleet c selected stop)" for fleet c
    unfolding reset_part_def reset_instance_def Let_def by (intro act_parts walk)
  have part: "careful_act run_rely run_step (start_part con fleet c selected stop)" for fleet c
    unfolding start_part_def start_instance_def by (intro act_parts walk)
  have start: "careful_act run_rely run_step (start_action con fleet c selected stop kind)" for fleet c kind
    unfolding start_action_def by (intro reset prepare part act_parts walk; simp)
  show ?thesis
    unfolding run_action_def Let_def by (intro stop update start walk)
qed

lemma run_operation_careful [intro]: "runs_careful (run_operation con accepted conf selected predecessor v fleet)"
proof -
  have outcome: "careful_act run_rely run_step m \<Longrightarrow> careful_act run_rely run_step (act_outcome m)"
    for m :: "('a, 'b, unit) act"
    unfolding careful_act_def act_outcome_def by (auto intro!: walk)
  have complete: "careful_act run_rely run_step (complete_part con fleet)" for fleet
    unfolding complete_part_def by (intro act_parts walk)
  have finish: "careful_act run_rely run_step (\<lambda>s. Finished (s, Inr (f s)))" for f :: "progress \<Rightarrow> operation"
    by (simp add: careful_act_def)
  have "careful_act run_rely run_step (operation_body con conf selected stop)" for stop
    unfolding operation_body_def
    by (intro outcome complete finish run_action_careful act_parts walk; simp)
  then have execute: "runs_careful (execute_operation con accepted conf selected stop)" for stop
    unfolding execute_operation_def by (intro careful_bind careful_case_prod careful_Finished) (rule careful_actD)
  have stop: "runs_careful (stop_or_end con fleet i)" for i
    unfolding stop_or_end_def by (intro stop_instance_careful walk)
  have "run_step w (snd (close_operation con fleet v outcome w))" for outcome w
  proof -
    define w1 where "w1 = snd (close_operation con fleet v outcome w)"
    have "cs_running (d_state w1) = cs_running (d_state w) \<and> d_close_result w1 = d_close_result w \<and>
        cs_records (d_state w1) = cs_records (d_state w) \<and>
        (cs_stopping (d_state w1) = cs_stopping (d_state w) \<or> cs_stopping (d_state w1))"
      unfolding w1_def close_operation_def
      by (auto simp: bind_op_def change_def attempt_op_def on_disk_def cancel_token_def
          split: prod.splits sum.splits option.splits)
    then show ?thesis
      unfolding w1_def [symmetric]
      by (auto simp: run_step_def run_rely_def run_settled_def launches_well_def)
  qed
  then have close: "runs_careful (step_now (close_operation con fleet v outcome))" for outcome
    by (rule careful_step_now)
  show ?thesis
    unfolding run_operation_def by (intro execute stop close work_wait_careful walk)
qed

section \<open>Closing\<close>

text \<open>What the others cannot undo is kept across a task.\<close>

lemma good_keep:
  assumes "good rely step t (\<lambda>_ _. True) w" "S w"
    and "\<And>w w'. S w \<Longrightarrow> rely w w' \<Longrightarrow> S w'" "\<And>w w'. step w w' \<Longrightarrow> rely w w'"
  shows "good rely step t (\<lambda>_. S) w"
  using assms(1,2)
proof (induction t arbitrary: w rule: task_induct)
  case (Pending g k)
  then show ?case using assms(3,4) by (simp; blast)
qed simp

lemma run_step_rely: "run_step w w' \<Longrightarrow> run_rely w w'"
  by (simp add: run_step_def)

definition ending :: "(agent_key \<times> nat) list \<Rightarrow> ('d, 'e) daemon \<Rightarrow> bool" where
  "ending krs w \<longleftrightarrow> cs_stopping (d_state w) \<and> set (cs_running (d_state w)) \<subseteq> set krs"

definition stopping :: "('d, 'e) daemon \<Rightarrow> bool" where
  "stopping w \<longleftrightarrow> cs_stopping (d_state w)"

lemma stopping_stable: "stopping w \<Longrightarrow> run_rely w w' \<Longrightarrow> stopping w'"
  by (auto simp: stopping_def run_rely_def)

lemma ending_stable: "ending krs w \<Longrightarrow> run_rely w w' \<Longrightarrow> ending krs w'"
  by (auto simp: ending_def run_rely_def)

lemma keep_stopping: "runs_careful t \<Longrightarrow> stopping w \<Longrightarrow> good run_rely run_step t (\<lambda>_. stopping) w"
  by (rule good_keep) (auto simp: careful_def intro: stopping_stable run_step_rely)

lemma keep_ending: "runs_careful t \<Longrightarrow> ending krs w \<Longrightarrow> good run_rely run_step t (\<lambda>_. ending krs) w"
  by (rule good_keep) (auto simp: careful_def intro: ending_stable run_step_rely)

lemma good_keep_bind:
  assumes "runs_careful t" "stopping w" "\<And>v w'. stopping w' \<Longrightarrow> good run_rely run_step (f v) Q w'"
  shows "good run_rely run_step (task_bind t f) Q w"
  by (rule good_bind, rule good_weaken [OF keep_stopping [OF assms(1,2)]]) (rule assms(3))

lemma good_keep_try:
  assumes "runs_careful t" "stopping w" "\<And>v w'. stopping w' \<Longrightarrow> good run_rely run_step (f v) (\<lambda>_ _. True) w'"
  shows "good run_rely run_step (try_task t f) (\<lambda>_ _. True) w"
  unfolding try_task_def by (rule good_keep_bind [OF assms(1,2)]) (auto intro: assms(3) split: sum.splits)

lemma close_one:
  fixes w :: "('a, 'b) daemon" and con :: "('a, 'b) fleet_controller"
  assumes "stopping w" "error = None \<Longrightarrow> ending (kr # krs) w"
  shows "good run_rely run_step (close_runtime con kr error)
    (\<lambda>error w. stopping w \<and> (error = None \<longrightarrow> ending krs w)) w"
proof -
  define S :: "('a, 'b) daemon \<Rightarrow> bool" where "S = (\<lambda>w. stopping w \<and> (error = None \<longrightarrow> ending (kr # krs) w))"
  have stable: "S w \<Longrightarrow> run_rely w w' \<Longrightarrow> S w'" for w w' :: "('a, 'b) daemon"
    unfolding S_def by (auto intro: stopping_stable ending_stable)
  have "runs_careful (step_now (on_env (rt_close (con_execution con) (snd kr))))"
    by (intro walk)
  then have close: "good run_rely run_step (step_now (on_env (rt_close (con_execution con) (snd kr)))) (\<lambda>_. S) w"
    by (rule good_keep [OF careful_good]) (use assms in \<open>simp add: S_def\<close>, rule stable, simp_all add: run_step_rely)
  have drop: "good run_rely run_step (step_now (change (drop_running (fst kr))))
      (\<lambda>_ w. stopping w \<and> (error = None \<longrightarrow> ending krs w)) w'" if "S w'" for w' :: "('a, 'b) daemon"
  proof (rule good_step_now)
    fix w1 assume "run_rely w' w1"
    with that have "S w1" by (rule stable)
    moreover have "run_step w1 (snd (change (drop_running (fst kr)) w1))"
      by (rule run_step_drop [where key = "fst kr"]) (simp_all add: change_def)
    ultimately show "run_step w1 (snd (change (drop_running (fst kr)) w1)) \<and>
        stopping (snd (change (drop_running (fst kr)) w1)) \<and>
        (error = None \<longrightarrow> ending krs (snd (change (drop_running (fst kr)) w1)))"
      by (cases kr) (auto simp: S_def stopping_def ending_def change_def om_remove_def)
  qed
  show ?thesis
    unfolding close_runtime_def
  proof (rule good_bind, rule good_weaken [OF close])
    fix r and w' :: "('a, 'b) daemon" assume "S w'"
    then show "good run_rely run_step (case r of Inl e \<Rightarrow> Finished (first_error error (Inl e :: unit result))
        | Inr _ \<Rightarrow> task_bind (step_now (change (drop_running (fst kr)))) (\<lambda>_. Finished error))
      (\<lambda>error w. stopping w \<and> (error = None \<longrightarrow> ending krs w)) w'"
      using drop by (cases r) (auto simp: S_def first_error_def intro!: good_bind split: option.splits)
  qed
qed

lemma close_runtimes:
  "stopping w \<Longrightarrow> (error = None \<Longrightarrow> ending krs w) \<Longrightarrow>
   good run_rely run_step (fold_task (close_runtime con) krs error)
     (\<lambda>error w. error = None \<longrightarrow> ending [] w) w"
proof (induction krs arbitrary: error w)
  case (Cons kr krs)
  show ?case
    by (auto intro!: good_bind good_weaken [OF close_one [OF Cons.prems]] Cons.IH)
qed simp

lemma close_record:
  assumes "ending [] w"
  shows "good run_rely run_step (step_now (\<lambda>w. (Inr (), w\<lparr>d_close_result := Some (Inr ())\<rparr>))) (\<lambda>_ _. True) w"
proof (rule good_step_now)
  fix w1 assume "run_rely w w1"
  with assms have "ending [] w1" by (rule ending_stable)
  then show "run_step w1 (snd (Inr (), w1\<lparr>d_close_result := Some (Inr ())\<rparr>)) \<and> True"
    by (auto simp: ending_def run_step_def run_rely_def run_settled_def launches_well_def)
qed

lemma close_careful [intro]:
  fixes con :: "('a, 'b) fleet_controller"
  shows "runs_careful (close_controller con)"
proof -
  have begins: "good run_rely run_step (step_now close_begin) (\<lambda>_. stopping) w" for w :: "('a, 'b) daemon"
  proof (rule good_step_now)
    fix w1 :: "('a, 'b) daemon"
    show "run_step w1 (snd (close_begin w1)) \<and> stopping (snd (close_begin w1))"
      by (auto simp: close_begin_def bind_op_def change_def state_of_def stopping_def intro: run_step_stop)
  qed
  have wait: "runs_careful (step_when g (return_op () :: ('a, 'b, unit) daemon_op))" for g
    by (intro walk)
  have finish: "good run_rely run_step (task_bind (fold_task (close_runtime con) krs error) (\<lambda>error. case error of
        Some e \<Rightarrow> Finished (Inl e)
      | None \<Rightarrow> step_now (\<lambda>w. (Inr (), w\<lparr>d_close_result := Some (Inr ())\<rparr>)))) (\<lambda>_ _. True) w"
    if "stopping w" "ending krs w" for krs error w
    by (rule good_bind, rule good_weaken [OF close_runtimes [OF that]])
      (auto split: option.splits intro: close_record)
  have snapshot: "good run_rely run_step (step_now (state_of cs_running))
      (\<lambda>r w. case r of Inl e \<Rightarrow> True | Inr krs \<Rightarrow> stopping w \<and> ending krs w) w"
    if "stopping w" for w :: "('a, 'b) daemon"
  proof (rule good_step_now)
    fix w1 assume "run_rely w w1"
    with that have "stopping w1" by (rule stopping_stable)
    then show "run_step w1 (snd (state_of cs_running w1)) \<and>
        (case fst (state_of cs_running w1) of Inl e \<Rightarrow> True
         | Inr krs \<Rightarrow> stopping (snd (state_of cs_running w1)) \<and> ending krs (snd (state_of cs_running w1)))"
      by (auto simp: state_of_def ending_def stopping_def intro: calm_run_step) (simp add: calm_on_def calm_run_step)
  qed
  have "good run_rely run_step (close_all con) (\<lambda>_ _. True) w" for w
    unfolding close_all_def
    apply (rule good_try, rule good_weaken [OF begins])
    apply (auto split: sum.splits)
    apply (rule good_keep_try, (intro walk)[1], assumption)
    apply (rule good_keep_try, (intro walk)[1], assumption)
    apply (rule good_keep_bind, (unfold ready_def)[1], rule wait, assumption)
    apply (rule good_keep_bind, (intro walk work_wait_careful)[1], assumption)
    apply (rule good_keep_bind, rule wait, assumption)
    apply (rule good_try, rule good_weaken [OF snapshot], assumption)
    apply (auto split: sum.splits intro: finish)
    done
  then have "runs_careful (close_all con)" by (simp add: careful_def)
  then show ?thesis
    unfolding close_controller_def by (intro calm_flags walk)
qed

section \<open>Calls\<close>

lemma operate_careful [intro]: "runs_careful (operate con q receipt)"
proof -
  have fleet: "runs_careful (operate_fleet con q receipt fleet)" for fleet
    unfolding operate_fleet_def by (intro careful_tidy [OF tidy_accept] walk)
  have daemon: "runs_careful (stop_daemon con q)"
    unfolding stop_daemon_def Let_def by (intro close_careful walk)
  show ?thesis
    unfolding operate_def by (intro fleet daemon walk)
qed

lemma view_careful [intro]:
  "runs_careful (view_fleet con fleet)" "runs_careful (list_fleets con)"
  "runs_careful (remote_target d k)" "runs_careful (acknowledge_operation con oid)"
  "runs_careful (maintain_history con days)" "runs_careful (attach con fleet i c)"
  "runs_careful (fleet_contexts con fleet i)" "runs_careful (test_fleet con fleet stop)"
  "runs_careful (set_delivery con fleet revision enabled stop)"
  "runs_careful (send_message con fleet mid body stop)"
  unfolding view_fleet_def list_fleets_def remote_target_def acknowledge_operation_def maintain_history_def
    attach_def fleet_contexts_def test_fleet_def test_instance_def set_delivery_def send_message_def
    open_configuration_def Let_def
  by (intro walk)+

lemma registry_careful [intro]:
  "runs_careful (add_fleet con directory)"
  "runs_careful (rename_fleet con fleet revision label)"
  "runs_careful (remove_fleet con fleet revision stop)"
  "runs_careful (edit_fleet con fleet revision e stop)"
proof -
  show "runs_careful (add_fleet con directory)"
    unfolding add_fleet_def by (intro careful_tidy [OF tidy_add] connect_careful view_careful walk)
  show "runs_careful (rename_fleet con fleet revision label)"
    unfolding rename_fleet_def by (intro careful_tidy [OF tidy_registry(1)] walk)
  have begins: "runs_careful (begin_mutation con fleet revision)"
    unfolding begin_mutation_def by (intro calm_mutable walk; simp)
  have during: "runs_careful t \<Longrightarrow> runs_careful (during_mutation fleet t)" for t :: "('a, 'b, 'c) daemon_task"
    unfolding during_mutation_def by (intro walk; simp)
  have during': "runs_careful t \<Longrightarrow> runs_careful (during_mutation fleet t)" for t :: "('a, 'b, 'd) daemon_task"
    unfolding during_mutation_def by (intro walk; simp)
  show "runs_careful (remove_fleet con fleet revision stop)"
    unfolding remove_fleet_def by (intro begins during careful_tidy [OF tidy_registry(2)] walk)
  have "runs_careful (apply_edit con fleet c e stop)" for c
    unfolding apply_edit_def Let_def by (cases e) (simp_all, (intro walk)+)
  then show "runs_careful (edit_fleet con fleet revision e stop)"
    unfolding edit_fleet_def by (intro begins during careful_tidy [OF tidy_registry(3)] walk)
qed

lemma setup_careful [intro]: "runs_careful (setup_fleet con q stop)"
proof -
  have existing: "runs_careful (existing_setup con current stop)" for current
    unfolding existing_setup_def Let_def by (intro view_careful walk)
  have "runs_careful (setup_operation con current oid found)" for current oid found
    unfolding setup_operation_def Let_def by (intro operate_careful walk)
  then have "runs_careful (setup_started con prepared known current stop)" for prepared known current
    unfolding setup_started_def by (intro existing walk)
  moreover have "runs_careful (ready con)"
    unfolding ready_def by (intro walk)
  ultimately have "runs_careful (setup_owned con q stop)"
    unfolding setup_owned_def Let_def by (intro existing registry_careful view_careful walk)
  then show ?thesis
    unfolding setup_fleet_def by (intro calm_flags walk)
qed

lemma execute_remote_careful [intro]: "runs_careful (execute_remote con q)"
  unfolding execute_remote_def by (intro operate_careful view_careful work_wait_careful walk)

lemma discard_careful [intro]: "runs_careful t \<Longrightarrow> runs_careful (discard_result t)"
  unfolding discard_result_def by (intro walk)

lemma call_careful: "runs_careful (run_call con c)"
  by (cases c) (auto intro: discard_careful)

lemma job_careful: "runs_careful (run_job con j)"
  by (cases j) auto

interpretation controller_runs: discipline run_rely run_step "\<lambda>t. \<exists>c. t = run_call con c" "next_job con" world_moves
proof unfold_locales
  show "world_moves w w1 \<Longrightarrow> run_step w w1" for w w1 :: "('a, 'b) daemon"
    by (auto simp: world_moves_def intro!: calm_run_step simp: calm_on_def)
  show "next_job con w = Some (t, w1) \<Longrightarrow> runs_careful t \<and> run_step w w1" for t and w w1 :: "('a, 'b) daemon"
    by (auto simp: next_job_def calm_on_def intro!: calm_run_step discard_careful job_careful split: list.splits)
  show "run_step w w" for w :: "('a, 'b) daemon"
    by (intro calm_run_step) (simp add: calm_on_def)
qed (auto simp: run_rely_refl run_step_rely intro: run_rely_trans call_careful)

text \<open>What the registry reads is in order, as its contract says.\<close>

definition lawful_fleets :: "('d, 'e) fleet_controller \<Rightarrow> bool" where
  "lawful_fleets con \<longleftrightarrow> (\<forall>d. case fst (registry_registrations (con_registry con) d) of Inl e \<Rightarrow> True | Inr rs \<Rightarrow> fleets_ok rs)"

lemma open_parts:
  "calm_op run_view (close_interrupted con v)" "calm_op run_view (connect_record con r)"
  unfolding close_interrupted_def connect_record_def
  by ((intro calm_rules calm_write_ops)[1], (intro calm_rules calm_change; simp))

lemma open_calm: "calm_op (\<lambda>st. (cs_running st, cs_stopping st)) (open_controller con)"
proof -
  have weak: "calm_op (\<lambda>st. (cs_running st, cs_stopping st)) m" if "calm_op run_view m"
    for m :: "('a, 'b) daemon \<Rightarrow> 'c \<times> ('a, 'b) daemon"
    using that by (simp add: calm.steps_def calm_on_def run_view_def)
  show ?thesis
    unfolding open_controller_def by (intro weak [OF open_parts(1)] weak [OF open_parts(2)] calm_rules calm_change; simp)
qed

lemma open_tidy:
  assumes "lawful_fleets con"
  shows "tidy_op (open_controller con)"
proof -
  have started: "tidy_op (change (\<lambda>st. st\<lparr>cs_records := records, cs_wanted := a, cs_selections := b\<rparr>))"
    if "fleets_ok records" for records a b
    using that by (simp add: tidy.steps_def tidy_def calm_on_def change_def)
  have read: "fleets_ok records"
    if "on_disk (registry_registrations (con_registry con)) w = (Inr records, w')" for records and w w' :: "('a, 'b) daemon"
    using assms that by (auto simp: lawful_fleets_def on_disk_def split: prod.splits) (metis fst_conv sum.simps(6))
  show ?thesis
    unfolding open_controller_def
    by (rule tidy.steps_bind_result, (intro tidy_calm calm_rules)[1], frule read,
      (intro started tidy_calm [OF open_parts(1)] tidy_calm [OF open_parts(2)] tidy.steps_rules;
        (assumption | (intro tidy_calm calm_rules))))
qed

lemma opened_idle:
  assumes "open_controller con (new_daemon d e) = (r, w)"
  shows "cs_running (d_state w) = [] \<and> \<not> cs_stopping (d_state w) \<and> d_close_result w = None"
  using calm.stepsD [OF open_calm, of "new_daemon d e" con] assms
  by (simp add: calm_on_def new_daemon_def empty_state_def)

lemma opened_fleets:
  assumes "lawful_fleets con" "open_controller con (new_daemon d e) = (r, w)"
  shows "fleets_ok (cs_records (d_state w))"
  using tidy.stepsD [OF open_tidy [OF assms(1)], of "new_daemon d e"] assms(2)
  by (simp add: tidy_def fleets_ok_def new_daemon_def empty_state_def)

lemma reaches_orderly:
  assumes "controller_reaches con c"
  shows "controller_runs.orderly c \<and> run_settled (snd c) \<and> (lawful_fleets con \<longrightarrow> fleets_ok (cs_records (d_state (snd c))))"
proof -
  from assms obtain d e now w where w: "open_controller con (new_daemon d e) = (Inr now, w)"
    and run: "(controller_move con)\<^sup>*\<^sup>* ([], w) c" unfolding controller_reaches_def by blast
  have "controller_runs.orderly ([] :: (('a, 'b) daemon, unit) task list, w)"
    by (rule controller_runs.orderly_start) simp
  with run have "controller_runs.orderly c \<and> run_rely w (snd c)"
    unfolding controller_move_def using controller_runs.runs_orderly by fastforce
  moreover have "run_settled w" using opened_idle [OF w] by (simp add: run_settled_def)
  moreover have "lawful_fleets con \<Longrightarrow> fleets_ok (cs_records (d_state w))" by (rule opened_fleets [OF _ w])
  ultimately show ?thesis by (auto simp: run_rely_def)
qed

lemma reaches_move:
  assumes "controller_reaches con c" "controller_move con c c'"
  shows "run_step (snd c) (snd c')"
  using controller_runs.move_orderly assms reaches_orderly unfolding controller_move_def by blast

lemma reaches_later:
  assumes "controller_reaches con c" "(controller_move con)\<^sup>*\<^sup>* c c'"
  shows "run_rely (snd c) (snd c')"
  using controller_runs.runs_orderly [OF assms(2) [unfolded controller_move_def]] reaches_orderly [OF assms(1)] by blast

end
