(* ===== verification/Sample_Controller.thy ===== *)
theory Sample_Controller
  imports Controller_Runs "HOL-Library.Code_Target_Nat"
begin

text \<open>
  A small controller to run the machine of \<open>Controller_Registry\<close> on: a disk that keeps what it is given, and
  an environment that starts a new runtime whenever it is asked. One fleet with one agent is registered, and
  the agent is wanted.
\<close>

record shelf =
  shelf_registrations :: "registration list"
  shelf_desired :: "desired_intent list"
  shelf_selections :: "resume_selection list"
  shelf_operations :: "(string \<times> operation) list"

definition lead :: agent_instance where
  "lead = \<lparr>ai_key = ''lead'', ai_name = ''lead'', ai_definition = ''d'', ai_workarea = ''w'',
     ai_workspace = None, ai_history_mode = None, ai_mirror_output = None, ai_runtime_options = None\<rparr>"

definition alpha_configuration :: configuration where
  "alpha_configuration = \<lparr>conf_directory = ''/a'', conf_roster = \<lparr>roster_fleet = ''alpha'',
     roster_coordination = \<lparr>coord_server = ''s'', coord_owner = ''o''\<rparr>, roster_instances = [lead]\<rparr>,
     conf_definitions = [], conf_digest = ''d''\<rparr>"

definition alpha :: registration where
  "alpha = \<lparr>reg_fleet_id = ''f1'', reg_fleet_key = ''alpha'', reg_directory = ''/a'', reg_label = ''alpha'',
     reg_revision = 0, reg_digest = ''d''\<rparr>"

definition write_shelf :: "(shelf \<Rightarrow> shelf) \<Rightarrow> (shelf, failure, unit) op" where
  "write_shelf f s = (Inr (), f s)"

definition sample_registry :: "shelf registry" where
  "sample_registry = \<lparr>
     store_resume_selections = (\<lambda>s. (Inr (shelf_selections s), s)),
     store_save_resume_selections = (\<lambda>v. write_shelf (\<lambda>s. s\<lparr>shelf_selections := v\<rparr>)),
     registry_registrations = (\<lambda>s. (if fleets_ok (shelf_registrations s) then Inr (shelf_registrations s)
       else Inl (failure_new Invalid ''Duplicate fleet''), s)),
     registry_save_registrations = (\<lambda>v. write_shelf (\<lambda>s. s\<lparr>shelf_registrations := v\<rparr>)),
     registry_desired = (\<lambda>s. (Inr (shelf_desired s), s)),
     registry_save_desired = (\<lambda>v. write_shelf (\<lambda>s. s\<lparr>shelf_desired := v\<rparr>)),
     registry_pending_operations = (\<lambda>s. (Inr (filter (\<lambda>v. op_completed_at v = None \<or> op_receipt_pending v)
       (map snd (shelf_operations s))), s)),
     registry_operation = (\<lambda>k s. (Inr (om_get k (shelf_operations s)), s)),
     registry_save_operation = (\<lambda>v. write_shelf (\<lambda>s. s\<lparr>shelf_operations :=
       om_put (req_id (op_request v)) v (shelf_operations s)\<rparr>)),
     registry_prune_operations = (\<lambda>cutoff maximum s. (Inr False, s)),
     registry_load = (\<lambda>d s. (if d = ''/a'' then Inr alpha_configuration else Inl (missing ''No fleet''), s)),
     registry_preview_roster = (\<lambda>c r s. (Inr (c\<lparr>conf_roster := r\<rparr>), s)),
     registry_write_roster = (\<lambda>c r s. (Inr (c\<lparr>conf_roster := r\<rparr>), s)),
     registry_setup = (\<lambda>q s. (Inl (missing ''No set-up''), s)),
     registry_complete_setup = (\<lambda>k. write_shelf (\<lambda>s. s)),
     registry_retry_setup = (\<lambda>k n. write_shelf (\<lambda>s. s))\<rparr>"

definition idle_session :: session_state where
  "idle_session = \<lparr>state_phase = NativeRunning, state_last_activity_at = None, state_history_available = True\<rparr>"

text \<open>The environment counts the runtimes it has started; a close always succeeds.\<close>

definition sample_execution :: "nat execution" where
  "sample_execution = \<lparr>
     exec_connect = (\<lambda>c e. (Inr (), e)),
     exec_connection = (\<lambda>c e. (Inr \<lparr>conn_connected = True, conn_delivery_enabled = True,
       conn_revision = None, conn_error = None\<rparr>, e)),
     exec_delivery = (\<lambda>c r b s e. (Inr JNull, e)),
     exec_message = (\<lambda>c m b s e. (Inr JNull, e)),
     exec_disconnect = (\<lambda>c e. (Inr (), e)),
     exec_validate = (\<lambda>c e. (Inr (), e)),
     exec_inspect = (\<lambda>c xs s e. (Inr (), e)),
     exec_test = (\<lambda>c i s e. (Inr (), e)),
     exec_approvals = (\<lambda>c i b e. ([], e)),
     exec_prepare = (\<lambda>c i b rs s e. (Inr (), e)),
     exec_start = (\<lambda>c i r s e. (if s then Inl (failed ''Cancelled'') else Inr e, e + 1)),
     exec_contexts = (\<lambda>c i e. (Inr [], e)),
     exec_confirm_stopped = (\<lambda>c i s e. (Inr (), e)),
     exec_reset = (\<lambda>c i k s e. (Inr (), e)),
     exec_remove = (\<lambda>c i s e. (Inr (), e)),
     exec_archive = (\<lambda>c s e. (Inr (), e)),
     exec_update = (\<lambda>c i d s e. (Inr (), e)),
     rt_session_id = (\<lambda>r e. ''session''),
     rt_cancelled = (\<lambda>r e. False),
     rt_deliberate = (\<lambda>r e. False),
     rt_listener_active = (\<lambda>r e. (Inr True, e)),
     rt_native_state = (\<lambda>r e. (Inr idle_session, e)),
     rt_attachment = (\<lambda>r c e. (Inl (missing ''No terminal''), e)),
     rt_contexts = (\<lambda>r e. (Inr [], e)),
     rt_close = (\<lambda>r e. (Inr (), e))\<rparr>"

definition sample_controller :: "(shelf, nat) fleet_controller" where
  "sample_controller = \<lparr>con_registry = sample_registry, con_execution = sample_execution,
     con_clock = (\<lambda>e. (Inr 1000, e)), con_fresh = (\<lambda>e. (replicate e CHR ''n'', e + 1)),
     con_choice = (\<lambda>e. True), con_identity = \<lparr>ident_name = ''host'', ident_metadata = None\<rparr>\<rparr>"

definition sample_shelf :: shelf where
  "sample_shelf = \<lparr>shelf_registrations = [alpha], shelf_desired = [\<lparr>des_fleet_id = ''f1'', des_instance_key = ''lead''\<rparr>],
     shelf_selections = [], shelf_operations = []\<rparr>"

section \<open>Following a schedule\<close>

datatype choice = RunTask nat | SpawnJob | Arrive call

fun follow :: "('d, 'e) fleet_controller \<Rightarrow> choice \<Rightarrow> (('d, 'e) daemon, unit) task list \<times> ('d, 'e) daemon \<Rightarrow>
    ((('d, 'e) daemon, unit) task list \<times> ('d, 'e) daemon) option" where
  "follow con (RunTask i) (ts, w) = (if i < length ts then (case ts ! i of
       Finished v \<Rightarrow> None
     | Pending g k \<Rightarrow> if g w then (case k w of (t, w') \<Rightarrow> Some (ts[i := t], w')) else None) else None)"
| "follow con SpawnJob (ts, w) = (case next_job con w of None \<Rightarrow> None | Some (t, w') \<Rightarrow> Some (ts @ [t], w'))"
| "follow con (Arrive c) (ts, w) = Some (ts @ [run_call con c], w)"

fun follow_all :: "('d, 'e) fleet_controller \<Rightarrow> choice list \<Rightarrow> (('d, 'e) daemon, unit) task list \<times> ('d, 'e) daemon \<Rightarrow>
    ((('d, 'e) daemon, unit) task list \<times> ('d, 'e) daemon) option" where
  "follow_all con [] c = Some c"
| "follow_all con (x # xs) c = (case follow con x c of None \<Rightarrow> None | Some c' \<Rightarrow> follow_all con xs c')"

lemma follow_move: "follow con x c = Some c' \<Longrightarrow> controller_move con c c'"
  unfolding controller_move_def
  by (cases "(con, x, c)" rule: follow.cases)
    (auto split: if_splits task.splits option.splits prod.splits intro: machine_move.intros)

lemma follow_all_moves: "follow_all con xs c = Some c' \<Longrightarrow> (controller_move con)\<^sup>*\<^sup>* c c'"
  by (induction xs arbitrary: c) (auto split: option.splits dest: follow_move intro: converse_rtranclp_into_rtranclp)

definition opened_daemon :: "(shelf, nat) daemon" where
  "opened_daemon = snd (open_controller sample_controller (new_daemon sample_shelf 1))"

lemma opened_daemon_starts: "open_controller sample_controller (new_daemon sample_shelf 1) = (Inr 1000, opened_daemon)"
  by (simp add: opened_daemon_def prod_eq_iff) code_simp

end
