(* ===== verification/Controller_Safety.thy ===== *)
theory Controller_Safety
  imports Sample_Controller
begin

text \<open>
  What holds of every run of the controller, at the tasks' own steps: the discipline of \<open>Controller_Runs\<close>
  read off the state, with the sample of \<open>Sample_Controller\<close> as the case it is applied to.
\<close>

text \<open>The schedule that starts the wanted agent of the sample, and the one that closes the controller after it.\<close>

definition start_schedule :: "choice list" where
  "start_schedule = [SpawnJob, RunTask 0, RunTask 0, SpawnJob, RunTask 1, RunTask 1, RunTask 1, RunTask 1, SpawnJob,
     RunTask 2, SpawnJob, RunTask 3, RunTask 3, RunTask 3, RunTask 3]"

definition launch_step :: choice where
  "launch_step = RunTask 3"

definition close_schedule :: "choice list" where
  "close_schedule = start_schedule @ launch_step # replicate 4 (RunTask 3) @ [RunTask 1, RunTask 1, RunTask 0, RunTask 0,
     Arrive CloseCall] @ replicate 10 (RunTask 4)"

lemma schedule_reaches:
  assumes "follow_all sample_controller xs ([], opened_daemon) = Some c"
  shows "controller_reaches sample_controller c"
  unfolding controller_reaches_def using opened_daemon_starts follow_all_moves [OF assms] by blast

abbreviation sample_runs :: "choice list \<Rightarrow> ((shelf, nat) daemon, unit) task list \<times> (shelf, nat) daemon" where
  "sample_runs xs \<equiv> the (follow_all sample_controller xs ([], opened_daemon))"



text \<open>
  C6: A runtime becomes an agent's running one only while the controller is not stopping, the agent is
  wanted and has no running one, in every interleaving of operations, recoveries and calls.
\<close>
theorem launches_only_wanted:
  assumes "controller_reaches con c" "controller_move con c c'"
    and "om_get key (cs_running (d_state (snd c'))) = Some r"
    and "om_get key (cs_running (d_state (snd c))) \<noteq> Some r"
  shows "om_get key (cs_running (d_state (snd c))) = None \<and> key \<in> set (cs_wanted (d_state (snd c))) \<and>
    \<not> cs_stopping (d_state (snd c))"
  using reaches_move [OF assms(1,2)] assms(3,4) unfolding run_step_def launches_well_def by blast

theorem launches_only_wanted_witness:
  "case snd (sample_runs start_schedule) of w \<Rightarrow> om_get (''f1'', ''lead'') (cs_running (d_state w)) = None \<and>
    (''f1'', ''lead'') \<in> set (cs_wanted (d_state w)) \<and> \<not> cs_stopping (d_state w)"
proof -
  let ?has = "\<lambda>w :: (shelf, nat) daemon. om_get (''f1'', ''lead'') (cs_running (d_state w)) = Some 2"
  have "case follow_all sample_controller start_schedule ([], opened_daemon) of None \<Rightarrow> False
    | Some c \<Rightarrow> \<not> ?has (snd c) \<and> (case follow sample_controller launch_step c of None \<Rightarrow> False | Some c' \<Rightarrow> ?has (snd c'))"
    by code_simp
  then obtain c c' where c: "follow_all sample_controller start_schedule ([], opened_daemon) = Some c"
    "follow sample_controller launch_step c = Some c'" "\<not> ?has (snd c)" "?has (snd c')"
    by (auto split: option.splits)
  show ?thesis
    using launches_only_wanted [OF schedule_reaches [OF c(1)] follow_move [OF c(2)] c(4) c(3)] c(1)
    by (simp add: case_prod_beta)
qed

end
