(* ===== verification/Recovery_Race.thy ===== *)
theory Recovery_Race
  imports Controller_Safety
begin

text \<open>
  A run of the controller in which the recovery of an agent meets an operation that starts it: the
  operation has already looked for recoveries to stop when the runtime of the agent is lost, so the
  recovery it causes waits for the operation to end and then starts the agent that the operation has
  started meanwhile. Its failure is noted as the failure of the agent that runs.
\<close>

text \<open>An environment that loses every runtime while a fleet is prepared, and cannot recover one.\<close>

type_synonym race_env = "nat \<times> nat list"

definition race_execution :: "race_env execution" where
  "race_execution = \<lparr>
     exec_connect = (\<lambda>c. return_op ()),
     exec_connection = (\<lambda>c. return_op \<lparr>conn_connected = True, conn_delivery_enabled = True,
       conn_revision = None, conn_error = None\<rparr>),
     exec_delivery = (\<lambda>c r b s. return_op JNull), exec_message = (\<lambda>c m b s. return_op JNull),
     exec_disconnect = (\<lambda>c. return_op ()), exec_validate = (\<lambda>c. return_op ()),
     exec_inspect = (\<lambda>c xs s. return_op ()), exec_test = (\<lambda>c i s. return_op ()),
     exec_approvals = (\<lambda>c i b e. ([], e)),
     exec_prepare = (\<lambda>c i b rs s (n, gone). (Inr (), (n, [1..<n]))),
     exec_start = (\<lambda>c i recovery s (n, gone). if recovery then (Inl (failure_new NativeError ''Session is in use''), (n, gone))
       else (Inr n, (n + 1, gone))),
     exec_contexts = (\<lambda>c i. return_op []), exec_confirm_stopped = (\<lambda>c i s. return_op ()),
     exec_reset = (\<lambda>c i k s. return_op ()), exec_remove = (\<lambda>c i s. return_op ()),
     exec_archive = (\<lambda>c s. return_op ()), exec_update = (\<lambda>c i d s. return_op ()),
     rt_session_id = (\<lambda>r e. ''session''),
     rt_cancelled = (\<lambda>r (n, gone). r \<in> set gone),
     rt_deliberate = (\<lambda>r e. False), rt_listener_active = (\<lambda>r. return_op True),
     rt_native_state = (\<lambda>r. return_op idle_session),
     rt_attachment = (\<lambda>r c. fail_op (missing ''No terminal'')),
     rt_contexts = (\<lambda>r. return_op []), rt_close = (\<lambda>r. return_op ())\<rparr>"

definition race_controller :: "(shelf, race_env) fleet_controller" where
  "race_controller = \<lparr>con_registry = sample_registry, con_execution = race_execution,
     con_clock = (\<lambda>e. (Inr 1000, e)), con_fresh = (\<lambda>e. (''work'', e)),
     con_choice = (\<lambda>e. True), con_identity = \<lparr>ident_name = ''host'', ident_metadata = None\<rparr>\<rparr>"

definition race_shelf :: shelf where
  "race_shelf = \<lparr>shelf_registrations = [alpha], shelf_desired = [], shelf_selections = [], shelf_operations = []\<rparr>"

definition start_lead :: "string \<Rightarrow> call" where
  "start_lead k = OperateCall \<lparr>req_id = k, req_target = AgentTarget ''f1'' ''lead'', req_action = Start,
     req_expected_revision = 0, req_release_directory = None\<rparr> False"

definition opened_race :: "(shelf, race_env) daemon" where
  "opened_race = snd (open_controller race_controller (new_daemon race_shelf (1, [])))"

text \<open>
  The agent is started (tasks 1 and 2) and watched (3); a second start of it (4 and 5) gets as far as the
  preparation, which loses the runtime; the watch begins a recovery (6), whose loop (7) finds the second
  start under way, lets it end and then starts the agent once more.
\<close>

definition race_schedule :: "choice list" where
  "race_schedule = [SpawnJob, Arrive (start_lead ''o1'')] @ replicate 2 (RunTask 0) @ replicate 3 (RunTask 1) @
     SpawnJob # replicate 23 (RunTask 2) @ [SpawnJob, Arrive (start_lead ''o2'')] @ replicate 3 (RunTask 4) @
     SpawnJob # replicate 6 (RunTask 5) @ replicate 6 (RunTask 3) @ SpawnJob # replicate 4 (RunTask 6) @
     SpawnJob # replicate 17 (RunTask 5) @ replicate 9 (RunTask 7)"

definition lead_failed_running :: "race_env \<times> nat option \<times> instance_phase option \<Rightarrow> bool" where
  "lead_failed_running v = (case v of (e, Some r, Some p) \<Rightarrow> \<not> rt_cancelled race_execution r e \<and> p = InstFailed | _ \<Rightarrow> False)"

text \<open>The agent runs, on a runtime that is alive, and is recorded as failed.\<close>

theorem running_agent_recorded_failed:
  "\<exists>ts w r v. controller_reaches race_controller (ts, w) \<and>
     om_get (''f1'', ''lead'') (cs_running (d_state w)) = Some r \<and> \<not> rt_cancelled race_execution r (d_env w) \<and>
     om_get (''f1'', ''lead'') (cs_instances (d_state w)) = Some v \<and> ist_phase v = InstFailed"
proof -
  have "fst (open_controller race_controller (new_daemon race_shelf (1, []))) = Inr 1000" by code_simp
  then have opened: "open_controller race_controller (new_daemon race_shelf (1, [])) = (Inr 1000, opened_race)"
    by (simp add: opened_race_def prod_eq_iff)
  have "case follow_all race_controller race_schedule ([], opened_race) of None \<Rightarrow> False
    | Some (ts, w) \<Rightarrow> lead_failed_running (d_env w, om_get (''f1'', ''lead'') (cs_running (d_state w)),
        map_option ist_phase (om_get (''f1'', ''lead'') (cs_instances (d_state w))))" by code_simp
  then obtain ts w where run: "follow_all race_controller race_schedule ([], opened_race) = Some (ts, w)"
    and "lead_failed_running (d_env w, om_get (''f1'', ''lead'') (cs_running (d_state w)),
        map_option ist_phase (om_get (''f1'', ''lead'') (cs_instances (d_state w))))"
    by (auto split: option.splits)
  moreover have "controller_reaches race_controller (ts, w)"
    unfolding controller_reaches_def using opened follow_all_moves [OF run] by blast
  ultimately show ?thesis
    by (auto simp: lead_failed_running_def split: option.splits)
qed

end
