(* ===== verification/Private_Directory.thy ===== *)
theory Private_Directory
  imports Kernel_Failure Ordered_Map
begin

text \<open>
  The files of a private directory: \<open>adapter-filesystem/src/lib.rs\<close>. The state is the directory as the
  operating system shows it, the user of the process, a supply of fresh identifiers and what will become of
  the next system calls: each takes one entry of \<open>disk_faults\<close>, and one that is \<open>Some n\<close> makes it fail, a
  write after \<open>n\<close> bytes. When the list is used up, calls do what they are for. A process that is killed is
  one whose calls all fail from then on. Other processes leave the directory alone.
\<close>

section \<open>Files\<close>

datatype entry_kind = RegularFile | Directory | SymbolicLink | Socket

record dir_entry =
  entry_kind :: entry_kind
  entry_uid :: nat
  entry_mode :: nat
  entry_links :: nat
  entry_contents :: string

record disk =
  disk_entries :: "(string \<times> dir_entry) list"
  disk_uid :: nat
  disk_fresh :: "nat \<Rightarrow> string"
  disk_next :: nat
  disk_faults :: "nat option list"

type_synonym 'a disk_op = "(disk, failure, 'a) op"

definition denied :: failure where
  "denied = failure_new Forbidden
     ''Private state must use owned regular files and non-symlink directories''"

section \<open>System calls\<close>

datatype errno = NoEntry | OtherError

definition next_fault :: "disk \<Rightarrow> nat option \<times> disk" where
  "next_fault s = (case disk_faults s of [] \<Rightarrow> (None, s) | x # xs \<Rightarrow> (x, s\<lparr>disk_faults := xs\<rparr>))"

text \<open>A call that changes the entries or reports an error.\<close>

definition sys_call :: "((string \<times> dir_entry) list \<Rightarrow> errno + (string \<times> dir_entry) list \<times> 'a) \<Rightarrow> (disk, errno, 'a) op" where
  "sys_call f s = (case next_fault s of
       (Some n, t) \<Rightarrow> (Inl OtherError, t)
     | (None, t) \<Rightarrow> (case f (disk_entries t) of Inl e \<Rightarrow> (Inl e, t)
         | Inr (entries, v) \<Rightarrow> (Inr v, t\<lparr>disk_entries := entries\<rparr>)))"

definition sys_check :: "(disk, errno, unit) op" where
  "sys_check = sys_call (\<lambda>entries. Inr (entries, ()))"

text \<open>\<open>openat\<close> with \<open>O_NOFOLLOW\<close>: a link or a socket cannot be opened, a directory only to be read.\<close>

definition sys_open :: "string \<Rightarrow> bool \<Rightarrow> (disk, errno, dir_entry) op" where
  "sys_open name writable = sys_call (\<lambda>entries. case om_get name entries of
       None \<Rightarrow> Inl NoEntry
     | Some e \<Rightarrow> if entry_kind e = SymbolicLink \<or> entry_kind e = Socket \<or> entry_kind e = Directory \<and> writable
         then Inl OtherError else Inr (entries, e))"

text \<open>Mode \<open>0600\<close>; the bits of group and others are the last six.\<close>

definition new_file :: "nat \<Rightarrow> dir_entry" where
  "new_file uid = \<lparr>entry_kind = RegularFile, entry_uid = uid, entry_mode = 0x180, entry_links = 1,
     entry_contents = []\<rparr>"

text \<open>\<open>O_CREAT | O_EXCL\<close>\<close>

definition sys_create :: "string \<Rightarrow> (disk, errno, unit) op" where
  "sys_create name s = sys_call (\<lambda>entries. if om_has name entries then Inl OtherError
     else Inr (om_put name (new_file (disk_uid s)) entries, ())) s"

definition put_contents :: "string \<Rightarrow> string \<Rightarrow> (string \<times> dir_entry) list \<Rightarrow> (string \<times> dir_entry) list" where
  "put_contents name contents entries = (case om_get name entries of None \<Rightarrow> entries
     | Some e \<Rightarrow> om_put name (e\<lparr>entry_contents := contents\<rparr>) entries)"

text \<open>\<open>write_all\<close> on the file just created under a name.\<close>

definition sys_write :: "string \<Rightarrow> string \<Rightarrow> (disk, errno, unit) op" where
  "sys_write name contents s = (case next_fault s of
       (Some n, t) \<Rightarrow> (Inl OtherError, t\<lparr>disk_entries := put_contents name (take n contents) (disk_entries t)\<rparr>)
     | (None, t) \<Rightarrow> (Inr (), t\<lparr>disk_entries := put_contents name contents (disk_entries t)\<rparr>))"

definition is_directory :: "dir_entry option \<Rightarrow> bool" where
  "is_directory e \<longleftrightarrow> (case e of None \<Rightarrow> False | Some v \<Rightarrow> entry_kind v = Directory)"

definition sys_rename :: "string \<Rightarrow> string \<Rightarrow> (disk, errno, unit) op" where
  "sys_rename source target = sys_call (\<lambda>entries. case om_get source entries of
       None \<Rightarrow> Inl NoEntry
     | Some e \<Rightarrow> if is_directory (om_get target entries) then Inl OtherError
         else Inr (om_put target e (om_remove source entries), ()))"

definition sys_rename_new :: "string \<Rightarrow> string \<Rightarrow> (disk, errno, unit) op" where
  "sys_rename_new source target = sys_call (\<lambda>entries. case om_get source entries of
       None \<Rightarrow> Inl NoEntry
     | Some e \<Rightarrow> if om_has target entries then Inl OtherError
         else Inr (om_put target e (om_remove source entries), ()))"

definition sys_unlink :: "string \<Rightarrow> (disk, errno, unit) op" where
  "sys_unlink name = sys_call (\<lambda>entries. if \<not> om_has name entries then Inl NoEntry
     else if is_directory (om_get name entries) then Inl OtherError else Inr (om_remove name entries, ()))"

text \<open>\<open>map_err\<close> to the one failure there is.\<close>

definition or_denied :: "(disk, errno, 'a) op \<Rightarrow> 'a disk_op" where
  "or_denied m s = (case m s of (Inl e, t) \<Rightarrow> (Inl denied, t) | (Inr v, t) \<Rightarrow> (Inr v, t))"

definition or_absent :: "(disk, errno, 'a) op \<Rightarrow> 'a option disk_op" where
  "or_absent m s = (case m s of (Inl NoEntry, t) \<Rightarrow> (Inr None, t) | (Inl OtherError, t) \<Rightarrow> (Inl denied, t)
     | (Inr v, t) \<Rightarrow> (Inr (Some v), t))"

section \<open>The directory\<close>

definition private_entry :: "nat \<Rightarrow> dir_entry \<Rightarrow> bool" where
  "private_entry uid e \<longleftrightarrow> entry_kind e = RegularFile \<and> entry_uid e = uid \<and> entry_mode e mod 0x40 = 0 \<and>
     entry_links e = 1"

definition check_file :: "dir_entry \<Rightarrow> nat disk_op" where
  "check_file e = bind_op (or_denied sys_check) (\<lambda>_ s.
     (if \<not> private_entry (disk_uid s) e then Inl denied else Inr (length (entry_contents e)), s))"

definition sync_directory :: "unit disk_op" where
  "sync_directory = or_denied sys_check"

definition leaf :: "string \<Rightarrow> unit result" where
  "leaf name = (if name = [] \<or> name = ''.'' \<or> name = ''..'' \<or>
     CHR ''/'' \<in> set name \<or> CHR 0x5C \<in> set name \<or> CHR 0x00 \<in> set name then Inl denied else Inr ())"

definition read_optional :: "string \<Rightarrow> nat \<Rightarrow> string option disk_op" where
  "read_optional name maximum =
     bind_op (lift_op (leaf name)) (\<lambda>_.
     bind_op (or_absent (sys_open name False)) (\<lambda>found. case found of
       None \<Rightarrow> return_op None
     | Some e \<Rightarrow> bind_op (check_file e) (\<lambda>size_of.
         if maximum < size_of
         then fail_op (failure_new BodyTooLarge ''Private file exceeds its read limit'')
         else bind_op (or_denied sys_check) (\<lambda>_.
           let contents = take (maximum + 1) (entry_contents e) in
           if length contents \<noteq> size_of then fail_op denied else return_op (Some contents)))))"

text \<open>For evaluation: a text that is short enough is not copied.\<close>

lemma read_optional_code [code]:
  "read_optional name maximum =
     bind_op (lift_op (leaf name)) (\<lambda>_.
     bind_op (or_absent (sys_open name False)) (\<lambda>found. case found of
       None \<Rightarrow> return_op None
     | Some e \<Rightarrow> bind_op (check_file e) (\<lambda>size_of.
         if maximum < size_of
         then fail_op (failure_new BodyTooLarge ''Private file exceeds its read limit'')
         else bind_op (or_denied sys_check) (\<lambda>_.
           let contents = (let c = entry_contents e in if length c \<le> maximum + 1 then c else take (maximum + 1) c) in
           if length contents \<noteq> size_of then fail_op denied else return_op (Some contents)))))"
proof -
  have eq: "(let c = entry_contents e in if length c \<le> maximum + 1 then c else take (maximum + 1) c) =
      take (maximum + 1) (entry_contents e)" for e by (auto simp: Let_def simp del: Suc_eq_plus1 add_Suc_right)
  show ?thesis unfolding read_optional_def eq ..
qed

definition read_file :: "string \<Rightarrow> nat \<Rightarrow> string disk_op" where
  "read_file name maximum = bind_op (read_optional name maximum) (\<lambda>v. lift_op (ok_or v denied))"

definition private_file_size :: "string \<Rightarrow> nat option disk_op" where
  "private_file_size name =
     bind_op (lift_op (leaf name)) (\<lambda>_.
     bind_op (or_absent (sys_open name False)) (\<lambda>found. case found of
       None \<Rightarrow> return_op None
     | Some e \<Rightarrow> bind_op (check_file e) (\<lambda>_.
         bind_op (or_denied sys_check) (\<lambda>_. return_op (Some (length (entry_contents e)))))))"

definition open_private :: "string \<Rightarrow> bool \<Rightarrow> unit disk_op" where
  "open_private name create = bind_op (lift_op (leaf name)) (\<lambda>_.
     bind_op (or_denied (\<lambda>s. if create \<and> \<not> om_has name (disk_entries s)
         then bind_op (sys_create name) (\<lambda>_. return_op (new_file (disk_uid s))) s
         else sys_open name True s)) (\<lambda>e.
     bind_op (check_file e) (\<lambda>_. return_op ())))"

definition remove_entry :: "string \<Rightarrow> unit disk_op" where
  "remove_entry name =
     bind_op (lift_op (leaf name)) (\<lambda>_.
     bind_op (open_private name False) (\<lambda>_.
     bind_op (or_denied (sys_unlink name)) (\<lambda>_. sync_directory)))"

definition remove_optional :: "string \<Rightarrow> unit disk_op" where
  "remove_optional name =
     bind_op (lift_op (leaf name)) (\<lambda>_.
     bind_op (or_absent (sys_open name False)) (\<lambda>found. case found of
       None \<Rightarrow> return_op ()
     | Some e \<Rightarrow> bind_op (check_file e) (\<lambda>_.
         bind_op (or_denied (sys_unlink name)) (\<lambda>_. sync_directory))))"

definition publish_file :: "string \<Rightarrow> string \<Rightarrow> unit disk_op" where
  "publish_file source target =
     bind_op (lift_op (leaf source)) (\<lambda>_. bind_op (lift_op (leaf target)) (\<lambda>_.
     bind_op (open_private source False) (\<lambda>_.
     bind_op (\<lambda>s. case sys_rename_new source target s of
         (Inl e, t) \<Rightarrow> (Inl (failure_new Conflict ''A published private file cannot replace another owner''), t)
       | (Inr v, t) \<Rightarrow> (Inr v, t)) (\<lambda>_. sync_directory))))"

definition replace_file :: "string \<Rightarrow> string \<Rightarrow> unit disk_op" where
  "replace_file source target =
     bind_op (lift_op (leaf source)) (\<lambda>_. bind_op (lift_op (leaf target)) (\<lambda>_.
     bind_op (open_private source False) (\<lambda>_.
     bind_op (or_absent (sys_open target False)) (\<lambda>found.
     bind_op (case found of None \<Rightarrow> return_op 0 | Some e \<Rightarrow> check_file e) (\<lambda>_.
     bind_op (or_denied (sys_rename source target)) (\<lambda>_. sync_directory))))))"

text \<open>The listing: every read of the directory may fail; the names come out sorted.\<close>

fun list_names :: "nat \<Rightarrow> string list \<Rightarrow> string list \<Rightarrow> string list disk_op" where
  "list_names maximum [] found = return_op found"
| "list_names maximum (name # rest) found = bind_op (or_denied sys_check) (\<lambda>_.
     if maximum \<le> length found
     then fail_op (failure_new Limit ''Private directory inventory exceeds its bound'')
     else list_names maximum rest (found @ [name]))"

definition entry_names :: "nat \<Rightarrow> string list disk_op" where
  "entry_names maximum =
     bind_op (or_denied (sys_call (\<lambda>entries. Inr (entries, map fst entries)))) (\<lambda>listed.
     bind_op (list_names maximum listed []) (\<lambda>found. return_op (sort found)))"

definition temporary_name :: "string \<Rightarrow> string" where
  "temporary_name fresh = ''.pending-'' @ fresh"

definition fresh_identity :: "string disk_op" where
  "fresh_identity s = (Inr (disk_fresh s (disk_next s)), s\<lparr>disk_next := disk_next s + 1\<rparr>)"

text \<open>Written under another name, made durable, then moved into place; a failure removes what was written.\<close>

definition replace_by :: "string \<Rightarrow> string \<Rightarrow> string \<Rightarrow> unit disk_op" where
  "replace_by temporary name contents =
     bind_op (or_denied (sys_write temporary contents)) (\<lambda>_.
     bind_op (or_denied sys_check) (\<lambda>_.
     bind_op (or_denied (sys_rename temporary name)) (\<lambda>_. or_denied sys_check)))"

definition with_cleanup :: "string \<Rightarrow> unit disk_op \<Rightarrow> unit disk_op" where
  "with_cleanup name m s = (case m s of (Inr v, t) \<Rightarrow> (Inr v, t)
     | (Inl e, t) \<Rightarrow> (Inl e, snd (sys_unlink name t)))"

definition write_atomic :: "string \<Rightarrow> string \<Rightarrow> unit disk_op" where
  "write_atomic name contents =
     bind_op (lift_op (leaf name)) (\<lambda>_.
     bind_op fresh_identity (\<lambda>fresh.
     let temporary = temporary_name fresh in
     bind_op (or_denied (sys_create temporary)) (\<lambda>_.
     with_cleanup temporary (replace_by temporary name contents))))"

definition write_new :: "string \<Rightarrow> string \<Rightarrow> unit disk_op" where
  "write_new name contents =
     bind_op (lift_op (leaf name)) (\<lambda>_.
     bind_op (or_denied (sys_create name)) (\<lambda>_.
     with_cleanup name (
       bind_op (or_denied (sys_write name contents)) (\<lambda>_.
       bind_op (or_denied sys_check) (\<lambda>_. or_denied sys_check)))))"

section \<open>What is on the disk\<close>

definition entry_of :: "disk \<Rightarrow> string \<Rightarrow> dir_entry option" where
  "entry_of s name = om_get name (disk_entries s)"

text \<open>What holds across a system call: the user, the supply of names, and what it says of the entries.\<close>

definition same_disk :: "disk \<Rightarrow> disk \<Rightarrow> bool" where
  "same_disk s t \<longleftrightarrow> disk_uid t = disk_uid s \<and> disk_fresh t = disk_fresh s \<and> disk_next t = disk_next s"

lemma same_disk_refl [simp]: "same_disk s s"
  by (simp add: same_disk_def)

lemma same_disk_trans: "same_disk s t \<Longrightarrow> same_disk t u \<Longrightarrow> same_disk s u"
  by (simp add: same_disk_def)

lemma next_fault_same: "next_fault s = (x, t) \<Longrightarrow> same_disk s t \<and> disk_entries t = disk_entries s"
  by (auto simp: next_fault_def same_disk_def split: list.splits)

lemma sys_call_cases:
  assumes "sys_call f s = (r, t)"
  shows "same_disk s t \<and> (case r of Inl e \<Rightarrow> disk_entries t = disk_entries s
     | Inr v \<Rightarrow> f (disk_entries s) = Inr (disk_entries t, v))"
  using assms next_fault_same [of s "fst (next_fault s)" "snd (next_fault s)"]
  by (auto simp: sys_call_def same_disk_def split: prod.splits option.splits sum.splits)

lemma sys_write_cases:
  assumes "sys_write name contents s = (r, t)"
  shows "same_disk s t \<and> (\<exists>c. disk_entries t = put_contents name c (disk_entries s) \<and> (r = Inr () \<longrightarrow> c = contents))"
  using assms next_fault_same [of s "fst (next_fault s)" "snd (next_fault s)"]
  by (auto simp: sys_write_def same_disk_def split: prod.splits option.splits)

lemma or_denied_cases:
  assumes "or_denied m s = (r, t)"
  obtains q where "m s = (q, t)" "case q of Inl e \<Rightarrow> r = Inl denied | Inr v \<Rightarrow> r = Inr v"
  using assms by (cases "m s"; cases "fst (m s)") (auto simp: or_denied_def)

text \<open>
  The steps of \<open>write_atomic\<close>, with what each does to the file that is replaced: nothing, until the one
  step that gives it the new contents.
\<close>

definition replaces :: "string \<Rightarrow> string \<Rightarrow> string \<Rightarrow> disk \<Rightarrow> disk \<Rightarrow> bool" where
  "replaces temporary name contents s t \<longleftrightarrow>
     (entry_of t name = entry_of s name \<or> entry_of t name = Some ((new_file (disk_uid s))\<lparr>entry_contents := contents\<rparr>)) \<and>
     (\<forall>other. other \<noteq> name \<longrightarrow> other \<noteq> temporary \<longrightarrow> entry_of t other = entry_of s other)"

lemma put_contents_get [simp]:
  "om_get other (put_contents name c entries) =
     (if other = name then map_option (\<lambda>e. e\<lparr>entry_contents := c\<rparr>) (om_get name entries) else om_get other entries)"
  by (auto simp: put_contents_def split: option.splits)

lemma sync_cases: "or_denied sys_check s = (r, t) \<Longrightarrow> same_disk s t \<and> disk_entries t = disk_entries s"
  by (erule or_denied_cases) (auto simp: sys_check_def dest!: sys_call_cases split: sum.splits)

lemma write_cases:
  "or_denied (sys_write name contents) s = (r, t) \<Longrightarrow>
     same_disk s t \<and> (\<exists>c. disk_entries t = put_contents name c (disk_entries s) \<and> (r = Inr () \<longrightarrow> c = contents))"
  by (erule or_denied_cases) (auto dest!: sys_write_cases split: sum.splits)

lemma create_cases:
  "or_denied (sys_create name) s = (r, t) \<Longrightarrow> same_disk s t \<and>
     (if r = Inr () then om_get name (disk_entries s) = None \<and>
        disk_entries t = om_put name (new_file (disk_uid s)) (disk_entries s)
      else disk_entries t = disk_entries s)"
  by (erule or_denied_cases)
    (auto simp: sys_create_def om_has_def dest!: sys_call_cases split: sum.splits if_splits)

lemma rename_cases:
  "or_denied (sys_rename source target) s = (r, t) \<Longrightarrow> same_disk s t \<and>
     (if r = Inr () then \<exists>e. om_get source (disk_entries s) = Some e \<and>
        disk_entries t = om_put target e (om_remove source (disk_entries s))
      else disk_entries t = disk_entries s)"
  by (erule or_denied_cases)
    (auto simp: sys_rename_def dest!: sys_call_cases split: sum.splits if_splits option.splits)

lemma unlink_cases:
  "sys_unlink name s = (r, t) \<Longrightarrow> same_disk s t \<and>
     (disk_entries t = disk_entries s \<or> disk_entries t = om_remove name (disk_entries s))"
  by (auto simp: sys_unlink_def dest!: sys_call_cases split: sum.splits if_splits)

lemma replace_by_cases:
  assumes "replace_by temporary name contents s = (r, t)"
    and temp: "entry_of s temporary = Some (new_file (disk_uid s))" "temporary \<noteq> name"
  shows "same_disk s t \<and> replaces temporary name contents s t \<and>
    (r = Inr () \<longrightarrow> entry_of t name = Some ((new_file (disk_uid s))\<lparr>entry_contents := contents\<rparr>))"
proof -
  obtain q1 s1 where w: "or_denied (sys_write temporary contents) s = (q1, s1)" by fastforce
  from write_cases [OF w] obtain c where s1: "same_disk s s1"
    "disk_entries s1 = put_contents temporary c (disk_entries s)" "q1 = Inr () \<longrightarrow> c = contents" by blast
  then have one: "entry_of s1 k = entry_of s k" if "k \<noteq> temporary" for k
    using that by (simp add: entry_of_def)
  show ?thesis
  proof (cases q1)
    case (Inl e)
    with assms(1) w have "t = s1" "r = Inl e" by (simp_all add: replace_by_def)
    with s1 one temp(2) show ?thesis by (auto simp: replaces_def)
  next
    case (Inr u)
    obtain q2 s2 where y: "or_denied sys_check s1 = (q2, s2)" by fastforce
    from sync_cases [OF y] have s2: "same_disk s1 s2" "disk_entries s2 = disk_entries s1" by auto
    show ?thesis
    proof (cases q2)
      case (Inl e)
      with assms(1) w y Inr have "t = s2" "r = Inl e" by (simp_all add: replace_by_def)
      with s1 s2 one temp(2) show ?thesis by (auto simp: replaces_def entry_of_def dest: same_disk_trans)
    next
      case (Inr u2)
      obtain q3 s3 where m: "or_denied (sys_rename temporary name) s2 = (q3, s3)" by fastforce
      note s3 = rename_cases [OF m]
      have held: "om_get temporary (disk_entries s2) = Some ((new_file (disk_uid s))\<lparr>entry_contents := contents\<rparr>)"
        using temp s1 s2(2) \<open>q1 = Inr u\<close> by (simp add: entry_of_def)
      show ?thesis
      proof (cases q3)
        case (Inl e)
        with assms(1) w y m Inr \<open>q1 = Inr u\<close> have "t = s3" "r = Inl e" by (simp_all add: replace_by_def)
        with Inl s1 s2 s3 one temp(2) show ?thesis
          by (auto simp: replaces_def entry_of_def dest: same_disk_trans)
      next
        case (Inr u3)
        with s3 held have placed: "same_disk s2 s3" "disk_entries s3 =
            om_put name ((new_file (disk_uid s))\<lparr>entry_contents := contents\<rparr>) (om_remove temporary (disk_entries s2))"
          by auto
        have last_step: "or_denied sys_check s3 = (r, t)"
          using assms(1) w y m Inr \<open>q2 = Inr u2\<close> \<open>q1 = Inr u\<close> by (simp add: replace_by_def)
        from sync_cases [OF last_step] placed s1 s2 one show ?thesis
          by (auto simp: replaces_def entry_of_def dest: same_disk_trans)
      qed
    qed
  qed
qed

lemma write_atomic_cases:
  assumes "write_atomic name contents s = (r, t)"
    and other: "name \<noteq> temporary_name (disk_fresh s (disk_next s))"
  shows "replaces (temporary_name (disk_fresh s (disk_next s))) name contents s t \<and> disk_uid t = disk_uid s \<and>
    disk_fresh t = disk_fresh s \<and> (r = Inr () \<longrightarrow> leaf name = Inr () \<and>
      entry_of t name = Some ((new_file (disk_uid s))\<lparr>entry_contents := contents\<rparr>))"
proof (cases "leaf name")
  case (Inl e)
  with assms(1) show ?thesis by (auto simp: write_atomic_def bind_op_def replaces_def)
next
  case (Inr u)
  define temporary where "temporary = temporary_name (disk_fresh s (disk_next s))"
  define s0 where "s0 = s\<lparr>disk_next := disk_next s + 1\<rparr>"
  obtain q1 s1 where c: "or_denied (sys_create temporary) s0 = (q1, s1)" by fastforce
  have run: "(case q1 of Inl e \<Rightarrow> (Inl e, s1) | Inr _ \<Rightarrow>
      with_cleanup temporary (replace_by temporary name contents) s1) = (r, t)"
    using assms(1) Inr c by (auto simp: write_atomic_def fresh_identity_def bind_op_def Let_def temporary_def s0_def
        split: sum.splits)
  have s0: "entry_of s0 = entry_of s" "disk_uid s0 = disk_uid s" "disk_fresh s0 = disk_fresh s"
    by (auto simp: s0_def entry_of_def)
  show ?thesis
  proof (cases q1)
    case (Inl e)
    with run create_cases [OF c] s0 show ?thesis
      by (auto simp: replaces_def entry_of_def same_disk_def s0_def)
  next
    case created: (Inr u1)
    from create_cases [OF c] created s0 have s1: "same_disk s0 s1"
      "entry_of s1 temporary = Some (new_file (disk_uid s))" "\<And>k. k \<noteq> temporary \<Longrightarrow> entry_of s1 k = entry_of s k"
      by (auto simp: entry_of_def s0_def)
    obtain q2 s2 where m: "replace_by temporary name contents s1 = (q2, s2)" by fastforce
    have "disk_uid s1 = disk_uid s" using s1(1) s0 by (simp add: same_disk_def)
    with replace_by_cases [OF m] s1(2) other have s2: "same_disk s1 s2" "replaces temporary name contents s1 s2"
      "q2 = Inr () \<longrightarrow> entry_of s2 name = Some ((new_file (disk_uid s))\<lparr>entry_contents := contents\<rparr>)"
      by (auto simp: temporary_def)
    show ?thesis
    proof (cases q2)
      case (Inl e)
      then have t: "t = snd (sys_unlink temporary s2)" "r = Inl e"
        using run created m by (simp_all add: with_cleanup_def)
      from unlink_cases [of temporary s2 "fst (sys_unlink temporary s2)" t] t(1)
      have "same_disk s2 t" "disk_entries t = disk_entries s2 \<or> disk_entries t = om_remove temporary (disk_entries s2)"
        by auto
      then have "\<And>k. k \<noteq> temporary \<Longrightarrow> entry_of t k = entry_of s2 k" by (auto simp: entry_of_def)
      with \<open>same_disk s2 t\<close> s2 s1 s0 t other \<open>disk_uid s1 = disk_uid s\<close> show ?thesis
        unfolding temporary_def [symmetric] by (auto simp: replaces_def same_disk_def)
    next
      case (Inr u2)
      then have "t = s2" "r = Inr u2" using run created m by (simp_all add: with_cleanup_def)
      with Inr s2 s1 s0 other \<open>disk_uid s1 = disk_uid s\<close> \<open>leaf name = Inr u\<close> show ?thesis
        unfolding temporary_def [symmetric] by (auto simp: replaces_def same_disk_def)
    qed
  qed
qed

lemma open_cases:
  assumes "or_absent (sys_open name w) s = (Inr v, t)"
  shows "same_disk s t \<and> disk_entries t = disk_entries s \<and> v = entry_of s name"
proof -
  obtain q where q: "sys_open name w s = (q, t)" "case q of Inl e \<Rightarrow> e = NoEntry \<and> v = None | Inr e \<Rightarrow> v = Some e"
    using assms by (auto simp: or_absent_def split: prod.splits sum.splits errno.splits)
  from q(1) have c: "same_disk s t" and d: "case q of Inl e \<Rightarrow> disk_entries t = disk_entries s
      | Inr v \<Rightarrow> (case om_get name (disk_entries s) of None \<Rightarrow> Inl NoEntry
         | Some e \<Rightarrow> if entry_kind e = SymbolicLink \<or> entry_kind e = Socket \<or> entry_kind e = Directory \<and> w
           then Inl OtherError else Inr (disk_entries s, e)) = Inr (disk_entries t, v)"
    using sys_call_cases [of _ s q t] unfolding sys_open_def by auto
  have "q = Inl NoEntry \<Longrightarrow> entry_of s name = None"
    using q(1) next_fault_same [of s "fst (next_fault s)" "snd (next_fault s)"]
    by (auto simp: sys_open_def sys_call_def entry_of_def split: prod.splits option.splits if_splits)
  with c d q(2) show ?thesis
    by (auto simp: entry_of_def split: sum.splits option.splits if_splits)
qed

lemma check_file_Inr:
  assumes "check_file e s = (Inr n, t)"
  shows "same_disk s t \<and> disk_entries t = disk_entries s \<and> n = length (entry_contents e) \<and>
    private_entry (disk_uid s) e"
  using assms sync_cases [of s "fst (or_denied sys_check s)" "snd (or_denied sys_check s)"]
  by (auto simp: check_file_def bind_op_def same_disk_def split: prod.splits sum.splits if_splits)

lemma read_optional_Inr:
  assumes "read_optional name maximum s = (Inr v, t)"
  shows "same_disk s t \<and> disk_entries t = disk_entries s \<and> leaf name = Inr () \<and>
    v = map_option entry_contents (entry_of s name) \<and> (\<forall>c. v = Some c \<longrightarrow> length c \<le> maximum)"
proof -
  from assms obtain found s1 where o: "leaf name = Inr ()" "or_absent (sys_open name False) s = (Inr found, s1)"
    and rest: "(case found of None \<Rightarrow> return_op None
     | Some e \<Rightarrow> bind_op (check_file e) (\<lambda>size_of.
         if maximum < size_of
         then fail_op (failure_new BodyTooLarge ''Private file exceeds its read limit'')
         else bind_op (or_denied sys_check) (\<lambda>_.
           let contents = take (maximum + 1) (entry_contents e) in
           if length contents \<noteq> size_of then fail_op denied else return_op (Some contents)))) s1 = (Inr v, t)"
    unfolding read_optional_def by (auto simp: op_iff)
  note s1 = open_cases [OF o(2)]
  show ?thesis
  proof (cases found)
    case None
    with rest s1 o show ?thesis by (auto simp: entry_of_def)
  next
    case (Some e)
    with rest obtain n s2 s3 where c: "check_file e s1 = (Inr n, s2)" and n: "\<not> maximum < n"
      and y: "or_denied sys_check s2 = (Inr (), s3)"
      and f: "v = Some (take (maximum + 1) (entry_contents e))" "length (take (maximum + 1) (entry_contents e)) = n" "t = s3"
      by (auto simp: op_iff Let_def split: if_splits)
    have "entry_of s name = Some e" using s1 Some by simp
    with check_file_Inr [OF c] sync_cases [OF y] s1 o(1) n f show ?thesis
      by (auto dest: same_disk_trans)
  qed
qed

end
