(* ===== verification/Fleetd_Contracts.thy ===== *)
theory Fleetd_Contracts
  imports Fleetd_Model Contract_Values
begin

text \<open>
  How the fleet controller writes its registrations, desired intents and resume selections as JSON and
  reads them back: fleetd \<open>contracts/src/registry.rs\<close>.
  \<open>registrations\<close> and \<open>registrations_wire\<close> are inverse on what the checks admit; so are the others, up
  to the order a set is kept in.
\<close>

section \<open>Paths\<close>

definition absolute_path :: "string \<Rightarrow> bool" where
  "absolute_path v \<longleftrightarrow> (case v of [] \<Rightarrow> False | c # _ \<Rightarrow> c = CHR ''/'') \<and> CHR 0x5C \<notin> set v \<and>
     list_all (\<lambda>part. part \<noteq> [] \<and> part \<noteq> ''.'' \<and> part \<noteq> ''..'') (drop 1 (split_on (CHR ''/'') v))"

section \<open>Registrations\<close>

definition digest_ok :: "string \<Rightarrow> bool" where
  "digest_ok v \<longleftrightarrow> list_all lower_hex v"

definition registration_of :: "json \<Rightarrow> registration result" where
  "registration_of v =
     rbind (check_object v [''fleetId'', ''fleetKey'', ''directory'', ''label'', ''revision'', ''digest''] [])
       (\<lambda>m.
     rbind (check_identifier (json_at ''fleetId'' m)) (\<lambda>fleet.
     rbind (check_name (json_at ''fleetKey'' m)) (\<lambda>key.
     rbind (check_text (json_at ''directory'' m) 1 4096) (\<lambda>directory.
     rbind (check_text (json_at ''label'' m) 1 100) (\<lambda>label.
     rbind (check_integer (json_at ''revision'' m) 0 safe_integer) (\<lambda>revision.
     rbind (check_text (json_at ''digest'' m) 64 64) (\<lambda>digest.
     if \<not> absolute_path directory \<or> \<not> digest_ok digest
     then Inl (failure_new Invalid ''Invalid fleet registration path or digest'')
     else Inr \<lparr>reg_fleet_id = fleet, reg_fleet_key = key, reg_directory = directory,
       reg_label = label, reg_revision = revision, reg_digest = digest\<rparr>)))))))"

definition registrations_of :: "json \<Rightarrow> registration list result" where
  "registrations_of v =
     rbind (check_list v 0 100) (\<lambda>vs.
     rbind (collect_results (map registration_of vs)) (\<lambda>rs.
     if \<not> distinct (map reg_fleet_id rs) \<or> \<not> distinct (map reg_directory rs)
     then Inl (failure_new Invalid ''Duplicate private fleet registration'')
     else if \<not> distinct (map reg_fleet_key rs)
     then Inl (failure_new Invalid ''Duplicate private fleet key'')
     else Inr rs))"

definition registration_wire :: "registration \<Rightarrow> json" where
  "registration_wire r = JObject (json_object [(''fleetId'', JString (reg_fleet_id r)),
     (''fleetKey'', JString (reg_fleet_key r)), (''directory'', JString (reg_directory r)),
     (''label'', JString (reg_label r)), (''revision'', JInt (reg_revision r)),
     (''digest'', JString (reg_digest r))])"

definition registrations_wire :: "registration list \<Rightarrow> json" where
  "registrations_wire rs = JArray (map registration_wire rs)"

section \<open>Desired intents\<close>

definition desired_key :: "desired_intent \<Rightarrow> string \<times> string" where
  "desired_key v = (des_fleet_id v, des_instance_key v)"

definition desired_intent_of :: "json \<Rightarrow> desired_intent result" where
  "desired_intent_of v =
     rbind (check_object v [''fleetId'', ''instanceKey''] []) (\<lambda>m.
     rbind (check_identifier (json_at ''fleetId'' m)) (\<lambda>fleet.
     rbind (check_name (json_at ''instanceKey'' m)) (\<lambda>key.
     Inr \<lparr>des_fleet_id = fleet, des_instance_key = key\<rparr>)))"

definition desired_counts_ok :: "desired_intent list \<Rightarrow> bool" where
  "desired_counts_ok vs \<longleftrightarrow> length (remdups (map des_fleet_id vs)) \<le> 100 \<and>
     list_all (\<lambda>f. count_list (map des_fleet_id vs) f \<le> 100) (map des_fleet_id vs)"

definition desired_of :: "json \<Rightarrow> desired_intent list result" where
  "desired_of v =
     rbind (check_list v 0 10000) (\<lambda>vs.
     rbind (collect_results (map desired_intent_of vs)) (\<lambda>unsorted.
     let ds = sort_key desired_key unsorted in
     if \<not> distinct ds then Inl (failure_new Invalid ''Duplicate desired binding'')
     else if \<not> desired_counts_ok ds then Inl (failure_new Invalid
       ''Controller supports at most 100 desired fleets with 100 bindings each'')
     else Inr ds))"

definition desired_intent_wire :: "desired_intent \<Rightarrow> json" where
  "desired_intent_wire d = JObject (json_object [(''fleetId'', JString (des_fleet_id d)),
     (''instanceKey'', JString (des_instance_key d))])"

definition desired_wire :: "desired_intent list \<Rightarrow> json" where
  "desired_wire ds = JArray (map desired_intent_wire ds)"

section \<open>Resume selections\<close>

definition resume_selection_of :: "json \<Rightarrow> resume_selection result" where
  "resume_selection_of v =
     rbind (check_object v [''fleetId'', ''instanceKeys''] []) (\<lambda>m.
     rbind (check_list (json_at ''instanceKeys'' m) 0 100) (\<lambda>vs.
     rbind (collect_results (map check_name vs)) (\<lambda>unsorted.
     let keys = sort unsorted in
     if \<not> distinct keys then Inl (failure_new Invalid ''Duplicate saved resume selection'')
     else rbind (check_identifier (json_at ''fleetId'' m)) (\<lambda>fleet.
     Inr \<lparr>sel_fleet_id = fleet, sel_instance_keys = keys\<rparr>))))"

definition selections_of :: "json \<Rightarrow> resume_selection list result" where
  "selections_of v =
     rbind (check_list v 0 100) (\<lambda>vs.
     rbind (collect_results (map resume_selection_of vs)) (\<lambda>unsorted.
     let ss = sort_key sel_fleet_id unsorted in
     if \<not> distinct (map sel_fleet_id ss)
     then Inl (failure_new Invalid ''Duplicate saved resume selection'')
     else Inr ss))"

definition resume_selection_wire :: "resume_selection \<Rightarrow> json" where
  "resume_selection_wire v = JObject (json_object [(''fleetId'', JString (sel_fleet_id v)),
     (''instanceKeys'', JArray (map JString (sel_instance_keys v)))])"

definition selections_wire :: "resume_selection list \<Rightarrow> json" where
  "selections_wire vs = JArray (map resume_selection_wire vs)"

section \<open>What can be stored\<close>

definition registration_ok :: "registration \<Rightarrow> bool" where
  "registration_ok r \<longleftrightarrow> identifier_ok (reg_fleet_id r) \<and> name_ok (reg_fleet_key r) \<and>
     text_ok 1 4096 (reg_directory r) \<and> absolute_path (reg_directory r) \<and> text_ok 1 100 (reg_label r) \<and>
     integer_ok 0 safe_integer (reg_revision r) \<and> text_ok 64 64 (reg_digest r) \<and> digest_ok (reg_digest r)"

definition registrations_ok :: "registration list \<Rightarrow> bool" where
  "registrations_ok rs \<longleftrightarrow> length rs \<le> 100 \<and> list_all registration_ok rs \<and>
     distinct (map reg_fleet_id rs) \<and> distinct (map reg_directory rs) \<and> distinct (map reg_fleet_key rs)"

definition desired_ok :: "desired_intent list \<Rightarrow> bool" where
  "desired_ok ds \<longleftrightarrow> length ds \<le> 10000 \<and>
     list_all (\<lambda>d. identifier_ok (des_fleet_id d) \<and> name_ok (des_instance_key d)) ds \<and>
     distinct ds \<and> desired_counts_ok (sort_key desired_key ds)"

definition resume_selection_ok :: "resume_selection \<Rightarrow> bool" where
  "resume_selection_ok v \<longleftrightarrow> identifier_ok (sel_fleet_id v) \<and> length (sel_instance_keys v) \<le> 100 \<and>
     list_all name_ok (sel_instance_keys v) \<and> distinct (sel_instance_keys v)"

definition selections_ok :: "resume_selection list \<Rightarrow> bool" where
  "selections_ok vs \<longleftrightarrow> length vs \<le> 100 \<and> list_all resume_selection_ok vs \<and> distinct (map sel_fleet_id vs)"

lemma collect_map_Inr:
  "(\<And>x. x \<in> set xs \<Longrightarrow> f x = (if p x then Inr (g x) else f x)) \<Longrightarrow>
   (\<And>x w. x \<in> set xs \<Longrightarrow> f x = Inr w \<Longrightarrow> p x) \<Longrightarrow>
   collect_results (map f xs) = Inr ys \<longleftrightarrow> list_all p xs \<and> ys = map g xs"
proof (induction xs arbitrary: ys)
  case (Cons x xs)
  show ?case
  proof (cases "p x")
    case True
    then have "f x = Inr (g x)" using Cons.prems(1) [of x] by simp
    with True Cons.IH Cons.prems show ?thesis by (auto simp: op_iff)
  next
    case False
    then obtain e where "f x = Inl e" using Cons.prems(2) [of x] by (cases "f x") auto
    with False show ?thesis by (simp add: op_iff)
  qed
qed auto

lemma registration_roundtrip:
  "registration_of (registration_wire r) = Inr w \<longleftrightarrow> registration_ok r \<and> w = r"
  by (cases r) (auto simp: registration_of_def registration_wire_def check_simps op_iff check_iff
      registration_ok_def integer_ok_def safe_integer_def checked_i64_def i64_ok_def)

lemma registrations_roundtrip:
  "registrations_of (registrations_wire rs) = Inr ws \<longleftrightarrow> registrations_ok rs \<and> ws = rs"
proof -
  have "collect_results (map (\<lambda>r. registration_of (registration_wire r)) rs) = Inr us \<longleftrightarrow>
      list_all registration_ok rs \<and> us = rs" for us
    by (subst collect_map_Inr [where p = registration_ok and g = "\<lambda>r. r"])
      (auto simp: registration_roundtrip)
  then show ?thesis
    by (auto simp: registrations_of_def registrations_wire_def op_iff check_iff comp_def
        registrations_ok_def)
qed

lemma desired_intent_roundtrip:
  "desired_intent_of (desired_intent_wire d) = Inr w \<longleftrightarrow>
     (identifier_ok (des_fleet_id d) \<and> name_ok (des_instance_key d)) \<and> w = d"
  by (cases d) (auto simp: desired_intent_of_def desired_intent_wire_def check_simps op_iff check_iff)

lemma desired_roundtrip:
  "desired_of (desired_wire ds) = Inr ws \<longleftrightarrow> desired_ok ds \<and> ws = sort_key desired_key ds"
proof -
  have "collect_results (map (\<lambda>r. desired_intent_of (desired_intent_wire r)) ds) = Inr us \<longleftrightarrow>
      list_all (\<lambda>d. identifier_ok (des_fleet_id d) \<and> name_ok (des_instance_key d)) ds \<and> us = ds" for us
    by (subst collect_map_Inr [where p = "\<lambda>d. identifier_ok (des_fleet_id d) \<and> name_ok (des_instance_key d)"
          and g = "\<lambda>r. r"]) (auto simp: desired_intent_roundtrip)
  then show ?thesis
    by (auto simp: desired_of_def desired_wire_def op_iff check_iff comp_def desired_ok_def Let_def)
qed

lemma resume_selection_roundtrip:
  "resume_selection_of (resume_selection_wire v) = Inr w \<longleftrightarrow>
     resume_selection_ok v \<and> w = v\<lparr>sel_instance_keys := sort (sel_instance_keys v)\<rparr>"
proof -
  have "collect_results (map (\<lambda>k. check_name (JString k)) ks) = Inr us \<longleftrightarrow> list_all name_ok ks \<and> us = ks"
    for ks us
    by (subst collect_map_Inr [where p = name_ok and g = "\<lambda>k. k"]) (auto simp: check_iff)
  then show ?thesis
    by (cases v) (auto simp: resume_selection_of_def resume_selection_wire_def check_simps op_iff check_iff
        comp_def resume_selection_ok_def Let_def)
qed

lemma distinct_sort_key: "distinct (map f (sort_key g xs)) \<longleftrightarrow> distinct (map f xs)"
  by (simp add: distinct_map)

lemma selections_roundtrip:
  "selections_of (selections_wire vs) = Inr ws \<longleftrightarrow> selections_ok vs \<and>
     ws = sort_key sel_fleet_id (map (\<lambda>v. v\<lparr>sel_instance_keys := sort (sel_instance_keys v)\<rparr>) vs)"
proof -
  have "collect_results (map (\<lambda>r. resume_selection_of (resume_selection_wire r)) vs) = Inr us \<longleftrightarrow>
      list_all resume_selection_ok vs \<and> us = map (\<lambda>v. v\<lparr>sel_instance_keys := sort (sel_instance_keys v)\<rparr>) vs"
    for us
    by (subst collect_map_Inr [where p = resume_selection_ok
          and g = "\<lambda>v. v\<lparr>sel_instance_keys := sort (sel_instance_keys v)\<rparr>"])
      (auto simp: resume_selection_roundtrip)
  then show ?thesis
    by (auto simp: selections_of_def selections_wire_def op_iff check_iff comp_def selections_ok_def Let_def
        distinct_sort_key)
qed

end
