(* ===== verification/Operation_Contract.thy ===== *)
theory Operation_Contract
  imports Fleetd_Contracts
begin

text \<open>
  How a lifecycle operation is written as JSON and read back: fleetd \<open>contracts/src/operation.rs\<close>.
  The same reader checks a request from outside, which must not carry the fields of a stored operation.
\<close>

section \<open>Requests\<close>

definition invalid_operation :: failure where
  "invalid_operation = failure_new Invalid
     ''Invalid lifecycle operation identity, target or release directory''"

text \<open>\<open>.map(check).transpose()\<close> of an optional field.\<close>

definition optional_field :: "string \<Rightarrow> json_map \<Rightarrow> (json \<Rightarrow> 'a result) \<Rightarrow> 'a option result" where
  "optional_field k m check =
     (case json_get k m of None \<Rightarrow> Inr None | Some v \<Rightarrow> rbind (check v) (\<lambda>x. Inr (Some x)))"

definition action_of_code :: "string \<Rightarrow> action" where
  "action_of_code c = (if c = ''enroll'' then Enroll else if c = ''start'' then Start
     else if c = ''stop'' then Stop else if c = ''reset'' then Reset else Update)"

definition target_of :: "string \<Rightarrow> string option \<Rightarrow> string option \<Rightarrow> action \<Rightarrow> target result" where
  "target_of kind fleet instance_key act =
     (case (fleet, instance_key) of
        (None, None) \<Rightarrow> if kind = ''daemon'' \<and> act = Stop then Inr DaemonTarget else Inl invalid_operation
      | (Some f, None) \<Rightarrow> if kind = ''fleet'' then Inr (FleetTarget f) else Inl invalid_operation
      | (Some f, Some i) \<Rightarrow> if kind = ''agent'' then Inr (AgentTarget f i) else Inl invalid_operation
      | (None, Some i) \<Rightarrow> Inl invalid_operation)"

definition release_directory_of :: "json \<Rightarrow> string result" where
  "release_directory_of v =
     rbind (check_text v 1 4096) (\<lambda>path.
     if absolute_path path then Inr path else Inl invalid_operation)"

definition stored_fields :: "string list" where
  "stored_fields = [''releaseDirectory'', ''receiptPending'', ''status'', ''createdAt'', ''completedAt'',
     ''approval'', ''errors'']"

definition request_of :: "json \<Rightarrow> bool \<Rightarrow> operation_request result" where
  "request_of v stored =
     rbind (check_object v [''operationId'', ''target'', ''action'', ''expectedRevision'']
       (if stored then stored_fields else [''releaseDirectory''])) (\<lambda>m.
     rbind (check_object (json_at ''target'' m) [''kind''] [''fleetId'', ''instanceKey'']) (\<lambda>t.
     rbind (check_choice (json_at ''kind'' t) [''fleet'', ''agent'', ''daemon'']) (\<lambda>kind.
     rbind (optional_field ''fleetId'' t check_identifier) (\<lambda>fleet.
     rbind (optional_field ''instanceKey'' t check_name) (\<lambda>instance_key.
     rbind (check_choice (json_at ''action'' m) [''enroll'', ''start'', ''stop'', ''reset'', ''update''])
       (\<lambda>code.
     rbind (target_of kind fleet instance_key (action_of_code code)) (\<lambda>target.
     rbind (optional_field ''releaseDirectory'' m release_directory_of) (\<lambda>directory.
     if (action_of_code code = Update) \<noteq> (directory \<noteq> None) then Inl invalid_operation else
     rbind (check_identifier (json_at ''operationId'' m)) (\<lambda>oid.
     rbind (check_integer (json_at ''expectedRevision'' m) 0 safe_integer) (\<lambda>revision.
     Inr \<lparr>req_id = oid, req_target = target, req_action = action_of_code code,
       req_expected_revision = revision, req_release_directory = directory\<rparr>))))))))))"

fun target_wire :: "target \<Rightarrow> json" where
  "target_wire DaemonTarget = JObject (json_object [(''kind'', JString ''daemon'')])"
| "target_wire (FleetTarget fleet) =
     JObject (json_object [(''kind'', JString ''fleet''), (''fleetId'', JString fleet)])"
| "target_wire (AgentTarget fleet instance_key) = JObject (json_object [(''kind'', JString ''agent''),
     (''fleetId'', JString fleet), (''instanceKey'', JString instance_key)])"

definition request_fields :: "operation_request \<Rightarrow> json_map" where
  "request_fields v = json_object ([(''operationId'', JString (req_id v)),
     (''target'', target_wire (req_target v)), (''action'', JString (action_code (req_action v))),
     (''expectedRevision'', JInt (req_expected_revision v))] @
     (case req_release_directory v of None \<Rightarrow> []
      | Some d \<Rightarrow> [(''releaseDirectory'', JString d)]))"

definition request_wire :: "operation_request \<Rightarrow> json" where
  "request_wire v = JObject (request_fields v)"

section \<open>Operations\<close>

definition error_wire :: "operation_error \<Rightarrow> json" where
  "error_wire e = JObject (json_object
     [(''instanceKey'', (case oerr_instance e of None \<Rightarrow> JNull | Some k \<Rightarrow> JString k)),
      (''code'', JString (oerr_code e)), (''message'', JString (oerr_message e))])"

definition approval_wire :: "approval_link option \<Rightarrow> json" where
  "approval_wire v = (case v of None \<Rightarrow> JNull
     | Some a \<Rightarrow> JObject (json_object [(''url'', JString (link_url a)), (''code'', JString (link_code a))]))"

text \<open>The fields \<open>value\<close> adds to those of the request, each by an assignment to the JSON value.\<close>

definition outcome_fields :: "operation \<Rightarrow> json_map" where
  "outcome_fields v =
     [(''status'', JString (operation_status_code (op_status v))), (''createdAt'', JInt (op_created_at v)),
      (''completedAt'', (case op_completed_at v of None \<Rightarrow> JNull | Some at \<Rightarrow> JInt at)),
      (''approval'', approval_wire (op_approval v)), (''errors'', JArray (map error_wire (op_errors v)))] @
     (if op_receipt_pending v then [(''receiptPending'', JBool True)] else [])"

definition operation_wire :: "operation \<Rightarrow> json" where
  "operation_wire v =
     JObject (foldl (\<lambda>m (k, w). json_put k w m) (request_fields (op_request v)) (outcome_fields v))"

definition operation_status_of_code :: "string \<Rightarrow> operation_status" where
  "operation_status_of_code c = (if c = ''accepted'' then OpAccepted else if c = ''running'' then OpRunning
     else if c = ''awaiting-approval'' then OpAwaitingApproval else if c = ''succeeded'' then OpSucceeded
     else OpFailed)"

definition stored_field :: "json_map \<Rightarrow> string \<Rightarrow> json result" where
  "stored_field m k = ok_or (json_get k m) (failure_new Invalid ''Incomplete retained lifecycle operation'')"

definition approval_of :: "json \<Rightarrow> approval_link option result" where
  "approval_of v =
     (if v = JNull then Inr None else
      rbind (check_object v [''url'', ''code''] []) (\<lambda>link.
      rbind (check_text (json_at ''url'' link) 1 2048) (\<lambda>url.
      rbind (check_text (json_at ''code'' link) 12 12) (\<lambda>code.
      Inr (Some \<lparr>link_url = url, link_code = code\<rparr>)))))"

definition completed_at_of :: "json \<Rightarrow> int option result" where
  "completed_at_of v = (if v = JNull then Inr None
     else rbind (check_integer v 0 safe_integer) (\<lambda>at. Inr (Some at)))"

definition operation_error_of :: "json \<Rightarrow> operation_error result" where
  "operation_error_of v =
     rbind (check_object v [''instanceKey'', ''code'', ''message''] []) (\<lambda>m.
     rbind (if json_at ''instanceKey'' m = JNull then Inr None
       else rbind (check_name (json_at ''instanceKey'' m)) (\<lambda>k. Inr (Some k))) (\<lambda>instance_key.
     rbind (check_text (json_at ''code'' m) 1 100) (\<lambda>code.
     rbind (check_text (json_at ''message'' m) 1 4096) (\<lambda>message.
     Inr \<lparr>oerr_instance = instance_key, oerr_code = code, oerr_message = message\<rparr>))))"

definition receipt_pending_of :: "json option \<Rightarrow> bool result" where
  "receipt_pending_of v = (if v = Some (JBool True) then Inr True else if v = None then Inr False
     else Inl (failure_new Invalid ''Only unacknowledged controller requests are pinned''))"

definition operation_of :: "json \<Rightarrow> operation result" where
  "operation_of v =
     rbind (request_of v True) (\<lambda>request.
     rbind (ok_or (json_map v) (failure_new Invalid ''Invalid retained operation'')) (\<lambda>m.
     rbind (stored_field m ''status'') (\<lambda>st.
     rbind (check_choice st [''accepted'', ''running'', ''awaiting-approval'', ''succeeded'', ''failed''])
       (\<lambda>status.
     rbind (stored_field m ''createdAt'') (\<lambda>created.
     rbind (check_integer created 0 safe_integer) (\<lambda>created_at.
     rbind (stored_field m ''completedAt'') (\<lambda>completed.
     rbind (completed_at_of completed) (\<lambda>completed_at.
     rbind (stored_field m ''approval'') (\<lambda>link.
     rbind (approval_of link) (\<lambda>approval.
     rbind (stored_field m ''errors'') (\<lambda>es.
     rbind (check_list es 0 100) (\<lambda>vs.
     rbind (collect_results (map operation_error_of vs)) (\<lambda>errors.
     rbind (receipt_pending_of (json_get ''receiptPending'' m)) (\<lambda>pending.
     Inr \<lparr>op_request = request, op_status = operation_status_of_code status,
       op_created_at = created_at, op_completed_at = completed_at, op_approval = approval,
       op_errors = errors, op_receipt_pending = pending\<rparr>))))))))))))))"

section \<open>What can be stored\<close>

definition target_ok :: "target \<Rightarrow> action \<Rightarrow> bool" where
  "target_ok t act \<longleftrightarrow> (case t of DaemonTarget \<Rightarrow> act = Stop | FleetTarget f \<Rightarrow> identifier_ok f
     | AgentTarget f i \<Rightarrow> identifier_ok f \<and> name_ok i)"

definition request_ok :: "operation_request \<Rightarrow> bool" where
  "request_ok v \<longleftrightarrow> identifier_ok (req_id v) \<and> target_ok (req_target v) (req_action v) \<and>
     integer_ok 0 safe_integer (req_expected_revision v) \<and>
     (case req_release_directory v of None \<Rightarrow> req_action v \<noteq> Update
      | Some d \<Rightarrow> req_action v = Update \<and> text_ok 1 4096 d \<and> absolute_path d)"

definition operation_error_ok :: "operation_error \<Rightarrow> bool" where
  "operation_error_ok e \<longleftrightarrow> (case oerr_instance e of None \<Rightarrow> True | Some k \<Rightarrow> name_ok k) \<and>
     text_ok 1 100 (oerr_code e) \<and> text_ok 1 4096 (oerr_message e)"

definition operation_ok :: "operation \<Rightarrow> bool" where
  "operation_ok v \<longleftrightarrow> request_ok (op_request v) \<and> integer_ok 0 safe_integer (op_created_at v) \<and>
     (case op_completed_at v of None \<Rightarrow> True | Some at \<Rightarrow> integer_ok 0 safe_integer at) \<and>
     (case op_approval v of None \<Rightarrow> True
      | Some a \<Rightarrow> text_ok 1 2048 (link_url a) \<and> text_ok 12 12 (link_code a)) \<and>
     length (op_errors v) \<le> 100 \<and> list_all operation_error_ok (op_errors v)"

section \<open>Reading back what was written\<close>

lemma rbind_assoc: "rbind (rbind a f) g = rbind a (\<lambda>x. rbind (f x) g)"
  by (cases a) simp_all

lemma request_fields_get:
  "json_get k (request_fields v) =
     (if k = ''operationId'' then Some (JString (req_id v))
      else if k = ''target'' then Some (target_wire (req_target v))
      else if k = ''action'' then Some (JString (action_code (req_action v)))
      else if k = ''expectedRevision'' then Some (JInt (req_expected_revision v))
      else if k = ''releaseDirectory'' then map_option JString (req_release_directory v) else None)"
  by (cases "req_release_directory v") (simp_all add: request_fields_def om_get_of)

lemma request_fields_keys:
  "fst ` set (request_fields v) = {''operationId'', ''target'', ''action'', ''expectedRevision''} \<union>
     (if req_release_directory v = None then {} else {''releaseDirectory''})"
  by (cases "req_release_directory v") (auto simp: request_fields_def)

definition operation_fields :: "operation \<Rightarrow> json_map" where
  "operation_fields v = foldl (\<lambda>m (k, w). json_put k w m) (request_fields (op_request v)) (outcome_fields v)"

lemma operation_fields_get:
  "json_get k (operation_fields v) =
     (if k = ''status'' then Some (JString (operation_status_code (op_status v)))
      else if k = ''createdAt'' then Some (JInt (op_created_at v))
      else if k = ''completedAt'' then Some (case op_completed_at v of None \<Rightarrow> JNull | Some at \<Rightarrow> JInt at)
      else if k = ''approval'' then Some (approval_wire (op_approval v))
      else if k = ''errors'' then Some (JArray (map error_wire (op_errors v)))
      else if k = ''receiptPending'' then (if op_receipt_pending v then Some (JBool True) else None)
      else json_get k (request_fields (op_request v)))"
  by (cases "op_receipt_pending v")
    (simp_all add: operation_fields_def outcome_fields_def om_get_foldl request_fields_get)

lemma operation_fields_keys:
  "fst ` set (operation_fields v) = fst ` set (request_fields (op_request v)) \<union>
     {''status'', ''createdAt'', ''completedAt'', ''approval'', ''errors''} \<union>
     (if op_receipt_pending v then {''receiptPending''} else {})"
  by (cases "op_receipt_pending v") (auto simp: operation_fields_def keys_om_foldl outcome_fields_def)

lemma action_of_action_code [simp]: "action_of_code (action_code a) = a"
  by (cases a) (simp_all add: action_of_code_def)

lemma action_code_known: "action_code a \<in> set [''enroll'', ''start'', ''stop'', ''reset'', ''update'']"
  by (cases a) simp_all

lemma operation_status_of_status_code [simp]: "operation_status_of_code (operation_status_code a) = a"
  by (cases a) (simp_all add: operation_status_of_code_def)

lemma operation_status_code_known:
  "operation_status_code a \<in> set [''accepted'', ''running'', ''awaiting-approval'', ''succeeded'', ''failed'']"
  by (cases a) simp_all

text \<open>The target of a request, with the checks that come before it.\<close>

definition target_parsed :: "json \<Rightarrow> action \<Rightarrow> target result" where
  "target_parsed v act =
     rbind (check_object v [''kind''] [''fleetId'', ''instanceKey'']) (\<lambda>t.
     rbind (check_choice (json_at ''kind'' t) [''fleet'', ''agent'', ''daemon'']) (\<lambda>kind.
     rbind (optional_field ''fleetId'' t check_identifier) (\<lambda>fleet.
     rbind (optional_field ''instanceKey'' t check_name) (\<lambda>instance_key.
     target_of kind fleet instance_key act))))"

lemma target_roundtrip: "target_parsed (target_wire t) act = Inr w \<longleftrightarrow> target_ok t act \<and> w = t"
  by (cases t) (auto simp: target_parsed_def check_simps optional_field_def om_get_of op_iff check_iff
      target_of_def target_ok_def)

lemma request_fields_roundtrip:
  assumes "fst ` set m \<subseteq> {''operationId'', ''target'', ''action'', ''expectedRevision''} \<union>
      set (if stored then stored_fields else [''releaseDirectory''])"
    and get: "\<And>k. k \<in> {''operationId'', ''target'', ''action'', ''expectedRevision'', ''releaseDirectory''} \<Longrightarrow>
      json_get k m = json_get k (request_fields v)"
  shows "request_of (JObject m) stored = Inr w \<longleftrightarrow> request_ok v \<and> w = v"
proof -
  have "k \<in> fst ` set m" if "k \<in> {''operationId'', ''target'', ''action'', ''expectedRevision''}" for k
  proof -
    have "json_get k m \<noteq> None" using that get [of k] by (auto simp: request_fields_get)
    then show ?thesis by (simp add: om_get_None)
  qed
  then have obj: "check_object (JObject m) [''operationId'', ''target'', ''action'', ''expectedRevision'']
      (if stored then stored_fields else [''releaseDirectory'']) = Inr m"
    using assms(1) by (auto simp: check_object_Inr)
  have at: "json_at ''operationId'' m = JString (req_id v)" "json_at ''target'' m = target_wire (req_target v)"
    "json_at ''action'' m = JString (action_code (req_action v))"
    "json_at ''expectedRevision'' m = JInt (req_expected_revision v)"
    "json_get ''releaseDirectory'' m = map_option JString (req_release_directory v)"
    by (simp_all add: json_at_def get request_fields_get)
  have choice: "check_choice (JString (action_code (req_action v)))
      [''enroll'', ''start'', ''stop'', ''reset'', ''update''] = Inr (action_code (req_action v))"
    using action_code_known by (rule check_simps_basic)
  have dir: "optional_field ''releaseDirectory'' m release_directory_of = Inr d \<longleftrightarrow>
      (\<forall>p. req_release_directory v = Some p \<longrightarrow> text_ok 1 4096 p \<and> absolute_path p) \<and>
      d = req_release_directory v" for d
    by (cases "req_release_directory v")
      (auto simp: optional_field_def at release_directory_of_def op_iff check_iff)
  have "request_of (JObject m) stored =
     rbind (target_parsed (target_wire (req_target v)) (req_action v)) (\<lambda>t.
     rbind (optional_field ''releaseDirectory'' m release_directory_of) (\<lambda>d.
     if (req_action v = Update) \<noteq> (d \<noteq> None) then Inl invalid_operation else
     rbind (check_identifier (JString (req_id v))) (\<lambda>oid.
     rbind (check_integer (JInt (req_expected_revision v)) 0 safe_integer) (\<lambda>revision.
     Inr \<lparr>req_id = oid, req_target = t, req_action = req_action v,
       req_expected_revision = revision, req_release_directory = d\<rparr>))))"
    by (simp add: request_of_def obj at choice target_parsed_def rbind_assoc cong: if_cong)
  then have "request_of (JObject m) stored = Inr w \<longleftrightarrow>
     (\<exists>t d. target_parsed (target_wire (req_target v)) (req_action v) = Inr t \<and>
        optional_field ''releaseDirectory'' m release_directory_of = Inr d \<and>
        (req_action v = Update \<longleftrightarrow> d \<noteq> None) \<and> identifier_ok (req_id v) \<and>
        check_integer (JInt (req_expected_revision v)) 0 safe_integer = Inr (req_expected_revision v) \<and>
        w = \<lparr>req_id = req_id v, req_target = t, req_action = req_action v,
          req_expected_revision = req_expected_revision v, req_release_directory = d\<rparr>)"
    by (auto simp: op_iff check_iff checked_i64_def i64_ok_def)
  also have "\<dots> \<longleftrightarrow> request_ok v \<and> w = v"
    by (cases v; cases "req_release_directory v") (auto simp: target_roundtrip dir check_iff request_ok_def
        checked_i64_def i64_ok_def integer_ok_def safe_integer_def)
  finally show ?thesis .
qed

lemma request_roundtrip: "request_of (request_wire v) stored = Inr w \<longleftrightarrow> request_ok v \<and> w = v"
  unfolding request_wire_def
  by (rule request_fields_roundtrip) (auto simp: request_fields_keys stored_fields_def)

lemma approval_roundtrip:
  "approval_of (approval_wire v) = Inr w \<longleftrightarrow>
     (\<forall>a. v = Some a \<longrightarrow> text_ok 1 2048 (link_url a) \<and> text_ok 12 12 (link_code a)) \<and> w = v"
proof (cases v)
  case (Some a)
  then show ?thesis
    by (cases a) (auto simp: approval_of_def approval_wire_def check_simps op_iff check_iff)
qed (auto simp: approval_of_def approval_wire_def)

lemma error_roundtrip: "operation_error_of (error_wire e) = Inr w \<longleftrightarrow> operation_error_ok e \<and> w = e"
  by (cases e; cases "oerr_instance e") (auto simp: operation_error_of_def error_wire_def check_simps op_iff
      check_iff operation_error_ok_def)

lemma operation_wire_read:
  "operation_of (operation_wire v) = Inr w \<longleftrightarrow> operation_ok v \<and> w = v"
proof -
  let ?m = "operation_fields v"
  have wire: "operation_wire v = JObject ?m" by (simp add: operation_wire_def operation_fields_def)
  have req: "request_of (JObject ?m) True = Inr r \<longleftrightarrow> request_ok (op_request v) \<and> r = op_request v" for r
    by (rule request_fields_roundtrip)
      (auto simp: operation_fields_keys request_fields_keys stored_fields_def operation_fields_get)
  have choice: "check_choice (JString (operation_status_code (op_status v)))
      [''accepted'', ''running'', ''awaiting-approval'', ''succeeded'', ''failed''] =
      Inr (operation_status_code (op_status v))"
    using operation_status_code_known by (rule check_simps_basic)
  have completed: "completed_at_of (case op_completed_at v of None \<Rightarrow> JNull | Some at \<Rightarrow> JInt at) = Inr c \<longleftrightarrow>
      (\<forall>at. op_completed_at v = Some at \<longrightarrow> integer_ok 0 safe_integer at) \<and> c = op_completed_at v" for c
    by (cases "op_completed_at v") (auto simp: completed_at_of_def op_iff check_iff checked_i64_def i64_ok_def
        integer_ok_def safe_integer_def)
  have errors: "collect_results (map (\<lambda>e. operation_error_of (error_wire e)) (op_errors v)) = Inr us \<longleftrightarrow>
      list_all operation_error_ok (op_errors v) \<and> us = op_errors v" for us
    by (subst collect_map_Inr [where p = operation_error_ok and g = "\<lambda>e. e"]) (auto simp: error_roundtrip)
  have pending: "receipt_pending_of (if op_receipt_pending v then Some (JBool True) else None) =
      Inr (op_receipt_pending v)"
    by (simp add: receipt_pending_of_def)
  have "operation_of (operation_wire v) =
     rbind (request_of (JObject ?m) True) (\<lambda>r.
     rbind (check_integer (JInt (op_created_at v)) 0 safe_integer) (\<lambda>created.
     rbind (completed_at_of (case op_completed_at v of None \<Rightarrow> JNull | Some at \<Rightarrow> JInt at)) (\<lambda>c.
     rbind (approval_of (approval_wire (op_approval v))) (\<lambda>l.
     rbind (check_list (JArray (map error_wire (op_errors v))) 0 100) (\<lambda>vs.
     rbind (collect_results (map operation_error_of vs)) (\<lambda>us.
     Inr \<lparr>op_request = r, op_status = op_status v, op_created_at = created,
       op_completed_at = c, op_approval = l, op_errors = us,
       op_receipt_pending = op_receipt_pending v\<rparr>))))))"
    by (simp add: operation_of_def wire stored_field_def operation_fields_get request_fields_get choice pending
        cong: if_cong)
  then have "operation_of (operation_wire v) = Inr w \<longleftrightarrow>
     (\<exists>r c l us. request_of (JObject ?m) True = Inr r \<and>
        integer_ok 0 safe_integer (op_created_at v) \<and>
        completed_at_of (case op_completed_at v of None \<Rightarrow> JNull | Some at \<Rightarrow> JInt at) = Inr c \<and>
        approval_of (approval_wire (op_approval v)) = Inr l \<and> length (op_errors v) \<le> 100 \<and>
        collect_results (map (\<lambda>e. operation_error_of (error_wire e)) (op_errors v)) = Inr us \<and>
        w = \<lparr>op_request = r, op_status = op_status v, op_created_at = op_created_at v,
          op_completed_at = c, op_approval = l, op_errors = us, op_receipt_pending = op_receipt_pending v\<rparr>)"
    by (simp only: op_iff check_iff comp_def list.map_comp json_number.simps)
      (auto simp: comp_def checked_i64_def i64_ok_def integer_ok_def safe_integer_def)
  also have "\<dots> \<longleftrightarrow> operation_ok v \<and> w = v"
    unfolding req completed approval_roundtrip errors
    by (cases v) (auto simp: operation_ok_def split: option.splits)
  finally show ?thesis .
qed

text \<open>
  C39: A lifecycle operation is read back from its stored form exactly if it is within the bounds of the
  record (identifiers and names well formed, at most a hundred errors, every message one to 4096
  characters without control characters), and then as it was.
\<close>
theorem operation_roundtrip:
  "operation_of (operation_wire v) = Inr w \<longleftrightarrow> operation_ok v \<and> w = v"
  by (rule operation_wire_read)

section \<open>What is read\<close>

lemma collect_results_all:
  "collect_results (map f vs) = Inr ws \<Longrightarrow> (\<And>v w. f v = Inr w \<Longrightarrow> p w) \<Longrightarrow>
     list_all p ws \<and> length ws = length vs"
  by (induction vs arbitrary: ws) (auto simp: op_iff)

lemma optional_field_read:
  "optional_field k m check = Inr w \<Longrightarrow> (\<And>v x. check v = Inr x \<Longrightarrow> p x) \<Longrightarrow> case w of None \<Rightarrow> True | Some x \<Rightarrow> p x"
  by (auto simp: optional_field_def op_iff split: option.splits)

lemma release_directory_read:
  "release_directory_of v = Inr d \<Longrightarrow> text_ok 1 4096 d \<and> absolute_path d"
  by (auto simp: release_directory_of_def op_iff check_iff split: if_splits)

lemma target_read:
  "target_of kind fleet i act = Inr t \<Longrightarrow> case fleet of None \<Rightarrow> True | Some f \<Rightarrow> identifier_ok f \<Longrightarrow>
     case i of None \<Rightarrow> True | Some k \<Rightarrow> name_ok k \<Longrightarrow> target_ok t act"
  by (auto simp: target_of_def target_ok_def split: option.splits if_splits)

lemma request_read:
  assumes "request_of v stored = Inr r"
  shows "request_ok r"
proof -
  from assms obtain m t kind fleet i act target directory oid revision where
    f: "optional_field ''fleetId'' t check_identifier = Inr fleet" "optional_field ''instanceKey'' t check_name = Inr i"
    and g: "target_of kind fleet i act = Inr target"
    and d: "optional_field ''releaseDirectory'' m release_directory_of = Inr directory"
      "(act = Update) = (directory \<noteq> None)"
    and o: "check_identifier (json_at ''operationId'' m) = Inr oid"
      "check_integer (json_at ''expectedRevision'' m) 0 safe_integer = Inr revision"
    and r: "r = \<lparr>req_id = oid, req_target = target, req_action = act,
      req_expected_revision = revision, req_release_directory = directory\<rparr>"
    by (auto simp: request_of_def op_iff split: if_splits)
  have "case fleet of None \<Rightarrow> True | Some x \<Rightarrow> identifier_ok x"
    using f(1) by (rule optional_field_read) (simp add: check_iff)
  moreover have "case i of None \<Rightarrow> True | Some x \<Rightarrow> name_ok x"
    using f(2) by (rule optional_field_read) (simp add: check_iff)
  ultimately have "target_ok target act" using g by (intro target_read)
  moreover have "case directory of None \<Rightarrow> True | Some x \<Rightarrow> text_ok 1 4096 x \<and> absolute_path x"
    using d(1) by (rule optional_field_read) (rule release_directory_read)
  ultimately show ?thesis
    using o d(2) by (auto simp: r request_ok_def check_iff split: option.splits)
qed

lemma operation_error_read: "operation_error_of v = Inr e \<Longrightarrow> operation_error_ok e"
  by (auto simp: operation_error_of_def operation_error_ok_def op_iff check_iff split: if_splits)

lemma approval_read:
  "approval_of v = Inr a \<Longrightarrow> case a of None \<Rightarrow> True | Some l \<Rightarrow> text_ok 1 2048 (link_url l) \<and> text_ok 12 12 (link_code l)"
  by (auto simp: approval_of_def op_iff check_iff split: if_splits)

lemma completed_at_read:
  "completed_at_of v = Inr at \<Longrightarrow> case at of None \<Rightarrow> True | Some n \<Rightarrow> integer_ok 0 safe_integer n"
  by (auto simp: completed_at_of_def op_iff check_iff split: if_splits)

text \<open>
  Whatever JSON a stored operation holds, what the reader makes of it is well formed: identifiers and
  names are, a directory belongs to an update and to nothing else, only the daemon is stopped as a whole,
  and every number and text is within its bound.
\<close>
theorem operation_read_well_formed:
  assumes "operation_of v = Inr w"
  shows "operation_ok w"
proof -
  from assms obtain r created completed link vs c l us created_at where
    r: "request_of v True = Inr r" and n: "check_integer created 0 safe_integer = Inr created_at"
    and c: "completed_at_of completed = Inr c" and l: "approval_of link = Inr l"
    and vs: "check_list us 0 100 = Inr vs" "collect_results (map operation_error_of vs) = Inr (op_errors w)"
    and w: "op_request w = r" "op_created_at w = created_at" "op_completed_at w = c" "op_approval w = l"
    by (auto simp: operation_of_def op_iff)
  have "list_all operation_error_ok (op_errors w) \<and> length (op_errors w) = length vs"
    using vs(2) by (rule collect_results_all) (rule operation_error_read)
  with request_read [OF r] n completed_at_read [OF c] approval_read [OF l] vs(1) show ?thesis
    by (auto simp: operation_ok_def w check_iff)
qed

definition stop_record :: json where
  "stop_record = operation_wire \<lparr>op_request = \<lparr>req_id = ''0a0b0c0d-0001-0002-0003-0a0b0c0d0e0f'', req_target = DaemonTarget,
     req_action = Stop, req_expected_revision = 0, req_release_directory = None\<rparr>, op_status = OpRunning,
     op_created_at = 1000, op_completed_at = None, op_approval = None, op_errors = [], op_receipt_pending = False\<rparr>"

theorem operation_read_well_formed_witness:
  "case operation_of stop_record of Inl e \<Rightarrow> False | Inr w \<Rightarrow> operation_ok w"
proof -
  have "case operation_of stop_record of Inl e \<Rightarrow> False | Inr w \<Rightarrow> True" by code_simp
  then show ?thesis
    using operation_read_well_formed [of stop_record] by (auto split: sum.splits)
qed

end
