(* ===== verification/Fleetd_Storage.thy ===== *)
theory Fleetd_Storage
  imports Private_Directory Operation_Contract Resume_Selection
begin

text \<open>
  The registry of the fleet controller on the disk: fleetd \<open>storage/src/registry.rs\<close>. Registrations, desired
  bindings and resume selections are one JSON file each, replaced as a whole; every operation is a file of
  its own in the directory \<open>operations\<close>. The lock that serialises the calls on operations is held by one
  call at a time, so each of them is one operation here. \<open>J\<close> is the printer and the parser of
  \<open>serde_json\<close>.
\<close>

record storage =
  stg_directory :: disk
  stg_operations :: disk

type_synonym 'a storage_op = "(storage, failure, 'a) op"

definition in_directory :: "'a disk_op \<Rightarrow> 'a storage_op" where
  "in_directory m s = (case m (stg_directory s) of (r, d) \<Rightarrow> (r, s\<lparr>stg_directory := d\<rparr>))"

definition in_operations :: "'a disk_op \<Rightarrow> 'a storage_op" where
  "in_operations m s = (case m (stg_operations s) of (r, d) \<Rightarrow> (r, s\<lparr>stg_operations := d\<rparr>))"

section \<open>Whole files\<close>

definition read_value :: "codec \<Rightarrow> string \<Rightarrow> nat \<Rightarrow> (json \<Rightarrow> 'a result) \<Rightarrow> 'a storage_op" where
  "read_value J name maximum parser =
     bind_op (in_directory (read_optional name maximum)) (\<lambda>found.
     bind_op (lift_op (case found of None \<Rightarrow> Inr (JArray [])
       | Some bytes \<Rightarrow> ok_or (codec_parse J bytes) (failure_new Invalid ''Malformed private controller data''))) (\<lambda>v.
     lift_op (parser v)))"

text \<open>What is written is what the reader makes of the value, so that it can be read again.\<close>

definition save_value :: "codec \<Rightarrow> string \<Rightarrow> nat \<Rightarrow> json \<Rightarrow> (json \<Rightarrow> 'a result) \<Rightarrow> ('a \<Rightarrow> json) \<Rightarrow> unit storage_op" where
  "save_value J name maximum v parser represent =
     bind_op (lift_op (parser v)) (\<lambda>x.
     let bytes = codec_print J (represent x) in
     if maximum < length bytes
     then fail_op (failure_new Limit ''Private controller data exceeds its byte bound'')
     else in_directory (write_atomic name bytes))"

definition mebibyte :: nat where
  "mebibyte = 1048576"

definition stored_registrations :: "codec \<Rightarrow> registration list storage_op" where
  "stored_registrations J = read_value J ''fleets.json'' mebibyte registrations_of"

definition save_registrations :: "codec \<Rightarrow> registration list \<Rightarrow> unit storage_op" where
  "save_registrations J values = save_value J ''fleets.json'' mebibyte (registrations_wire values)
     registrations_of registrations_wire"

definition stored_desired :: "codec \<Rightarrow> desired_intent list storage_op" where
  "stored_desired J = read_value J ''desired-intent.json'' (2 * mebibyte) desired_of"

definition save_desired :: "codec \<Rightarrow> desired_intent list \<Rightarrow> unit storage_op" where
  "save_desired J values = save_value J ''desired-intent.json'' (2 * mebibyte) (desired_wire values)
     desired_of desired_wire"

definition stored_selections :: "codec \<Rightarrow> resume_selection list storage_op" where
  "stored_selections J = read_value J ''resume-selections.json'' mebibyte selections_of"

definition save_selections :: "codec \<Rightarrow> resume_selection list \<Rightarrow> unit storage_op" where
  "save_selections J values = save_value J ''resume-selections.json'' mebibyte (selections_wire values)
     selections_of selections_wire"

section \<open>Operations\<close>

definition operation_name :: "string \<Rightarrow> string" where
  "operation_name oid = oid @ ''.json''"

definition operation_of_bytes :: "codec \<Rightarrow> string \<Rightarrow> string \<Rightarrow> operation result" where
  "operation_of_bytes J oid bytes =
     rbind (ok_or (codec_parse J bytes) (failure_new Invalid ''Malformed private lifecycle operation'')) (\<lambda>v.
     rbind (operation_of v) (\<lambda>q.
     if req_id (op_request q) \<noteq> oid then Inl (failure_new Invalid ''Operation file identity mismatch'') else Inr q))"

definition operation_read :: "codec \<Rightarrow> string \<Rightarrow> operation option storage_op" where
  "operation_read J oid =
     bind_op (lift_op (check_identifier (JString oid))) (\<lambda>_.
     bind_op (in_operations (read_optional (operation_name oid) 1048576)) (\<lambda>found.
     lift_op (case found of None \<Rightarrow> Inr None
       | Some bytes \<Rightarrow> rbind (operation_of_bytes J oid bytes) (\<lambda>v. Inr (Some v)))))"

fun strip_suffix :: "string \<Rightarrow> string \<Rightarrow> string option" where
  "strip_suffix suffix name = (if length suffix \<le> length name \<and> drop (length name - length suffix) name = suffix
     then Some (take (length name - length suffix) name) else None)"

text \<open>The identifiers of the files; what a killed process left under a temporary name is removed.\<close>

fun operation_files_of :: "string list \<Rightarrow> string list \<Rightarrow> string list storage_op" where
  "operation_files_of [] files = return_op files"
| "operation_files_of (name # names) files =
     (if take 9 name = ''.pending-''
      then bind_op (lift_op (check_identifier (JString (drop 9 name)))) (\<lambda>_.
        bind_op (in_operations (remove_entry name)) (\<lambda>_. operation_files_of names files))
      else bind_op (lift_op (ok_or (strip_suffix ''.json'' name)
          (failure_new Invalid ''Unexpected file in private operation storage''))) (\<lambda>oid.
        bind_op (lift_op (check_identifier (JString oid))) (\<lambda>_. operation_files_of names (files @ [oid]))))"

definition operation_files :: "string list storage_op" where
  "operation_files = bind_op (in_operations (entry_names 100000)) (\<lambda>names. operation_files_of names [])"

fun pending_of :: "codec \<Rightarrow> string list \<Rightarrow> operation list \<Rightarrow> operation list storage_op" where
  "pending_of J [] pending = return_op pending"
| "pending_of J (oid # ids) pending =
     bind_op (operation_read J oid) (\<lambda>found.
     bind_op (lift_op (ok_or found (failure_new Unavailable ''Operation disappeared during inspection''))) (\<lambda>v.
     pending_of J ids (if op_completed_at v = None \<or> op_receipt_pending v then pending @ [v] else pending)))"

definition pending_operations :: "codec \<Rightarrow> operation list storage_op" where
  "pending_operations J = bind_op operation_files (\<lambda>ids. pending_of J ids [])"

definition save_operation :: "codec \<Rightarrow> operation \<Rightarrow> unit storage_op" where
  "save_operation J v =
     bind_op (lift_op (operation_of (operation_wire v))) (\<lambda>_.
     let bytes = codec_print J (operation_wire v) in
     if 1048576 < length bytes
     then fail_op (failure_new BodyTooLarge ''Operation exceeds its bounded private record'')
     else in_operations (write_atomic (operation_name (req_id (op_request v))) bytes))"

fun prune_files :: "codec \<Rightarrow> int \<Rightarrow> nat \<Rightarrow> string list \<Rightarrow> nat \<Rightarrow> bool storage_op" where
  "prune_files J cutoff maximum [] removed = return_op False"
| "prune_files J cutoff maximum (oid # ids) removed =
     bind_op (operation_read J oid) (\<lambda>found.
     bind_op (lift_op (ok_or found (failure_new Unavailable ''Operation disappeared during cleanup''))) (\<lambda>v.
     if (case op_completed_at v of None \<Rightarrow> False | Some at \<Rightarrow> at < cutoff) \<and> \<not> op_receipt_pending v
     then bind_op (in_operations (remove_entry (operation_name oid))) (\<lambda>_.
       if maximum \<le> removed + 1 then return_op True else prune_files J cutoff maximum ids (removed + 1))
     else prune_files J cutoff maximum ids removed))"

definition prune_operations :: "codec \<Rightarrow> int \<Rightarrow> nat \<Rightarrow> bool storage_op" where
  "prune_operations J cutoff maximum =
     (if \<not> (1 \<le> maximum \<and> maximum \<le> 1000)
      then fail_op (failure_new Invalid ''Invalid operation retention boundary'')
      else bind_op operation_files (\<lambda>ids. prune_files J cutoff maximum ids 0))"

definition selection_files :: "codec \<Rightarrow> storage selection_store" where
  "selection_files J = \<lparr>store_resume_selections = stored_selections J,
     store_save_resume_selections = save_selections J\<rparr>"

end
