(* ===== verification/Sample_Codec.thy ===== *)
theory Sample_Codec
  imports Json Kernel_Time
begin

text \<open>
  A printer and a parser that keep the promise \<open>codec_ok\<close>, for the cases the theorems about stored values
  are applied to: every value is written with a letter that says what it is, every character of a text
  with a letter before it, and every list with one before each element and a full stop after the last.
\<close>

section \<open>Printing\<close>

definition write_text :: "string \<Rightarrow> string" where
  "write_text t = concat (map (\<lambda>c. [CHR ''c'', c]) t) @ ''.''"

fun write_json :: "json \<Rightarrow> string" where
  "write_json JNull = ''n''"
| "write_json (JBool b) = (if b then ''t'' else ''f'')"
| "write_json (JInt n) = (if n < 0 then CHR ''m'' else CHR ''i'') # write_text (dec (nat \<bar>n\<bar>))"
| "write_json (JFloat m e) = ''n''"
| "write_json (JString t) = CHR ''s'' # write_text t"
| "write_json (JArray vs) = CHR ''a'' # concat (map (\<lambda>v. CHR ''v'' # write_json v) vs) @ ''.''"
| "write_json (JObject m) = CHR ''o'' # concat (map (\<lambda>(k, v). CHR ''k'' # write_text k @ write_json v) m) @ ''.''"

section \<open>Parsing\<close>

fun read_text :: "string \<Rightarrow> (string \<times> string) option" where
  "read_text [] = None"
| "read_text [a] = (if a = CHR ''.'' then Some ([], []) else None)"
| "read_text (a # c # s) = (if a = CHR ''.'' then Some ([], c # s)
     else map_option (\<lambda>(t, r). (c # t, r)) (read_text s))"

text \<open>The first argument bounds the calls by its length: the text itself is enough, as every call reads a character.\<close>

fun read_json :: "string \<Rightarrow> string \<Rightarrow> (json \<times> string) option"
  and read_items :: "string \<Rightarrow> string \<Rightarrow> (json list \<times> string) option"
  and read_fields :: "string \<Rightarrow> string \<Rightarrow> (json_map \<times> string) option" where
  "read_json (x # n) (c # s) =
     (if c = CHR ''n'' then Some (JNull, s)
      else if c = CHR ''t'' then Some (JBool True, s)
      else if c = CHR ''f'' then Some (JBool False, s)
      else if c = CHR ''i'' then map_option (\<lambda>(t, r). (JInt (int (digits_value t)), r)) (read_text s)
      else if c = CHR ''m'' then map_option (\<lambda>(t, r). (JInt (- int (digits_value t)), r)) (read_text s)
      else if c = CHR ''s'' then map_option (\<lambda>(t, r). (JString t, r)) (read_text s)
      else if c = CHR ''a'' then map_option (\<lambda>(vs, r). (JArray vs, r)) (read_items n s)
      else map_option (\<lambda>(m, r). (JObject m, r)) (read_fields n s))"
| "read_json n s = None"
| "read_items (x # n) (c # s) = (if c = CHR ''.'' then Some ([], s)
     else (case read_json n s of None \<Rightarrow> None
       | Some (v, r) \<Rightarrow> map_option (\<lambda>(vs, r). (v # vs, r)) (read_items n r)))"
| "read_items n s = None"
| "read_fields (x # n) (c # s) = (if c = CHR ''.'' then Some ([], s)
     else (case read_text s of None \<Rightarrow> None
       | Some (k, q) \<Rightarrow> (case read_json n q of None \<Rightarrow> None
         | Some (v, r) \<Rightarrow> map_option (\<lambda>(m, r). ((k, v) # m, r)) (read_fields n r))))"
| "read_fields n s = None"

definition letter_codec :: codec where
  "letter_codec = \<lparr>codec_print = write_json, codec_parse = (\<lambda>s. case read_json s s of
     Some (v, []) \<Rightarrow> Some v | _ \<Rightarrow> None)\<rparr>"

section \<open>What is written is read back\<close>

lemma read_write_text [simp]: "read_text (write_text t @ r) = Some (t, r)"
proof (induction t)
  case Nil
  then show ?case by (cases r) (simp_all add: write_text_def)
qed (simp add: write_text_def)

lemma length_write_text [simp]: "0 < length (write_text t)"
  by (simp add: write_text_def)

lemma digits_value_dec [simp]: "digits_value (dec n) = n"
  using dec_digits by blast

lemma read_items_write:
  assumes "\<And>v n r. v \<in> set vs \<Longrightarrow> length (write_json v) \<le> length n \<Longrightarrow> read_json n (write_json v @ r) = Some (v, r)"
    and "length (concat (map (\<lambda>v. CHR ''v'' # write_json v) vs)) < length n"
  shows "read_items n (concat (map (\<lambda>v. CHR ''v'' # write_json v) vs) @ CHR ''.'' # r) = Some (vs, r)"
  using assms
proof (induction vs arbitrary: n)
  case Nil
  then show ?case by (cases n) simp_all
next
  case (Cons v vs)
  from Cons.prems(2) obtain x m where m: "n = x # m" by (cases n) simp_all
  have "read_json m (write_json v @ q) = Some (v, q)" for q
    using Cons.prems m by simp
  moreover have "read_items m (concat (map (\<lambda>v. CHR ''v'' # write_json v) vs) @ CHR ''.'' # r) = Some (vs, r)"
    using Cons.prems m by (intro Cons.IH) simp_all
  ultimately show ?case using m by simp
qed

lemma read_fields_write:
  assumes "\<And>e n r. e \<in> set m \<Longrightarrow> length (write_json (snd e)) \<le> length n \<Longrightarrow>
      read_json n (write_json (snd e) @ r) = Some (snd e, r)"
    and "length (concat (map (\<lambda>(k, v). CHR ''k'' # write_text k @ write_json v) m)) < length n"
  shows "read_fields n (concat (map (\<lambda>(k, v). CHR ''k'' # write_text k @ write_json v) m) @ CHR ''.'' # r) = Some (m, r)"
  using assms
proof (induction m arbitrary: n)
  case Nil
  then show ?case by (cases n) simp_all
next
  case (Cons e m)
  obtain k v where e: "e = (k, v)" by fastforce
  from Cons.prems(2) obtain x n' where n: "n = x # n'" by (cases n) simp_all
  have "read_json n' (write_json v @ q) = Some (v, q)" for q
    using Cons.prems(1) [of e n'] Cons.prems(2) n e by simp
  moreover have "read_fields n' (concat (map (\<lambda>(k, v). CHR ''k'' # write_text k @ write_json v) m) @ CHR ''.'' # r) = Some (m, r)"
    using Cons.prems n e by (intro Cons.IH) simp_all
  ultimately show ?case using n e by simp
qed

lemma read_write_json:
  "canonical v \<Longrightarrow> length (write_json v) \<le> length n \<Longrightarrow> read_json n (write_json v @ r) = Some (v, r)"
proof (induction v arbitrary: n r)
  case (JArray vs)
  then obtain x n' where n: "n = x # n'" by (cases n) simp_all
  have "read_items n' (concat (map (\<lambda>v. CHR ''v'' # write_json v) vs) @ CHR ''.'' # r) = Some (vs, r)"
    using JArray n by (intro read_items_write) (auto simp: list_all_iff)
  with n show ?case by simp
next
  case (JObject m)
  then obtain x n' where n: "n = x # n'" by (cases n) simp_all
  have "read_fields n' (concat (map (\<lambda>(k, v). CHR ''k'' # write_text k @ write_json v) m) @ CHR ''.'' # r) = Some (m, r)"
    using JObject n by (intro read_fields_write) (auto simp: list_all_iff prod_set_defs)
  with n show ?case by simp
next
  case (JInt i)
  then show ?case by (cases n) auto
next
  case (JString t)
  then show ?case by (cases n) auto
next
  case (JBool b)
  then show ?case by (cases n; cases b) auto
next
  case JNull
  then show ?case by (cases n) auto
qed simp

lemma letter_codec_ok: "codec_ok letter_codec"
  unfolding codec_ok_def letter_codec_def
proof (intro allI impI)
  fix v assume "canonical v"
  then have "read_json (write_json v) (write_json v @ []) = Some (v, [])"
    by (intro read_write_json) simp_all
  then show "codec_parse \<lparr>codec_print = write_json, codec_parse = (\<lambda>s. case read_json s s of
     Some (v, []) \<Rightarrow> Some v | _ \<Rightarrow> None)\<rparr> (codec_print \<lparr>codec_print = write_json, codec_parse = (\<lambda>s. case read_json s s of
     Some (v, []) \<Rightarrow> Some v | _ \<Rightarrow> None)\<rparr> v) = Some v" by simp
qed

end
