(* ===== verification/Storage_Safety.thy ===== *)
theory Storage_Safety
  imports Fleetd_Storage Sample_Codec "HOL-Library.Code_Target_Nat"
begin

text \<open>
  What the registry's files keep, whatever system calls fail: a save leaves the old value or the new one,
  a save that succeeds leaves the new one, and what was saved is read back. The law of a file that holds
  one list is \<open>stored_list\<close>, with the three files of the registry as its instances; what the resume
  selections need of their store is \<open>selection_keeper\<close>.
\<close>

section \<open>What can be printed\<close>

lemma canonical_put:
  "canonical (JObject m) \<Longrightarrow> canonical w \<Longrightarrow> canonical (JObject (json_put k w m))"
proof -
  have "list_all (\<lambda>f. canonical (snd f)) m \<Longrightarrow> canonical w \<Longrightarrow> list_all (\<lambda>f. canonical (snd f)) (om_put k w m)" for m
    by (induction k w m rule: om_put.induct) auto
  then show "canonical (JObject m) \<Longrightarrow> canonical w \<Longrightarrow> canonical (JObject (json_put k w m))"
    by simp
qed

lemma canonical_foldl:
  "canonical (JObject m) \<Longrightarrow> list_all (\<lambda>f. canonical (snd f)) es \<Longrightarrow>
     canonical (JObject (foldl (\<lambda>m (k, w). json_put k w m) m es))"
proof (induction es arbitrary: m)
  case (Cons e es)
  then have "canonical (JObject (json_put (fst e) (snd e) m))" by (intro canonical_put) simp_all
  with Cons show ?case by (simp add: case_prod_beta del: canonical.simps)
qed simp

lemma canonical_object: "list_all (\<lambda>f. canonical (snd f)) es \<Longrightarrow> canonical (JObject (json_object es))"
  unfolding om_of_def by (rule canonical_foldl) simp_all

lemma canonical_safe [simp]: "integer_ok lo hi n \<Longrightarrow> canonical (JInt n)"
  by (auto simp: integer_ok_def safe_integer_def)

lemma canonical_registrations: "registrations_ok rs \<Longrightarrow> canonical (registrations_wire rs)"
  by (auto simp: registrations_wire_def registration_wire_def registrations_ok_def registration_ok_def list_all_iff
      simp del: canonical.simps(1,4) intro!: canonical_object intro: canonical_safe)

lemma canonical_desired: "canonical (desired_wire ds)"
  by (auto simp: desired_wire_def desired_intent_wire_def list_all_iff
      simp del: canonical.simps(4) intro!: canonical_object)

lemma canonical_selections: "canonical (selections_wire vs)"
  by (auto simp: selections_wire_def resume_selection_wire_def list_all_iff
      simp del: canonical.simps(4) intro!: canonical_object)

lemma canonical_operation:
  assumes "operation_ok v"
  shows "canonical (operation_wire v)"
proof -
  have target: "canonical (target_wire t)" for t
    by (cases t) (simp_all del: canonical.simps(4) add: canonical_object)
  have errors: "canonical (error_wire e)" for e
    by (cases "oerr_instance e") (simp_all del: canonical.simps(4) add: error_wire_def canonical_object)
  have approval: "canonical (approval_wire a)" for a
    by (cases a) (simp_all del: canonical.simps(4) add: approval_wire_def canonical_object)
  have int: "canonical (JInt (req_expected_revision (op_request v)))" "canonical (JInt (op_created_at v))"
    "canonical (case op_completed_at v of None \<Rightarrow> JNull | Some at \<Rightarrow> JInt at)"
    using assms by (auto simp: operation_ok_def request_ok_def simp del: canonical.simps(1) split: option.splits)
  have "list_all (\<lambda>f. canonical (snd f)) (outcome_fields v)"
    using int errors approval by (simp add: outcome_fields_def list_all_iff del: canonical.simps(1,4))
  moreover have "canonical (JObject (request_fields (op_request v)))"
    unfolding request_fields_def using int(1) target
    by (intro canonical_object) (simp del: canonical.simps(1,4) split: option.splits)
  ultimately show ?thesis
    unfolding operation_wire_def by (intro canonical_foldl)
qed

section \<open>One file\<close>

definition kept_text :: "disk \<Rightarrow> string \<Rightarrow> string option" where
  "kept_text d name = map_option entry_contents (entry_of d name)"

lemma write_keeps:
  assumes "write_atomic name contents s = (r, t)" "take 9 name \<noteq> ''.pending-''"
  shows "(kept_text t name = kept_text s name \<or> kept_text t name = Some contents) \<and>
    (r = Inr () \<longrightarrow> kept_text t name = Some contents) \<and>
    (take 9 other \<noteq> ''.pending-'' \<longrightarrow> other \<noteq> name \<longrightarrow> kept_text t other = kept_text s other)"
proof -
  have other: "k \<noteq> temporary_name x" if "take 9 k \<noteq> ''.pending-''" for k x
    using that by (auto simp: temporary_name_def)
  show ?thesis
    using write_atomic_cases [OF assms(1) other [OF assms(2)]] other
    by (auto simp: replaces_def kept_text_def)
qed

lemma read_keeps:
  "read_optional name maximum s = (Inr v, t) \<Longrightarrow> v = kept_text s name \<and> kept_text t = kept_text s"
  by (auto simp: kept_text_def entry_of_def fun_eq_iff dest!: read_optional_Inr)

section \<open>Files that hold one list\<close>

locale stored_list =
  fixes name :: string and maximum :: nat and parser :: "json \<Rightarrow> 'a list result"
    and represent :: "'a list \<Rightarrow> json" and fine :: "'a list \<Rightarrow> bool" and canon :: "'a list \<Rightarrow> 'a list"
  assumes roundtrip: "parser (represent vs) = Inr ws \<longleftrightarrow> fine vs \<and> ws = canon vs"
    and fine_canon: "fine vs \<Longrightarrow> fine (canon vs) \<and> canon (canon vs) = canon vs"
    and printable: "fine vs \<Longrightarrow> canonical (represent vs)"
    and permanent: "take 9 name \<noteq> ''.pending-''"
begin

definition value_in :: "codec \<Rightarrow> storage \<Rightarrow> 'a list result" where
  "value_in J s = rbind (case kept_text (stg_directory s) name of None \<Rightarrow> Inr (JArray [])
     | Some bytes \<Rightarrow> ok_or (codec_parse J bytes) (failure_new Invalid ''Malformed private controller data'')) parser"

lemma read_value_in:
  "read_value J name maximum parser s = (Inr vs, t) \<Longrightarrow> value_in J s = Inr vs \<and> value_in J t = Inr vs"
  by (auto simp: read_value_def value_in_def in_directory_def op_iff split: prod.splits dest!: read_keeps)

lemma save_value_in:
  assumes "codec_ok J" "save_value J name maximum (represent vs) parser represent s = (r, t)"
  shows "(value_in J t = value_in J s \<or> value_in J t = Inr (canon vs)) \<and> (r = Inr () \<longrightarrow> value_in J t = Inr (canon vs))"
proof (cases "parser (represent vs)")
  case (Inl e)
  with assms(2) show ?thesis by (auto simp: save_value_def)
next
  case (Inr ws)
  with roundtrip have ws: "fine vs" "ws = canon vs" by auto
  show ?thesis
  proof (cases "maximum < length (codec_print J (represent ws))")
    case True
    with assms(2) Inr show ?thesis by (auto simp: save_value_def Let_def)
  next
    case False
    with assms(2) Inr obtain d where w: "write_atomic name (codec_print J (represent ws)) (stg_directory s) = (r, d)"
      and t: "t = s\<lparr>stg_directory := d\<rparr>"
      by (auto simp: save_value_def Let_def in_directory_def split: prod.splits)
    have "codec_parse J (codec_print J (represent ws)) = Some (represent ws)"
      using ws fine_canon printable assms(1) by (simp add: codec_okD)
    moreover have "parser (represent ws) = Inr ws" using ws fine_canon roundtrip by simp
    ultimately have "value_in J t = Inr ws" if "kept_text d name = Some (codec_print J (represent ws))"
      using that by (simp add: value_in_def t)
    moreover have "value_in J t = value_in J s" if "kept_text d name = kept_text (stg_directory s) name"
      using that by (simp add: value_in_def t)
    ultimately show ?thesis
      using write_keeps [OF w permanent] unfolding ws(2) by blast
  qed
qed

end

definition selections_canon :: "resume_selection list \<Rightarrow> resume_selection list" where
  "selections_canon vs = sort_key sel_fleet_id (map (\<lambda>v. v\<lparr>sel_instance_keys := sort (sel_instance_keys v)\<rparr>) vs)"

lemma sort_key_twice: "sort_key f (sort_key f xs) = sort_key f xs"
  by (rule sort_key_id_if_sorted) simp

lemma selections_canon_twice: "selections_canon (selections_canon vs) = selections_canon vs"
proof -
  let ?f = "\<lambda>v. v\<lparr>sel_instance_keys := sort (sel_instance_keys v)\<rparr>"
  have "map ?f (selections_canon vs) = selections_canon vs"
    unfolding selections_canon_def by (rule map_idI) (auto simp: sort_key_twice)
  then show ?thesis
    using sort_key_twice [of sel_fleet_id "map ?f vs"] by (simp add: selections_canon_def)
qed

lemma selections_ok_canon: "selections_ok vs \<Longrightarrow> selections_ok (selections_canon vs)"
  unfolding selections_ok_def selections_canon_def distinct_sort_key
  by (auto simp: list_all_iff resume_selection_ok_def comp_def)

lemma desired_ok_sorted: "desired_ok ds \<Longrightarrow> desired_ok (sort_key desired_key ds)"
  unfolding desired_ok_def sort_key_twice by (simp add: list_all_iff)

interpretation registrations_file: stored_list "''fleets.json''" mebibyte registrations_of registrations_wire
    registrations_ok "\<lambda>rs. rs"
  by unfold_locales (simp_all add: registrations_roundtrip canonical_registrations)

interpretation desired_file: stored_list "''desired-intent.json''" "2 * mebibyte" desired_of desired_wire
    desired_ok "sort_key desired_key"
  by unfold_locales (simp_all add: desired_roundtrip canonical_desired desired_ok_sorted sort_key_twice)

interpretation selections_file: stored_list "''resume-selections.json''" mebibyte selections_of selections_wire
    selections_ok selections_canon
  by unfold_locales (simp_all add: selections_roundtrip [folded selections_canon_def] canonical_selections
      selections_ok_canon selections_canon_twice)

section \<open>What the resume selections need of their store\<close>

locale selection_keeper =
  fixes store :: "'d selection_store" and kept :: "'d \<Rightarrow> resume_selection list \<Rightarrow> bool"
  assumes load_kept: "store_resume_selections store s = (Inr vs, t) \<Longrightarrow> kept s vs \<and> kept t vs"
    and save_kept: "store_save_resume_selections store vs s = (Inr (), t) \<Longrightarrow> kept t (selections_canon vs)"
    and kept_unique: "kept s vs \<Longrightarrow> kept s ws \<Longrightarrow> vs = ws"
begin

lemma load_twice:
  assumes "load_selections store records s = (Inr saved, t)" "load_selections store records' t = (Inr later, u)"
  shows "later = saved"
proof -
  from assms obtain vs ws where
    "store_resume_selections store s = (Inr vs, t)" "saved = om_of (map (\<lambda>v. (sel_fleet_id v, sel_instance_keys v)) vs)"
    "store_resume_selections store t = (Inr ws, u)" "later = om_of (map (\<lambda>v. (sel_fleet_id v, sel_instance_keys v)) ws)"
    by (auto simp: load_selections_def op_iff split: if_splits)
  then show ?thesis using load_kept kept_unique by blast
qed

lemma load_saved:
  assumes "store_save_resume_selections store (selection_values saved) s = (Inr (), t)" "om_ok saved"
    and "load_selections store records t = (Inr later, u)"
  shows "om_get fleet later = map_option sort (om_get fleet saved)"
proof -
  let ?entry = "\<lambda>v. (sel_fleet_id v, sel_instance_keys v)"
  from assms(3) obtain vs where vs: "store_resume_selections store t = (Inr vs, u)"
    "later = om_of (map ?entry vs)"
    by (auto simp: load_selections_def op_iff split: if_splits)
  have "vs = selections_canon (selection_values saved)"
    using load_kept [OF vs(1)] save_kept [OF assms(1)] kept_unique by blast
  then have entries: "set (map ?entry vs) = set (map (\<lambda>(f, ks). (f, sort ks)) saved)"
    by (auto simp: selections_canon_def selection_values_def image_image case_prod_beta)
  have keys: "distinct (map fst saved)" using assms(2) by (rule om_ok_distinct)
  then have "distinct (map sel_fleet_id vs)"
    unfolding \<open>vs = _\<close> selections_canon_def distinct_sort_key
    by (simp add: selection_values_def comp_def case_prod_beta)
  then have "distinct (map fst (map ?entry vs))" by (simp add: comp_def)
  moreover have "distinct (map fst (map (\<lambda>(f, ks). (f, sort ks)) saved))"
    using keys by (simp add: comp_def case_prod_beta)
  ultimately have "map_of (rev (map ?entry vs)) = map_of (map (\<lambda>(f, ks). (f, sort ks)) saved)"
    using entries map_of_inject_set [of "rev (map ?entry vs)" "map (\<lambda>(f, ks). (f, sort ks)) saved"]
    by (simp add: rev_map [symmetric])
  then show ?thesis
    using om_get_of [of fleet "map ?entry vs"] by (simp add: vs(2) om_get_def map_of_map)
qed

lemma load_after_stop:
  assumes "load_selections store records s = (Inr saved, s1)"
    and "stop_selection store saved fleet enabled None s1 = (Inr saved', s2)"
    and "load_selections store records' s2 = (Inr later, s3)"
  shows "om_get fleet later = (case om_get fleet saved of
     Some ks \<Rightarrow> if enabled = [] then Some ks else Some (sort enabled) | None \<Rightarrow> Some (sort enabled))"
proof -
  have ok: "om_ok saved"
    using assms(1) by (auto simp: load_selections_def op_iff split: if_splits)
  show ?thesis
  proof (cases "enabled = [] \<and> om_get fleet saved \<noteq> None")
    case True
    then have "s2 = s1" using assms(2) by (simp add: stop_selection_def)
    with True show ?thesis using load_twice [OF assms(1)] assms(3) by auto
  next
    case False
    then have saved': "saved' = om_put fleet (sort enabled) saved"
      "store_save_resume_selections store (selection_values saved') s1 = (Inr (), s2)"
      using stop_selection_Inr [OF assms(2)] by (auto simp: stopped_keys_def)
    with ok have "om_get fleet later = map_option sort (om_get fleet saved')"
      by (intro load_saved [OF saved'(2) _ assms(3)]) simp
    then show ?thesis
      using False sort_key_twice [of "\<lambda>x. x" enabled] by (auto simp: saved'(1) split: option.splits)
  qed
qed

end

text \<open>The file of the selections is such a store, for every printer and parser that keep their promise.\<close>

lemma selection_files_keeper:
  assumes "codec_ok J"
  shows "selection_keeper (selection_files J) (\<lambda>s vs. selections_file.value_in J s = Inr vs)"
proof
  show "store_resume_selections (selection_files J) s = (Inr vs, t) \<Longrightarrow>
      selections_file.value_in J s = Inr vs \<and> selections_file.value_in J t = Inr vs" for s t vs
    unfolding selection_files_def stored_selections_def by (simp add: selections_file.read_value_in)
  show "store_save_resume_selections (selection_files J) vs s = (Inr (), t) \<Longrightarrow>
      selections_file.value_in J t = Inr (selections_canon vs)" for s t vs
    using selections_file.save_value_in [OF assms] unfolding selection_files_def save_selections_def by auto
qed simp

interpretation letter_keeper: selection_keeper "selection_files letter_codec"
    "\<lambda>s vs. selections_file.value_in letter_codec s = Inr vs"
  by (rule selection_files_keeper) (rule letter_codec_ok)

text \<open>What a stop leaves in the map itself is what a later load finds.\<close>

lemma stop_selection_get:
  assumes "load_selections store records s = (Inr saved, s1)"
    and "stop_selection store saved fleet enabled None s1 = (Inr saved', s2)"
  shows "om_get fleet saved' = (case om_get fleet saved of
     Some ks \<Rightarrow> if enabled = [] then Some ks else Some (sort enabled) | None \<Rightarrow> Some (sort enabled))"
proof (cases "enabled = [] \<and> om_get fleet saved \<noteq> None")
  case True
  with assms(2) show ?thesis by (auto simp: stop_selection_def)
next
  case False
  have "om_ok saved"
    using assms(1) by (auto simp: load_selections_def op_iff split: if_splits)
  moreover from False stop_selection_Inr [OF assms(2)] have "saved' = om_put fleet (sort enabled) saved"
    by (auto simp: stopped_keys_def)
  ultimately show ?thesis using False by (auto split: option.splits)
qed


definition sample_storage :: storage where
  "sample_storage = (let d = \<lparr>disk_entries = [], disk_uid = 1000, disk_fresh = (\<lambda>n. replicate n CHR ''x''),
     disk_next = 0, disk_faults = []\<rparr> in \<lparr>stg_directory = d, stg_operations = d\<rparr>)"

definition sample_fleet :: registration where
  "sample_fleet = \<lparr>reg_fleet_id = ''0a0b0c0d-0001-0002-0003-0a0b0c0d0e0f'', reg_fleet_key = ''alpha'', reg_directory = ''/a'',
     reg_label = ''alpha'', reg_revision = 0, reg_digest = ''d''\<rparr>"

definition sample_agent :: "string \<Rightarrow> agent_instance" where
  "sample_agent k = \<lparr>ai_key = k, ai_name = k, ai_definition = ''d'', ai_workarea = ''w'',
     ai_workspace = None, ai_history_mode = None, ai_mirror_output = None, ai_runtime_options = None\<rparr>"

text \<open>Load, stop the fleet with two of its agents enabled, and load again.\<close>

definition stop_sample :: "(selections \<times> selections \<times> selections) storage_op" where
  "stop_sample =
     bind_op (load_selections (selection_files letter_codec) [sample_fleet]) (\<lambda>saved.
     bind_op (stop_selection (selection_files letter_codec) saved (reg_fleet_id sample_fleet) [''b'', ''a''] None) (\<lambda>stopped.
     bind_op (load_selections (selection_files letter_codec) [sample_fleet]) (\<lambda>later.
     return_op (saved, stopped, later))))"


section \<open>Operations\<close>

definition operation_in :: "codec \<Rightarrow> string \<Rightarrow> storage \<Rightarrow> operation option result" where
  "operation_in J oid s = (case kept_text (stg_operations s) (operation_name oid) of None \<Rightarrow> Inr None
     | Some bytes \<Rightarrow> rbind (operation_of_bytes J oid bytes) (\<lambda>v. Inr (Some v)))"

lemma operation_read_in:
  "operation_read J oid s = (Inr v, t) \<Longrightarrow> operation_in J oid s = Inr v \<and> identifier_ok oid"
  by (auto simp: operation_read_def operation_in_def in_operations_def op_iff check_iff
      split: prod.splits dest!: read_keeps)

lemma operation_name_permanent: "identifier_ok oid \<Longrightarrow> take 9 (operation_name oid) \<noteq> ''.pending-''"
  by (cases oid) (auto simp: identifier_ok_def operation_name_def lower_hex_def ascii_digit_def enumerate_Suc_eq byte_def)

lemma save_operation_in:
  assumes "codec_ok J" "save_operation J v s = (r, t)" "identifier_ok oid"
  shows "(operation_in J oid t = operation_in J oid s \<or>
      oid = req_id (op_request v) \<and> operation_in J oid t = Inr (Some v)) \<and>
    (r = Inr () \<longrightarrow> oid = req_id (op_request v) \<longrightarrow> operation_in J oid t = Inr (Some v))"
proof (cases "operation_of (operation_wire v)")
  case (Inl e)
  with assms(2) show ?thesis by (auto simp: save_operation_def)
next
  case (Inr w)
  with operation_wire_read have ok: "operation_ok v" "w = v" by auto
  let ?name = "operation_name (req_id (op_request v))" and ?bytes = "codec_print J (operation_wire v)"
  show ?thesis
  proof (cases "1048576 < length ?bytes")
    case True
    with assms(2) Inr show ?thesis by (auto simp: save_operation_def Let_def)
  next
    case False
    with assms(2) Inr obtain d where w: "write_atomic ?name ?bytes (stg_operations s) = (r, d)"
      and t: "t = s\<lparr>stg_operations := d\<rparr>"
      by (auto simp: save_operation_def Let_def in_operations_def split: prod.splits)
    have id: "identifier_ok (req_id (op_request v))" using ok by (simp add: operation_ok_def request_ok_def)
    have "codec_parse J ?bytes = Some (operation_wire v)"
      using canonical_operation [OF ok(1)] assms(1) by (rule codec_okD [rotated])
    then have new: "operation_in J (req_id (op_request v)) t = Inr (Some v)" if "kept_text d ?name = Some ?bytes"
      using that ok Inr by (simp add: operation_in_def t operation_of_bytes_def)
    have old: "operation_in J oid t = operation_in J oid s"
      if "kept_text d (operation_name oid) = kept_text (stg_operations s) (operation_name oid)"
      using that by (simp add: operation_in_def t)
    show ?thesis
      using write_keeps [OF w operation_name_permanent [OF id], of "operation_name oid"] new old
        operation_name_permanent [OF assms(3)]
      by (cases "oid = req_id (op_request v)") (auto simp: operation_name_def)
  qed
qed

text \<open>
  C7: Whatever system calls fail while an operation is saved, every operation on file is afterwards what
  it was before, or, for the one that is saved, the new record in full; and if the save reports success
  it is the new record.
\<close>
theorem saved_operation_kept:
  assumes "codec_ok J" "save_operation J v s = (r, t)"
    and "operation_read J oid s = (Inr old, s1)" "operation_read J oid t = (Inr found, t1)"
  shows "if oid = req_id (op_request v) then found = Some v \<or> found = old \<and> r \<noteq> Inr () else found = old"
  using save_operation_in [OF assms(1,2), of oid] operation_read_in [OF assms(3)] operation_read_in [OF assms(4)]
  by (cases "r = Inr ()") auto

text \<open>A save whose rename fails.\<close>

definition sample_operation :: operation where
  "sample_operation = \<lparr>op_request = \<lparr>req_id = ''0a0b0c0d-0001-0002-0003-0a0b0c0d0e0f'', req_target = DaemonTarget,
     req_action = Stop, req_expected_revision = 0, req_release_directory = None\<rparr>, op_status = OpRunning,
     op_created_at = 1000, op_completed_at = None, op_approval = None, op_errors = [], op_receipt_pending = False\<rparr>"

definition failing_storage :: storage where
  "failing_storage = sample_storage\<lparr>stg_operations := (stg_operations sample_storage)\<lparr>disk_faults :=
     [None, None, None, Some 0]\<rparr>\<rparr>"

theorem saved_operation_kept_witness:
  "fst (save_operation letter_codec sample_operation failing_storage) = Inl denied \<and>
   fst (operation_read letter_codec (req_id (op_request sample_operation))
     (snd (save_operation letter_codec sample_operation failing_storage))) = Inr None"
proof -
  let ?save = "save_operation letter_codec sample_operation failing_storage"
    and ?read = "operation_read letter_codec (req_id (op_request sample_operation))"
  have "fst ?save = Inl denied \<and> fst (?read failing_storage) = Inr None \<and>
      (case fst (?read (snd ?save)) of Inl e \<Rightarrow> False | Inr found \<Rightarrow> found \<noteq> Some sample_operation)" by code_simp
  then obtain t t1 t2 found where c: "?save = (Inl denied, t)" "?read failing_storage = (Inr None, t1)"
    "?read t = (Inr found, t2)" "found \<noteq> Some sample_operation"
    by (cases ?save; cases "?read failing_storage"; cases "?read (snd ?save)") (auto split: sum.splits)
  show ?thesis
    using saved_operation_kept [OF letter_codec_ok c(1-3)] c by simp
qed

end
