(* ===== verification/Controller_Files.thy ===== *)
theory Controller_Files
  imports Controller_Safety Storage_Safety
begin

text \<open>
  The controller on the files of its registry: what fleetd \<open>storage/src/registry.rs\<close> implements of the port
  \<open>Registry\<close> is the files of \<open>Fleetd_Storage\<close>; reading and writing the configuration of a fleet and the
  set-up of one are the other part, an argument here.
\<close>

definition file_registry :: "codec \<Rightarrow> storage registry \<Rightarrow> storage registry" where
  "file_registry J others = others\<lparr>
     store_resume_selections := stored_selections J, store_save_resume_selections := save_selections J,
     registry_registrations := stored_registrations J, registry_save_registrations := save_registrations J,
     registry_desired := stored_desired J, registry_save_desired := save_desired J,
     registry_pending_operations := pending_operations J, registry_operation := operation_read J,
     registry_save_operation := save_operation J, registry_prune_operations := prune_operations J\<rparr>"

lemma registrations_read:
  assumes "registrations_of v = Inr rs"
  shows "fleets_ok rs"
proof -
  from assms obtain vs us where vs: "check_list v 0 100 = Inr vs" "collect_results (map registration_of vs) = Inr us"
    and "length rs = length us" "distinct (map reg_directory rs)" "distinct (map reg_fleet_key rs)"
    by (auto simp: registrations_of_def op_iff Let_def split: if_splits)
  moreover have "length us = length vs"
    using collect_results_all [OF vs(2), of "\<lambda>_. True"] by simp
  ultimately show ?thesis by (simp add: fleets_ok_def check_iff)
qed

lemma file_registry_lawful:
  assumes "con_registry con = file_registry J others"
  shows "lawful_fleets con"
proof -
  have "fleets_ok rs" if "stored_registrations J d = (Inr rs, d')" for d d' rs
    using that unfolding stored_registrations_def read_value_def by (auto simp: op_iff dest: registrations_read)
  then show ?thesis
    unfolding lawful_fleets_def assms by (auto simp: file_registry_def split: sum.splits) (metis prod.collapse)
qed

text \<open>
  C10: A controller on its files never has more than a hundred registered fleets, nor two with one
  directory or one key, whatever the files held when it was opened and whatever is registered, renamed,
  edited and removed at the same time.
\<close>
theorem registered_fleets_in_order:
  assumes "con_registry con = file_registry J others" "controller_reaches con (ts, w)"
  shows "length (cs_records (d_state w)) \<le> 100 \<and> distinct (map reg_directory (cs_records (d_state w))) \<and>
    distinct (map reg_fleet_key (cs_records (d_state w)))"
  using reaches_orderly [OF assms(2)] file_registry_lawful [OF assms(1)] by (simp add: fleets_ok_def)

text \<open>A controller on empty files, and a caller that registers a fleet.\<close>

definition beta_configuration :: configuration where
  "beta_configuration = alpha_configuration\<lparr>conf_directory := ''/b'', conf_digest := replicate 64 CHR ''0''\<rparr>"

definition no_others :: "storage registry" where
  "no_others = \<lparr>
     store_resume_selections = return_op [], store_save_resume_selections = (\<lambda>v. return_op ()),
     registry_registrations = return_op [], registry_save_registrations = (\<lambda>v. return_op ()),
     registry_desired = return_op [], registry_save_desired = (\<lambda>v. return_op ()),
     registry_pending_operations = return_op [], registry_operation = (\<lambda>k. return_op None),
     registry_save_operation = (\<lambda>v. return_op ()), registry_prune_operations = (\<lambda>c m. return_op False),
     registry_load = (\<lambda>d. return_op beta_configuration),
     registry_preview_roster = (\<lambda>c r. return_op c), registry_write_roster = (\<lambda>c r. return_op c),
     registry_setup = (\<lambda>q. fail_op (missing ''No set-up'')), registry_complete_setup = (\<lambda>k. return_op ()),
     registry_retry_setup = (\<lambda>k n. return_op ())\<rparr>"

definition file_controller :: "(storage, nat) fleet_controller" where
  "file_controller = \<lparr>con_registry = file_registry letter_codec no_others, con_execution = sample_execution,
     con_clock = (\<lambda>e. (Inr 1000, e)), con_fresh = (\<lambda>e. (reg_fleet_id sample_fleet, e)),
     con_choice = (\<lambda>e. True), con_identity = \<lparr>ident_name = ''host'', ident_metadata = None\<rparr>\<rparr>"

definition opened_files :: "(storage, nat) daemon" where
  "opened_files = snd (open_controller file_controller (new_daemon sample_storage 1))"

definition added_fleet :: "((storage, nat) daemon, unit) task list \<times> (storage, nat) daemon" where
  "added_fleet = the (follow_all file_controller [Arrive (AddCall ''/b''), RunTask 0, RunTask 0, RunTask 0] ([], opened_files))"

theorem registered_fleets_in_order_witness:
  "map reg_directory (cs_records (d_state (snd added_fleet))) = [''/b''] \<and>
   distinct (map reg_fleet_key (cs_records (d_state (snd added_fleet))))"
proof -
  have "fst (open_controller file_controller (new_daemon sample_storage 1)) = Inr 1000" by code_simp
  then have opened: "open_controller file_controller (new_daemon sample_storage 1) = (Inr 1000, opened_files)"
    by (simp add: opened_files_def prod_eq_iff)
  have "case follow_all file_controller [Arrive (AddCall ''/b''), RunTask 0, RunTask 0, RunTask 0] ([], opened_files) of
      None \<Rightarrow> False | Some (ts, w) \<Rightarrow> map reg_directory (cs_records (d_state w)) = [''/b'']" by code_simp
  then obtain ts w where run: "follow_all file_controller [Arrive (AddCall ''/b''), RunTask 0, RunTask 0, RunTask 0]
      ([], opened_files) = Some (ts, w)" and one: "map reg_directory (cs_records (d_state w)) = [''/b'']"
    by (auto split: option.splits)
  have "controller_reaches file_controller (ts, w)"
    unfolding controller_reaches_def using opened follow_all_moves [OF run] by blast
  moreover have "con_registry file_controller = file_registry letter_codec no_others"
    by (simp add: file_controller_def)
  ultimately show ?thesis
    using registered_fleets_in_order [of file_controller letter_codec no_others ts w] run one
    by (simp add: added_fleet_def)
qed

end
