(* ===== verification/Controller_Restart.thy ===== *)
theory Controller_Restart
  imports Controller_Files
begin

text \<open>
  What opening a controller does to the operations a previous one left behind: the listing of the files
  finds every operation that was not completed, and each of them is closed before the controller starts.
\<close>

section \<open>Listing the operations\<close>

definition spares :: "string \<Rightarrow> disk \<Rightarrow> disk \<Rightarrow> bool" where
  "spares name d d' \<longleftrightarrow> (\<forall>other. other \<noteq> name \<longrightarrow> kept_text d' other = kept_text d other)"

interpretation spares: op_steps "spares name"
  by unfold_locales (auto simp: spares_def)

lemma spares_call:
  assumes "\<And>entries entries' v other. f entries = Inr (entries', v) \<Longrightarrow> other \<noteq> name \<Longrightarrow>
    om_get other entries' = om_get other entries"
  shows "op_steps.steps (spares name) (or_denied (sys_call f))"
proof (rule spares.stepsI)
  fix w
  obtain r t where c: "sys_call f w = (r, t)" by fastforce
  have "spares name w t"
    using sys_call_cases [OF c] assms [of "disk_entries w" "disk_entries t"]
    by (cases r) (auto simp: spares_def kept_text_def entry_of_def)
  then show "spares name w (snd (or_denied (sys_call f) w))"
    by (auto simp: or_denied_def c split: sum.splits)
qed

lemma remove_spares: "op_steps.steps (spares name) (remove_entry name)"
proof -
  have open_existing: "or_denied (\<lambda>s. if False \<and> c s then m s else sys_open name True s) = or_denied (sys_open name True)"
    for c and m :: "disk \<Rightarrow> (errno + dir_entry) \<times> disk"
    by (rule ext) (simp add: or_denied_def)
  have "op_steps.steps (spares name) (or_denied (sys_open name True))"
    unfolding sys_open_def by (rule spares_call) (auto split: option.splits if_splits)
  moreover have sync: "op_steps.steps (spares name) (or_denied sys_check)"
    unfolding sys_check_def by (rule spares_call) simp
  moreover have "op_steps.steps (spares name) (check_file e)" for e
  proof -
    have "op_steps.steps (spares name) (\<lambda>s. (if \<not> private_entry (disk_uid s) e then Inl denied else Inr (length (entry_contents e)), s))"
      by (rule spares.steps_read)
    then show ?thesis unfolding check_file_def by (intro spares.steps_bind sync)
  qed
  moreover have "op_steps.steps (spares name) (or_denied (sys_unlink name))"
    unfolding sys_unlink_def by (rule spares_call) (auto split: if_splits)
  ultimately show ?thesis
    unfolding remove_entry_def open_private_def open_existing sync_directory_def by (intro spares.steps_rules)
qed

lemma list_names_Inr:
  "list_names maximum names found s = (Inr listed, t) \<Longrightarrow> listed = found @ names \<and> disk_entries t = disk_entries s"
proof (induction names arbitrary: found s)
  case (Cons name names)
  then obtain s1 where "or_denied sys_check s = (Inr (), s1)" "list_names maximum names (found @ [name]) s1 = (Inr listed, t)"
    by (auto simp: op_iff split: if_splits)
  with Cons.IH sync_cases show ?case by fastforce
qed simp

lemma entry_names_Inr:
  assumes "entry_names maximum s = (Inr names, t)"
  shows "set names = fst ` set (disk_entries s) \<and> disk_entries t = disk_entries s"
proof -
  from assms obtain listed s1 where l: "or_denied (sys_call (\<lambda>entries. Inr (entries, map fst entries))) s = (Inr listed, s1)"
    and r: "\<exists>found. list_names maximum listed [] s1 = (Inr found, t) \<and> names = sort found"
    unfolding entry_names_def by (auto simp: op_iff)
  from l have "listed = map fst (disk_entries s) \<and> disk_entries s1 = disk_entries s"
    by (elim or_denied_cases) (auto dest!: sys_call_cases split: sum.splits)
  with r show ?thesis by (auto simp: image_iff dest!: list_names_Inr) force
qed

text \<open>Two states of the storage that hold the same operations.\<close>

definition same_operations :: "storage \<Rightarrow> storage \<Rightarrow> bool" where
  "same_operations s t \<longleftrightarrow> (\<forall>oid. identifier_ok oid \<longrightarrow>
     kept_text (stg_operations t) (operation_name oid) = kept_text (stg_operations s) (operation_name oid))"

lemma same_operations_trans: "same_operations s t \<Longrightarrow> same_operations t u \<Longrightarrow> same_operations s u"
  by (simp add: same_operations_def)

lemma same_operations_in: "same_operations s t \<Longrightarrow> identifier_ok oid \<Longrightarrow> operation_in J oid t = operation_in J oid s"
  by (simp add: same_operations_def operation_in_def)

lemma in_operations_Inr:
  "in_operations m s = (Inr v, t) \<longleftrightarrow> (\<exists>d. m (stg_operations s) = (Inr v, d) \<and> t = s\<lparr>stg_operations := d\<rparr>)"
  by (auto simp: in_operations_def split: prod.splits)

lemma operation_read_same: "operation_read J oid s = (Inr v, t) \<Longrightarrow> same_operations s t"
  by (auto simp: operation_read_def op_iff in_operations_Inr same_operations_def dest!: read_keeps)

lemma temporary_spared:
  assumes "in_operations (remove_entry name) s = (Inr u, t)" "take 9 name = ''.pending-''"
  shows "same_operations s t"
proof -
  have "spares name (stg_operations s) (snd (remove_entry name (stg_operations s)))"
    using remove_spares by (rule spares.stepsD)
  moreover have "identifier_ok oid \<Longrightarrow> operation_name oid \<noteq> name" for oid
    using assms(2) operation_name_permanent by blast
  ultimately show ?thesis
    using assms by (auto simp: in_operations_Inr same_operations_def spares_def)
qed

lemma suffix_operation_name [simp]: "strip_suffix ''.json'' (operation_name oid) = Some oid"
  by (simp add: operation_name_def)

lemma operation_files_of_Inr:
  "operation_files_of names files s = (Inr ids, t) \<Longrightarrow> same_operations s t \<and> set files \<subseteq> set ids \<and>
     (\<forall>oid. identifier_ok oid \<longrightarrow> operation_name oid \<in> set names \<longrightarrow> oid \<in> set ids)"
proof (induction names arbitrary: files s)
  case Nil
  then show ?case by (simp add: same_operations_def)
next
  case (Cons name names)
  show ?case
  proof (cases "take 9 name = ''.pending-''")
    case True
    with Cons.prems obtain s1 where r: "in_operations (remove_entry name) s = (Inr (), s1)"
      and rest: "operation_files_of names files s1 = (Inr ids, t)"
      by (auto simp: op_iff)
    have "identifier_ok oid \<Longrightarrow> operation_name oid \<noteq> name" for oid
      using True operation_name_permanent by blast
    with Cons.IH [OF rest] temporary_spared [OF r True] show ?thesis
      by (auto intro: same_operations_trans)
  next
    case False
    with Cons.prems obtain oid where o: "strip_suffix ''.json'' name = Some oid"
      and rest: "operation_files_of names (files @ [oid]) s = (Inr ids, t)"
      by (auto simp: op_iff simp del: strip_suffix.simps)
    have "operation_name other = name \<Longrightarrow> other = oid" for other
      using o suffix_operation_name [of other] by simp
    with Cons.IH [OF rest] show ?thesis by auto
  qed
qed

lemma operation_in_named:
  "operation_in J oid s = Inr (Some v) \<Longrightarrow> operation_name oid \<in> fst ` set (disk_entries (stg_operations s)) \<and>
     req_id (op_request v) = oid"
  by (auto simp: operation_in_def kept_text_def entry_of_def om_get_def operation_of_bytes_def op_iff
      split: option.splits if_splits dest!: map_of_SomeD) force

lemma pending_of_Inr:
  "pending_of J ids pending s = (Inr ps, t) \<Longrightarrow> same_operations s t \<and> set pending \<subseteq> set ps \<and>
     (\<forall>oid v. oid \<in> set ids \<longrightarrow> operation_in J oid s = Inr (Some v) \<longrightarrow> op_completed_at v = None \<longrightarrow> v \<in> set ps)"
proof (induction ids arbitrary: pending s)
  case Nil
  then show ?case by (simp add: same_operations_def)
next
  case (Cons oid ids)
  from Cons.prems obtain v s1 where r: "operation_read J oid s = (Inr (Some v), s1)"
    and rest: "pending_of J ids (if op_completed_at v = None \<or> op_receipt_pending v then pending @ [v] else pending) s1 =
      (Inr ps, t)"
    by (auto simp: op_iff)
  have same: "same_operations s s1" using r by (rule operation_read_same)
  have own: "operation_in J oid s = Inr (Some v)" using operation_read_in [OF r] by simp
  have same_in: "operation_in J k s1 = operation_in J k s" for k
    using r by (auto simp: operation_read_def op_iff in_operations_Inr operation_in_def dest!: read_keeps)
  show ?case
    using Cons.IH [OF rest] same own by (auto simp: same_in intro: same_operations_trans split: if_splits)
qed

lemma pending_operations_Inr:
  assumes "pending_operations J s = (Inr ps, t)"
  shows "same_operations s t \<and> (\<forall>oid v. identifier_ok oid \<longrightarrow> operation_in J oid s = Inr (Some v) \<longrightarrow>
    op_completed_at v = None \<longrightarrow> v \<in> set ps)"
proof -
  from assms obtain names d ids s1 where n: "entry_names 100000 (stg_operations s) = (Inr names, d)"
    and f: "operation_files_of names [] (s\<lparr>stg_operations := d\<rparr>) = (Inr ids, s1)" and p: "pending_of J ids [] s1 = (Inr ps, t)"
    by (auto simp: pending_operations_def operation_files_def op_iff in_operations_Inr)
  note names = entry_names_Inr [OF n]
  have "same_operations s (s\<lparr>stg_operations := d\<rparr>)"
    using names by (simp add: same_operations_def kept_text_def entry_of_def)
  with operation_files_of_Inr [OF f] have same: "same_operations s s1" by (blast intro: same_operations_trans)
  have "v \<in> set ps" if "identifier_ok oid" "operation_in J oid s = Inr (Some v)" "op_completed_at v = None" for oid v
  proof -
    have "oid \<in> set ids"
      using operation_files_of_Inr [OF f] operation_in_named [OF that(2)] that(1) names by auto
    then show ?thesis
      using pending_of_Inr [OF p] same_operations_in [OF same that(1)] that by auto
  qed
  with same pending_of_Inr [OF p] show ?thesis by (blast intro: same_operations_trans)
qed

section \<open>Closing what was interrupted\<close>

definition completed_in :: "codec \<Rightarrow> storage \<Rightarrow> string \<Rightarrow> bool" where
  "completed_in J s oid \<longleftrightarrow> (\<forall>v. operation_in J oid s = Inr (Some v) \<longrightarrow> op_completed_at v \<noteq> None)"

definition settling :: "codec \<Rightarrow> (storage, 'e) daemon \<Rightarrow> (storage, 'e) daemon \<Rightarrow> bool" where
  "settling J w w' \<longleftrightarrow> (\<forall>oid. identifier_ok oid \<longrightarrow> completed_in J (d_disk w) oid \<longrightarrow> completed_in J (d_disk w') oid)"

interpretation settling: op_steps "settling J"
  by unfold_locales (auto simp: settling_def)

interpretation aside: op_steps "\<lambda>s t :: storage. stg_operations t = stg_operations s"
  by unfold_locales auto

abbreviation leaves_operations :: "(storage \<Rightarrow> 'x \<times> storage) \<Rightarrow> bool" where
  "leaves_operations m \<equiv> op_steps.steps (\<lambda>s t. stg_operations t = stg_operations s) m"

lemma aside_directory: "leaves_operations (in_directory m)"
  by (auto simp: aside.steps_def in_directory_def split: prod.splits)

lemma aside_value:
  "leaves_operations (read_value J name maximum parser)" "leaves_operations (save_value J name maximum v parser represent)"
  unfolding read_value_def save_value_def Let_def by (intro aside.steps_rules aside_directory)+

lemma settling_same: "d_disk w' = d_disk w \<Longrightarrow> settling J w w'"
  by (simp add: settling_def)

lemma settling_disk:
  assumes "leaves_operations m"
  shows "op_steps.steps (settling J) (on_disk m)"
proof (rule settling.stepsI)
  fix w :: "(storage, 'b) daemon"
  have "stg_operations (snd (m (d_disk w))) = stg_operations (d_disk w)" using assms by (rule aside.stepsD)
  then show "settling J w (snd (on_disk m w))"
    by (auto simp: on_disk_def settling_def completed_in_def operation_in_def split: prod.splits)
qed

lemma settling_parts:
  "op_steps.steps (settling J) (on_env n)" "op_steps.steps (settling J) (state_of g)"
  "op_steps.steps (settling J) (change f)" "op_steps.steps (settling J) (spawn_job j)"
  by (auto simp: settling.steps_def on_env_def state_of_def change_def spawn_job_def intro: settling_same
      split: prod.splits)

lemmas settling_rules = settling.steps_rules settling_parts settling_disk

lemma settling_save:
  assumes "codec_ok J" "op_completed_at v \<noteq> None"
  shows "op_steps.steps (settling J) (on_disk (save_operation J v))"
proof (rule settling.stepsI)
  fix w :: "(storage, 'b) daemon"
  obtain r t where s: "save_operation J v (d_disk w) = (r, t)" by fastforce
  have "completed_in J t oid" if "identifier_ok oid" "completed_in J (d_disk w) oid" for oid
    using save_operation_in [OF assms(1) s that(1)] assms(2) that(2) by (auto simp: completed_in_def)
  then show "settling J w (snd (on_disk (save_operation J v) w))"
    by (simp add: on_disk_def settling_def s)
qed

lemma file_registry_simps [simp]:
  "store_resume_selections (file_registry J others) = stored_selections J"
  "store_save_resume_selections (file_registry J others) = save_selections J"
  "registry_registrations (file_registry J others) = stored_registrations J"
  "registry_desired (file_registry J others) = stored_desired J"
  "registry_save_desired (file_registry J others) = save_desired J"
  "registry_pending_operations (file_registry J others) = pending_operations J"
  "registry_save_operation (file_registry J others) = save_operation J"
  "registry_load (file_registry J others) = registry_load others"
  by (simp_all add: file_registry_def)

lemma aside_selections:
  assumes "con_registry con = file_registry J others"
  shows "leaves_operations (load_selections (con_registry con) records)"
    "leaves_operations (stop_selection (con_registry con) saved fleet enabled k)"
    "leaves_operations (stored_registrations J)" "leaves_operations (stored_desired J)"
    "leaves_operations (stored_selections J)" "leaves_operations (save_desired J vs)"
  unfolding load_selections_def stop_selection_def persist_selections_def assms file_registry_simps Let_def
    stored_selections_def save_selections_def stored_registrations_def stored_desired_def save_desired_def
  by (intro aside.steps_rules aside_value)+

lemma settling_close:
  assumes "codec_ok J" "con_registry con = file_registry J others"
  shows "op_steps.steps (settling J) (close_interrupted con v)"
proof -
  note files = settling_disk [OF aside_selections(1) [OF assms(2)]] settling_disk [OF aside_selections(2) [OF assms(2)]]
    settling_disk [OF aside_selections(6) [OF assms(2)]]
  have "op_steps.steps (settling J) (save_selection con fleet ks k)" for fleet ks k
    unfolding save_selection_def by (intro settling.steps_rules settling_parts files)
  moreover have "op_steps.steps (settling J) (set_intent con fleet ks b)" for fleet ks b
    unfolding set_intent_def assms(2) file_registry_simps by (intro settling.steps_rules settling_parts files)
  ultimately show ?thesis
    unfolding close_interrupted_def assms(2) file_registry_simps
    by (intro settling.steps_rules settling_parts settling_save [OF assms(1)]) simp_all
qed

lemma close_closes:
  assumes "codec_ok J" "con_registry con = file_registry J others" "close_interrupted con v w = (Inr u, w')"
    and "identifier_ok (req_id (op_request v))"
  shows "completed_in J (d_disk w') (req_id (op_request v))"
proof -
  from assms(3) obtain now w1 where
    "on_disk (save_operation J (v\<lparr>op_status := OpFailed, op_completed_at := Some now, op_approval := None,
       op_errors := [interrupted_error]\<rparr>)) w1 = (Inr u, w')"
    by (auto simp: close_interrupted_def op_iff assms(2))
  then obtain t where s: "save_operation J (v\<lparr>op_status := OpFailed, op_completed_at := Some now, op_approval := None,
       op_errors := [interrupted_error]\<rparr>) (d_disk w1) = (Inr (), t)" and t: "d_disk w' = t"
    by (auto simp: on_disk_def split: prod.splits)
  show ?thesis
    using save_operation_in [OF assms(1) s assms(4)] by (simp add: completed_in_def t)
qed

lemma for_each_closes:
  assumes "codec_ok J" "con_registry con = file_registry J others"
  shows "for_each_op (close_interrupted con) vs w = (Inr u, w') \<Longrightarrow> v \<in> set vs \<Longrightarrow>
    identifier_ok (req_id (op_request v)) \<Longrightarrow> completed_in J (d_disk w') (req_id (op_request v))"
proof (induction vs arbitrary: w)
  case (Cons x vs)
  then obtain w1 where one: "close_interrupted con x w = (Inr (), w1)" "for_each_op (close_interrupted con) vs w1 = (Inr u, w')"
    by (auto simp: op_iff)
  show ?case
  proof (cases "v = x")
    case True
    have "settling J w1 (snd (for_each_op (close_interrupted con) vs w1))"
      by (intro settling.stepsD settling.steps_for_each settling_close [OF assms])
    with close_closes [OF assms one(1)] True Cons.prems one(2) show ?thesis by (auto simp: settling_def)
  next
    case False
    with Cons one show ?thesis by auto
  qed
qed simp


text \<open>The files of a controller that was killed while an operation ran.\<close>

definition interrupted_storage :: storage where
  "interrupted_storage = sample_storage\<lparr>stg_operations := (stg_operations sample_storage)\<lparr>disk_entries :=
     [(operation_name (req_id (op_request sample_operation)),
       (new_file 1000)\<lparr>entry_contents := write_json (operation_wire sample_operation)\<rparr>)]\<rparr>\<rparr>"

definition reopened :: "(storage, nat) daemon" where
  "reopened = snd (open_controller file_controller (new_daemon interrupted_storage 1))"


end
