(* ===== verification/Spec2Isabelle.thy ===== *)
theory Spec2Isabelle
  imports Kernel_Time Policy Session Members Retention Schedule_Times Schedule_Zones Receiver_Gate Listener_Budget
    Native_Lifecycle Room_Agents Recovery_Race Controller_Restart
begin

text \<open>
  \<^bold>\<open>A verification development for the control plane.\<close>

  The repository is a control plane for fleets of AI agents. A server (\<open>src/services/crossfire\<close>)
  keeps people, agents, fleets, rooms and decisions in one SQLite database and answers a messaging
  backend, its users and the controllers of fleets. A controller (\<open>src/services/fleetd\<close>) runs beside the
  agents of a machine: it starts, recovers and stops their native runtimes and reports to the server.
  This development models the Rust implementation of the logic both rest on. Paths below are under
  \<open>src/services/crossfire/rust/packages\<close> unless they say fleetd, which is
  \<open>src/services/fleetd/rust/packages\<close>.

  \<^bold>\<open>Conventions.\<close> A Rust \<open>Result<T>\<close> is the sum \<open>failure + 'a\<close>, \<open>?\<close> is \<open>rbind\<close>; a fallible operation
  on a state is a function from the state to a result and a new state, \<open>bind_op\<close> its \<open>?\<close>, and
  \<open>transaction\<close> restores the state when its body fails (\<open>Prelude\<close>). A \<open>str\<close> is its UTF-8 bytes; lengths in
  UTF-16 units or characters decode them as the code does (\<open>Kernel_Text\<close>). Integers that can overflow
  are checked or of their width: an \<open>i64\<close> is an \<open>int\<close> whose range is written out where the code checks it,
  the masks of the calendar fields are 64-bit words. Clocks, fresh identifiers, digests, the messaging
  backend, the printer and parser of JSON, the data of a time zone and the calendar of chrono are code the
  repository only calls: arguments, with what they promise as a named hypothesis that a witness
  discharges. A map of the standard library is the list of its entries in key order (\<open>Ordered_Map\<close>).

  \<^bold>\<open>Kernel\<close> (\<open>kernel/src\<close>). \<open>Kernel_Failure\<close>: error codes and failures. \<open>Kernel_Text\<close>: truncation at
  character boundaries, opaque identifiers, room contexts of histories, the bounded write buffer; its
  lemmas show that truncation is the longest fitting prefix and that the buffer never passes its bound.
  \<open>Kernel_Time\<close>: the printer and the parser of timestamps, inverse to each other on exactly the
  canonical texts.

  \<^bold>\<open>Storage\<close> (\<open>adapter-sqlite/src\<close>, \<open>database/management/sqlite/schema.json\<close>). \<open>Sql\<close> gives tables and
  statements with the order in which SQLite checks constraints; \<open>Store\<close> and \<open>Room_Tables\<close> the tables the
  model uses with their CHECK, UNIQUE and FOREIGN KEY clauses; \<open>Store_Core\<close>, \<open>Store_Fleet\<close>,
  \<open>Store_Decisions\<close>, \<open>Store_Agents\<close> and \<open>Store_Rooms\<close> one definition per repository method, the
  triggers included. \<open>Identity\<close>, \<open>Permissions\<close>, \<open>Fleet_Values\<close>, \<open>Decision_Values\<close> and \<open>Room_Values\<close>
  hold the domain values and the codecs of their rows.

  \<^bold>\<open>Authorization and members\<close> (\<open>domain/src/{authorization,member,policy,session}\<close>). \<open>Authorization\<close>
  characterises exactly whom a permission check admits; \<open>Members\<close> shows that an administrator always
  remains, that revocation is permanent and reaches the owned agents; \<open>Policy\<close> that a change is made
  against the current revision or not at all; \<open>Session\<close> that sessions are bounded, authenticate until
  they expire and never after they end. \<open>Progress\<close> and \<open>Outcomes\<close> hold the two program logics these
  proofs share: operations that only move forward in an order, and triples that a transaction keeps.

  \<^bold>\<open>Fleets and listeners\<close> (\<open>domain/src/fleet/authority.rs\<close>, \<open>domain/src/listener.rs\<close>).
  \<open>Fleet_Authority\<close> characterises the tokens that authenticate a controller; \<open>Listener\<close> shows when a run
  is admitted, that no heartbeat loses or rewrites a run, and that active time is bounded by elapsed time.

  \<^bold>\<open>Native decisions\<close> (\<open>domain/src/runtime/decisions.rs\<close>). \<open>Decisions\<close> models the calls;
  \<open>Decision_Docket\<close> states the abstract machine of a decision and proves that the stored tables refine
  it, so that a decision is answered at most once and the agent polls exactly the submitted answers, in the order
  of their questions, which is the order of the index SQLite reads. \<open>Retention\<close> models the retention
  window (\<open>domain/src/logging.rs\<close>) and what it deletes of decisions
  (\<open>adapter-sqlite/src/logging/runtime.rs\<close>): a settled decision stays as it is until retention deletes it.

  \<^bold>\<open>Rooms\<close> (\<open>domain/src/{agent,wake}.rs\<close>, \<open>domain/src/room_access\<close>). \<open>Room_Authority\<close> checks a change of a
  grant, \<open>Room_Service\<close> makes it with the messaging backend asked outside the transaction,
  \<open>Room_Reconcile\<close> makes the backend agree, \<open>Owner_Conversation\<close> establishes the private conversation of an
  agent, \<open>Room_Read\<close> gives the views and \<open>Room_Plan\<close> previews and applies a reviewed plan.
  \<open>Fleet_Coordination\<close> (\<open>domain/src/fleet/coordination.rs\<close>) approves the coordination policy of an agent,
  which rewrites its grants and delegations. While the program waits for the backend other tasks go on:
  the operations are defined for any change of \<open>'b room_world\<close> meanwhile. \<open>Room_Moves\<close> collects every
  transaction of the program that writes rooms as one transition relation, \<open>room_move\<close>, whose other moves
  leave the rooms alone, and shows that each move keeps the invariant of \<open>Room_Invariants\<close>, moves grants only
  forward in their revisions and forgets no private conversation. \<open>Room_Agents\<close> concludes that a private
  conversation stays private and answerable, and what a change by an agent can touch when any moves of
  the program happen while it waits.

  \<^bold>\<open>Schedules\<close> (\<open>adapter-schedule/src\<close>). \<open>Schedule_Fields\<close> parses the five fields, \<open>Schedule\<close>
  searches the next time, \<open>Schedule_Zones\<close> is the table of zones and its search; \<open>Schedule_Times\<close> shows
  that the search ends, that its answer is later than the time asked about, and, in a zone of one
  offset, that it is exactly the earliest minute selected. The search of the code is bounded by the last
  day of the calendar, and so is the model's: no fuel is involved.

  \<^bold>\<open>Agent hosts\<close> (\<open>agent-core/src/{receiver_gate,listener_budget}.rs\<close>, fleetd
  \<open>domain/src/{lifecycle_observer,native_lifecycle}\<close>). State machines over \<open>Transition\<close>: each critical
  section of the code is one move and the moves of all tasks interleave freely. \<open>Receiver_Gate\<close>: queries
  and publications exclude each other, and the gate reopens from every reachable state;
  \<open>Listener_Budget\<close>: the work of one host is bounded; \<open>Native_Lifecycle\<close>: one native execution runs at a
  time, with the saved session, and an accepted message is kept until it is settled. A caller that gives
  up drops its future: \<open>task_dropped\<close> of \<open>lifecycle_move\<close> drops the task that holds or waits for the
  transition lock wherever it awaits. \<open>lc_live\<close> names the native executions that were started and not yet
  proved closed.

  \<^bold>\<open>Fleet controller\<close> (fleetd \<open>domain/src/{model,controller_model}.rs\<close>, \<open>contracts/src\<close>).
  \<open>Fleetd_Model\<close> holds its values; \<open>Contract_Values\<close> the checks of JSON values
  (\<open>contracts/src/validation.rs\<close>); \<open>Fleetd_Contracts\<close> and \<open>Operation_Contract\<close> the stored forms of
  registrations, desired bindings, resume selections and operations, each read back exactly if it is within
  the bounds of its record. \<open>Resume_Selection\<close> is the map of the agents a later start resumes.

  \<^bold>\<open>Its files\<close> (\<open>adapter-filesystem/src/lib.rs\<close>, fleetd \<open>storage/src/registry.rs\<close>).
  \<open>Private_Directory\<close> models the files of one directory, every system call of which may fail;
  \<open>Fleetd_Storage\<close> the registry kept in them. \<open>Storage_Safety\<close> shows that a save leaves the old value or the
  new one in full, and that a stopped fleet resumes the agents it was stopped with.

  \<^bold>\<open>Its tasks\<close> (fleetd \<open>domain/src/{controller,controller_ports}.rs\<close>, \<open>domain/src/controller\<close>). \<open>Tasks\<close> gives
  asynchronous code: a task is finished, or pending on a condition with one atomic step and what is left
  after it; \<open>machine_move\<close> interleaves tasks and arriving calls in every way. \<open>Controller_State\<close> is the state
  and the two ports, \<open>Controller_View\<close> what happens under the lock, \<open>Controller_Recovery\<close> launching,
  recovering, restoring and closing, \<open>Controller_Actions\<close> and \<open>Controller_Operations\<close> the lifecycle
  operations, \<open>Controller_Registry\<close> registration, set-up, opening and the machine of all calls. The recovery
  loop of the code has no bound; its next round is spawned instead, so that every task is finite and no
  fuel is involved. \<open>Controller_Runs\<close> and \<open>Controller_Safety\<close> show that only wanted agents are launched and
  nothing runs after a close; \<open>Controller_Files\<close> and \<open>Controller_Restart\<close>, for a controller on the
  files above, that its fleets are in order and that opening it closes the operations an earlier one left
  unfinished. \<open>Recovery_Race\<close> is a run in which a recovery starts an agent that an operation has started
  meanwhile, and its failure is recorded as that of the agent that runs.

  \<^bold>\<open>Examples.\<close> \<open>Sample_Store\<close> and \<open>Sample_Rooms\<close> are two databases that satisfy every constraint,
  \<open>Sample_Controller\<close> a controller with one fleet, \<open>Sample_Codec\<close> a printer and a parser that keep their
  promise; the witnesses of the properties evaluate the operations on them.

  \<^bold>\<open>Not modelled.\<close> The adapters of external programs and services (Codex, Pi, Matrix, HTTP, processes,
  sockets and locks), because their behaviour lies in code outside the repository; the asynchronous glue of the agent
  runtime around the gate, the budget and the native lifecycle; the server's dispatch and its read views,
  which parse, call one operation and print; enrollment, of which only the approval of coordination
  policies is modelled; what retention deletes besides decisions (old statistics, audit records, notices,
  messages, invitations, incidents, listener runs and operations), so that the properties of listener runs
  are about heartbeats alone; publications, statistics, member sign-up and the storage of wake-up
  schedules, left out for want of room; the C# and TypeScript ports. A poisoned lock (a panic in another
  task), the failure of the database itself and the time that passes between two steps are not
  modelled either; the callers of the controller's own operations are not dropped, and a wait for a
  completion channel ends when the channel is completed.
\<close>

end
